(* ===== verification/Prelude.thy ===== *)
theory Prelude
  imports Complex_Main
begin

text \<open>
  Shared vocabulary of the development.

  \<^item> JavaScript strings. A string is a \<^typ>\<open>string\<close> of code units below 256 (the
    Latin-1 repertoire). On it \<open>String.prototype\<close>'s \<open>trim\<close>, \<open>toLowerCase\<close>, \<open>indexOf\<close>,
    \<open>slice\<close>, \<open>split\<close> and \<open>Array.prototype.join\<close> are modelled exactly.
  \<^item> Programs. An \<open>async\<close> function of the service is a state-and-exception program
    \<open>'s \<Rightarrow> ('e + 'a) \<times> 's\<close>: it may throw (\<open>Inl\<close>) or return (\<open>Inr\<close>), and
    the effects it had before a throw stay, as they do in JavaScript.
  \<^item> The error values that programs throw: the domain errors of
    \<^verbatim>\<open>services/control-plane/src/domain/errors.ts\<close>, the SQLSTATE errors of Postgres and
    plain \<open>Error\<close> objects.
\<close>

named_theorems prog_simps \<open>unfolding rules of the program combinators\<close>

section \<open>JavaScript strings\<close>

type_synonym uuid = string
type_synonym millis = int
type_synonym bytes = string

definition is_js_space :: "char \<Rightarrow> bool" where
  "is_js_space c \<longleftrightarrow> (let n = (of_char c :: nat) in (9 \<le> n \<and> n \<le> 13) \<or> n = 32 \<or> n = 160)"

definition trim :: "string \<Rightarrow> string" where
  "trim s = rev (dropWhile is_js_space (rev (dropWhile is_js_space s)))"

definition lower_char :: "char \<Rightarrow> char" where
  "lower_char c =
     (let n = (of_char c :: nat)
      in if (65 \<le> n \<and> n \<le> 90) \<or> (192 \<le> n \<and> n \<le> 222 \<and> n \<noteq> 215) then char_of (n + 32) else c)"

definition toLowerCase :: "string \<Rightarrow> string" where
  "toLowerCase s = map lower_char s"

text \<open>
  Unicode normalisation form C. Every string over code units below U+0300 is in form C
  already, so on the modelled repertoire the operation returns its argument.
\<close>

definition normalize_NFC :: "string \<Rightarrow> string" where
  "normalize_NFC s = s"

text \<open>\<open>s.indexOf(p)\<close>; \<open>None\<close> stands for the result \<open>-1\<close>.\<close>

fun indexOf :: "string \<Rightarrow> string \<Rightarrow> nat option" where
  "indexOf [] p = (if p = [] then Some 0 else None)"
| "indexOf (c # cs) p =
     (if take (length p) (c # cs) = p then Some 0 else map_option Suc (indexOf cs p))"

definition includesStr :: "string \<Rightarrow> string \<Rightarrow> bool" where
  "includesStr s p \<longleftrightarrow> indexOf s p \<noteq> None"

definition startsWith :: "string \<Rightarrow> string \<Rightarrow> bool" where
  "startsWith s p \<longleftrightarrow> take (length p) s = p"

fun join :: "string \<Rightarrow> string list \<Rightarrow> string" where
  "join sep [] = []"
| "join sep [x] = x"
| "join sep (x # y # ys) = x @ sep @ join sep (y # ys)"

text \<open>Decimal notation of an integer, as \<open>String(n)\<close> writes it.\<close>

fun nat_digits :: "nat \<Rightarrow> string" where
  "nat_digits n = (if n < 10 then [char_of (48 + n)] else nat_digits (n div 10) @ [char_of (48 + n mod 10)])"

declare nat_digits.simps [simp del]

definition int_digits :: "int \<Rightarrow> string" where
  "int_digits n = (if n < 0 then CHR ''-'' # nat_digits (nat (- n)) else nat_digits (nat n))"

lemma lower_char_idem [simp]: "lower_char (lower_char c) = lower_char c"
proof -
  let ?n = "of_char c :: nat"
  show ?thesis
  proof (cases "(65 \<le> ?n \<and> ?n \<le> 90) \<or> (192 \<le> ?n \<and> ?n \<le> 222 \<and> ?n \<noteq> 215)")
    case True
    then have "of_char (char_of (?n + 32) :: char) = ?n + 32" by auto
    with True show ?thesis by (auto simp: lower_char_def Let_def)
  next
    case False
    then show ?thesis by (auto simp: lower_char_def Let_def)
  qed
qed

lemma is_js_space_lower [simp]: "is_js_space (lower_char c) = is_js_space c"
proof -
  let ?n = "of_char c :: nat"
  show ?thesis
  proof (cases "(65 \<le> ?n \<and> ?n \<le> 90) \<or> (192 \<le> ?n \<and> ?n \<le> 222 \<and> ?n \<noteq> 215)")
    case True
    then have "of_char (char_of (?n + 32) :: char) = ?n + 32" by auto
    with True show ?thesis by (auto simp: lower_char_def is_js_space_def Let_def)
  next
    case False
    then show ?thesis by (auto simp: lower_char_def Let_def)
  qed
qed

lemma toLowerCase_idem [simp]: "toLowerCase (toLowerCase s) = toLowerCase s"
  by (simp add: toLowerCase_def)

lemma dropWhile_idem [simp]: "dropWhile P (dropWhile P xs) = dropWhile P xs"
  by (induction xs) auto

lemma dropWhile_rev_dropWhile:
  "dropWhile P (rev (dropWhile P (rev (dropWhile P xs)))) = rev (dropWhile P (rev (dropWhile P xs)))"
proof (cases "dropWhile P xs")
  case Nil
  show ?thesis unfolding Nil by simp
next
  case (Cons y ys)
  then have ny: "\<not> P y" by (metis hd_dropWhile list.distinct(1) list.sel(1))
  then have "dropWhile P (rev ys @ [y]) = dropWhile P (rev ys) @ [y]"
    by (cases "\<exists>x \<in> set (rev ys). \<not> P x") (auto simp: dropWhile_append)
  with ny show ?thesis by (simp add: Cons)
qed

lemma trim_idem [simp]: "trim (trim s) = trim s"
  by (simp add: trim_def dropWhile_rev_dropWhile)

lemma dropWhile_map_lower:
  "dropWhile is_js_space (map lower_char s) = map lower_char (dropWhile is_js_space s)"
  by (simp add: dropWhile_map comp_def)

lemma trim_toLowerCase: "trim (toLowerCase s) = toLowerCase (trim s)"
  by (simp add: trim_def toLowerCase_def dropWhile_map_lower rev_map)

section \<open>Errors\<close>

text \<open>Values of type \<open>unknown\<close>: JSON documents.\<close>

datatype json =
    JNull
  | JBool bool
  | JNum rat
  | JStr string
  | JArr "json list"
  | JObj "(string \<times> json) list"

text \<open>
  One constructor per subclass of \<open>DomainError\<close>; the argument is the message. The
  constructor arguments \<open>status\<close>, \<open>code\<close> and \<open>expose\<close> of the base class are functions of
  the subclass.
\<close>

datatype domain_error =
    ValidationError string "json option"
  | UnauthorizedError string
  | ForbiddenError string
  | NotFoundError string
  | ConflictError string
  | ServiceUnavailableError string

fun err_status :: "domain_error \<Rightarrow> int" where
  "err_status (ValidationError m d) = 400"
| "err_status (UnauthorizedError m) = 401"
| "err_status (ForbiddenError m) = 403"
| "err_status (NotFoundError m) = 404"
| "err_status (ConflictError m) = 409"
| "err_status (ServiceUnavailableError m) = 503"

fun err_code :: "domain_error \<Rightarrow> string" where
  "err_code (ValidationError m d) = ''validation_error''"
| "err_code (UnauthorizedError m) = ''unauthorized''"
| "err_code (ForbiddenError m) = ''forbidden''"
| "err_code (NotFoundError m) = ''not_found''"
| "err_code (ConflictError m) = ''conflict''"
| "err_code (ServiceUnavailableError m) = ''service_unavailable''"

fun err_message :: "domain_error \<Rightarrow> string" where
  "err_message (ValidationError m d) = m"
| "err_message (UnauthorizedError m) = m"
| "err_message (ForbiddenError m) = m"
| "err_message (NotFoundError m) = m"
| "err_message (ConflictError m) = m"
| "err_message (ServiceUnavailableError m) = m"

fun err_expose :: "domain_error \<Rightarrow> bool" where
  "err_expose e = True"

fun err_details :: "domain_error \<Rightarrow> json option" where
  "err_details (ValidationError m d) = d"
| "err_details e = None"

text \<open>
  What a program can throw: a domain error, an error of the Postgres driver (SQLSTATE and the
  name of the constraint, empty when the state has none), or a plain \<open>Error\<close>.
\<close>

datatype js_error =
    DomainErr domain_error
  | PgError string string
  | PlainError string

abbreviation invalid_credentials :: js_error where
  "invalid_credentials \<equiv> DomainErr (UnauthorizedError ''invalid credentials'')"

section \<open>State-and-exception programs\<close>

type_synonym ('s, 'e, 'a) eprog = "'s \<Rightarrow> ('e + 'a) \<times> 's"

type_synonym ('s, 'a) prog = "('s, js_error, 'a) eprog"

definition ret :: "'a \<Rightarrow> ('s, 'e, 'a) eprog" where
  "ret x = (\<lambda>s. (Inr x, s))"

definition throw :: "'e \<Rightarrow> ('s, 'e, 'a) eprog" where
  "throw e = (\<lambda>s. (Inl e, s))"

definition andThen :: "('s, 'e, 'a) eprog \<Rightarrow> ('a \<Rightarrow> ('s, 'e, 'b) eprog) \<Rightarrow> ('s, 'e, 'b) eprog" where
  "andThen m f = (\<lambda>s. case m s of (Inl e, s') \<Rightarrow> (Inl e, s') | (Inr x, s') \<Rightarrow> f x s')"

text \<open>\<open>try { m } catch (err) { h(err) }\<close>: the state reached by \<open>m\<close> is kept.\<close>

definition tryCatch :: "('s, 'e, 'a) eprog \<Rightarrow> ('e \<Rightarrow> ('s, 'e, 'a) eprog) \<Rightarrow> ('s, 'e, 'a) eprog" where
  "tryCatch m h = (\<lambda>s. case m s of (Inl e, s') \<Rightarrow> h e s' | (Inr x, s') \<Rightarrow> (Inr x, s'))"

definition getS :: "('s \<Rightarrow> 'a) \<Rightarrow> ('s, 'e, 'a) eprog" where
  "getS f = (\<lambda>s. (Inr (f s), s))"

definition updS :: "('s \<Rightarrow> 's) \<Rightarrow> ('s, 'e, unit) eprog" where
  "updS f = (\<lambda>s. (Inr (), f s))"

definition liftR :: "'e + 'a \<Rightarrow> ('s, 'e, 'a) eprog" where
  "liftR r = (\<lambda>s. (r, s))"

lemma ret_apply [simp, prog_simps]: "ret x s = (Inr x, s)"
  by (simp add: ret_def)

lemma throw_apply [simp, prog_simps]: "throw e s = (Inl e, s)"
  by (simp add: throw_def)

lemma getS_apply [simp, prog_simps]: "getS f s = (Inr (f s), s)"
  by (simp add: getS_def)

lemma updS_apply [simp, prog_simps]: "updS f s = (Inr (), f s)"
  by (simp add: updS_def)

lemma liftR_apply [simp, prog_simps]: "liftR r s = (r, s)"
  by (simp add: liftR_def)

lemma andThen_Inr [prog_simps]: "m s = (Inr x, s') \<Longrightarrow> andThen m f s = f x s'"
  by (simp add: andThen_def)

lemma andThen_Inl [prog_simps]: "m s = (Inl e, s') \<Longrightarrow> andThen m f s = (Inl e, s')"
  by (simp add: andThen_def)

lemma andThen_ret [simp]: "andThen (ret x) f = f x"
  by (simp add: andThen_def fun_eq_iff)

lemma andThen_throw [simp]: "andThen (throw e) f = throw e"
  by (simp add: andThen_def fun_eq_iff)

lemma andThen_getS [simp]: "andThen (getS g) f s = f (g s) s"
  by (simp add: andThen_def)

lemma andThen_updS [simp]: "andThen (updS g) f s = f () (g s)"
  by (simp add: andThen_def)

lemma andThen_assoc: "andThen (andThen m f) g = andThen m (\<lambda>x. andThen (f x) g)"
  by (auto simp: andThen_def fun_eq_iff split: prod.splits sum.splits)

lemma tryCatch_throw [simp]: "tryCatch (throw e) h = h e"
  by (simp add: tryCatch_def fun_eq_iff)

lemma tryCatch_ret [simp]: "tryCatch (ret x) h = ret x"
  by (simp add: tryCatch_def fun_eq_iff)

lemma andThen_eq_Inr:
  "andThen m f s = (Inr y, s'') \<longleftrightarrow> (\<exists>x s'. m s = (Inr x, s') \<and> f x s' = (Inr y, s''))"
  by (auto simp: andThen_def split: prod.splits sum.splits)

lemma andThen_eq_Inl:
  "andThen m f s = (Inl e, s'') \<longleftrightarrow>
     m s = (Inl e, s'') \<or> (\<exists>x s'. m s = (Inr x, s') \<and> f x s' = (Inl e, s''))"
  by (auto simp: andThen_def split: prod.splits sum.splits)

lemma andThen_InrE:
  assumes "andThen m f s = (Inr y, s'')"
  obtains x s' where "m s = (Inr x, s')" "f x s' = (Inr y, s'')"
  using assms by (auto simp: andThen_eq_Inr)

subsection \<open>Programs that keep a relation on states\<close>

text \<open>
  \<open>keeps R m\<close>: every run of \<open>m\<close>, returning or throwing, relates its first state to its last
  by \<open>R\<close>. For a reflexive and transitive \<open>R\<close> the combinators keep it when their parts do, so
  the invariants of the services are proved by walking their programs with \<open>keeps_intros\<close>.
\<close>

definition keeps :: "('s \<Rightarrow> 's \<Rightarrow> bool) \<Rightarrow> ('s, 'a) prog \<Rightarrow> bool" where
  "keeps R m \<longleftrightarrow> (\<forall>s. R s (snd (m s)))"

named_theorems keeps_intros \<open>compositional rules for programs keeping a preorder\<close>

lemma keepsD: "keeps R m \<Longrightarrow> m s = (r, s') \<Longrightarrow> R s s'"
  unfolding keeps_def by (metis snd_conv)

lemma keepsI: "(\<And>s r s'. m s = (r, s') \<Longrightarrow> R s s') \<Longrightarrow> keeps R m"
  unfolding keeps_def by (metis prod.collapse)

lemma keeps_ret [keeps_intros]: "reflp R \<Longrightarrow> keeps R (ret x)"
  by (simp add: keeps_def reflpD)

lemma keeps_throw [keeps_intros]: "reflp R \<Longrightarrow> keeps R (throw e)"
  by (simp add: keeps_def reflpD)

lemma keeps_getS [keeps_intros]: "reflp R \<Longrightarrow> keeps R (getS f)"
  by (simp add: keeps_def reflpD)

lemma keeps_liftR [keeps_intros]: "reflp R \<Longrightarrow> keeps R (liftR r)"
  by (simp add: keeps_def reflpD)

lemma keeps_andThen [keeps_intros]:
  assumes "transp R" and m: "keeps R m" and f: "\<And>x. keeps R (f x)"
  shows "keeps R (andThen m f)"
proof (rule keepsI)
  fix s r s'
  assume run: "andThen m f s = (r, s')"
  show "R s s'"
  proof (cases "m s")
    case (Pair a t)
    with m have "R s t" by (rule keepsD)
    with run Pair show ?thesis
      by (cases a) (auto simp: andThen_def dest: keepsD [OF f] transpD [OF \<open>transp R\<close>])
  qed
qed

lemma keeps_tryCatch [keeps_intros]:
  assumes "transp R" and m: "keeps R m" and h: "\<And>e. keeps R (h e)"
  shows "keeps R (tryCatch m h)"
proof (rule keepsI)
  fix s r s'
  assume run: "tryCatch m h s = (r, s')"
  show "R s s'"
  proof (cases "m s")
    case (Pair a t)
    with m have "R s t" by (rule keepsD)
    with run Pair show ?thesis
      by (cases a) (auto simp: tryCatch_def dest: keepsD [OF h] transpD [OF \<open>transp R\<close>])
  qed
qed

lemma keeps_if [keeps_intros]:
  "keeps R m \<Longrightarrow> keeps R m' \<Longrightarrow> keeps R (if b then m else m')"
  by simp

lemma keeps_case_option [keeps_intros]:
  "keeps R m \<Longrightarrow> (\<And>x. keeps R (f x)) \<Longrightarrow> keeps R (case v of None \<Rightarrow> m | Some x \<Rightarrow> f x)"
  by (cases v) simp_all

lemma keeps_case_sum [keeps_intros]:
  "(\<And>x. keeps R (f x)) \<Longrightarrow> (\<And>x. keeps R (g x)) \<Longrightarrow> keeps R (case v of Inl x \<Rightarrow> f x | Inr x \<Rightarrow> g x)"
  by (cases v) simp_all

lemma keeps_case_prod [keeps_intros]:
  "(\<And>x y. keeps R (f x y)) \<Longrightarrow> keeps R (case v of (x, y) \<Rightarrow> f x y)"
  by (cases v) simp

lemma keeps_Let [keeps_intros]: "(\<And>x. keeps R (f x)) \<Longrightarrow> keeps R (let x = v in f x)"
  by simp

end
