(* ===== verification/Rbac.thy ===== *)
theory Rbac
  imports Prelude
begin

text \<open>
  Role-based access control: \<^verbatim>\<open>domain/roles.ts\<close>, \<^verbatim>\<open>domain/rbac.ts\<close>,
  \<^verbatim>\<open>domain/tenant-context.ts\<close> and \<^verbatim>\<open>app/authorize.ts\<close> of the control plane, and the
  display-only mirror of the matrix in \<^verbatim>\<open>packages/contracts/src/rbac.ts\<close>.
\<close>

datatype role = tenant_admin | member | platform_operator

fun role_name :: "role \<Rightarrow> string" where
  "role_name tenant_admin = ''tenant_admin''"
| "role_name member = ''member''"
| "role_name platform_operator = ''platform_operator''"

definition ROLES :: "string list" where
  "ROLES = [''tenant_admin'', ''member'', ''platform_operator'']"

text \<open>The \<open>membership_role\<close> enum: the roles a membership row can carry.\<close>

datatype membership_role = MR_tenant_admin | MR_member

fun membership_as_role :: "membership_role \<Rightarrow> role" where
  "membership_as_role MR_tenant_admin = tenant_admin"
| "membership_as_role MR_member = member"

text \<open>\<open>isRole\<close> is a type guard over unknown JSON values.\<close>

fun isRole :: "json \<Rightarrow> bool" where
  "isRole (JStr v) = (v \<in> set ROLES)"
| "isRole _ = False"

fun role_of_name :: "string \<Rightarrow> role option" where
  "role_of_name v =
     (if v = ''tenant_admin'' then Some tenant_admin
      else if v = ''member'' then Some member
      else if v = ''platform_operator'' then Some platform_operator
      else None)"

datatype operation =
    Tenant_create
  | Tenant_read
  | Tenant_update
  | Tenant_delete
  | Tenant_list
  | Tenant_provision_admin
  | User_create
  | User_read
  | User_list
  | User_update
  | User_delete
  | Apikey_create
  | Apikey_list
  | Apikey_revoke
  | Retention_read
  | Retention_update
  | Alert_create
  | Alert_read
  | Alert_list
  | Alert_update
  | Alert_delete
  | Savedquery_create
  | Savedquery_read
  | Savedquery_list
  | Savedquery_update
  | Savedquery_delete
  | Dashboard_create
  | Dashboard_read
  | Dashboard_list
  | Dashboard_update
  | Dashboard_delete
  | Invite_create
  | Invite_list
  | Invite_revoke

fun op_name :: "operation \<Rightarrow> string" where
  "op_name Tenant_create = ''tenant:create''"
| "op_name Tenant_read = ''tenant:read''"
| "op_name Tenant_update = ''tenant:update''"
| "op_name Tenant_delete = ''tenant:delete''"
| "op_name Tenant_list = ''tenant:list''"
| "op_name Tenant_provision_admin = ''tenant:provision_admin''"
| "op_name User_create = ''user:create''"
| "op_name User_read = ''user:read''"
| "op_name User_list = ''user:list''"
| "op_name User_update = ''user:update''"
| "op_name User_delete = ''user:delete''"
| "op_name Apikey_create = ''apikey:create''"
| "op_name Apikey_list = ''apikey:list''"
| "op_name Apikey_revoke = ''apikey:revoke''"
| "op_name Retention_read = ''retention:read''"
| "op_name Retention_update = ''retention:update''"
| "op_name Alert_create = ''alert:create''"
| "op_name Alert_read = ''alert:read''"
| "op_name Alert_list = ''alert:list''"
| "op_name Alert_update = ''alert:update''"
| "op_name Alert_delete = ''alert:delete''"
| "op_name Savedquery_create = ''savedquery:create''"
| "op_name Savedquery_read = ''savedquery:read''"
| "op_name Savedquery_list = ''savedquery:list''"
| "op_name Savedquery_update = ''savedquery:update''"
| "op_name Savedquery_delete = ''savedquery:delete''"
| "op_name Dashboard_create = ''dashboard:create''"
| "op_name Dashboard_read = ''dashboard:read''"
| "op_name Dashboard_list = ''dashboard:list''"
| "op_name Dashboard_update = ''dashboard:update''"
| "op_name Dashboard_delete = ''dashboard:delete''"
| "op_name Invite_create = ''invite:create''"
| "op_name Invite_list = ''invite:list''"
| "op_name Invite_revoke = ''invite:revoke''"

definition OPERATIONS :: "operation list" where
  "OPERATIONS =
     [Tenant_create, Tenant_read, Tenant_update, Tenant_delete,
      Tenant_list, Tenant_provision_admin, User_create, User_read,
      User_list, User_update, User_delete, Apikey_create,
      Apikey_list, Apikey_revoke, Retention_read, Retention_update,
      Alert_create, Alert_read, Alert_list, Alert_update,
      Alert_delete, Savedquery_create, Savedquery_read, Savedquery_list,
      Savedquery_update, Savedquery_delete, Dashboard_create, Dashboard_read,
      Dashboard_list, Dashboard_update, Dashboard_delete, Invite_create,
      Invite_list, Invite_revoke]"

text \<open>The matrix is a JavaScript object keyed by role name, with sets of operations as values.\<close>

fun MATRIX :: "string \<Rightarrow> operation set option" where
  "MATRIX r =
     (if r = ''platform_operator'' then Some
        {Tenant_create, Tenant_read, Tenant_update, Tenant_delete,
         Tenant_list, Tenant_provision_admin}
      else if r = ''tenant_admin'' then Some
        {Tenant_read, User_create, User_read, User_list,
         User_update, User_delete, Apikey_create, Apikey_list,
         Apikey_revoke, Retention_read, Retention_update, Alert_create,
         Alert_read, Alert_list, Alert_update, Alert_delete,
         Savedquery_create, Savedquery_read, Savedquery_list, Savedquery_update,
         Savedquery_delete, Dashboard_create, Dashboard_read, Dashboard_list,
         Dashboard_update, Dashboard_delete, Invite_create, Invite_list,
         Invite_revoke}
      else if r = ''member'' then Some
        {Tenant_read, Retention_read, Alert_read, Alert_list,
         Savedquery_read, Savedquery_list, Dashboard_read, Dashboard_list}
      else None)"

definition can_name :: "string \<Rightarrow> operation \<Rightarrow> bool" where
  "can_name r op = (case MATRIX r of Some ops \<Rightarrow> op \<in> ops | None \<Rightarrow> False)"

definition can :: "role \<Rightarrow> operation \<Rightarrow> bool" where
  "can r op = can_name (role_name r) op"

record TenantContext =
  ctx_tenantId :: uuid
  ctx_principalId :: uuid
  ctx_role :: role
  ctx_scopes :: "string list option"

definition forbidden_error :: "role \<Rightarrow> operation \<Rightarrow> js_error" where
  "forbidden_error r op =
     DomainErr (ForbiddenError (''role '' @ [CHR 0x27] @ role_name r @ [CHR 0x27] @ '' may not perform ''
       @ [CHR 0x27] @ op_name op @ [CHR 0x27]))"

definition assertCan :: "TenantContext \<Rightarrow> operation \<Rightarrow> ('s, unit) prog" where
  "assertCan ctx op =
     (if \<not> can (ctx_role ctx) op then throw (forbidden_error (ctx_role ctx) op) else ret ())"

text \<open>The mirror used by the web UI.\<close>

definition UI_OPERATIONS :: "operation list" where
  "UI_OPERATIONS =
     [Tenant_read, Tenant_update, User_create, User_read,
      User_list, User_update, User_delete, Apikey_create,
      Apikey_list, Apikey_revoke, Retention_read, Retention_update,
      Alert_create, Alert_read, Alert_list, Alert_update,
      Alert_delete, Invite_create, Invite_list, Invite_revoke,
      Dashboard_create, Dashboard_read, Dashboard_list, Dashboard_update,
      Dashboard_delete]"

fun UI_MATRIX :: "string \<Rightarrow> operation set option" where
  "UI_MATRIX r =
     (if r = ''platform_operator'' then Some {Tenant_read, Tenant_update}
      else if r = ''tenant_admin'' then Some
        {Tenant_read, User_create, User_read, User_list,
         User_update, User_delete, Apikey_create, Apikey_list,
         Apikey_revoke, Retention_read, Retention_update, Alert_create,
         Alert_read, Alert_list, Alert_update, Alert_delete,
         Invite_create, Invite_list, Invite_revoke, Dashboard_create,
         Dashboard_read, Dashboard_list, Dashboard_update, Dashboard_delete}
      else if r = ''member'' then Some
        {Tenant_read, Retention_read, Alert_read, Alert_list,
         Dashboard_read, Dashboard_list}
      else None)"

definition ui_can :: "role \<Rightarrow> operation \<Rightarrow> bool" where
  "ui_can r op = (case UI_MATRIX (role_name r) of Some ops \<Rightarrow> op \<in> ops | None \<Rightarrow> False)"

section \<open>Facts\<close>

lemma role_of_name_inverse [simp]: "role_of_name (role_name r) = Some r"
  by (cases r) simp_all

lemma role_of_name_eq_Some [simp]: "role_of_name v = Some r \<longleftrightarrow> v = role_name r"
  by (cases r) auto

lemma isRole_iff: "isRole (JStr v) \<longleftrightarrow> (\<exists>r. v = role_name r)"
proof
  assume "isRole (JStr v)"
  then show "\<exists>r. v = role_name r"
    by (auto simp: ROLES_def intro: exI [of _ tenant_admin] exI [of _ member] exI [of _ platform_operator])
next
  assume "\<exists>r. v = role_name r"
  then obtain r where "v = role_name r" ..
  then show "isRole (JStr v)" by (cases r) (simp_all add: ROLES_def)
qed

lemma can_platform_operator:
  "can platform_operator op \<longleftrightarrow>
     op \<in> {Tenant_create, Tenant_read, Tenant_update, Tenant_delete, Tenant_list, Tenant_provision_admin}"
  by (simp add: can_def can_name_def)

lemma can_member:
  "can member op \<longleftrightarrow>
     op \<in> {Tenant_read, Retention_read, Alert_read, Alert_list, Savedquery_read, Savedquery_list,
            Dashboard_read, Dashboard_list}"
  by (simp add: can_def can_name_def)

lemma can_tenant_admin:
  "can tenant_admin op \<longleftrightarrow>
     op \<notin> {Tenant_create, Tenant_update, Tenant_delete, Tenant_list, Tenant_provision_admin}"
  by (cases op) (simp_all add: can_def can_name_def)

lemmas can_iffs = can_platform_operator can_member can_tenant_admin

lemma OPERATIONS_complete: "op \<in> set OPERATIONS"
  by (cases op) (simp_all add: OPERATIONS_def)

lemma assertCan_allowed [simp]: "can (ctx_role ctx) op \<Longrightarrow> assertCan ctx op = ret ()"
  by (simp add: assertCan_def)

lemma assertCan_denied [simp]:
  "\<not> can (ctx_role ctx) op \<Longrightarrow> assertCan ctx op = throw (forbidden_error (ctx_role ctx) op)"
  by (simp add: assertCan_def)

lemma keeps_assertCan [keeps_intros]: "reflp R \<Longrightarrow> keeps R (assertCan ctx op)"
  by (simp add: assertCan_def keeps_ret keeps_throw)

end
