(* ===== verification/Credentials.thy ===== *)
theory Credentials
  imports Prelude
begin

text \<open>
  The three wire credentials of the control plane (API keys, refresh tokens, invite tokens),
  the splitter their parsers share, digest helpers and e-mail normalisation:
  \<^verbatim>\<open>domain/split.ts\<close>, \<^verbatim>\<open>domain/api-key.ts\<close>, \<^verbatim>\<open>domain/refresh-token.ts\<close>,
  \<^verbatim>\<open>domain/invite.ts\<close>, \<^verbatim>\<open>domain/secret-hash.ts\<close>, \<^verbatim>\<open>domain/pii-log.ts\<close>,
  \<^verbatim>\<open>domain/email.ts\<close>, and the slug extraction of \<^verbatim>\<open>packages/contracts/src/invite.ts\<close>.

  SHA-256 is code of the platform: it is the argument \<open>sha256\<close>.
\<close>

section \<open>splitN\<close>

text \<open>The loop runs while fewer than \<open>n - 1\<close> parts are out; the counter is what is left of that.\<close>

fun splitN_loop :: "nat \<Rightarrow> string \<Rightarrow> string \<Rightarrow> string list" where
  "splitN_loop 0 sep rest = [rest]"
| "splitN_loop (Suc k) sep rest =
     (case indexOf rest sep of
        None \<Rightarrow> [rest]
      | Some idx \<Rightarrow> take idx rest # splitN_loop k sep (drop (idx + length sep) rest))"

definition splitN :: "string \<Rightarrow> string \<Rightarrow> int \<Rightarrow> string list" where
  "splitN s sep n = (if n \<le> 0 then [] else splitN_loop (nat (n - 1)) sep s)"

section \<open>Digests\<close>

definition constantTimeEqual :: "bytes \<Rightarrow> bytes \<Rightarrow> bool" where
  "constantTimeEqual a b \<longleftrightarrow> length a = length b \<and> a = b"

fun hex_digit :: "nat \<Rightarrow> char" where
  "hex_digit n = (if n < 10 then char_of (48 + n) else char_of (87 + n))"

fun hex :: "bytes \<Rightarrow> string" where
  "hex [] = []"
| "hex (b # bs) = hex_digit (of_char b div 16) # hex_digit (of_char b mod 16) # hex bs"

definition piiHash :: "(string \<Rightarrow> bytes) \<Rightarrow> string \<Rightarrow> string" where
  "piiHash sha256 value = take 8 (hex (sha256 value))"

section \<open>E-mail normalisation\<close>

definition normalizeEmail :: "string \<Rightarrow> string" where
  "normalizeEmail raw = toLowerCase (trim (normalize_NFC raw))"

section \<open>API keys\<close>

definition KEY_PREFIX :: string where "KEY_PREFIX = ''lgk''"
definition KEY_SEPARATOR :: string where "KEY_SEPARATOR = ''_''"
definition KEY_ID_BYTES :: nat where "KEY_ID_BYTES = 16"
definition SECRET_BYTES :: nat where "SECRET_BYTES = 32"

record KeyMaterial =
  km_keyId :: string
  km_secret :: string

record MintedApiKey =
  mk_keyId :: string
  mk_secret :: string
  mk_plaintext :: string
  mk_keyHash :: bytes

record ParsedApiKey =
  pk_publicId :: string
  pk_keyId :: string
  pk_secret :: string

definition hashSecret :: "(string \<Rightarrow> bytes) \<Rightarrow> string \<Rightarrow> bytes" where
  "hashSecret sha256 secret = sha256 secret"

definition assemblePlaintext :: "string \<Rightarrow> KeyMaterial \<Rightarrow> string" where
  "assemblePlaintext publicId material =
     join KEY_SEPARATOR [KEY_PREFIX, publicId, km_keyId material, km_secret material]"

definition mintApiKey :: "(string \<Rightarrow> bytes) \<Rightarrow> string \<Rightarrow> KeyMaterial \<Rightarrow> MintedApiKey" where
  "mintApiKey sha256 publicId material =
     \<lparr> mk_keyId = km_keyId material,
       mk_secret = km_secret material,
       mk_plaintext = assemblePlaintext publicId material,
       mk_keyHash = hashSecret sha256 (km_secret material) \<rparr>"

definition parseApiKey :: "string \<Rightarrow> js_error + ParsedApiKey" where
  "parseApiKey raw =
     (case splitN raw KEY_SEPARATOR 4 of
        [prefix, publicId, keyId, secret] \<Rightarrow>
          (if prefix \<noteq> KEY_PREFIX \<or> publicId = [] \<or> keyId = [] \<or> secret = []
           then Inl (DomainErr (ValidationError ''malformed api key'' None))
           else Inr \<lparr> pk_publicId = publicId, pk_keyId = keyId, pk_secret = secret \<rparr>)
      | _ \<Rightarrow> Inl (DomainErr (ValidationError ''malformed api key'' None)))"

section \<open>Refresh tokens\<close>

definition REFRESH_PREFIX :: string where "REFRESH_PREFIX = ''lgr''"
definition REFRESH_SEPARATOR :: string where "REFRESH_SEPARATOR = ''_''"
definition REFRESH_SECRET_BYTES :: nat where "REFRESH_SECRET_BYTES = 32"

record ParsedRefreshToken =
  pr_tenantId :: string
  pr_tokenId :: string
  pr_secret :: string

definition assembleRefreshToken :: "string \<Rightarrow> string \<Rightarrow> string \<Rightarrow> string" where
  "assembleRefreshToken tenantId tokenId secret =
     join REFRESH_SEPARATOR [REFRESH_PREFIX, tenantId, tokenId, secret]"

definition parseRefreshToken :: "string \<Rightarrow> js_error + ParsedRefreshToken" where
  "parseRefreshToken raw =
     (case splitN raw REFRESH_SEPARATOR 4 of
        [prefix, tenantId, tokenId, secret] \<Rightarrow>
          (if prefix \<noteq> REFRESH_PREFIX \<or> tenantId = [] \<or> tokenId = [] \<or> secret = []
           then Inl (DomainErr (ValidationError ''malformed refresh token'' None))
           else Inr \<lparr> pr_tenantId = tenantId, pr_tokenId = tokenId, pr_secret = secret \<rparr>)
      | _ \<Rightarrow> Inl (DomainErr (ValidationError ''malformed refresh token'' None)))"

section \<open>Invite tokens\<close>

definition INVITE_PREFIX :: string where "INVITE_PREFIX = ''lginv''"
definition INVITE_SEPARATOR :: string where "INVITE_SEPARATOR = ''_''"
definition INVITE_SECRET_BYTES :: nat where "INVITE_SECRET_BYTES = 32"

record InviteToken =
  it_publicId :: string
  it_secret :: string
  it_plaintext :: string

record ParsedInviteToken =
  pi_publicId :: string
  pi_secret :: string

definition hashInviteSecret :: "(string \<Rightarrow> bytes) \<Rightarrow> string \<Rightarrow> bytes" where
  "hashInviteSecret sha256 secret = sha256 secret"

definition assembleInviteToken :: "string \<Rightarrow> string \<Rightarrow> string" where
  "assembleInviteToken publicId secret = join INVITE_SEPARATOR [INVITE_PREFIX, publicId, secret]"

definition parseInviteToken :: "string \<Rightarrow> js_error + ParsedInviteToken" where
  "parseInviteToken raw =
     (case splitN raw INVITE_SEPARATOR 3 of
        [prefix, publicId, secret] \<Rightarrow>
          (if prefix \<noteq> INVITE_PREFIX \<or> publicId = [] \<or> secret = []
           then Inl (DomainErr (ValidationError ''malformed invite token'' None))
           else Inr \<lparr> pi_publicId = publicId, pi_secret = secret \<rparr>)
      | _ \<Rightarrow> Inl (DomainErr (ValidationError ''malformed invite token'' None)))"

definition mintInviteToken :: "string \<Rightarrow> string \<Rightarrow> InviteToken" where
  "mintInviteToken publicId secret =
     \<lparr> it_publicId = publicId, it_secret = secret, it_plaintext = assembleInviteToken publicId secret \<rparr>"

text \<open>
  The tenant slug shape of the contracts package,
  \<^verbatim>\<open>/^[a-z0-9][a-z0-9-]{1,38}[a-z0-9]$/\<close>, and the slug extraction of the web front end.
\<close>

definition slug_alnum :: "char \<Rightarrow> bool" where
  "slug_alnum c \<longleftrightarrow> (let n = (of_char c :: nat) in (97 \<le> n \<and> n \<le> 122) \<or> (48 \<le> n \<and> n \<le> 57))"

definition tenantPublicIdSchema :: "string \<Rightarrow> bool" where
  "tenantPublicIdSchema s \<longleftrightarrow>
     3 \<le> length s \<and> length s \<le> 40 \<and> slug_alnum (hd s) \<and> slug_alnum (last s)
     \<and> list_all (\<lambda>c. slug_alnum c \<or> c = CHR ''-'') s"

definition INVITE_TOKEN_PREFIX :: string where "INVITE_TOKEN_PREFIX = ''lginv_''"

definition parseInviteTenantSlug :: "string \<Rightarrow> string option" where
  "parseInviteTenantSlug token =
     (if \<not> startsWith token INVITE_TOKEN_PREFIX then None
      else let rest = drop (length INVITE_TOKEN_PREFIX) token
           in case indexOf rest ''_'' of
                None \<Rightarrow> None
              | Some sepIdx \<Rightarrow>
                  if sepIdx = 0 \<or> sepIdx = length rest - 1 then None
                  else let candidate = take sepIdx rest
                       in if tenantPublicIdSchema candidate then Some candidate else None)"

section \<open>Facts about the splitter\<close>

lemma indexOf_SomeD: "indexOf s p = Some i \<Longrightarrow> s = take i s @ p @ drop (i + length p) s"
proof (induction s p arbitrary: i rule: indexOf.induct)
  case (1 p)
  then show ?case by (simp split: if_splits)
next
  case (2 c cs p)
  show ?case
  proof (cases "take (length p) (c # cs) = p")
    case True
    with 2(2) have i: "i = 0" by simp
    have "c # cs = take (length p) (c # cs) @ drop (length p) (c # cs)" by (rule append_take_drop_id [symmetric])
    with i True show ?thesis by simp
  next
    case False
    with 2(2) obtain j where j: "indexOf cs p = Some j" and i: "i = Suc j" by (auto split: if_splits)
    from 2(1) [OF False j] i show ?thesis by simp
  qed
qed

lemma indexOf_char_None [simp]: "indexOf s [c] = None \<longleftrightarrow> c \<notin> set s"
  by (induction s) auto

lemma indexOf_char_append [simp]: "c \<notin> set p \<Longrightarrow> indexOf (p @ c # r) [c] = Some (length p)"
  by (induction p) auto

lemma indexOf_char_before: "indexOf s [c] = Some i \<Longrightarrow> c \<notin> set (take i s)"
  by (induction s arbitrary: i) (auto split: if_splits)

lemma indexOf_char_SomeE:
  assumes "indexOf s [c] = Some i"
  obtains p r where "s = p @ c # r" "c \<notin> set p" "i = length p"
proof
  show "s = take i s @ c # drop (Suc i) s" using indexOf_SomeD [OF assms] by simp
  show "c \<notin> set (take i s)" using assms by (rule indexOf_char_before)
  have "i < length s"
    using indexOf_SomeD [OF assms] by (metis append_take_drop_id drop_eq_Nil not_le same_append_eq append_Nil list.distinct(1) append_Cons)
  then show "i = length (take i s)" by simp
qed

lemma splitN_loop_ne [simp]: "splitN_loop k sep s \<noteq> []"
  by (cases k) (simp_all split: option.split)

lemma join_Cons_ne: "xs \<noteq> [] \<Longrightarrow> join sep (x # xs) = x @ sep @ join sep xs"
  by (cases xs) simp_all

lemma join_splitN_loop: "join sep (splitN_loop k sep s) = s"
proof (induction k arbitrary: s)
  case 0
  then show ?case by simp
next
  case (Suc k)
  then show ?case
    by (auto simp: join_Cons_ne split: option.split dest: indexOf_SomeD [symmetric])
qed

lemma splitN_loop_length: "length (splitN_loop k sep s) \<le> Suc k"
  by (induction k arbitrary: s) (auto split: option.split)

lemma splitN_loop_step [simp]:
  "c \<notin> set p \<Longrightarrow> splitN_loop (Suc k) [c] (p @ c # r) = p # splitN_loop k [c] r"
  by simp

lemma splitN_loop_parts: "x \<in> set (butlast (splitN_loop k [c] s)) \<Longrightarrow> c \<notin> set x"
proof (induction k arbitrary: s)
  case 0
  then show ?case by simp
next
  case (Suc k)
  show ?case
  proof (cases "indexOf s [c]")
    case None
    with Suc.prems show ?thesis by simp
  next
    case (Some i)
    with Suc show ?thesis by (auto dest: indexOf_char_before)
  qed
qed

lemma splitN_3_iff:
  "splitN s [c] 3 = [x, y, z] \<longleftrightarrow> s = x @ c # y @ c # z \<and> c \<notin> set x \<and> c \<notin> set y"
proof
  assume "splitN s [c] 3 = [x, y, z]"
  then have l: "splitN_loop 2 [c] s = [x, y, z]" by (simp add: splitN_def)
  show "s = x @ c # y @ c # z \<and> c \<notin> set x \<and> c \<notin> set y"
    using join_splitN_loop [of "[c]" 2 s] splitN_loop_parts [of _ 2 c s] unfolding l by simp
next
  assume "s = x @ c # y @ c # z \<and> c \<notin> set x \<and> c \<notin> set y"
  then show "splitN s [c] 3 = [x, y, z]" by (simp add: splitN_def numeral_2_eq_2 del: splitN_loop.simps(2))
qed

lemma splitN_4_iff:
  "splitN s [c] 4 = [w, x, y, z] \<longleftrightarrow>
     s = w @ c # x @ c # y @ c # z \<and> c \<notin> set w \<and> c \<notin> set x \<and> c \<notin> set y"
proof
  assume "splitN s [c] 4 = [w, x, y, z]"
  then have l: "splitN_loop 3 [c] s = [w, x, y, z]" by (simp add: splitN_def)
  show "s = w @ c # x @ c # y @ c # z \<and> c \<notin> set w \<and> c \<notin> set x \<and> c \<notin> set y"
    using join_splitN_loop [of "[c]" 3 s] splitN_loop_parts [of _ 3 c s] unfolding l by simp
next
  assume "s = w @ c # x @ c # y @ c # z \<and> c \<notin> set w \<and> c \<notin> set x \<and> c \<notin> set y"
  then show "splitN s [c] 4 = [w, x, y, z]"
    by (simp add: splitN_def numeral_3_eq_3 del: splitN_loop.simps(2))
qed

section \<open>The credential-format interface\<close>

text \<open>
  A wire format is a printer and a parser that are inverse to each other on well-formed
  values; well-formedness is what the parser guarantees of its results.
\<close>

locale credential_format =
  fixes assemble :: "'p \<Rightarrow> string"
    and parse :: "string \<Rightarrow> js_error + 'p"
    and wf :: "'p \<Rightarrow> bool"
  assumes parse_assemble: "wf p \<Longrightarrow> parse (assemble p) = Inr p"
    and assemble_parse: "parse raw = Inr p \<Longrightarrow> assemble p = raw"
    and parse_wf: "parse raw = Inr p \<Longrightarrow> wf p"
begin

lemma parse_iff: "parse raw = Inr p \<longleftrightarrow> wf p \<and> raw = assemble p"
  using parse_assemble assemble_parse parse_wf by blast

lemma assemble_inj: "wf p \<Longrightarrow> wf q \<Longrightarrow> assemble p = assemble q \<Longrightarrow> p = q"
  using parse_assemble by (metis Inr_inject)

lemma parse_inj: "parse raw = Inr p \<Longrightarrow> parse raw' = Inr p \<Longrightarrow> raw = raw'"
  using assemble_parse by blast

end

definition api_key_wf :: "ParsedApiKey \<Rightarrow> bool" where
  "api_key_wf k \<longleftrightarrow> pk_publicId k \<noteq> [] \<and> CHR ''_'' \<notin> set (pk_publicId k)
     \<and> pk_keyId k \<noteq> [] \<and> CHR ''_'' \<notin> set (pk_keyId k) \<and> pk_secret k \<noteq> []"

definition print_api_key :: "ParsedApiKey \<Rightarrow> string" where
  "print_api_key k = assemblePlaintext (pk_publicId k) \<lparr> km_keyId = pk_keyId k, km_secret = pk_secret k \<rparr>"

definition refresh_token_wf :: "ParsedRefreshToken \<Rightarrow> bool" where
  "refresh_token_wf t \<longleftrightarrow> pr_tenantId t \<noteq> [] \<and> CHR ''_'' \<notin> set (pr_tenantId t)
     \<and> pr_tokenId t \<noteq> [] \<and> CHR ''_'' \<notin> set (pr_tokenId t) \<and> pr_secret t \<noteq> []"

definition print_refresh_token :: "ParsedRefreshToken \<Rightarrow> string" where
  "print_refresh_token t = assembleRefreshToken (pr_tenantId t) (pr_tokenId t) (pr_secret t)"

definition invite_token_wf :: "ParsedInviteToken \<Rightarrow> bool" where
  "invite_token_wf t \<longleftrightarrow>
     pi_publicId t \<noteq> [] \<and> CHR ''_'' \<notin> set (pi_publicId t) \<and> pi_secret t \<noteq> []"

definition print_invite_token :: "ParsedInviteToken \<Rightarrow> string" where
  "print_invite_token t = assembleInviteToken (pi_publicId t) (pi_secret t)"

lemmas credential_consts =
  KEY_PREFIX_def KEY_SEPARATOR_def REFRESH_PREFIX_def REFRESH_SEPARATOR_def
  INVITE_PREFIX_def INVITE_SEPARATOR_def

lemma parseApiKey_eq_Inr:
  "parseApiKey raw = Inr k \<longleftrightarrow> api_key_wf k \<and> raw = print_api_key k"
proof
  assume "parseApiKey raw = Inr k"
  then show "api_key_wf k \<and> raw = print_api_key k"
    by (auto simp: parseApiKey_def credential_consts api_key_wf_def print_api_key_def
        assemblePlaintext_def splitN_4_iff split: list.splits if_splits)
next
  assume "api_key_wf k \<and> raw = print_api_key k"
  then have "splitN raw KEY_SEPARATOR 4 = [KEY_PREFIX, pk_publicId k, pk_keyId k, pk_secret k]"
    by (simp add: credential_consts splitN_4_iff api_key_wf_def print_api_key_def assemblePlaintext_def)
  with \<open>api_key_wf k \<and> raw = print_api_key k\<close> show "parseApiKey raw = Inr k"
    by (simp add: parseApiKey_def api_key_wf_def)
qed

lemma parseRefreshToken_eq_Inr:
  "parseRefreshToken raw = Inr t \<longleftrightarrow> refresh_token_wf t \<and> raw = print_refresh_token t"
proof
  assume "parseRefreshToken raw = Inr t"
  then show "refresh_token_wf t \<and> raw = print_refresh_token t"
    by (auto simp: parseRefreshToken_def credential_consts refresh_token_wf_def print_refresh_token_def
        assembleRefreshToken_def splitN_4_iff split: list.splits if_splits)
next
  assume "refresh_token_wf t \<and> raw = print_refresh_token t"
  then have "splitN raw REFRESH_SEPARATOR 4 = [REFRESH_PREFIX, pr_tenantId t, pr_tokenId t, pr_secret t]"
    by (simp add: credential_consts splitN_4_iff refresh_token_wf_def print_refresh_token_def assembleRefreshToken_def)
  with \<open>refresh_token_wf t \<and> raw = print_refresh_token t\<close> show "parseRefreshToken raw = Inr t"
    by (simp add: parseRefreshToken_def refresh_token_wf_def)
qed

lemma parseInviteToken_eq_Inr:
  "parseInviteToken raw = Inr t \<longleftrightarrow> invite_token_wf t \<and> raw = print_invite_token t"
proof
  assume "parseInviteToken raw = Inr t"
  then show "invite_token_wf t \<and> raw = print_invite_token t"
    by (auto simp: parseInviteToken_def credential_consts invite_token_wf_def print_invite_token_def
        assembleInviteToken_def splitN_3_iff split: list.splits if_splits)
next
  assume "invite_token_wf t \<and> raw = print_invite_token t"
  then have "splitN raw INVITE_SEPARATOR 3 = [INVITE_PREFIX, pi_publicId t, pi_secret t]"
    by (simp add: credential_consts splitN_3_iff invite_token_wf_def print_invite_token_def assembleInviteToken_def)
  with \<open>invite_token_wf t \<and> raw = print_invite_token t\<close> show "parseInviteToken raw = Inr t"
    by (simp add: parseInviteToken_def invite_token_wf_def)
qed

interpretation api_key: credential_format print_api_key parseApiKey api_key_wf
  by unfold_locales (auto simp: parseApiKey_eq_Inr)

interpretation refresh_token: credential_format print_refresh_token parseRefreshToken refresh_token_wf
  by unfold_locales (auto simp: parseRefreshToken_eq_Inr)

interpretation invite_token: credential_format print_invite_token parseInviteToken invite_token_wf
  by unfold_locales (auto simp: parseInviteToken_eq_Inr)

text \<open>What a parser throws is always the validation error, never anything else.\<close>

lemma parseRefreshToken_Inl:
  "parseRefreshToken raw = Inl e \<Longrightarrow> e = DomainErr (ValidationError ''malformed refresh token'' None)"
  by (auto simp: parseRefreshToken_def split: list.splits if_splits)

lemma parseInviteToken_Inl:
  "parseInviteToken raw = Inl e \<Longrightarrow> e = DomainErr (ValidationError ''malformed invite token'' None)"
  by (auto simp: parseInviteToken_def split: list.splits if_splits)

lemma constantTimeEqual_iff [simp]: "constantTimeEqual a b \<longleftrightarrow> a = b"
  by (auto simp: constantTimeEqual_def)

lemma normalizeEmail_idem [simp]: "normalizeEmail (normalizeEmail e) = normalizeEmail e"
  by (simp add: normalizeEmail_def normalize_NFC_def trim_toLowerCase)

lemma slug_no_separator: "tenantPublicIdSchema s \<Longrightarrow> CHR ''_'' \<notin> set s \<and> s \<noteq> []"
  by (auto simp: tenantPublicIdSchema_def list_all_iff slug_alnum_def Let_def)

end
