(* ===== verification/Schema.thy ===== *)
theory Schema
  imports Prelude Rbac Credentials
begin

text \<open>
  The relational store behind the control plane, as the repositories of
  \<^verbatim>\<open>services/control-plane/src/adapters/postgres\<close> see it: the rows of the migrations, the
  unique, check and foreign-key constraints, row-level security and the tenant transaction of
  \<^verbatim>\<open>tenant-tx.ts\<close>.

  \<^item> A table is a list of row records, oldest first. The armed tenant of a transaction is a
    \<^typ>\<open>uuid option\<close>: \<open>None\<close> is the unset context, under which row-level security shows no
    row and admits no row.
  \<^item> A write computes the new table and is checked against the table's constraints in the order
    Postgres reports them: check constraints, unique indexes, foreign keys.
  \<^item> The input function of the type \<open>uuid\<close> is code of Postgres: it is the argument
    \<open>uuid_in\<close>, which maps an accepted text to the stored value and is undefined where the server
    raises SQLSTATE 22P02.
  \<^item> The table of alert notifications, the outbox the alert evaluator alone reads and writes, is left
    out; its rows go with their rule and their tenant.
  \<^item> Every transaction is one atomic step; ids that the server draws with
    \<open>gen_random_uuid()\<close> and the instant of \<open>now()\<close> are arguments.
\<close>

section \<open>Rows\<close>

datatype tenant_status = TS_active | TS_suspended | TS_deleted
datatype alert_comparator = gt | gte | lt | lte | eq
datatype alert_state = AS_ok | AS_firing | AS_no_data
datatype oauth_provider = google

record tenant_row =
  tn_id :: uuid
  tn_public_id :: string
  tn_name :: string
  tn_status :: tenant_status
  tn_created_at :: millis
  tn_updated_at :: millis

record user_row =
  us_id :: uuid
  us_tenant_id :: uuid
  us_email :: string
  us_password_hash :: string
  us_display_name :: "string option"
  us_status :: string
  us_is_platform_operator :: bool
  us_created_at :: millis
  us_updated_at :: millis

record membership_row =
  mb_tenant_id :: uuid
  mb_user_id :: uuid
  mb_role :: membership_role
  mb_created_at :: millis
  mb_updated_at :: millis

record api_key_row =
  ak_id :: string
  ak_tenant_id :: uuid
  ak_name :: string
  ak_key_hash :: bytes
  ak_scopes :: "string list"
  ak_created_by :: "uuid option"
  ak_created_at :: millis
  ak_last_used_at :: "millis option"
  ak_expires_at :: "millis option"
  ak_revoked_at :: "millis option"

record retention_row =
  rp_tenant_id :: uuid
  rp_hot_days :: int
  rp_cold_days :: int
  rp_updated_by :: "uuid option"
  rp_created_at :: millis
  rp_updated_at :: millis

text \<open>\<open>SavedQueryFilters\<close> and \<open>RuleQuery\<close>: objects whose fields are all optional.\<close>

record SavedQueryFilters =
  sf_service :: "string option"
  sf_level :: "string option"
  sf_labels :: "(string \<times> string) list option"

record RuleQuery =
  q_text :: "string option"
  q_service :: "string option"
  q_level :: "string option"
  q_labels :: "(string \<times> string) list option"

datatype NotifyChannel = webhook string | email_channel string

datatype panel_type = timeseries | stat | logs

record Panel =
  pn_id :: string
  pn_type :: panel_type
  pn_title :: string
  pn_savedQueryId :: string
  pn_viz :: "(string \<times> json) list"
  pn_grid :: "int \<times> int \<times> int \<times> int"

type_synonym DashboardLayout = "Panel list"

record saved_query_row =
  sq_id :: uuid
  sq_tenant_id :: uuid
  sq_name :: string
  sq_description :: "string option"
  sq_query_text :: string
  sq_filters :: SavedQueryFilters
  sq_time_range :: "(string \<times> json) list"
  sq_created_by :: "uuid option"
  sq_created_at :: millis
  sq_updated_at :: millis

record dashboard_row =
  da_id :: uuid
  da_tenant_id :: uuid
  da_name :: string
  da_description :: "string option"
  da_layout :: DashboardLayout
  da_created_by :: "uuid option"
  da_created_at :: millis
  da_updated_at :: millis

record alert_rule_row =
  ar_id :: uuid
  ar_tenant_id :: uuid
  ar_name :: string
  ar_saved_query_id :: "uuid option"
  ar_query :: RuleQuery
  ar_comparator :: alert_comparator
  ar_threshold :: rat
  ar_window_seconds :: int
  ar_severity :: string
  ar_enabled :: bool
  ar_notify_channels :: "NotifyChannel list"
  ar_state :: alert_state
  ar_last_evaluated_at :: "millis option"
  ar_last_triggered_at :: "millis option"
  ar_created_by :: "uuid option"
  ar_created_at :: millis
  ar_updated_at :: millis

record refresh_token_row =
  rt_id :: uuid
  rt_tenant_id :: uuid
  rt_user_id :: uuid
  rt_family_id :: uuid
  rt_token_hash :: bytes
  rt_issued_at :: millis
  rt_expires_at :: millis
  rt_rotated_at :: "millis option"
  rt_revoked_at :: "millis option"

record oauth_identity_row =
  oi_id :: uuid
  oi_tenant_id :: uuid
  oi_user_id :: uuid
  oi_provider :: oauth_provider
  oi_provider_sub :: string
  oi_email :: string
  oi_last_login_at :: "millis option"
  oi_created_at :: millis
  oi_updated_at :: millis

record invite_row =
  iv_id :: uuid
  iv_tenant_id :: uuid
  iv_email :: string
  iv_role :: string
  iv_token_hash :: bytes
  iv_status :: string
  iv_expires_at :: millis
  iv_created_by :: "uuid option"
  iv_consumed_at :: "millis option"
  iv_created_at :: millis
  iv_updated_at :: millis

text \<open>
  The hot store of log events, which the ingest pipeline writes and the query service reads. The
  control plane never touches it, and its tenant column has no foreign key.
\<close>

record log_event_row =
  le_tenant_id :: uuid
  le_ts :: millis
  le_id :: uuid
  le_service :: string
  le_level :: string
  le_message :: string
  le_labels :: json
  le_trace_id :: "string option"
  le_span_id :: "string option"
  le_raw :: json

record db =
  db_tenants :: "tenant_row list"
  db_users :: "user_row list"
  db_memberships :: "membership_row list"
  db_api_keys :: "api_key_row list"
  db_retention :: "retention_row list"
  db_saved_queries :: "saved_query_row list"
  db_dashboards :: "dashboard_row list"
  db_alert_rules :: "alert_rule_row list"
  db_refresh_tokens :: "refresh_token_row list"
  db_oauth_identities :: "oauth_identity_row list"
  db_invites :: "invite_row list"
  db_log_events :: "log_event_row list"

definition empty_db :: db where
  "empty_db =
     \<lparr> db_tenants = [], db_users = [], db_memberships = [], db_api_keys = [], db_retention = [],
       db_saved_queries = [], db_dashboards = [], db_alert_rules = [], db_refresh_tokens = [],
       db_oauth_identities = [], db_invites = [], db_log_events = [] \<rparr>"

section \<open>Constraints\<close>

type_synonym 'r checks = "(string \<times> ('r \<Rightarrow> bool)) list"

text \<open>A unique index maps a row to its key; \<open>None\<close> is a row outside a partial index.\<close>

type_synonym 'r indexes = "(string \<times> ('r \<Rightarrow> string list option)) list"

definition write_rows :: "'r checks \<Rightarrow> 'r indexes \<Rightarrow> 'r list \<Rightarrow> js_error + 'r list" where
  "write_rows checks indexes rows =
     (case find (\<lambda>c. \<not> list_all (snd c) rows) checks of
        Some c \<Rightarrow> Inl (PgError ''23514'' (fst c))
      | None \<Rightarrow>
          (case find (\<lambda>i. \<not> distinct (List.map_filter (snd i) rows)) indexes of
             Some i \<Rightarrow> Inl (PgError ''23505'' (fst i))
           | None \<Rightarrow> Inr rows))"

definition tenants_checks :: "tenant_row checks" where
  "tenants_checks = [(''tenants_public_id_format'', \<lambda>r. tenantPublicIdSchema (tn_public_id r))]"

definition tenants_indexes :: "tenant_row indexes" where
  "tenants_indexes =
     [(''tenants_pkey'', \<lambda>r. Some [tn_id r]), (''tenants_public_id_key'', \<lambda>r. Some [tn_public_id r])]"

definition users_indexes :: "user_row indexes" where
  "users_indexes =
     [(''users_pkey'', \<lambda>r. Some [us_id r]),
      (''users_tenant_id_email_key'', \<lambda>r. Some [us_tenant_id r, us_email r]),
      (''users_tenant_id_id_key'', \<lambda>r. Some [us_tenant_id r, us_id r])]"

definition memberships_indexes :: "membership_row indexes" where
  "memberships_indexes = [(''memberships_pkey'', \<lambda>r. Some [mb_tenant_id r, mb_user_id r])]"

definition api_keys_checks :: "api_key_row checks" where
  "api_keys_checks = [(''api_keys_hash_len'', \<lambda>r. length (ak_key_hash r) = 32)]"

definition api_keys_indexes :: "api_key_row indexes" where
  "api_keys_indexes = [(''api_keys_pkey'', \<lambda>r. Some [ak_id r])]"

definition retention_checks :: "retention_row checks" where
  "retention_checks =
     [(''retention_policies_check'', \<lambda>r. rp_hot_days r \<le> rp_cold_days r),
      (''retention_policies_hot_days_check'', \<lambda>r. 1 \<le> rp_hot_days r \<and> rp_hot_days r \<le> 90)]"

definition retention_indexes :: "retention_row indexes" where
  "retention_indexes = [(''retention_policies_pkey'', \<lambda>r. Some [rp_tenant_id r])]"

definition saved_queries_indexes :: "saved_query_row indexes" where
  "saved_queries_indexes =
     [(''saved_queries_pkey'', \<lambda>r. Some [sq_id r]),
      (''saved_queries_tenant_id_name_key'', \<lambda>r. Some [sq_tenant_id r, sq_name r])]"

definition dashboards_indexes :: "dashboard_row indexes" where
  "dashboards_indexes =
     [(''dashboards_pkey'', \<lambda>r. Some [da_id r]),
      (''dashboards_tenant_id_name_key'', \<lambda>r. Some [da_tenant_id r, da_name r])]"

text \<open>\<open>JSON.stringify\<close> drops undefined fields: the column holds \<open>'{}'\<close> iff no field is set.\<close>

definition query_is_empty_object :: "RuleQuery \<Rightarrow> bool" where
  "query_is_empty_object q \<longleftrightarrow> q_text q = None \<and> q_service q = None \<and> q_level q = None \<and> q_labels q = None"

definition alert_rules_checks :: "alert_rule_row checks" where
  "alert_rules_checks =
     [(''alert_rules_query_source'', \<lambda>r. ar_saved_query_id r \<noteq> None \<or> \<not> query_is_empty_object (ar_query r)),
      (''alert_rules_window_seconds_check'', \<lambda>r. 30 \<le> ar_window_seconds r \<and> ar_window_seconds r \<le> 86400)]"

definition alert_rules_indexes :: "alert_rule_row indexes" where
  "alert_rules_indexes =
     [(''alert_rules_pkey'', \<lambda>r. Some [ar_id r]),
      (''alert_rules_tenant_id_name_key'', \<lambda>r. Some [ar_tenant_id r, ar_name r])]"

definition refresh_tokens_checks :: "refresh_token_row checks" where
  "refresh_tokens_checks = [(''refresh_tokens_hash_len'', \<lambda>r. length (rt_token_hash r) = 32)]"

definition refresh_tokens_indexes :: "refresh_token_row indexes" where
  "refresh_tokens_indexes = [(''refresh_tokens_pkey'', \<lambda>r. Some [rt_id r])]"

fun provider_name :: "oauth_provider \<Rightarrow> string" where
  "provider_name google = ''google''"

definition oauth_identities_indexes :: "oauth_identity_row indexes" where
  "oauth_identities_indexes =
     [(''oauth_identities_pkey'', \<lambda>r. Some [oi_id r]),
      (''oauth_identities_tenant_id_provider_provider_sub_key'',
         \<lambda>r. Some [oi_tenant_id r, provider_name (oi_provider r), oi_provider_sub r]),
      (''oauth_identities_tenant_id_user_id_provider_key'',
         \<lambda>r. Some [oi_tenant_id r, oi_user_id r, provider_name (oi_provider r)])]"

definition invites_checks :: "invite_row checks" where
  "invites_checks =
     [(''invites_role_check'', \<lambda>r. iv_role r = ''member'' \<or> iv_role r = ''admin''),
      (''invites_status_check'',
         \<lambda>r. iv_status r = ''pending'' \<or> iv_status r = ''consumed'' \<or> iv_status r = ''revoked''),
      (''invites_token_hash_len'', \<lambda>r. length (iv_token_hash r) = 32)]"

definition invites_indexes :: "invite_row indexes" where
  "invites_indexes =
     [(''invites_pkey'', \<lambda>r. Some [iv_id r]),
      (''invites_token_hash_key'', \<lambda>r. Some [iv_token_hash r]),
      (''uq_invites_pending_per_email'',
         \<lambda>r. if iv_status r = ''pending'' then Some [iv_tenant_id r, iv_email r] else None)]"

section \<open>Tenant transactions\<close>

type_synonym uuid_input = "string \<Rightarrow> uuid option"

definition cast_uuid :: "uuid_input \<Rightarrow> string \<Rightarrow> ('s, uuid) prog" where
  "cast_uuid uuid_in v = (case uuid_in v of None \<Rightarrow> throw (PgError ''22P02'' []) | Some u \<Rightarrow> ret u)"

definition cast_uuid_opt :: "uuid_input \<Rightarrow> string option \<Rightarrow> ('s, uuid option) prog" where
  "cast_uuid_opt uuid_in v =
     (case v of None \<Rightarrow> ret None
      | Some w \<Rightarrow> (case uuid_in w of None \<Rightarrow> throw (PgError ''22P02'' []) | Some u \<Rightarrow> ret (Some u)))"

definition cast_int4 :: "int \<Rightarrow> ('s, int) prog" where
  "cast_int4 n = (if - (2 ^ 31) \<le> n \<and> n < 2 ^ 31 then ret n else throw (PgError ''22003'' []))"

text \<open>\<open>app.current_tenant_id()\<close>: an empty setting is NULL, any other text is cast to \<open>uuid\<close>.\<close>

definition current_tenant_id :: "uuid_input \<Rightarrow> string \<Rightarrow> js_error + uuid option" where
  "current_tenant_id uuid_in t =
     (if t = [] then Inr None
      else case uuid_in t of None \<Rightarrow> Inl (PgError ''22P02'' []) | Some u \<Rightarrow> Inr (Some u))"

definition withTenantTx ::
  "uuid_input \<Rightarrow> string \<Rightarrow> (uuid option \<Rightarrow> (db, 'a) prog) \<Rightarrow> (db, 'a) prog" where
  "withTenantTx uuid_in tenantId fn = (\<lambda>d.
     case andThen (liftR (current_tenant_id uuid_in tenantId)) fn d of
       (Inl err, _) \<Rightarrow> (Inl err, d)
     | (Inr result, d') \<Rightarrow> (Inr result, d'))"

definition PG_UNIQUE_VIOLATION :: string where "PG_UNIQUE_VIOLATION = ''23505''"

fun isUniqueViolation :: "js_error \<Rightarrow> bool" where
  "isUniqueViolation (PgError code c) = (code = PG_UNIQUE_VIOLATION)"
| "isUniqueViolation (DomainErr e) = (err_code e = PG_UNIQUE_VIOLATION)"
| "isUniqueViolation (PlainError m) = False"

text \<open>The tenant column of an inserted row is the cast of the bound parameter.\<close>

definition tenant_param :: "uuid option \<Rightarrow> (db, uuid) prog" where
  "tenant_param sc = (case sc of None \<Rightarrow> throw (PgError ''22P02'' []) | Some t \<Rightarrow> ret t)"

text \<open>Row-level security: what a statement under the armed tenant sees and may change.\<close>

definition rls :: "('r \<Rightarrow> uuid) \<Rightarrow> uuid option \<Rightarrow> 'r list \<Rightarrow> 'r list" where
  "rls tenant_of sc rows = filter (\<lambda>r. sc = Some (tenant_of r)) rows"

definition rls_update ::
  "('r \<Rightarrow> uuid) \<Rightarrow> uuid option \<Rightarrow> ('r \<Rightarrow> bool) \<Rightarrow> ('r \<Rightarrow> 'r) \<Rightarrow> 'r list \<Rightarrow> 'r list" where
  "rls_update tenant_of sc p f rows = map (\<lambda>r. if sc = Some (tenant_of r) \<and> p r then f r else r) rows"

definition rls_delete :: "('r \<Rightarrow> uuid) \<Rightarrow> uuid option \<Rightarrow> ('r \<Rightarrow> bool) \<Rightarrow> 'r list \<Rightarrow> 'r list" where
  "rls_delete tenant_of sc p rows = filter (\<lambda>r. \<not> (sc = Some (tenant_of r) \<and> p r)) rows"

text \<open>\<open>ORDER BY created_at DESC\<close>; rows of equal instant keep their order.\<close>

definition newest_first :: "('r \<Rightarrow> millis) \<Rightarrow> 'r list \<Rightarrow> 'r list" where
  "newest_first created rows = sort_key (\<lambda>r. - created r) rows"

definition tenant_exists :: "uuid \<Rightarrow> db \<Rightarrow> bool" where
  "tenant_exists t d \<longleftrightarrow> list_ex (\<lambda>r. tn_id r = t) (db_tenants d)"

definition user_exists :: "uuid option \<Rightarrow> db \<Rightarrow> bool" where
  "user_exists u d \<longleftrightarrow> (case u of None \<Rightarrow> True | Some i \<Rightarrow> list_ex (\<lambda>r. us_id r = i) (db_users d))"

definition tenant_user_exists :: "uuid \<Rightarrow> uuid \<Rightarrow> db \<Rightarrow> bool" where
  "tenant_user_exists t u d \<longleftrightarrow> list_ex (\<lambda>r. us_tenant_id r = t \<and> us_id r = u) (db_users d)"

section \<open>Referential actions\<close>

text \<open>
  Deleting users cascades to their memberships, refresh tokens and linked identities, and sets
  the author columns that name them to NULL. That is an UPDATE of the row, so the
  \<open>updated_at\<close> triggers fire on the tables that have one.
\<close>

definition user_gone :: "(user_row \<Rightarrow> bool) \<Rightarrow> db \<Rightarrow> uuid \<Rightarrow> uuid \<Rightarrow> bool" where
  "user_gone p d t u \<longleftrightarrow> list_ex (\<lambda>r. p r \<and> us_tenant_id r = t \<and> us_id r = u) (db_users d)"

definition author_gone :: "(user_row \<Rightarrow> bool) \<Rightarrow> db \<Rightarrow> uuid option \<Rightarrow> bool" where
  "author_gone p d by \<longleftrightarrow> list_ex (\<lambda>r. p r \<and> by = Some (us_id r)) (db_users d)"

definition delete_users :: "millis \<Rightarrow> (user_row \<Rightarrow> bool) \<Rightarrow> db \<Rightarrow> db" where
  "delete_users now p d =
     d \<lparr>
       db_users := filter (\<lambda>r. \<not> p r) (db_users d),
       db_memberships := filter (\<lambda>r. \<not> user_gone p d (mb_tenant_id r) (mb_user_id r)) (db_memberships d),
       db_refresh_tokens := filter (\<lambda>r. \<not> user_gone p d (rt_tenant_id r) (rt_user_id r)) (db_refresh_tokens d),
       db_oauth_identities := filter (\<lambda>r. \<not> user_gone p d (oi_tenant_id r) (oi_user_id r)) (db_oauth_identities d),
       db_api_keys := map (\<lambda>r. if author_gone p d (ak_created_by r)
           then r\<lparr>ak_created_by := None\<rparr> else r) (db_api_keys d),
       db_retention := map (\<lambda>r. if author_gone p d (rp_updated_by r)
           then r\<lparr>rp_updated_by := None, rp_updated_at := now\<rparr> else r) (db_retention d),
       db_saved_queries := map (\<lambda>r. if author_gone p d (sq_created_by r)
           then r\<lparr>sq_created_by := None, sq_updated_at := now\<rparr> else r) (db_saved_queries d),
       db_dashboards := map (\<lambda>r. if author_gone p d (da_created_by r)
           then r\<lparr>da_created_by := None, da_updated_at := now\<rparr> else r) (db_dashboards d),
       db_alert_rules := map (\<lambda>r. if author_gone p d (ar_created_by r)
           then r\<lparr>ar_created_by := None, ar_updated_at := now\<rparr> else r) (db_alert_rules d),
       db_invites := map (\<lambda>r. if author_gone p d (iv_created_by r)
           then r\<lparr>iv_created_by := None, iv_updated_at := now\<rparr> else r) (db_invites d) \<rparr>"

text \<open>
  Deleting a tenant cascades to every table that refers to it; the log events do not, so they stay.
\<close>

definition tenant_gone :: "(tenant_row \<Rightarrow> bool) \<Rightarrow> db \<Rightarrow> uuid \<Rightarrow> bool" where
  "tenant_gone p d t \<longleftrightarrow> list_ex (\<lambda>r. p r \<and> tn_id r = t) (db_tenants d)"

definition drop_tenant_rows :: "(uuid \<Rightarrow> bool) \<Rightarrow> db \<Rightarrow> db" where
  "drop_tenant_rows gone d =
     d \<lparr>
       db_memberships := filter (\<lambda>r. \<not> gone (mb_tenant_id r)) (db_memberships d),
       db_api_keys := filter (\<lambda>r. \<not> gone (ak_tenant_id r)) (db_api_keys d),
       db_retention := filter (\<lambda>r. \<not> gone (rp_tenant_id r)) (db_retention d),
       db_saved_queries := filter (\<lambda>r. \<not> gone (sq_tenant_id r)) (db_saved_queries d),
       db_dashboards := filter (\<lambda>r. \<not> gone (da_tenant_id r)) (db_dashboards d),
       db_alert_rules := filter (\<lambda>r. \<not> gone (ar_tenant_id r)) (db_alert_rules d),
       db_refresh_tokens := filter (\<lambda>r. \<not> gone (rt_tenant_id r)) (db_refresh_tokens d),
       db_oauth_identities := filter (\<lambda>r. \<not> gone (oi_tenant_id r)) (db_oauth_identities d),
       db_invites := filter (\<lambda>r. \<not> gone (iv_tenant_id r)) (db_invites d) \<rparr>"

definition delete_tenants :: "millis \<Rightarrow> (tenant_row \<Rightarrow> bool) \<Rightarrow> db \<Rightarrow> db" where
  "delete_tenants now p d =
     (let d1 = delete_users now (\<lambda>r. tenant_gone p d (us_tenant_id r)) d;
          d2 = drop_tenant_rows (tenant_gone p d) d1
      in d2 \<lparr> db_tenants := filter (\<lambda>r. \<not> p r) (db_tenants d2) \<rparr>)"

section \<open>Statements\<close>

text \<open>
  A statement that violates a constraint throws and has no effect. INSERT returns the row,
  UPDATE the new values of the rows it matched (RETURNING), DELETE the number of rows.
\<close>

definition insert_stmt ::
  "'r checks \<Rightarrow> 'r indexes \<Rightarrow> (db \<Rightarrow> (string \<times> bool) list) \<Rightarrow> (db \<Rightarrow> 'r list)
     \<Rightarrow> (('r list \<Rightarrow> 'r list) \<Rightarrow> db \<Rightarrow> db) \<Rightarrow> 'r \<Rightarrow> (db, 'r) prog" where
  "insert_stmt checks indexes fks get upd row = (\<lambda>d.
     case write_rows checks indexes (get d @ [row]) of
       Inl e \<Rightarrow> (Inl e, d)
     | Inr rows \<Rightarrow>
         (case find (\<lambda>fk. \<not> snd fk) (fks d) of
            Some fk \<Rightarrow> (Inl (PgError ''23503'' (fst fk)), d)
          | None \<Rightarrow> (Inr row, upd (\<lambda>_. rows) d)))"

definition update_stmt ::
  "'r checks \<Rightarrow> 'r indexes \<Rightarrow> (db \<Rightarrow> 'r list) \<Rightarrow> (('r list \<Rightarrow> 'r list) \<Rightarrow> db \<Rightarrow> db)
     \<Rightarrow> ('r \<Rightarrow> uuid) \<Rightarrow> uuid option \<Rightarrow> ('r \<Rightarrow> bool) \<Rightarrow> ('r \<Rightarrow> 'r) \<Rightarrow> (db, 'r list) prog" where
  "update_stmt checks indexes get upd tenant_of sc p f = (\<lambda>d.
     case write_rows checks indexes (rls_update tenant_of sc p f (get d)) of
       Inl e \<Rightarrow> (Inl e, d)
     | Inr rows \<Rightarrow> (Inr (map f (filter p (rls tenant_of sc (get d)))), upd (\<lambda>_. rows) d))"

definition delete_stmt ::
  "(db \<Rightarrow> 'r list) \<Rightarrow> (('r list \<Rightarrow> 'r list) \<Rightarrow> db \<Rightarrow> db)
     \<Rightarrow> ('r \<Rightarrow> uuid) \<Rightarrow> uuid option \<Rightarrow> ('r \<Rightarrow> bool) \<Rightarrow> (db, nat) prog" where
  "delete_stmt get upd tenant_of sc p = (\<lambda>d.
     (Inr (length (filter p (rls tenant_of sc (get d)))), upd (rls_delete tenant_of sc p) d))"

definition select_stmt ::
  "(db \<Rightarrow> 'r list) \<Rightarrow> ('r \<Rightarrow> uuid) \<Rightarrow> uuid option \<Rightarrow> ('r \<Rightarrow> bool) \<Rightarrow> (db, 'r list) prog" where
  "select_stmt get tenant_of sc p = getS (\<lambda>d. filter p (rls tenant_of sc (get d)))"

text \<open>\<open>res.rows[0]\<close>, \<open>undefined\<close> when there is no row.\<close>

fun first_row :: "'r list \<Rightarrow> 'r option" where
  "first_row [] = None"
| "first_row (r # rs) = Some r"

definition insert_users :: "user_row \<Rightarrow> (db, user_row) prog" where
  "insert_users row = insert_stmt [] users_indexes
     (\<lambda>d. [(''users_tenant_id_fkey'', tenant_exists (us_tenant_id row) d)])
     db_users db_users_update row"

definition update_users ::
  "uuid option \<Rightarrow> (user_row \<Rightarrow> bool) \<Rightarrow> (user_row \<Rightarrow> user_row) \<Rightarrow> (db, user_row list) prog" where
  "update_users = update_stmt [] users_indexes db_users db_users_update us_tenant_id"

definition select_users :: "uuid option \<Rightarrow> (user_row \<Rightarrow> bool) \<Rightarrow> (db, user_row list) prog" where
  "select_users = select_stmt db_users us_tenant_id"

definition insert_memberships :: "membership_row \<Rightarrow> (db, membership_row) prog" where
  "insert_memberships row = insert_stmt [] memberships_indexes
     (\<lambda>d. [(''memberships_tenant_id_fkey'', tenant_exists (mb_tenant_id row) d),
          (''memberships_tenant_id_user_id_fkey'', tenant_user_exists (mb_tenant_id row) (mb_user_id row) d)])
     db_memberships db_memberships_update row"

definition update_memberships ::
  "uuid option \<Rightarrow> (membership_row \<Rightarrow> bool) \<Rightarrow> (membership_row \<Rightarrow> membership_row) \<Rightarrow> (db, membership_row list) prog" where
  "update_memberships = update_stmt [] memberships_indexes db_memberships db_memberships_update mb_tenant_id"

definition select_memberships :: "uuid option \<Rightarrow> (membership_row \<Rightarrow> bool) \<Rightarrow> (db, membership_row list) prog" where
  "select_memberships = select_stmt db_memberships mb_tenant_id"

definition insert_api_keys :: "api_key_row \<Rightarrow> (db, api_key_row) prog" where
  "insert_api_keys row = insert_stmt api_keys_checks api_keys_indexes
     (\<lambda>d. [(''api_keys_tenant_id_fkey'', tenant_exists (ak_tenant_id row) d),
          (''api_keys_created_by_fkey'', user_exists (ak_created_by row) d)])
     db_api_keys db_api_keys_update row"

definition update_api_keys ::
  "uuid option \<Rightarrow> (api_key_row \<Rightarrow> bool) \<Rightarrow> (api_key_row \<Rightarrow> api_key_row) \<Rightarrow> (db, api_key_row list) prog" where
  "update_api_keys = update_stmt api_keys_checks api_keys_indexes db_api_keys db_api_keys_update ak_tenant_id"

definition select_api_keys :: "uuid option \<Rightarrow> (api_key_row \<Rightarrow> bool) \<Rightarrow> (db, api_key_row list) prog" where
  "select_api_keys = select_stmt db_api_keys ak_tenant_id"

definition insert_saved_queries :: "saved_query_row \<Rightarrow> (db, saved_query_row) prog" where
  "insert_saved_queries row = insert_stmt [] saved_queries_indexes
     (\<lambda>d. [(''saved_queries_tenant_id_fkey'', tenant_exists (sq_tenant_id row) d),
          (''saved_queries_created_by_fkey'', user_exists (sq_created_by row) d)])
     db_saved_queries db_saved_queries_update row"

definition update_saved_queries ::
  "uuid option \<Rightarrow> (saved_query_row \<Rightarrow> bool) \<Rightarrow> (saved_query_row \<Rightarrow> saved_query_row) \<Rightarrow> (db, saved_query_row list) prog" where
  "update_saved_queries = update_stmt [] saved_queries_indexes db_saved_queries db_saved_queries_update sq_tenant_id"

definition select_saved_queries :: "uuid option \<Rightarrow> (saved_query_row \<Rightarrow> bool) \<Rightarrow> (db, saved_query_row list) prog" where
  "select_saved_queries = select_stmt db_saved_queries sq_tenant_id"

definition insert_dashboards :: "dashboard_row \<Rightarrow> (db, dashboard_row) prog" where
  "insert_dashboards row = insert_stmt [] dashboards_indexes
     (\<lambda>d. [(''dashboards_tenant_id_fkey'', tenant_exists (da_tenant_id row) d),
          (''dashboards_created_by_fkey'', user_exists (da_created_by row) d)])
     db_dashboards db_dashboards_update row"

definition update_dashboards ::
  "uuid option \<Rightarrow> (dashboard_row \<Rightarrow> bool) \<Rightarrow> (dashboard_row \<Rightarrow> dashboard_row) \<Rightarrow> (db, dashboard_row list) prog" where
  "update_dashboards = update_stmt [] dashboards_indexes db_dashboards db_dashboards_update da_tenant_id"

definition select_dashboards :: "uuid option \<Rightarrow> (dashboard_row \<Rightarrow> bool) \<Rightarrow> (db, dashboard_row list) prog" where
  "select_dashboards = select_stmt db_dashboards da_tenant_id"

definition insert_alert_rules :: "alert_rule_row \<Rightarrow> (db, alert_rule_row) prog" where
  "insert_alert_rules row = insert_stmt alert_rules_checks alert_rules_indexes
     (\<lambda>d. [(''alert_rules_tenant_id_fkey'', tenant_exists (ar_tenant_id row) d),
          (''alert_rules_created_by_fkey'', user_exists (ar_created_by row) d)])
     db_alert_rules db_alert_rules_update row"

definition update_alert_rules ::
  "uuid option \<Rightarrow> (alert_rule_row \<Rightarrow> bool) \<Rightarrow> (alert_rule_row \<Rightarrow> alert_rule_row) \<Rightarrow> (db, alert_rule_row list) prog" where
  "update_alert_rules = update_stmt alert_rules_checks alert_rules_indexes db_alert_rules db_alert_rules_update ar_tenant_id"

definition select_alert_rules :: "uuid option \<Rightarrow> (alert_rule_row \<Rightarrow> bool) \<Rightarrow> (db, alert_rule_row list) prog" where
  "select_alert_rules = select_stmt db_alert_rules ar_tenant_id"

definition insert_refresh_tokens :: "refresh_token_row \<Rightarrow> (db, refresh_token_row) prog" where
  "insert_refresh_tokens row = insert_stmt refresh_tokens_checks refresh_tokens_indexes
     (\<lambda>d. [(''refresh_tokens_tenant_id_fkey'', tenant_exists (rt_tenant_id row) d),
          (''refresh_tokens_tenant_id_user_id_fkey'', tenant_user_exists (rt_tenant_id row) (rt_user_id row) d)])
     db_refresh_tokens db_refresh_tokens_update row"

definition update_refresh_tokens ::
  "uuid option \<Rightarrow> (refresh_token_row \<Rightarrow> bool) \<Rightarrow> (refresh_token_row \<Rightarrow> refresh_token_row) \<Rightarrow> (db, refresh_token_row list) prog" where
  "update_refresh_tokens = update_stmt refresh_tokens_checks refresh_tokens_indexes db_refresh_tokens db_refresh_tokens_update rt_tenant_id"

definition select_refresh_tokens :: "uuid option \<Rightarrow> (refresh_token_row \<Rightarrow> bool) \<Rightarrow> (db, refresh_token_row list) prog" where
  "select_refresh_tokens = select_stmt db_refresh_tokens rt_tenant_id"

definition insert_oauth_identities :: "oauth_identity_row \<Rightarrow> (db, oauth_identity_row) prog" where
  "insert_oauth_identities row = insert_stmt [] oauth_identities_indexes
     (\<lambda>d. [(''oauth_identities_tenant_id_fkey'', tenant_exists (oi_tenant_id row) d),
          (''oauth_identities_tenant_id_user_id_fkey'', tenant_user_exists (oi_tenant_id row) (oi_user_id row) d)])
     db_oauth_identities db_oauth_identities_update row"

definition update_oauth_identities ::
  "uuid option \<Rightarrow> (oauth_identity_row \<Rightarrow> bool) \<Rightarrow> (oauth_identity_row \<Rightarrow> oauth_identity_row) \<Rightarrow> (db, oauth_identity_row list) prog" where
  "update_oauth_identities = update_stmt [] oauth_identities_indexes db_oauth_identities db_oauth_identities_update oi_tenant_id"

definition select_oauth_identities :: "uuid option \<Rightarrow> (oauth_identity_row \<Rightarrow> bool) \<Rightarrow> (db, oauth_identity_row list) prog" where
  "select_oauth_identities = select_stmt db_oauth_identities oi_tenant_id"

definition insert_invites :: "invite_row \<Rightarrow> (db, invite_row) prog" where
  "insert_invites row = insert_stmt invites_checks invites_indexes
     (\<lambda>d. [(''invites_tenant_id_fkey'', tenant_exists (iv_tenant_id row) d),
          (''invites_created_by_fkey'', user_exists (iv_created_by row) d)])
     db_invites db_invites_update row"

definition update_invites ::
  "uuid option \<Rightarrow> (invite_row \<Rightarrow> bool) \<Rightarrow> (invite_row \<Rightarrow> invite_row) \<Rightarrow> (db, invite_row list) prog" where
  "update_invites = update_stmt invites_checks invites_indexes db_invites db_invites_update iv_tenant_id"

definition select_invites :: "uuid option \<Rightarrow> (invite_row \<Rightarrow> bool) \<Rightarrow> (db, invite_row list) prog" where
  "select_invites = select_stmt db_invites iv_tenant_id"

definition delete_saved_queries :: "uuid option \<Rightarrow> (saved_query_row \<Rightarrow> bool) \<Rightarrow> (db, nat) prog" where
  "delete_saved_queries = delete_stmt db_saved_queries db_saved_queries_update sq_tenant_id"

definition delete_dashboards :: "uuid option \<Rightarrow> (dashboard_row \<Rightarrow> bool) \<Rightarrow> (db, nat) prog" where
  "delete_dashboards = delete_stmt db_dashboards db_dashboards_update da_tenant_id"

definition delete_alert_rules :: "uuid option \<Rightarrow> (alert_rule_row \<Rightarrow> bool) \<Rightarrow> (db, nat) prog" where
  "delete_alert_rules = delete_stmt db_alert_rules db_alert_rules_update ar_tenant_id"

section \<open>Specification vocabulary\<close>

text \<open>What one tenant owns of the database.\<close>

definition tenant_view :: "uuid \<Rightarrow> db \<Rightarrow> db" where
  "tenant_view u d =
     \<lparr> db_tenants = filter (\<lambda>r. tn_id r = u) (db_tenants d),
       db_users = filter (\<lambda>r. us_tenant_id r = u) (db_users d),
       db_memberships = filter (\<lambda>r. mb_tenant_id r = u) (db_memberships d),
       db_api_keys = filter (\<lambda>r. ak_tenant_id r = u) (db_api_keys d),
       db_retention = filter (\<lambda>r. rp_tenant_id r = u) (db_retention d),
       db_saved_queries = filter (\<lambda>r. sq_tenant_id r = u) (db_saved_queries d),
       db_dashboards = filter (\<lambda>r. da_tenant_id r = u) (db_dashboards d),
       db_alert_rules = filter (\<lambda>r. ar_tenant_id r = u) (db_alert_rules d),
       db_refresh_tokens = filter (\<lambda>r. rt_tenant_id r = u) (db_refresh_tokens d),
       db_oauth_identities = filter (\<lambda>r. oi_tenant_id r = u) (db_oauth_identities d),
       db_invites = filter (\<lambda>r. iv_tenant_id r = u) (db_invites d),
       db_log_events = filter (\<lambda>r. le_tenant_id r = u) (db_log_events d) \<rparr>"

text \<open>The tenant of the user a row names as its author is the tenant of the row.\<close>

definition author_local :: "uuid \<Rightarrow> uuid option \<Rightarrow> db \<Rightarrow> bool" where
  "author_local t by d \<longleftrightarrow>
     user_exists by d \<and> (\<forall>u \<in> set (db_users d). by = Some (us_id u) \<longrightarrow> us_tenant_id u = t)"

definition authors_local :: "db \<Rightarrow> bool" where
  "authors_local d \<longleftrightarrow>
     (\<forall>r \<in> set (db_api_keys d). author_local (ak_tenant_id r) (ak_created_by r) d)
     \<and> (\<forall>r \<in> set (db_retention d). author_local (rp_tenant_id r) (rp_updated_by r) d)
     \<and> (\<forall>r \<in> set (db_saved_queries d). author_local (sq_tenant_id r) (sq_created_by r) d)
     \<and> (\<forall>r \<in> set (db_dashboards d). author_local (da_tenant_id r) (da_created_by r) d)
     \<and> (\<forall>r \<in> set (db_alert_rules d). author_local (ar_tenant_id r) (ar_created_by r) d)
     \<and> (\<forall>r \<in> set (db_invites d). author_local (iv_tenant_id r) (iv_created_by r) d)"

text \<open>The constraints of all tables hold.\<close>

definition rows_ok :: "'r checks \<Rightarrow> 'r indexes \<Rightarrow> 'r list \<Rightarrow> bool" where
  "rows_ok checks indexes rows \<longleftrightarrow>
     list_all (\<lambda>c. list_all (snd c) rows) checks
     \<and> list_all (\<lambda>i. distinct (List.map_filter (snd i) rows)) indexes"

definition keys_ok :: "db \<Rightarrow> bool" where
  "keys_ok d \<longleftrightarrow>
     rows_ok tenants_checks tenants_indexes (db_tenants d)
     \<and> rows_ok [] users_indexes (db_users d)
     \<and> rows_ok [] memberships_indexes (db_memberships d)
     \<and> rows_ok api_keys_checks api_keys_indexes (db_api_keys d)
     \<and> rows_ok retention_checks retention_indexes (db_retention d)
     \<and> rows_ok [] saved_queries_indexes (db_saved_queries d)
     \<and> rows_ok [] dashboards_indexes (db_dashboards d)
     \<and> rows_ok alert_rules_checks alert_rules_indexes (db_alert_rules d)
     \<and> rows_ok refresh_tokens_checks refresh_tokens_indexes (db_refresh_tokens d)
     \<and> rows_ok [] oauth_identities_indexes (db_oauth_identities d)
     \<and> rows_ok invites_checks invites_indexes (db_invites d)"

text \<open>The references of the schema resolve, tenant and user together.\<close>

definition refs_ok :: "db \<Rightarrow> bool" where
  "refs_ok d \<longleftrightarrow>
     (\<forall>r \<in> set (db_users d). tenant_exists (us_tenant_id r) d)
     \<and> (\<forall>r \<in> set (db_memberships d). tenant_user_exists (mb_tenant_id r) (mb_user_id r) d)
     \<and> (\<forall>r \<in> set (db_refresh_tokens d). tenant_user_exists (rt_tenant_id r) (rt_user_id r) d)
     \<and> (\<forall>r \<in> set (db_oauth_identities d). tenant_user_exists (oi_tenant_id r) (oi_user_id r) d)
     \<and> (\<forall>r \<in> set (db_api_keys d). tenant_exists (ak_tenant_id r) d \<and> user_exists (ak_created_by r) d)
     \<and> (\<forall>r \<in> set (db_retention d). tenant_exists (rp_tenant_id r) d \<and> user_exists (rp_updated_by r) d)
     \<and> (\<forall>r \<in> set (db_saved_queries d). tenant_exists (sq_tenant_id r) d \<and> user_exists (sq_created_by r) d)
     \<and> (\<forall>r \<in> set (db_dashboards d). tenant_exists (da_tenant_id r) d \<and> user_exists (da_created_by r) d)
     \<and> (\<forall>r \<in> set (db_alert_rules d). tenant_exists (ar_tenant_id r) d \<and> user_exists (ar_created_by r) d)
     \<and> (\<forall>r \<in> set (db_invites d). tenant_exists (iv_tenant_id r) d \<and> user_exists (iv_created_by r) d)"

definition db_ok :: "db \<Rightarrow> bool" where
  "db_ok d \<longleftrightarrow> keys_ok d \<and> refs_ok d"

definition preserves_db :: "db \<Rightarrow> db \<Rightarrow> bool" where
  "preserves_db d d' \<longleftrightarrow> (db_ok d \<longrightarrow> db_ok d')"

text \<open>
  Under the armed tenant \<open>sc\<close> and for a principal \<open>p\<close> of that tenant, a step changes the
  rows of no other tenant.
\<close>

definition principal_local :: "uuid option \<Rightarrow> uuid option \<Rightarrow> db \<Rightarrow> bool" where
  "principal_local sc p d \<longleftrightarrow> (\<forall>u \<in> set (db_users d). p = Some (us_id u) \<longrightarrow> sc = Some (us_tenant_id u))"

definition confined :: "uuid option \<Rightarrow> uuid option \<Rightarrow> db \<Rightarrow> db \<Rightarrow> bool" where
  "confined sc p d d' \<longleftrightarrow>
     (authors_local d \<and> principal_local sc p d \<longrightarrow>
        (\<forall>u. sc \<noteq> Some u \<longrightarrow> tenant_view u d' = tenant_view u d)
        \<and> authors_local d' \<and> principal_local sc p d')"

end
