(* ===== verification/Store_Laws.thy ===== *)
theory Store_Laws
  imports Schema
begin

text \<open>
  Laws of the store of \<^verbatim>\<open>Schema\<close> that the repositories share: when a write is accepted, what
  row-level security lets a statement see and change, that a tenant transaction is all or
  nothing, and the rules by which programs keep the database constraints and stay inside
  the armed tenant.
\<close>

section \<open>Facts about constraints\<close>

lemma find_None_list_all: "find P xs = None \<longleftrightarrow> list_all (\<lambda>x. \<not> P x) xs"
  by (auto simp: find_None_iff list_all_iff)

lemma write_rows_Inr:
  "write_rows checks indexes rows = Inr rows' \<longleftrightarrow> rows' = rows \<and> rows_ok checks indexes rows"
proof -
  have "rows_ok checks indexes rows \<longleftrightarrow>
      find (\<lambda>c. \<not> list_all (snd c) rows) checks = None
      \<and> find (\<lambda>i. \<not> distinct (List.map_filter (snd i) rows)) indexes = None"
    by (simp add: rows_ok_def find_None_list_all)
  then show ?thesis
    by (auto simp: write_rows_def split: option.splits)
qed

lemma write_rows_ok [simp]: "rows_ok ck ix rows \<Longrightarrow> write_rows ck ix rows = Inr rows"
  by (simp add: write_rows_Inr)

lemma write_rows_Inl:
  "write_rows checks indexes rows = Inl e \<Longrightarrow> \<exists>c. e = PgError ''23514'' c \<or> e = PgError ''23505'' c"
  by (auto simp: write_rows_def split: option.splits)

lemma map_filter_append: "List.map_filter f (xs @ ys) = List.map_filter f xs @ List.map_filter f ys"
  by (induction xs) (auto simp: List.map_filter_simps split: option.split)

lemma set_map_filter_iff: "y \<in> set (List.map_filter f xs) \<longleftrightarrow> (\<exists>x \<in> set xs. f x = Some y)"
  by (induction xs) (auto simp: List.map_filter_simps split: option.split)

lemma distinct_map_filter_filter:
  "distinct (List.map_filter f xs) \<Longrightarrow> distinct (List.map_filter f (filter P xs))"
  by (induction xs) (auto simp: List.map_filter_simps set_map_filter_iff split: option.splits)

lemma map_filter_map_cong:
  "(\<And>x. x \<in> set xs \<Longrightarrow> f (g x) = f x) \<Longrightarrow> List.map_filter f (map g xs) = List.map_filter f xs"
  by (induction xs) (auto simp: List.map_filter_simps split: option.splits)

lemma rows_ok_filter [simp]: "rows_ok ck ix rows \<Longrightarrow> rows_ok ck ix (filter P rows)"
  by (auto simp: rows_ok_def list_all_iff intro: distinct_map_filter_filter)

lemma rows_ok_Nil [simp]: "rows_ok ck ix []"
  by (simp add: rows_ok_def list_all_iff List.map_filter_simps)

lemma rows_ok_map_cong:
  assumes "rows_ok ck ix rows"
    and "\<And>r c. r \<in> set rows \<Longrightarrow> c \<in> set ck \<Longrightarrow> snd c r \<Longrightarrow> snd c (g r)"
    and "\<And>r i. r \<in> set rows \<Longrightarrow> i \<in> set ix \<Longrightarrow> snd i (g r) = snd i r"
  shows "rows_ok ck ix (map g rows)"
  using assms by (auto simp: rows_ok_def list_all_iff map_filter_map_cong)

lemma distinct_map_filter_unique:
  assumes "distinct (List.map_filter k rows)" "a \<in> set rows" "b \<in> set rows" "k a = Some v" "k b = Some v"
  shows "a = b"
  using assms
  by (induction rows) (auto simp: List.map_filter_simps set_map_filter_iff split: option.splits)

lemma rows_ok_unique:
  assumes "rows_ok ck ix rows" "i \<in> set ix" "a \<in> set rows" "b \<in> set rows"
    "snd i a = Some v" "snd i b = Some v"
  shows "a = b"
  using assms by (auto simp: rows_ok_def list_all_iff intro: distinct_map_filter_unique)

section \<open>Facts about row-level security\<close>

lemma rls_None [simp]: "rls tenant_of None rows = []"
  by (simp add: rls_def)

lemma set_rls [simp]: "r \<in> set (rls tenant_of sc rows) \<longleftrightarrow> r \<in> set rows \<and> sc = Some (tenant_of r)"
  by (auto simp: rls_def)

lemma rls_Some: "rls tenant_of (Some t) rows = filter (\<lambda>r. tenant_of r = t) rows"
  unfolding rls_def by (rule filter_cong) auto

lemma filter_rls_update:
  assumes "sc \<noteq> Some u" "\<And>r. tenant_of (f r) = tenant_of r"
  shows "filter (\<lambda>r. tenant_of r = u) (rls_update tenant_of sc p f rows) = filter (\<lambda>r. tenant_of r = u) rows"
  unfolding rls_update_def using assms by (induction rows) auto

lemma filter_rls_delete:
  "sc \<noteq> Some u \<Longrightarrow>
   filter (\<lambda>r. tenant_of r = u) (rls_delete tenant_of sc p rows) = filter (\<lambda>r. tenant_of r = u) rows"
  by (induction rows) (auto simp: rls_delete_def)

lemma set_rls_update:
  "r' \<in> set (rls_update tenant_of sc p f rows) \<longleftrightarrow>
     (\<exists>r \<in> set rows. r' = (if sc = Some (tenant_of r) \<and> p r then f r else r))"
  by (simp only: rls_update_def set_map image_iff)

lemma set_rls_delete:
  "r \<in> set (rls_delete tenant_of sc p rows) \<longleftrightarrow> r \<in> set rows \<and> \<not> (sc = Some (tenant_of r) \<and> p r)"
  by (auto simp: rls_delete_def)

lemma rows_ok_rls_delete [simp]: "rows_ok ck ix rows \<Longrightarrow> rows_ok ck ix (rls_delete tenant_of sc p rows)"
  by (simp add: rls_delete_def)

lemma set_newest_first [simp]: "set (newest_first created rows) = set rows"
  by (simp add: newest_first_def)

lemma newest_first_sorted: "sorted (map (\<lambda>r. - created r) (newest_first created rows))"
  by (simp add: newest_first_def)

section \<open>Facts about transactions\<close>

text \<open>An armed tenant is never another one than the text the caller gave denotes.\<close>

lemma current_tenant_id_Some:
  "current_tenant_id uuid_in t = Inr (Some u) \<Longrightarrow> uuid_in t = Some u"
  by (auto simp: current_tenant_id_def split: if_splits option.splits)

lemma current_tenant_id_valid [simp]:
  "uuid_in t = Some u \<Longrightarrow> t \<noteq> [] \<Longrightarrow> current_tenant_id uuid_in t = Inr (Some u)"
  by (simp add: current_tenant_id_def)

lemma withTenantTx_armed:
  assumes "current_tenant_id uuid_in t = Inr sc"
  shows "withTenantTx uuid_in t fn d =
    (case fn sc d of (Inl e, _) \<Rightarrow> (Inl e, d) | (Inr x, d') \<Rightarrow> (Inr x, d'))"
  by (simp add: withTenantTx_def andThen_def assms)

lemma withTenantTx_unarmed:
  "current_tenant_id uuid_in t = Inl e \<Longrightarrow> withTenantTx uuid_in t fn d = (Inl e, d)"
  by (simp add: withTenantTx_def andThen_def)

lemma withTenantTx_Inr:
  "withTenantTx uuid_in t fn d = (Inr x, d') \<longleftrightarrow>
     (\<exists>sc. current_tenant_id uuid_in t = Inr sc \<and> fn sc d = (Inr x, d'))"
proof (cases "current_tenant_id uuid_in t")
  case (Inl e)
  then show ?thesis by (simp add: withTenantTx_unarmed)
next
  case (Inr sc)
  show ?thesis
  proof (cases "fn sc d")
    case (Pair r d'')
    then show ?thesis by (cases r) (simp_all add: withTenantTx_armed Inr)
  qed
qed

text \<open>A transaction that throws leaves the database as it found it.\<close>

lemma withTenantTx_Inl:
  "withTenantTx uuid_in t fn d = (Inl e, d') \<longleftrightarrow>
     d' = d \<and> (current_tenant_id uuid_in t = Inl e
       \<or> (\<exists>sc d''. current_tenant_id uuid_in t = Inr sc \<and> fn sc d = (Inl e, d'')))"
proof (cases "current_tenant_id uuid_in t")
  case (Inl e')
  then show ?thesis by (auto simp: withTenantTx_unarmed)
next
  case (Inr sc)
  show ?thesis
  proof (cases "fn sc d")
    case (Pair r d'')
    then show ?thesis by (cases r) (auto simp: withTenantTx_armed Inr)
  qed
qed

lemma keeps_withTenantTx:
  assumes "reflp R" and "\<And>sc. current_tenant_id uuid_in t = Inr sc \<Longrightarrow> keeps R (fn sc)"
  shows "keeps R (withTenantTx uuid_in t fn)"
proof (rule keepsI)
  fix d r d'
  assume run: "withTenantTx uuid_in t fn d = (r, d')"
  show "R d d'"
  proof (cases r)
    case (Inl e)
    with run have "d' = d" by (simp add: withTenantTx_Inl)
    with \<open>reflp R\<close> show ?thesis by (simp add: reflpD)
  next
    case (Inr x)
    with run obtain sc where "current_tenant_id uuid_in t = Inr sc" "fn sc d = (Inr x, d')"
      by (auto simp: withTenantTx_Inr)
    from keepsD [OF assms(2) [OF this(1)] this(2)] show ?thesis .
  qed
qed

lemma keeps_cast_uuid [keeps_intros]: "reflp R \<Longrightarrow> keeps R (cast_uuid uuid_in v)"
  by (simp add: cast_uuid_def keeps_intros split: option.split)

lemma keeps_cast_uuid_opt [keeps_intros]: "reflp R \<Longrightarrow> transp R \<Longrightarrow> keeps R (cast_uuid_opt uuid_in v)"
  by (simp add: cast_uuid_opt_def keeps_ret keeps_throw split: option.split)

lemma keeps_cast_int4 [keeps_intros]: "reflp R \<Longrightarrow> keeps R (cast_int4 n)"
  by (simp add: cast_int4_def keeps_intros)

lemma keeps_tenant_param [keeps_intros]: "reflp R \<Longrightarrow> keeps R (tenant_param sc)"
  by (simp add: tenant_param_def keeps_intros split: option.split)

lemma cast_uuid_apply: 
  "cast_uuid uuid_in v s = (case uuid_in v of None \<Rightarrow> (Inl (PgError ''22P02'' []), s) | Some u \<Rightarrow> (Inr u, s))"
  by (simp add: cast_uuid_def split: option.split)

lemma cast_uuid_Some [simp]: "uuid_in v = Some u \<Longrightarrow> cast_uuid uuid_in v = ret u"
  by (simp add: cast_uuid_def)

lemma cast_uuid_None [simp]: "uuid_in v = None \<Longrightarrow> cast_uuid uuid_in v = throw (PgError ''22P02'' [])"
  by (simp add: cast_uuid_def)

lemma tenant_param_Some [simp]: "tenant_param (Some t) = ret t"
  by (simp add: tenant_param_def)

lemma preserves_db_preorder [simp]: "reflp preserves_db" "transp preserves_db"
  by (auto simp: preserves_db_def reflp_def transp_def)

lemma confined_preorder [simp]: "reflp (confined sc p)" "transp (confined sc p)"
  by (auto simp: confined_def reflp_def transp_def)

section \<open>Facts about statements\<close>

named_theorems stmt_defs \<open>the statements of the tables\<close>

declare insert_users_def [stmt_defs] update_users_def [stmt_defs] select_users_def [stmt_defs]
declare insert_memberships_def [stmt_defs] update_memberships_def [stmt_defs] select_memberships_def [stmt_defs]
declare insert_api_keys_def [stmt_defs] update_api_keys_def [stmt_defs] select_api_keys_def [stmt_defs]
declare insert_saved_queries_def [stmt_defs] update_saved_queries_def [stmt_defs] select_saved_queries_def [stmt_defs]
declare insert_dashboards_def [stmt_defs] update_dashboards_def [stmt_defs] select_dashboards_def [stmt_defs]
declare insert_alert_rules_def [stmt_defs] update_alert_rules_def [stmt_defs] select_alert_rules_def [stmt_defs]
declare insert_refresh_tokens_def [stmt_defs] update_refresh_tokens_def [stmt_defs] select_refresh_tokens_def [stmt_defs]
declare insert_oauth_identities_def [stmt_defs] update_oauth_identities_def [stmt_defs] select_oauth_identities_def [stmt_defs]
declare insert_invites_def [stmt_defs] update_invites_def [stmt_defs] select_invites_def [stmt_defs]
declare delete_saved_queries_def [stmt_defs] delete_dashboards_def [stmt_defs] delete_alert_rules_def [stmt_defs]

lemma write_rows_not_ok: "write_rows ck ix rows = Inl e \<Longrightarrow> \<not> rows_ok ck ix rows"
proof
  assume "write_rows ck ix rows = Inl e" and "rows_ok ck ix rows"
  moreover from this(2) have "write_rows ck ix rows = Inr rows" by simp
  ultimately show False by simp
qed

lemma insert_stmt_Inr:
  "insert_stmt ck ix fks get upd row d = (Inr r, d') \<longleftrightarrow>
     r = row \<and> rows_ok ck ix (get d @ [row]) \<and> list_all snd (fks d) \<and> d' = upd (\<lambda>_. get d @ [row]) d"
proof (cases "write_rows ck ix (get d @ [row])")
  case (Inl e)
  then have "\<not> rows_ok ck ix (get d @ [row])" by (rule write_rows_not_ok)
  with Inl show ?thesis by (simp add: insert_stmt_def)
next
  case (Inr rows)
  then have ok: "rows_ok ck ix (get d @ [row])" by (simp add: write_rows_Inr)
  have F: "find (\<lambda>fk. \<not> snd fk) (fks d) = None \<longleftrightarrow> list_all snd (fks d)"
    by (simp add: find_None_list_all)
  show ?thesis
  proof (cases "find (\<lambda>fk. \<not> snd fk) (fks d)")
    case None
    with F ok show ?thesis by (auto simp: insert_stmt_def)
  next
    case (Some fk)
    with F have "\<not> list_all snd (fks d)" by simp
    with Some ok show ?thesis by (simp add: insert_stmt_def)
  qed
qed

lemma insert_stmt_Inl: "insert_stmt ck ix fks get upd row d = (Inl e, d') \<Longrightarrow> d' = d"
  by (auto simp: insert_stmt_def split: sum.splits option.splits)

lemma update_stmt_Inr:
  "update_stmt ck ix get upd tenant_of sc p f d = (Inr rs, d') \<longleftrightarrow>
     rs = map f (filter p (rls tenant_of sc (get d)))
     \<and> rows_ok ck ix (rls_update tenant_of sc p f (get d))
     \<and> d' = upd (\<lambda>_. rls_update tenant_of sc p f (get d)) d"
proof (cases "write_rows ck ix (rls_update tenant_of sc p f (get d))")
  case (Inl e)
  then have "\<not> rows_ok ck ix (rls_update tenant_of sc p f (get d))" by (rule write_rows_not_ok)
  with Inl show ?thesis by (simp add: update_stmt_def)
next
  case (Inr rows)
  then have "rows_ok ck ix (rls_update tenant_of sc p f (get d))" by (simp add: write_rows_Inr)
  then show ?thesis by (auto simp: update_stmt_def)
qed

lemma update_stmt_Inl: "update_stmt ck ix get upd tenant_of sc p f d = (Inl e, d') \<Longrightarrow> d' = d"
  by (auto simp: update_stmt_def split: sum.splits)

lemma select_stmt_apply [simp]: "select_stmt get tenant_of sc p d = (Inr (filter p (rls tenant_of sc (get d))), d)"
  by (simp add: select_stmt_def)

lemma keeps_select_stmt: "reflp R \<Longrightarrow> keeps R (select_stmt get tenant_of sc p)"
  by (simp add: keeps_def reflpD)

lemma keeps_insert_stmt:
  assumes "reflp R"
    and "\<And>d. rows_ok ck ix (get d @ [row]) \<Longrightarrow> list_all snd (fks d) \<Longrightarrow> R d (upd (\<lambda>_. get d @ [row]) d)"
  shows "keeps R (insert_stmt ck ix fks get upd row)"
proof (rule keepsI)
  fix d r d'
  assume run: "insert_stmt ck ix fks get upd row d = (r, d')"
  show "R d d'"
  proof (cases r)
    case (Inl e)
    from run [unfolded Inl] have "d' = d" by (rule insert_stmt_Inl)
    with assms(1) show ?thesis by (simp add: reflpD)
  next
    case (Inr x)
    with run show ?thesis by (simp add: insert_stmt_Inr assms(2))
  qed
qed

lemma keeps_update_stmt:
  assumes "reflp R"
    and "\<And>d. rows_ok ck ix (rls_update tenant_of sc p f (get d)) \<Longrightarrow>
           R d (upd (\<lambda>_. rls_update tenant_of sc p f (get d)) d)"
  shows "keeps R (update_stmt ck ix get upd tenant_of sc p f)"
proof (rule keepsI)
  fix d r d'
  assume run: "update_stmt ck ix get upd tenant_of sc p f d = (r, d')"
  show "R d d'"
  proof (cases r)
    case (Inl e)
    from run [unfolded Inl] have "d' = d" by (rule update_stmt_Inl)
    with assms(1) show ?thesis by (simp add: reflpD)
  next
    case (Inr x)
    with run show ?thesis by (simp add: update_stmt_Inr assms(2))
  qed
qed

lemma keeps_delete_stmt:
  "(\<And>d. R d (upd (rls_delete tenant_of sc p) d)) \<Longrightarrow> keeps R (delete_stmt get upd tenant_of sc p)"
  by (simp add: keeps_def delete_stmt_def)

lemma first_row_Some: "first_row rs = Some r \<Longrightarrow> r \<in> set rs"
  by (cases rs) auto

lemma first_row_None [simp]: "first_row rs = None \<longleftrightarrow> rs = []"
  by (cases rs) auto

lemma first_row_map [simp]: "first_row (map f rs) = map_option f (first_row rs)"
  by (cases rs) auto

section \<open>Statements keep the constraints\<close>

lemma list_ex_rls_update [simp]:
  "(\<And>r. P (f r) = P r) \<Longrightarrow> list_ex P (rls_update tenant_of sc p f rows) = list_ex P rows"
  by (induction rows) (auto simp: rls_update_def)

lemma user_exists_cases:
  "user_exists u d \<longleftrightarrow> u = None \<or> (\<exists>r \<in> set (db_users d). u = Some (us_id r))"
  by (auto simp: user_exists_def list_ex_iff split: option.split)

lemma tenant_exists_upd [simp]:
  "tenant_exists t (db_users_update g1 d) = tenant_exists t d"
  "tenant_exists t (db_memberships_update g2 d) = tenant_exists t d"
  "tenant_exists t (db_api_keys_update g3 d) = tenant_exists t d"
  "tenant_exists t (db_retention_update g4 d) = tenant_exists t d"
  "tenant_exists t (db_saved_queries_update g5 d) = tenant_exists t d"
  "tenant_exists t (db_dashboards_update g6 d) = tenant_exists t d"
  "tenant_exists t (db_alert_rules_update g7 d) = tenant_exists t d"
  "tenant_exists t (db_refresh_tokens_update g8 d) = tenant_exists t d"
  "tenant_exists t (db_oauth_identities_update g9 d) = tenant_exists t d"
  "tenant_exists t (db_invites_update g10 d) = tenant_exists t d"
  by (simp_all add: tenant_exists_def)

lemma user_exists_upd [simp]:
  "user_exists u (db_memberships_update g2 d) = user_exists u d"
  "user_exists u (db_api_keys_update g3 d) = user_exists u d"
  "user_exists u (db_retention_update g4 d) = user_exists u d"
  "user_exists u (db_saved_queries_update g5 d) = user_exists u d"
  "user_exists u (db_dashboards_update g6 d) = user_exists u d"
  "user_exists u (db_alert_rules_update g7 d) = user_exists u d"
  "user_exists u (db_refresh_tokens_update g8 d) = user_exists u d"
  "user_exists u (db_oauth_identities_update g9 d) = user_exists u d"
  "user_exists u (db_invites_update g10 d) = user_exists u d"
  by (simp_all add: user_exists_def split: option.split)

lemma tenant_user_exists_upd [simp]:
  "tenant_user_exists t u (db_memberships_update g2 d) = tenant_user_exists t u d"
  "tenant_user_exists t u (db_api_keys_update g3 d) = tenant_user_exists t u d"
  "tenant_user_exists t u (db_retention_update g4 d) = tenant_user_exists t u d"
  "tenant_user_exists t u (db_saved_queries_update g5 d) = tenant_user_exists t u d"
  "tenant_user_exists t u (db_dashboards_update g6 d) = tenant_user_exists t u d"
  "tenant_user_exists t u (db_alert_rules_update g7 d) = tenant_user_exists t u d"
  "tenant_user_exists t u (db_refresh_tokens_update g8 d) = tenant_user_exists t u d"
  "tenant_user_exists t u (db_oauth_identities_update g9 d) = tenant_user_exists t u d"
  "tenant_user_exists t u (db_invites_update g10 d) = tenant_user_exists t u d"
  by (simp_all add: tenant_user_exists_def)

text \<open>The references only look at tenants and users, so growing those keeps them.\<close>

lemma refs_ok_users_append:
  assumes "refs_ok d" "tenant_exists (us_tenant_id row) d"
  shows "refs_ok (d\<lparr>db_users := db_users d @ [row]\<rparr>)"
proof -
  have "tenant_exists t (d\<lparr>db_users := db_users d @ [row]\<rparr>) = tenant_exists t d" for t
    by (simp add: tenant_exists_def)
  moreover have "user_exists u d \<Longrightarrow> user_exists u (d\<lparr>db_users := db_users d @ [row]\<rparr>)" for u
    by (auto simp: user_exists_def split: option.splits)
  moreover have "tenant_user_exists t u d \<Longrightarrow> tenant_user_exists t u (d\<lparr>db_users := db_users d @ [row]\<rparr>)" for t u
    by (auto simp: tenant_user_exists_def)
  ultimately show ?thesis using assms by (auto simp: refs_ok_def)
qed

lemma keeps_db_insert_users [keeps_intros]: "keeps preserves_db (insert_users row)"
  unfolding insert_users_def
  by (rule keeps_insert_stmt) (simp_all add: preserves_db_def db_ok_def keys_ok_def refs_ok_users_append)

lemma keeps_db_update_users:
  assumes "\<And>r. us_id (f r) = us_id r" "\<And>r. us_tenant_id (f r) = us_tenant_id r"
  shows "keeps preserves_db (update_users sc p f)"
proof -
  have *: "refs_ok d \<Longrightarrow> refs_ok (d\<lparr>db_users := rls_update us_tenant_id sc p f (db_users d)\<rparr>)" for d
  proof -
    let ?d = "d\<lparr>db_users := rls_update us_tenant_id sc p f (db_users d)\<rparr>"
    have "tenant_exists t ?d = tenant_exists t d" for t by (simp add: tenant_exists_def)
    moreover have "user_exists u ?d = user_exists u d" for u
      by (simp add: user_exists_def assms split: option.split)
    moreover have "tenant_user_exists t u ?d = tenant_user_exists t u d" for t u
      by (simp add: tenant_user_exists_def assms)
    moreover have "\<forall>r \<in> set (db_users ?d). tenant_exists (us_tenant_id r) d"
      if "\<forall>r \<in> set (db_users d). tenant_exists (us_tenant_id r) d"
      using that by (auto simp: set_rls_update assms)
    moreover assume "refs_ok d"
    ultimately show ?thesis by (simp add: refs_ok_def)
  qed
  show ?thesis
    unfolding update_users_def
    by (rule keeps_update_stmt) (simp_all add: preserves_db_def db_ok_def keys_ok_def *)
qed

lemma keeps_db_insert_memberships [keeps_intros]: "keeps preserves_db (insert_memberships row)"
  unfolding insert_memberships_def
  by (rule keeps_insert_stmt) (simp_all add: preserves_db_def db_ok_def keys_ok_def refs_ok_def)

lemma keeps_db_update_memberships:
  assumes "\<And>r. mb_tenant_id (f r) = mb_tenant_id r" "\<And>r. mb_user_id (f r) = mb_user_id r"
  shows "keeps preserves_db (update_memberships sc p f)"
  unfolding update_memberships_def
  by (rule keeps_update_stmt)
     (auto simp: preserves_db_def db_ok_def keys_ok_def refs_ok_def set_rls_update assms)

lemma keeps_db_insert_api_keys [keeps_intros]: "keeps preserves_db (insert_api_keys row)"
  unfolding insert_api_keys_def
  by (rule keeps_insert_stmt) (simp_all add: preserves_db_def db_ok_def keys_ok_def refs_ok_def)

lemma keeps_db_update_api_keys:
  assumes "\<And>r. ak_tenant_id (f r) = ak_tenant_id r" "\<And>r. ak_created_by (f r) = ak_created_by r"
  shows "keeps preserves_db (update_api_keys sc p f)"
  unfolding update_api_keys_def
  by (rule keeps_update_stmt)
     (auto simp: preserves_db_def db_ok_def keys_ok_def refs_ok_def set_rls_update assms)

lemma keeps_db_insert_saved_queries [keeps_intros]: "keeps preserves_db (insert_saved_queries row)"
  unfolding insert_saved_queries_def
  by (rule keeps_insert_stmt) (simp_all add: preserves_db_def db_ok_def keys_ok_def refs_ok_def)

lemma keeps_db_update_saved_queries:
  assumes "\<And>r. sq_tenant_id (f r) = sq_tenant_id r" "\<And>r. sq_created_by (f r) = sq_created_by r"
  shows "keeps preserves_db (update_saved_queries sc p f)"
  unfolding update_saved_queries_def
  by (rule keeps_update_stmt)
     (auto simp: preserves_db_def db_ok_def keys_ok_def refs_ok_def set_rls_update assms)

lemma keeps_db_insert_dashboards [keeps_intros]: "keeps preserves_db (insert_dashboards row)"
  unfolding insert_dashboards_def
  by (rule keeps_insert_stmt) (simp_all add: preserves_db_def db_ok_def keys_ok_def refs_ok_def)

lemma keeps_db_update_dashboards:
  assumes "\<And>r. da_tenant_id (f r) = da_tenant_id r" "\<And>r. da_created_by (f r) = da_created_by r"
  shows "keeps preserves_db (update_dashboards sc p f)"
  unfolding update_dashboards_def
  by (rule keeps_update_stmt)
     (auto simp: preserves_db_def db_ok_def keys_ok_def refs_ok_def set_rls_update assms)

lemma keeps_db_insert_alert_rules [keeps_intros]: "keeps preserves_db (insert_alert_rules row)"
  unfolding insert_alert_rules_def
  by (rule keeps_insert_stmt) (simp_all add: preserves_db_def db_ok_def keys_ok_def refs_ok_def)

lemma keeps_db_update_alert_rules:
  assumes "\<And>r. ar_tenant_id (f r) = ar_tenant_id r" "\<And>r. ar_created_by (f r) = ar_created_by r"
  shows "keeps preserves_db (update_alert_rules sc p f)"
  unfolding update_alert_rules_def
  by (rule keeps_update_stmt)
     (auto simp: preserves_db_def db_ok_def keys_ok_def refs_ok_def set_rls_update assms)

lemma keeps_db_insert_refresh_tokens [keeps_intros]: "keeps preserves_db (insert_refresh_tokens row)"
  unfolding insert_refresh_tokens_def
  by (rule keeps_insert_stmt) (simp_all add: preserves_db_def db_ok_def keys_ok_def refs_ok_def)

lemma keeps_db_update_refresh_tokens:
  assumes "\<And>r. rt_tenant_id (f r) = rt_tenant_id r" "\<And>r. rt_user_id (f r) = rt_user_id r"
  shows "keeps preserves_db (update_refresh_tokens sc p f)"
  unfolding update_refresh_tokens_def
  by (rule keeps_update_stmt)
     (auto simp: preserves_db_def db_ok_def keys_ok_def refs_ok_def set_rls_update assms)

lemma keeps_db_insert_oauth_identities [keeps_intros]: "keeps preserves_db (insert_oauth_identities row)"
  unfolding insert_oauth_identities_def
  by (rule keeps_insert_stmt) (simp_all add: preserves_db_def db_ok_def keys_ok_def refs_ok_def)

lemma keeps_db_update_oauth_identities:
  assumes "\<And>r. oi_tenant_id (f r) = oi_tenant_id r" "\<And>r. oi_user_id (f r) = oi_user_id r"
  shows "keeps preserves_db (update_oauth_identities sc p f)"
  unfolding update_oauth_identities_def
  by (rule keeps_update_stmt)
     (auto simp: preserves_db_def db_ok_def keys_ok_def refs_ok_def set_rls_update assms)

lemma keeps_db_insert_invites [keeps_intros]: "keeps preserves_db (insert_invites row)"
  unfolding insert_invites_def
  by (rule keeps_insert_stmt) (simp_all add: preserves_db_def db_ok_def keys_ok_def refs_ok_def)

lemma keeps_db_update_invites:
  assumes "\<And>r. iv_tenant_id (f r) = iv_tenant_id r" "\<And>r. iv_created_by (f r) = iv_created_by r"
  shows "keeps preserves_db (update_invites sc p f)"
  unfolding update_invites_def
  by (rule keeps_update_stmt)
     (auto simp: preserves_db_def db_ok_def keys_ok_def refs_ok_def set_rls_update assms)

lemma keeps_db_select_users [keeps_intros]: "reflp R \<Longrightarrow> keeps R (select_users sc p)"
  unfolding select_users_def by (rule keeps_select_stmt)

lemma keeps_db_select_memberships [keeps_intros]: "reflp R \<Longrightarrow> keeps R (select_memberships sc p)"
  unfolding select_memberships_def by (rule keeps_select_stmt)

lemma keeps_db_select_api_keys [keeps_intros]: "reflp R \<Longrightarrow> keeps R (select_api_keys sc p)"
  unfolding select_api_keys_def by (rule keeps_select_stmt)

lemma keeps_db_select_saved_queries [keeps_intros]: "reflp R \<Longrightarrow> keeps R (select_saved_queries sc p)"
  unfolding select_saved_queries_def by (rule keeps_select_stmt)

lemma keeps_db_select_dashboards [keeps_intros]: "reflp R \<Longrightarrow> keeps R (select_dashboards sc p)"
  unfolding select_dashboards_def by (rule keeps_select_stmt)

lemma keeps_db_select_alert_rules [keeps_intros]: "reflp R \<Longrightarrow> keeps R (select_alert_rules sc p)"
  unfolding select_alert_rules_def by (rule keeps_select_stmt)

lemma keeps_db_select_refresh_tokens [keeps_intros]: "reflp R \<Longrightarrow> keeps R (select_refresh_tokens sc p)"
  unfolding select_refresh_tokens_def by (rule keeps_select_stmt)

lemma keeps_db_select_oauth_identities [keeps_intros]: "reflp R \<Longrightarrow> keeps R (select_oauth_identities sc p)"
  unfolding select_oauth_identities_def by (rule keeps_select_stmt)

lemma keeps_db_select_invites [keeps_intros]: "reflp R \<Longrightarrow> keeps R (select_invites sc p)"
  unfolding select_invites_def by (rule keeps_select_stmt)

lemma keeps_db_delete_saved_queries [keeps_intros]: "keeps preserves_db (delete_saved_queries sc p)"
  unfolding delete_saved_queries_def
  by (rule keeps_delete_stmt)
     (auto simp: preserves_db_def db_ok_def keys_ok_def refs_ok_def set_rls_delete)

lemma keeps_db_delete_dashboards [keeps_intros]: "keeps preserves_db (delete_dashboards sc p)"
  unfolding delete_dashboards_def
  by (rule keeps_delete_stmt)
     (auto simp: preserves_db_def db_ok_def keys_ok_def refs_ok_def set_rls_delete)

lemma keeps_db_delete_alert_rules [keeps_intros]: "keeps preserves_db (delete_alert_rules sc p)"
  unfolding delete_alert_rules_def
  by (rule keeps_delete_stmt)
     (auto simp: preserves_db_def db_ok_def keys_ok_def refs_ok_def set_rls_delete)

end
