(* ===== verification/Isolation_Laws.thy ===== *)
theory Isolation_Laws
  imports Store_Laws
begin

text \<open>
  Which statements stay inside the armed tenant, and what the referential actions of a user
  or tenant deletion do to the constraints and to the rows of other tenants.
\<close>

section \<open>Statements are confined to the armed tenant\<close>

lemma author_local_upd [simp]:
  "author_local t by (db_memberships_update g0 d) = author_local t by d"
  "author_local t by (db_api_keys_update g1 d) = author_local t by d"
  "author_local t by (db_retention_update g2 d) = author_local t by d"
  "author_local t by (db_saved_queries_update g3 d) = author_local t by d"
  "author_local t by (db_dashboards_update g4 d) = author_local t by d"
  "author_local t by (db_alert_rules_update g5 d) = author_local t by d"
  "author_local t by (db_refresh_tokens_update g6 d) = author_local t by d"
  "author_local t by (db_oauth_identities_update g7 d) = author_local t by d"
  "author_local t by (db_invites_update g8 d) = author_local t by d"
  by (simp_all add: author_local_def)

lemma principal_local_upd [simp]:
  "principal_local sc p (db_memberships_update g0 d) = principal_local sc p d"
  "principal_local sc p (db_api_keys_update g1 d) = principal_local sc p d"
  "principal_local sc p (db_retention_update g2 d) = principal_local sc p d"
  "principal_local sc p (db_saved_queries_update g3 d) = principal_local sc p d"
  "principal_local sc p (db_dashboards_update g4 d) = principal_local sc p d"
  "principal_local sc p (db_alert_rules_update g5 d) = principal_local sc p d"
  "principal_local sc p (db_refresh_tokens_update g6 d) = principal_local sc p d"
  "principal_local sc p (db_oauth_identities_update g7 d) = principal_local sc p d"
  "principal_local sc p (db_invites_update g8 d) = principal_local sc p d"
  by (simp_all add: principal_local_def)

lemma author_local_principal:
  "principal_local (Some t) by d \<Longrightarrow> user_exists by d \<Longrightarrow> author_local t by d"
  by (auto simp: author_local_def principal_local_def)

lemma author_local_users_append:
  assumes "author_local t by d" "rows_ok [] users_indexes (db_users d @ [row])"
  shows "author_local t by (d\<lparr>db_users := db_users d @ [row]\<rparr>)"
proof (cases "by")
  case None
  then show ?thesis by (simp add: author_local_def user_exists_cases)
next
  case (Some x)
  with assms(1) obtain u where u: "u \<in> set (db_users d)" "us_id u = x"
    by (auto simp: author_local_def user_exists_cases)
  have "distinct (List.map_filter (\<lambda>r. Some [us_id r]) (db_users d @ [row]))"
    using assms(2) by (simp add: rows_ok_def users_indexes_def)
  then have "[us_id row] \<notin> set (List.map_filter (\<lambda>r. Some [us_id r]) (db_users d))"
    by (simp add: map_filter_append List.map_filter_simps)
  with u have "us_id row \<noteq> x" by (auto simp: set_map_filter_iff)
  with assms(1) Some show ?thesis by (auto simp: author_local_def user_exists_cases)
qed

lemma author_local_users_update:
  assumes "\<And>r. us_id (f r) = us_id r" "\<And>r. us_tenant_id (f r) = us_tenant_id r"
  shows "author_local t by (d\<lparr>db_users := rls_update us_tenant_id sc q f (db_users d)\<rparr>) = author_local t by d"
proof -
  have "user_exists by (d\<lparr>db_users := rls_update us_tenant_id sc q f (db_users d)\<rparr>) = user_exists by d"
    by (simp add: user_exists_def assms split: option.split)
  moreover have "(\<forall>u \<in> set (rls_update us_tenant_id sc q f us). by = Some (us_id u) \<longrightarrow> us_tenant_id u = t)
      \<longleftrightarrow> (\<forall>u \<in> set us. by = Some (us_id u) \<longrightarrow> us_tenant_id u = t)" for us
    by (induction us) (auto simp: rls_update_def assms)
  ultimately show ?thesis by (simp add: author_local_def)
qed

lemma principal_local_users_update:
  assumes "\<And>r. us_id (f r) = us_id r" "\<And>r. us_tenant_id (f r) = us_tenant_id r"
  shows "principal_local sc p (d\<lparr>db_users := rls_update us_tenant_id sc' q f (db_users d)\<rparr>) = principal_local sc p d"
proof -
  have "(\<forall>u \<in> set (rls_update us_tenant_id sc' q f us). p = Some (us_id u) \<longrightarrow> sc = Some (us_tenant_id u))
      \<longleftrightarrow> (\<forall>u \<in> set us. p = Some (us_id u) \<longrightarrow> sc = Some (us_tenant_id u))" for us
    by (induction us) (auto simp: rls_update_def assms)
  then show ?thesis by (simp add: principal_local_def)
qed

lemma confined_insert_users [keeps_intros]:
  assumes "sc = Some (us_tenant_id row)"
  shows "keeps (confined sc p) (insert_users row)"
  unfolding insert_users_def
proof (rule keeps_insert_stmt)
  show "reflp (confined sc p)" by simp
next
  fix d :: db
  let ?d = "d\<lparr>db_users := db_users d @ [row]\<rparr>"
  assume "rows_ok [] users_indexes (db_users d @ [row])"
  then have "author_local t by ?d" if "author_local t by d" for t "by"
    using that by (simp add: author_local_users_append)
  then have "authors_local ?d" if "authors_local d"
    using that by (simp add: authors_local_def)
  moreover have "principal_local sc p ?d" if "principal_local sc p d"
    using that assms by (auto simp: principal_local_def)
  moreover have "tenant_view u ?d = tenant_view u d" if "sc \<noteq> Some u" for u
    using that assms by (simp add: tenant_view_def)
  ultimately show "confined sc p d (db_users_update (\<lambda>_. db_users d @ [row]) d)"
    by (simp add: confined_def)
qed

lemma confined_update_users:
  assumes "\<And>r. us_id (f r) = us_id r" "\<And>r. us_tenant_id (f r) = us_tenant_id r"
  shows "keeps (confined sc p) (update_users sc q f)"
  unfolding update_users_def
proof (rule keeps_update_stmt)
  show "reflp (confined sc p)" by simp
next
  fix d :: db
  let ?d = "d\<lparr>db_users := rls_update us_tenant_id sc q f (db_users d)\<rparr>"
  have "authors_local ?d" if "authors_local d"
    using that by (simp add: authors_local_def author_local_users_update assms)
  moreover have "tenant_view u ?d = tenant_view u d" if "sc \<noteq> Some u" for u
    using that assms by (simp add: tenant_view_def filter_rls_update)
  ultimately show "confined sc p d (db_users_update (\<lambda>_. rls_update us_tenant_id sc q f (db_users d)) d)"
    by (simp add: confined_def principal_local_users_update assms)
qed

lemma confined_insert_memberships [keeps_intros]:
  "sc = Some (mb_tenant_id row) \<Longrightarrow> keeps (confined sc p) (insert_memberships row)"
  unfolding insert_memberships_def
  by (rule keeps_insert_stmt) (simp_all add: confined_def tenant_view_def authors_local_def)

lemma confined_update_memberships:
  assumes "\<And>r. mb_tenant_id (f r) = mb_tenant_id r"
  shows "keeps (confined sc p) (update_memberships sc q f)"
  unfolding update_memberships_def
  by (rule keeps_update_stmt)
     (auto simp: confined_def tenant_view_def filter_rls_update authors_local_def set_rls_update assms)

lemma confined_insert_api_keys [keeps_intros]:
  assumes "sc = Some (ak_tenant_id row)" "ak_created_by row = None \<or> ak_created_by row = p"
  shows "keeps (confined sc p) (insert_api_keys row)"
  unfolding insert_api_keys_def
proof (rule keeps_insert_stmt)
  show "reflp (confined sc p)" by simp
next
  fix d :: db
  assume "list_all snd [(''api_keys_tenant_id_fkey'', tenant_exists (ak_tenant_id row) d),
    (''api_keys_created_by_fkey'', user_exists (ak_created_by row) d)]"
  then have ex: "user_exists (ak_created_by row) d" by simp
  have "author_local (ak_tenant_id row) (ak_created_by row) d" if "principal_local sc p d"
    using assms that ex by (auto simp: author_local_def principal_local_def)
  moreover have "tenant_view u (db_api_keys_update (\<lambda>_. db_api_keys d @ [row]) d) = tenant_view u d"
    if "sc \<noteq> Some u" for u
    using that assms(1) by (simp add: tenant_view_def)
  ultimately show "confined sc p d (db_api_keys_update (\<lambda>_. db_api_keys d @ [row]) d)"
    by (simp add: confined_def authors_local_def)
qed

lemma confined_update_api_keys:
  assumes "\<And>r. ak_tenant_id (f r) = ak_tenant_id r" "\<And>r. ak_created_by (f r) = ak_created_by r"
  shows "keeps (confined sc p) (update_api_keys sc q f)"
  unfolding update_api_keys_def
  by (rule keeps_update_stmt)
     (auto simp: confined_def tenant_view_def filter_rls_update authors_local_def set_rls_update assms)

lemma confined_insert_saved_queries [keeps_intros]:
  assumes "sc = Some (sq_tenant_id row)" "sq_created_by row = None \<or> sq_created_by row = p"
  shows "keeps (confined sc p) (insert_saved_queries row)"
  unfolding insert_saved_queries_def
proof (rule keeps_insert_stmt)
  show "reflp (confined sc p)" by simp
next
  fix d :: db
  assume "list_all snd [(''saved_queries_tenant_id_fkey'', tenant_exists (sq_tenant_id row) d),
    (''saved_queries_created_by_fkey'', user_exists (sq_created_by row) d)]"
  then have ex: "user_exists (sq_created_by row) d" by simp
  have "author_local (sq_tenant_id row) (sq_created_by row) d" if "principal_local sc p d"
    using assms that ex by (auto simp: author_local_def principal_local_def)
  moreover have "tenant_view u (db_saved_queries_update (\<lambda>_. db_saved_queries d @ [row]) d) = tenant_view u d"
    if "sc \<noteq> Some u" for u
    using that assms(1) by (simp add: tenant_view_def)
  ultimately show "confined sc p d (db_saved_queries_update (\<lambda>_. db_saved_queries d @ [row]) d)"
    by (simp add: confined_def authors_local_def)
qed

lemma confined_update_saved_queries:
  assumes "\<And>r. sq_tenant_id (f r) = sq_tenant_id r" "\<And>r. sq_created_by (f r) = sq_created_by r"
  shows "keeps (confined sc p) (update_saved_queries sc q f)"
  unfolding update_saved_queries_def
  by (rule keeps_update_stmt)
     (auto simp: confined_def tenant_view_def filter_rls_update authors_local_def set_rls_update assms)

lemma confined_insert_dashboards [keeps_intros]:
  assumes "sc = Some (da_tenant_id row)" "da_created_by row = None \<or> da_created_by row = p"
  shows "keeps (confined sc p) (insert_dashboards row)"
  unfolding insert_dashboards_def
proof (rule keeps_insert_stmt)
  show "reflp (confined sc p)" by simp
next
  fix d :: db
  assume "list_all snd [(''dashboards_tenant_id_fkey'', tenant_exists (da_tenant_id row) d),
    (''dashboards_created_by_fkey'', user_exists (da_created_by row) d)]"
  then have ex: "user_exists (da_created_by row) d" by simp
  have "author_local (da_tenant_id row) (da_created_by row) d" if "principal_local sc p d"
    using assms that ex by (auto simp: author_local_def principal_local_def)
  moreover have "tenant_view u (db_dashboards_update (\<lambda>_. db_dashboards d @ [row]) d) = tenant_view u d"
    if "sc \<noteq> Some u" for u
    using that assms(1) by (simp add: tenant_view_def)
  ultimately show "confined sc p d (db_dashboards_update (\<lambda>_. db_dashboards d @ [row]) d)"
    by (simp add: confined_def authors_local_def)
qed

lemma confined_update_dashboards:
  assumes "\<And>r. da_tenant_id (f r) = da_tenant_id r" "\<And>r. da_created_by (f r) = da_created_by r"
  shows "keeps (confined sc p) (update_dashboards sc q f)"
  unfolding update_dashboards_def
  by (rule keeps_update_stmt)
     (auto simp: confined_def tenant_view_def filter_rls_update authors_local_def set_rls_update assms)

lemma confined_insert_alert_rules [keeps_intros]:
  assumes "sc = Some (ar_tenant_id row)" "ar_created_by row = None \<or> ar_created_by row = p"
  shows "keeps (confined sc p) (insert_alert_rules row)"
  unfolding insert_alert_rules_def
proof (rule keeps_insert_stmt)
  show "reflp (confined sc p)" by simp
next
  fix d :: db
  assume "list_all snd [(''alert_rules_tenant_id_fkey'', tenant_exists (ar_tenant_id row) d),
    (''alert_rules_created_by_fkey'', user_exists (ar_created_by row) d)]"
  then have ex: "user_exists (ar_created_by row) d" by simp
  have "author_local (ar_tenant_id row) (ar_created_by row) d" if "principal_local sc p d"
    using assms that ex by (auto simp: author_local_def principal_local_def)
  moreover have "tenant_view u (db_alert_rules_update (\<lambda>_. db_alert_rules d @ [row]) d) = tenant_view u d"
    if "sc \<noteq> Some u" for u
    using that assms(1) by (simp add: tenant_view_def)
  ultimately show "confined sc p d (db_alert_rules_update (\<lambda>_. db_alert_rules d @ [row]) d)"
    by (simp add: confined_def authors_local_def)
qed

lemma confined_update_alert_rules:
  assumes "\<And>r. ar_tenant_id (f r) = ar_tenant_id r" "\<And>r. ar_created_by (f r) = ar_created_by r"
  shows "keeps (confined sc p) (update_alert_rules sc q f)"
  unfolding update_alert_rules_def
  by (rule keeps_update_stmt)
     (auto simp: confined_def tenant_view_def filter_rls_update authors_local_def set_rls_update assms)

lemma confined_insert_refresh_tokens [keeps_intros]:
  "sc = Some (rt_tenant_id row) \<Longrightarrow> keeps (confined sc p) (insert_refresh_tokens row)"
  unfolding insert_refresh_tokens_def
  by (rule keeps_insert_stmt) (simp_all add: confined_def tenant_view_def authors_local_def)

lemma confined_update_refresh_tokens:
  assumes "\<And>r. rt_tenant_id (f r) = rt_tenant_id r"
  shows "keeps (confined sc p) (update_refresh_tokens sc q f)"
  unfolding update_refresh_tokens_def
  by (rule keeps_update_stmt)
     (auto simp: confined_def tenant_view_def filter_rls_update authors_local_def set_rls_update assms)

lemma confined_insert_oauth_identities [keeps_intros]:
  "sc = Some (oi_tenant_id row) \<Longrightarrow> keeps (confined sc p) (insert_oauth_identities row)"
  unfolding insert_oauth_identities_def
  by (rule keeps_insert_stmt) (simp_all add: confined_def tenant_view_def authors_local_def)

lemma confined_update_oauth_identities:
  assumes "\<And>r. oi_tenant_id (f r) = oi_tenant_id r"
  shows "keeps (confined sc p) (update_oauth_identities sc q f)"
  unfolding update_oauth_identities_def
  by (rule keeps_update_stmt)
     (auto simp: confined_def tenant_view_def filter_rls_update authors_local_def set_rls_update assms)

lemma confined_insert_invites [keeps_intros]:
  assumes "sc = Some (iv_tenant_id row)" "iv_created_by row = None \<or> iv_created_by row = p"
  shows "keeps (confined sc p) (insert_invites row)"
  unfolding insert_invites_def
proof (rule keeps_insert_stmt)
  show "reflp (confined sc p)" by simp
next
  fix d :: db
  assume "list_all snd [(''invites_tenant_id_fkey'', tenant_exists (iv_tenant_id row) d),
    (''invites_created_by_fkey'', user_exists (iv_created_by row) d)]"
  then have ex: "user_exists (iv_created_by row) d" by simp
  have "author_local (iv_tenant_id row) (iv_created_by row) d" if "principal_local sc p d"
    using assms that ex by (auto simp: author_local_def principal_local_def)
  moreover have "tenant_view u (db_invites_update (\<lambda>_. db_invites d @ [row]) d) = tenant_view u d"
    if "sc \<noteq> Some u" for u
    using that assms(1) by (simp add: tenant_view_def)
  ultimately show "confined sc p d (db_invites_update (\<lambda>_. db_invites d @ [row]) d)"
    by (simp add: confined_def authors_local_def)
qed

lemma confined_update_invites:
  assumes "\<And>r. iv_tenant_id (f r) = iv_tenant_id r" "\<And>r. iv_created_by (f r) = iv_created_by r"
  shows "keeps (confined sc p) (update_invites sc q f)"
  unfolding update_invites_def
  by (rule keeps_update_stmt)
     (auto simp: confined_def tenant_view_def filter_rls_update authors_local_def set_rls_update assms)

lemma confined_delete_saved_queries [keeps_intros]: "keeps (confined sc p) (delete_saved_queries sc q)"
  unfolding delete_saved_queries_def
  by (rule keeps_delete_stmt)
     (auto simp: confined_def tenant_view_def filter_rls_delete authors_local_def set_rls_delete)

lemma confined_delete_dashboards [keeps_intros]: "keeps (confined sc p) (delete_dashboards sc q)"
  unfolding delete_dashboards_def
  by (rule keeps_delete_stmt)
     (auto simp: confined_def tenant_view_def filter_rls_delete authors_local_def set_rls_delete)

lemma confined_delete_alert_rules [keeps_intros]: "keeps (confined sc p) (delete_alert_rules sc q)"
  unfolding delete_alert_rules_def
  by (rule keeps_delete_stmt)
     (auto simp: confined_def tenant_view_def filter_rls_delete authors_local_def set_rls_delete)

section \<open>Deleting users\<close>

lemma user_gone_kept:
  "tenant_user_exists t u d \<Longrightarrow> \<not> user_gone p d t u \<Longrightarrow> tenant_user_exists t u (delete_users now p d)"
  by (auto simp: tenant_user_exists_def user_gone_def delete_users_def list_ex_iff)

lemma author_gone_kept:
  "user_exists by d \<Longrightarrow> \<not> author_gone p d by \<Longrightarrow> user_exists by (delete_users now p d)"
  by (auto simp: user_exists_cases author_gone_def delete_users_def list_ex_iff)

lemma tenant_exists_delete_users [simp]: "tenant_exists t (delete_users now p d) = tenant_exists t d"
  by (simp add: tenant_exists_def delete_users_def)

lemma user_exists_None [simp]: "user_exists None d"
  by (simp add: user_exists_def)

lemma keys_ok_delete_users:
  assumes "keys_ok d"
  shows "keys_ok (delete_users now p d)"
proof -
  have "rows_ok api_keys_checks api_keys_indexes (map (\<lambda>r. if author_gone p d (ak_created_by r)
      then r\<lparr>ak_created_by := None\<rparr> else r) (db_api_keys d))"
    by (rule rows_ok_map_cong) (use assms in \<open>auto simp: keys_ok_def api_keys_checks_def api_keys_indexes_def\<close>)
  moreover have "rows_ok retention_checks retention_indexes (map (\<lambda>r. if author_gone p d (rp_updated_by r)
      then r\<lparr>rp_updated_by := None, rp_updated_at := now\<rparr> else r) (db_retention d))"
    by (rule rows_ok_map_cong) (use assms in \<open>auto simp: keys_ok_def retention_checks_def retention_indexes_def\<close>)
  moreover have "rows_ok [] saved_queries_indexes (map (\<lambda>r. if author_gone p d (sq_created_by r)
      then r\<lparr>sq_created_by := None, sq_updated_at := now\<rparr> else r) (db_saved_queries d))"
    by (rule rows_ok_map_cong) (use assms in \<open>auto simp: keys_ok_def saved_queries_indexes_def\<close>)
  moreover have "rows_ok [] dashboards_indexes (map (\<lambda>r. if author_gone p d (da_created_by r)
      then r\<lparr>da_created_by := None, da_updated_at := now\<rparr> else r) (db_dashboards d))"
    by (rule rows_ok_map_cong) (use assms in \<open>auto simp: keys_ok_def dashboards_indexes_def\<close>)
  moreover have "rows_ok alert_rules_checks alert_rules_indexes (map (\<lambda>r. if author_gone p d (ar_created_by r)
      then r\<lparr>ar_created_by := None, ar_updated_at := now\<rparr> else r) (db_alert_rules d))"
    by (rule rows_ok_map_cong) (use assms in \<open>auto simp: keys_ok_def alert_rules_checks_def alert_rules_indexes_def\<close>)
  moreover have "rows_ok invites_checks invites_indexes (map (\<lambda>r. if author_gone p d (iv_created_by r)
      then r\<lparr>iv_created_by := None, iv_updated_at := now\<rparr> else r) (db_invites d))"
    by (rule rows_ok_map_cong) (use assms in \<open>auto simp: keys_ok_def invites_checks_def invites_indexes_def\<close>)
  ultimately show ?thesis using assms by (simp add: keys_ok_def delete_users_def)
qed

lemma delete_users_fields [simp]:
  "db_tenants (delete_users now p d) = db_tenants d"
  "db_users (delete_users now p d) = filter (\<lambda>r. \<not> p r) (db_users d)"
  "db_memberships (delete_users now p d) =
     filter (\<lambda>r. \<not> user_gone p d (mb_tenant_id r) (mb_user_id r)) (db_memberships d)"
  "db_refresh_tokens (delete_users now p d) =
     filter (\<lambda>r. \<not> user_gone p d (rt_tenant_id r) (rt_user_id r)) (db_refresh_tokens d)"
  "db_oauth_identities (delete_users now p d) =
     filter (\<lambda>r. \<not> user_gone p d (oi_tenant_id r) (oi_user_id r)) (db_oauth_identities d)"
  "db_api_keys (delete_users now p d) = map (\<lambda>r. if author_gone p d (ak_created_by r)
     then r\<lparr>ak_created_by := None\<rparr> else r) (db_api_keys d)"
  "db_retention (delete_users now p d) = map (\<lambda>r. if author_gone p d (rp_updated_by r)
     then r\<lparr>rp_updated_by := None, rp_updated_at := now\<rparr> else r) (db_retention d)"
  "db_saved_queries (delete_users now p d) = map (\<lambda>r. if author_gone p d (sq_created_by r)
     then r\<lparr>sq_created_by := None, sq_updated_at := now\<rparr> else r) (db_saved_queries d)"
  "db_dashboards (delete_users now p d) = map (\<lambda>r. if author_gone p d (da_created_by r)
     then r\<lparr>da_created_by := None, da_updated_at := now\<rparr> else r) (db_dashboards d)"
  "db_alert_rules (delete_users now p d) = map (\<lambda>r. if author_gone p d (ar_created_by r)
     then r\<lparr>ar_created_by := None, ar_updated_at := now\<rparr> else r) (db_alert_rules d)"
  "db_invites (delete_users now p d) = map (\<lambda>r. if author_gone p d (iv_created_by r)
     then r\<lparr>iv_created_by := None, iv_updated_at := now\<rparr> else r) (db_invites d)"
  "db_log_events (delete_users now p d) = db_log_events d"
  by (simp_all add: delete_users_def)

lemma refs_ok_delete_users: "refs_ok d \<Longrightarrow> refs_ok (delete_users now p d)"
  unfolding refs_ok_def by (intro conjI) (auto simp: author_gone_kept user_gone_kept)

lemma db_ok_delete_users: "db_ok d \<Longrightarrow> db_ok (delete_users now p d)"
  by (simp add: db_ok_def keys_ok_delete_users refs_ok_delete_users)

text \<open>Deleting users of one tenant leaves the rows of the others alone, authors included.\<close>

lemma author_gone_local:
  assumes "author_local t by d" "author_gone p d by" "\<And>r. p r \<Longrightarrow> sc = Some (us_tenant_id r)"
  shows "sc = Some t"
  using assms by (auto simp: author_local_def author_gone_def list_ex_iff)

lemma user_gone_local: "user_gone p d t u \<Longrightarrow> (\<And>r. p r \<Longrightarrow> sc = Some (us_tenant_id r)) \<Longrightarrow> sc = Some t"
  by (auto simp: user_gone_def list_ex_iff)

lemma filter_map_unchanged:
  "(\<And>r. r \<in> set rows \<Longrightarrow> P (g r) = P r \<and> (P r \<longrightarrow> g r = r)) \<Longrightarrow> filter P (map g rows) = filter P rows"
  by (induction rows) auto

lemma filter_filter_unchanged:
  "(\<And>r. r \<in> set rows \<Longrightarrow> P r \<Longrightarrow> Q r) \<Longrightarrow> filter P (filter Q rows) = filter P rows"
  by (induction rows) auto

lemma authors_local_delete_users:
  assumes "authors_local d"
  shows "authors_local (delete_users now p d)"
  using assms unfolding authors_local_def
  by (intro conjI) (auto simp: author_gone_kept author_local_def)

lemma tenant_view_delete_users:
  assumes "authors_local d" "sc \<noteq> Some u" and p: "\<And>r. p r \<Longrightarrow> sc = Some (us_tenant_id r)"
  shows "tenant_view u (delete_users now p d) = tenant_view u d"
proof -
  have ag: "\<not> author_gone p d by" if "author_local u by d" for "by"
    using author_gone_local [OF that _ p] assms(2) by blast
  have ug: "\<not> user_gone p d u v" for v
    using user_gone_local [OF _ p] assms(2) by blast
  have np: "\<not> p r" if "us_tenant_id r = u" for r
    using p [of r] assms(2) that by auto
  note al = assms(1) [unfolded authors_local_def]
  show ?thesis
    unfolding tenant_view_def delete_users_fields
    using al ag ug np
    by (simp only: db.ext_inject db.cases) (intro conjI TrueI refl filter_filter_unchanged filter_map_unchanged; auto)
qed

lemma confined_delete_users:
  assumes "\<And>r. q r \<Longrightarrow> sc = Some (us_tenant_id r)"
  shows "confined sc p d (delete_users now q d)"
  using assms
  by (auto simp: confined_def authors_local_delete_users principal_local_def intro: tenant_view_delete_users)

section \<open>Deleting tenants\<close>

lemma db_ok_delete_tenants:
  assumes "db_ok d"
  shows "db_ok (delete_tenants now p d)"
proof -
  define gone where "gone = tenant_gone p d"
  define d1 where "d1 = delete_users now (\<lambda>r. gone (us_tenant_id r)) d"
  have t1: "db_tenants d = db_tenants d1" by (simp add: d1_def)
  have ok1: "db_ok d1" unfolding d1_def using assms by (rule db_ok_delete_users)
  have users: "\<not> gone (us_tenant_id r)" if "r \<in> set (db_users d1)" for r
    using that by (simp add: d1_def)
  define d3 where "d3 = delete_tenants now p d"
  have d3: "d3 = (drop_tenant_rows gone d1)\<lparr>db_tenants := filter (\<lambda>r. \<not> p r) (db_tenants d)\<rparr>"
    by (simp add: d3_def delete_tenants_def gone_def d1_def drop_tenant_rows_def)
  have ex: "tenant_exists t d1 \<Longrightarrow> \<not> gone t \<Longrightarrow> tenant_exists t d3" for t
    by (auto simp: d3 d1_def gone_def tenant_exists_def tenant_gone_def list_ex_iff)
  have ue: "user_exists by d3 = user_exists by d1" "tenant_user_exists t u d3 = tenant_user_exists t u d1" for "by" t u
    by (simp_all add: d3 drop_tenant_rows_def user_exists_def tenant_user_exists_def split: option.split)
  have "keys_ok d3"
    using ok1 t1 by (simp add: d3 drop_tenant_rows_def db_ok_def keys_ok_def)
  moreover have "refs_ok d3"
    using ok1 users ex unfolding db_ok_def refs_ok_def ue
    by (simp add: d3 drop_tenant_rows_def)
  ultimately show ?thesis by (simp add: d3_def db_ok_def)
qed

text \<open>Nothing of a deleted tenant is left but its log events.\<close>

lemma delete_tenants_gone:
  assumes "tenant_gone p d t"
  shows "tenant_view t (delete_tenants now p d) =
    empty_db\<lparr>db_tenants := filter (\<lambda>r. tn_id r = t \<and> \<not> p r) (db_tenants d),
      db_log_events := db_log_events (tenant_view t d)\<rparr>"
  using assms
  by (auto simp: tenant_view_def delete_tenants_def drop_tenant_rows_def empty_db_def Let_def
      filter_empty_conv intro!: filter_cong)

end
