(* ===== verification/Repositories.thy ===== *)
theory Repositories
  imports Isolation_Laws
begin

text \<open>
  The repositories of tenants, users, refresh tokens, API keys and retention policies
  (\<^verbatim>\<open>adapters/postgres/tenant-repository.ts\<close>, \<^verbatim>\<open>user-repository.ts\<close>,
  \<^verbatim>\<open>refresh-token-repository.ts\<close>, \<^verbatim>\<open>api-key-repository.ts\<close>,
  \<^verbatim>\<open>retention-repository.ts\<close>), with the entities and inputs of \<^verbatim>\<open>domain/entities.ts\<close> and
  \<^verbatim>\<open>app/ports.ts\<close> they exchange. An id the server draws and the instant of \<open>now()\<close> are the
  arguments \<open>newId\<close> and \<open>dbNow\<close>.
\<close>

section \<open>Tenants\<close>

record Tenant =
  tenant_id :: uuid
  tenant_publicId :: string
  tenant_name :: string
  tenant_status :: tenant_status
  tenant_createdAt :: millis
  tenant_updatedAt :: millis

record NewTenant =
  nt_publicId :: string
  nt_name :: string

record TenantPatch =
  tp_name :: "string option"
  tp_status :: "tenant_status option"

definition toTenant :: "tenant_row \<Rightarrow> Tenant" where
  "toTenant row =
     \<lparr> tenant_id = tn_id row, tenant_publicId = tn_public_id row, tenant_name = tn_name row,
       tenant_status = tn_status row, tenant_createdAt = tn_created_at row,
       tenant_updatedAt = tn_updated_at row \<rparr>"

text \<open>The registry has no row-level security: the queries run on the pool, one statement each.\<close>

definition insert_tenants :: "tenant_row \<Rightarrow> (db, tenant_row) prog" where
  "insert_tenants row =
     insert_stmt tenants_checks tenants_indexes (\<lambda>d. []) db_tenants db_tenants_update row"

definition tenants_create :: "uuid \<Rightarrow> millis \<Rightarrow> NewTenant \<Rightarrow> (db, Tenant) prog" where
  "tenants_create newId dbNow input =
     tryCatch
       (andThen
          (insert_tenants
             \<lparr> tn_id = newId, tn_public_id = nt_publicId input, tn_name = nt_name input,
               tn_status = TS_active, tn_created_at = dbNow, tn_updated_at = dbNow \<rparr>)
          (\<lambda>row. ret (toTenant row)))
       (\<lambda>err. if isUniqueViolation err
              then throw (DomainErr (ConflictError
                     (''tenant slug '' @ [CHR 0x27] @ nt_publicId input @ [CHR 0x27] @ '' already exists'')))
              else throw err)"

definition tenants_list :: "(db, Tenant list) prog" where
  "tenants_list = getS (\<lambda>d. map toTenant (newest_first tn_created_at (db_tenants d)))"

definition tenants_findById :: "uuid_input \<Rightarrow> string \<Rightarrow> (db, Tenant option) prog" where
  "tenants_findById uuid_in ident =
     andThen (cast_uuid uuid_in ident) (\<lambda>u.
       getS (\<lambda>d. map_option toTenant (first_row (filter (\<lambda>r. tn_id r = u) (db_tenants d)))))"

definition tenants_findByPublicId :: "string \<Rightarrow> (db, Tenant option) prog" where
  "tenants_findByPublicId publicId =
     getS (\<lambda>d. map_option toTenant (first_row (filter (\<lambda>r. tn_public_id r = publicId) (db_tenants d))))"

definition coalesce :: "'a option \<Rightarrow> 'a \<Rightarrow> 'a" where
  "coalesce v old = (case v of None \<Rightarrow> old | Some x \<Rightarrow> x)"

definition tenants_update ::
  "uuid_input \<Rightarrow> millis \<Rightarrow> string \<Rightarrow> TenantPatch \<Rightarrow> (db, Tenant option) prog" where
  "tenants_update uuid_in dbNow ident patch =
     andThen (cast_uuid uuid_in ident) (\<lambda>u.
     let f = (\<lambda>r. r\<lparr> tn_name := coalesce (tp_name patch) (tn_name r),
                    tn_status := coalesce (tp_status patch) (tn_status r), tn_updated_at := dbNow \<rparr>)
     in andThen (getS (\<lambda>d. map f (filter (\<lambda>r. tn_id r = u) (db_tenants d)))) (\<lambda>rows.
        andThen (updS (db_tenants_update (map (\<lambda>r. if tn_id r = u then f r else r)))) (\<lambda>_.
        ret (map_option toTenant (first_row rows)))))"

definition tenants_delete :: "uuid_input \<Rightarrow> millis \<Rightarrow> string \<Rightarrow> (db, bool) prog" where
  "tenants_delete uuid_in dbNow ident =
     andThen (cast_uuid uuid_in ident) (\<lambda>u.
     andThen (getS (\<lambda>d. length (filter (\<lambda>r. tn_id r = u) (db_tenants d)))) (\<lambda>rowCount.
     andThen (updS (delete_tenants dbNow (\<lambda>r. tn_id r = u))) (\<lambda>_.
     ret (0 < rowCount))))"

section \<open>Users\<close>

record User =
  user_id :: uuid
  user_tenantId :: uuid
  user_email :: string
  user_displayName :: "string option"
  user_status :: string
  user_isPlatformOperator :: bool
  user_role :: "membership_role option"
  user_createdAt :: millis
  user_updatedAt :: millis

text \<open>An undefined and a null \<open>displayName\<close> are bound to the same parameter: both are \<open>None\<close>.\<close>

record NewUser =
  nu_email :: string
  nu_passwordHash :: string
  nu_displayName :: "string option"
  nu_role :: membership_role

record UserPatch =
  up_displayName :: "string option"
  up_status :: "string option"
  up_role :: "membership_role option"
  up_passwordHash :: "string option"

record AuthRecord =
  auth_id :: uuid
  auth_passwordHash :: string
  auth_status :: string
  auth_role :: "role option"

text \<open>The membership the LEFT JOIN finds for a user, among the rows the armed tenant sees.\<close>

definition joined_role :: "uuid option \<Rightarrow> db \<Rightarrow> user_row \<Rightarrow> membership_role option" where
  "joined_role sc d u =
     map_option mb_role
       (find (\<lambda>m. mb_tenant_id m = us_tenant_id u \<and> mb_user_id m = us_id u)
             (rls mb_tenant_id sc (db_memberships d)))"

definition toUser :: "user_row \<Rightarrow> membership_role option \<Rightarrow> User" where
  "toUser row role =
     \<lparr> user_id = us_id row, user_tenantId = us_tenant_id row, user_email = us_email row,
       user_displayName = us_display_name row, user_status = us_status row,
       user_isPlatformOperator = us_is_platform_operator row, user_role = role,
       user_createdAt = us_created_at row, user_updatedAt = us_updated_at row \<rparr>"

definition select_user :: "uuid option \<Rightarrow> (user_row \<Rightarrow> bool) \<Rightarrow> (db, User list) prog" where
  "select_user sc p =
     getS (\<lambda>d. map (\<lambda>u. toUser u (joined_role sc d u))
                 (newest_first us_created_at (filter p (rls us_tenant_id sc (db_users d)))))"

text \<open>
  The effective role of the authentication projection: \<open>platform_operator\<close> when the flag is
  set, else the membership role as text; \<open>toAuthRecord\<close> keeps it when it is a known role.
\<close>

definition auth_role_text :: "uuid option \<Rightarrow> db \<Rightarrow> user_row \<Rightarrow> string option" where
  "auth_role_text sc d u =
     (if us_is_platform_operator u then Some ''platform_operator''
      else map_option (\<lambda>m. role_name (membership_as_role m)) (joined_role sc d u))"

definition toAuthRecord :: "user_row \<Rightarrow> string option \<Rightarrow> AuthRecord" where
  "toAuthRecord row role =
     \<lparr> auth_id = us_id row, auth_passwordHash = us_password_hash row, auth_status = us_status row,
       auth_role = (case role of None \<Rightarrow> None
                    | Some v \<Rightarrow> if isRole (JStr v) then role_of_name v else None) \<rparr>"

definition select_auth :: "uuid option \<Rightarrow> (user_row \<Rightarrow> bool) \<Rightarrow> (db, AuthRecord list) prog" where
  "select_auth sc p =
     getS (\<lambda>d. map (\<lambda>u. toAuthRecord u (auth_role_text sc d u)) (filter p (rls us_tenant_id sc (db_users d))))"

definition user_conflict :: "string \<Rightarrow> js_error" where
  "user_conflict email =
     DomainErr (ConflictError (''a user with email '' @ [CHR 0x27] @ email @ [CHR 0x27] @ '' already exists''))"

definition insertUserWithMembership ::
  "uuid \<Rightarrow> millis \<Rightarrow> uuid option \<Rightarrow> NewUser \<Rightarrow> (db, User) prog" where
  "insertUserWithMembership newId dbNow sc input =
     tryCatch
       (andThen (tenant_param sc) (\<lambda>t.
        andThen (insert_users
          \<lparr> us_id = newId, us_tenant_id = t, us_email = nu_email input,
            us_password_hash = nu_passwordHash input, us_display_name = nu_displayName input,
            us_status = ''active'', us_is_platform_operator = False,
            us_created_at = dbNow, us_updated_at = dbNow \<rparr>) (\<lambda>inserted.
        andThen (insert_memberships
          \<lparr> mb_tenant_id = t, mb_user_id = us_id inserted, mb_role = nu_role input,
            mb_created_at = dbNow, mb_updated_at = dbNow \<rparr>) (\<lambda>_.
        andThen (select_user sc (\<lambda>u. us_id u = us_id inserted)) (\<lambda>rows.
        case first_row rows of
          None \<Rightarrow> throw (PlainError ''TypeError'')
        | Some u \<Rightarrow> ret u)))))
       (\<lambda>err. if isUniqueViolation err then throw (user_conflict (nu_email input)) else throw err)"

definition users_create ::
  "uuid_input \<Rightarrow> uuid \<Rightarrow> millis \<Rightarrow> string \<Rightarrow> NewUser \<Rightarrow> (db, User) prog" where
  "users_create uuid_in newId dbNow tenantId input =
     withTenantTx uuid_in tenantId (\<lambda>sc. insertUserWithMembership newId dbNow sc input)"

definition users_list :: "uuid_input \<Rightarrow> string \<Rightarrow> (db, User list) prog" where
  "users_list uuid_in tenantId = withTenantTx uuid_in tenantId (\<lambda>sc. select_user sc (\<lambda>_. True))"

definition users_findById :: "uuid_input \<Rightarrow> string \<Rightarrow> string \<Rightarrow> (db, User option) prog" where
  "users_findById uuid_in tenantId ident =
     withTenantTx uuid_in tenantId (\<lambda>sc.
       andThen (cast_uuid uuid_in ident) (\<lambda>u.
       andThen (select_user sc (\<lambda>r. us_id r = u)) (\<lambda>rows. ret (first_row rows))))"

definition users_update ::
  "uuid_input \<Rightarrow> millis \<Rightarrow> string \<Rightarrow> string \<Rightarrow> UserPatch \<Rightarrow> (db, User option) prog" where
  "users_update uuid_in dbNow tenantId ident patch =
     withTenantTx uuid_in tenantId (\<lambda>sc.
       andThen (cast_uuid uuid_in ident) (\<lambda>u.
       andThen (update_users sc (\<lambda>r. us_id r = u)
          (\<lambda>r. r\<lparr> us_display_name := (case up_displayName patch of None \<Rightarrow> us_display_name r | Some n \<Rightarrow> Some n),
                 us_status := coalesce (up_status patch) (us_status r),
                 us_password_hash := coalesce (up_passwordHash patch) (us_password_hash r),
                 us_updated_at := dbNow \<rparr>)) (\<lambda>updated.
       case first_row updated of
         None \<Rightarrow> ret None
       | Some _ \<Rightarrow>
           andThen
             (case up_role patch of
                None \<Rightarrow> ret ()
              | Some role \<Rightarrow>
                  andThen (update_memberships sc (\<lambda>m. mb_user_id m = u)
                             (\<lambda>m. m\<lparr> mb_role := role, mb_updated_at := dbNow \<rparr>)) (\<lambda>_. ret ())) (\<lambda>_.
           andThen (select_user sc (\<lambda>r. us_id r = u)) (\<lambda>rows.
           case first_row rows of
             None \<Rightarrow> throw (PlainError ''TypeError'')
           | Some user \<Rightarrow> ret (Some user))))))"

definition users_delete :: "uuid_input \<Rightarrow> millis \<Rightarrow> string \<Rightarrow> string \<Rightarrow> (db, bool) prog" where
  "users_delete uuid_in dbNow tenantId ident =
     withTenantTx uuid_in tenantId (\<lambda>sc.
       andThen (cast_uuid uuid_in ident) (\<lambda>u.
       andThen (getS (\<lambda>d. length (filter (\<lambda>r. us_id r = u) (rls us_tenant_id sc (db_users d))))) (\<lambda>rowCount.
       andThen (updS (delete_users dbNow (\<lambda>r. sc = Some (us_tenant_id r) \<and> us_id r = u))) (\<lambda>_.
       ret (0 < rowCount)))))"

definition users_findCredentialsByEmail ::
  "uuid_input \<Rightarrow> string \<Rightarrow> string \<Rightarrow> (db, AuthRecord option) prog" where
  "users_findCredentialsByEmail uuid_in tenantId email =
     withTenantTx uuid_in tenantId (\<lambda>sc.
       andThen (select_auth sc (\<lambda>r. us_email r = email)) (\<lambda>rows. ret (first_row rows)))"

definition users_findCredentialsById ::
  "uuid_input \<Rightarrow> string \<Rightarrow> string \<Rightarrow> (db, AuthRecord option) prog" where
  "users_findCredentialsById uuid_in tenantId ident =
     withTenantTx uuid_in tenantId (\<lambda>sc.
       andThen (cast_uuid uuid_in ident) (\<lambda>u.
       andThen (select_auth sc (\<lambda>r. us_id r = u)) (\<lambda>rows. ret (first_row rows))))"

section \<open>Refresh tokens\<close>

record NewRefreshToken =
  nr_familyId :: string
  nr_userId :: string
  nr_tokenHash :: bytes
  nr_expiresAt :: millis

record RefreshTokenRow =
  rr_id :: uuid
  rr_userId :: uuid
  rr_familyId :: uuid
  rr_tokenHash :: bytes
  rr_expiresAt :: millis
  rr_rotatedAt :: "millis option"
  rr_revokedAt :: "millis option"

definition toRefreshRow :: "refresh_token_row \<Rightarrow> RefreshTokenRow" where
  "toRefreshRow row =
     \<lparr> rr_id = rt_id row, rr_userId = rt_user_id row, rr_familyId = rt_family_id row,
       rr_tokenHash = rt_token_hash row, rr_expiresAt = rt_expires_at row,
       rr_rotatedAt = rt_rotated_at row, rr_revokedAt = rt_revoked_at row \<rparr>"

definition insert_refresh_token ::
  "uuid_input \<Rightarrow> uuid \<Rightarrow> millis \<Rightarrow> uuid option \<Rightarrow> NewRefreshToken \<Rightarrow> (db, uuid) prog" where
  "insert_refresh_token uuid_in newId dbNow sc input =
     andThen (tenant_param sc) (\<lambda>t.
     andThen (cast_uuid uuid_in (nr_userId input)) (\<lambda>u.
     andThen (cast_uuid uuid_in (nr_familyId input)) (\<lambda>f.
     andThen (insert_refresh_tokens
       \<lparr> rt_id = newId, rt_tenant_id = t, rt_user_id = u, rt_family_id = f,
         rt_token_hash = nr_tokenHash input, rt_issued_at = dbNow, rt_expires_at = nr_expiresAt input,
         rt_rotated_at = None, rt_revoked_at = None \<rparr>) (\<lambda>row.
     ret (rt_id row)))))"

definition refreshTokens_create ::
  "uuid_input \<Rightarrow> uuid \<Rightarrow> millis \<Rightarrow> string \<Rightarrow> NewRefreshToken \<Rightarrow> (db, uuid) prog" where
  "refreshTokens_create uuid_in newId dbNow tenantId input =
     withTenantTx uuid_in tenantId (\<lambda>sc. insert_refresh_token uuid_in newId dbNow sc input)"

definition refreshTokens_findById ::
  "uuid_input \<Rightarrow> string \<Rightarrow> string \<Rightarrow> (db, RefreshTokenRow option) prog" where
  "refreshTokens_findById uuid_in tenantId ident =
     withTenantTx uuid_in tenantId (\<lambda>sc.
       andThen (cast_uuid uuid_in ident) (\<lambda>u.
       andThen (select_refresh_tokens sc (\<lambda>r. rt_id r = u)) (\<lambda>rows.
       ret (map_option toRefreshRow (first_row rows)))))"

definition refreshTokens_rotate ::
  "uuid_input \<Rightarrow> uuid \<Rightarrow> millis \<Rightarrow> string \<Rightarrow> string \<Rightarrow> millis \<Rightarrow> NewRefreshToken \<Rightarrow> (db, uuid option) prog" where
  "refreshTokens_rotate uuid_in newId dbNow tenantId presentedId now successor =
     withTenantTx uuid_in tenantId (\<lambda>sc.
       andThen (cast_uuid uuid_in presentedId) (\<lambda>p.
       andThen (update_refresh_tokens sc
          (\<lambda>r. rt_id r = p \<and> rt_rotated_at r = None \<and> rt_revoked_at r = None)
          (\<lambda>r. r\<lparr> rt_rotated_at := Some now \<rparr>)) (\<lambda>consumed.
       if consumed = [] then ret None
       else andThen (insert_refresh_token uuid_in newId dbNow sc successor) (\<lambda>i. ret (Some i)))))"

definition refreshTokens_revokeFamily ::
  "uuid_input \<Rightarrow> string \<Rightarrow> string \<Rightarrow> millis \<Rightarrow> (db, unit) prog" where
  "refreshTokens_revokeFamily uuid_in tenantId familyId now =
     withTenantTx uuid_in tenantId (\<lambda>sc.
       andThen (cast_uuid uuid_in familyId) (\<lambda>f.
       andThen (update_refresh_tokens sc (\<lambda>r. rt_family_id r = f \<and> rt_revoked_at r = None)
          (\<lambda>r. r\<lparr> rt_revoked_at := Some now \<rparr>)) (\<lambda>_. ret ())))"

section \<open>API keys\<close>

record ApiKeyRecord =
  key_id :: string
  key_tenantId :: uuid
  key_name :: string
  key_scopes :: "string list"
  key_createdBy :: "uuid option"
  key_createdAt :: millis
  key_expiresAt :: "millis option"
  key_revokedAt :: "millis option"
  key_lastUsedAt :: "millis option"

record NewApiKey =
  nk_keyId :: string
  nk_name :: string
  nk_keyHash :: bytes
  nk_scopes :: "string list"
  nk_createdBy :: "string option"
  nk_expiresAt :: "millis option"

definition toKeyRecord :: "api_key_row \<Rightarrow> ApiKeyRecord" where
  "toKeyRecord row =
     \<lparr> key_id = ak_id row, key_tenantId = ak_tenant_id row, key_name = ak_name row,
       key_scopes = ak_scopes row, key_createdBy = ak_created_by row, key_createdAt = ak_created_at row,
       key_expiresAt = ak_expires_at row, key_revokedAt = ak_revoked_at row,
       key_lastUsedAt = ak_last_used_at row \<rparr>"

definition apiKeys_create ::
  "uuid_input \<Rightarrow> millis \<Rightarrow> string \<Rightarrow> NewApiKey \<Rightarrow> (db, ApiKeyRecord) prog" where
  "apiKeys_create uuid_in dbNow tenantId input =
     withTenantTx uuid_in tenantId (\<lambda>sc.
       andThen (tenant_param sc) (\<lambda>t.
       andThen (cast_uuid_opt uuid_in (nk_createdBy input)) (\<lambda>by.
       andThen (insert_api_keys
         \<lparr> ak_id = nk_keyId input, ak_tenant_id = t, ak_name = nk_name input, ak_key_hash = nk_keyHash input,
           ak_scopes = nk_scopes input, ak_created_by = by, ak_created_at = dbNow, ak_last_used_at = None,
           ak_expires_at = nk_expiresAt input, ak_revoked_at = None \<rparr>) (\<lambda>row.
       ret (toKeyRecord row)))))"

definition apiKeys_list :: "uuid_input \<Rightarrow> string \<Rightarrow> (db, ApiKeyRecord list) prog" where
  "apiKeys_list uuid_in tenantId =
     withTenantTx uuid_in tenantId (\<lambda>sc.
       andThen (select_api_keys sc (\<lambda>_. True)) (\<lambda>rows.
       ret (map toKeyRecord (newest_first ak_created_at rows))))"

definition apiKeys_revoke :: "uuid_input \<Rightarrow> string \<Rightarrow> string \<Rightarrow> millis \<Rightarrow> (db, bool) prog" where
  "apiKeys_revoke uuid_in tenantId keyId now =
     withTenantTx uuid_in tenantId (\<lambda>sc.
       andThen (update_api_keys sc (\<lambda>r. ak_id r = keyId \<and> ak_revoked_at r = None)
          (\<lambda>r. r\<lparr> ak_revoked_at := Some now \<rparr>)) (\<lambda>rows. ret (0 < length rows)))"

section \<open>Retention policies\<close>

record RetentionPolicy =
  ret_tenantId :: uuid
  ret_hotDays :: int
  ret_coldDays :: int
  ret_createdAt :: millis
  ret_updatedAt :: millis

record RetentionInput =
  ri_hotDays :: int
  ri_coldDays :: int
  ri_updatedBy :: "string option"

definition toPolicy :: "retention_row \<Rightarrow> RetentionPolicy" where
  "toPolicy row =
     \<lparr> ret_tenantId = rp_tenant_id row, ret_hotDays = rp_hot_days row, ret_coldDays = rp_cold_days row,
       ret_createdAt = rp_created_at row, ret_updatedAt = rp_updated_at row \<rparr>"

definition retention_get :: "uuid_input \<Rightarrow> string \<Rightarrow> (db, RetentionPolicy option) prog" where
  "retention_get uuid_in tenantId =
     withTenantTx uuid_in tenantId (\<lambda>sc.
       getS (\<lambda>d. map_option toPolicy (first_row (rls rp_tenant_id sc (db_retention d)))))"

text \<open>
  INSERT ... ON CONFLICT (tenant_id) DO UPDATE. The proposed row meets the check constraints
  before the conflict is looked for, and the update keeps \<open>created_at\<close>.
\<close>

definition upsert_retention :: "retention_row \<Rightarrow> (db, retention_row) prog" where
  "upsert_retention row = (\<lambda>d.
     case find (\<lambda>r. rp_tenant_id r = rp_tenant_id row) (db_retention d) of
       None \<Rightarrow>
         insert_stmt retention_checks retention_indexes
           (\<lambda>d. [(''retention_policies_tenant_id_fkey'', tenant_exists (rp_tenant_id row) d),
                 (''retention_policies_updated_by_fkey'', user_exists (rp_updated_by row) d)])
           db_retention db_retention_update row d
     | Some old \<Rightarrow>
         (let new = old\<lparr> rp_hot_days := rp_hot_days row, rp_cold_days := rp_cold_days row,
                         rp_updated_by := rp_updated_by row, rp_updated_at := rp_updated_at row \<rparr>
          in case write_rows retention_checks retention_indexes
                 (map (\<lambda>r. if rp_tenant_id r = rp_tenant_id row then new else r) (db_retention d)) of
               Inl e \<Rightarrow> (Inl e, d)
             | Inr rows \<Rightarrow>
                 if user_exists (rp_updated_by row) d then (Inr new, db_retention_update (\<lambda>_. rows) d)
                 else (Inl (PgError ''23503'' ''retention_policies_updated_by_fkey''), d)))"

definition retention_upsert ::
  "uuid_input \<Rightarrow> millis \<Rightarrow> string \<Rightarrow> RetentionInput \<Rightarrow> (db, RetentionPolicy) prog" where
  "retention_upsert uuid_in dbNow tenantId input =
     withTenantTx uuid_in tenantId (\<lambda>sc.
       andThen (tenant_param sc) (\<lambda>t.
       andThen (cast_int4 (ri_hotDays input)) (\<lambda>hot.
       andThen (cast_int4 (ri_coldDays input)) (\<lambda>cold.
       andThen (cast_uuid_opt uuid_in (ri_updatedBy input)) (\<lambda>by.
       andThen (upsert_retention
         \<lparr> rp_tenant_id = t, rp_hot_days = hot, rp_cold_days = cold, rp_updated_by = by,
           rp_created_at = dbNow, rp_updated_at = dbNow \<rparr>) (\<lambda>row.
       ret (toPolicy row)))))))"

end
