(* ===== verification/Content_Repositories.thy ===== *)
theory Content_Repositories
  imports Repositories
begin

text \<open>
  The repositories of saved queries, dashboards and alert rules
  (\<^verbatim>\<open>adapters/postgres/saved-query-repository.ts\<close>, \<^verbatim>\<open>dashboard-repository.ts\<close>,
  \<^verbatim>\<open>alert-rule-repository.ts\<close>). The field of a patch is \<open>None\<close> when it is undefined; a nullable
  one is an option of an option.
\<close>

definition set_if :: "'v option \<Rightarrow> 'v \<Rightarrow> 'v" where
  "set_if v old = (case v of None \<Rightarrow> old | Some x \<Rightarrow> x)"

section \<open>Saved queries\<close>

record SavedQuery =
  sqy_id :: uuid
  sqy_tenantId :: uuid
  sqy_name :: string
  sqy_description :: "string option"
  sqy_queryText :: string
  sqy_filters :: SavedQueryFilters
  sqy_timeRange :: "(string \<times> json) list"
  sqy_createdBy :: "uuid option"
  sqy_createdAt :: millis
  sqy_updatedAt :: millis

record NewSavedQuery =
  nsq_name :: string
  nsq_description :: "string option"
  nsq_queryText :: string
  nsq_filters :: SavedQueryFilters
  nsq_timeRange :: "(string \<times> json) list"
  nsq_createdBy :: "string option"

record SavedQueryPatch =
  psq_name :: "string option"
  psq_description :: "string option option"
  psq_queryText :: "string option"
  psq_filters :: "SavedQueryFilters option"
  psq_timeRange :: "(string \<times> json) list option"

definition toSavedQuery :: "saved_query_row \<Rightarrow> SavedQuery" where
  "toSavedQuery row =
     \<lparr> sqy_id = sq_id row, sqy_tenantId = sq_tenant_id row, sqy_name = sq_name row,
       sqy_description = sq_description row, sqy_queryText = sq_query_text row,
       sqy_filters = sq_filters row, sqy_timeRange = sq_time_range row, sqy_createdBy = sq_created_by row,
       sqy_createdAt = sq_created_at row, sqy_updatedAt = sq_updated_at row \<rparr>"

definition savedQueries_create ::
  "uuid_input \<Rightarrow> uuid \<Rightarrow> millis \<Rightarrow> string \<Rightarrow> NewSavedQuery \<Rightarrow> (db, SavedQuery) prog" where
  "savedQueries_create uuid_in newId dbNow tenantId input =
     withTenantTx uuid_in tenantId (\<lambda>sc.
       andThen (tenant_param sc) (\<lambda>t.
       andThen (cast_uuid_opt uuid_in (nsq_createdBy input)) (\<lambda>by.
       andThen (insert_saved_queries
         \<lparr> sq_id = newId, sq_tenant_id = t, sq_name = nsq_name input, sq_description = nsq_description input,
           sq_query_text = nsq_queryText input, sq_filters = nsq_filters input,
           sq_time_range = nsq_timeRange input, sq_created_by = by,
           sq_created_at = dbNow, sq_updated_at = dbNow \<rparr>) (\<lambda>row.
       ret (toSavedQuery row)))))"

definition savedQueries_list :: "uuid_input \<Rightarrow> string \<Rightarrow> (db, SavedQuery list) prog" where
  "savedQueries_list uuid_in tenantId =
     withTenantTx uuid_in tenantId (\<lambda>sc.
       andThen (select_saved_queries sc (\<lambda>_. True)) (\<lambda>rows.
       ret (map toSavedQuery (newest_first sq_created_at rows))))"

definition savedQueries_findById :: "uuid_input \<Rightarrow> string \<Rightarrow> string \<Rightarrow> (db, SavedQuery option) prog" where
  "savedQueries_findById uuid_in tenantId ident =
     withTenantTx uuid_in tenantId (\<lambda>sc.
       andThen (cast_uuid uuid_in ident) (\<lambda>i.
       andThen (select_saved_queries sc (\<lambda>r. sq_id r = i)) (\<lambda>rows.
       ret (map_option toSavedQuery (first_row rows)))))"

definition savedQueries_update ::
  "uuid_input \<Rightarrow> millis \<Rightarrow> string \<Rightarrow> string \<Rightarrow> SavedQueryPatch \<Rightarrow> (db, SavedQuery option) prog" where
  "savedQueries_update uuid_in dbNow tenantId ident patch =
     (if psq_name patch = None \<and> psq_description patch = None \<and> psq_queryText patch = None
         \<and> psq_filters patch = None \<and> psq_timeRange patch = None
      then savedQueries_findById uuid_in tenantId ident
      else withTenantTx uuid_in tenantId (\<lambda>sc.
        andThen (cast_uuid uuid_in ident) (\<lambda>i.
        andThen (update_saved_queries sc (\<lambda>r. sq_id r = i)
          (\<lambda>r. r\<lparr> sq_name := set_if (psq_name patch) (sq_name r),
                 sq_description := set_if (psq_description patch) (sq_description r),
                 sq_query_text := set_if (psq_queryText patch) (sq_query_text r),
                 sq_filters := set_if (psq_filters patch) (sq_filters r),
                 sq_time_range := set_if (psq_timeRange patch) (sq_time_range r),
                 sq_updated_at := dbNow \<rparr>)) (\<lambda>rows.
        ret (map_option toSavedQuery (first_row rows))))))"

definition savedQueries_delete :: "uuid_input \<Rightarrow> string \<Rightarrow> string \<Rightarrow> (db, bool) prog" where
  "savedQueries_delete uuid_in tenantId ident =
     withTenantTx uuid_in tenantId (\<lambda>sc.
       andThen (cast_uuid uuid_in ident) (\<lambda>i.
       andThen (delete_saved_queries sc (\<lambda>r. sq_id r = i)) (\<lambda>rowCount. ret (0 < rowCount))))"

section \<open>Dashboards\<close>

record Dashboard =
  dash_id :: uuid
  dash_tenantId :: uuid
  dash_name :: string
  dash_description :: "string option"
  dash_layout :: DashboardLayout
  dash_createdBy :: "uuid option"
  dash_createdAt :: millis
  dash_updatedAt :: millis

record NewDashboard =
  nd_name :: string
  nd_description :: "string option"
  nd_layout :: DashboardLayout
  nd_createdBy :: "string option"

record DashboardPatch =
  pd_name :: "string option"
  pd_description :: "string option option"
  pd_layout :: "DashboardLayout option"

definition toDashboard :: "dashboard_row \<Rightarrow> Dashboard" where
  "toDashboard row =
     \<lparr> dash_id = da_id row, dash_tenantId = da_tenant_id row, dash_name = da_name row,
       dash_description = da_description row, dash_layout = da_layout row,
       dash_createdBy = da_created_by row, dash_createdAt = da_created_at row,
       dash_updatedAt = da_updated_at row \<rparr>"

definition dashboards_create ::
  "uuid_input \<Rightarrow> uuid \<Rightarrow> millis \<Rightarrow> string \<Rightarrow> NewDashboard \<Rightarrow> (db, Dashboard) prog" where
  "dashboards_create uuid_in newId dbNow tenantId input =
     withTenantTx uuid_in tenantId (\<lambda>sc.
       andThen (tenant_param sc) (\<lambda>t.
       andThen (cast_uuid_opt uuid_in (nd_createdBy input)) (\<lambda>by.
       andThen (insert_dashboards
         \<lparr> da_id = newId, da_tenant_id = t, da_name = nd_name input, da_description = nd_description input,
           da_layout = nd_layout input, da_created_by = by, da_created_at = dbNow,
           da_updated_at = dbNow \<rparr>) (\<lambda>row.
       ret (toDashboard row)))))"

definition dashboards_list :: "uuid_input \<Rightarrow> string \<Rightarrow> (db, Dashboard list) prog" where
  "dashboards_list uuid_in tenantId =
     withTenantTx uuid_in tenantId (\<lambda>sc.
       andThen (select_dashboards sc (\<lambda>_. True)) (\<lambda>rows.
       ret (map toDashboard (newest_first da_created_at rows))))"

definition dashboards_findById :: "uuid_input \<Rightarrow> string \<Rightarrow> string \<Rightarrow> (db, Dashboard option) prog" where
  "dashboards_findById uuid_in tenantId ident =
     withTenantTx uuid_in tenantId (\<lambda>sc.
       andThen (cast_uuid uuid_in ident) (\<lambda>i.
       andThen (select_dashboards sc (\<lambda>r. da_id r = i)) (\<lambda>rows.
       ret (map_option toDashboard (first_row rows)))))"

definition dashboards_update ::
  "uuid_input \<Rightarrow> millis \<Rightarrow> string \<Rightarrow> string \<Rightarrow> DashboardPatch \<Rightarrow> (db, Dashboard option) prog" where
  "dashboards_update uuid_in dbNow tenantId ident patch =
     (if pd_name patch = None \<and> pd_description patch = None \<and> pd_layout patch = None
      then dashboards_findById uuid_in tenantId ident
      else withTenantTx uuid_in tenantId (\<lambda>sc.
        andThen (cast_uuid uuid_in ident) (\<lambda>i.
        andThen (update_dashboards sc (\<lambda>r. da_id r = i)
          (\<lambda>r. r\<lparr> da_name := set_if (pd_name patch) (da_name r),
                 da_description := set_if (pd_description patch) (da_description r),
                 da_layout := set_if (pd_layout patch) (da_layout r),
                 da_updated_at := dbNow \<rparr>)) (\<lambda>rows.
        ret (map_option toDashboard (first_row rows))))))"

definition dashboards_delete :: "uuid_input \<Rightarrow> string \<Rightarrow> string \<Rightarrow> (db, bool) prog" where
  "dashboards_delete uuid_in tenantId ident =
     withTenantTx uuid_in tenantId (\<lambda>sc.
       andThen (cast_uuid uuid_in ident) (\<lambda>i.
       andThen (delete_dashboards sc (\<lambda>r. da_id r = i)) (\<lambda>rowCount. ret (0 < rowCount))))"

section \<open>Alert rules\<close>

record AlertRule =
  rule_id :: uuid
  rule_tenantId :: uuid
  rule_name :: string
  rule_savedQueryId :: "uuid option"
  rule_query :: RuleQuery
  rule_comparator :: alert_comparator
  rule_threshold :: rat
  rule_windowSeconds :: int
  rule_severity :: string
  rule_enabled :: bool
  rule_notifyChannels :: "NotifyChannel list"
  rule_state :: alert_state
  rule_lastEvaluatedAt :: "millis option"
  rule_lastTriggeredAt :: "millis option"
  rule_createdBy :: "uuid option"
  rule_createdAt :: millis
  rule_updatedAt :: millis

record NewAlertRule =
  nar_name :: string
  nar_savedQueryId :: "string option"
  nar_query :: RuleQuery
  nar_comparator :: alert_comparator
  nar_threshold :: rat
  nar_windowSeconds :: int
  nar_severity :: string
  nar_enabled :: bool
  nar_notifyChannels :: "NotifyChannel list"
  nar_createdBy :: "string option"

record AlertRulePatch =
  par_name :: "string option"
  par_savedQueryId :: "string option option"
  par_query :: "RuleQuery option"
  par_comparator :: "alert_comparator option"
  par_threshold :: "rat option"
  par_windowSeconds :: "int option"
  par_severity :: "string option"
  par_enabled :: "bool option"
  par_notifyChannels :: "NotifyChannel list option"

definition toRule :: "alert_rule_row \<Rightarrow> AlertRule" where
  "toRule row =
     \<lparr> rule_id = ar_id row, rule_tenantId = ar_tenant_id row, rule_name = ar_name row,
       rule_savedQueryId = ar_saved_query_id row, rule_query = ar_query row,
       rule_comparator = ar_comparator row, rule_threshold = ar_threshold row,
       rule_windowSeconds = ar_window_seconds row, rule_severity = ar_severity row,
       rule_enabled = ar_enabled row, rule_notifyChannels = ar_notify_channels row,
       rule_state = ar_state row, rule_lastEvaluatedAt = ar_last_evaluated_at row,
       rule_lastTriggeredAt = ar_last_triggered_at row, rule_createdBy = ar_created_by row,
       rule_createdAt = ar_created_at row, rule_updatedAt = ar_updated_at row \<rparr>"

definition alertRules_create ::
  "uuid_input \<Rightarrow> uuid \<Rightarrow> millis \<Rightarrow> string \<Rightarrow> NewAlertRule \<Rightarrow> (db, AlertRule) prog" where
  "alertRules_create uuid_in newId dbNow tenantId input =
     withTenantTx uuid_in tenantId (\<lambda>sc.
       andThen (tenant_param sc) (\<lambda>t.
       andThen (cast_uuid_opt uuid_in (nar_savedQueryId input)) (\<lambda>sqid.
       andThen (cast_int4 (nar_windowSeconds input)) (\<lambda>window.
       andThen (cast_uuid_opt uuid_in (nar_createdBy input)) (\<lambda>by.
       andThen (insert_alert_rules
         \<lparr> ar_id = newId, ar_tenant_id = t, ar_name = nar_name input, ar_saved_query_id = sqid,
           ar_query = nar_query input, ar_comparator = nar_comparator input,
           ar_threshold = nar_threshold input, ar_window_seconds = window,
           ar_severity = nar_severity input, ar_enabled = nar_enabled input,
           ar_notify_channels = nar_notifyChannels input, ar_state = AS_ok,
           ar_last_evaluated_at = None, ar_last_triggered_at = None, ar_created_by = by,
           ar_created_at = dbNow, ar_updated_at = dbNow \<rparr>) (\<lambda>row.
       ret (toRule row)))))))"

definition alertRules_list :: "uuid_input \<Rightarrow> string \<Rightarrow> (db, AlertRule list) prog" where
  "alertRules_list uuid_in tenantId =
     withTenantTx uuid_in tenantId (\<lambda>sc.
       andThen (select_alert_rules sc (\<lambda>_. True)) (\<lambda>rows.
       ret (map toRule (newest_first ar_created_at rows))))"

definition alertRules_findById :: "uuid_input \<Rightarrow> string \<Rightarrow> string \<Rightarrow> (db, AlertRule option) prog" where
  "alertRules_findById uuid_in tenantId ident =
     withTenantTx uuid_in tenantId (\<lambda>sc.
       andThen (cast_uuid uuid_in ident) (\<lambda>i.
       andThen (select_alert_rules sc (\<lambda>r. ar_id r = i)) (\<lambda>rows.
       ret (map_option toRule (first_row rows)))))"

text \<open>The bound parameters of a patch are cast when the statement is executed.\<close>

definition cast_patch_savedQueryId ::
  "uuid_input \<Rightarrow> string option option \<Rightarrow> (db, uuid option option) prog" where
  "cast_patch_savedQueryId uuid_in v =
     (case v of None \<Rightarrow> ret None
      | Some w \<Rightarrow> andThen (cast_uuid_opt uuid_in w) (\<lambda>u. ret (Some u)))"

definition cast_patch_window :: "int option \<Rightarrow> (db, int option) prog" where
  "cast_patch_window v = (case v of None \<Rightarrow> ret None | Some n \<Rightarrow> andThen (cast_int4 n) (\<lambda>m. ret (Some m)))"

definition alertRules_update ::
  "uuid_input \<Rightarrow> millis \<Rightarrow> string \<Rightarrow> string \<Rightarrow> AlertRulePatch \<Rightarrow> (db, AlertRule option) prog" where
  "alertRules_update uuid_in dbNow tenantId ident patch =
     (if par_name patch = None \<and> par_savedQueryId patch = None \<and> par_query patch = None
         \<and> par_comparator patch = None \<and> par_threshold patch = None \<and> par_windowSeconds patch = None
         \<and> par_severity patch = None \<and> par_enabled patch = None \<and> par_notifyChannels patch = None
      then alertRules_findById uuid_in tenantId ident
      else withTenantTx uuid_in tenantId (\<lambda>sc.
        andThen (cast_patch_savedQueryId uuid_in (par_savedQueryId patch)) (\<lambda>sqid.
        andThen (cast_patch_window (par_windowSeconds patch)) (\<lambda>window.
        andThen (cast_uuid uuid_in ident) (\<lambda>i.
        andThen (update_alert_rules sc (\<lambda>r. ar_id r = i)
          (\<lambda>r. r\<lparr> ar_name := set_if (par_name patch) (ar_name r),
                 ar_saved_query_id := set_if sqid (ar_saved_query_id r),
                 ar_query := set_if (par_query patch) (ar_query r),
                 ar_comparator := set_if (par_comparator patch) (ar_comparator r),
                 ar_threshold := set_if (par_threshold patch) (ar_threshold r),
                 ar_window_seconds := set_if window (ar_window_seconds r),
                 ar_severity := set_if (par_severity patch) (ar_severity r),
                 ar_enabled := set_if (par_enabled patch) (ar_enabled r),
                 ar_notify_channels := set_if (par_notifyChannels patch) (ar_notify_channels r),
                 ar_updated_at := dbNow \<rparr>)) (\<lambda>rows.
        ret (map_option toRule (first_row rows))))))))"

definition alertRules_delete :: "uuid_input \<Rightarrow> string \<Rightarrow> string \<Rightarrow> (db, bool) prog" where
  "alertRules_delete uuid_in tenantId ident =
     withTenantTx uuid_in tenantId (\<lambda>sc.
       andThen (cast_uuid uuid_in ident) (\<lambda>i.
       andThen (delete_alert_rules sc (\<lambda>r. ar_id r = i)) (\<lambda>rowCount. ret (0 < rowCount))))"

end
