(* ===== verification/Invite_Repositories.thy ===== *)
theory Invite_Repositories
  imports Repositories
begin

text \<open>
  The repositories of invites and linked OAuth identities and the unit of work that provisions
  a user from an invite (\<^verbatim>\<open>adapters/postgres/invite-repository.ts\<close>,
  \<^verbatim>\<open>oauth-identity-repository.ts\<close>, \<^verbatim>\<open>pg-invite-provisioner.ts\<close>).
\<close>

section \<open>Invites\<close>

definition INVITE_STATUSES :: "string list" where
  "INVITE_STATUSES = [''pending'', ''consumed'', ''revoked'']"

definition isInviteStatus :: "string \<Rightarrow> bool" where
  "isInviteStatus value \<longleftrightarrow> value \<in> set INVITE_STATUSES"

record Invite =
  inv_id :: uuid
  inv_tenantId :: uuid
  inv_email :: string
  inv_role :: string
  inv_status :: string
  inv_createdBy :: "uuid option"
  inv_expiresAt :: millis
  inv_consumedAt :: "millis option"
  inv_createdAt :: millis
  inv_updatedAt :: millis

record InviteRef =
  ref_id :: uuid
  ref_tenantId :: uuid
  ref_email :: string

record ConsumedInvite =
  ci_inviteId :: uuid
  ci_role :: string
  ci_email :: string
  ci_consumedAt :: millis

record NewInvite =
  ni_role :: string
  ni_email :: string
  ni_secretHash :: bytes
  ni_invitedBy :: "string option"
  ni_expiresAt :: millis

definition toInvite :: "invite_row \<Rightarrow> ('s, Invite) prog" where
  "toInvite row =
     (if \<not> isInviteStatus (iv_status row)
      then throw (PlainError (''invite '' @ iv_id row @ '' has an unrecognized status: '' @ iv_status row))
      else ret \<lparr> inv_id = iv_id row, inv_tenantId = iv_tenant_id row, inv_email = iv_email row,
                 inv_role = iv_role row, inv_status = iv_status row, inv_createdBy = iv_created_by row,
                 inv_expiresAt = iv_expires_at row, inv_consumedAt = iv_consumed_at row,
                 inv_createdAt = iv_created_at row, inv_updatedAt = iv_updated_at row \<rparr>)"

fun toInvites :: "invite_row list \<Rightarrow> ('s, Invite list) prog" where
  "toInvites [] = ret []"
| "toInvites (r # rs) = andThen (toInvite r) (\<lambda>i. andThen (toInvites rs) (\<lambda>is. ret (i # is)))"

definition consumable :: "bytes \<Rightarrow> string \<Rightarrow> millis \<Rightarrow> invite_row \<Rightarrow> bool" where
  "consumable tokenHash email now r \<longleftrightarrow>
     iv_token_hash r = tokenHash \<and> iv_email r = email \<and> iv_status r = ''pending'' \<and> now < iv_expires_at r"

definition consumeWithClient ::
  "uuid option \<Rightarrow> millis \<Rightarrow> bytes \<Rightarrow> string \<Rightarrow> millis \<Rightarrow> (db, ConsumedInvite option) prog" where
  "consumeWithClient sc dbNow tokenHash email now =
     andThen (update_invites sc (consumable tokenHash email now)
       (\<lambda>r. r\<lparr> iv_status := ''consumed'', iv_consumed_at := Some now, iv_updated_at := dbNow \<rparr>)) (\<lambda>rows.
     case first_row rows of
       None \<Rightarrow> ret None
     | Some row \<Rightarrow> ret (Some \<lparr> ci_inviteId = iv_id row, ci_role = iv_role row, ci_email = iv_email row,
                               ci_consumedAt = now \<rparr>))"

definition invites_create ::
  "uuid_input \<Rightarrow> uuid \<Rightarrow> millis \<Rightarrow> string \<Rightarrow> NewInvite \<Rightarrow> (db, Invite) prog" where
  "invites_create uuid_in newId dbNow tenantId input =
     withTenantTx uuid_in tenantId (\<lambda>sc.
       andThen (tenant_param sc) (\<lambda>t.
       andThen (cast_uuid_opt uuid_in (ni_invitedBy input)) (\<lambda>by.
       andThen (insert_invites
         \<lparr> iv_id = newId, iv_tenant_id = t, iv_email = ni_email input, iv_role = ni_role input,
           iv_token_hash = ni_secretHash input, iv_status = ''pending'', iv_expires_at = ni_expiresAt input,
           iv_created_by = by, iv_consumed_at = None, iv_created_at = dbNow, iv_updated_at = dbNow \<rparr>) (\<lambda>row.
       toInvite row))))"

definition invites_findValidByTokenHash ::
  "uuid_input \<Rightarrow> string \<Rightarrow> bytes \<Rightarrow> millis \<Rightarrow> (db, InviteRef option) prog" where
  "invites_findValidByTokenHash uuid_in tenantId tokenHash now =
     withTenantTx uuid_in tenantId (\<lambda>sc.
       andThen (select_invites sc
         (\<lambda>r. iv_token_hash r = tokenHash \<and> iv_status r = ''pending'' \<and> now < iv_expires_at r)) (\<lambda>rows.
       ret (map_option (\<lambda>row. \<lparr> ref_id = iv_id row, ref_tenantId = iv_tenant_id row, ref_email = iv_email row \<rparr>)
              (first_row rows))))"

definition invites_consume ::
  "uuid_input \<Rightarrow> millis \<Rightarrow> string \<Rightarrow> bytes \<Rightarrow> string \<Rightarrow> millis \<Rightarrow> (db, ConsumedInvite option) prog" where
  "invites_consume uuid_in dbNow tenantId tokenHash email now =
     withTenantTx uuid_in tenantId (\<lambda>sc. consumeWithClient sc dbNow tokenHash email now)"

definition invites_countPending :: "uuid_input \<Rightarrow> string \<Rightarrow> (db, int) prog" where
  "invites_countPending uuid_in tenantId =
     withTenantTx uuid_in tenantId (\<lambda>sc.
       andThen (select_invites sc (\<lambda>r. iv_status r = ''pending'')) (\<lambda>rows. ret (int (length rows))))"

definition invites_listByTenant :: "uuid_input \<Rightarrow> string \<Rightarrow> (db, Invite list) prog" where
  "invites_listByTenant uuid_in tenantId =
     withTenantTx uuid_in tenantId (\<lambda>sc.
       andThen (select_invites sc (\<lambda>_. True)) (\<lambda>rows. toInvites (newest_first iv_created_at rows)))"

definition invites_revoke :: "uuid_input \<Rightarrow> millis \<Rightarrow> string \<Rightarrow> string \<Rightarrow> millis \<Rightarrow> (db, bool) prog" where
  "invites_revoke uuid_in dbNow tenantId ident now =
     withTenantTx uuid_in tenantId (\<lambda>sc.
       andThen (cast_uuid uuid_in ident) (\<lambda>i.
       andThen (update_invites sc (\<lambda>r. iv_id r = i \<and> iv_status r = ''pending'')
         (\<lambda>r. r\<lparr> iv_status := ''revoked'', iv_updated_at := dbNow \<rparr>)) (\<lambda>rows. ret (0 < length rows))))"

section \<open>Linked identities\<close>

record OAuthIdentity =
  oid_id :: uuid
  oid_tenantId :: uuid
  oid_userId :: uuid
  oid_provider :: oauth_provider
  oid_providerSub :: string
  oid_email :: string
  oid_lastLoginAt :: "millis option"
  oid_createdAt :: millis
  oid_updatedAt :: millis

record OAuthIdentityRef =
  oref_id :: uuid
  oref_userId :: uuid

record NewOAuthIdentity =
  noi_userId :: string
  noi_provider :: oauth_provider
  noi_providerSub :: string
  noi_email :: string

definition toIdentity :: "oauth_identity_row \<Rightarrow> OAuthIdentity" where
  "toIdentity row =
     \<lparr> oid_id = oi_id row, oid_tenantId = oi_tenant_id row, oid_userId = oi_user_id row,
       oid_provider = oi_provider row, oid_providerSub = oi_provider_sub row, oid_email = oi_email row,
       oid_lastLoginAt = oi_last_login_at row, oid_createdAt = oi_created_at row,
       oid_updatedAt = oi_updated_at row \<rparr>"

definition identity_ref :: "oauth_identity_row \<Rightarrow> OAuthIdentityRef" where
  "identity_ref row = \<lparr> oref_id = oi_id row, oref_userId = oi_user_id row \<rparr>"

text \<open>
  A failing INSERT has no effect, which is what ROLLBACK TO SAVEPOINT restores; the error is
  then resolved by looking for the identity that won.
\<close>

definition linkFirstWithClient ::
  "uuid_input \<Rightarrow> uuid \<Rightarrow> millis \<Rightarrow> uuid option \<Rightarrow> NewOAuthIdentity \<Rightarrow> (db, OAuthIdentityRef) prog" where
  "linkFirstWithClient uuid_in newId dbNow sc input =
     tryCatch
       (andThen (tenant_param sc) (\<lambda>t.
        andThen (cast_uuid uuid_in (noi_userId input)) (\<lambda>u.
        andThen (insert_oauth_identities
          \<lparr> oi_id = newId, oi_tenant_id = t, oi_user_id = u, oi_provider = noi_provider input,
            oi_provider_sub = noi_providerSub input, oi_email = noi_email input,
            oi_last_login_at = None, oi_created_at = dbNow, oi_updated_at = dbNow \<rparr>) (\<lambda>row.
        ret (identity_ref row)))))
       (\<lambda>err. if isUniqueViolation err
              then andThen (select_oauth_identities sc
                     (\<lambda>r. oi_provider r = noi_provider input \<and> oi_provider_sub r = noi_providerSub input)) (\<lambda>rows.
                   case first_row rows of
                     None \<Rightarrow> throw (DomainErr (ConflictError
                       ''user is already linked to a different identity for this provider''))
                   | Some row \<Rightarrow> ret (identity_ref row))
              else throw err)"

definition oauthIdentities_findByProviderSub ::
  "uuid_input \<Rightarrow> string \<Rightarrow> oauth_provider \<Rightarrow> string \<Rightarrow> (db, OAuthIdentityRef option) prog" where
  "oauthIdentities_findByProviderSub uuid_in tenantId provider providerSub =
     withTenantTx uuid_in tenantId (\<lambda>sc.
       andThen (select_oauth_identities sc (\<lambda>r. oi_provider r = provider \<and> oi_provider_sub r = providerSub))
         (\<lambda>rows. ret (map_option identity_ref (first_row rows))))"

definition oauthIdentities_linkFirst ::
  "uuid_input \<Rightarrow> uuid \<Rightarrow> millis \<Rightarrow> string \<Rightarrow> NewOAuthIdentity \<Rightarrow> (db, OAuthIdentityRef) prog" where
  "oauthIdentities_linkFirst uuid_in newId dbNow tenantId input =
     withTenantTx uuid_in tenantId (\<lambda>sc. linkFirstWithClient uuid_in newId dbNow sc input)"

definition oauthIdentities_touchLastLogin ::
  "uuid_input \<Rightarrow> millis \<Rightarrow> string \<Rightarrow> string \<Rightarrow> millis \<Rightarrow> (db, unit) prog" where
  "oauthIdentities_touchLastLogin uuid_in dbNow tenantId ident now =
     withTenantTx uuid_in tenantId (\<lambda>sc.
       andThen (cast_uuid uuid_in ident) (\<lambda>i.
       andThen (update_oauth_identities sc (\<lambda>r. oi_id r = i)
         (\<lambda>r. r\<lparr> oi_last_login_at := Some now, oi_updated_at := dbNow \<rparr>)) (\<lambda>_. ret ())))"

definition oauthIdentities_findById ::
  "uuid_input \<Rightarrow> string \<Rightarrow> string \<Rightarrow> (db, OAuthIdentity option) prog" where
  "oauthIdentities_findById uuid_in tenantId ident =
     withTenantTx uuid_in tenantId (\<lambda>sc.
       andThen (cast_uuid uuid_in ident) (\<lambda>i.
       andThen (select_oauth_identities sc (\<lambda>r. oi_id r = i)) (\<lambda>rows.
       ret (map_option toIdentity (first_row rows)))))"

section \<open>Provisioning from an invite\<close>

definition DISABLED_PASSWORD :: string where "DISABLED_PASSWORD = ''!disabled''"

definition translateRole :: "string \<Rightarrow> membership_role" where
  "translateRole inviteRole = (if inviteRole = ''admin'' then MR_tenant_admin else MR_member)"

record InviteProvisionInput =
  ip_email :: string
  ip_providerSub :: string
  ip_inviteTokenHash :: bytes
  ip_now :: millis

text \<open>The transaction of \<open>provisionFromInvite\<close>: consume, create, link.\<close>

definition provision_tx ::
  "uuid_input \<Rightarrow> uuid \<Rightarrow> uuid \<Rightarrow> millis \<Rightarrow> string \<Rightarrow> InviteProvisionInput \<Rightarrow> (db, uuid option) prog" where
  "provision_tx uuid_in newUserId newLinkId dbNow tenantId input =
     withTenantTx uuid_in tenantId (\<lambda>sc.
       andThen (consumeWithClient sc dbNow (ip_inviteTokenHash input) (ip_email input) (ip_now input)) (\<lambda>consumed.
       case consumed of
         None \<Rightarrow> ret None
       | Some c \<Rightarrow>
           andThen (insertUserWithMembership newUserId dbNow sc
             \<lparr> nu_email = ip_email input, nu_passwordHash = DISABLED_PASSWORD, nu_displayName = None,
               nu_role = translateRole (ci_role c) \<rparr>) (\<lambda>user.
           andThen (linkFirstWithClient uuid_in newLinkId dbNow sc
             \<lparr> noi_userId = user_id user, noi_provider = google, noi_providerSub = ip_providerSub input,
               noi_email = ip_email input \<rparr>) (\<lambda>link.
           if oref_userId link \<noteq> user_id user
           then throw (DomainErr (ConflictError
                  ''Google account is already linked to a different user in this tenant''))
           else ret (Some (user_id user))))))"

fun isConflictError :: "js_error \<Rightarrow> bool" where
  "isConflictError (DomainErr (ConflictError m)) = True"
| "isConflictError e = False"

text \<open>
  The database part of \<open>provisionFromInvite\<close>; the audit event the adapter emits after a
  success is emitted by the caller in \<^verbatim>\<open>Oidc\<close>, where the audit log is part of the state.
\<close>

definition provisionFromInvite_db ::
  "uuid_input \<Rightarrow> uuid \<Rightarrow> uuid \<Rightarrow> millis \<Rightarrow> string \<Rightarrow> InviteProvisionInput \<Rightarrow> (db, uuid option) prog" where
  "provisionFromInvite_db uuid_in newUserId newLinkId dbNow tenantId input =
     tryCatch (provision_tx uuid_in newUserId newLinkId dbNow tenantId input)
       (\<lambda>err. if isConflictError err then ret None else throw err)"

end
