(* ===== verification/Repository_Laws.thy ===== *)
theory Repository_Laws
  imports Content_Repositories Invite_Repositories
begin

text \<open>
  Two laws of every repository operation: it keeps the constraints of the database, and it
  changes rows of the armed tenant only. Both are proved by walking the program of the
  operation with the rules of \<^verbatim>\<open>Store_Laws\<close> and \<^verbatim>\<open>Isolation_Laws\<close>.
\<close>

section \<open>Repositories keep the constraints\<close>

lemma keeps_updS [keeps_intros]: "(\<And>s. R s (f s)) \<Longrightarrow> keeps R (updS f)"
  by (simp add: keeps_def)

lemmas keeps_ok_updates =
  keeps_db_update_users keeps_db_update_memberships keeps_db_update_api_keys
  keeps_db_update_saved_queries keeps_db_update_dashboards keeps_db_update_alert_rules
  keeps_db_update_refresh_tokens keeps_db_update_oauth_identities keeps_db_update_invites

lemma insert_tenants_ok [keeps_intros]: "keeps preserves_db (insert_tenants row)"
proof -
  have "refs_ok (d\<lparr>db_tenants := db_tenants d @ [row]\<rparr>)" if "refs_ok d" for d
  proof -
    let ?d = "d\<lparr>db_tenants := db_tenants d @ [row]\<rparr>"
    have "tenant_exists t d \<Longrightarrow> tenant_exists t ?d" for t by (simp add: tenant_exists_def)
    moreover have "user_exists u ?d = user_exists u d" "tenant_user_exists t u' ?d = tenant_user_exists t u' d" for u t u'
      by (simp_all add: user_exists_def tenant_user_exists_def split: option.split)
    ultimately show ?thesis using that by (simp add: refs_ok_def)
  qed
  then show ?thesis
    unfolding insert_tenants_def
    by (intro keeps_insert_stmt) (simp_all add: preserves_db_def db_ok_def keys_ok_def)
qed

lemma list_ex_map_if: "(\<And>r. P (f r) = P r) \<Longrightarrow> list_ex P (map (\<lambda>r. if q r then f r else r) rows) = list_ex P rows"
  by (induction rows) auto

lemma tenants_map_ok:
  assumes "\<And>r. tn_id (f r) = tn_id r" "\<And>r. tn_public_id (f r) = tn_public_id r"
  shows "preserves_db d (db_tenants_update (map (\<lambda>r. if tn_id r = u then f r else r)) d)"
proof -
  let ?d = "db_tenants_update (map (\<lambda>r. if tn_id r = u then f r else r)) d"
  have "tenant_exists t ?d = tenant_exists t d" for t
    by (simp add: tenant_exists_def list_ex_map_if assms)
  moreover have "user_exists v ?d = user_exists v d" "tenant_user_exists t u' ?d = tenant_user_exists t u' d" for v t u'
    by (simp_all add: user_exists_def tenant_user_exists_def split: option.split)
  ultimately have refs: "refs_ok ?d = refs_ok d" by (simp add: refs_ok_def)
  have "rows_ok tenants_checks tenants_indexes (db_tenants ?d)"
    if "rows_ok tenants_checks tenants_indexes (db_tenants d)"
    using that assms by (auto intro!: rows_ok_map_cong simp: tenants_checks_def tenants_indexes_def)
  with refs show ?thesis by (simp add: preserves_db_def db_ok_def keys_ok_def)
qed

lemma upsert_retention_ok [keeps_intros]: "keeps preserves_db (upsert_retention row)"
proof (rule keepsI)
  fix d r d'
  assume run: "upsert_retention row d = (r, d')"
  show "preserves_db d d'"
  proof (cases "find (\<lambda>r. rp_tenant_id r = rp_tenant_id row) (db_retention d)")
    case None
    have "keeps preserves_db (insert_stmt retention_checks retention_indexes
      (\<lambda>d. [(''retention_policies_tenant_id_fkey'', tenant_exists (rp_tenant_id row) d),
            (''retention_policies_updated_by_fkey'', user_exists (rp_updated_by row) d)])
      db_retention db_retention_update row)"
      by (rule keeps_insert_stmt) (simp_all add: preserves_db_def db_ok_def keys_ok_def refs_ok_def)
    from keepsD [OF this] run None show ?thesis by (simp add: upsert_retention_def)
  next
    case (Some old)
    then have old: "old \<in> set (db_retention d)" "rp_tenant_id old = rp_tenant_id row"
      by (auto simp: find_Some_iff)
    then have "tenant_exists (rp_tenant_id row) d" if "refs_ok d"
      using that unfolding refs_ok_def by metis
    with old Some run show ?thesis
      by (auto simp: upsert_retention_def Let_def preserves_db_def db_ok_def keys_ok_def refs_ok_def
          write_rows_Inr split: sum.splits if_splits)
  qed
qed

lemma keeps_select_user [keeps_intros]: "reflp R \<Longrightarrow> keeps R (select_user sc p)"
  by (simp add: select_user_def keeps_getS)

lemma keeps_select_auth [keeps_intros]: "reflp R \<Longrightarrow> keeps R (select_auth sc p)"
  by (simp add: select_auth_def keeps_getS)

lemma keeps_toInvite [keeps_intros]: "reflp R \<Longrightarrow> keeps R (toInvite row)"
  by (simp add: toInvite_def keeps_throw keeps_ret)

lemma keeps_toInvites [keeps_intros]: "reflp R \<Longrightarrow> transp R \<Longrightarrow> keeps R (toInvites rows)"
  by (induction rows) (simp_all add: keeps_ret keeps_andThen keeps_toInvite)

lemma keeps_cast_patch_savedQueryId [keeps_intros]:
  "reflp R \<Longrightarrow> transp R \<Longrightarrow> keeps R (cast_patch_savedQueryId uuid_in v)"
  by (simp add: cast_patch_savedQueryId_def keeps_ret keeps_andThen keeps_cast_uuid_opt split: option.split)

lemma keeps_cast_patch_window [keeps_intros]:
  "reflp R \<Longrightarrow> transp R \<Longrightarrow> keeps R (cast_patch_window v)"
  by (simp add: cast_patch_window_def keeps_ret keeps_andThen keeps_cast_int4 split: option.split)

lemma insertUserWithMembership_ok [keeps_intros]:
  "keeps preserves_db (insertUserWithMembership newId dbNow sc input)"
  unfolding insertUserWithMembership_def by (intro keeps_intros) simp_all

lemma insert_refresh_token_ok [keeps_intros]:
  "keeps preserves_db (insert_refresh_token uuid_in newId dbNow sc input)"
  unfolding insert_refresh_token_def by (intro keeps_intros) simp_all

lemma consumeWithClient_ok [keeps_intros]:
  "keeps preserves_db (consumeWithClient sc dbNow tokenHash email now)"
  unfolding consumeWithClient_def by (intro keeps_intros keeps_ok_updates) simp_all

lemma linkFirstWithClient_ok [keeps_intros]:
  "keeps preserves_db (linkFirstWithClient uuid_in newId dbNow sc input)"
  unfolding linkFirstWithClient_def by (intro keeps_intros) simp_all

lemma tenants_create_ok [keeps_intros]: "keeps preserves_db (tenants_create newId dbNow input)"
  unfolding tenants_create_def Let_def
  by (intro keeps_withTenantTx keeps_intros keeps_ok_updates) (simp_all add: preserves_db_def db_ok_delete_users db_ok_delete_tenants)

lemma tenants_list_ok [keeps_intros]: "keeps preserves_db tenants_list"
  unfolding tenants_list_def Let_def
  by (intro keeps_withTenantTx keeps_intros keeps_ok_updates) (simp_all add: preserves_db_def db_ok_delete_users db_ok_delete_tenants)

lemma tenants_findById_ok [keeps_intros]: "keeps preserves_db (tenants_findById uuid_in ident)"
  unfolding tenants_findById_def Let_def
  by (intro keeps_withTenantTx keeps_intros keeps_ok_updates) (simp_all add: preserves_db_def db_ok_delete_users db_ok_delete_tenants)

lemma tenants_findByPublicId_ok [keeps_intros]: "keeps preserves_db (tenants_findByPublicId publicId)"
  unfolding tenants_findByPublicId_def Let_def
  by (intro keeps_withTenantTx keeps_intros keeps_ok_updates) (simp_all add: preserves_db_def db_ok_delete_users db_ok_delete_tenants)

lemma tenants_update_ok [keeps_intros]: "keeps preserves_db (tenants_update uuid_in dbNow ident patch)"
  unfolding tenants_update_def Let_def
  by (intro keeps_withTenantTx keeps_intros keeps_ok_updates) (simp_all add: preserves_db_def db_ok_delete_users db_ok_delete_tenants tenants_map_ok [unfolded preserves_db_def])

lemma tenants_delete_ok [keeps_intros]: "keeps preserves_db (tenants_delete uuid_in dbNow ident)"
  unfolding tenants_delete_def Let_def
  by (intro keeps_withTenantTx keeps_intros keeps_ok_updates) (simp_all add: preserves_db_def db_ok_delete_users db_ok_delete_tenants)

lemma users_create_ok [keeps_intros]: "keeps preserves_db (users_create uuid_in newId dbNow tenantId input)"
  unfolding users_create_def Let_def
  by (intro keeps_withTenantTx keeps_intros keeps_ok_updates) (simp_all add: preserves_db_def db_ok_delete_users db_ok_delete_tenants)

lemma users_list_ok [keeps_intros]: "keeps preserves_db (users_list uuid_in tenantId)"
  unfolding users_list_def Let_def
  by (intro keeps_withTenantTx keeps_intros keeps_ok_updates) (simp_all add: preserves_db_def db_ok_delete_users db_ok_delete_tenants)

lemma users_findById_ok [keeps_intros]: "keeps preserves_db (users_findById uuid_in tenantId ident)"
  unfolding users_findById_def Let_def
  by (intro keeps_withTenantTx keeps_intros keeps_ok_updates) (simp_all add: preserves_db_def db_ok_delete_users db_ok_delete_tenants)

lemma users_update_ok [keeps_intros]: "keeps preserves_db (users_update uuid_in dbNow tenantId ident patch)"
  unfolding users_update_def Let_def
  by (intro keeps_withTenantTx keeps_intros keeps_ok_updates) (simp_all add: preserves_db_def db_ok_delete_users db_ok_delete_tenants)

lemma users_delete_ok [keeps_intros]: "keeps preserves_db (users_delete uuid_in dbNow tenantId ident)"
  unfolding users_delete_def Let_def
  by (intro keeps_withTenantTx keeps_intros keeps_ok_updates) (simp_all add: preserves_db_def db_ok_delete_users db_ok_delete_tenants)

lemma users_findCredentialsByEmail_ok [keeps_intros]: "keeps preserves_db (users_findCredentialsByEmail uuid_in tenantId email)"
  unfolding users_findCredentialsByEmail_def Let_def
  by (intro keeps_withTenantTx keeps_intros keeps_ok_updates) (simp_all add: preserves_db_def db_ok_delete_users db_ok_delete_tenants)

lemma users_findCredentialsById_ok [keeps_intros]: "keeps preserves_db (users_findCredentialsById uuid_in tenantId ident)"
  unfolding users_findCredentialsById_def Let_def
  by (intro keeps_withTenantTx keeps_intros keeps_ok_updates) (simp_all add: preserves_db_def db_ok_delete_users db_ok_delete_tenants)

lemma refreshTokens_create_ok [keeps_intros]: "keeps preserves_db (refreshTokens_create uuid_in newId dbNow tenantId input)"
  unfolding refreshTokens_create_def Let_def
  by (intro keeps_withTenantTx keeps_intros keeps_ok_updates) (simp_all add: preserves_db_def db_ok_delete_users db_ok_delete_tenants)

lemma refreshTokens_findById_ok [keeps_intros]: "keeps preserves_db (refreshTokens_findById uuid_in tenantId ident)"
  unfolding refreshTokens_findById_def Let_def
  by (intro keeps_withTenantTx keeps_intros keeps_ok_updates) (simp_all add: preserves_db_def db_ok_delete_users db_ok_delete_tenants)

lemma refreshTokens_rotate_ok [keeps_intros]: "keeps preserves_db (refreshTokens_rotate uuid_in newId dbNow tenantId presentedId now successor)"
  unfolding refreshTokens_rotate_def Let_def
  by (intro keeps_withTenantTx keeps_intros keeps_ok_updates) (simp_all add: preserves_db_def db_ok_delete_users db_ok_delete_tenants)

lemma refreshTokens_revokeFamily_ok [keeps_intros]: "keeps preserves_db (refreshTokens_revokeFamily uuid_in tenantId familyId now)"
  unfolding refreshTokens_revokeFamily_def Let_def
  by (intro keeps_withTenantTx keeps_intros keeps_ok_updates) (simp_all add: preserves_db_def db_ok_delete_users db_ok_delete_tenants)

lemma apiKeys_create_ok [keeps_intros]: "keeps preserves_db (apiKeys_create uuid_in dbNow tenantId input)"
  unfolding apiKeys_create_def Let_def
  by (intro keeps_withTenantTx keeps_intros keeps_ok_updates) (simp_all add: preserves_db_def db_ok_delete_users db_ok_delete_tenants)

lemma apiKeys_list_ok [keeps_intros]: "keeps preserves_db (apiKeys_list uuid_in tenantId)"
  unfolding apiKeys_list_def Let_def
  by (intro keeps_withTenantTx keeps_intros keeps_ok_updates) (simp_all add: preserves_db_def db_ok_delete_users db_ok_delete_tenants)

lemma apiKeys_revoke_ok [keeps_intros]: "keeps preserves_db (apiKeys_revoke uuid_in tenantId keyId now)"
  unfolding apiKeys_revoke_def Let_def
  by (intro keeps_withTenantTx keeps_intros keeps_ok_updates) (simp_all add: preserves_db_def db_ok_delete_users db_ok_delete_tenants)

lemma retention_get_ok [keeps_intros]: "keeps preserves_db (retention_get uuid_in tenantId)"
  unfolding retention_get_def Let_def
  by (intro keeps_withTenantTx keeps_intros keeps_ok_updates) (simp_all add: preserves_db_def db_ok_delete_users db_ok_delete_tenants)

lemma retention_upsert_ok [keeps_intros]: "keeps preserves_db (retention_upsert uuid_in dbNow tenantId input)"
  unfolding retention_upsert_def Let_def
  by (intro keeps_withTenantTx keeps_intros keeps_ok_updates) (simp_all add: preserves_db_def db_ok_delete_users db_ok_delete_tenants)

lemma savedQueries_create_ok [keeps_intros]: "keeps preserves_db (savedQueries_create uuid_in newId dbNow tenantId input)"
  unfolding savedQueries_create_def Let_def
  by (intro keeps_withTenantTx keeps_intros keeps_ok_updates) (simp_all add: preserves_db_def db_ok_delete_users db_ok_delete_tenants)

lemma savedQueries_list_ok [keeps_intros]: "keeps preserves_db (savedQueries_list uuid_in tenantId)"
  unfolding savedQueries_list_def Let_def
  by (intro keeps_withTenantTx keeps_intros keeps_ok_updates) (simp_all add: preserves_db_def db_ok_delete_users db_ok_delete_tenants)

lemma savedQueries_findById_ok [keeps_intros]: "keeps preserves_db (savedQueries_findById uuid_in tenantId ident)"
  unfolding savedQueries_findById_def Let_def
  by (intro keeps_withTenantTx keeps_intros keeps_ok_updates) (simp_all add: preserves_db_def db_ok_delete_users db_ok_delete_tenants)

lemma savedQueries_update_ok [keeps_intros]: "keeps preserves_db (savedQueries_update uuid_in dbNow tenantId ident patch)"
  unfolding savedQueries_update_def Let_def
  by (intro keeps_withTenantTx keeps_intros keeps_ok_updates) (simp_all add: preserves_db_def db_ok_delete_users db_ok_delete_tenants)

lemma savedQueries_delete_ok [keeps_intros]: "keeps preserves_db (savedQueries_delete uuid_in tenantId ident)"
  unfolding savedQueries_delete_def Let_def
  by (intro keeps_withTenantTx keeps_intros keeps_ok_updates) (simp_all add: preserves_db_def db_ok_delete_users db_ok_delete_tenants)

lemma dashboards_create_ok [keeps_intros]: "keeps preserves_db (dashboards_create uuid_in newId dbNow tenantId input)"
  unfolding dashboards_create_def Let_def
  by (intro keeps_withTenantTx keeps_intros keeps_ok_updates) (simp_all add: preserves_db_def db_ok_delete_users db_ok_delete_tenants)

lemma dashboards_list_ok [keeps_intros]: "keeps preserves_db (dashboards_list uuid_in tenantId)"
  unfolding dashboards_list_def Let_def
  by (intro keeps_withTenantTx keeps_intros keeps_ok_updates) (simp_all add: preserves_db_def db_ok_delete_users db_ok_delete_tenants)

lemma dashboards_findById_ok [keeps_intros]: "keeps preserves_db (dashboards_findById uuid_in tenantId ident)"
  unfolding dashboards_findById_def Let_def
  by (intro keeps_withTenantTx keeps_intros keeps_ok_updates) (simp_all add: preserves_db_def db_ok_delete_users db_ok_delete_tenants)

lemma dashboards_update_ok [keeps_intros]: "keeps preserves_db (dashboards_update uuid_in dbNow tenantId ident patch)"
  unfolding dashboards_update_def Let_def
  by (intro keeps_withTenantTx keeps_intros keeps_ok_updates) (simp_all add: preserves_db_def db_ok_delete_users db_ok_delete_tenants)

lemma dashboards_delete_ok [keeps_intros]: "keeps preserves_db (dashboards_delete uuid_in tenantId ident)"
  unfolding dashboards_delete_def Let_def
  by (intro keeps_withTenantTx keeps_intros keeps_ok_updates) (simp_all add: preserves_db_def db_ok_delete_users db_ok_delete_tenants)

lemma alertRules_create_ok [keeps_intros]: "keeps preserves_db (alertRules_create uuid_in newId dbNow tenantId input)"
  unfolding alertRules_create_def Let_def
  by (intro keeps_withTenantTx keeps_intros keeps_ok_updates) (simp_all add: preserves_db_def db_ok_delete_users db_ok_delete_tenants)

lemma alertRules_list_ok [keeps_intros]: "keeps preserves_db (alertRules_list uuid_in tenantId)"
  unfolding alertRules_list_def Let_def
  by (intro keeps_withTenantTx keeps_intros keeps_ok_updates) (simp_all add: preserves_db_def db_ok_delete_users db_ok_delete_tenants)

lemma alertRules_findById_ok [keeps_intros]: "keeps preserves_db (alertRules_findById uuid_in tenantId ident)"
  unfolding alertRules_findById_def Let_def
  by (intro keeps_withTenantTx keeps_intros keeps_ok_updates) (simp_all add: preserves_db_def db_ok_delete_users db_ok_delete_tenants)

lemma alertRules_update_ok [keeps_intros]: "keeps preserves_db (alertRules_update uuid_in dbNow tenantId ident patch)"
  unfolding alertRules_update_def Let_def
  by (intro keeps_withTenantTx keeps_intros keeps_ok_updates) (simp_all add: preserves_db_def db_ok_delete_users db_ok_delete_tenants)

lemma alertRules_delete_ok [keeps_intros]: "keeps preserves_db (alertRules_delete uuid_in tenantId ident)"
  unfolding alertRules_delete_def Let_def
  by (intro keeps_withTenantTx keeps_intros keeps_ok_updates) (simp_all add: preserves_db_def db_ok_delete_users db_ok_delete_tenants)

lemma invites_create_ok [keeps_intros]: "keeps preserves_db (invites_create uuid_in newId dbNow tenantId input)"
  unfolding invites_create_def Let_def
  by (intro keeps_withTenantTx keeps_intros keeps_ok_updates) (simp_all add: preserves_db_def db_ok_delete_users db_ok_delete_tenants)

lemma invites_findValidByTokenHash_ok [keeps_intros]: "keeps preserves_db (invites_findValidByTokenHash uuid_in tenantId tokenHash now)"
  unfolding invites_findValidByTokenHash_def Let_def
  by (intro keeps_withTenantTx keeps_intros keeps_ok_updates) (simp_all add: preserves_db_def db_ok_delete_users db_ok_delete_tenants)

lemma invites_consume_ok [keeps_intros]: "keeps preserves_db (invites_consume uuid_in dbNow tenantId tokenHash email now)"
  unfolding invites_consume_def Let_def
  by (intro keeps_withTenantTx keeps_intros keeps_ok_updates) (simp_all add: preserves_db_def db_ok_delete_users db_ok_delete_tenants)

lemma invites_countPending_ok [keeps_intros]: "keeps preserves_db (invites_countPending uuid_in tenantId)"
  unfolding invites_countPending_def Let_def
  by (intro keeps_withTenantTx keeps_intros keeps_ok_updates) (simp_all add: preserves_db_def db_ok_delete_users db_ok_delete_tenants)

lemma invites_listByTenant_ok [keeps_intros]: "keeps preserves_db (invites_listByTenant uuid_in tenantId)"
  unfolding invites_listByTenant_def Let_def
  by (intro keeps_withTenantTx keeps_intros keeps_ok_updates) (simp_all add: preserves_db_def db_ok_delete_users db_ok_delete_tenants)

lemma invites_revoke_ok [keeps_intros]: "keeps preserves_db (invites_revoke uuid_in dbNow tenantId ident now)"
  unfolding invites_revoke_def Let_def
  by (intro keeps_withTenantTx keeps_intros keeps_ok_updates) (simp_all add: preserves_db_def db_ok_delete_users db_ok_delete_tenants)

lemma oauthIdentities_findByProviderSub_ok [keeps_intros]: "keeps preserves_db (oauthIdentities_findByProviderSub uuid_in tenantId provider providerSub)"
  unfolding oauthIdentities_findByProviderSub_def Let_def
  by (intro keeps_withTenantTx keeps_intros keeps_ok_updates) (simp_all add: preserves_db_def db_ok_delete_users db_ok_delete_tenants)

lemma oauthIdentities_linkFirst_ok [keeps_intros]: "keeps preserves_db (oauthIdentities_linkFirst uuid_in newId dbNow tenantId input)"
  unfolding oauthIdentities_linkFirst_def Let_def
  by (intro keeps_withTenantTx keeps_intros keeps_ok_updates) (simp_all add: preserves_db_def db_ok_delete_users db_ok_delete_tenants)

lemma oauthIdentities_touchLastLogin_ok [keeps_intros]: "keeps preserves_db (oauthIdentities_touchLastLogin uuid_in dbNow tenantId ident now)"
  unfolding oauthIdentities_touchLastLogin_def Let_def
  by (intro keeps_withTenantTx keeps_intros keeps_ok_updates) (simp_all add: preserves_db_def db_ok_delete_users db_ok_delete_tenants)

lemma oauthIdentities_findById_ok [keeps_intros]: "keeps preserves_db (oauthIdentities_findById uuid_in tenantId ident)"
  unfolding oauthIdentities_findById_def Let_def
  by (intro keeps_withTenantTx keeps_intros keeps_ok_updates) (simp_all add: preserves_db_def db_ok_delete_users db_ok_delete_tenants)

lemma provision_tx_ok [keeps_intros]: "keeps preserves_db (provision_tx uuid_in newUserId newLinkId dbNow tenantId input)"
  unfolding provision_tx_def Let_def
  by (intro keeps_withTenantTx keeps_intros keeps_ok_updates) (simp_all add: preserves_db_def db_ok_delete_users db_ok_delete_tenants)

lemma provisionFromInvite_db_ok [keeps_intros]: "keeps preserves_db (provisionFromInvite_db uuid_in newUserId newLinkId dbNow tenantId input)"
  unfolding provisionFromInvite_db_def Let_def
  by (intro keeps_withTenantTx keeps_intros keeps_ok_updates) (simp_all add: preserves_db_def db_ok_delete_users db_ok_delete_tenants)

section \<open>Repositories stay inside the armed tenant\<close>

definition tenant_scope :: "uuid_input \<Rightarrow> string \<Rightarrow> uuid option" where
  "tenant_scope uuid_in t = (case current_tenant_id uuid_in t of Inl _ \<Rightarrow> None | Inr sc \<Rightarrow> sc)"

lemma keeps_withTenantTx':
  "reflp R \<Longrightarrow> keeps R (fn (tenant_scope uuid_in t)) \<Longrightarrow> keeps R (withTenantTx uuid_in t fn)"
  by (rule keeps_withTenantTx) (simp_all add: tenant_scope_def)

lemma keeps_tenant_param_then:
  "reflp R \<Longrightarrow> (\<And>t. sc = Some t \<Longrightarrow> keeps R (f t)) \<Longrightarrow> keeps R (andThen (tenant_param sc) f)"
  by (cases sc) (simp_all add: tenant_param_def keeps_throw)

lemma keeps_cast_uuid_opt_then:
  assumes "reflp R" "\<And>by. by = None \<and> v = None \<or> by \<noteq> None \<and> map_option uuid_in v = Some by \<Longrightarrow> keeps R (f by)"
  shows "keeps R (andThen (cast_uuid_opt uuid_in v) f)"
  using assms by (simp add: cast_uuid_opt_def keeps_throw split: option.split)

lemmas keeps_param_intros = keeps_tenant_param_then keeps_cast_uuid_opt_then

lemmas keeps_confined_updates =
  confined_update_users confined_update_memberships confined_update_api_keys
  confined_update_saved_queries confined_update_dashboards confined_update_alert_rules
  confined_update_refresh_tokens confined_update_oauth_identities confined_update_invites

lemma upsert_retention_confined [keeps_intros]:
  assumes "sc = Some (rp_tenant_id row)" "rp_updated_by row = None \<or> rp_updated_by row = p"
  shows "keeps (confined sc p) (upsert_retention row)"
proof (rule keepsI)
  fix d r d'
  assume run: "upsert_retention row d = (r, d')"
  have author: "author_local (rp_tenant_id row) (rp_updated_by row) d"
    if "principal_local sc p d" "user_exists (rp_updated_by row) d"
    using assms that by (auto simp: author_local_def principal_local_def)
  show "confined sc p d d'"
  proof (cases "find (\<lambda>r. rp_tenant_id r = rp_tenant_id row) (db_retention d)")
    case None
    have "keeps (confined sc p) (insert_stmt retention_checks retention_indexes
      (\<lambda>d. [(''retention_policies_tenant_id_fkey'', tenant_exists (rp_tenant_id row) d),
            (''retention_policies_updated_by_fkey'', user_exists (rp_updated_by row) d)])
      db_retention db_retention_update row)"
      using assms
      by (intro keeps_insert_stmt)
         (auto simp: confined_def tenant_view_def authors_local_def author_local_def principal_local_def)
    from keepsD [OF this] run None show ?thesis by (simp add: upsert_retention_def)
  next
    case (Some old)
    then have old: "rp_tenant_id old = rp_tenant_id row" by (auto simp: find_Some_iff)
    let ?new = "old\<lparr>rp_hot_days := rp_hot_days row, rp_cold_days := rp_cold_days row,
                    rp_updated_by := rp_updated_by row, rp_updated_at := rp_updated_at row\<rparr>"
    let ?rows = "map (\<lambda>r. if rp_tenant_id r = rp_tenant_id row then ?new else r) (db_retention d)"
    have view: "filter (\<lambda>r. rp_tenant_id r = u) ?rows = filter (\<lambda>r. rp_tenant_id r = u) (db_retention d)"
      if "sc \<noteq> Some u" for u
      using that assms(1) old by (intro filter_map_unchanged) auto
    from run Some consider "d' = d"
      | "d' = db_retention_update (\<lambda>_. ?rows) d" "user_exists (rp_updated_by row) d"
      by (auto simp: upsert_retention_def Let_def write_rows_Inr split: sum.splits if_splits)
    then show ?thesis
    proof cases
      case 1
      then show ?thesis by (simp add: confined_def)
    next
      case 2
      then show ?thesis
        using author view old by (auto simp: confined_def tenant_view_def authors_local_def)
    qed
  qed
qed

lemma insertUserWithMembership_confined [keeps_intros]:
  "keeps (confined sc p) (insertUserWithMembership newId dbNow sc input)"
  unfolding insertUserWithMembership_def
  by (rule keeps_tryCatch keeps_param_intros | rule keeps_intros | (simp; fail))+

lemma insert_refresh_token_confined [keeps_intros]:
  "keeps (confined sc p) (insert_refresh_token uuid_in newId dbNow sc input)"
  unfolding insert_refresh_token_def
  by (rule keeps_param_intros | rule keeps_intros | (simp; fail))+

lemma consumeWithClient_confined [keeps_intros]:
  "keeps (confined sc p) (consumeWithClient sc dbNow tokenHash email now)"
  unfolding consumeWithClient_def
  by (rule keeps_confined_updates | rule keeps_intros | (simp; fail))+

lemma linkFirstWithClient_confined [keeps_intros]:
  "keeps (confined sc p) (linkFirstWithClient uuid_in newId dbNow sc input)"
  unfolding linkFirstWithClient_def
  by (rule keeps_param_intros | rule keeps_intros | (simp; fail))+

lemma users_create_confined [keeps_intros]:
  "keeps (confined (tenant_scope uuid_in tenantId) p) (users_create uuid_in newId dbNow tenantId input)"
  unfolding users_create_def
  by (rule keeps_withTenantTx' keeps_param_intros | rule keeps_confined_updates | rule keeps_intros confined_delete_users | (auto; fail))+

lemma users_list_confined [keeps_intros]:
  "keeps (confined (tenant_scope uuid_in tenantId) p) (users_list uuid_in tenantId)"
  unfolding users_list_def
  by (rule keeps_withTenantTx' keeps_param_intros | rule keeps_confined_updates | rule keeps_intros confined_delete_users | (auto; fail))+

lemma users_findById_confined [keeps_intros]:
  "keeps (confined (tenant_scope uuid_in tenantId) p) (users_findById uuid_in tenantId ident)"
  unfolding users_findById_def
  by (rule keeps_withTenantTx' keeps_param_intros | rule keeps_confined_updates | rule keeps_intros confined_delete_users | (auto; fail))+

lemma users_update_confined [keeps_intros]:
  "keeps (confined (tenant_scope uuid_in tenantId) p) (users_update uuid_in dbNow tenantId ident patch)"
  unfolding users_update_def
  by (rule keeps_withTenantTx' keeps_param_intros | rule keeps_confined_updates | rule keeps_intros confined_delete_users | (auto; fail))+

lemma users_delete_confined [keeps_intros]:
  "keeps (confined (tenant_scope uuid_in tenantId) p) (users_delete uuid_in dbNow tenantId ident)"
  unfolding users_delete_def
  by (rule keeps_withTenantTx' keeps_param_intros | rule keeps_confined_updates | rule keeps_intros confined_delete_users | (auto; fail))+

lemma users_findCredentialsByEmail_confined [keeps_intros]:
  "keeps (confined (tenant_scope uuid_in tenantId) p) (users_findCredentialsByEmail uuid_in tenantId email)"
  unfolding users_findCredentialsByEmail_def
  by (rule keeps_withTenantTx' keeps_param_intros | rule keeps_confined_updates | rule keeps_intros confined_delete_users | (auto; fail))+

lemma users_findCredentialsById_confined [keeps_intros]:
  "keeps (confined (tenant_scope uuid_in tenantId) p) (users_findCredentialsById uuid_in tenantId ident)"
  unfolding users_findCredentialsById_def
  by (rule keeps_withTenantTx' keeps_param_intros | rule keeps_confined_updates | rule keeps_intros confined_delete_users | (auto; fail))+

lemma refreshTokens_create_confined [keeps_intros]:
  "keeps (confined (tenant_scope uuid_in tenantId) p) (refreshTokens_create uuid_in newId dbNow tenantId input)"
  unfolding refreshTokens_create_def
  by (rule keeps_withTenantTx' keeps_param_intros | rule keeps_confined_updates | rule keeps_intros confined_delete_users | (auto; fail))+

lemma refreshTokens_findById_confined [keeps_intros]:
  "keeps (confined (tenant_scope uuid_in tenantId) p) (refreshTokens_findById uuid_in tenantId ident)"
  unfolding refreshTokens_findById_def
  by (rule keeps_withTenantTx' keeps_param_intros | rule keeps_confined_updates | rule keeps_intros confined_delete_users | (auto; fail))+

lemma refreshTokens_rotate_confined [keeps_intros]:
  "keeps (confined (tenant_scope uuid_in tenantId) p) (refreshTokens_rotate uuid_in newId dbNow tenantId presentedId now successor)"
  unfolding refreshTokens_rotate_def
  by (rule keeps_withTenantTx' keeps_param_intros | rule keeps_confined_updates | rule keeps_intros confined_delete_users | (auto; fail))+

lemma refreshTokens_revokeFamily_confined [keeps_intros]:
  "keeps (confined (tenant_scope uuid_in tenantId) p) (refreshTokens_revokeFamily uuid_in tenantId familyId now)"
  unfolding refreshTokens_revokeFamily_def
  by (rule keeps_withTenantTx' keeps_param_intros | rule keeps_confined_updates | rule keeps_intros confined_delete_users | (auto; fail))+

lemma apiKeys_create_confined [keeps_intros]:
  "map_option uuid_in (nk_createdBy input) \<in> {None, Some p} \<Longrightarrow>
   keeps (confined (tenant_scope uuid_in tenantId) p) (apiKeys_create uuid_in dbNow tenantId input)"
  unfolding apiKeys_create_def
  by (rule keeps_withTenantTx' keeps_param_intros | rule keeps_confined_updates | rule keeps_intros confined_delete_users | (auto; fail))+

lemma apiKeys_list_confined [keeps_intros]:
  "keeps (confined (tenant_scope uuid_in tenantId) p) (apiKeys_list uuid_in tenantId)"
  unfolding apiKeys_list_def
  by (rule keeps_withTenantTx' keeps_param_intros | rule keeps_confined_updates | rule keeps_intros confined_delete_users | (auto; fail))+

lemma apiKeys_revoke_confined [keeps_intros]:
  "keeps (confined (tenant_scope uuid_in tenantId) p) (apiKeys_revoke uuid_in tenantId keyId now)"
  unfolding apiKeys_revoke_def
  by (rule keeps_withTenantTx' keeps_param_intros | rule keeps_confined_updates | rule keeps_intros confined_delete_users | (auto; fail))+

lemma retention_get_confined [keeps_intros]:
  "keeps (confined (tenant_scope uuid_in tenantId) p) (retention_get uuid_in tenantId)"
  unfolding retention_get_def
  by (rule keeps_withTenantTx' keeps_param_intros | rule keeps_confined_updates | rule keeps_intros confined_delete_users | (auto; fail))+

lemma retention_upsert_confined [keeps_intros]:
  "map_option uuid_in (ri_updatedBy input) \<in> {None, Some p} \<Longrightarrow>
   keeps (confined (tenant_scope uuid_in tenantId) p) (retention_upsert uuid_in dbNow tenantId input)"
  unfolding retention_upsert_def
  by (rule keeps_withTenantTx' keeps_param_intros | rule keeps_confined_updates | rule keeps_intros confined_delete_users | (auto; fail))+

lemma savedQueries_create_confined [keeps_intros]:
  "map_option uuid_in (nsq_createdBy input) \<in> {None, Some p} \<Longrightarrow>
   keeps (confined (tenant_scope uuid_in tenantId) p) (savedQueries_create uuid_in newId dbNow tenantId input)"
  unfolding savedQueries_create_def
  by (rule keeps_withTenantTx' keeps_param_intros | rule keeps_confined_updates | rule keeps_intros confined_delete_users | (auto; fail))+

lemma savedQueries_list_confined [keeps_intros]:
  "keeps (confined (tenant_scope uuid_in tenantId) p) (savedQueries_list uuid_in tenantId)"
  unfolding savedQueries_list_def
  by (rule keeps_withTenantTx' keeps_param_intros | rule keeps_confined_updates | rule keeps_intros confined_delete_users | (auto; fail))+

lemma savedQueries_findById_confined [keeps_intros]:
  "keeps (confined (tenant_scope uuid_in tenantId) p) (savedQueries_findById uuid_in tenantId ident)"
  unfolding savedQueries_findById_def
  by (rule keeps_withTenantTx' keeps_param_intros | rule keeps_confined_updates | rule keeps_intros confined_delete_users | (auto; fail))+

lemma savedQueries_update_confined [keeps_intros]:
  "keeps (confined (tenant_scope uuid_in tenantId) p) (savedQueries_update uuid_in dbNow tenantId ident patch)"
  unfolding savedQueries_update_def
  by (rule keeps_withTenantTx' keeps_param_intros | rule keeps_confined_updates | rule keeps_intros confined_delete_users | (auto; fail))+

lemma savedQueries_delete_confined [keeps_intros]:
  "keeps (confined (tenant_scope uuid_in tenantId) p) (savedQueries_delete uuid_in tenantId ident)"
  unfolding savedQueries_delete_def
  by (rule keeps_withTenantTx' keeps_param_intros | rule keeps_confined_updates | rule keeps_intros confined_delete_users | (auto; fail))+

lemma dashboards_create_confined [keeps_intros]:
  "map_option uuid_in (nd_createdBy input) \<in> {None, Some p} \<Longrightarrow>
   keeps (confined (tenant_scope uuid_in tenantId) p) (dashboards_create uuid_in newId dbNow tenantId input)"
  unfolding dashboards_create_def
  by (rule keeps_withTenantTx' keeps_param_intros | rule keeps_confined_updates | rule keeps_intros confined_delete_users | (auto; fail))+

lemma dashboards_list_confined [keeps_intros]:
  "keeps (confined (tenant_scope uuid_in tenantId) p) (dashboards_list uuid_in tenantId)"
  unfolding dashboards_list_def
  by (rule keeps_withTenantTx' keeps_param_intros | rule keeps_confined_updates | rule keeps_intros confined_delete_users | (auto; fail))+

lemma dashboards_findById_confined [keeps_intros]:
  "keeps (confined (tenant_scope uuid_in tenantId) p) (dashboards_findById uuid_in tenantId ident)"
  unfolding dashboards_findById_def
  by (rule keeps_withTenantTx' keeps_param_intros | rule keeps_confined_updates | rule keeps_intros confined_delete_users | (auto; fail))+

lemma dashboards_update_confined [keeps_intros]:
  "keeps (confined (tenant_scope uuid_in tenantId) p) (dashboards_update uuid_in dbNow tenantId ident patch)"
  unfolding dashboards_update_def
  by (rule keeps_withTenantTx' keeps_param_intros | rule keeps_confined_updates | rule keeps_intros confined_delete_users | (auto; fail))+

lemma dashboards_delete_confined [keeps_intros]:
  "keeps (confined (tenant_scope uuid_in tenantId) p) (dashboards_delete uuid_in tenantId ident)"
  unfolding dashboards_delete_def
  by (rule keeps_withTenantTx' keeps_param_intros | rule keeps_confined_updates | rule keeps_intros confined_delete_users | (auto; fail))+

lemma alertRules_create_confined [keeps_intros]:
  "map_option uuid_in (nar_createdBy input) \<in> {None, Some p} \<Longrightarrow>
   keeps (confined (tenant_scope uuid_in tenantId) p) (alertRules_create uuid_in newId dbNow tenantId input)"
  unfolding alertRules_create_def
  by (rule keeps_withTenantTx' keeps_param_intros | rule keeps_confined_updates | rule keeps_intros confined_delete_users | (auto; fail))+

lemma alertRules_list_confined [keeps_intros]:
  "keeps (confined (tenant_scope uuid_in tenantId) p) (alertRules_list uuid_in tenantId)"
  unfolding alertRules_list_def
  by (rule keeps_withTenantTx' keeps_param_intros | rule keeps_confined_updates | rule keeps_intros confined_delete_users | (auto; fail))+

lemma alertRules_findById_confined [keeps_intros]:
  "keeps (confined (tenant_scope uuid_in tenantId) p) (alertRules_findById uuid_in tenantId ident)"
  unfolding alertRules_findById_def
  by (rule keeps_withTenantTx' keeps_param_intros | rule keeps_confined_updates | rule keeps_intros confined_delete_users | (auto; fail))+

lemma alertRules_update_confined [keeps_intros]:
  "keeps (confined (tenant_scope uuid_in tenantId) p) (alertRules_update uuid_in dbNow tenantId ident patch)"
  unfolding alertRules_update_def
  by (rule keeps_withTenantTx' keeps_param_intros | rule keeps_confined_updates | rule keeps_intros confined_delete_users | (auto; fail))+

lemma alertRules_delete_confined [keeps_intros]:
  "keeps (confined (tenant_scope uuid_in tenantId) p) (alertRules_delete uuid_in tenantId ident)"
  unfolding alertRules_delete_def
  by (rule keeps_withTenantTx' keeps_param_intros | rule keeps_confined_updates | rule keeps_intros confined_delete_users | (auto; fail))+

lemma invites_create_confined [keeps_intros]:
  "map_option uuid_in (ni_invitedBy input) \<in> {None, Some p} \<Longrightarrow>
   keeps (confined (tenant_scope uuid_in tenantId) p) (invites_create uuid_in newId dbNow tenantId input)"
  unfolding invites_create_def
  by (rule keeps_withTenantTx' keeps_param_intros | rule keeps_confined_updates | rule keeps_intros confined_delete_users | (auto; fail))+

lemma invites_findValidByTokenHash_confined [keeps_intros]:
  "keeps (confined (tenant_scope uuid_in tenantId) p) (invites_findValidByTokenHash uuid_in tenantId tokenHash now)"
  unfolding invites_findValidByTokenHash_def
  by (rule keeps_withTenantTx' keeps_param_intros | rule keeps_confined_updates | rule keeps_intros confined_delete_users | (auto; fail))+

lemma invites_consume_confined [keeps_intros]:
  "keeps (confined (tenant_scope uuid_in tenantId) p) (invites_consume uuid_in dbNow tenantId tokenHash email now)"
  unfolding invites_consume_def
  by (rule keeps_withTenantTx' keeps_param_intros | rule keeps_confined_updates | rule keeps_intros confined_delete_users | (auto; fail))+

lemma invites_countPending_confined [keeps_intros]:
  "keeps (confined (tenant_scope uuid_in tenantId) p) (invites_countPending uuid_in tenantId)"
  unfolding invites_countPending_def
  by (rule keeps_withTenantTx' keeps_param_intros | rule keeps_confined_updates | rule keeps_intros confined_delete_users | (auto; fail))+

lemma invites_listByTenant_confined [keeps_intros]:
  "keeps (confined (tenant_scope uuid_in tenantId) p) (invites_listByTenant uuid_in tenantId)"
  unfolding invites_listByTenant_def
  by (rule keeps_withTenantTx' keeps_param_intros | rule keeps_confined_updates | rule keeps_intros confined_delete_users | (auto; fail))+

lemma invites_revoke_confined [keeps_intros]:
  "keeps (confined (tenant_scope uuid_in tenantId) p) (invites_revoke uuid_in dbNow tenantId ident now)"
  unfolding invites_revoke_def
  by (rule keeps_withTenantTx' keeps_param_intros | rule keeps_confined_updates | rule keeps_intros confined_delete_users | (auto; fail))+

lemma oauthIdentities_findByProviderSub_confined [keeps_intros]:
  "keeps (confined (tenant_scope uuid_in tenantId) p) (oauthIdentities_findByProviderSub uuid_in tenantId provider providerSub)"
  unfolding oauthIdentities_findByProviderSub_def
  by (rule keeps_withTenantTx' keeps_param_intros | rule keeps_confined_updates | rule keeps_intros confined_delete_users | (auto; fail))+

lemma oauthIdentities_linkFirst_confined [keeps_intros]:
  "keeps (confined (tenant_scope uuid_in tenantId) p) (oauthIdentities_linkFirst uuid_in newId dbNow tenantId input)"
  unfolding oauthIdentities_linkFirst_def
  by (rule keeps_withTenantTx' keeps_param_intros | rule keeps_confined_updates | rule keeps_intros confined_delete_users | (auto; fail))+

lemma oauthIdentities_touchLastLogin_confined [keeps_intros]:
  "keeps (confined (tenant_scope uuid_in tenantId) p) (oauthIdentities_touchLastLogin uuid_in dbNow tenantId ident now)"
  unfolding oauthIdentities_touchLastLogin_def
  by (rule keeps_withTenantTx' keeps_param_intros | rule keeps_confined_updates | rule keeps_intros confined_delete_users | (auto; fail))+

lemma oauthIdentities_findById_confined [keeps_intros]:
  "keeps (confined (tenant_scope uuid_in tenantId) p) (oauthIdentities_findById uuid_in tenantId ident)"
  unfolding oauthIdentities_findById_def
  by (rule keeps_withTenantTx' keeps_param_intros | rule keeps_confined_updates | rule keeps_intros confined_delete_users | (auto; fail))+

lemma provision_tx_confined [keeps_intros]:
  "keeps (confined (tenant_scope uuid_in tenantId) p) (provision_tx uuid_in newUserId newLinkId dbNow tenantId input)"
  unfolding provision_tx_def
  by (rule keeps_withTenantTx' keeps_param_intros | rule keeps_confined_updates | rule keeps_intros confined_delete_users | (auto; fail))+

lemma provisionFromInvite_db_confined [keeps_intros]:
  "keeps (confined (tenant_scope uuid_in tenantId) p) (provisionFromInvite_db uuid_in newUserId newLinkId dbNow tenantId input)"
  unfolding provisionFromInvite_db_def by (intro keeps_intros provision_tx_confined) simp_all

end
