(* ===== verification/World.thy ===== *)
theory World
  imports Repository_Laws
begin

text \<open>
  The state and the outside world of the services of \<^verbatim>\<open>services/control-plane/src/app\<close>.

  \<^item> \<open>env\<close> collects the code the services only call: SHA-256, bcrypt, the JWT library, the
    uuid input function of Postgres, Google's endpoints and the configuration values.
  \<^item> \<open>world\<close> is what they change: the database, the OAuth state store, the audit trails, the
    outbox, and two traces that record the calls of the password verifier and of Google.
  \<^item> A drawn value (clock, random bytes, ids) is an argument of the operation that draws it.

  The access tokens of \<^verbatim>\<open>adapters/crypto/jose-token-service.ts\<close> are modelled here as well.
\<close>

record SessionClaims =
  sc_tenantId :: string
  sc_principalId :: string
  sc_role :: role

record SessionTokens =
  st_accessToken :: string
  st_refreshToken :: string
  st_expiresIn :: int
  st_tokenType :: string
  st_role :: role
  st_tenantId :: string
  st_userId :: string

record OAuthStateRecord =
  os_state :: string
  os_tenantId :: string
  os_meta :: "string \<rightharpoonup> string"
  os_createdAt :: millis

record GoogleIdTokenClaims =
  g_sub :: string
  g_email :: string
  g_email_verified :: bool
  g_nonce :: string
  g_name :: "string option"

datatype google_call = Exchange string string string | VerifyIdToken string string

datatype OAuthAuditOutcome =
    first_link
  | login_outcome
  | reject_invalid_state
  | reject_exchange_failure
  | reject_invalid_token
  | reject_no_provisioned_user
  | reject_account_inactive
  | reject_identity_conflict
  | invite_provisioned
  | reject_no_valid_invite

record OAuthAuditEvent =
  oa_tenantId :: "string option"
  oa_userId :: "string option"
  oa_provider :: string
  oa_hashedSub :: "string option"
  oa_outcome :: OAuthAuditOutcome
  oa_ts :: millis

datatype InviteAuditOutcome = invite_created | invite_revoked

record InviteAuditEvent =
  ia_tenantId :: string
  ia_inviteId :: string
  ia_actorId :: string
  ia_outcome :: InviteAuditOutcome
  ia_email :: string
  ia_role :: string
  ia_ts :: millis

record EmailMessage =
  em_to :: string
  em_subject :: string
  em_text :: string
  em_html :: "string option"

type_synonym jwt_payload = "(string \<times> json) list"

text \<open>
  What \<open>fetch\<close> of Google's token endpoint can come to (a network error, or a status with the
  JSON body, \<open>None\<close> when it does not parse), and what JWKS-backed verification can.
\<close>

datatype fetch_outcome = NetworkFailure | HttpResponse int "json option"

datatype jose_outcome = JwksTimeout | JoseRejected | NotAJoseError | JosePayload jwt_payload

record env =
  uuid_in :: uuid_input
  sha256 :: "string \<Rightarrow> bytes"
  bcrypt_hash :: "string \<Rightarrow> string \<Rightarrow> string"
  bcrypt_verify :: "string \<Rightarrow> string \<Rightarrow> bool"
  dummy_salt :: string
  jwt_sign :: "jwt_payload \<Rightarrow> string"
  jwt_verify :: "string \<Rightarrow> string \<Rightarrow> string \<Rightarrow> string list \<Rightarrow> millis \<Rightarrow> js_error + jwt_payload"
  google_fetch :: "(string \<times> string) list \<Rightarrow> fetch_outcome"
  google_jwks :: "string \<Rightarrow> string \<Rightarrow> jose_outcome"
  send_email :: "EmailMessage \<Rightarrow> js_error + unit"
  accessTtlSeconds :: int
  refreshTtlSeconds :: int
  inviteTtlSeconds :: int
  inviteMaxOutstandingPerTenant :: int
  inviteAcceptBaseUrl :: string
  oidc_clientId :: string
  google_clientId :: string
  google_clientSecret :: string
  oidc_inviteProvisioner :: bool
  oidc_redirectUri :: string
  oidc_authEndpoint :: string
  oidc_stateTtlSeconds :: int

record world =
  w_db :: db
  w_verifies :: "(string \<times> string) list"
  w_states :: "string \<rightharpoonup> OAuthStateRecord \<times> millis"
  w_google :: "google_call list"
  w_oauth_audit :: "OAuthAuditEvent list"
  w_invite_audit :: "InviteAuditEvent list"
  w_outbox :: "EmailMessage list"

definition onDb :: "(db, 'a) prog \<Rightarrow> (world, 'a) prog" where
  "onDb m = (\<lambda>w. case m (w_db w) of (r, d) \<Rightarrow> (r, w\<lparr>w_db := d\<rparr>))"

text \<open>\<open>hasher.verify\<close>, recorded in the trace.\<close>

definition verifyPassword :: "env \<Rightarrow> string \<Rightarrow> string \<Rightarrow> (world, bool) prog" where
  "verifyPassword E plaintext h =
     andThen (updS (\<lambda>w. w\<lparr>w_verifies := w_verifies w @ [(plaintext, h)]\<rparr>)) (\<lambda>_.
     ret (bcrypt_verify E plaintext h))"

section \<open>Access tokens\<close>

definition ISSUER :: string where "ISSUER = ''logalot-control-plane''"
definition AUDIENCE :: string where "AUDIENCE = ''logalot''"
definition ALG :: string where "ALG = ''HS256''"

fun json_field :: "jwt_payload \<Rightarrow> string \<Rightarrow> json option" where
  "json_field p k = map_of p k"

definition access_payload :: "env \<Rightarrow> millis \<Rightarrow> SessionClaims \<Rightarrow> jwt_payload" where
  "access_payload E now claims =
     [(''tenant_id'', JStr (sc_tenantId claims)),
      (''role'', JStr (role_name (sc_role claims))),
      (''sub'', JStr (sc_principalId claims)),
      (''iss'', JStr ISSUER),
      (''aud'', JStr AUDIENCE),
      (''iat'', JNum (of_int (now div 1000))),
      (''exp'', JNum (of_int (now div 1000 + accessTtlSeconds E)))]"

definition issueAccess :: "env \<Rightarrow> millis \<Rightarrow> SessionClaims \<Rightarrow> string \<times> int" where
  "issueAccess E now claims = (jwt_sign E (access_payload E now claims), accessTtlSeconds E)"

definition verifyAccess :: "env \<Rightarrow> millis \<Rightarrow> string \<Rightarrow> js_error + SessionClaims" where
  "verifyAccess E now token =
     (case jwt_verify E token ISSUER AUDIENCE [ALG] now of
        Inl e \<Rightarrow> Inl e
      | Inr payload \<Rightarrow>
          (case (json_field payload ''tenant_id'', json_field payload ''sub'', json_field payload ''role'') of
             (Some (JStr tenantId), Some (JStr principalId), Some (JStr r)) \<Rightarrow>
               (case role_of_name r of
                  Some role \<Rightarrow> Inr \<lparr> sc_tenantId = tenantId, sc_principalId = principalId, sc_role = role \<rparr>
                | None \<Rightarrow> Inl (PlainError ''malformed token claims''))
           | _ \<Rightarrow> Inl (PlainError ''malformed token claims'')))"

text \<open>
  What the JWT library documents of HS256 tokens: a token it signed verifies to the payload it
  was given for as long as issuer and audience match and \<open>exp\<close> has not passed.
\<close>

definition jwt_roundtrip :: "env \<Rightarrow> jwt_payload \<Rightarrow> bool" where
  "jwt_roundtrip E payload \<longleftrightarrow>
     (\<forall>iss aud now e.
        map_of payload ''iss'' = Some (JStr iss) \<and> map_of payload ''aud'' = Some (JStr aud)
        \<and> map_of payload ''exp'' = Some (JNum (of_int e)) \<and> now div 1000 < e
        \<longrightarrow> jwt_verify E (jwt_sign E payload) iss aud [''HS256''] now = Inr payload)"

section \<open>Facts\<close>

lemma onDb_apply: "onDb m w = (fst (m (w_db w)), w\<lparr>w_db := snd (m (w_db w))\<rparr>)"
  by (simp add: onDb_def split: prod.split)

lemma onDb_Inr: "onDb m w = (Inr x, w') \<longleftrightarrow> (\<exists>d. m (w_db w) = (Inr x, d) \<and> w' = w\<lparr>w_db := d\<rparr>)"
  by (auto simp: onDb_def split: prod.splits)

lemma onDb_Inl: "onDb m w = (Inl e, w') \<longleftrightarrow> (\<exists>d. m (w_db w) = (Inl e, d) \<and> w' = w\<lparr>w_db := d\<rparr>)"
  by (auto simp: onDb_def split: prod.splits)

lemma onDb_run: "m (w_db w) = (r, d) \<Longrightarrow> onDb m w = (r, w\<lparr>w_db := d\<rparr>)"
  by (simp add: onDb_def)

lemma keeps_onDb:
  "keeps R m \<Longrightarrow> keeps (\<lambda>w w'. R (w_db w) (w_db w')) (onDb m)"
  by (auto simp: keeps_def onDb_apply)

text \<open>The two relations of the repositories, lifted to the world.\<close>

definition world_ok :: "world \<Rightarrow> world \<Rightarrow> bool" where
  "world_ok w w' \<longleftrightarrow> preserves_db (w_db w) (w_db w')"

definition world_confined :: "uuid option \<Rightarrow> uuid option \<Rightarrow> world \<Rightarrow> world \<Rightarrow> bool" where
  "world_confined sc p w w' \<longleftrightarrow> confined sc p (w_db w) (w_db w')"

lemma world_preorders [simp]:
  "reflp world_ok" "transp world_ok" "reflp (world_confined sc p)" "transp (world_confined sc p)"
  using preserves_db_preorder confined_preorder [of sc p]
  by (auto simp: world_ok_def world_confined_def reflp_def transp_def)

lemma keeps_onDb_ok [keeps_intros]: "keeps preserves_db m \<Longrightarrow> keeps world_ok (onDb m)"
  by (auto simp: keeps_def onDb_apply world_ok_def)

lemma keeps_onDb_confined [keeps_intros]:
  "keeps (confined sc p) m \<Longrightarrow> keeps (world_confined sc p) (onDb m)"
  by (auto simp: keeps_def onDb_apply world_confined_def)

lemma keeps_off_db [keeps_intros]:
  "(\<And>w. w_db (f w) = w_db w) \<Longrightarrow> keeps world_ok (updS f)"
  "(\<And>w. w_db (f w) = w_db w) \<Longrightarrow> keeps (world_confined sc p) (updS f)"
  by (auto simp: keeps_def world_ok_def world_confined_def preserves_db_def confined_def)

lemma keeps_verifyPassword [keeps_intros]:
  "keeps world_ok (verifyPassword E plaintext h)"
  "keeps (world_confined sc p) (verifyPassword E plaintext h)"
  by (auto simp: verifyPassword_def keeps_def world_ok_def world_confined_def preserves_db_def confined_def)

end
