(* ===== verification/Auth.thy ===== *)
theory Auth
  imports World
begin

text \<open>
  \<^verbatim>\<open>app/auth-service.ts\<close>: password login, rotating refresh tokens with reuse detection by
  family, and logout. \<open>refresh\<close> is split where its last transaction begins: \<open>refresh_check\<close> is
  everything up to the decision to rotate, \<open>refresh_commit\<close> the rotation and the answer, so that
  concurrent calls can be interleaved between the two.
\<close>

record LoginCommand =
  lc_tenantSlug :: string
  lc_email :: string
  lc_password :: string

text \<open>What a session draws: family id, secret, clock, row id, server instant, JWT instant.\<close>

record draws =
  dr_uuid :: uuid
  dr_secret :: string
  dr_now :: millis
  dr_newId :: uuid
  dr_dbNow :: millis
  dr_jwtNow :: millis

definition DUMMY_SECRET :: string where
  "DUMMY_SECRET = ''logalot-nonexistent-user-timing-equalizer''"

definition dummyHash :: "env \<Rightarrow> string" where
  "dummyHash E = bcrypt_hash E (dummy_salt E) DUMMY_SECRET"

definition mintRefreshToken ::
  "env \<Rightarrow> draws \<Rightarrow> string \<Rightarrow> string \<Rightarrow> string \<Rightarrow> (world, string) prog" where
  "mintRefreshToken E R tenantId userId familyId =
     (let secret = dr_secret R;
          expiresAt = dr_now R + refreshTtlSeconds E * 1000
      in andThen (onDb (refreshTokens_create (uuid_in E) (dr_newId R) (dr_dbNow R) tenantId
           \<lparr> nr_familyId = familyId, nr_userId = userId, nr_tokenHash = sha256 E secret,
             nr_expiresAt = expiresAt \<rparr>)) (\<lambda>tokenId.
         ret (assembleRefreshToken tenantId tokenId secret)))"

definition session_tokens ::
  "env \<Rightarrow> draws \<Rightarrow> string \<Rightarrow> string \<Rightarrow> role \<Rightarrow> string \<Rightarrow> SessionTokens" where
  "session_tokens E R tenantId userId role refreshToken =
     (let access = issueAccess E (dr_jwtNow R)
            \<lparr> sc_tenantId = tenantId, sc_principalId = userId, sc_role = role \<rparr>
      in \<lparr> st_accessToken = fst access, st_refreshToken = refreshToken, st_expiresIn = snd access,
           st_tokenType = ''Bearer'', st_role = role, st_tenantId = tenantId, st_userId = userId \<rparr>)"

definition login :: "env \<Rightarrow> draws \<Rightarrow> LoginCommand \<Rightarrow> (world, SessionTokens) prog" where
  "login E R cmd =
     andThen (onDb (tenants_findByPublicId (lc_tenantSlug cmd))) (\<lambda>tenant.
     andThen (case tenant of
                Some t \<Rightarrow> if tenant_status t = TS_active
                          then onDb (users_findCredentialsByEmail (uuid_in E) (tenant_id t) (normalizeEmail (lc_email cmd)))
                          else ret None
              | None \<Rightarrow> ret None) (\<lambda>record.
     let passwordHash = (case record of Some r \<Rightarrow> auth_passwordHash r | None \<Rightarrow> dummyHash E)
     in andThen (verifyPassword E (lc_password cmd) passwordHash) (\<lambda>ok.
     case (tenant, record) of
       (Some t, Some r) \<Rightarrow>
         if \<not> ok then throw invalid_credentials
         else if auth_status r \<noteq> ''active'' then throw invalid_credentials
         else (case auth_role r of
                 None \<Rightarrow> throw invalid_credentials
               | Some role \<Rightarrow>
                   andThen (mintRefreshToken E R (tenant_id t) (auth_id r) (dr_uuid R)) (\<lambda>refreshToken.
                   ret (session_tokens E R (tenant_id t) (auth_id r) role refreshToken)))
     | _ \<Rightarrow> throw invalid_credentials)))"

abbreviation invalid_refresh_token :: js_error where
  "invalid_refresh_token \<equiv> DomainErr (UnauthorizedError ''invalid refresh token'')"

definition safeParse :: "string \<Rightarrow> ('s, ParsedRefreshToken) prog" where
  "safeParse rawToken =
     (case parseRefreshToken rawToken of
        Inl _ \<Rightarrow> throw invalid_refresh_token
      | Inr parsed \<Rightarrow> ret parsed)"

text \<open>What the first part of \<open>refresh\<close> hands to the second.\<close>

record refresh_ticket =
  tk_tenantId :: string
  tk_row :: RefreshTokenRow
  tk_record :: AuthRecord
  tk_role :: role
  tk_now :: millis

definition revoke_and_reject :: "env \<Rightarrow> string \<Rightarrow> string \<Rightarrow> millis \<Rightarrow> (world, 'a) prog" where
  "revoke_and_reject E tenantId familyId now =
     andThen (onDb (refreshTokens_revokeFamily (uuid_in E) tenantId familyId now)) (\<lambda>_.
     throw invalid_refresh_token)"

definition refresh_check :: "env \<Rightarrow> millis \<Rightarrow> string \<Rightarrow> (world, refresh_ticket) prog" where
  "refresh_check E now rawToken =
     andThen (safeParse rawToken) (\<lambda>parsed.
     andThen (onDb (refreshTokens_findById (uuid_in E) (pr_tenantId parsed) (pr_tokenId parsed))) (\<lambda>found.
     case found of
       None \<Rightarrow> throw invalid_refresh_token
     | Some row \<Rightarrow>
         if \<not> constantTimeEqual (sha256 E (pr_secret parsed)) (rr_tokenHash row)
         then throw invalid_refresh_token
         else if rr_revokedAt row \<noteq> None \<or> rr_rotatedAt row \<noteq> None
         then revoke_and_reject E (pr_tenantId parsed) (rr_familyId row) now
         else if rr_expiresAt row \<le> now then throw invalid_refresh_token
         else
           andThen (onDb (tenants_findById (uuid_in E) (pr_tenantId parsed))) (\<lambda>tenant.
           if map_option tenant_status tenant \<noteq> Some TS_active
           then revoke_and_reject E (pr_tenantId parsed) (rr_familyId row) now
           else
             andThen (onDb (users_findCredentialsById (uuid_in E) (pr_tenantId parsed) (rr_userId row))) (\<lambda>record.
             case record of
               None \<Rightarrow> revoke_and_reject E (pr_tenantId parsed) (rr_familyId row) now
             | Some r \<Rightarrow>
                 if auth_status r \<noteq> ''active'' then revoke_and_reject E (pr_tenantId parsed) (rr_familyId row) now
                 else (case auth_role r of
                         None \<Rightarrow> revoke_and_reject E (pr_tenantId parsed) (rr_familyId row) now
                       | Some role \<Rightarrow>
                           ret \<lparr> tk_tenantId = pr_tenantId parsed, tk_row = row, tk_record = r,
                                 tk_role = role, tk_now = now \<rparr>)))))"

definition refresh_commit :: "env \<Rightarrow> draws \<Rightarrow> refresh_ticket \<Rightarrow> (world, SessionTokens) prog" where
  "refresh_commit E R tk =
     (let secret = dr_secret R;
          expiresAt = tk_now tk + refreshTtlSeconds E * 1000
      in andThen (onDb (refreshTokens_rotate (uuid_in E) (dr_newId R) (dr_dbNow R) (tk_tenantId tk)
             (rr_id (tk_row tk)) (tk_now tk)
             \<lparr> nr_familyId = rr_familyId (tk_row tk), nr_userId = rr_userId (tk_row tk),
               nr_tokenHash = sha256 E secret, nr_expiresAt = expiresAt \<rparr>)) (\<lambda>successor.
         case successor of
           None \<Rightarrow> revoke_and_reject E (tk_tenantId tk) (rr_familyId (tk_row tk)) (tk_now tk)
         | Some newId \<Rightarrow>
             ret (session_tokens E R (tk_tenantId tk) (auth_id (tk_record tk)) (tk_role tk)
                    (assembleRefreshToken (tk_tenantId tk) newId secret))))"

definition refresh :: "env \<Rightarrow> draws \<Rightarrow> string \<Rightarrow> (world, SessionTokens) prog" where
  "refresh E R rawToken = andThen (refresh_check E (dr_now R) rawToken) (refresh_commit E R)"

definition logout :: "env \<Rightarrow> millis \<Rightarrow> string \<Rightarrow> (world, unit) prog" where
  "logout E now rawToken =
     (case parseRefreshToken rawToken of
        Inl _ \<Rightarrow> ret ()
      | Inr parsed \<Rightarrow>
          andThen (onDb (refreshTokens_findById (uuid_in E) (pr_tenantId parsed) (pr_tokenId parsed))) (\<lambda>found.
          case found of
            None \<Rightarrow> ret ()
          | Some row \<Rightarrow>
              if constantTimeEqual (sha256 E (pr_secret parsed)) (rr_tokenHash row)
              then onDb (refreshTokens_revokeFamily (uuid_in E) (pr_tenantId parsed) (rr_familyId row) now)
              else ret ()))"

section \<open>Specification vocabulary\<close>

definition live :: "refresh_token_row \<Rightarrow> bool" where
  "live r \<longleftrightarrow> rt_rotated_at r = None \<and> rt_revoked_at r = None"

definition live_in_family :: "uuid \<Rightarrow> uuid \<Rightarrow> db \<Rightarrow> refresh_token_row list" where
  "live_in_family t f d = filter (\<lambda>r. rt_tenant_id r = t \<and> rt_family_id r = f \<and> live r) (db_refresh_tokens d)"

text \<open>The server's ids are canonical texts: the input function maps them to themselves.\<close>

definition canonical :: "env \<Rightarrow> uuid \<Rightarrow> bool" where
  "canonical E u \<longleftrightarrow> u \<noteq> [] \<and> CHR ''_'' \<notin> set u \<and> uuid_in E u = Some u"

end
