(* ===== verification/Auth_Laws.thy ===== *)
theory Auth_Laws
  imports Auth
begin

text \<open>
  What the session operations of \<^verbatim>\<open>Auth\<close> do to the refresh-token table: exact results of each
  repository call, and the effect of each on the rows of a family.
\<close>

section \<open>Repository calls, computed\<close>

lemma rows_ok_append:
  assumes "rows_ok ck ix rows" "\<And>c. c \<in> set ck \<Longrightarrow> snd c row"
    "\<And>i v r. i \<in> set ix \<Longrightarrow> snd i row = Some v \<Longrightarrow> r \<in> set rows \<Longrightarrow> snd i r \<noteq> Some v"
  shows "rows_ok ck ix (rows @ [row])"
proof -
  have "distinct (List.map_filter (snd i) (rows @ [row]))" if "i \<in> set ix" for i
    using that assms(1,3)
    by (auto simp: rows_ok_def list_all_iff map_filter_append List.map_filter_simps set_map_filter_iff
        split: option.split)
  then show ?thesis using assms(1,2) by (auto simp: rows_ok_def list_all_iff)
qed

lemma tx_run:
  assumes "uuid_in E t = Some u" "t \<noteq> []"
  shows "withTenantTx (uuid_in E) t fn d =
    (case fn (Some u) d of (Inl e, _) \<Rightarrow> (Inl e, d) | (Inr x, d') \<Rightarrow> (Inr x, d'))"
  by (rule withTenantTx_armed) (simp add: assms)

lemma tx_run_ok: 
  assumes "uuid_in E t = Some u" "t \<noteq> []" "fn (Some u) d = (Inr x, d')"
  shows "withTenantTx (uuid_in E) t fn d = (Inr x, d')"
  using assms by (simp add: tx_run)

definition token_at :: "uuid \<Rightarrow> uuid \<Rightarrow> db \<Rightarrow> refresh_token_row option" where
  "token_at t i d = first_row (filter (\<lambda>r. rt_tenant_id r = t \<and> rt_id r = i) (db_refresh_tokens d))"

lemma token_at_Some: "token_at t i d = Some r \<Longrightarrow> r \<in> set (db_refresh_tokens d) \<and> rt_tenant_id r = t \<and> rt_id r = i"
  by (auto simp: token_at_def dest: first_row_Some)

lemma token_at_unique:
  assumes "rows_ok refresh_tokens_checks refresh_tokens_indexes (db_refresh_tokens d)"
    "r \<in> set (db_refresh_tokens d)"
  shows "token_at (rt_tenant_id r) (rt_id r) d = Some r"
proof -
  have "filter (\<lambda>r'. rt_tenant_id r' = rt_tenant_id r \<and> rt_id r' = rt_id r) (db_refresh_tokens d) \<noteq> []"
    using assms(2) by (auto simp: filter_empty_conv)
  then obtain r' where r': "token_at (rt_tenant_id r) (rt_id r) d = Some r'"
    unfolding token_at_def by (cases "filter (\<lambda>r'. rt_tenant_id r' = rt_tenant_id r \<and> rt_id r' = rt_id r) (db_refresh_tokens d)") auto
  have "r' = r"
    by (rule rows_ok_unique [OF assms(1), of "(''refresh_tokens_pkey'', \<lambda>r. Some [rt_id r])"])
       (use assms(2) token_at_Some [OF r'] in \<open>auto simp: refresh_tokens_indexes_def\<close>)
  with r' show ?thesis by simp
qed

lemma findById_run:
  assumes "uuid_in E t = Some u" "t \<noteq> []" "uuid_in E i = Some v"
  shows "refreshTokens_findById (uuid_in E) t i d = (Inr (map_option toRefreshRow (token_at u v d)), d)"
  unfolding refreshTokens_findById_def
  by (rule tx_run_ok [OF assms(1,2)])
     (simp add: assms select_refresh_tokens_def andThen_def token_at_def rls_Some conj_commute)

lemma findById_pure: "refreshTokens_findById (uuid_in E) t i d = (r, d') \<Longrightarrow> d' = d"
  by (cases r)
     (auto simp: refreshTokens_findById_def withTenantTx_Inl withTenantTx_Inr andThen_eq_Inr cast_uuid_apply
        select_refresh_tokens_def split: option.splits)

text \<open>A family revocation marks the rows of the family that carry no mark yet.\<close>

definition revoke_rows :: "uuid \<Rightarrow> uuid \<Rightarrow> millis \<Rightarrow> refresh_token_row list \<Rightarrow> refresh_token_row list" where
  "revoke_rows t f now =
     map (\<lambda>r. if rt_tenant_id r = t \<and> rt_family_id r = f \<and> rt_revoked_at r = None
              then r\<lparr>rt_revoked_at := Some now\<rparr> else r)"

lemma rows_ok_token_update:
  assumes "rows_ok refresh_tokens_checks refresh_tokens_indexes rows"
    "\<And>r. rt_id (g r) = rt_id r" "\<And>r. rt_token_hash (g r) = rt_token_hash r"
  shows "rows_ok refresh_tokens_checks refresh_tokens_indexes (map g rows)"
  using assms by (auto intro!: rows_ok_map_cong simp: refresh_tokens_checks_def refresh_tokens_indexes_def)

lemma revokeFamily_run:
  assumes "uuid_in E t = Some u" "t \<noteq> []" "uuid_in E f = Some g"
    "rows_ok refresh_tokens_checks refresh_tokens_indexes (db_refresh_tokens d)"
  shows "refreshTokens_revokeFamily (uuid_in E) t f now d =
    (Inr (), d\<lparr>db_refresh_tokens := revoke_rows u g now (db_refresh_tokens d)\<rparr>)"
proof -
  have eq: "rls_update rt_tenant_id (Some u) (\<lambda>r. rt_family_id r = g \<and> rt_revoked_at r = None)
      (\<lambda>r. r\<lparr>rt_revoked_at := Some now\<rparr>) rows = revoke_rows u g now rows" for rows
    by (auto simp: rls_update_def revoke_rows_def)
  have ok: "rows_ok refresh_tokens_checks refresh_tokens_indexes (revoke_rows u g now (db_refresh_tokens d))"
    unfolding revoke_rows_def by (rule rows_ok_token_update [OF assms(4)]) auto
  show ?thesis
    unfolding refreshTokens_revokeFamily_def
    by (rule tx_run_ok [OF assms(1,2)])
       (simp add: assms(3) update_refresh_tokens_def andThen_def update_stmt_def eq ok)
qed

lemma revoke_and_reject_run:
  assumes "uuid_in E t = Some u" "t \<noteq> []" "uuid_in E f = Some g"
    "rows_ok refresh_tokens_checks refresh_tokens_indexes (db_refresh_tokens (w_db w))"
  shows "revoke_and_reject E t f now w =
    (Inl invalid_refresh_token,
     w\<lparr>w_db := (w_db w)\<lparr>db_refresh_tokens := revoke_rows u g now (db_refresh_tokens (w_db w))\<rparr>\<rparr>)"
  unfolding revoke_and_reject_def
  by (simp add: andThen_def onDb_def revokeFamily_run [OF assms])

text \<open>A rotation marks the presented row and appends its successor.\<close>

definition rotate_row :: "uuid \<Rightarrow> uuid \<Rightarrow> millis \<Rightarrow> refresh_token_row list \<Rightarrow> refresh_token_row list" where
  "rotate_row t i now =
     map (\<lambda>r. if rt_tenant_id r = t \<and> rt_id r = i \<and> live r then r\<lparr>rt_rotated_at := Some now\<rparr> else r)"

lemma rls_update_rotate:
  "rls_update rt_tenant_id (Some u) (\<lambda>r. rt_id r = v \<and> rt_rotated_at r = None \<and> rt_revoked_at r = None)
     (\<lambda>r. r\<lparr>rt_rotated_at := Some now\<rparr>) rows = rotate_row u v now rows"
  by (auto simp: rls_update_def rotate_row_def live_def)

lemma rows_ok_rotate_row:
  "rows_ok refresh_tokens_checks refresh_tokens_indexes rows \<Longrightarrow>
   rows_ok refresh_tokens_checks refresh_tokens_indexes (rotate_row u v now rows)"
  unfolding rotate_row_def by (rule rows_ok_token_update) auto

lemma rotate_row_ids: "r \<in> set (rotate_row u v now rows) \<Longrightarrow> \<exists>r' \<in> set rows. rt_id r' = rt_id r"
  unfolding rotate_row_def set_map image_iff by (metis (no_types, lifting) refresh_token_row.update_convs(8) refresh_token_row.select_convs(1) refresh_token_row.surjective)

definition consumed_rows :: "uuid \<Rightarrow> uuid \<Rightarrow> db \<Rightarrow> refresh_token_row list" where
  "consumed_rows t i d = filter (\<lambda>r. rt_tenant_id r = t \<and> rt_id r = i \<and> live r) (db_refresh_tokens d)"

lemma filter_consumed:
  "filter (\<lambda>r. rt_id r = v \<and> rt_rotated_at r = None \<and> rt_revoked_at r = None)
     (rls rt_tenant_id (Some u) (db_refresh_tokens d)) = consumed_rows u v d"
  by (simp add: consumed_rows_def rls_Some live_def)

lemma rotate_none_run:
  assumes "uuid_in E t = Some u" "t \<noteq> []" "uuid_in E p = Some v" "consumed_rows u v d = []"
    "rows_ok refresh_tokens_checks refresh_tokens_indexes (db_refresh_tokens d)"
  shows "refreshTokens_rotate (uuid_in E) newId dbNow t p now succ d = (Inr None, d)"
proof -
  have id: "rotate_row u v now (db_refresh_tokens d) = db_refresh_tokens d"
    unfolding rotate_row_def
    by (rule map_idI) (use assms(4) in \<open>auto simp: consumed_rows_def filter_empty_conv\<close>)
  show ?thesis
    unfolding refreshTokens_rotate_def
    by (rule tx_run_ok [OF assms(1,2)])
       (simp add: assms(3-5) update_refresh_tokens_def andThen_def update_stmt_def rls_update_rotate id filter_consumed)
qed

definition new_token_row :: "uuid \<Rightarrow> uuid \<Rightarrow> uuid \<Rightarrow> uuid \<Rightarrow> bytes \<Rightarrow> millis \<Rightarrow> millis \<Rightarrow> refresh_token_row" where
  "new_token_row i t u f h issued expires =
     \<lparr> rt_id = i, rt_tenant_id = t, rt_user_id = u, rt_family_id = f, rt_token_hash = h,
       rt_issued_at = issued, rt_expires_at = expires, rt_rotated_at = None, rt_revoked_at = None \<rparr>"

lemma new_token_row_fields [simp]:
  "rt_id (new_token_row i t u f h a b) = i" "rt_tenant_id (new_token_row i t u f h a b) = t"
  "rt_user_id (new_token_row i t u f h a b) = u" "rt_family_id (new_token_row i t u f h a b) = f"
  "rt_token_hash (new_token_row i t u f h a b) = h" "rt_expires_at (new_token_row i t u f h a b) = b"
  "rt_rotated_at (new_token_row i t u f h a b) = None" "rt_revoked_at (new_token_row i t u f h a b) = None"
  "live (new_token_row i t u f h a b)"
  by (simp_all add: new_token_row_def live_def)

lemma insert_refresh_tokens_run:
  assumes "rows_ok refresh_tokens_checks refresh_tokens_indexes (db_refresh_tokens d)"
    "length h = 32" "\<And>r. r \<in> set (db_refresh_tokens d) \<Longrightarrow> rt_id r \<noteq> i"
    "tenant_exists t d" "tenant_user_exists t u d"
  shows "insert_refresh_tokens (new_token_row i t u f h a b) d =
    (Inr (new_token_row i t u f h a b),
     d\<lparr>db_refresh_tokens := db_refresh_tokens d @ [new_token_row i t u f h a b]\<rparr>)"
proof -
  have "rows_ok refresh_tokens_checks refresh_tokens_indexes (db_refresh_tokens d @ [new_token_row i t u f h a b])"
    using assms(2,3)
    by (intro rows_ok_append [OF assms(1)]) (auto simp: refresh_tokens_checks_def refresh_tokens_indexes_def)
  then show ?thesis using assms(4,5) by (simp add: insert_refresh_tokens_def insert_stmt_Inr)
qed

lemma insert_refresh_token_eq:
  assumes "uuid_in E (nr_userId inp) = Some x" "uuid_in E (nr_familyId inp) = Some f"
  shows "insert_refresh_token (uuid_in E) newId dbNow (Some u) inp =
    andThen (insert_refresh_tokens (new_token_row newId u x f (nr_tokenHash inp) dbNow (nr_expiresAt inp)))
      (\<lambda>row. ret (rt_id row))"
  by (simp add: insert_refresh_token_def assms new_token_row_def)

lemma create_run:
  assumes "uuid_in E t = Some u" "t \<noteq> []"
    "uuid_in E (nr_userId inp) = Some x" "uuid_in E (nr_familyId inp) = Some f"
    "rows_ok refresh_tokens_checks refresh_tokens_indexes (db_refresh_tokens d)"
    "length (nr_tokenHash inp) = 32" "\<And>r. r \<in> set (db_refresh_tokens d) \<Longrightarrow> rt_id r \<noteq> newId"
    "tenant_exists u d" "tenant_user_exists u x d"
  shows "refreshTokens_create (uuid_in E) newId dbNow t inp d =
    (Inr newId, d\<lparr>db_refresh_tokens := db_refresh_tokens d @
       [new_token_row newId u x f (nr_tokenHash inp) dbNow (nr_expiresAt inp)]\<rparr>)"
  unfolding refreshTokens_create_def
  by (rule tx_run_ok [OF assms(1,2)])
     (simp add: insert_refresh_token_eq [OF assms(3,4)] andThen_def insert_refresh_tokens_run assms)

lemma rotate_some_run:
  assumes "uuid_in E t = Some u" "t \<noteq> []" "uuid_in E p = Some v"
    "uuid_in E (nr_userId succ) = Some x" "uuid_in E (nr_familyId succ) = Some f"
    "rows_ok refresh_tokens_checks refresh_tokens_indexes (db_refresh_tokens d)"
    "consumed_rows u v d \<noteq> []"
    "length (nr_tokenHash succ) = 32" "\<And>r. r \<in> set (db_refresh_tokens d) \<Longrightarrow> rt_id r \<noteq> newId"
    "tenant_exists u d" "tenant_user_exists u x d"
  shows "refreshTokens_rotate (uuid_in E) newId dbNow t p now succ d =
    (Inr (Some newId), d\<lparr>db_refresh_tokens := rotate_row u v now (db_refresh_tokens d) @
       [new_token_row newId u x f (nr_tokenHash succ) dbNow (nr_expiresAt succ)]\<rparr>)"
proof -
  let ?d = "d\<lparr>db_refresh_tokens := rotate_row u v now (db_refresh_tokens d)\<rparr>"
  have ins: "insert_refresh_tokens (new_token_row newId u x f (nr_tokenHash succ) dbNow (nr_expiresAt succ)) ?d =
    (Inr (new_token_row newId u x f (nr_tokenHash succ) dbNow (nr_expiresAt succ)),
     ?d\<lparr>db_refresh_tokens := db_refresh_tokens ?d @ [new_token_row newId u x f (nr_tokenHash succ) dbNow (nr_expiresAt succ)]\<rparr>)"
  proof (rule insert_refresh_tokens_run)
    show "rows_ok refresh_tokens_checks refresh_tokens_indexes (db_refresh_tokens ?d)"
      using assms(6) by (simp add: rows_ok_rotate_row)
    show "rt_id r \<noteq> newId" if "r \<in> set (db_refresh_tokens ?d)" for r
      using that assms(9) rotate_row_ids by fastforce
  qed (use assms(8,10,11) in simp_all)
  show ?thesis
    unfolding refreshTokens_rotate_def
    by (rule tx_run_ok [OF assms(1,2)])
       (simp add: assms(3,6,7) update_refresh_tokens_def andThen_def update_stmt_def rls_update_rotate
          filter_consumed rows_ok_rotate_row insert_refresh_token_eq [OF assms(4,5)] ins)
qed

end
