(* ===== verification/Services.thy ===== *)
theory Services
  imports World
begin

text \<open>
  The administrative services of \<^verbatim>\<open>services/control-plane/src/app\<close>: tenants, users, API keys,
  retention, saved queries, dashboards, alert rules and invites. Every operation asserts the
  permission of the principal first and then works through the repositories in the tenant of
  the context.
\<close>

abbreviation not_found :: "string \<Rightarrow> js_error" where
  "not_found m \<equiv> DomainErr (NotFoundError m)"

definition quoted :: "string \<Rightarrow> string" where
  "quoted s = [CHR 0x27] @ s @ [CHR 0x27]"

section \<open>TenantService\<close>

record ProvisionAdminCommand =
  pa_email :: string
  pa_password :: string
  pa_displayName :: "string option"

definition tenantService_create ::
  "env \<Rightarrow> uuid \<Rightarrow> millis \<Rightarrow> TenantContext \<Rightarrow> NewTenant \<Rightarrow> (world, Tenant) prog" where
  "tenantService_create E newId dbNow ctx cmd =
     andThen (assertCan ctx Tenant_create) (\<lambda>_. onDb (tenants_create newId dbNow cmd))"

definition tenantService_provisionAdmin ::
  "env \<Rightarrow> uuid \<Rightarrow> millis \<Rightarrow> string \<Rightarrow> TenantContext \<Rightarrow> string \<Rightarrow> ProvisionAdminCommand \<Rightarrow> (world, User) prog" where
  "tenantService_provisionAdmin E newId dbNow salt ctx tenantId cmd =
     andThen (assertCan ctx Tenant_provision_admin) (\<lambda>_.
     andThen (onDb (tenants_findById (uuid_in E) tenantId)) (\<lambda>tenant.
     case tenant of
       None \<Rightarrow> throw (not_found ''tenant not found'')
     | Some _ \<Rightarrow>
         onDb (users_create (uuid_in E) newId dbNow tenantId
           \<lparr> nu_email = normalizeEmail (pa_email cmd), nu_passwordHash = bcrypt_hash E salt (pa_password cmd),
             nu_displayName = pa_displayName cmd, nu_role = MR_tenant_admin \<rparr>)))"

definition tenantService_list :: "TenantContext \<Rightarrow> (world, Tenant list) prog" where
  "tenantService_list ctx = andThen (assertCan ctx Tenant_list) (\<lambda>_. onDb tenants_list)"

definition tenantService_get :: "env \<Rightarrow> TenantContext \<Rightarrow> string \<Rightarrow> (world, Tenant) prog" where
  "tenantService_get E ctx ident =
     andThen (assertCan ctx Tenant_read) (\<lambda>_.
     if ctx_role ctx \<noteq> platform_operator \<and> ident \<noteq> ctx_tenantId ctx
     then throw (not_found ''tenant not found'')
     else andThen (onDb (tenants_findById (uuid_in E) ident)) (\<lambda>tenant.
          case tenant of None \<Rightarrow> throw (not_found ''tenant not found'') | Some t \<Rightarrow> ret t))"

definition tenantService_update ::
  "env \<Rightarrow> millis \<Rightarrow> TenantContext \<Rightarrow> string \<Rightarrow> TenantPatch \<Rightarrow> (world, Tenant) prog" where
  "tenantService_update E dbNow ctx ident patch =
     andThen (assertCan ctx Tenant_update) (\<lambda>_.
     andThen (onDb (tenants_update (uuid_in E) dbNow ident patch)) (\<lambda>tenant.
     case tenant of None \<Rightarrow> throw (not_found ''tenant not found'') | Some t \<Rightarrow> ret t))"

definition tenantService_remove :: "env \<Rightarrow> millis \<Rightarrow> TenantContext \<Rightarrow> string \<Rightarrow> (world, unit) prog" where
  "tenantService_remove E dbNow ctx ident =
     andThen (assertCan ctx Tenant_delete) (\<lambda>_.
     andThen (onDb (tenants_delete (uuid_in E) dbNow ident)) (\<lambda>deleted.
     if \<not> deleted then throw (not_found ''tenant not found'') else ret ()))"

section \<open>UserService\<close>

record CreateUserCommand =
  cu_email :: string
  cu_password :: string
  cu_displayName :: "string option"
  cu_role :: membership_role

record UpdateUserCommand =
  uu_displayName :: "string option"
  uu_status :: "string option"
  uu_role :: "membership_role option"
  uu_password :: "string option"

definition userService_create ::
  "env \<Rightarrow> uuid \<Rightarrow> millis \<Rightarrow> string \<Rightarrow> TenantContext \<Rightarrow> CreateUserCommand \<Rightarrow> (world, User) prog" where
  "userService_create E newId dbNow salt ctx cmd =
     andThen (assertCan ctx User_create) (\<lambda>_.
     onDb (users_create (uuid_in E) newId dbNow (ctx_tenantId ctx)
       \<lparr> nu_email = normalizeEmail (cu_email cmd), nu_passwordHash = bcrypt_hash E salt (cu_password cmd),
         nu_displayName = cu_displayName cmd, nu_role = cu_role cmd \<rparr>))"

definition userService_list :: "env \<Rightarrow> TenantContext \<Rightarrow> (world, User list) prog" where
  "userService_list E ctx =
     andThen (assertCan ctx User_list) (\<lambda>_. onDb (users_list (uuid_in E) (ctx_tenantId ctx)))"

definition userService_get :: "env \<Rightarrow> TenantContext \<Rightarrow> string \<Rightarrow> (world, User) prog" where
  "userService_get E ctx ident =
     andThen (assertCan ctx User_read) (\<lambda>_.
     andThen (onDb (users_findById (uuid_in E) (ctx_tenantId ctx) ident)) (\<lambda>user.
     case user of None \<Rightarrow> throw (not_found ''user not found'') | Some u \<Rightarrow> ret u))"

text \<open>An empty password is falsy: it is not hashed and the stored hash stays.\<close>

definition userService_update ::
  "env \<Rightarrow> millis \<Rightarrow> string \<Rightarrow> TenantContext \<Rightarrow> string \<Rightarrow> UpdateUserCommand \<Rightarrow> (world, User) prog" where
  "userService_update E dbNow salt ctx ident cmd =
     andThen (assertCan ctx User_update) (\<lambda>_.
     let passwordHash = (case uu_password cmd of
                           None \<Rightarrow> None
                         | Some p \<Rightarrow> if p = [] then None else Some (bcrypt_hash E salt p))
     in andThen (onDb (users_update (uuid_in E) dbNow (ctx_tenantId ctx) ident
          \<lparr> up_displayName = uu_displayName cmd, up_status = uu_status cmd, up_role = uu_role cmd,
            up_passwordHash = passwordHash \<rparr>)) (\<lambda>user.
        case user of None \<Rightarrow> throw (not_found ''user not found'') | Some u \<Rightarrow> ret u))"

definition userService_remove :: "env \<Rightarrow> millis \<Rightarrow> TenantContext \<Rightarrow> string \<Rightarrow> (world, unit) prog" where
  "userService_remove E dbNow ctx ident =
     andThen (assertCan ctx User_delete) (\<lambda>_.
     andThen (onDb (users_delete (uuid_in E) dbNow (ctx_tenantId ctx) ident)) (\<lambda>deleted.
     if \<not> deleted then throw (not_found ''user not found'') else ret ()))"

section \<open>ApiKeyService\<close>

record IssueApiKeyCommand =
  ik_name :: string
  ik_scopes :: "string list option"
  ik_expiresAt :: "millis option"

record IssuedApiKey =
  issued_plaintext :: string
  issued_record :: ApiKeyRecord

definition DEFAULT_SCOPES :: "string list" where "DEFAULT_SCOPES = [''ingest:write'']"

definition generate_key_material :: "bytes \<Rightarrow> bytes \<Rightarrow> KeyMaterial" where
  "generate_key_material idBytes secretBytes = \<lparr> km_keyId = hex idBytes, km_secret = hex secretBytes \<rparr>"

definition apiKeyService_issue ::
  "env \<Rightarrow> KeyMaterial \<Rightarrow> millis \<Rightarrow> TenantContext \<Rightarrow> IssueApiKeyCommand \<Rightarrow> (world, IssuedApiKey) prog" where
  "apiKeyService_issue E material dbNow ctx cmd =
     andThen (assertCan ctx Apikey_create) (\<lambda>_.
     andThen (onDb (tenants_findById (uuid_in E) (ctx_tenantId ctx))) (\<lambda>tenant.
     case tenant of
       None \<Rightarrow> throw (not_found ''tenant not found'')
     | Some t \<Rightarrow>
         let minted = mintApiKey (sha256 E) (tenant_publicId t) material;
             scopes = (case ik_scopes cmd of None \<Rightarrow> DEFAULT_SCOPES
                       | Some s \<Rightarrow> if 0 < length s then s else DEFAULT_SCOPES)
         in andThen (onDb (apiKeys_create (uuid_in E) dbNow (ctx_tenantId ctx)
              \<lparr> nk_keyId = mk_keyId minted, nk_name = ik_name cmd, nk_keyHash = mk_keyHash minted,
                nk_scopes = scopes, nk_createdBy = Some (ctx_principalId ctx),
                nk_expiresAt = ik_expiresAt cmd \<rparr>)) (\<lambda>record.
            ret \<lparr> issued_plaintext = mk_plaintext minted, issued_record = record \<rparr>)))"

definition apiKeyService_list :: "env \<Rightarrow> TenantContext \<Rightarrow> (world, ApiKeyRecord list) prog" where
  "apiKeyService_list E ctx =
     andThen (assertCan ctx Apikey_list) (\<lambda>_. onDb (apiKeys_list (uuid_in E) (ctx_tenantId ctx)))"

definition apiKeyService_revoke ::
  "env \<Rightarrow> millis \<Rightarrow> TenantContext \<Rightarrow> string \<Rightarrow> (world, unit) prog" where
  "apiKeyService_revoke E now ctx keyId =
     andThen (assertCan ctx Apikey_revoke) (\<lambda>_.
     if keyId = [] then throw (DomainErr (ValidationError ''key id is required'' None))
     else andThen (onDb (apiKeys_revoke (uuid_in E) (ctx_tenantId ctx) keyId now)) (\<lambda>revoked.
          if \<not> revoked then throw (not_found ''api key not found'') else ret ()))"

section \<open>RetentionService\<close>

record UpsertRetentionCommand =
  ur_hotDays :: int
  ur_coldDays :: int

definition retentionService_get :: "env \<Rightarrow> TenantContext \<Rightarrow> (world, RetentionPolicy) prog" where
  "retentionService_get E ctx =
     andThen (assertCan ctx Retention_read) (\<lambda>_.
     andThen (onDb (retention_get (uuid_in E) (ctx_tenantId ctx))) (\<lambda>policy.
     case policy of None \<Rightarrow> throw (not_found ''retention policy not found'') | Some p \<Rightarrow> ret p))"

definition retentionService_upsert ::
  "env \<Rightarrow> millis \<Rightarrow> TenantContext \<Rightarrow> UpsertRetentionCommand \<Rightarrow> (world, RetentionPolicy) prog" where
  "retentionService_upsert E dbNow ctx cmd =
     andThen (assertCan ctx Retention_update) (\<lambda>_.
     onDb (retention_upsert (uuid_in E) dbNow (ctx_tenantId ctx)
       \<lparr> ri_hotDays = ur_hotDays cmd, ri_coldDays = ur_coldDays cmd,
         ri_updatedBy = Some (ctx_principalId ctx) \<rparr>))"

section \<open>SavedQueryService\<close>

record CreateSavedQueryCommand =
  cq_name :: string
  cq_description :: "string option"
  cq_queryText :: string
  cq_filters :: SavedQueryFilters
  cq_timeRange :: "(string \<times> json) list"

definition savedQueryService_create ::
  "env \<Rightarrow> uuid \<Rightarrow> millis \<Rightarrow> TenantContext \<Rightarrow> CreateSavedQueryCommand \<Rightarrow> (world, SavedQuery) prog" where
  "savedQueryService_create E newId dbNow ctx cmd =
     andThen (assertCan ctx Savedquery_create) (\<lambda>_.
     tryCatch
       (onDb (savedQueries_create (uuid_in E) newId dbNow (ctx_tenantId ctx)
          \<lparr> nsq_name = cq_name cmd, nsq_description = cq_description cmd, nsq_queryText = cq_queryText cmd,
            nsq_filters = cq_filters cmd, nsq_timeRange = cq_timeRange cmd,
            nsq_createdBy = Some (ctx_principalId ctx) \<rparr>))
       (\<lambda>err. if isUniqueViolation err
              then throw (DomainErr (ConflictError (''a saved query named '' @ quoted (cq_name cmd) @ '' already exists'')))
              else throw err))"

definition savedQueryService_list :: "env \<Rightarrow> TenantContext \<Rightarrow> (world, SavedQuery list) prog" where
  "savedQueryService_list E ctx =
     andThen (assertCan ctx Savedquery_list) (\<lambda>_. onDb (savedQueries_list (uuid_in E) (ctx_tenantId ctx)))"

definition savedQueryService_get :: "env \<Rightarrow> TenantContext \<Rightarrow> string \<Rightarrow> (world, SavedQuery) prog" where
  "savedQueryService_get E ctx ident =
     andThen (assertCan ctx Savedquery_read) (\<lambda>_.
     andThen (onDb (savedQueries_findById (uuid_in E) (ctx_tenantId ctx) ident)) (\<lambda>sq.
     case sq of None \<Rightarrow> throw (not_found ''saved query not found'') | Some q \<Rightarrow> ret q))"

definition savedQueryService_update ::
  "env \<Rightarrow> millis \<Rightarrow> TenantContext \<Rightarrow> string \<Rightarrow> SavedQueryPatch \<Rightarrow> (world, SavedQuery) prog" where
  "savedQueryService_update E dbNow ctx ident patch =
     andThen (assertCan ctx Savedquery_update) (\<lambda>_.
     andThen
       (tryCatch (onDb (savedQueries_update (uuid_in E) dbNow (ctx_tenantId ctx) ident patch))
          (\<lambda>err. if isUniqueViolation err
                 then throw (DomainErr (ConflictError ''a saved query with that name already exists''))
                 else throw err)) (\<lambda>updated.
     case updated of None \<Rightarrow> throw (not_found ''saved query not found'') | Some q \<Rightarrow> ret q))"

definition savedQueryService_remove :: "env \<Rightarrow> TenantContext \<Rightarrow> string \<Rightarrow> (world, unit) prog" where
  "savedQueryService_remove E ctx ident =
     andThen (assertCan ctx Savedquery_delete) (\<lambda>_.
     andThen (onDb (savedQueries_delete (uuid_in E) (ctx_tenantId ctx) ident)) (\<lambda>deleted.
     if \<not> deleted then throw (not_found ''saved query not found'') else ret ()))"

section \<open>DashboardService\<close>

record CreateDashboardCommand =
  cd_name :: string
  cd_description :: "string option"
  cd_layout :: DashboardLayout

definition dashboardService_create ::
  "env \<Rightarrow> uuid \<Rightarrow> millis \<Rightarrow> TenantContext \<Rightarrow> CreateDashboardCommand \<Rightarrow> (world, Dashboard) prog" where
  "dashboardService_create E newId dbNow ctx cmd =
     andThen (assertCan ctx Dashboard_create) (\<lambda>_.
     tryCatch
       (onDb (dashboards_create (uuid_in E) newId dbNow (ctx_tenantId ctx)
          \<lparr> nd_name = cd_name cmd, nd_description = cd_description cmd, nd_layout = cd_layout cmd,
            nd_createdBy = Some (ctx_principalId ctx) \<rparr>))
       (\<lambda>err. if isUniqueViolation err
              then throw (DomainErr (ConflictError (''a dashboard named '' @ quoted (cd_name cmd) @ '' already exists'')))
              else throw err))"

definition dashboardService_list :: "env \<Rightarrow> TenantContext \<Rightarrow> (world, Dashboard list) prog" where
  "dashboardService_list E ctx =
     andThen (assertCan ctx Dashboard_list) (\<lambda>_. onDb (dashboards_list (uuid_in E) (ctx_tenantId ctx)))"

definition dashboardService_get :: "env \<Rightarrow> TenantContext \<Rightarrow> string \<Rightarrow> (world, Dashboard) prog" where
  "dashboardService_get E ctx ident =
     andThen (assertCan ctx Dashboard_read) (\<lambda>_.
     andThen (onDb (dashboards_findById (uuid_in E) (ctx_tenantId ctx) ident)) (\<lambda>dash.
     case dash of None \<Rightarrow> throw (not_found ''dashboard not found'') | Some d \<Rightarrow> ret d))"

definition dashboardService_update ::
  "env \<Rightarrow> millis \<Rightarrow> TenantContext \<Rightarrow> string \<Rightarrow> DashboardPatch \<Rightarrow> (world, Dashboard) prog" where
  "dashboardService_update E dbNow ctx ident patch =
     andThen (assertCan ctx Dashboard_update) (\<lambda>_.
     andThen
       (tryCatch (onDb (dashboards_update (uuid_in E) dbNow (ctx_tenantId ctx) ident patch))
          (\<lambda>err. if isUniqueViolation err
                 then throw (DomainErr (ConflictError ''a dashboard with that name already exists''))
                 else throw err)) (\<lambda>updated.
     case updated of None \<Rightarrow> throw (not_found ''dashboard not found'') | Some d \<Rightarrow> ret d))"

definition dashboardService_remove :: "env \<Rightarrow> TenantContext \<Rightarrow> string \<Rightarrow> (world, unit) prog" where
  "dashboardService_remove E ctx ident =
     andThen (assertCan ctx Dashboard_delete) (\<lambda>_.
     andThen (onDb (dashboards_delete (uuid_in E) (ctx_tenantId ctx) ident)) (\<lambda>deleted.
     if \<not> deleted then throw (not_found ''dashboard not found'') else ret ()))"

section \<open>AlertRuleService\<close>

record CreateAlertRuleCommand =
  ca_name :: string
  ca_savedQueryId :: "string option"
  ca_query :: RuleQuery
  ca_comparator :: alert_comparator
  ca_threshold :: rat
  ca_windowSeconds :: int
  ca_severity :: string
  ca_enabled :: bool
  ca_notifyChannels :: "NotifyChannel list"

fun assertChannels :: "NotifyChannel list \<Rightarrow> ('s, unit) prog" where
  "assertChannels [] = ret ()"
| "assertChannels (ch # chs) =
     (case ch of
        webhook url \<Rightarrow>
          if url = [] then throw (DomainErr (ValidationError ''webhook channel requires a url'' None))
          else assertChannels chs
      | email_channel to \<Rightarrow>
          if to = [] then throw (DomainErr (ValidationError ''email channel requires a recipient'' None))
          else assertChannels chs)"

definition non_blank :: "string option \<Rightarrow> bool" where
  "non_blank v = (case v of None \<Rightarrow> False | Some s \<Rightarrow> trim s \<noteq> [])"

definition hasInlineQuery :: "RuleQuery \<Rightarrow> bool" where
  "hasInlineQuery q \<longleftrightarrow>
     non_blank (q_text q) \<or> non_blank (q_service q)
     \<or> (case q_level q of None \<Rightarrow> False | Some l \<Rightarrow> l \<noteq> [])
     \<or> (case q_labels q of None \<Rightarrow> False | Some ls \<Rightarrow> 0 < length ls)"

definition assertQuerySource :: "string option \<Rightarrow> RuleQuery \<Rightarrow> ('s, unit) prog" where
  "assertQuerySource savedQueryId query =
     (if (savedQueryId \<noteq> None) = hasInlineQuery query
      then throw (DomainErr (ValidationError ''provide exactly one of: savedQueryId, or a non-empty query'' None))
      else ret ())"

definition isUniqueName :: "js_error \<Rightarrow> bool" where
  "isUniqueName err =
     (case err of PgError code c \<Rightarrow> code = ''23505'' | DomainErr e \<Rightarrow> err_code e = ''23505'' | PlainError m \<Rightarrow> False)"

definition alertRuleService_create ::
  "env \<Rightarrow> uuid \<Rightarrow> millis \<Rightarrow> TenantContext \<Rightarrow> CreateAlertRuleCommand \<Rightarrow> (world, AlertRule) prog" where
  "alertRuleService_create E newId dbNow ctx cmd =
     andThen (assertCan ctx Alert_create) (\<lambda>_.
     andThen (assertChannels (ca_notifyChannels cmd)) (\<lambda>_.
     andThen (assertQuerySource (ca_savedQueryId cmd) (ca_query cmd)) (\<lambda>_.
     tryCatch
       (onDb (alertRules_create (uuid_in E) newId dbNow (ctx_tenantId ctx)
          \<lparr> nar_name = ca_name cmd, nar_savedQueryId = ca_savedQueryId cmd, nar_query = ca_query cmd,
            nar_comparator = ca_comparator cmd, nar_threshold = ca_threshold cmd,
            nar_windowSeconds = ca_windowSeconds cmd, nar_severity = ca_severity cmd,
            nar_enabled = ca_enabled cmd, nar_notifyChannels = ca_notifyChannels cmd,
            nar_createdBy = Some (ctx_principalId ctx) \<rparr>))
       (\<lambda>err. if isUniqueName err
              then throw (DomainErr (ConflictError (''an alert rule named '' @ quoted (ca_name cmd) @ '' already exists'')))
              else throw err))))"

definition alertRuleService_list :: "env \<Rightarrow> TenantContext \<Rightarrow> (world, AlertRule list) prog" where
  "alertRuleService_list E ctx =
     andThen (assertCan ctx Alert_list) (\<lambda>_. onDb (alertRules_list (uuid_in E) (ctx_tenantId ctx)))"

definition alertRuleService_get :: "env \<Rightarrow> TenantContext \<Rightarrow> string \<Rightarrow> (world, AlertRule) prog" where
  "alertRuleService_get E ctx ident =
     andThen (assertCan ctx Alert_read) (\<lambda>_.
     andThen (onDb (alertRules_findById (uuid_in E) (ctx_tenantId ctx) ident)) (\<lambda>rule.
     case rule of None \<Rightarrow> throw (not_found ''alert rule not found'') | Some r \<Rightarrow> ret r))"

text \<open>\<open>patch.savedQueryId == null\<close> holds of an undefined and of a null field.\<close>

definition alertRuleService_update ::
  "env \<Rightarrow> millis \<Rightarrow> TenantContext \<Rightarrow> string \<Rightarrow> AlertRulePatch \<Rightarrow> (world, AlertRule) prog" where
  "alertRuleService_update E dbNow ctx ident patch =
     andThen (assertCan ctx Alert_update) (\<lambda>_.
     andThen (case par_notifyChannels patch of None \<Rightarrow> ret () | Some chs \<Rightarrow> assertChannels chs) (\<lambda>_.
     if (case par_query patch of None \<Rightarrow> False | Some q \<Rightarrow> \<not> hasInlineQuery q)
        \<and> (case par_savedQueryId patch of None \<Rightarrow> True | Some v \<Rightarrow> v = None)
     then throw (DomainErr (ValidationError
            ''query cannot be emptied; set a savedQueryId to switch query source'' None))
     else
       andThen
         (tryCatch (onDb (alertRules_update (uuid_in E) dbNow (ctx_tenantId ctx) ident patch))
            (\<lambda>err. if isUniqueName err
                   then throw (DomainErr (ConflictError ''an alert rule with that name already exists''))
                   else throw err)) (\<lambda>updated.
       case updated of None \<Rightarrow> throw (not_found ''alert rule not found'') | Some r \<Rightarrow> ret r)))"

definition alertRuleService_remove :: "env \<Rightarrow> TenantContext \<Rightarrow> string \<Rightarrow> (world, unit) prog" where
  "alertRuleService_remove E ctx ident =
     andThen (assertCan ctx Alert_delete) (\<lambda>_.
     andThen (onDb (alertRules_delete (uuid_in E) (ctx_tenantId ctx) ident)) (\<lambda>deleted.
     if \<not> deleted then throw (not_found ''alert rule not found'') else ret ()))"

section \<open>InviteService\<close>

definition INVITE_SECRET_HEX_LENGTH :: nat where
  "INVITE_SECRET_HEX_LENGTH = INVITE_SECRET_BYTES * 2"

record CreateInviteCommand =
  cinv_email :: string
  cinv_role :: string

record IssuedInvite =
  iss_invite :: Invite
  iss_inviteUrl :: string

definition invite_url :: "env \<Rightarrow> string \<Rightarrow> string" where
  "invite_url E plaintext = inviteAcceptBaseUrl E @ ''/invite/accept?token='' @ plaintext"

definition invite_mail :: "string \<Rightarrow> string \<Rightarrow> EmailMessage" where
  "invite_mail to url =
     \<lparr> em_to = to, em_subject = ''You have been invited to Logalot'',
       em_text = ''You have been invited. Use this link to accept your invitation: '' @ url,
       em_html = Some (''<p>You have been invited. <a href='' @ [CHR 0x22] @ url @ [CHR 0x22]
                   @ ''>Accept your invitation</a>.</p>'') \<rparr>"

definition log_invite :: "InviteAuditEvent \<Rightarrow> (world, unit) prog" where
  "log_invite e = updS (\<lambda>w. w\<lparr>w_invite_audit := w_invite_audit w @ [e]\<rparr>)"

text \<open>The sender is called and its failure, if any, thrown; the outbox records the call.\<close>

definition emailSender_send :: "env \<Rightarrow> EmailMessage \<Rightarrow> (world, unit) prog" where
  "emailSender_send E m =
     andThen (updS (\<lambda>w. w\<lparr>w_outbox := w_outbox w @ [m]\<rparr>)) (\<lambda>_. liftR (send_email E m))"

definition inviteService_create ::
  "env \<Rightarrow> string \<Rightarrow> millis \<Rightarrow> uuid \<Rightarrow> millis \<Rightarrow> TenantContext \<Rightarrow> CreateInviteCommand \<Rightarrow> (world, IssuedInvite) prog" where
  "inviteService_create E rawSecret now newId dbNow ctx cmd =
     andThen (assertCan ctx Invite_create) (\<lambda>_.
     andThen (onDb (tenants_findById (uuid_in E) (ctx_tenantId ctx))) (\<lambda>tenant.
     case tenant of
       None \<Rightarrow> throw (not_found ''tenant not found'')
     | Some t \<Rightarrow>
         andThen (onDb (invites_countPending (uuid_in E) (ctx_tenantId ctx))) (\<lambda>pendingCount.
         if pendingCount \<ge> inviteMaxOutstandingPerTenant E
         then throw (DomainErr (ConflictError
                (''outstanding invite cap reached (max '' @ int_digits (inviteMaxOutstandingPerTenant E) @ '')'')))
         else if length rawSecret \<noteq> INVITE_SECRET_HEX_LENGTH
         then throw (PlainError (''secret generator must yield exactly '' @ nat_digits INVITE_SECRET_HEX_LENGTH
                @ '' hex chars; got '' @ nat_digits (length rawSecret)))
         else
           let email = normalizeEmail (cinv_email cmd);
               secretHash = hashInviteSecret (sha256 E) rawSecret;
               plaintext = assembleInviteToken (tenant_publicId t) rawSecret;
               expiresAt = now + inviteTtlSeconds E * 1000
           in andThen (onDb (invites_create (uuid_in E) newId dbNow (ctx_tenantId ctx)
                \<lparr> ni_role = cinv_role cmd, ni_email = email, ni_secretHash = secretHash,
                  ni_invitedBy = Some (ctx_principalId ctx), ni_expiresAt = expiresAt \<rparr>)) (\<lambda>invite.
              let inviteUrl = invite_url E plaintext
              in andThen (log_invite
                   \<lparr> ia_tenantId = ctx_tenantId ctx, ia_inviteId = inv_id invite,
                     ia_actorId = ctx_principalId ctx, ia_outcome = invite_created,
                     ia_email = inv_email invite, ia_role = inv_role invite, ia_ts = now \<rparr>) (\<lambda>_.
                 andThen (tryCatch (emailSender_send E (invite_mail (inv_email invite) inviteUrl)) (\<lambda>_. ret ())) (\<lambda>_.
                 ret \<lparr> iss_invite = invite, iss_inviteUrl = inviteUrl \<rparr>))))))"

definition inviteService_list :: "env \<Rightarrow> TenantContext \<Rightarrow> (world, Invite list) prog" where
  "inviteService_list E ctx =
     andThen (assertCan ctx Invite_list) (\<lambda>_. onDb (invites_listByTenant (uuid_in E) (ctx_tenantId ctx)))"

definition inviteService_revoke ::
  "env \<Rightarrow> millis \<Rightarrow> millis \<Rightarrow> TenantContext \<Rightarrow> string \<Rightarrow> (world, unit) prog" where
  "inviteService_revoke E now dbNow ctx ident =
     andThen (assertCan ctx Invite_revoke) (\<lambda>_.
     andThen (onDb (invites_revoke (uuid_in E) dbNow (ctx_tenantId ctx) ident now)) (\<lambda>revoked.
     if \<not> revoked then throw (not_found ''invite not found'')
     else log_invite
       \<lparr> ia_tenantId = ctx_tenantId ctx, ia_inviteId = ident, ia_actorId = ctx_principalId ctx,
         ia_outcome = invite_revoked, ia_email = [], ia_role = [], ia_ts = now \<rparr>))"

end
