(* ===== verification/Oidc.thy ===== *)
theory Oidc
  imports Auth
begin

text \<open>
  Google sign-in: \<^verbatim>\<open>app/oidc-authenticator.ts\<close> with the state store of
  \<^verbatim>\<open>adapters/redis/in-memory-oauth-state-store.ts\<close>, the token exchange of
  \<^verbatim>\<open>adapters/http/google-token-exchange-client.ts\<close>, the id-token verification of
  \<^verbatim>\<open>adapters/crypto/jose-google-verifier.ts\<close> and the audit half of
  \<^verbatim>\<open>adapters/postgres/pg-invite-provisioner.ts\<close>.
\<close>

section \<open>Encodings of the platform\<close>

definition b64_char :: "nat \<Rightarrow> char" where
  "b64_char n =
     (if n < 26 then char_of (65 + n) else if n < 52 then char_of (71 + n)
      else if n < 62 then char_of (n - 4) else if n = 62 then CHR ''-'' else CHR ''_'')"

fun base64url :: "bytes \<Rightarrow> string" where
  "base64url [] = []"
| "base64url [a] = (let x = of_char a in [b64_char (x div 4), b64_char ((x mod 4) * 16)])"
| "base64url [a, b] =
     (let x = of_char a; y = of_char b
      in [b64_char (x div 4), b64_char ((x mod 4) * 16 + y div 16), b64_char ((y mod 16) * 4)])"
| "base64url (a # b # c # rest) =
     (let x = of_char a; y = of_char b; z = of_char c
      in b64_char (x div 4) # b64_char ((x mod 4) * 16 + y div 16) # b64_char ((y mod 16) * 4 + z div 64)
         # b64_char (z mod 64) # base64url rest)"

definition upper_hex :: "nat \<Rightarrow> char" where
  "upper_hex n = (if n < 10 then char_of (48 + n) else char_of (55 + n))"

definition percent :: "nat \<Rightarrow> string" where
  "percent n = [CHR ''%'', upper_hex (n div 16), upper_hex (n mod 16)]"

text \<open>\<open>URLSearchParams\<close> serialisation of one code unit (UTF-8, form-urlencoded).\<close>

definition form_char :: "char \<Rightarrow> string" where
  "form_char c =
     (let n = (of_char c :: nat)
      in if (48 \<le> n \<and> n \<le> 57) \<or> (65 \<le> n \<and> n \<le> 90) \<or> (97 \<le> n \<and> n \<le> 122) \<or> n \<in> {42, 45, 46, 95} then [c]
         else if n = 32 then ''+''
         else if n < 128 then percent n
         else percent (192 + n div 64) @ percent (128 + n mod 64))"

definition urlencode :: "(string \<times> string) list \<Rightarrow> string" where
  "urlencode kvs = join ''&'' (map (\<lambda>(k, v). concat (map form_char k) @ ''='' @ concat (map form_char v)) kvs)"

section \<open>The state store\<close>

definition stateStore_put :: "millis \<Rightarrow> OAuthStateRecord \<Rightarrow> int \<Rightarrow> (world, unit) prog" where
  "stateStore_put now record ttlSeconds =
     updS (\<lambda>w. w\<lparr>w_states := (w_states w)(os_state record \<mapsto> (record, now + ttlSeconds * 1000))\<rparr>)"

definition stateStore_consume :: "millis \<Rightarrow> string \<Rightarrow> (world, OAuthStateRecord option) prog" where
  "stateStore_consume now state =
     andThen (getS (\<lambda>w. w_states w state)) (\<lambda>entry.
     case entry of
       None \<Rightarrow> ret None
     | Some (record, expiresAt) \<Rightarrow>
         andThen (updS (\<lambda>w. w\<lparr>w_states := (w_states w)(state := None)\<rparr>)) (\<lambda>_.
         if now > expiresAt then ret None else ret (Some record)))"

section \<open>Authorisation request\<close>

definition STATE_BYTES :: nat where "STATE_BYTES = 32"
definition DEFAULT_RETURN_TO :: string where "DEFAULT_RETURN_TO = ''/''"
definition OAUTH_STATE_TTL_SECONDS :: int where "OAUTH_STATE_TTL_SECONDS = 600"
definition GOOGLE_SCOPES :: string where "GOOGLE_SCOPES = ''openid email''"

definition control_char :: "char \<Rightarrow> bool" where
  "control_char c \<longleftrightarrow> (let n = (of_char c :: nat) in n \<le> 0x1f \<or> n = 0x7f)"

text \<open>The regular expression \<^verbatim>\<open>/^\/(?![/\\])/\<close>.\<close>

fun single_leading_slash :: "string \<Rightarrow> bool" where
  "single_leading_slash [] = False"
| "single_leading_slash [c] = (c = CHR ''/'')"
| "single_leading_slash (c # e # cs) = (c = CHR ''/'' \<and> e \<noteq> CHR ''/'' \<and> e \<noteq> CHR 0x5C)"

definition isValidReturnTo :: "string \<Rightarrow> bool" where
  "isValidReturnTo v \<longleftrightarrow>
     \<not> (length v = 0 \<or> length v > 2000) \<and> single_leading_slash v \<and> list_all (\<lambda>c. \<not> control_char c) v"

definition sanitizeReturnTo :: "string option \<Rightarrow> string" where
  "sanitizeReturnTo value =
     (case value of
        None \<Rightarrow> DEFAULT_RETURN_TO
      | Some v \<Rightarrow> if v = [] then DEFAULT_RETURN_TO
                  else let trimmed = trim v
                       in if isValidReturnTo trimmed then trimmed else DEFAULT_RETURN_TO)"

definition codeVerifierToChallenge :: "env \<Rightarrow> string \<Rightarrow> string" where
  "codeVerifierToChallenge E verifier = base64url (sha256 E verifier)"

definition hashProviderSub :: "env \<Rightarrow> string \<Rightarrow> string" where
  "hashProviderSub E sub = hex (sha256 E sub)"

record authorize_draws =
  ad_stateBytes :: bytes
  ad_nonceBytes :: bytes
  ad_verifierBytes :: bytes
  ad_now :: millis

definition beginAuthorize ::
  "env \<Rightarrow> authorize_draws \<Rightarrow> string \<Rightarrow> string option \<Rightarrow> (world, string) prog" where
  "beginAuthorize E R tenantSlug returnToRaw =
     andThen (onDb (tenants_findByPublicId tenantSlug)) (\<lambda>tenant.
     case tenant of
       None \<Rightarrow> throw (DomainErr (NotFoundError (''tenant '' @ [CHR 0x27] @ tenantSlug @ [CHR 0x27] @ '' not found'')))
     | Some t \<Rightarrow>
         if tenant_status t \<noteq> TS_active
         then throw (DomainErr (NotFoundError (''tenant '' @ [CHR 0x27] @ tenantSlug @ [CHR 0x27] @ '' not found'')))
         else
           let state = base64url (ad_stateBytes R);
               nonce = base64url (ad_nonceBytes R);
               codeVerifier = base64url (ad_verifierBytes R);
               codeChallenge = codeVerifierToChallenge E codeVerifier;
               returnTo = sanitizeReturnTo returnToRaw
           in andThen (stateStore_put (ad_now R)
                \<lparr> os_state = state, os_tenantId = tenant_id t,
                  os_meta = [''provider'' \<mapsto> ''google'', ''codeVerifier'' \<mapsto> codeVerifier,
                             ''nonce'' \<mapsto> nonce, ''returnTo'' \<mapsto> returnTo],
                  os_createdAt = ad_now R \<rparr> (oidc_stateTtlSeconds E)) (\<lambda>_.
              ret (oidc_authEndpoint E @ ''?'' @ urlencode
                [(''client_id'', oidc_clientId E), (''redirect_uri'', oidc_redirectUri E),
                 (''response_type'', ''code''), (''scope'', GOOGLE_SCOPES), (''state'', state),
                 (''nonce'', nonce), (''code_challenge'', codeChallenge),
                 (''code_challenge_method'', ''S256'')])))"

section \<open>Google\<close>

definition GOOGLE_ISSUERS :: "string list" where
  "GOOGLE_ISSUERS = [''https://accounts.google.com'', ''accounts.google.com'']"

record GoogleTokenExchangeResult =
  gx_idToken :: string
  gx_accessToken :: string
  gx_tokenType :: string
  gx_expiresIn :: rat

fun json_get :: "json \<Rightarrow> string \<Rightarrow> json option" where
  "json_get (JObj kvs) k = map_of kvs k"
| "json_get _ k = None"

definition exchange_failed :: js_error where
  "exchange_failed = DomainErr (UnauthorizedError ''token exchange failed'')"

definition exchange :: "env \<Rightarrow> string \<Rightarrow> string \<Rightarrow> string \<Rightarrow> js_error + GoogleTokenExchangeResult" where
  "exchange E code redirectUri codeVerifier =
     (let body = [(''grant_type'', ''authorization_code''), (''code'', code), (''redirect_uri'', redirectUri),
                  (''client_id'', google_clientId E), (''client_secret'', google_clientSecret E),
                  (''code_verifier'', codeVerifier)]
      in case google_fetch E body of
           NetworkFailure \<Rightarrow> Inl (DomainErr (ServiceUnavailableError ''Google token endpoint unavailable''))
         | HttpResponse status parsed \<Rightarrow>
             if \<not> (200 \<le> status \<and> status \<le> 299)
             then (if status \<ge> 500
                   then Inl (DomainErr (ServiceUnavailableError ''Google token endpoint error''))
                   else Inl exchange_failed)
             else (case parsed of
                     None \<Rightarrow> Inl exchange_failed
                   | Some JNull \<Rightarrow> Inl (PlainError ''TypeError'')
                   | Some data \<Rightarrow>
                       (case (json_get data ''id_token'', json_get data ''access_token'',
                              json_get data ''token_type'', json_get data ''expires_in'') of
                          (Some (JStr i), Some (JStr a), Some (JStr t), Some (JNum n)) \<Rightarrow>
                            Inr \<lparr> gx_idToken = i, gx_accessToken = a, gx_tokenType = t, gx_expiresIn = n \<rparr>
                        | _ \<Rightarrow> Inl exchange_failed)))"

definition invalid_id_token :: js_error where
  "invalid_id_token = DomainErr (UnauthorizedError ''invalid id_token'')"

definition verifyIdToken :: "env \<Rightarrow> string \<Rightarrow> string \<Rightarrow> js_error + GoogleIdTokenClaims" where
  "verifyIdToken E idToken expectedNonce =
     (case google_jwks E idToken (google_clientId E) of
        JwksTimeout \<Rightarrow> Inl (DomainErr (ServiceUnavailableError ''Google JWKS endpoint unavailable''))
      | NotAJoseError \<Rightarrow> Inl (DomainErr (ServiceUnavailableError ''Google JWKS endpoint unavailable''))
      | JoseRejected \<Rightarrow> Inl invalid_id_token
      | JosePayload payload \<Rightarrow>
          if map_of payload ''email_verified'' \<noteq> Some (JBool True) then Inl invalid_id_token
          else if map_of payload ''nonce'' \<noteq> Some (JStr expectedNonce) then Inl invalid_id_token
          else (case (map_of payload ''email'', map_of payload ''sub'') of
                  (Some (JStr email), Some (JStr sub)) \<Rightarrow>
                    Inr \<lparr> g_sub = sub, g_email = email, g_email_verified = True, g_nonce = expectedNonce,
                          g_name = (case map_of payload ''name'' of Some (JStr n) \<Rightarrow> Some n | _ \<Rightarrow> None) \<rparr>
                | _ \<Rightarrow> Inl invalid_id_token))"

text \<open>Calls of Google, recorded in the trace.\<close>

definition call_exchange :: "env \<Rightarrow> string \<Rightarrow> string \<Rightarrow> (world, GoogleTokenExchangeResult) prog" where
  "call_exchange E code codeVerifier =
     andThen (updS (\<lambda>w. w\<lparr>w_google := w_google w @ [Exchange code (oidc_redirectUri E) codeVerifier]\<rparr>)) (\<lambda>_.
     liftR (exchange E code (oidc_redirectUri E) codeVerifier))"

definition call_verify :: "env \<Rightarrow> string \<Rightarrow> string \<Rightarrow> (world, GoogleIdTokenClaims) prog" where
  "call_verify E idToken nonce =
     andThen (updS (\<lambda>w. w\<lparr>w_google := w_google w @ [VerifyIdToken idToken nonce]\<rparr>)) (\<lambda>_.
     liftR (verifyIdToken E idToken nonce))"

section \<open>Callback\<close>

record OidcCallbackCommand =
  oc_code :: string
  oc_state :: string
  oc_inviteTokenHash :: "bytes option"

record callback_draws =
  cb_storeNow :: millis
  cb_auditNow :: millis
  cb_provisionNow :: millis
  cb_touchNow :: millis
  cb_dbNow :: millis
  cb_newUserId :: uuid
  cb_newLinkId :: uuid
  cb_session :: draws

definition audit ::
  "callback_draws \<Rightarrow> string option \<Rightarrow> string option \<Rightarrow> string option \<Rightarrow> OAuthAuditOutcome \<Rightarrow> (world, unit) prog" where
  "audit R tenantId userId hashedSub outcome =
     updS (\<lambda>w. w\<lparr>w_oauth_audit := w_oauth_audit w @
       [\<lparr> oa_tenantId = tenantId, oa_userId = userId, oa_provider = ''google'', oa_hashedSub = hashedSub,
          oa_outcome = outcome, oa_ts = cb_auditNow R \<rparr>]\<rparr>)"

definition reject_with ::
  "callback_draws \<Rightarrow> string option \<Rightarrow> string option \<Rightarrow> string option \<Rightarrow> OAuthAuditOutcome \<Rightarrow> js_error \<Rightarrow> (world, 'a) prog" where
  "reject_with R tenantId userId hashedSub outcome err =
     andThen (audit R tenantId userId hashedSub outcome) (\<lambda>_. throw err)"

definition provisionFromInvite ::
  "env \<Rightarrow> callback_draws \<Rightarrow> string \<Rightarrow> InviteProvisionInput \<Rightarrow> (world, uuid option) prog" where
  "provisionFromInvite E R tenantId input =
     andThen (onDb (provisionFromInvite_db (uuid_in E) (cb_newUserId R) (cb_newLinkId R) (cb_dbNow R) tenantId input)) (\<lambda>result.
     case result of
       None \<Rightarrow> ret None
     | Some userId \<Rightarrow>
         andThen (updS (\<lambda>w. w\<lparr>w_oauth_audit := w_oauth_audit w @
           [\<lparr> oa_tenantId = Some tenantId, oa_userId = Some userId, oa_provider = ''google'',
              oa_hashedSub = Some (hashProviderSub E (ip_providerSub input)),
              oa_outcome = invite_provisioned, oa_ts = ip_now input \<rparr>]\<rparr>)) (\<lambda>_.
         ret (Some userId)))"

definition no_provisioned_account :: js_error where
  "no_provisioned_account = DomainErr (UnauthorizedError ''no provisioned account for this Google identity'')"

fun isServiceUnavailable :: "js_error \<Rightarrow> bool" where
  "isServiceUnavailable (DomainErr (ServiceUnavailableError m)) = True"
| "isServiceUnavailable e = False"

definition mintSession ::
  "env \<Rightarrow> draws \<Rightarrow> string \<Rightarrow> string \<Rightarrow> role \<Rightarrow> (world, SessionTokens) prog" where
  "mintSession E R tenantId userId role =
     andThen (onDb (refreshTokens_create (uuid_in E) (dr_newId R) (dr_dbNow R) tenantId
       \<lparr> nr_familyId = dr_uuid R, nr_userId = userId, nr_tokenHash = sha256 E (dr_secret R),
         nr_expiresAt = dr_now R + refreshTtlSeconds E * 1000 \<rparr>)) (\<lambda>tokenId.
     ret (session_tokens E R tenantId userId role (assembleRefreshToken tenantId tokenId (dr_secret R))))"

text \<open>
  Step 4 of \<open>handleCallback\<close>: the user behind a verified Google account, whether it was linked
  just now, and the identity that already existed.
\<close>

definition resolve_identity ::
  "env \<Rightarrow> callback_draws \<Rightarrow> OidcCallbackCommand \<Rightarrow> string \<Rightarrow> GoogleIdTokenClaims
     \<Rightarrow> (world, uuid \<times> bool \<times> OAuthIdentityRef option) prog" where
  "resolve_identity E R cmd tenantId claims =
     (let hashedSub = Some (hashProviderSub E (g_sub claims));
          normalizedEmail = normalizeEmail (g_email claims)
      in andThen (onDb (oauthIdentities_findByProviderSub (uuid_in E) tenantId google (g_sub claims))) (\<lambda>existing.
         case existing of
           Some i \<Rightarrow> ret (oref_userId i, False, Some i)
         | None \<Rightarrow>
             andThen (onDb (users_findCredentialsByEmail (uuid_in E) tenantId normalizedEmail)) (\<lambda>userRecord.
             case userRecord of
               None \<Rightarrow>
                 (case oc_inviteTokenHash cmd of
                    Some h \<Rightarrow>
                      if oidc_inviteProvisioner E
                      then andThen (provisionFromInvite E R tenantId
                             \<lparr> ip_email = normalizedEmail, ip_providerSub = g_sub claims,
                               ip_inviteTokenHash = h, ip_now = cb_provisionNow R \<rparr>) (\<lambda>provisioned.
                           case provisioned of
                             Some u \<Rightarrow> ret (u, True, None)
                           | None \<Rightarrow> reject_with R (Some tenantId) None hashedSub reject_no_valid_invite
                                       no_provisioned_account)
                      else reject_with R (Some tenantId) None hashedSub reject_no_provisioned_user
                             no_provisioned_account
                  | None \<Rightarrow> reject_with R (Some tenantId) None hashedSub reject_no_provisioned_user
                              no_provisioned_account)
             | Some u \<Rightarrow>
                 andThen
                   (tryCatch
                      (onDb (oauthIdentities_linkFirst (uuid_in E) (cb_newLinkId R) (cb_dbNow R) tenantId
                         \<lparr> noi_userId = auth_id u, noi_provider = google, noi_providerSub = g_sub claims,
                           noi_email = normalizedEmail \<rparr>))
                      (\<lambda>err. if isConflictError err
                             then reject_with R (Some tenantId) None hashedSub reject_identity_conflict
                                    no_provisioned_account
                             else throw err)) (\<lambda>linked.
                 ret (oref_userId linked, True, None)))))"

text \<open>Steps 5 to 7: the account must be active and have a role before a session is minted.\<close>

definition finish_callback ::
  "env \<Rightarrow> callback_draws \<Rightarrow> string \<Rightarrow> string \<Rightarrow> uuid \<times> bool \<times> OAuthIdentityRef option \<Rightarrow> (world, SessionTokens) prog" where
  "finish_callback E R tenantId hashedSub resolved =
     (case resolved of (userId, isFirstLink, existing) \<Rightarrow>
        andThen (onDb (users_findCredentialsById (uuid_in E) tenantId userId)) (\<lambda>record.
        case record of
          None \<Rightarrow> reject_with R (Some tenantId) (Some userId) (Some hashedSub) reject_account_inactive
                    (DomainErr (UnauthorizedError ''account is not active''))
        | Some r \<Rightarrow>
            if auth_status r \<noteq> ''active''
            then reject_with R (Some tenantId) (Some userId) (Some hashedSub) reject_account_inactive
                   (DomainErr (UnauthorizedError ''account is not active''))
            else (case auth_role r of
                    None \<Rightarrow> reject_with R (Some tenantId) (Some userId) (Some hashedSub) reject_account_inactive
                              (DomainErr (UnauthorizedError ''account is not active''))
                  | Some role \<Rightarrow>
                      andThen (case existing of
                                 None \<Rightarrow> ret ()
                               | Some i \<Rightarrow>
                                   tryCatch (onDb (oauthIdentities_touchLastLogin (uuid_in E) (cb_dbNow R) tenantId
                                     (oref_id i) (cb_touchNow R))) (\<lambda>_. ret ())) (\<lambda>_.
                      andThen (mintSession E (cb_session R) tenantId (auth_id r) role) (\<lambda>tokens.
                      andThen (audit R (Some tenantId) (Some (auth_id r)) (Some hashedSub)
                                 (if isFirstLink then first_link else login_outcome)) (\<lambda>_.
                      ret tokens))))))"

definition handleCallback ::
  "env \<Rightarrow> callback_draws \<Rightarrow> OidcCallbackCommand \<Rightarrow> (world, SessionTokens \<times> string) prog" where
  "handleCallback E R cmd =
     andThen (stateStore_consume (cb_storeNow R) (oc_state cmd)) (\<lambda>consumed.
     case consumed of
       None \<Rightarrow> reject_with R None None None reject_invalid_state
                 (DomainErr (UnauthorizedError ''invalid or expired OAuth state''))
     | Some st \<Rightarrow>
         let tenantId = os_tenantId st;
             codeVerifier = (case os_meta st ''codeVerifier'' of None \<Rightarrow> [] | Some v \<Rightarrow> v);
             nonce = (case os_meta st ''nonce'' of None \<Rightarrow> [] | Some v \<Rightarrow> v);
             returnTo = (case os_meta st ''returnTo'' of None \<Rightarrow> ''/'' | Some v \<Rightarrow> v)
         in if codeVerifier = [] \<or> nonce = []
            then reject_with R (Some tenantId) None None reject_invalid_state
                   (DomainErr (UnauthorizedError ''malformed OAuth state record''))
            else
              andThen
                (tryCatch (call_exchange E (oc_code cmd) codeVerifier)
                   (\<lambda>err. reject_with R (Some tenantId) None None reject_exchange_failure
                            (if isServiceUnavailable err then err else exchange_failed))) (\<lambda>exchanged.
              andThen
                (tryCatch (call_verify E (gx_idToken exchanged) nonce)
                   (\<lambda>err. reject_with R (Some tenantId) None None reject_invalid_token
                            (if isServiceUnavailable err then err
                             else DomainErr (UnauthorizedError ''id_token verification failed'')))) (\<lambda>claims.
              andThen (resolve_identity E R cmd tenantId claims) (\<lambda>resolved.
              andThen (finish_callback E R tenantId (hashProviderSub E (g_sub claims)) resolved) (\<lambda>tokens.
              ret (tokens, returnTo))))))"

end
