(* ===== verification/Http.thy ===== *)
theory Http
  imports Services Oidc
begin

text \<open>
  The HTTP boundary of the control plane: \<^verbatim>\<open>adapters/http/auth-plugin.ts\<close>,
  \<^verbatim>\<open>rbac-guard.ts\<close>, the error handler of \<^verbatim>\<open>server.ts\<close> and the protected routes of
  \<^verbatim>\<open>routes.ts\<close>. A protected route runs authentication, the edge guard for its operation, the
  validation of its input, the service, and shapes the reply; a \<open>call\<close> is a route with its
  validated input. Validation is the argument \<open>parsed\<close>: either the issues of the zod schema or
  the call. Rate limiting is a plugin and is not part of the model.
\<close>

section \<open>Errors as replies\<close>

datatype reply_body =
    ErrorBody string string "json option"
  | TenantBody Tenant
  | TenantsBody "Tenant list"
  | UserBody User
  | UsersBody "User list"
  | IssuedKeyBody ApiKeyRecord string
  | KeysBody "ApiKeyRecord list"
  | RetentionBody RetentionPolicy
  | RuleBody AlertRule
  | RulesBody "AlertRule list"
  | SavedQueryBody SavedQuery
  | SavedQueriesBody "SavedQuery list"
  | DashboardBody Dashboard
  | DashboardsBody "Dashboard list"
  | IssuedInviteBody Invite string
  | InvitesBody "Invite list"
  | SessionBody SessionTokens
  | EmptyBody

record reply =
  rep_status :: int
  rep_body :: reply_body

text \<open>No error the programs throw carries a \<open>statusCode\<close> field except domain errors.\<close>

fun errorHandler :: "js_error \<Rightarrow> reply" where
  "errorHandler (DomainErr e) =
     \<lparr> rep_status = err_status e,
       rep_body = ErrorBody (err_code e) (if err_expose e then err_message e else ''request failed'') (err_details e) \<rparr>"
| "errorHandler err = \<lparr> rep_status = 500, rep_body = ErrorBody ''internal_error'' ''internal server error'' None \<rparr>"

definition reply_of :: "(world, reply) prog \<Rightarrow> world \<Rightarrow> reply \<times> world" where
  "reply_of m w = (case m w of (Inl e, w') \<Rightarrow> (errorHandler e, w') | (Inr r, w') \<Rightarrow> (r, w'))"

section \<open>Authentication and the edge guard\<close>

text \<open>\<^verbatim>\<open>/^Bearer (.+)$/\<close>\<close>

definition bearer :: "string \<Rightarrow> string option" where
  "bearer header =
     (let rest = drop 7 header
      in if take 7 header = ''Bearer '' \<and> rest \<noteq> []
            \<and> list_all (\<lambda>c. c \<noteq> CHR 0x0A \<and> c \<noteq> CHR 0x0D) rest
         then Some rest else None)"

definition authenticate :: "env \<Rightarrow> millis \<Rightarrow> string option \<Rightarrow> js_error + TenantContext" where
  "authenticate E now header =
     (case (case header of None \<Rightarrow> None | Some h \<Rightarrow> bearer h) of
        None \<Rightarrow> Inl (DomainErr (UnauthorizedError ''missing bearer token''))
      | Some token \<Rightarrow>
          (case verifyAccess E now token of
             Inl _ \<Rightarrow> Inl (DomainErr (UnauthorizedError ''invalid or expired token''))
           | Inr claims \<Rightarrow>
               Inr \<lparr> ctx_tenantId = sc_tenantId claims, ctx_principalId = sc_principalId claims,
                     ctx_role = sc_role claims, ctx_scopes = None \<rparr>))"

definition requireOperation :: "operation \<Rightarrow> TenantContext \<Rightarrow> ('s, unit) prog" where
  "requireOperation op ctx =
     (if \<not> can (ctx_role ctx) op then throw (forbidden_error (ctx_role ctx) op) else ret ())"

section \<open>Calls\<close>

text \<open>What the request draws: ids, secrets, salt and instants, each used at most once per call.\<close>

record call_draws =
  cd_newId :: uuid
  cd_dbNow :: millis
  cd_now :: millis
  cd_salt :: string
  cd_secret :: string
  cd_keyMaterial :: KeyMaterial

datatype tenant_call =
    TenantCreate NewTenant
  | TenantList
  | TenantGet string
  | TenantUpdate string TenantPatch
  | TenantRemove string
  | TenantProvisionAdmin string ProvisionAdminCommand

datatype user_call =
    UserCreate CreateUserCommand
  | UserList
  | UserGet string
  | UserUpdate string UpdateUserCommand
  | UserRemove string

datatype key_call =
    KeyIssue IssueApiKeyCommand
  | KeyList
  | KeyRevoke string

datatype retention_call =
    RetentionGet
  | RetentionUpsert UpsertRetentionCommand

datatype alert_call =
    AlertCreate CreateAlertRuleCommand
  | AlertList
  | AlertGet string
  | AlertUpdate string AlertRulePatch
  | AlertRemove string

datatype saved_query_call =
    SavedQueryCreate CreateSavedQueryCommand
  | SavedQueryList
  | SavedQueryGet string
  | SavedQueryUpdate string SavedQueryPatch
  | SavedQueryRemove string

datatype dashboard_call =
    DashboardCreate CreateDashboardCommand
  | DashboardList
  | DashboardGet string
  | DashboardUpdate string DashboardPatch
  | DashboardRemove string

datatype invite_call =
    InviteCreate CreateInviteCommand
  | InviteList
  | InviteRevoke string

datatype call =
    Tenants tenant_call
  | Users user_call
  | Keys key_call
  | Retention retention_call
  | Alerts alert_call
  | SavedQueries saved_query_call
  | Dashboards dashboard_call
  | Invites invite_call

text \<open>The operation each route is registered with.\<close>

fun tenant_op :: "tenant_call \<Rightarrow> operation" where
  "tenant_op (TenantCreate _) = Tenant_create"
| "tenant_op TenantList = Tenant_list"
| "tenant_op (TenantGet _) = Tenant_read"
| "tenant_op (TenantUpdate _ _) = Tenant_update"
| "tenant_op (TenantRemove _) = Tenant_delete"
| "tenant_op (TenantProvisionAdmin _ _) = Tenant_provision_admin"

fun user_op :: "user_call \<Rightarrow> operation" where
  "user_op (UserCreate _) = User_create"
| "user_op UserList = User_list"
| "user_op (UserGet _) = User_read"
| "user_op (UserUpdate _ _) = User_update"
| "user_op (UserRemove _) = User_delete"

fun key_op :: "key_call \<Rightarrow> operation" where
  "key_op (KeyIssue _) = Apikey_create"
| "key_op KeyList = Apikey_list"
| "key_op (KeyRevoke _) = Apikey_revoke"

fun retention_op :: "retention_call \<Rightarrow> operation" where
  "retention_op RetentionGet = Retention_read"
| "retention_op (RetentionUpsert _) = Retention_update"

fun alert_op :: "alert_call \<Rightarrow> operation" where
  "alert_op (AlertCreate _) = Alert_create"
| "alert_op AlertList = Alert_list"
| "alert_op (AlertGet _) = Alert_read"
| "alert_op (AlertUpdate _ _) = Alert_update"
| "alert_op (AlertRemove _) = Alert_delete"

fun saved_query_op :: "saved_query_call \<Rightarrow> operation" where
  "saved_query_op (SavedQueryCreate _) = Savedquery_create"
| "saved_query_op SavedQueryList = Savedquery_list"
| "saved_query_op (SavedQueryGet _) = Savedquery_read"
| "saved_query_op (SavedQueryUpdate _ _) = Savedquery_update"
| "saved_query_op (SavedQueryRemove _) = Savedquery_delete"

fun dashboard_op :: "dashboard_call \<Rightarrow> operation" where
  "dashboard_op (DashboardCreate _) = Dashboard_create"
| "dashboard_op DashboardList = Dashboard_list"
| "dashboard_op (DashboardGet _) = Dashboard_read"
| "dashboard_op (DashboardUpdate _ _) = Dashboard_update"
| "dashboard_op (DashboardRemove _) = Dashboard_delete"

fun invite_op :: "invite_call \<Rightarrow> operation" where
  "invite_op (InviteCreate _) = Invite_create"
| "invite_op InviteList = Invite_list"
| "invite_op (InviteRevoke _) = Invite_revoke"

fun call_op :: "call \<Rightarrow> operation" where
  "call_op (Tenants c) = tenant_op c"
| "call_op (Users c) = user_op c"
| "call_op (Keys c) = key_op c"
| "call_op (Retention c) = retention_op c"
| "call_op (Alerts c) = alert_op c"
| "call_op (SavedQueries c) = saved_query_op c"
| "call_op (Dashboards c) = dashboard_op c"
| "call_op (Invites c) = invite_op c"

definition send :: "int \<Rightarrow> ('a \<Rightarrow> reply_body) \<Rightarrow> (world, 'a) prog \<Rightarrow> (world, reply) prog" where
  "send status body m = andThen m (\<lambda>x. ret \<lparr> rep_status = status, rep_body = body x \<rparr>)"

fun tenant_route :: "env \<Rightarrow> call_draws \<Rightarrow> TenantContext \<Rightarrow> tenant_call \<Rightarrow> (world, reply) prog" where
  "tenant_route E R ctx (TenantCreate body) =
     send 201 TenantBody (tenantService_create E (cd_newId R) (cd_dbNow R) ctx body)"
| "tenant_route E R ctx TenantList = send 200 TenantsBody (tenantService_list ctx)"
| "tenant_route E R ctx (TenantGet i) = send 200 TenantBody (tenantService_get E ctx i)"
| "tenant_route E R ctx (TenantUpdate i body) =
     send 200 TenantBody (tenantService_update E (cd_dbNow R) ctx i body)"
| "tenant_route E R ctx (TenantRemove i) =
     send 204 (\<lambda>_. EmptyBody) (tenantService_remove E (cd_dbNow R) ctx i)"
| "tenant_route E R ctx (TenantProvisionAdmin i body) =
     send 201 UserBody (tenantService_provisionAdmin E (cd_newId R) (cd_dbNow R) (cd_salt R) ctx i body)"

fun user_route :: "env \<Rightarrow> call_draws \<Rightarrow> TenantContext \<Rightarrow> user_call \<Rightarrow> (world, reply) prog" where
  "user_route E R ctx (UserCreate body) =
     send 201 UserBody (userService_create E (cd_newId R) (cd_dbNow R) (cd_salt R) ctx body)"
| "user_route E R ctx UserList = send 200 UsersBody (userService_list E ctx)"
| "user_route E R ctx (UserGet i) = send 200 UserBody (userService_get E ctx i)"
| "user_route E R ctx (UserUpdate i body) =
     send 200 UserBody (userService_update E (cd_dbNow R) (cd_salt R) ctx i body)"
| "user_route E R ctx (UserRemove i) = send 204 (\<lambda>_. EmptyBody) (userService_remove E (cd_dbNow R) ctx i)"

fun key_route :: "env \<Rightarrow> call_draws \<Rightarrow> TenantContext \<Rightarrow> key_call \<Rightarrow> (world, reply) prog" where
  "key_route E R ctx (KeyIssue body) =
     send 201 (\<lambda>issued. IssuedKeyBody (issued_record issued) (issued_plaintext issued))
       (apiKeyService_issue E (cd_keyMaterial R) (cd_dbNow R) ctx body)"
| "key_route E R ctx KeyList = send 200 KeysBody (apiKeyService_list E ctx)"
| "key_route E R ctx (KeyRevoke i) = send 204 (\<lambda>_. EmptyBody) (apiKeyService_revoke E (cd_now R) ctx i)"

fun retention_route :: "env \<Rightarrow> call_draws \<Rightarrow> TenantContext \<Rightarrow> retention_call \<Rightarrow> (world, reply) prog" where
  "retention_route E R ctx RetentionGet = send 200 RetentionBody (retentionService_get E ctx)"
| "retention_route E R ctx (RetentionUpsert body) =
     send 200 RetentionBody (retentionService_upsert E (cd_dbNow R) ctx body)"

fun alert_route :: "env \<Rightarrow> call_draws \<Rightarrow> TenantContext \<Rightarrow> alert_call \<Rightarrow> (world, reply) prog" where
  "alert_route E R ctx (AlertCreate body) =
     send 201 RuleBody (alertRuleService_create E (cd_newId R) (cd_dbNow R) ctx body)"
| "alert_route E R ctx AlertList = send 200 RulesBody (alertRuleService_list E ctx)"
| "alert_route E R ctx (AlertGet i) = send 200 RuleBody (alertRuleService_get E ctx i)"
| "alert_route E R ctx (AlertUpdate i body) =
     send 200 RuleBody (alertRuleService_update E (cd_dbNow R) ctx i body)"
| "alert_route E R ctx (AlertRemove i) = send 204 (\<lambda>_. EmptyBody) (alertRuleService_remove E ctx i)"

fun saved_query_route :: "env \<Rightarrow> call_draws \<Rightarrow> TenantContext \<Rightarrow> saved_query_call \<Rightarrow> (world, reply) prog" where
  "saved_query_route E R ctx (SavedQueryCreate body) =
     send 201 SavedQueryBody (savedQueryService_create E (cd_newId R) (cd_dbNow R) ctx body)"
| "saved_query_route E R ctx SavedQueryList = send 200 SavedQueriesBody (savedQueryService_list E ctx)"
| "saved_query_route E R ctx (SavedQueryGet i) = send 200 SavedQueryBody (savedQueryService_get E ctx i)"
| "saved_query_route E R ctx (SavedQueryUpdate i body) =
     send 200 SavedQueryBody (savedQueryService_update E (cd_dbNow R) ctx i body)"
| "saved_query_route E R ctx (SavedQueryRemove i) =
     send 204 (\<lambda>_. EmptyBody) (savedQueryService_remove E ctx i)"

fun dashboard_route :: "env \<Rightarrow> call_draws \<Rightarrow> TenantContext \<Rightarrow> dashboard_call \<Rightarrow> (world, reply) prog" where
  "dashboard_route E R ctx (DashboardCreate body) =
     send 201 DashboardBody (dashboardService_create E (cd_newId R) (cd_dbNow R) ctx body)"
| "dashboard_route E R ctx DashboardList = send 200 DashboardsBody (dashboardService_list E ctx)"
| "dashboard_route E R ctx (DashboardGet i) = send 200 DashboardBody (dashboardService_get E ctx i)"
| "dashboard_route E R ctx (DashboardUpdate i body) =
     send 200 DashboardBody (dashboardService_update E (cd_dbNow R) ctx i body)"
| "dashboard_route E R ctx (DashboardRemove i) =
     send 204 (\<lambda>_. EmptyBody) (dashboardService_remove E ctx i)"

fun invite_route :: "env \<Rightarrow> call_draws \<Rightarrow> TenantContext \<Rightarrow> invite_call \<Rightarrow> (world, reply) prog" where
  "invite_route E R ctx (InviteCreate body) =
     send 201 (\<lambda>i. IssuedInviteBody (iss_invite i) (iss_inviteUrl i))
       (inviteService_create E (cd_secret R) (cd_now R) (cd_newId R) (cd_dbNow R) ctx body)"
| "invite_route E R ctx InviteList = send 200 InvitesBody (inviteService_list E ctx)"
| "invite_route E R ctx (InviteRevoke i) =
     send 204 (\<lambda>_. EmptyBody) (inviteService_revoke E (cd_now R) (cd_dbNow R) ctx i)"

fun run_call :: "env \<Rightarrow> call_draws \<Rightarrow> TenantContext \<Rightarrow> call \<Rightarrow> (world, reply) prog" where
  "run_call E R ctx (Tenants c) = tenant_route E R ctx c"
| "run_call E R ctx (Users c) = user_route E R ctx c"
| "run_call E R ctx (Keys c) = key_route E R ctx c"
| "run_call E R ctx (Retention c) = retention_route E R ctx c"
| "run_call E R ctx (Alerts c) = alert_route E R ctx c"
| "run_call E R ctx (SavedQueries c) = saved_query_route E R ctx c"
| "run_call E R ctx (Dashboards c) = dashboard_route E R ctx c"
| "run_call E R ctx (Invites c) = invite_route E R ctx c"

text \<open>The two pre-handlers and the handler of a protected route, in the order Fastify runs them.\<close>

definition protected_route ::
  "env \<Rightarrow> call_draws \<Rightarrow> millis \<Rightarrow> string option \<Rightarrow> operation \<Rightarrow> json + call \<Rightarrow> (world, reply) prog" where
  "protected_route E R now header op parsed =
     andThen (liftR (authenticate E now header)) (\<lambda>ctx.
     andThen (requireOperation op ctx) (\<lambda>_.
     case parsed of
       Inl issues \<Rightarrow> throw (DomainErr (ValidationError ''request validation failed'' (Some issues)))
     | Inr c \<Rightarrow> run_call E R ctx c))"

section \<open>Public routes\<close>

definition login_route :: "env \<Rightarrow> draws \<Rightarrow> json + LoginCommand \<Rightarrow> (world, reply) prog" where
  "login_route E R parsed =
     (case parsed of
        Inl issues \<Rightarrow> throw (DomainErr (ValidationError ''request validation failed'' (Some issues)))
      | Inr body \<Rightarrow> send 200 SessionBody (login E R body))"

definition refresh_route :: "env \<Rightarrow> draws \<Rightarrow> json + string \<Rightarrow> (world, reply) prog" where
  "refresh_route E R parsed =
     (case parsed of
        Inl issues \<Rightarrow> throw (DomainErr (ValidationError ''request validation failed'' (Some issues)))
      | Inr token \<Rightarrow> send 200 SessionBody (refresh E R token))"

definition logout_route :: "env \<Rightarrow> millis \<Rightarrow> json + string \<Rightarrow> (world, reply) prog" where
  "logout_route E now parsed =
     (case parsed of
        Inl issues \<Rightarrow> throw (DomainErr (ValidationError ''request validation failed'' (Some issues)))
      | Inr token \<Rightarrow> send 204 (\<lambda>_. EmptyBody) (logout E now token))"

text \<open>The callback route hashes the secret of a well-formed invite token and drops any other.\<close>

definition invite_token_hash :: "env \<Rightarrow> string option \<Rightarrow> bytes option" where
  "invite_token_hash E inviteToken =
     (case inviteToken of
        None \<Rightarrow> None
      | Some tok \<Rightarrow>
          if tok = [] then None
          else (case parseInviteToken tok of Inl _ \<Rightarrow> None | Inr p \<Rightarrow> Some (sha256 E (pi_secret p))))"

definition callback_route ::
  "env \<Rightarrow> callback_draws \<Rightarrow> string \<Rightarrow> string \<Rightarrow> string option \<Rightarrow> (world, SessionTokens \<times> string) prog" where
  "callback_route E R code state inviteToken =
     handleCallback E R
       \<lparr> oc_code = code, oc_state = state, oc_inviteTokenHash = invite_token_hash E inviteToken \<rparr>"

end
