(* ===== verification/Service_Laws.thy ===== *)
theory Service_Laws
  imports Http
begin

text \<open>
  Laws that hold of every call of the protected interface: the permission is asserted before
  anything else happens, the constraints of the database are kept, and a tenant-scoped call
  stays inside the tenant of its context.
\<close>

lemma keeps_send [keeps_intros]: "reflp R \<Longrightarrow> transp R \<Longrightarrow> keeps R m \<Longrightarrow> keeps R (send st b m)"
  unfolding send_def by (intro keeps_andThen keeps_ret)

lemma keeps_assertChannels [keeps_intros]: "reflp R \<Longrightarrow> keeps R (assertChannels chs)"
  by (induction chs) (auto simp: keeps_ret keeps_throw split: NotifyChannel.split)

lemma keeps_assertQuerySource [keeps_intros]: "reflp R \<Longrightarrow> keeps R (assertQuerySource s q)"
  by (simp add: assertQuerySource_def keeps_ret keeps_throw)

lemma keeps_log_invite [keeps_intros]:
  "keeps world_ok (log_invite e)" "keeps (world_confined sc p) (log_invite e)"
  unfolding log_invite_def by (rule keeps_off_db; simp)+

lemma keeps_emailSender_send [keeps_intros]:
  "keeps world_ok (emailSender_send E m)" "keeps (world_confined sc p) (emailSender_send E m)"
  unfolding emailSender_send_def by ((rule keeps_andThen keeps_off_db keeps_liftR | simp)+)

lemmas service_defs =
  tenantService_create_def tenantService_provisionAdmin_def tenantService_list_def tenantService_get_def
  tenantService_update_def tenantService_remove_def userService_create_def userService_list_def
  userService_get_def userService_update_def userService_remove_def apiKeyService_issue_def
  apiKeyService_list_def apiKeyService_revoke_def retentionService_get_def retentionService_upsert_def
  savedQueryService_create_def savedQueryService_list_def savedQueryService_get_def
  savedQueryService_update_def savedQueryService_remove_def dashboardService_create_def
  dashboardService_list_def dashboardService_get_def dashboardService_update_def
  dashboardService_remove_def alertRuleService_create_def alertRuleService_list_def
  alertRuleService_get_def alertRuleService_update_def alertRuleService_remove_def
  inviteService_create_def inviteService_list_def inviteService_revoke_def

section \<open>Permission first\<close>

lemma liftR_sum [simp]: "liftR (Inl e) = throw e" "liftR (Inr x) = ret x"
  by (simp_all add: fun_eq_iff)

lemma andThen_assertCan_denied:
  "\<not> can (ctx_role ctx) op \<Longrightarrow> andThen (assertCan ctx op) f = throw (forbidden_error (ctx_role ctx) op)"
  by simp

lemma send_throw [simp]: "send st b (throw e) = throw e"
  by (simp add: send_def)

lemma run_call_denied:
  assumes "\<not> can (ctx_role ctx) (call_op c)"
  shows "run_call E R ctx c = throw (forbidden_error (ctx_role ctx) (call_op c))"
proof (cases c)
  case (Tenants x)
  with assms show ?thesis by (cases x) (simp_all add: service_defs)
next
  case (Users x)
  with assms show ?thesis by (cases x) (simp_all add: service_defs)
next
  case (Keys x)
  with assms show ?thesis by (cases x) (simp_all add: service_defs)
next
  case (Retention x)
  with assms show ?thesis by (cases x) (simp_all add: service_defs)
next
  case (Alerts x)
  with assms show ?thesis by (cases x) (simp_all add: service_defs)
next
  case (SavedQueries x)
  with assms show ?thesis by (cases x) (simp_all add: service_defs)
next
  case (Dashboards x)
  with assms show ?thesis by (cases x) (simp_all add: service_defs)
next
  case (Invites x)
  with assms show ?thesis by (cases x) (simp_all add: service_defs)
qed

section \<open>Constraints\<close>

lemma tenant_route_ok: "keeps world_ok (tenant_route E R ctx c)"
  by (cases c) (simp_all only: tenant_route.simps service_defs, (rule keeps_intros | simp)+)

lemma user_route_ok: "keeps world_ok (user_route E R ctx c)"
  by (cases c) (simp_all only: user_route.simps service_defs Let_def, (rule keeps_intros | simp)+)

lemma key_route_ok: "keeps world_ok (key_route E R ctx c)"
  by (cases c) (simp_all only: key_route.simps service_defs Let_def, (rule keeps_intros | simp)+)

lemma retention_route_ok: "keeps world_ok (retention_route E R ctx c)"
  by (cases c) (simp_all only: retention_route.simps service_defs, (rule keeps_intros | simp)+)

lemma alert_route_ok: "keeps world_ok (alert_route E R ctx c)"
  by (cases c) (simp_all only: alert_route.simps service_defs, (rule keeps_intros | simp)+)

lemma saved_query_route_ok: "keeps world_ok (saved_query_route E R ctx c)"
  by (cases c) (simp_all only: saved_query_route.simps service_defs, (rule keeps_intros | simp)+)

lemma dashboard_route_ok: "keeps world_ok (dashboard_route E R ctx c)"
  by (cases c) (simp_all only: dashboard_route.simps service_defs, (rule keeps_intros | simp)+)

lemma invite_route_ok: "keeps world_ok (invite_route E R ctx c)"
  by (cases c) (simp_all only: invite_route.simps service_defs Let_def, (rule keeps_intros | simp)+)

lemma run_call_ok: "keeps world_ok (run_call E R ctx c)"
  by (cases c)
     (simp_all add: tenant_route_ok user_route_ok key_route_ok retention_route_ok alert_route_ok
        saved_query_route_ok dashboard_route_ok invite_route_ok)

section \<open>Confinement\<close>

lemma tenants_read_confined [keeps_intros]:
  "keeps (confined sc p) (tenants_findById u i)" "keeps (confined sc p) tenants_list"
  "keeps (confined sc p) (tenants_findByPublicId s)"
  unfolding tenants_findById_def tenants_list_def tenants_findByPublicId_def
  by (intro keeps_intros; simp)+

abbreviation scope_of :: "env \<Rightarrow> TenantContext \<Rightarrow> uuid option" where
  "scope_of E ctx \<equiv> tenant_scope (uuid_in E) (ctx_tenantId ctx)"

abbreviation principal_of :: "env \<Rightarrow> TenantContext \<Rightarrow> uuid option" where
  "principal_of E ctx \<equiv> uuid_in E (ctx_principalId ctx)"

lemma user_route_confined:
  "keeps (world_confined (scope_of E ctx) (principal_of E ctx)) (user_route E R ctx c)"
  by (cases c) (simp_all only: user_route.simps service_defs Let_def, (rule keeps_intros | simp)+)

lemma key_route_confined:
  "keeps (world_confined (scope_of E ctx) (principal_of E ctx)) (key_route E R ctx c)"
  by (cases c) (simp_all only: key_route.simps service_defs Let_def, (rule keeps_intros | simp)+)

lemma retention_route_confined:
  "keeps (world_confined (scope_of E ctx) (principal_of E ctx)) (retention_route E R ctx c)"
  by (cases c) (simp_all only: retention_route.simps service_defs, (rule keeps_intros | simp)+)

lemma alert_route_confined:
  "keeps (world_confined (scope_of E ctx) (principal_of E ctx)) (alert_route E R ctx c)"
  by (cases c) (simp_all only: alert_route.simps service_defs, (rule keeps_intros | simp)+)

lemma saved_query_route_confined:
  "keeps (world_confined (scope_of E ctx) (principal_of E ctx)) (saved_query_route E R ctx c)"
  by (cases c) (simp_all only: saved_query_route.simps service_defs, (rule keeps_intros | simp)+)

lemma dashboard_route_confined:
  "keeps (world_confined (scope_of E ctx) (principal_of E ctx)) (dashboard_route E R ctx c)"
  by (cases c) (simp_all only: dashboard_route.simps service_defs, (rule keeps_intros | simp)+)

lemma invite_route_confined:
  "keeps (world_confined (scope_of E ctx) (principal_of E ctx)) (invite_route E R ctx c)"
  by (cases c) (simp_all only: invite_route.simps service_defs Let_def, (rule keeps_intros | simp)+)

text \<open>The tenant registry itself is confined only where it is read.\<close>

fun tenant_scoped :: "call \<Rightarrow> bool" where
  "tenant_scoped (Tenants c) = (case c of TenantList \<Rightarrow> True | TenantGet _ \<Rightarrow> True | _ \<Rightarrow> False)"
| "tenant_scoped _ = True"

lemma tenant_route_confined:
  "tenant_scoped (Tenants c) \<Longrightarrow> keeps (world_confined sc p) (tenant_route E R ctx c)"
  by (cases c) (simp_all only: tenant_route.simps service_defs, (rule keeps_intros | simp)+)

lemma run_call_confined:
  "tenant_scoped c \<Longrightarrow> keeps (world_confined (scope_of E ctx) (principal_of E ctx)) (run_call E R ctx c)"
  by (cases c)
     (simp_all add: tenant_route_confined user_route_confined key_route_confined retention_route_confined
        alert_route_confined saved_query_route_confined dashboard_route_confined invite_route_confined)

end
