(* ===== verification/Token_Laws.thy ===== *)
theory Token_Laws
  imports Auth_Laws Service_Laws
begin

text \<open>
  What any operation of the system can do to the refresh-token table. A row keeps its tenant,
  id and family for life and never becomes live again; a row that was not there before carries
  an id and a family of the set \<open>N\<close> of minted pairs.
\<close>

definition same_key :: "refresh_token_row \<Rightarrow> refresh_token_row \<Rightarrow> bool" where
  "same_key r r' \<longleftrightarrow>
     rt_id r = rt_id r' \<and> rt_tenant_id r = rt_tenant_id r' \<and> rt_family_id r = rt_family_id r'"

definition evolves :: "(uuid \<times> uuid) set \<Rightarrow> db \<Rightarrow> db \<Rightarrow> bool" where
  "evolves N d d' \<longleftrightarrow>
     (\<forall>r' \<in> set (db_refresh_tokens d').
        (\<exists>r \<in> set (db_refresh_tokens d). same_key r r' \<and> (live r' \<longrightarrow> live r))
        \<or> (rt_id r', rt_family_id r') \<in> N)"

definition world_evolves :: "(uuid \<times> uuid) set \<Rightarrow> world \<Rightarrow> world \<Rightarrow> bool" where
  "world_evolves N w w' \<longleftrightarrow> evolves N (w_db w) (w_db w')"

lemma evolves_refl: "evolves N d d"
  by (auto simp: evolves_def same_key_def)

lemma evolves_trans: "evolves N d d' \<Longrightarrow> evolves N d' d'' \<Longrightarrow> evolves N d d''"
  unfolding evolves_def same_key_def by metis

lemma evolves_preorder [simp]:
  "reflp (evolves N)" "transp (evolves N)" "reflp (world_evolves N)" "transp (world_evolves N)"
  using evolves_refl evolves_trans by (auto simp: reflp_def transp_def world_evolves_def)

lemma evolves_same: "db_refresh_tokens d' = db_refresh_tokens d \<Longrightarrow> evolves N d d'"
  by (auto simp: evolves_def same_key_def)

lemma evolves_filter: "db_refresh_tokens d' = filter P (db_refresh_tokens d) \<Longrightarrow> evolves N d d'"
  by (auto simp: evolves_def same_key_def)

lemma evolves_mono: "evolves N d d' \<Longrightarrow> N \<subseteq> M \<Longrightarrow> evolves M d d'"
  unfolding evolves_def by blast

lemma keeps_onDb_evolves [keeps_intros]:
  "keeps (evolves N) m \<Longrightarrow> keeps (world_evolves N) (onDb m)"
  by (auto simp: keeps_def onDb_apply world_evolves_def)

lemma keeps_off_db_evolves [keeps_intros]:
  "(\<And>w. w_db (f w) = w_db w) \<Longrightarrow> keeps (world_evolves N) (updS f)"
  by (auto simp: keeps_def world_evolves_def evolves_refl)

section \<open>Statements on other tables\<close>

named_theorems token_free

lemma keeps_insert_other:
  "(\<And>f d. db_refresh_tokens (upd f d) = db_refresh_tokens d) \<Longrightarrow>
   keeps (evolves N) (insert_stmt ck ix fks get upd row)"
  by (rule keeps_insert_stmt) (simp_all add: evolves_same)

lemma keeps_update_other:
  "(\<And>f d. db_refresh_tokens (upd f d) = db_refresh_tokens d) \<Longrightarrow>
   keeps (evolves N) (update_stmt ck ix get upd tenant_of sc p f)"
  by (rule keeps_update_stmt) (simp_all add: evolves_same)

lemma keeps_delete_other:
  "(\<And>f d. db_refresh_tokens (upd f d) = db_refresh_tokens d) \<Longrightarrow>
   keeps (evolves N) (delete_stmt get upd tenant_of sc p)"
  by (rule keeps_delete_stmt) (simp add: evolves_same)

lemmas other_statements =
  insert_tenants_def insert_users_def update_users_def select_users_def insert_memberships_def
  update_memberships_def select_memberships_def insert_api_keys_def update_api_keys_def
  select_api_keys_def insert_saved_queries_def update_saved_queries_def select_saved_queries_def
  insert_dashboards_def update_dashboards_def select_dashboards_def insert_alert_rules_def
  update_alert_rules_def select_alert_rules_def insert_oauth_identities_def
  update_oauth_identities_def select_oauth_identities_def insert_invites_def update_invites_def
  select_invites_def delete_saved_queries_def delete_dashboards_def delete_alert_rules_def
  select_refresh_tokens_def

lemma upsert_retention_evolves [token_free]: "keeps (evolves N) (upsert_retention row)"
proof (rule keepsI)
  fix d r d'
  assume run: "upsert_retention row d = (r, d')"
  have "keeps (evolves N) (insert_stmt retention_checks retention_indexes
      (\<lambda>d. [(''retention_policies_tenant_id_fkey'', tenant_exists (rp_tenant_id row) d),
            (''retention_policies_updated_by_fkey'', user_exists (rp_updated_by row) d)])
      db_retention db_retention_update row)"
    by (rule keeps_insert_other) simp
  from keepsD [OF this] run show "evolves N d d'"
    by (auto simp: upsert_retention_def Let_def intro: evolves_same split: option.splits sum.splits if_splits)
qed

lemma delete_users_evolves [token_free]: "keeps (evolves N) (updS (delete_users now p))"
  by (auto simp: keeps_def delete_users_def intro: evolves_filter)

lemma delete_tenants_evolves [token_free]: "keeps (evolves N) (updS (delete_tenants now p))"
  by (auto simp: keeps_def evolves_def same_key_def delete_tenants_def delete_users_def drop_tenant_rows_def Let_def)

lemma tenants_upd_evolves [token_free]: "keeps (evolves N) (updS (db_tenants_update f))"
  by (simp add: keeps_def evolves_same)

section \<open>Repositories\<close>

lemmas evolves_rules =
  keeps_withTenantTx [OF evolves_preorder(1)] keeps_insert_other keeps_update_other keeps_delete_other
  keeps_select_stmt keeps_select_user keeps_select_auth

lemma insertUserWithMembership_evolves [token_free]: "keeps (evolves N) (insertUserWithMembership newId dbNow sc input)"
  unfolding insertUserWithMembership_def other_statements by (rule evolves_rules token_free keeps_intros | simp)+

lemma consumeWithClient_evolves [token_free]: "keeps (evolves N) (consumeWithClient sc dbNow tokenHash email now)"
  unfolding consumeWithClient_def other_statements by (rule evolves_rules token_free keeps_intros | simp)+

lemma linkFirstWithClient_evolves [token_free]: "keeps (evolves N) (linkFirstWithClient ui newId dbNow sc input)"
  unfolding linkFirstWithClient_def other_statements by (rule evolves_rules token_free keeps_intros | simp)+

lemma tenants_create_evolves [token_free]: "keeps (evolves N) (tenants_create newId dbNow input)"
  unfolding tenants_create_def other_statements by (rule evolves_rules token_free keeps_intros | simp)+

lemma tenants_findById_evolves [token_free]: "keeps (evolves N) (tenants_findById ui ident)"
  unfolding tenants_findById_def other_statements by (rule evolves_rules token_free keeps_intros | simp)+

lemma tenants_findByPublicId_evolves [token_free]: "keeps (evolves N) (tenants_findByPublicId publicId)"
  unfolding tenants_findByPublicId_def other_statements by (rule evolves_rules token_free keeps_intros | simp)+

lemma tenants_update_evolves [token_free]: "keeps (evolves N) (tenants_update ui dbNow ident patch)"
  unfolding tenants_update_def other_statements by (rule evolves_rules token_free keeps_intros | simp)+

lemma tenants_delete_evolves [token_free]: "keeps (evolves N) (tenants_delete ui dbNow ident)"
  unfolding tenants_delete_def other_statements by (rule evolves_rules token_free keeps_intros | simp)+

lemma users_create_evolves [token_free]: "keeps (evolves N) (users_create ui newId dbNow tenantId input)"
  unfolding users_create_def other_statements by (rule evolves_rules token_free keeps_intros | simp)+

lemma users_list_evolves [token_free]: "keeps (evolves N) (users_list ui tenantId)"
  unfolding users_list_def other_statements by (rule evolves_rules token_free keeps_intros | simp)+

lemma users_findById_evolves [token_free]: "keeps (evolves N) (users_findById ui tenantId ident)"
  unfolding users_findById_def other_statements by (rule evolves_rules token_free keeps_intros | simp)+

lemma users_update_evolves [token_free]: "keeps (evolves N) (users_update ui dbNow tenantId ident patch)"
  unfolding users_update_def other_statements by (rule evolves_rules token_free keeps_intros | simp)+

lemma users_delete_evolves [token_free]: "keeps (evolves N) (users_delete ui dbNow tenantId ident)"
  unfolding users_delete_def other_statements by (rule evolves_rules token_free keeps_intros | simp)+

lemma users_findCredentialsByEmail_evolves [token_free]: "keeps (evolves N) (users_findCredentialsByEmail ui tenantId email)"
  unfolding users_findCredentialsByEmail_def other_statements by (rule evolves_rules token_free keeps_intros | simp)+

lemma users_findCredentialsById_evolves [token_free]: "keeps (evolves N) (users_findCredentialsById ui tenantId ident)"
  unfolding users_findCredentialsById_def other_statements by (rule evolves_rules token_free keeps_intros | simp)+

lemma refreshTokens_findById_evolves [token_free]: "keeps (evolves N) (refreshTokens_findById ui tenantId ident)"
  unfolding refreshTokens_findById_def other_statements by (rule evolves_rules token_free keeps_intros | simp)+

lemma apiKeys_create_evolves [token_free]: "keeps (evolves N) (apiKeys_create ui dbNow tenantId input)"
  unfolding apiKeys_create_def other_statements by (rule evolves_rules token_free keeps_intros | simp)+

lemma apiKeys_list_evolves [token_free]: "keeps (evolves N) (apiKeys_list ui tenantId)"
  unfolding apiKeys_list_def other_statements by (rule evolves_rules token_free keeps_intros | simp)+

lemma apiKeys_revoke_evolves [token_free]: "keeps (evolves N) (apiKeys_revoke ui tenantId keyId now)"
  unfolding apiKeys_revoke_def other_statements by (rule evolves_rules token_free keeps_intros | simp)+

lemma retention_get_evolves [token_free]: "keeps (evolves N) (retention_get ui tenantId)"
  unfolding retention_get_def other_statements by (rule evolves_rules token_free keeps_intros | simp)+

lemma retention_upsert_evolves [token_free]: "keeps (evolves N) (retention_upsert ui dbNow tenantId input)"
  unfolding retention_upsert_def other_statements by (rule evolves_rules token_free keeps_intros | simp)+

lemma savedQueries_create_evolves [token_free]: "keeps (evolves N) (savedQueries_create ui newId dbNow tenantId input)"
  unfolding savedQueries_create_def other_statements by (rule evolves_rules token_free keeps_intros | simp)+

lemma savedQueries_list_evolves [token_free]: "keeps (evolves N) (savedQueries_list ui tenantId)"
  unfolding savedQueries_list_def other_statements by (rule evolves_rules token_free keeps_intros | simp)+

lemma savedQueries_findById_evolves [token_free]: "keeps (evolves N) (savedQueries_findById ui tenantId ident)"
  unfolding savedQueries_findById_def other_statements by (rule evolves_rules token_free keeps_intros | simp)+

lemma savedQueries_update_evolves [token_free]: "keeps (evolves N) (savedQueries_update ui dbNow tenantId ident patch)"
  unfolding savedQueries_update_def other_statements by (rule evolves_rules token_free keeps_intros | simp)+

lemma savedQueries_delete_evolves [token_free]: "keeps (evolves N) (savedQueries_delete ui tenantId ident)"
  unfolding savedQueries_delete_def other_statements by (rule evolves_rules token_free keeps_intros | simp)+

lemma dashboards_create_evolves [token_free]: "keeps (evolves N) (dashboards_create ui newId dbNow tenantId input)"
  unfolding dashboards_create_def other_statements by (rule evolves_rules token_free keeps_intros | simp)+

lemma dashboards_list_evolves [token_free]: "keeps (evolves N) (dashboards_list ui tenantId)"
  unfolding dashboards_list_def other_statements by (rule evolves_rules token_free keeps_intros | simp)+

lemma dashboards_findById_evolves [token_free]: "keeps (evolves N) (dashboards_findById ui tenantId ident)"
  unfolding dashboards_findById_def other_statements by (rule evolves_rules token_free keeps_intros | simp)+

lemma dashboards_update_evolves [token_free]: "keeps (evolves N) (dashboards_update ui dbNow tenantId ident patch)"
  unfolding dashboards_update_def other_statements by (rule evolves_rules token_free keeps_intros | simp)+

lemma dashboards_delete_evolves [token_free]: "keeps (evolves N) (dashboards_delete ui tenantId ident)"
  unfolding dashboards_delete_def other_statements by (rule evolves_rules token_free keeps_intros | simp)+

lemma alertRules_create_evolves [token_free]: "keeps (evolves N) (alertRules_create ui newId dbNow tenantId input)"
  unfolding alertRules_create_def other_statements by (rule evolves_rules token_free keeps_intros | simp)+

lemma alertRules_list_evolves [token_free]: "keeps (evolves N) (alertRules_list ui tenantId)"
  unfolding alertRules_list_def other_statements by (rule evolves_rules token_free keeps_intros | simp)+

lemma alertRules_findById_evolves [token_free]: "keeps (evolves N) (alertRules_findById ui tenantId ident)"
  unfolding alertRules_findById_def other_statements by (rule evolves_rules token_free keeps_intros | simp)+

lemma alertRules_update_evolves [token_free]: "keeps (evolves N) (alertRules_update ui dbNow tenantId ident patch)"
  unfolding alertRules_update_def other_statements by (rule evolves_rules token_free keeps_intros | simp)+

lemma alertRules_delete_evolves [token_free]: "keeps (evolves N) (alertRules_delete ui tenantId ident)"
  unfolding alertRules_delete_def other_statements by (rule evolves_rules token_free keeps_intros | simp)+

lemma invites_create_evolves [token_free]: "keeps (evolves N) (invites_create ui newId dbNow tenantId input)"
  unfolding invites_create_def other_statements by (rule evolves_rules token_free keeps_intros | simp)+

lemma invites_findValidByTokenHash_evolves [token_free]: "keeps (evolves N) (invites_findValidByTokenHash ui tenantId tokenHash now)"
  unfolding invites_findValidByTokenHash_def other_statements by (rule evolves_rules token_free keeps_intros | simp)+

lemma invites_consume_evolves [token_free]: "keeps (evolves N) (invites_consume ui dbNow tenantId tokenHash email now)"
  unfolding invites_consume_def other_statements by (rule evolves_rules token_free keeps_intros | simp)+

lemma invites_countPending_evolves [token_free]: "keeps (evolves N) (invites_countPending ui tenantId)"
  unfolding invites_countPending_def other_statements by (rule evolves_rules token_free keeps_intros | simp)+

lemma invites_listByTenant_evolves [token_free]: "keeps (evolves N) (invites_listByTenant ui tenantId)"
  unfolding invites_listByTenant_def other_statements by (rule evolves_rules token_free keeps_intros | simp)+

lemma invites_revoke_evolves [token_free]: "keeps (evolves N) (invites_revoke ui dbNow tenantId ident now)"
  unfolding invites_revoke_def other_statements by (rule evolves_rules token_free keeps_intros | simp)+

lemma oauthIdentities_findByProviderSub_evolves [token_free]: "keeps (evolves N) (oauthIdentities_findByProviderSub ui tenantId provider providerSub)"
  unfolding oauthIdentities_findByProviderSub_def other_statements by (rule evolves_rules token_free keeps_intros | simp)+

lemma oauthIdentities_linkFirst_evolves [token_free]: "keeps (evolves N) (oauthIdentities_linkFirst ui newId dbNow tenantId input)"
  unfolding oauthIdentities_linkFirst_def other_statements by (rule evolves_rules token_free keeps_intros | simp)+

lemma oauthIdentities_touchLastLogin_evolves [token_free]: "keeps (evolves N) (oauthIdentities_touchLastLogin ui dbNow tenantId ident now)"
  unfolding oauthIdentities_touchLastLogin_def other_statements by (rule evolves_rules token_free keeps_intros | simp)+

lemma oauthIdentities_findById_evolves [token_free]: "keeps (evolves N) (oauthIdentities_findById ui tenantId ident)"
  unfolding oauthIdentities_findById_def other_statements by (rule evolves_rules token_free keeps_intros | simp)+

lemma provision_tx_evolves [token_free]: "keeps (evolves N) (provision_tx ui newUserId newLinkId dbNow tenantId input)"
  unfolding provision_tx_def other_statements by (rule evolves_rules token_free keeps_intros | simp)+

lemma tenants_list_evolves [token_free]: "keeps (evolves N) tenants_list"
  unfolding tenants_list_def by (simp add: keeps_getS)

lemma provisionFromInvite_db_evolves [token_free]:
  "keeps (evolves N) (provisionFromInvite_db ui newUserId newLinkId dbNow tenantId input)"
  unfolding provisionFromInvite_db_def by (rule token_free keeps_intros | simp)+

lemma evolves_rls_update:
  assumes "\<And>r. same_key r (f r)" "\<And>r. live (f r) \<Longrightarrow> live r"
    "db_refresh_tokens d' = rls_update rt_tenant_id sc p f (db_refresh_tokens d)"
  shows "evolves N d d'"
proof -
  have "\<exists>r \<in> set (db_refresh_tokens d). same_key r r' \<and> (live r' \<longrightarrow> live r)"
    if "r' \<in> set (db_refresh_tokens d')" for r'
    using that assms(1,2) by (force simp: assms(3) set_rls_update same_key_def)
  then show ?thesis by (simp add: evolves_def)
qed

lemma update_refresh_tokens_evolves:
  assumes "\<And>r. same_key r (f r)" "\<And>r. live (f r) \<Longrightarrow> live r"
  shows "keeps (evolves N) (update_refresh_tokens sc p f)"
  unfolding update_refresh_tokens_def
  by (rule keeps_update_stmt, simp, rule evolves_rls_update [OF assms]) simp_all

lemma refreshTokens_revokeFamily_evolves [token_free]:
  "keeps (evolves N) (refreshTokens_revokeFamily ui tenantId familyId now)"
  unfolding refreshTokens_revokeFamily_def
  by (rule keeps_withTenantTx [OF evolves_preorder(1)] update_refresh_tokens_evolves keeps_intros
      | simp add: same_key_def live_def)+

section \<open>Calls and sessions\<close>

lemma run_call_evolves: "keeps (world_evolves N) (run_call E R ctx c)"
proof (cases c)
  case (Tenants x)
  then show ?thesis
    by (cases x) (simp_all only: run_call.simps tenant_route.simps service_defs,
        (rule token_free keeps_intros | simp)+)
next
  case (Users x)
  then show ?thesis
    by (cases x) (simp_all only: run_call.simps user_route.simps service_defs Let_def,
        (rule token_free keeps_intros | simp)+)
next
  case (Keys x)
  then show ?thesis
    by (cases x) (simp_all only: run_call.simps key_route.simps service_defs Let_def,
        (rule token_free keeps_intros | simp)+)
next
  case (Retention x)
  then show ?thesis
    by (cases x) (simp_all only: run_call.simps retention_route.simps service_defs,
        (rule token_free keeps_intros | simp)+)
next
  case (Alerts x)
  then show ?thesis
    by (cases x) (simp_all only: run_call.simps alert_route.simps service_defs,
        (rule token_free keeps_intros | simp)+)
next
  case (SavedQueries x)
  then show ?thesis
    by (cases x) (simp_all only: run_call.simps saved_query_route.simps service_defs,
        (rule token_free keeps_intros | simp)+)
next
  case (Dashboards x)
  then show ?thesis
    by (cases x) (simp_all only: run_call.simps dashboard_route.simps service_defs,
        (rule token_free keeps_intros | simp)+)
next
  case (Invites x)
  then show ?thesis
    by (cases x) (simp_all only: run_call.simps invite_route.simps service_defs Let_def
          log_invite_def emailSender_send_def,
        (rule token_free keeps_intros | simp)+)
qed

lemma revoke_and_reject_evolves [token_free]:
  "keeps (world_evolves N) (revoke_and_reject E t f now)"
  unfolding revoke_and_reject_def by (rule token_free keeps_intros | simp)+

lemma keeps_safeParse [keeps_intros]: "reflp R \<Longrightarrow> keeps R (safeParse raw)"
  by (simp add: safeParse_def keeps_throw keeps_ret split: sum.split)

lemma refresh_check_evolves [token_free]: "keeps (world_evolves N) (refresh_check E now raw)"
  unfolding refresh_check_def by (rule token_free keeps_intros | simp)+

lemma logout_evolves [token_free]: "keeps (world_evolves N) (logout E now raw)"
  unfolding logout_def by (rule token_free keeps_intros | simp)+

text \<open>A session is minted with the drawn id and family.\<close>

lemma refreshTokens_create_evolves:
  assumes "\<And>f. uuid_in E (nr_familyId input) = Some f \<Longrightarrow> (newId, f) \<in> N"
  shows "keeps (evolves N) (refreshTokens_create (uuid_in E) newId dbNow tenantId input)"
proof (rule keepsI)
  fix d r d'
  assume run: "refreshTokens_create (uuid_in E) newId dbNow tenantId input d = (r, d')"
  show "evolves N d d'"
  proof (cases r)
    case (Inl e)
    with run have "d' = d" by (simp add: refreshTokens_create_def withTenantTx_Inl)
    then show ?thesis by (simp add: evolves_refl)
  next
    case (Inr i)
    with run obtain t u f where "uuid_in E (nr_familyId input) = Some f" "d' = d\<lparr>db_refresh_tokens :=
        db_refresh_tokens d @ [new_token_row newId t u f (nr_tokenHash input) dbNow (nr_expiresAt input)]\<rparr>"
      by (auto simp: refreshTokens_create_def withTenantTx_Inr insert_refresh_token_def andThen_eq_Inr
          cast_uuid_apply tenant_param_def insert_refresh_tokens_def insert_stmt_Inr new_token_row_def
          split: option.splits)
    then show ?thesis using assms by (auto simp: evolves_def same_key_def)
  qed
qed

end
