(* ===== verification/Samples.thy ===== *)
theory Samples
  imports Http
begin

text \<open>
  A concrete environment, database and principals. They show that the hypotheses of the general
  theorems can be met together: ids are any non-empty text, the digest pads to 32 bytes, the
  password hash keeps its salt in front.
\<close>

definition sample_payload :: jwt_payload where
  "sample_payload =
     [(''tenant_id'', JStr ''t1''), (''role'', JStr ''tenant_admin''), (''sub'', JStr ''u1''),
      (''iss'', JStr ''logalot-control-plane''), (''aud'', JStr ''logalot''),
      (''iat'', JNum 0), (''exp'', JNum 900)]"

definition sample_digest :: "string \<Rightarrow> bytes" where
  "sample_digest s = take 32 (s @ replicate 32 (CHR 0x00))"

definition sample_env :: env where
  "sample_env =
     \<lparr> uuid_in = (\<lambda>s. if s = [] then None else Some s),
       sha256 = sample_digest,
       bcrypt_hash = (\<lambda>salt p. salt @ p),
       bcrypt_verify = (\<lambda>p h. h = ''$'' @ p),
       dummy_salt = ''$'',
       jwt_sign = (\<lambda>_. ''jwt''),
       jwt_verify = (\<lambda>t iss aud algs now.
          if t = ''jwt'' then Inr sample_payload else Inl (PlainError ''JWSInvalid'')),
       google_fetch = (\<lambda>_. HttpResponse 200 (Some (JObj
          [(''id_token'', JStr ''idt''), (''access_token'', JStr ''act''),
           (''token_type'', JStr ''Bearer''), (''expires_in'', JNum 3600)]))),
       google_jwks = (\<lambda>_ _. JosePayload
          [(''email_verified'', JBool True), (''nonce'', JStr ''n0''),
           (''email'', JStr ''ann@acme.io''), (''sub'', JStr ''g1'')]),
       send_email = (\<lambda>_. Inr ()),
       accessTtlSeconds = 900, refreshTtlSeconds = 1000, inviteTtlSeconds = 500,
       inviteMaxOutstandingPerTenant = 5,
       inviteAcceptBaseUrl = ''https://app'',
       oidc_clientId = ''cid'', google_clientId = ''cid'', google_clientSecret = ''sec'', oidc_inviteProvisioner = True,
       oidc_redirectUri = ''https://app/cb'', oidc_authEndpoint = ''https://accounts'',
       oidc_stateTtlSeconds = 600 \<rparr>"

definition sample_tenant :: "uuid \<Rightarrow> string \<Rightarrow> tenant_row" where
  "sample_tenant i slug =
     \<lparr> tn_id = i, tn_public_id = slug, tn_name = slug, tn_status = TS_active,
       tn_created_at = 0, tn_updated_at = 0 \<rparr>"

definition sample_user :: "uuid \<Rightarrow> uuid \<Rightarrow> string \<Rightarrow> user_row" where
  "sample_user i t email =
     \<lparr> us_id = i, us_tenant_id = t, us_email = email, us_password_hash = ''$pw'',
       us_display_name = None, us_status = ''active'', us_is_platform_operator = False,
       us_created_at = 0, us_updated_at = 0 \<rparr>"

definition sample_membership :: "uuid \<Rightarrow> uuid \<Rightarrow> membership_row" where
  "sample_membership i t =
     \<lparr> mb_tenant_id = t, mb_user_id = i, mb_role = MR_tenant_admin, mb_created_at = 0, mb_updated_at = 0 \<rparr>"

text \<open>Two tenants with one administrator each.\<close>

definition sample_db :: db where
  "sample_db = empty_db
     \<lparr> db_tenants := [sample_tenant ''t1'' ''acme'', sample_tenant ''t2'' ''beta''],
       db_users := [sample_user ''u1'' ''t1'' ''ann@acme.io'', sample_user ''v1'' ''t2'' ''bob@beta.io''],
       db_memberships := [sample_membership ''u1'' ''t1'', sample_membership ''v1'' ''t2''] \<rparr>"

definition sample_world :: world where
  "sample_world =
     \<lparr> w_db = sample_db, w_verifies = [], w_states = Map.empty, w_google = [],
       w_oauth_audit = [], w_invite_audit = [], w_outbox = [] \<rparr>"

definition sample_ctx :: "role \<Rightarrow> TenantContext" where
  "sample_ctx r = \<lparr> ctx_tenantId = ''t1'', ctx_principalId = ''u1'', ctx_role = r, ctx_scopes = None \<rparr>"

definition sample_draws :: draws where
  "sample_draws =
     \<lparr> dr_uuid = ''f1'', dr_secret = ''s1'', dr_now = 0, dr_newId = ''k1'', dr_dbNow = 0, dr_jwtNow = 0 \<rparr>"

definition sample_draws2 :: draws where
  "sample_draws2 =
     \<lparr> dr_uuid = ''f2'', dr_secret = ''s2'', dr_now = 1, dr_newId = ''k2'', dr_dbNow = 1, dr_jwtNow = 1 \<rparr>"

definition sample_login :: LoginCommand where
  "sample_login = \<lparr> lc_tenantSlug = ''acme'', lc_email = '' Ann@acme.io'', lc_password = ''pw'' \<rparr>"

text \<open>The world after a login, and the refresh token it handed out.\<close>

definition sample_session :: world where
  "sample_session = snd (login sample_env sample_draws sample_login sample_world)"

definition sample_token :: string where
  "sample_token = ''lgr_t1_k1_s1''"

definition sample_call_draws :: call_draws where
  "sample_call_draws =
     \<lparr> cd_newId = ''n1'', cd_dbNow = 0, cd_now = 0, cd_salt = ''$'', cd_secret = replicate 64 (CHR ''a''),
       cd_keyMaterial = \<lparr> km_keyId = ''k1'', km_secret = ''s1'' \<rparr> \<rparr>"



lemma sample_db_ok: "db_ok sample_db"
  by code_simp

lemma sample_authors_local: "authors_local sample_db"
  by code_simp

end
