(* ===== verification/Sessions.thy ===== *)
theory Sessions
  imports Token_Laws Samples
begin

text \<open>
  Sessions as a transition system. Requests interleave: \<open>refresh\<close> is two transitions, the check
  that issues a ticket and the rotation that redeems it, and anything may happen in between. The
  system also takes every call of the protected interface. A configuration is the world, the
  tickets issued so far and the ids the server has drawn.
\<close>

type_synonym session_config = "world \<times> refresh_ticket set \<times> uuid set"

definition fresh_draws :: "env \<Rightarrow> draws \<Rightarrow> uuid set \<Rightarrow> bool" where
  "fresh_draws E R U \<longleftrightarrow>
     dr_newId R \<notin> U \<and> dr_uuid R \<notin> U \<and> uuid_in E (dr_newId R) = Some (dr_newId R)
     \<and> uuid_in E (dr_uuid R) = Some (dr_uuid R)"

inductive session_step :: "env \<Rightarrow> session_config \<Rightarrow> session_config \<Rightarrow> bool" for E where
  step_login: "fresh_draws E R U \<Longrightarrow> login E R cmd w = (r, w') \<Longrightarrow>
     session_step E (w, T, U) (w', T, U \<union> {dr_newId R, dr_uuid R})"
| step_callback: "fresh_draws E (cb_session R) U \<Longrightarrow> handleCallback E R oc w = (r, w') \<Longrightarrow>
     session_step E (w, T, U) (w', T, U \<union> {dr_newId (cb_session R), dr_uuid (cb_session R)})"
| step_check: "refresh_check E now raw w = (Inr tk, w') \<Longrightarrow>
     session_step E (w, T, U) (w', insert tk T, U)"
| step_reject: "refresh_check E now raw w = (Inl e, w') \<Longrightarrow>
     session_step E (w, T, U) (w', T, U)"
| step_commit: "tk \<in> T \<Longrightarrow> fresh_draws E R U \<Longrightarrow> refresh_commit E R tk w = (r, w') \<Longrightarrow>
     session_step E (w, T, U) (w', T, insert (dr_newId R) U)"
| step_logout: "logout E now raw w = (r, w') \<Longrightarrow> session_step E (w, T, U) (w', T, U)"
| step_call: "run_call E D ctx c w = (r, w') \<Longrightarrow> session_step E (w, T, U) (w', T, U)"

inductive session_reach :: "env \<Rightarrow> session_config \<Rightarrow> bool" for E where
  reach_init: "db_ok (w_db w) \<Longrightarrow> db_refresh_tokens (w_db w) = [] \<Longrightarrow> session_reach E (w, {}, {})"
| reach_step: "session_reach E c \<Longrightarrow> session_step E c c' \<Longrightarrow> session_reach E c'"

inductive_cases session_stepE: "session_step E c c'"

section \<open>The remaining operations, as relations on the table\<close>

lemma mintRefreshToken_evolves:
  assumes "uuid_in E familyId = Some f"
  shows "keeps (world_evolves {(dr_newId R, f)}) (mintRefreshToken E R tenantId userId familyId)"
  unfolding mintRefreshToken_def Let_def
  by (rule keeps_intros refreshTokens_create_evolves | simp add: assms)+

lemma keeps_verifyPassword_evolves [token_free]: "keeps (world_evolves N) (verifyPassword E p h)"
  unfolding verifyPassword_def by (rule keeps_intros | simp)+

lemma login_evolves:
  assumes "uuid_in E (dr_uuid R) = Some (dr_uuid R)"
  shows "keeps (world_evolves {(dr_newId R, dr_uuid R)}) (login E R cmd)"
  unfolding login_def Let_def
  by (rule token_free keeps_intros mintRefreshToken_evolves [OF assms] | simp)+

lemma mintSession_evolves:
  assumes "uuid_in E (dr_uuid R) = Some (dr_uuid R)"
  shows "keeps (world_evolves {(dr_newId R, dr_uuid R)}) (mintSession E R tenantId userId role)"
  unfolding mintSession_def
  by (rule keeps_intros refreshTokens_create_evolves | simp add: assms)+

lemmas callback_parts =
  reject_with_def audit_def provisionFromInvite_def stateStore_consume_def call_exchange_def call_verify_def

lemma resolve_identity_evolves [token_free]:
  "keeps (world_evolves N) (resolve_identity E R cmd tenantId claims)"
  unfolding resolve_identity_def callback_parts Let_def
  by (rule token_free keeps_intros | simp)+

lemma finish_callback_evolves:
  assumes "uuid_in E (dr_uuid (cb_session R)) = Some (dr_uuid (cb_session R))"
  shows "keeps (world_evolves {(dr_newId (cb_session R), dr_uuid (cb_session R))})
    (finish_callback E R tenantId sub resolved)"
  unfolding finish_callback_def callback_parts
  by (rule mintSession_evolves [OF assms] token_free keeps_intros | simp)+

lemma handleCallback_evolves:
  assumes "uuid_in E (dr_uuid (cb_session R)) = Some (dr_uuid (cb_session R))"
  shows "keeps (world_evolves {(dr_newId (cb_session R), dr_uuid (cb_session R))}) (handleCallback E R oc)"
  unfolding handleCallback_def callback_parts Let_def
  by (rule finish_callback_evolves [OF assms] token_free keeps_intros | simp)+

lemma mintRefreshToken_ok [keeps_intros]: "keeps world_ok (mintRefreshToken E R t u f)"
  unfolding mintRefreshToken_def Let_def by (rule keeps_intros | simp)+

lemma login_ok: "keeps world_ok (login E R cmd)"
  unfolding login_def Let_def by (rule keeps_intros | simp)+

lemma mintSession_ok [keeps_intros]: "keeps world_ok (mintSession E R t u role)"
  unfolding mintSession_def by (rule keeps_intros | simp)+

lemma handleCallback_ok: "keeps world_ok (handleCallback E R oc)"
  unfolding handleCallback_def finish_callback_def resolve_identity_def callback_parts Let_def
  by (rule keeps_intros | simp)+

lemma revoke_and_reject_ok [keeps_intros]: "keeps world_ok (revoke_and_reject E t f now)"
  unfolding revoke_and_reject_def by (rule keeps_intros | simp)+

lemma refresh_check_ok: "keeps world_ok (refresh_check E now raw)"
  unfolding refresh_check_def by (rule keeps_intros | simp)+

lemma refresh_commit_ok: "keeps world_ok (refresh_commit E R tk)"
  unfolding refresh_commit_def Let_def by (rule keeps_intros | simp)+

lemma logout_ok: "keeps world_ok (logout E now raw)"
  unfolding logout_def by (rule keeps_intros | simp)+

section \<open>The invariant\<close>

definition one_live :: "db \<Rightarrow> bool" where
  "one_live d \<longleftrightarrow>
     (\<forall>r \<in> set (db_refresh_tokens d). \<forall>r' \<in> set (db_refresh_tokens d).
        live r \<and> live r' \<and> rt_tenant_id r = rt_tenant_id r' \<and> rt_family_id r = rt_family_id r'
        \<longrightarrow> rt_id r = rt_id r')"

definition drawn :: "uuid set \<Rightarrow> db \<Rightarrow> bool" where
  "drawn U d \<longleftrightarrow> (\<forall>r \<in> set (db_refresh_tokens d). rt_id r \<in> U \<and> rt_family_id r \<in> U)"

definition ticket_ok :: "uuid set \<Rightarrow> db \<Rightarrow> refresh_ticket \<Rightarrow> bool" where
  "ticket_ok U d tk \<longleftrightarrow>
     rr_id (tk_row tk) \<in> U \<and> rr_familyId (tk_row tk) \<in> U
     \<and> (\<forall>r \<in> set (db_refresh_tokens d).
          rt_id r = rr_id (tk_row tk) \<longrightarrow> rt_family_id r = rr_familyId (tk_row tk))"

definition session_inv :: "env \<Rightarrow> session_config \<Rightarrow> bool" where
  "session_inv E c \<longleftrightarrow>
     (case c of (w, T, U) \<Rightarrow>
        db_ok (w_db w) \<and> (\<forall>x \<in> U. uuid_in E x = Some x) \<and> drawn U (w_db w) \<and> one_live (w_db w)
        \<and> (\<forall>tk \<in> T. ticket_ok U (w_db w) tk))"

lemma evolves_one_live:
  assumes "evolves N d d'" "one_live d" "drawn U d" "N \<subseteq> {(i, f)}" "f \<notin> U"
  shows "one_live d'"
  unfolding one_live_def
proof (intro ballI impI)
  fix a b
  assume a: "a \<in> set (db_refresh_tokens d')" and b: "b \<in> set (db_refresh_tokens d')"
    and eq: "live a \<and> live b \<and> rt_tenant_id a = rt_tenant_id b \<and> rt_family_id a = rt_family_id b"
  have src: "(\<exists>r \<in> set (db_refresh_tokens d). same_key r x \<and> live r) \<or> rt_id x = i \<and> rt_family_id x = f"
    if "x \<in> set (db_refresh_tokens d')" "live x" for x
    using assms(1,4) that unfolding evolves_def by blast
  have old: "rt_family_id x \<noteq> f" if "\<exists>r \<in> set (db_refresh_tokens d). same_key r x \<and> live r" for x
    using assms(3,5) that unfolding drawn_def same_key_def by metis
  show "rt_id a = rt_id b"
    using src [OF a] src [OF b] old [of a] old [of b] eq assms(2)
    unfolding one_live_def same_key_def by metis
qed

lemma evolves_drawn:
  assumes "evolves N d d'" "drawn U d" "N \<subseteq> {(i, f)}"
  shows "drawn (U \<union> {i, f}) d'"
  using assms unfolding evolves_def drawn_def same_key_def by fastforce

lemma evolves_ticket_ok:
  assumes "evolves N d d'" "ticket_ok U d tk" "N \<subseteq> {(i, f)}" "i \<notin> U" "U \<subseteq> V"
  shows "ticket_ok V d' tk"
proof -
  have "rt_family_id r = rr_familyId (tk_row tk)"
    if r: "r \<in> set (db_refresh_tokens d')" "rt_id r = rr_id (tk_row tk)" for r
  proof -
    have "(rt_id r, rt_family_id r) \<notin> N" using assms(2-4) r(2) by (auto simp: ticket_ok_def)
    then obtain r0 where "r0 \<in> set (db_refresh_tokens d)" "same_key r0 r"
      using assms(1) r(1) unfolding evolves_def by blast
    then show ?thesis using assms(2) r(2) unfolding ticket_ok_def same_key_def by metis
  qed
  with assms(2,5) show ?thesis by (auto simp: ticket_ok_def)
qed

lemma session_inv_evolves:
  assumes "session_inv E (w, T, U)" "world_evolves {(i, f)} w w'" "world_ok w w'"
    "i \<notin> U" "f \<notin> U" "uuid_in E i = Some i" "uuid_in E f = Some f"
  shows "session_inv E (w', T, insert i (insert f U))"
  using assms evolves_one_live [of "{(i, f)}" "w_db w" "w_db w'" U i f]
    evolves_drawn [of "{(i, f)}" "w_db w" "w_db w'" U i f]
    evolves_ticket_ok [of "{(i, f)}" "w_db w" "w_db w'" U _ i f "U \<union> {i, f}"]
  by (auto simp: session_inv_def world_evolves_def world_ok_def preserves_db_def)

lemma evolves_fixed_drawn: "evolves {} d d' \<Longrightarrow> drawn U d \<Longrightarrow> drawn U d'"
  unfolding evolves_def drawn_def same_key_def by fastforce

lemma evolves_fixed_one_live: "evolves {} d d' \<Longrightarrow> one_live d \<Longrightarrow> one_live d'"
  unfolding evolves_def one_live_def same_key_def by (metis empty_iff)

lemma evolves_fixed_ticket_ok: "evolves {} d d' \<Longrightarrow> ticket_ok U d tk \<Longrightarrow> ticket_ok U d' tk"
  unfolding evolves_def ticket_ok_def same_key_def by fastforce

lemma session_inv_fixed:
  assumes "session_inv E (w, T, U)" "world_evolves {} w w'" "world_ok w w'"
  shows "session_inv E (w', T, U)"
  using assms evolves_fixed_drawn evolves_fixed_one_live evolves_fixed_ticket_ok
  by (auto simp: session_inv_def world_evolves_def world_ok_def preserves_db_def)

section \<open>Checks and rotations\<close>

lemma findById_Some:
  assumes "refreshTokens_findById (uuid_in E) t i d = (Inr (Some row), d')"
  shows "d' = d \<and> (\<exists>r \<in> set (db_refresh_tokens d). row = toRefreshRow r
    \<and> uuid_in E t = Some (rt_tenant_id r) \<and> uuid_in E i = Some (rt_id r))"
  using assms
  by (auto simp: refreshTokens_findById_def withTenantTx_Inr andThen_eq_Inr cast_uuid_apply
      select_refresh_tokens_def split: option.splits dest!: first_row_Some current_tenant_id_Some)

lemma reads_pure [keeps_intros]:
  "keeps (=) (tenants_findById ui i)" "keeps (=) (users_findCredentialsById ui t i)"
  unfolding tenants_findById_def users_findCredentialsById_def
  by (rule keeps_withTenantTx keeps_intros keeps_select_auth | simp add: reflp_def transp_def)+

lemma revoke_and_reject_Inr: "revoke_and_reject E t f now w \<noteq> (Inr x, w')"
  by (auto simp: revoke_and_reject_def andThen_eq_Inr)

lemma onDb_pure: "keeps (=) m \<Longrightarrow> onDb m w = (r, w') \<Longrightarrow> w' = w"
  by (auto simp: keeps_def onDb_apply)

lemma onDb_findById_Some:
  assumes "onDb (refreshTokens_findById (uuid_in E) t i) w = (Inr found, w')"
  shows "w' = w \<and> (\<forall>row. found = Some row \<longrightarrow> (\<exists>r \<in> set (db_refresh_tokens (w_db w)).
    row = toRefreshRow r \<and> uuid_in E t = Some (rt_tenant_id r) \<and> uuid_in E i = Some (rt_id r)))"
  using assms findById_pure findById_Some by (fastforce simp: onDb_Inr)

lemma refresh_check_Inr:
  assumes "refresh_check E now raw w = (Inr tk, w')"
  obtains p r where "parseRefreshToken raw = Inr p" "r \<in> set (db_refresh_tokens (w_db w))"
    "tk_row tk = toRefreshRow r" "tk_tenantId tk = pr_tenantId p" "tk_now tk = now" "live r"
    "sha256 E (pr_secret p) = rt_token_hash r" "now < rt_expires_at r"
    "uuid_in E (pr_tenantId p) = Some (rt_tenant_id r)" "uuid_in E (pr_tokenId p) = Some (rt_id r)" "w' = w"
proof -
  obtain p where p: "parseRefreshToken raw = Inr p"
    using assms by (cases "parseRefreshToken raw") (auto simp: refresh_check_def safeParse_def)
  from assms [unfolded refresh_check_def safeParse_def p sum.case andThen_ret] show thesis
  proof (rule andThen_InrE, goal_cases)
    case (1 found w1)
    then obtain row where row: "found = Some row" by (cases found) auto
    from onDb_findById_Some [OF 1(1)] row obtain r where w1: "w1 = w"
      and r: "r \<in> set (db_refresh_tokens (w_db w))" "row = toRefreshRow r"
        "uuid_in E (pr_tenantId p) = Some (rt_tenant_id r)" "uuid_in E (pr_tokenId p) = Some (rt_id r)"
      by blast
    have cond: "sha256 E (pr_secret p) = rt_token_hash r" "live r" "now < rt_expires_at r"
      using 1(2) by (auto simp: row r(2) toRefreshRow_def live_def revoke_and_reject_Inr split: if_splits)
    from 1(2) have tail: "tk_row tk = row \<and> tk_tenantId tk = pr_tenantId p \<and> tk_now tk = now \<and> w' = w"
      unfolding row w1
      by (auto simp: revoke_and_reject_Inr elim!: andThen_InrE split: if_splits option.splits
          dest!: onDb_pure [OF reads_pure(1)] onDb_pure [OF reads_pure(2)])
    with p r cond show ?case by (intro that) auto
  qed
qed

lemma rotate_Some:
  assumes "refreshTokens_rotate (uuid_in E) newId dbNow t p now succ d = (Inr (Some n), d')"
  obtains u v x f where "uuid_in E t = Some u" "uuid_in E p = Some v" "uuid_in E (nr_familyId succ) = Some f"
    "consumed_rows u v d \<noteq> []" "n = newId"
    "db_refresh_tokens d' = rotate_row u v now (db_refresh_tokens d) @
       [new_token_row newId u x f (nr_tokenHash succ) dbNow (nr_expiresAt succ)]"
  using assms
  by (auto simp: refreshTokens_rotate_def withTenantTx_Inr andThen_eq_Inr cast_uuid_apply tenant_param_def
      insert_refresh_token_def update_refresh_tokens_def update_stmt_Inr insert_refresh_tokens_def insert_stmt_Inr
      new_token_row_def rls_update_rotate filter_consumed
      split: option.splits if_splits dest!: current_tenant_id_Some)

lemma rotate_rest:
  assumes "refreshTokens_rotate (uuid_in E) newId dbNow t p now succ d = (r, d')" "\<nexists>n. r = Inr (Some n)"
  shows "evolves N d d'"
proof (cases r)
  case (Inl e)
  with assms(1) show ?thesis by (simp add: refreshTokens_rotate_def withTenantTx_Inl evolves_refl)
next
  case (Inr x)
  with assms(1,2) obtain v where "d' = d\<lparr>db_refresh_tokens := rls_update rt_tenant_id v
      (\<lambda>r. rt_id r = the (uuid_in E p) \<and> rt_rotated_at r = None \<and> rt_revoked_at r = None)
      (\<lambda>r. r\<lparr>rt_rotated_at := Some now\<rparr>) (db_refresh_tokens d)\<rparr>"
    by (cases x) (auto simp: refreshTokens_rotate_def withTenantTx_Inr andThen_eq_Inr cast_uuid_apply
        update_refresh_tokens_def update_stmt_Inr split: option.splits if_splits)
  then show ?thesis by (intro evolves_rls_update) (auto simp: same_key_def live_def)
qed

lemma rotate_row_source:
  assumes "r' \<in> set (rotate_row u v now rows)"
  shows "\<exists>r \<in> set rows. same_key r r' \<and> (live r' \<longrightarrow> live r \<and> \<not> (rt_tenant_id r = u \<and> rt_id r = v))"
proof -
  obtain r where r: "r \<in> set rows" "r' = (if rt_tenant_id r = u \<and> rt_id r = v \<and> live r
      then r\<lparr>rt_rotated_at := Some now\<rparr> else r)"
    using assms unfolding rotate_row_def set_map by (elim imageE)
  have "same_key r r' \<and> (live r' \<longrightarrow> live r \<and> \<not> (rt_tenant_id r = u \<and> rt_id r = v))"
    unfolding r(2) by (auto simp: same_key_def live_def)
  with r(1) show ?thesis by blast
qed

text \<open>A rotation replaces the one live token of the family by its successor.\<close>

definition rotation_source :: "uuid \<Rightarrow> uuid \<Rightarrow> refresh_token_row \<Rightarrow> refresh_token_row list \<Rightarrow> refresh_token_row \<Rightarrow> bool" where
  "rotation_source u v new rows y \<longleftrightarrow>
     (\<exists>r \<in> set rows. same_key r y \<and> (live y \<longrightarrow> live r \<and> \<not> (rt_tenant_id r = u \<and> rt_id r = v)))
     \<or> y = new"

lemma rotation_sources:
  "y \<in> set (rotate_row u v now rows @ [new]) \<Longrightarrow> rotation_source u v new rows y"
  using rotate_row_source [of y u v now rows] by (auto simp: rotation_source_def)

lemma rotation_one_live:
  assumes one: "one_live d"
    and c: "c \<in> set (db_refresh_tokens d)" "live c" "rt_tenant_id c = rt_tenant_id new"
      "rt_family_id c = rt_family_id new"
    and src: "\<And>y. y \<in> set (db_refresh_tokens d') \<Longrightarrow>
      rotation_source (rt_tenant_id new) (rt_id c) new (db_refresh_tokens d) y"
  shows "one_live d'"
  unfolding one_live_def
proof (intro ballI impI)
  fix y z
  assume y: "y \<in> set (db_refresh_tokens d')" and z: "z \<in> set (db_refresh_tokens d')"
    and eq: "live y \<and> live z \<and> rt_tenant_id y = rt_tenant_id z \<and> rt_family_id y = rt_family_id z"
  have old: "\<exists>r \<in> set (db_refresh_tokens d). same_key r q \<and> live r
      \<and> \<not> (rt_tenant_id r = rt_tenant_id new \<and> rt_id r = rt_id c)"
    if "q \<in> set (db_refresh_tokens d')" "q \<noteq> new" "live q" for q
    using src [OF that(1)] that(2,3) unfolding rotation_source_def by metis
  have stale: False if q: "q \<in> set (db_refresh_tokens d')" "q \<noteq> new" "live q"
      "rt_tenant_id q = rt_tenant_id new" "rt_family_id q = rt_family_id new" for q
    using old [OF q(1-3)] q(4,5) one c unfolding one_live_def same_key_def by metis
  consider "y \<noteq> new" "z \<noteq> new" | "y = new" "z = new" | "y = new" "z \<noteq> new" | "y \<noteq> new" "z = new"
    by metis
  then show "rt_id y = rt_id z"
  proof cases
    case 1
    with old [OF y] old [OF z] eq one show ?thesis unfolding one_live_def same_key_def by metis
  qed (use stale [OF y] stale [OF z] eq in auto)
qed

lemma rotation_keeps_inv:
  assumes inv: "session_inv E (w, T, U)" and tk: "ticket_ok U (w_db w) tk"
    and fresh: "i \<notin> U" "uuid_in E i = Some i"
    and ids: "uuid_in E (rr_id (tk_row tk)) = Some v" "uuid_in E (rr_familyId (tk_row tk)) = Some f"
    and used: "consumed_rows u v (w_db w) \<noteq> []"
    and rows: "db_refresh_tokens (w_db w') =
      rotate_row u v now (db_refresh_tokens (w_db w)) @ [new_token_row i u x f h a b]"
    and ok: "world_ok w w'"
  shows "session_inv E (w', T, insert i U)"
proof -
  let ?new = "new_token_row i u x f h a b"
  from inv tk ids have v: "v = rr_id (tk_row tk)" and f: "f = rr_familyId (tk_row tk)" "f \<in> U"
    by (auto simp: session_inv_def ticket_ok_def)
  from used obtain c where c: "c \<in> set (db_refresh_tokens (w_db w))" "rt_tenant_id c = u" "rt_id c = v" "live c"
    by (auto simp: consumed_rows_def filter_empty_conv)
  with tk v f have cf: "rt_family_id c = f" by (auto simp: ticket_ok_def)
  have src: "rotation_source u v ?new (db_refresh_tokens (w_db w)) y"
    if "y \<in> set (db_refresh_tokens (w_db w'))" for y
    using that unfolding rows by (rule rotation_sources)
  have "one_live (w_db w')"
    by (rule rotation_one_live [of "w_db w" c ?new]) (use inv c cf src in \<open>auto simp: session_inv_def\<close>)
  moreover have "rt_id y \<in> insert i U \<and> rt_family_id y \<in> insert i U"
    if "y \<in> set (db_refresh_tokens (w_db w'))" for y
    using src [OF that] inv f by (auto simp: rotation_source_def session_inv_def drawn_def same_key_def)
  moreover have "ticket_ok (insert i U) (w_db w') t" if "t \<in> T" for t
  proof -
    from inv that have t: "ticket_ok U (w_db w) t" by (auto simp: session_inv_def)
    have "rt_family_id y = rr_familyId (tk_row t)"
      if "y \<in> set (db_refresh_tokens (w_db w'))" "rt_id y = rr_id (tk_row t)" for y
      using src [OF that(1)] that(2) t fresh(1) by (auto simp: rotation_source_def ticket_ok_def same_key_def)
    with t show ?thesis by (auto simp: ticket_ok_def)
  qed
  ultimately show ?thesis using inv fresh(2) ok
    by (auto simp: session_inv_def drawn_def world_ok_def preserves_db_def)
qed

lemma refresh_commit_cases:
  assumes run: "refresh_commit E R tk w = (r, w')"
  obtains (unchanged) "world_evolves {} w w'" "\<nexists>x. r = Inr x"
  | (rotated) u v x f h a b where "uuid_in E (tk_tenantId tk) = Some u"
      "uuid_in E (rr_id (tk_row tk)) = Some v"
      "uuid_in E (rr_familyId (tk_row tk)) = Some f" "consumed_rows u v (w_db w) \<noteq> []"
      "db_refresh_tokens (w_db w') = rotate_row u v (tk_now tk) (db_refresh_tokens (w_db w)) @
         [new_token_row (dr_newId R) u x f h a b]"
proof -
  let ?succ = "\<lparr> nr_familyId = rr_familyId (tk_row tk), nr_userId = rr_userId (tk_row tk),
      nr_tokenHash = sha256 E (dr_secret R), nr_expiresAt = tk_now tk + refreshTtlSeconds E * 1000 \<rparr>"
  obtain q d1 where rot: "refreshTokens_rotate (uuid_in E) (dr_newId R) (dr_dbNow R) (tk_tenantId tk)
      (rr_id (tk_row tk)) (tk_now tk) ?succ (w_db w) = (q, d1)" by fastforce
  consider e where "q = Inl e" | "q = Inr None" | n where "q = Inr (Some n)"
    by (metis option.exhaust sum.exhaust)
  then show thesis
  proof cases
    case 1
    with run rot have "w' = w\<lparr>w_db := d1\<rparr>" "r = Inl e"
      by (simp_all add: refresh_commit_def Let_def andThen_def onDb_def)
    with rotate_rest [OF rot] 1 show thesis by (intro unchanged) (simp_all add: world_evolves_def)
  next
    case 2
    with run rot have "revoke_and_reject E (tk_tenantId tk) (rr_familyId (tk_row tk)) (tk_now tk)
        (w\<lparr>w_db := d1\<rparr>) = (r, w')"
      by (simp add: refresh_commit_def Let_def andThen_def onDb_def)
    then have "world_evolves {} (w\<lparr>w_db := d1\<rparr>) w'" "\<nexists>x. r = Inr x"
      using keepsD [OF revoke_and_reject_evolves] by (auto simp: revoke_and_reject_Inr)
    with evolves_trans [OF rotate_rest [OF rot]] 2 show thesis
      by (intro unchanged) (simp_all add: world_evolves_def)
  next
    case 3
    with run rot have w': "w' = w\<lparr>w_db := d1\<rparr>"
      by (auto simp: refresh_commit_def Let_def andThen_def onDb_def)
    show thesis
      by (rule rotate_Some [OF rot [unfolded 3]], rule rotated) (simp_all add: w')
  qed
qed

lemma commit_keeps_inv:
  assumes inv: "session_inv E (w, T, U)" and tk: "tk \<in> T" and fresh: "fresh_draws E R U"
    and run: "refresh_commit E R tk w = (r, w')"
  shows "session_inv E (w', T, insert (dr_newId R) U)"
proof -
  have ok: "world_ok w w'" by (rule keepsD [OF refresh_commit_ok run])
  have tko: "ticket_ok U (w_db w) tk" using inv tk by (auto simp: session_inv_def)
  have mono: "session_inv E (w', T, insert (dr_newId R) U)" if "session_inv E (w', T, U)"
    using that fresh by (auto simp: session_inv_def drawn_def ticket_ok_def fresh_draws_def)
  from run show ?thesis
  proof (cases rule: refresh_commit_cases)
    case unchanged
    from unchanged(1) show ?thesis by (rule mono [OF session_inv_fixed [OF inv _ ok]])
  next
    case rotated
    show ?thesis
      by (rule rotation_keeps_inv [OF inv tko _ _ rotated(2-5) ok])
         (use fresh in \<open>simp_all add: fresh_draws_def\<close>)
  qed
qed

lemma check_keeps_inv:
  assumes inv: "session_inv E (w, T, U)" and run: "refresh_check E now raw w = (Inr tk, w')"
  shows "session_inv E (w', insert tk T, U)"
proof (rule refresh_check_Inr [OF run])
  fix p r
  assume r: "r \<in> set (db_refresh_tokens (w_db w))" "tk_row tk = toRefreshRow r" and w': "w' = w"
  have "rows_ok refresh_tokens_checks refresh_tokens_indexes (db_refresh_tokens (w_db w))"
    using inv by (simp add: session_inv_def db_ok_def keys_ok_def)
  then have "r' = r" if "r' \<in> set (db_refresh_tokens (w_db w))" "rt_id r' = rt_id r" for r'
    by (rule rows_ok_unique [of _ _ _ "(''refresh_tokens_pkey'', \<lambda>r. Some [rt_id r])"])
       (use that r in \<open>auto simp: refresh_tokens_indexes_def\<close>)
  with r inv have "ticket_ok U (w_db w) tk"
    by (auto simp: ticket_ok_def toRefreshRow_def session_inv_def drawn_def)
  with inv w' show ?thesis by (simp add: session_inv_def)
qed

section \<open>Every reachable configuration\<close>

lemma session_inv_step:
  assumes "session_inv E c" "session_step E c c'"
  shows "session_inv E c'"
  using assms(2,1)
proof cases
  case (step_login R U cmd w r w' T)
  have "world_evolves {(dr_newId R, dr_uuid R)} w w'"
    by (rule keepsD [OF login_evolves step_login(4)]) (use step_login(3) in \<open>simp add: fresh_draws_def\<close>)
  with step_login assms(1) keepsD [OF login_ok step_login(4)] show ?thesis
    by (simp add: session_inv_evolves fresh_draws_def)
next
  case (step_callback R U oc w r w' T)
  have "world_evolves {(dr_newId (cb_session R), dr_uuid (cb_session R))} w w'"
    by (rule keepsD [OF handleCallback_evolves step_callback(4)])
       (use step_callback(3) in \<open>simp add: fresh_draws_def\<close>)
  with step_callback assms(1) keepsD [OF handleCallback_ok step_callback(4)] show ?thesis
    by (simp add: session_inv_evolves fresh_draws_def)
next
  case (step_check now raw w tk w' T U)
  with assms(1) show ?thesis by (simp add: check_keeps_inv)
next
  case (step_reject now raw w e w' T U)
  with assms(1) keepsD [OF refresh_check_evolves step_reject(3)] keepsD [OF refresh_check_ok step_reject(3)]
  show ?thesis by (simp add: session_inv_fixed)
next
  case (step_commit tk T R U w r w')
  with assms(1) show ?thesis by (simp add: commit_keeps_inv)
next
  case (step_logout now raw w r w' T U)
  with assms(1) keepsD [OF logout_evolves step_logout(3)] keepsD [OF logout_ok step_logout(3)]
  show ?thesis by (simp add: session_inv_fixed)
next
  case (step_call D ctx x w r w' T U)
  with assms(1) keepsD [OF run_call_evolves step_call(3)] keepsD [OF run_call_ok step_call(3)]
  show ?thesis by (simp add: session_inv_fixed)
qed

lemma session_inv_reach: "session_reach E c \<Longrightarrow> session_inv E c"
proof (induction rule: session_reach.induct)
  case (reach_init w)
  then show ?case by (simp add: session_inv_def drawn_def one_live_def)
next
  case (reach_step c c')
  then show ?case using session_inv_step by blast
qed

section \<open>Families\<close>

lemma live_in_family_empty:
  "live_in_family t f d = [] \<longleftrightarrow>
     (\<forall>r \<in> set (db_refresh_tokens d). \<not> (rt_tenant_id r = t \<and> rt_family_id r = f \<and> live r))"
  by (auto simp: live_in_family_def filter_empty_conv)

lemma map_filter_Some: "List.map_filter (\<lambda>r. Some (g r)) xs = map g xs"
  by (induction xs) (simp_all add: List.map_filter_simps)

lemma token_ids_distinct:
  assumes "db_ok d"
  shows "distinct (map rt_id (db_refresh_tokens d))"
proof -
  from assms have "distinct (map (\<lambda>r. [rt_id r]) (db_refresh_tokens d))"
    by (simp add: db_ok_def keys_ok_def rows_ok_def refresh_tokens_indexes_def map_filter_Some)
  then show ?thesis by (simp add: distinct_map inj_on_def)
qed

lemma token_by_id:
  "db_ok d \<Longrightarrow> r \<in> set (db_refresh_tokens d) \<Longrightarrow> r' \<in> set (db_refresh_tokens d) \<Longrightarrow> rt_id r = rt_id r' \<Longrightarrow> r = r'"
  using token_ids_distinct [of d] by (auto simp: distinct_map inj_on_def)

lemma distinct_same_length:
  assumes "distinct xs" "\<And>x y. x \<in> set xs \<Longrightarrow> y \<in> set xs \<Longrightarrow> x = y"
  shows "length xs \<le> 1"
proof (cases xs)
  case (Cons x ys)
  with assms(2) [of x] assms(1) have "ys = []" by (cases ys) auto
  with Cons show ?thesis by simp
qed simp

lemma one_live_length:
  assumes "db_ok d" "one_live d"
  shows "length (live_in_family t f d) \<le> 1"
proof (rule distinct_same_length)
  show "distinct (live_in_family t f d)"
    using token_ids_distinct [OF assms(1)] by (simp add: live_in_family_def distinct_map)
  fix x y
  assume "x \<in> set (live_in_family t f d)" "y \<in> set (live_in_family t f d)"
  then show "x = y"
    using assms(2) token_by_id [OF assms(1), of x y] by (auto simp: live_in_family_def one_live_def)
qed

lemma evolves_dead:
  assumes "evolves N d d'" "live_in_family t f d = []" "\<And>i. (i, f) \<notin> N"
  shows "live_in_family t f d' = []"
  using assms unfolding live_in_family_empty evolves_def same_key_def by metis

lemma commit_dead:
  assumes inv: "session_inv E (w, T, U)" "tk \<in> T" and dead: "live_in_family t f (w_db w) = []"
    and run: "refresh_commit E R tk w = (r, w')"
  shows "live_in_family t f (w_db w') = []"
  using run
proof (cases rule: refresh_commit_cases)
  case unchanged
  then show ?thesis using dead evolves_dead [of "{}"] by (auto simp: world_evolves_def)
next
  case (rotated u v x g h a b)
  from inv have "ticket_ok U (w_db w) tk" "\<forall>x \<in> U. uuid_in E x = Some x" by (auto simp: session_inv_def)
  with rotated(2,3) have ids: "v = rr_id (tk_row tk)" "g = rr_familyId (tk_row tk)"
    and tko: "ticket_ok U (w_db w) tk" by (auto simp: ticket_ok_def)
  from rotated(4) obtain c where "c \<in> set (db_refresh_tokens (w_db w))" "rt_tenant_id c = u" "rt_id c = v" "live c"
    by (auto simp: consumed_rows_def filter_empty_conv)
  with tko ids dead have new: "\<not> (u = t \<and> g = f)"
    by (auto simp: ticket_ok_def live_in_family_empty)
  have "\<not> (rt_tenant_id y = t \<and> rt_family_id y = f \<and> live y)"
    if "y \<in> set (db_refresh_tokens (w_db w'))" for y
    using rotation_sources [OF that [unfolded rotated(5)]] new dead
    by (auto simp: rotation_source_def same_key_def live_in_family_empty)
  then show ?thesis by (simp add: live_in_family_empty)
qed

lemma step_dead:
  assumes inv: "session_inv E c" and step: "session_step E c c'"
    and f: "f \<in> snd (snd c)" and dead: "live_in_family t f (w_db (fst c)) = []"
  shows "f \<in> snd (snd c') \<and> live_in_family t f (w_db (fst c')) = []"
  using step
proof cases
  case (step_login R U cmd w r w' T)
  have "world_evolves {(dr_newId R, dr_uuid R)} w w'"
    by (rule keepsD [OF login_evolves step_login(4)]) (use step_login(3) in \<open>simp add: fresh_draws_def\<close>)
  then show ?thesis using step_login f dead by (auto simp: world_evolves_def fresh_draws_def elim: evolves_dead)
next
  case (step_callback R U oc w r w' T)
  have "world_evolves {(dr_newId (cb_session R), dr_uuid (cb_session R))} w w'"
    by (rule keepsD [OF handleCallback_evolves step_callback(4)])
       (use step_callback(3) in \<open>simp add: fresh_draws_def\<close>)
  then show ?thesis using step_callback f dead by (auto simp: world_evolves_def fresh_draws_def elim: evolves_dead)
next
  case (step_check now raw w tk w' T U)
  then have "world_evolves {} w w'" by (intro keepsD [OF refresh_check_evolves])
  then show ?thesis using step_check f dead by (auto simp: world_evolves_def elim: evolves_dead)
next
  case (step_reject now raw w e w' T U)
  then have "world_evolves {} w w'" by (intro keepsD [OF refresh_check_evolves])
  then show ?thesis using step_reject f dead by (auto simp: world_evolves_def elim: evolves_dead)
next
  case (step_commit tk T R U w r w')
  with inv f dead commit_dead [of E w T U tk t f R r w'] show ?thesis by simp
next
  case (step_logout now raw w r w' T U)
  then have "world_evolves {} w w'" by (intro keepsD [OF logout_evolves])
  then show ?thesis using step_logout f dead by (auto simp: world_evolves_def elim: evolves_dead)
next
  case (step_call D ctx x w r w' T U)
  then have "world_evolves {} w w'" by (intro keepsD [OF run_call_evolves])
  then show ?thesis using step_call f dead by (auto simp: world_evolves_def elim: evolves_dead)
qed

lemma steps_dead:
  assumes "(session_step E)\<^sup>*\<^sup>* c c'" "session_inv E c" "f \<in> snd (snd c)"
    "live_in_family t f (w_db (fst c)) = []"
  shows "session_inv E c' \<and> f \<in> snd (snd c') \<and> live_in_family t f (w_db (fst c')) = []"
  using assms(1)
proof (induction rule: rtranclp_induct)
  case base
  then show ?case using assms(2-4) by simp
next
  case (step c1 c2)
  then show ?case using session_inv_step [OF _ step(2)] step_dead [OF _ step(2), of f t] by simp
qed

section \<open>Reuse, races and logout\<close>

lemma token_rows_ok: "db_ok d \<Longrightarrow> rows_ok refresh_tokens_checks refresh_tokens_indexes (db_refresh_tokens d)"
  by (simp add: db_ok_def keys_ok_def)

lemma set_revoke_rows:
  "y \<in> set (revoke_rows t f now rows) \<Longrightarrow> \<not> (rt_tenant_id y = t \<and> rt_family_id y = f \<and> live y)"
proof -
  assume "y \<in> set (revoke_rows t f now rows)"
  then obtain r where "y = (if rt_tenant_id r = t \<and> rt_family_id r = f \<and> rt_revoked_at r = None
      then r\<lparr>rt_revoked_at := Some now\<rparr> else r)"
    unfolding revoke_rows_def set_map by (elim imageE)
  then show ?thesis
    by (cases "rt_tenant_id r = t \<and> rt_family_id r = f"; cases "rt_revoked_at r") (auto simp: live_def)
qed

lemma revoke_rows_dead:
  "live_in_family t f (d\<lparr>db_refresh_tokens := revoke_rows t f now rows\<rparr>) = []"
  using set_revoke_rows [of _ t f now rows] by (simp add: live_in_family_empty)

definition other_families :: "uuid \<Rightarrow> uuid \<Rightarrow> db \<Rightarrow> refresh_token_row list" where
  "other_families t f d = filter (\<lambda>y. \<not> (rt_tenant_id y = t \<and> rt_family_id y = f)) (db_refresh_tokens d)"

lemma revoke_rows_others:
  "other_families t f (d\<lparr>db_refresh_tokens := revoke_rows t f now (db_refresh_tokens d)\<rparr>) = other_families t f d"
proof -
  have "filter (\<lambda>y. \<not> (rt_tenant_id y = t \<and> rt_family_id y = f)) (revoke_rows t f now rows)
     = filter (\<lambda>y. \<not> (rt_tenant_id y = t \<and> rt_family_id y = f)) rows" for rows
    by (induction rows) (simp_all add: revoke_rows_def)
  then show ?thesis by (simp add: other_families_def)
qed

text \<open>A raw token names a stored row: it parses, the ids cast to those of the row, the secret hashes to its hash.\<close>

definition names_row :: "env \<Rightarrow> string \<Rightarrow> refresh_token_row \<Rightarrow> bool" where
  "names_row E raw r \<longleftrightarrow>
     (case parseRefreshToken raw of
        Inl _ \<Rightarrow> False
      | Inr p \<Rightarrow> uuid_in E (pr_tenantId p) = Some (rt_tenant_id r) \<and> uuid_in E (pr_tokenId p) = Some (rt_id r)
                 \<and> sha256 E (pr_secret p) = rt_token_hash r)"

lemma names_rowE:
  assumes "names_row E raw r" "db_ok (w_db w)" "r \<in> set (db_refresh_tokens (w_db w))"
  obtains p where "parseRefreshToken raw = Inr p" "pr_tenantId p \<noteq> []"
    "uuid_in E (pr_tenantId p) = Some (rt_tenant_id r)" "sha256 E (pr_secret p) = rt_token_hash r"
    "onDb (refreshTokens_findById (uuid_in E) (pr_tenantId p) (pr_tokenId p)) w = (Inr (Some (toRefreshRow r)), w)"
proof -
  from assms(1) obtain p where p: "parseRefreshToken raw = Inr p"
    "uuid_in E (pr_tenantId p) = Some (rt_tenant_id r)" "uuid_in E (pr_tokenId p) = Some (rt_id r)"
    "sha256 E (pr_secret p) = rt_token_hash r"
    by (auto simp: names_row_def split: sum.splits)
  from p(1) have ne: "pr_tenantId p \<noteq> []" by (simp add: parseRefreshToken_eq_Inr refresh_token_wf_def)
  have "token_at (rt_tenant_id r) (rt_id r) (w_db w) = Some r"
    by (rule token_at_unique [OF token_rows_ok [OF assms(2)] assms(3)])
  then have "onDb (refreshTokens_findById (uuid_in E) (pr_tenantId p) (pr_tokenId p)) w
      = (Inr (Some (toRefreshRow r)), w)"
    using findById_run [OF p(2) ne p(3), of "w_db w"] by (simp add: onDb_def)
  with p ne show thesis by (intro that)
qed

lemma refresh_dead_token:
  assumes ok: "db_ok (w_db w)" and r: "r \<in> set (db_refresh_tokens (w_db w))" "names_row E raw r" "\<not> live r"
    and f: "uuid_in E (rt_family_id r) = Some (rt_family_id r)"
  shows "refresh E R raw w = (Inl invalid_refresh_token,
     w\<lparr>w_db := (w_db w)\<lparr>db_refresh_tokens :=
       revoke_rows (rt_tenant_id r) (rt_family_id r) (dr_now R) (db_refresh_tokens (w_db w))\<rparr>\<rparr>)"
proof (rule names_rowE [OF r(2) ok r(1)])
  fix p
  assume p: "parseRefreshToken raw = Inr p" "pr_tenantId p \<noteq> []"
    "uuid_in E (pr_tenantId p) = Some (rt_tenant_id r)" "sha256 E (pr_secret p) = rt_token_hash r"
    "onDb (refreshTokens_findById (uuid_in E) (pr_tenantId p) (pr_tokenId p)) w = (Inr (Some (toRefreshRow r)), w)"
  have "refresh_check E (dr_now R) raw w = revoke_and_reject E (pr_tenantId p) (rt_family_id r) (dr_now R) w"
    using r(3) by (auto simp: refresh_check_def safeParse_def p andThen_def toRefreshRow_def live_def)
  then show ?thesis
    by (simp add: refresh_def andThen_def revoke_and_reject_run [OF p(3,2) f token_rows_ok [OF ok]])
qed

lemma logout_run:
  assumes ok: "db_ok (w_db w)" and r: "r \<in> set (db_refresh_tokens (w_db w))" "names_row E raw r"
    and f: "uuid_in E (rt_family_id r) = Some (rt_family_id r)"
  shows "logout E now raw w = (Inr (),
     w\<lparr>w_db := (w_db w)\<lparr>db_refresh_tokens :=
       revoke_rows (rt_tenant_id r) (rt_family_id r) now (db_refresh_tokens (w_db w))\<rparr>\<rparr>)"
proof (rule names_rowE [OF r(2) ok r(1)])
  fix p
  assume p: "parseRefreshToken raw = Inr p" "pr_tenantId p \<noteq> []"
    "uuid_in E (pr_tenantId p) = Some (rt_tenant_id r)" "sha256 E (pr_secret p) = rt_token_hash r"
    "onDb (refreshTokens_findById (uuid_in E) (pr_tenantId p) (pr_tokenId p)) w = (Inr (Some (toRefreshRow r)), w)"
  show ?thesis
    by (simp add: logout_def p andThen_def toRefreshRow_def onDb_def [of "refreshTokens_revokeFamily _ _ _ _"]
        revokeFamily_run [OF p(3,2) f token_rows_ok [OF ok]])
qed

lemma commit_rotated_run:
  assumes ok: "db_ok (w_db w)" and tk: "uuid_in E (tk_tenantId tk) = Some u" "tk_tenantId tk \<noteq> []"
    "uuid_in E (rr_id (tk_row tk)) = Some v" "uuid_in E (rr_familyId (tk_row tk)) = Some f"
    and used: "consumed_rows u v (w_db w) = []"
  shows "refresh_commit E R tk w = (Inl invalid_refresh_token,
     w\<lparr>w_db := (w_db w)\<lparr>db_refresh_tokens := revoke_rows u f (tk_now tk) (db_refresh_tokens (w_db w))\<rparr>\<rparr>)"
  by (simp add: refresh_commit_def Let_def andThen_def onDb_def rotate_none_run [OF tk(1,2,3) used token_rows_ok [OF ok]]
      revoke_and_reject_run [OF tk(1,2,4)] token_rows_ok [OF ok])

lemma winner_consumes:
  assumes ok: "db_ok (w_db w)" and run: "refresh_commit E R tk w = (Inr s, w')"
    and ids: "uuid_in E (tk_tenantId tk) = Some u" "uuid_in E (rr_id (tk_row tk)) = Some v"
  shows "db_ok (w_db w') \<and> consumed_rows u v (w_db w') = []"
proof -
  have ok': "db_ok (w_db w')"
    using keepsD [OF refresh_commit_ok run] ok by (simp add: world_ok_def preserves_db_def)
  from run show ?thesis
  proof (cases rule: refresh_commit_cases)
    case (rotated u' v' x f h a b)
    with ids have uv: "u' = u" "v' = v" by simp_all
    from rotated(4) obtain c where "c \<in> set (db_refresh_tokens (w_db w))" "rt_id c = v"
      by (auto simp: consumed_rows_def filter_empty_conv uv)
    then have "v \<in> set (map rt_id (rotate_row u v (tk_now tk) (db_refresh_tokens (w_db w))))"
      by (force simp: rotate_row_def)
    with token_ids_distinct [OF ok'] have new: "dr_newId R \<noteq> v"
      unfolding rotated(5) uv by auto
    have "\<not> (rt_tenant_id y = u \<and> rt_id y = v \<and> live y)" if "y \<in> set (db_refresh_tokens (w_db w'))" for y
    proof
      assume y: "rt_tenant_id y = u \<and> rt_id y = v \<and> live y"
      then have "y \<noteq> new_token_row (dr_newId R) u' x f h a b" using new by (metis new_token_row_fields(1))
      with rotation_sources [OF that [unfolded rotated(5)]] y show False
        by (auto simp: rotation_source_def same_key_def uv)
    qed
    with ok' show ?thesis by (simp add: consumed_rows_def filter_empty_conv)
  qed simp
qed

section \<open>A concrete session\<close>

lemma sample_session_reach: "session_reach sample_env (sample_session, {}, {''k1'', ''f1''})"
proof -
  have "session_reach sample_env (sample_world, {}, {})"
    by (rule reach_init) (simp_all add: sample_world_def sample_db_ok, simp add: sample_db_def empty_db_def)
  moreover have "session_step sample_env (sample_world, {}, {})
      (sample_session, {}, {} \<union> {dr_newId sample_draws, dr_uuid sample_draws})"
    unfolding sample_session_def
    by (rule step_login [where r = "fst (login sample_env sample_draws sample_login sample_world)"])
       (simp_all, code_simp)
  ultimately have "session_reach sample_env
      (sample_session, {}, {} \<union> {dr_newId sample_draws, dr_uuid sample_draws})" by (rule reach_step)
  then show ?thesis by (simp add: sample_draws_def)
qed

definition sample_token_row :: refresh_token_row where
  "sample_token_row = new_token_row ''k1'' ''t1'' ''u1'' ''f1'' (sample_digest ''s1'') 0 1000000"

lemma sample_session_tokens: "db_refresh_tokens (w_db sample_session) = [sample_token_row]"
  by code_simp

lemma sample_token_names: "names_row sample_env sample_token sample_token_row"
  by code_simp

definition sample_logged_out :: world where
  "sample_logged_out = snd (logout sample_env 5 sample_token sample_session)"

definition sample_retry :: world where
  "sample_retry = snd (logout sample_env 6 sample_token sample_logged_out)"

lemma sample_logged_out_reach: "session_reach sample_env (sample_logged_out, {}, {''k1'', ''f1''})"
  by (rule reach_step [OF sample_session_reach]) (simp add: sample_logged_out_def step_logout prod_eq_iff)

definition sample_ticket :: refresh_ticket where
  "sample_ticket =
     \<lparr> tk_tenantId = ''t1'', tk_row = toRefreshRow sample_token_row,
       tk_record = \<lparr> auth_id = ''u1'', auth_passwordHash = ''$pw'', auth_status = ''active'',
                     auth_role = Some tenant_admin \<rparr>,
       tk_role = tenant_admin, tk_now = 1 \<rparr>"

definition sample_refreshed :: world where
  "sample_refreshed = snd (refresh_commit sample_env sample_draws2 sample_ticket sample_session)"

lemma sample_session_check: "refresh_check sample_env 1 sample_token sample_session = (Inr sample_ticket, sample_session)"
proof -
  have "fst (refresh_check sample_env 1 sample_token sample_session) = Inr sample_ticket" by code_simp
  then have "refresh_check sample_env 1 sample_token sample_session =
      (Inr sample_ticket, snd (refresh_check sample_env 1 sample_token sample_session))"
    by (simp add: prod_eq_iff)
  then show ?thesis using refresh_check_Inr by metis
qed

lemma sample_commit:
  "\<exists>s. refresh_commit sample_env sample_draws2 sample_ticket sample_session = (Inr s, sample_refreshed)"
proof -
  have "\<not> isl (fst (refresh_commit sample_env sample_draws2 sample_ticket sample_session))" by code_simp
  then show ?thesis
    by (cases "refresh_commit sample_env sample_draws2 sample_ticket sample_session"; cases "fst (refresh_commit sample_env sample_draws2 sample_ticket sample_session)")
       (auto simp: sample_refreshed_def)
qed

lemma sample_refreshed_reach:
  "session_reach sample_env (sample_refreshed, {sample_ticket}, {''k2'', ''k1'', ''f1''})"
proof -
  have "session_reach sample_env (sample_session, {sample_ticket}, {''k1'', ''f1''})"
    by (rule reach_step [OF sample_session_reach step_check [OF sample_session_check]])
  moreover obtain s where "refresh_commit sample_env sample_draws2 sample_ticket sample_session = (Inr s, sample_refreshed)"
    using sample_commit by blast
  then have "session_step sample_env (sample_session, {sample_ticket}, {''k1'', ''f1''})
      (sample_refreshed, {sample_ticket}, insert (dr_newId sample_draws2) {''k1'', ''f1''})"
    by (rule step_commit [rotated 2]) (simp, code_simp)
  ultimately have "session_reach sample_env
      (sample_refreshed, {sample_ticket}, insert (dr_newId sample_draws2) {''k1'', ''f1''})" by (rule reach_step)
  then show ?thesis by (simp add: sample_draws2_def)
qed

section \<open>Properties\<close>

text \<open>
  C1. Refresh-token rotation under concurrency. In every interleaving of logins, Google sign-ins,
  the two halves of any number of refresh calls, logouts and administrative calls, each session
  family of a tenant holds at most one live refresh token.
\<close>

theorem at_most_one_live_token:
  assumes "session_reach E (w, T, U)"
  shows "length (live_in_family t f (w_db w)) \<le> 1"
  using session_inv_reach [OF assms] by (intro one_live_length) (simp_all add: session_inv_def)

theorem at_most_one_live_token_witness:
  "length (live_in_family ''t1'' ''f1'' (w_db sample_session)) \<le> 1"
  by (rule at_most_one_live_token [OF sample_session_reach])

text \<open>
  C9. A family without a live token (because of logout, reuse detection, or a lost race) never
  gets one again, whatever happens later: tickets of refresh calls that were in flight included.
\<close>

theorem dead_family_never_revives:
  assumes "session_reach E c" "f \<in> snd (snd c)" "live_in_family t f (w_db (fst c)) = []"
    "(session_step E)\<^sup>*\<^sup>* c c'"
  shows "live_in_family t f (w_db (fst c')) = []"
  using steps_dead [OF assms(4) session_inv_reach [OF assms(1)] assms(2,3)] by simp

theorem dead_family_never_revives_witness:
  "live_in_family ''t1'' ''f1'' (w_db sample_retry) = []"
proof -
  have "(session_step sample_env)\<^sup>*\<^sup>* (sample_logged_out, {}, {''k1'', ''f1''}) (sample_retry, {}, {''k1'', ''f1''})"
    by (rule r_into_rtranclp) (simp add: sample_retry_def step_logout prod_eq_iff)
  moreover have "live_in_family ''t1'' ''f1'' (w_db sample_logged_out) = []" by code_simp
  ultimately show ?thesis
    using dead_family_never_revives [OF sample_logged_out_reach, of "''f1''" "''t1''"
        "(sample_retry, {}, {''k1'', ''f1''})"] by simp
qed

text \<open>
  C8. Reuse detection. Presenting a token that was rotated or revoked before is answered with the
  401 error and revokes the whole family; tokens of other families stay as they were.
\<close>

theorem reuse_revokes_family:
  assumes "session_reach E (w, T, U)" "r \<in> set (db_refresh_tokens (w_db w))" "names_row E raw r" "\<not> live r"
  shows "\<exists>w'. refresh E R raw w = (Inl invalid_refresh_token, w')
    \<and> live_in_family (rt_tenant_id r) (rt_family_id r) (w_db w') = []
    \<and> other_families (rt_tenant_id r) (rt_family_id r) (w_db w') = other_families (rt_tenant_id r) (rt_family_id r) (w_db w)"
proof -
  from session_inv_reach [OF assms(1)] assms(2) have "db_ok (w_db w)"
    "uuid_in E (rt_family_id r) = Some (rt_family_id r)" by (auto simp: session_inv_def drawn_def)
  from refresh_dead_token [OF this(1) assms(2-4) this(2)] show ?thesis
    by (simp add: revoke_rows_dead revoke_rows_others)
qed

theorem reuse_revokes_family_witness:
  "\<exists>w'. refresh sample_env sample_draws sample_token sample_refreshed = (Inl invalid_refresh_token, w')
    \<and> live_in_family ''t1'' ''f1'' (w_db w') = []"
proof -
  let ?r = "sample_token_row\<lparr>rt_rotated_at := Some 1\<rparr>"
  have "?r \<in> set (db_refresh_tokens (w_db sample_refreshed))" "names_row sample_env sample_token ?r" "\<not> live ?r"
    by code_simp+
  from reuse_revokes_family [OF sample_refreshed_reach this, of sample_draws] show ?thesis
    by (auto simp: sample_token_row_def)
qed

text \<open>
  C2. The race between two refresh calls that presented the same valid token: both passed the
  check, the first rotation succeeds, and the second is answered with the 401 error and revokes
  the family, successor included.
\<close>

theorem refresh_race_single_winner:
  assumes reach: "session_reach E (w, T, U)"
    and check1: "refresh_check E n1 raw w = (Inr tk1, w1)" and check2: "refresh_check E n2 raw w1 = (Inr tk2, w2)"
    and commit1: "refresh_commit E R1 tk1 w2 = (Inr s1, w3)"
  shows "\<exists>w4 u. refresh_commit E R2 tk2 w3 = (Inl invalid_refresh_token, w4)
    \<and> uuid_in E (tk_tenantId tk2) = Some u
    \<and> live_in_family u (rr_familyId (tk_row tk2)) (w_db w4) = []"
proof -
  have inv: "session_inv E (w, T, U)" by (rule session_inv_reach [OF reach])
  then have ok: "db_ok (w_db w)" by (simp add: session_inv_def)
  obtain p r where r: "parseRefreshToken raw = Inr p" "r \<in> set (db_refresh_tokens (w_db w))" "w1 = w"
    "tk_row tk1 = toRefreshRow r" "tk_tenantId tk1 = pr_tenantId p"
    "uuid_in E (pr_tenantId p) = Some (rt_tenant_id r)" "uuid_in E (pr_tokenId p) = Some (rt_id r)"
    using refresh_check_Inr [OF check1] by metis
  obtain q where q: "q \<in> set (db_refresh_tokens (w_db w))" "w2 = w"
    "tk_row tk2 = toRefreshRow q" "tk_tenantId tk2 = pr_tenantId p" "uuid_in E (pr_tokenId p) = Some (rt_id q)"
    using refresh_check_Inr [OF check2] r(1,3) by (metis Inr_inject)
  have "q = r" by (rule token_by_id [OF ok q(1) r(2)]) (use q(5) r(7) in simp)
  have ids: "uuid_in E (rt_id r) = Some (rt_id r)" "uuid_in E (rt_family_id r) = Some (rt_family_id r)"
    using inv r(2) by (auto simp: session_inv_def drawn_def)
  have w3: "db_ok (w_db w3) \<and> consumed_rows (rt_tenant_id r) (rt_id r) (w_db w3) = []"
    by (rule winner_consumes [OF _ commit1]) (use ok q(2) r ids in \<open>simp_all add: toRefreshRow_def\<close>)
  have "pr_tenantId p \<noteq> []" using r(1) by (simp add: parseRefreshToken_eq_Inr refresh_token_wf_def)
  then have "refresh_commit E R2 tk2 w3 = (Inl invalid_refresh_token, w3\<lparr>w_db := (w_db w3)\<lparr>db_refresh_tokens :=
      revoke_rows (rt_tenant_id r) (rt_family_id r) (tk_now tk2) (db_refresh_tokens (w_db w3))\<rparr>\<rparr>)"
    using w3 q \<open>q = r\<close> r ids by (intro commit_rotated_run [of w3 E tk2 _ "rt_id r"]) (auto simp: toRefreshRow_def)
  then show ?thesis
    using q(3,4) \<open>q = r\<close> r(6) by (simp add: revoke_rows_dead toRefreshRow_def)
qed

theorem refresh_race_single_winner_witness:
  "\<exists>w4. refresh_commit sample_env sample_draws sample_ticket sample_refreshed = (Inl invalid_refresh_token, w4)
    \<and> live_in_family ''t1'' ''f1'' (w_db w4) = []"
proof -
  obtain s where "refresh_commit sample_env sample_draws2 sample_ticket sample_session = (Inr s, sample_refreshed)"
    using sample_commit by blast
  from refresh_race_single_winner [OF sample_session_reach sample_session_check sample_session_check this, of sample_draws]
  show ?thesis by (auto simp: sample_ticket_def sample_token_row_def toRefreshRow_def sample_env_def)
qed

text \<open>
  C10. Logout with a session's token, live or not, succeeds and leaves no live token in its family;
  other families are untouched.
\<close>

theorem logout_ends_session:
  assumes "session_reach E (w, T, U)" "r \<in> set (db_refresh_tokens (w_db w))" "names_row E raw r"
  shows "\<exists>w'. logout E now raw w = (Inr (), w')
    \<and> live_in_family (rt_tenant_id r) (rt_family_id r) (w_db w') = []
    \<and> other_families (rt_tenant_id r) (rt_family_id r) (w_db w') = other_families (rt_tenant_id r) (rt_family_id r) (w_db w)"
proof -
  from session_inv_reach [OF assms(1)] assms(2) have "db_ok (w_db w)"
    "uuid_in E (rt_family_id r) = Some (rt_family_id r)" by (auto simp: session_inv_def drawn_def)
  from logout_run [OF this(1) assms(2,3) this(2)] show ?thesis
    by (simp add: revoke_rows_dead revoke_rows_others)
qed

theorem logout_ends_session_witness:
  "\<exists>w'. logout sample_env 5 sample_token sample_session = (Inr (), w')
    \<and> live_in_family ''t1'' ''f1'' (w_db w') = []"
  using logout_ends_session [OF sample_session_reach _ sample_token_names, of 5]
  by (auto simp: sample_session_tokens sample_token_row_def)

end
