(* ===== verification/Login_Laws.thy ===== *)
theory Login_Laws
  imports Sessions
begin

text \<open>
  Password login against its specification, and the life of the session it opens: a login
  succeeds exactly for the owner of an active account of an active tenant, every login costs one
  password verification, and the tokens it hands out authenticate and refresh.
\<close>

section \<open>Specification\<close>

text \<open>The role an account acts with: the operator flag first, then its membership.\<close>

definition has_role :: "db \<Rightarrow> user_row \<Rightarrow> role \<Rightarrow> bool" where
  "has_role d u role \<longleftrightarrow>
     (if us_is_platform_operator u then role = platform_operator
      else \<exists>m \<in> set (db_memberships d). mb_tenant_id m = us_tenant_id u \<and> mb_user_id m = us_id u
             \<and> role = membership_as_role (mb_role m))"

definition valid_login :: "env \<Rightarrow> LoginCommand \<Rightarrow> db \<Rightarrow> tenant_row \<Rightarrow> user_row \<Rightarrow> role \<Rightarrow> bool" where
  "valid_login E cmd d t u role \<longleftrightarrow>
     t \<in> set (db_tenants d) \<and> tn_public_id t = lc_tenantSlug cmd \<and> tn_status t = TS_active
     \<and> u \<in> set (db_users d) \<and> us_tenant_id u = tn_id t \<and> us_email u = normalizeEmail (lc_email cmd)
     \<and> us_status u = ''active'' \<and> bcrypt_verify E (lc_password cmd) (us_password_hash u)
     \<and> has_role d u role"

text \<open>
  What the server promises of the ids it stores (they are canonical uuid texts) and what SHA-256
  promises of its digest.
\<close>

definition ids_canonical :: "env \<Rightarrow> db \<Rightarrow> bool" where
  "ids_canonical E d \<longleftrightarrow>
     (\<forall>t \<in> set (db_tenants d). canonical E (tn_id t)) \<and> (\<forall>u \<in> set (db_users d). canonical E (us_id u))"

definition digest_32 :: "env \<Rightarrow> bool" where
  "digest_32 E \<longleftrightarrow> (\<forall>s. length (sha256 E s) = 32)"

definition token_fresh :: "env \<Rightarrow> draws \<Rightarrow> db \<Rightarrow> bool" where
  "token_fresh E R d \<longleftrightarrow>
     canonical E (dr_uuid R) \<and> canonical E (dr_newId R) \<and> dr_secret R \<noteq> []
     \<and> (\<forall>r \<in> set (db_refresh_tokens d). rt_id r \<noteq> dr_newId R)"

section \<open>Lookups\<close>

lemma first_row_filter: "first_row (filter P xs) = find P xs"
  by (induction xs) auto

lemma find_unique:
  assumes "\<And>a b. a \<in> set xs \<Longrightarrow> b \<in> set xs \<Longrightarrow> P a \<Longrightarrow> P b \<Longrightarrow> a = b" "x \<in> set xs" "P x"
  shows "find P xs = Some x"
  using assms by (cases "find P xs") (auto simp: find_None_iff find_Some_iff in_set_conv_nth)

lemma tenant_by_slug:
  "db_ok d \<Longrightarrow> a \<in> set (db_tenants d) \<Longrightarrow> b \<in> set (db_tenants d) \<Longrightarrow> tn_public_id a = tn_public_id b \<Longrightarrow> a = b"
  by (rule rows_ok_unique [of tenants_checks tenants_indexes "db_tenants d" "(''tenants_public_id_key'', \<lambda>r. Some [tn_public_id r])"])
     (auto simp: db_ok_def keys_ok_def tenants_indexes_def)

lemma tenant_by_id:
  "db_ok d \<Longrightarrow> a \<in> set (db_tenants d) \<Longrightarrow> b \<in> set (db_tenants d) \<Longrightarrow> tn_id a = tn_id b \<Longrightarrow> a = b"
  by (rule rows_ok_unique [of tenants_checks tenants_indexes "db_tenants d" "(''tenants_pkey'', \<lambda>r. Some [tn_id r])"])
     (auto simp: db_ok_def keys_ok_def tenants_indexes_def)

lemma user_by_email:
  "db_ok d \<Longrightarrow> a \<in> set (db_users d) \<Longrightarrow> b \<in> set (db_users d) \<Longrightarrow> us_tenant_id a = us_tenant_id b \<Longrightarrow>
   us_email a = us_email b \<Longrightarrow> a = b"
  by (rule rows_ok_unique [of "[]" users_indexes "db_users d" "(''users_tenant_id_email_key'', \<lambda>r. Some [us_tenant_id r, us_email r])"])
     (auto simp: db_ok_def keys_ok_def users_indexes_def)

lemma user_by_id:
  "db_ok d \<Longrightarrow> a \<in> set (db_users d) \<Longrightarrow> b \<in> set (db_users d) \<Longrightarrow> us_id a = us_id b \<Longrightarrow> a = b"
  by (rule rows_ok_unique [of "[]" users_indexes "db_users d" "(''users_pkey'', \<lambda>r. Some [us_id r])"])
     (auto simp: db_ok_def keys_ok_def users_indexes_def)

lemma membership_by_user:
  "db_ok d \<Longrightarrow> a \<in> set (db_memberships d) \<Longrightarrow> b \<in> set (db_memberships d) \<Longrightarrow>
   mb_tenant_id a = mb_tenant_id b \<Longrightarrow> mb_user_id a = mb_user_id b \<Longrightarrow> a = b"
  by (rule rows_ok_unique [of "[]" memberships_indexes "db_memberships d" "(''memberships_pkey'', \<lambda>r. Some [mb_tenant_id r, mb_user_id r])"])
     (auto simp: db_ok_def keys_ok_def memberships_indexes_def)

text \<open>The authentication projection of a user row under its own tenant.\<close>

definition auth_of :: "db \<Rightarrow> user_row \<Rightarrow> AuthRecord" where
  "auth_of d u = toAuthRecord u (auth_role_text (Some (us_tenant_id u)) d u)"

lemma auth_of_fields [simp]:
  "auth_id (auth_of d u) = us_id u" "auth_passwordHash (auth_of d u) = us_password_hash u"
  "auth_status (auth_of d u) = us_status u"
  by (simp_all add: auth_of_def toAuthRecord_def)

lemma known_role: "isRole (JStr (role_name r))"
  by (cases r) (simp_all add: ROLES_def)

lemma auth_role_of:
  assumes "db_ok d"
  shows "auth_role (auth_of d u) = Some role \<longleftrightarrow> has_role d u role"
proof (cases "us_is_platform_operator u")
  case True
  then show ?thesis
    by (auto simp: auth_of_def toAuthRecord_def auth_role_text_def has_role_def ROLES_def)
next
  case False
  let ?P = "\<lambda>m. mb_tenant_id m = us_tenant_id u \<and> mb_user_id m = us_id u"
  have "joined_role (Some (us_tenant_id u)) d u = Some mr \<longleftrightarrow>
      (\<exists>m \<in> set (db_memberships d). ?P m \<and> mr = mb_role m)" for mr
  proof
    assume "joined_role (Some (us_tenant_id u)) d u = Some mr"
    then show "\<exists>m \<in> set (db_memberships d). ?P m \<and> mr = mb_role m"
      by (fastforce simp: joined_role_def find_Some_iff rls_Some dest: nth_mem)
  next
    assume "\<exists>m \<in> set (db_memberships d). ?P m \<and> mr = mb_role m"
    then obtain m where m: "m \<in> set (db_memberships d)" "?P m" "mr = mb_role m" by blast
    have "find ?P (rls mb_tenant_id (Some (us_tenant_id u)) (db_memberships d)) = Some m"
      by (rule find_unique) (use m membership_by_user [OF assms] in auto)
    with m show "joined_role (Some (us_tenant_id u)) d u = Some mr" by (simp add: joined_role_def)
  qed
  moreover have "auth_role (auth_of d u) = map_option membership_as_role (joined_role (Some (us_tenant_id u)) d u)"
    using False
    by (cases "joined_role (Some (us_tenant_id u)) d u")
       (simp_all add: auth_of_def toAuthRecord_def auth_role_text_def known_role del: isRole.simps role_of_name.simps)
  ultimately show ?thesis using False by (auto simp: has_role_def)
qed

lemma findByPublicId_run:
  "tenants_findByPublicId slug d = (Inr (map_option toTenant (find (\<lambda>t. tn_public_id t = slug) (db_tenants d))), d)"
  by (simp add: tenants_findByPublicId_def first_row_filter)

lemma tenants_findById_run:
  "uuid_in E i = Some v \<Longrightarrow>
   tenants_findById (uuid_in E) i d = (Inr (map_option toTenant (find (\<lambda>t. tn_id t = v) (db_tenants d))), d)"
  by (simp add: tenants_findById_def first_row_filter)

lemma map_auth_of:
  "map_option (\<lambda>u. toAuthRecord u (auth_role_text (Some v) d u)) (find (\<lambda>u. P u \<and> us_tenant_id u = v) rows)
     = map_option (auth_of d) (find (\<lambda>u. P u \<and> us_tenant_id u = v) rows)"
  by (induction rows) (auto simp: auth_of_def)

lemma findCredentialsByEmail_run:
  assumes "uuid_in E t = Some v" "t \<noteq> []"
  shows "users_findCredentialsByEmail (uuid_in E) t email d =
    (Inr (map_option (auth_of d) (find (\<lambda>u. us_tenant_id u = v \<and> us_email u = email) (db_users d))), d)"
  unfolding users_findCredentialsByEmail_def
  by (rule tx_run_ok [OF assms])
     (simp add: andThen_def select_auth_def map_auth_of rls_Some first_row_filter conj_commute)

lemma findCredentialsById_run:
  assumes "uuid_in E t = Some v" "t \<noteq> []" "uuid_in E i = Some x"
  shows "users_findCredentialsById (uuid_in E) t i d =
    (Inr (map_option (auth_of d) (find (\<lambda>u. us_tenant_id u = v \<and> us_id u = x) (db_users d))), d)"
  unfolding users_findCredentialsById_def
  by (rule tx_run_ok [OF assms(1,2)])
     (simp add: assms(3) andThen_def select_auth_def map_auth_of rls_Some first_row_filter conj_commute)

section \<open>Login\<close>

text \<open>The account a login addresses, before any secret is looked at.\<close>

definition addressed :: "LoginCommand \<Rightarrow> db \<Rightarrow> (tenant_row \<times> user_row) option" where
  "addressed cmd d =
     (case find (\<lambda>t. tn_public_id t = lc_tenantSlug cmd) (db_tenants d) of
        None \<Rightarrow> None
      | Some t \<Rightarrow>
          if tn_status t \<noteq> TS_active then None
          else map_option (Pair t) (find (\<lambda>u. us_tenant_id u = tn_id t \<and> us_email u = normalizeEmail (lc_email cmd)) (db_users d)))"

lemma find_member: "find P xs = Some x \<Longrightarrow> x \<in> set xs \<and> P x"
  by (induction xs) (auto split: if_splits)

lemma toTenant_fields [simp]:
  "tenant_id (toTenant t) = tn_id t" "tenant_status (toTenant t) = tn_status t" "tenant_publicId (toTenant t) = tn_public_id t"
  by (simp_all add: toTenant_def)

lemma canonicalD: "canonical E u \<Longrightarrow> uuid_in E u = Some u \<and> u \<noteq> [] \<and> CHR ''_'' \<notin> set u"
  by (simp add: canonical_def)

lemma addressed_Some:
  assumes "db_ok d"
  shows "addressed cmd d = Some (t, u) \<longleftrightarrow>
    t \<in> set (db_tenants d) \<and> tn_public_id t = lc_tenantSlug cmd \<and> tn_status t = TS_active
    \<and> u \<in> set (db_users d) \<and> us_tenant_id u = tn_id t \<and> us_email u = normalizeEmail (lc_email cmd)"
    (is "_ \<longleftrightarrow> ?spec")
proof
  assume "addressed cmd d = Some (t, u)"
  then show ?spec by (auto simp: addressed_def split: option.splits if_splits dest!: find_member)
next
  assume spec: ?spec
  have "find (\<lambda>t. tn_public_id t = lc_tenantSlug cmd) (db_tenants d) = Some t"
    by (rule find_unique) (use spec tenant_by_slug [OF assms] in auto)
  moreover have "find (\<lambda>u. us_tenant_id u = tn_id t \<and> us_email u = normalizeEmail (lc_email cmd)) (db_users d) = Some u"
    by (rule find_unique) (use spec user_by_email [OF assms] in auto)
  ultimately show "addressed cmd d = Some (t, u)" using spec by (simp add: addressed_def)
qed

lemma login_addressed:
  assumes "addressed cmd (w_db w) = Some (t, u)" "canonical E (tn_id t)"
  shows "login E R cmd w =
    (let w' = w\<lparr>w_verifies := w_verifies w @ [(lc_password cmd, us_password_hash u)]\<rparr>
     in if \<not> bcrypt_verify E (lc_password cmd) (us_password_hash u) \<or> us_status u \<noteq> ''active''
        then (Inl invalid_credentials, w')
        else case auth_role (auth_of (w_db w) u) of
               None \<Rightarrow> (Inl invalid_credentials, w')
             | Some role \<Rightarrow>
                 andThen (mintRefreshToken E R (tn_id t) (us_id u) (dr_uuid R)) (\<lambda>tok.
                 ret (session_tokens E R (tn_id t) (us_id u) role tok)) w')"
proof -
  from assms(1) have t: "find (\<lambda>t. tn_public_id t = lc_tenantSlug cmd) (db_tenants (w_db w)) = Some t"
    and act: "tn_status t = TS_active"
    and u: "find (\<lambda>u. us_tenant_id u = tn_id t \<and> us_email u = normalizeEmail (lc_email cmd)) (db_users (w_db w)) = Some u"
    by (auto simp: addressed_def split: option.splits if_splits)
  show ?thesis
    using canonicalD [OF assms(2)] act
    by (simp add: login_def andThen_def onDb_def findByPublicId_run t u findCredentialsByEmail_run verifyPassword_def
        Let_def split: option.split)
qed

lemma login_unaddressed:
  assumes "addressed cmd (w_db w) = None" "\<And>t. t \<in> set (db_tenants (w_db w)) \<Longrightarrow> canonical E (tn_id t)"
  shows "login E R cmd w =
    (Inl invalid_credentials, w\<lparr>w_verifies := w_verifies w @ [(lc_password cmd, dummyHash E)]\<rparr>)"
proof (cases "find (\<lambda>t. tn_public_id t = lc_tenantSlug cmd) (db_tenants (w_db w))")
  case None
  then show ?thesis by (simp add: login_def andThen_def onDb_def findByPublicId_run verifyPassword_def Let_def)
next
  case (Some t)
  with assms(2) find_member [OF Some] have "canonical E (tn_id t)" by blast
  with Some assms(1) canonicalD [OF this] show ?thesis
    by (auto simp: login_def andThen_def onDb_def findByPublicId_run findCredentialsByEmail_run verifyPassword_def Let_def
        addressed_def split: option.split)
qed

definition session_row :: "env \<Rightarrow> draws \<Rightarrow> uuid \<Rightarrow> uuid \<Rightarrow> uuid \<Rightarrow> refresh_token_row" where
  "session_row E R t u f =
     new_token_row (dr_newId R) t u f (sha256 E (dr_secret R)) (dr_dbNow R) (dr_now R + refreshTtlSeconds E * 1000)"

text \<open>What a row of the token table needs to be inserted: its tenant and user exist.\<close>

lemma session_exists:
  assumes "t \<in> set (db_tenants d)" "u \<in> set (db_users d)" "us_tenant_id u = tn_id t"
  shows "tenant_exists (tn_id t) d" "tenant_user_exists (tn_id t) (us_id u) d"
  using assms by (auto simp: tenant_exists_def tenant_user_exists_def list_ex_iff)

lemma mint_run:
  assumes ok: "db_ok (w_db w)" and dig: "digest_32 E" and R: "token_fresh E R (w_db w)"
    and t: "t \<in> set (db_tenants (w_db w))" "canonical E (tn_id t)"
    and u: "u \<in> set (db_users (w_db w))" "us_tenant_id u = tn_id t" "canonical E (us_id u)"
  shows "mintRefreshToken E R (tn_id t) (us_id u) (dr_uuid R) w =
    (Inr (assembleRefreshToken (tn_id t) (dr_newId R) (dr_secret R)),
     w\<lparr>w_db := (w_db w)\<lparr>db_refresh_tokens :=
       db_refresh_tokens (w_db w) @ [session_row E R (tn_id t) (us_id u) (dr_uuid R)]\<rparr>\<rparr>)"
proof -
  let ?inp = "\<lparr> nr_familyId = dr_uuid R, nr_userId = us_id u, nr_tokenHash = sha256 E (dr_secret R),
      nr_expiresAt = dr_now R + refreshTtlSeconds E * 1000 \<rparr>"
  have "refreshTokens_create (uuid_in E) (dr_newId R) (dr_dbNow R) (tn_id t) ?inp (w_db w) =
    (Inr (dr_newId R), (w_db w)\<lparr>db_refresh_tokens :=
       db_refresh_tokens (w_db w) @ [session_row E R (tn_id t) (us_id u) (dr_uuid R)]\<rparr>)"
    using create_run [of E "tn_id t" "tn_id t" ?inp "us_id u" "dr_uuid R" "w_db w" "dr_newId R" "dr_dbNow R"]
      canonicalD [OF t(2)] canonicalD [OF u(3)] R dig token_rows_ok [OF ok] session_exists [OF t(1) u(1,2)]
    by (auto simp: token_fresh_def digest_32_def session_row_def dest: canonicalD)
  then show ?thesis by (simp add: mintRefreshToken_def Let_def andThen_def onDb_def)
qed

section \<open>Refresh\<close>

lemma assembled_token_parses:
  "canonical E t \<Longrightarrow> canonical E i \<Longrightarrow> s \<noteq> [] \<Longrightarrow>
   parseRefreshToken (assembleRefreshToken t i s) = Inr \<lparr> pr_tenantId = t, pr_tokenId = i, pr_secret = s \<rparr>"
  by (simp add: parseRefreshToken_eq_Inr refresh_token_wf_def print_refresh_token_def canonical_def)

lemma assembled_token_names:
  "canonical E (rt_tenant_id r) \<Longrightarrow> canonical E (rt_id r) \<Longrightarrow> s \<noteq> [] \<Longrightarrow> sha256 E s = rt_token_hash r \<Longrightarrow>
   names_row E (assembleRefreshToken (rt_tenant_id r) (rt_id r) s) r"
  using canonicalD by (simp add: names_row_def assembled_token_parses)

lemma refresh_check_run:
  assumes ok: "db_ok (w_db w)" and r: "r \<in> set (db_refresh_tokens (w_db w))" "live r" "now < rt_expires_at r"
    and ids: "canonical E (rt_tenant_id r)" "canonical E (rt_id r)" "canonical E (rt_user_id r)"
    and sec: "s \<noteq> []" "sha256 E s = rt_token_hash r"
    and t: "t \<in> set (db_tenants (w_db w))" "tn_id t = rt_tenant_id r" "tn_status t = TS_active"
    and u: "u \<in> set (db_users (w_db w))" "us_tenant_id u = rt_tenant_id r" "us_id u = rt_user_id r" "us_status u = ''active''"
    and role: "has_role (w_db w) u role"
  shows "refresh_check E now (assembleRefreshToken (rt_tenant_id r) (rt_id r) s) w =
    (Inr \<lparr> tk_tenantId = rt_tenant_id r, tk_row = toRefreshRow r, tk_record = auth_of (w_db w) u,
           tk_role = role, tk_now = now \<rparr>, w)"
proof -
  let ?p = "\<lparr> pr_tenantId = rt_tenant_id r, pr_tokenId = rt_id r, pr_secret = s \<rparr>"
  note c = canonicalD [OF ids(1)] canonicalD [OF ids(2)] canonicalD [OF ids(3)]
  have tok: "token_at (rt_tenant_id r) (rt_id r) (w_db w) = Some r"
    by (rule token_at_unique [OF token_rows_ok [OF ok] r(1)])
  have ten: "find (\<lambda>x. tn_id x = rt_tenant_id r) (db_tenants (w_db w)) = Some t"
    by (rule find_unique) (use t tenant_by_id [OF ok] in auto)
  have usr: "find (\<lambda>x. us_tenant_id x = rt_tenant_id r \<and> us_id x = rt_user_id r) (db_users (w_db w)) = Some u"
    by (rule find_unique) (use u user_by_id [OF ok] in auto)
  have rl: "auth_role (auth_of (w_db w) u) = Some role" using role by (simp add: auth_role_of [OF ok])
  show ?thesis
    using r(2,3) sec t u rl c
    by (simp add: refresh_check_def safeParse_def assembled_token_parses [OF ids(1,2) sec(1)] andThen_def onDb_def
        findById_run tok toRefreshRow_def live_def tenants_findById_run ten findCredentialsById_run usr)
qed

lemma refresh_run:
  assumes ok: "db_ok (w_db w)" and dig: "digest_32 E" and R: "token_fresh E R (w_db w)"
    and r: "r \<in> set (db_refresh_tokens (w_db w))" "live r" "dr_now R < rt_expires_at r"
    and ids: "canonical E (rt_tenant_id r)" "canonical E (rt_id r)" "canonical E (rt_user_id r)" "canonical E (rt_family_id r)"
    and sec: "s \<noteq> []" "sha256 E s = rt_token_hash r"
    and t: "t \<in> set (db_tenants (w_db w))" "tn_id t = rt_tenant_id r" "tn_status t = TS_active"
    and u: "u \<in> set (db_users (w_db w))" "us_tenant_id u = rt_tenant_id r" "us_id u = rt_user_id r" "us_status u = ''active''"
    and role: "has_role (w_db w) u role"
  shows "refresh E R (assembleRefreshToken (rt_tenant_id r) (rt_id r) s) w =
    (Inr (session_tokens E R (rt_tenant_id r) (rt_user_id r) role
            (assembleRefreshToken (rt_tenant_id r) (dr_newId R) (dr_secret R))),
     w\<lparr>w_db := (w_db w)\<lparr>db_refresh_tokens :=
       rotate_row (rt_tenant_id r) (rt_id r) (dr_now R) (db_refresh_tokens (w_db w))
       @ [session_row E R (rt_tenant_id r) (rt_user_id r) (rt_family_id r)]\<rparr>\<rparr>)"
proof -
  let ?succ = "\<lparr> nr_familyId = rt_family_id r, nr_userId = rt_user_id r, nr_tokenHash = sha256 E (dr_secret R),
      nr_expiresAt = dr_now R + refreshTtlSeconds E * 1000 \<rparr>"
  have "consumed_rows (rt_tenant_id r) (rt_id r) (w_db w) \<noteq> []"
    using r(1,2) by (auto simp: consumed_rows_def filter_empty_conv)
  then have "refreshTokens_rotate (uuid_in E) (dr_newId R) (dr_dbNow R) (rt_tenant_id r) (rt_id r) (dr_now R) ?succ (w_db w) =
    (Inr (Some (dr_newId R)), (w_db w)\<lparr>db_refresh_tokens :=
       rotate_row (rt_tenant_id r) (rt_id r) (dr_now R) (db_refresh_tokens (w_db w))
       @ [session_row E R (rt_tenant_id r) (rt_user_id r) (rt_family_id r)]\<rparr>)"
    using rotate_some_run [of E "rt_tenant_id r" "rt_tenant_id r" "rt_id r" "rt_id r" ?succ "rt_user_id r"
        "rt_family_id r" "w_db w" "dr_newId R" "dr_dbNow R" "dr_now R"]
      ids [THEN canonicalD] R dig token_rows_ok [OF ok] session_exists [OF t(1) u(1)] t(2) u(2,3)
    by (simp add: token_fresh_def digest_32_def session_row_def)
  then show ?thesis
    using refresh_check_run [OF ok r ids(1-3) sec t u role] u(3)
    by (simp add: refresh_def andThen_def refresh_commit_def Let_def onDb_def toRefreshRow_def)
qed

lemma row_after_mint:
  assumes "r \<in> set (rows @ [session_row E R t u f])" "rt_id r = dr_newId R" "\<And>x. x \<in> set rows \<Longrightarrow> rt_id x \<noteq> dr_newId R"
  shows "r = session_row E R t u f"
  using assms by auto

lemma sample_digest_32: "digest_32 sample_env"
  by (simp add: digest_32_def sample_env_def sample_digest_def min_def)

lemma sample_ids: "ids_canonical sample_env (w_db sample_world)"
  by code_simp

lemma sample_valid_login:
  "valid_login sample_env sample_login (w_db sample_world) (sample_tenant ''t1'' ''acme'')
     (sample_user ''u1'' ''t1'' ''ann@acme.io'') tenant_admin"
  by code_simp

section \<open>Properties\<close>

lemma login_run:
  assumes "db_ok (w_db w)" "ids_canonical E (w_db w)" "digest_32 E" "token_fresh E R (w_db w)"
    "valid_login E cmd (w_db w) t u role"
  shows "login E R cmd w =
    (Inr (session_tokens E R (tn_id t) (us_id u) role (assembleRefreshToken (tn_id t) (dr_newId R) (dr_secret R))),
     w\<lparr>w_verifies := w_verifies w @ [(lc_password cmd, us_password_hash u)],
       w_db := (w_db w)\<lparr>db_refresh_tokens :=
         db_refresh_tokens (w_db w) @ [session_row E R (tn_id t) (us_id u) (dr_uuid R)]\<rparr>\<rparr>)"
proof -
  let ?w = "w\<lparr>w_verifies := w_verifies w @ [(lc_password cmd, us_password_hash u)]\<rparr>"
  from assms(5) have v: "t \<in> set (db_tenants (w_db w))" "u \<in> set (db_users (w_db w))" "us_tenant_id u = tn_id t"
    and addr: "addressed cmd (w_db w) = Some (t, u)" and role: "auth_role (auth_of (w_db w) u) = Some role"
    by (simp_all add: valid_login_def addressed_Some [OF assms(1)] auth_role_of [OF assms(1)])
  with assms(2) have c: "canonical E (tn_id t)" "canonical E (us_id u)" by (auto simp: ids_canonical_def)
  show ?thesis
    using mint_run [of ?w E R t u] assms v c
    by (simp add: login_addressed [OF addr c(1)] role Let_def valid_login_def andThen_def)
qed

lemma login_reject_run:
  assumes "db_ok (w_db w)" "ids_canonical E (w_db w)" "\<nexists>t u role. valid_login E cmd (w_db w) t u role"
  shows "\<exists>h. login E R cmd w = (Inl invalid_credentials, w\<lparr>w_verifies := w_verifies w @ [(lc_password cmd, h)]\<rparr>)"
proof (cases "addressed cmd (w_db w)")
  case None
  then show ?thesis using login_unaddressed [of cmd w E R] assms(2) by (auto simp: ids_canonical_def)
next
  case (Some tu)
  then obtain t u where tu: "addressed cmd (w_db w) = Some (t, u)" by (cases tu) auto
  then have "t \<in> set (db_tenants (w_db w))" by (simp add: addressed_Some [OF assms(1)])
  with assms(2) have c: "canonical E (tn_id t)" by (auto simp: ids_canonical_def)
  have "auth_role (auth_of (w_db w) u) = None"
    if "bcrypt_verify E (lc_password cmd) (us_password_hash u)" "us_status u = ''active''"
  proof (rule ccontr)
    assume "auth_role (auth_of (w_db w) u) \<noteq> None"
    then obtain role where "has_role (w_db w) u role" by (auto simp: auth_role_of [OF assms(1)])
    with tu that have "valid_login E cmd (w_db w) t u role" by (simp add: valid_login_def addressed_Some [OF assms(1)])
    with assms(3) show False by blast
  qed
  then show ?thesis by (auto simp: login_addressed [OF tu c] Let_def)
qed

text \<open>
  C5. Login, success. For the owner of an active account of an active tenant the login answers
  with a session for exactly that tenant, user and role, verifies the password once, and stores
  one new refresh token of which only the digest is kept.
\<close>

theorem login_success:
  assumes "db_ok (w_db w)" "ids_canonical E (w_db w)" "digest_32 E" "token_fresh E R (w_db w)"
    "valid_login E cmd (w_db w) t u role"
  shows "login E R cmd w =
    (Inr (session_tokens E R (tn_id t) (us_id u) role (assembleRefreshToken (tn_id t) (dr_newId R) (dr_secret R))),
     w\<lparr>w_verifies := w_verifies w @ [(lc_password cmd, us_password_hash u)],
       w_db := (w_db w)\<lparr>db_refresh_tokens :=
         db_refresh_tokens (w_db w) @ [session_row E R (tn_id t) (us_id u) (dr_uuid R)]\<rparr>\<rparr>)"
  by (rule login_run [OF assms])

theorem login_success_witness:
  "login sample_env sample_draws sample_login sample_world =
    (Inr (session_tokens sample_env sample_draws ''t1'' ''u1'' tenant_admin sample_token),
     sample_world\<lparr>w_verifies := [(''pw'', ''$pw'')],
       w_db := sample_db\<lparr>db_refresh_tokens := [session_row sample_env sample_draws ''t1'' ''u1'' ''f1'']\<rparr>\<rparr>)"
proof -
  have R: "token_fresh sample_env sample_draws (w_db sample_world)" by code_simp
  have ok: "db_ok (w_db sample_world)" by (simp add: sample_world_def sample_db_ok)
  have "assembleRefreshToken ''t1'' ''k1'' ''s1'' = sample_token" by code_simp
  then show ?thesis
    using login_success [OF ok sample_ids sample_digest_32 R sample_valid_login]
    by (simp add: sample_world_def sample_tenant_def sample_user_def sample_draws_def sample_login_def sample_db_def empty_db_def)
qed

text \<open>
  C6. Login, failure. Whatever is wrong (no such tenant, tenant not active, no such user, wrong
  password, account not active, no role), the answer is the same 401 error, nothing is stored,
  and exactly one password verification has run, against a dummy hash when there is no account.
\<close>

theorem login_reject_uniform:
  assumes "db_ok (w_db w)" "ids_canonical E (w_db w)" "\<nexists>t u role. valid_login E cmd (w_db w) t u role"
  shows "\<exists>h. login E R cmd w = (Inl invalid_credentials, w\<lparr>w_verifies := w_verifies w @ [(lc_password cmd, h)]\<rparr>)"
  by (rule login_reject_run [OF assms])

theorem login_reject_uniform_witness:
  "\<exists>h. login sample_env sample_draws (sample_login\<lparr>lc_password := ''no''\<rparr>) sample_world
     = (Inl invalid_credentials, sample_world\<lparr>w_verifies := [(''no'', h)]\<rparr>)"
proof -
  have "\<nexists>t u role. valid_login sample_env (sample_login\<lparr>lc_password := ''no''\<rparr>) (w_db sample_world) t u role"
    by (auto simp: valid_login_def sample_world_def sample_db_def sample_env_def sample_login_def sample_user_def)
  from login_reject_uniform [OF _ sample_ids this, of sample_draws] sample_db_ok show ?thesis
    by (simp add: sample_world_def sample_login_def)
qed

text \<open>
  C7. A session is usable. The refresh token of a successful login, presented before it expires,
  is exchanged for a new session of the same tenant, user and role; the presented token is used
  up and the family has exactly the successor as its live token.
\<close>

theorem login_then_refresh:
  assumes ok: "db_ok (w_db w)" and ids: "ids_canonical E (w_db w)" and dig: "digest_32 E"
    and R: "token_fresh E R (w_db w)" and v: "valid_login E cmd (w_db w) t u role"
    and run: "login E R cmd w = (Inr st, w')"
    and R': "token_fresh E R' (w_db w')" and ttl: "dr_now R' < dr_now R + refreshTtlSeconds E * 1000"
  shows "\<exists>st' w''. refresh E R' (st_refreshToken st) w' = (Inr st', w'')
    \<and> st_tenantId st' = st_tenantId st \<and> st_userId st' = st_userId st \<and> st_role st' = st_role st
    \<and> consumed_rows (tn_id t) (dr_newId R) (w_db w'') = []"
proof -
  let ?r = "session_row E R (tn_id t) (us_id u) (dr_uuid R)"
  from login_run [OF ok ids dig R v] run
  have st: "st = session_tokens E R (tn_id t) (us_id u) role (assembleRefreshToken (tn_id t) (dr_newId R) (dr_secret R))"
    and w': "db_refresh_tokens (w_db w') = db_refresh_tokens (w_db w) @ [?r]"
      "db_tenants (w_db w') = db_tenants (w_db w)" "db_users (w_db w') = db_users (w_db w)"
      "db_memberships (w_db w') = db_memberships (w_db w)" by auto
  have ok': "db_ok (w_db w')" using keepsD [OF login_ok run] ok by (simp add: world_ok_def preserves_db_def)
  have "refresh E R' (assembleRefreshToken (rt_tenant_id ?r) (rt_id ?r) (dr_secret R)) w' =
    (Inr (session_tokens E R' (rt_tenant_id ?r) (rt_user_id ?r) role
            (assembleRefreshToken (rt_tenant_id ?r) (dr_newId R') (dr_secret R'))),
     w'\<lparr>w_db := (w_db w')\<lparr>db_refresh_tokens :=
       rotate_row (rt_tenant_id ?r) (rt_id ?r) (dr_now R') (db_refresh_tokens (w_db w'))
       @ [session_row E R' (rt_tenant_id ?r) (rt_user_id ?r) (rt_family_id ?r)]\<rparr>\<rparr>)"
    by (rule refresh_run [OF ok' dig R', where t = t and u = u])
       (use v w' ids R ttl in \<open>auto simp: session_row_def valid_login_def ids_canonical_def token_fresh_def has_role_def\<close>)
  moreover have "consumed_rows (tn_id t) (dr_newId R) (d\<lparr>db_refresh_tokens :=
      rotate_row (tn_id t) (dr_newId R) n rows @ [session_row E R' (tn_id t) x f]\<rparr>) = []"
    if "dr_newId R' \<noteq> dr_newId R" for d n rows x f
    using that by (auto simp: consumed_rows_def session_row_def filter_empty_conv dest!: rotate_row_source simp: same_key_def)
  moreover have "dr_newId R' \<noteq> dr_newId R" using R' w'(1) by (auto simp: token_fresh_def session_row_def)
  ultimately show ?thesis by (simp add: st session_tokens_def session_row_def Let_def)
qed

theorem login_then_refresh_witness:
  "\<exists>st' w''. refresh sample_env sample_draws2 sample_token sample_session = (Inr st', w'')
    \<and> st_userId st' = ''u1'' \<and> st_role st' = tenant_admin"
proof -
  have ok: "db_ok (w_db sample_world)" by (simp add: sample_world_def sample_db_ok)
  have R: "token_fresh sample_env sample_draws (w_db sample_world)"
    "token_fresh sample_env sample_draws2 (w_db sample_session)" by code_simp+
  obtain st where run: "login sample_env sample_draws sample_login sample_world = (Inr st, sample_session)"
    and st: "st = session_tokens sample_env sample_draws ''t1'' ''u1'' tenant_admin (assembleRefreshToken ''t1'' ''k1'' ''s1'')"
    using login_run [OF ok sample_ids sample_digest_32 R(1) sample_valid_login]
    by (simp add: sample_session_def sample_tenant_def sample_user_def sample_draws_def)
  have "assembleRefreshToken ''t1'' ''k1'' ''s1'' = sample_token" by code_simp
  with login_then_refresh [OF ok sample_ids sample_digest_32 R(1) sample_valid_login run R(2)] st show ?thesis
    by (auto simp: sample_draws_def sample_draws2_def sample_env_def session_tokens_def Let_def)
qed

text \<open>
  C11. The access token of a session authenticates as that session. Sent as a bearer header before
  it expires it yields a context with the tenant, the user and the role of the session, for any
  signing library that gives back what it signed.
\<close>

theorem session_authenticates:
  assumes "st = session_tokens E R tenantId userId role tok"
    "jwt_roundtrip E (access_payload E (dr_jwtNow R) \<lparr> sc_tenantId = tenantId, sc_principalId = userId, sc_role = role \<rparr>)"
    "st_accessToken st \<noteq> []" "list_all (\<lambda>c. c \<noteq> CHR 0x0A \<and> c \<noteq> CHR 0x0D) (st_accessToken st)"
    "now div 1000 < dr_jwtNow R div 1000 + accessTtlSeconds E"
  shows "authenticate E now (Some (''Bearer '' @ st_accessToken st)) =
    Inr \<lparr> ctx_tenantId = st_tenantId st, ctx_principalId = st_userId st, ctx_role = st_role st, ctx_scopes = None \<rparr>"
proof -
  let ?claims = "\<lparr> sc_tenantId = tenantId, sc_principalId = userId, sc_role = role \<rparr>"
  let ?p = "access_payload E (dr_jwtNow R) ?claims"
  have "st_accessToken st = jwt_sign E ?p" by (simp add: assms(1) session_tokens_def issueAccess_def Let_def)
  moreover have "jwt_verify E (jwt_sign E ?p) ISSUER AUDIENCE [ALG] now = Inr ?p"
  proof -
    have "map_of ?p ''iss'' = Some (JStr ISSUER)" "map_of ?p ''aud'' = Some (JStr AUDIENCE)"
      "map_of ?p ''exp'' = Some (JNum (of_int (dr_jwtNow R div 1000 + accessTtlSeconds E)))"
      by (simp_all add: access_payload_def)
    with assms(2,5) show ?thesis unfolding jwt_roundtrip_def ALG_def by blast
  qed
  ultimately have "verifyAccess E now (st_accessToken st) = Inr ?claims"
    by (simp add: verifyAccess_def access_payload_def del: role_of_name.simps)
  moreover have "bearer (''Bearer '' @ st_accessToken st) = Some (st_accessToken st)"
    using assms(3,4) by (simp add: bearer_def Let_def)
  ultimately show ?thesis by (simp add: authenticate_def assms(1) session_tokens_def Let_def)
qed

theorem session_authenticates_witness:
  "authenticate sample_env 5000 (Some ''Bearer jwt'') =
    Inr \<lparr> ctx_tenantId = ''t1'', ctx_principalId = ''u1'', ctx_role = tenant_admin, ctx_scopes = None \<rparr>"
proof -
  let ?st = "session_tokens sample_env sample_draws ''t1'' ''u1'' tenant_admin sample_token"
  let ?claims = "\<lparr> sc_tenantId = ''t1'', sc_principalId = ''u1'', sc_role = tenant_admin \<rparr>"
  have "access_payload sample_env (dr_jwtNow sample_draws) ?claims = sample_payload" by code_simp
  then have "jwt_roundtrip sample_env (access_payload sample_env (dr_jwtNow sample_draws) ?claims)"
    by (simp add: jwt_roundtrip_def sample_env_def)
  from session_authenticates [OF refl this, of sample_token 5000] show ?thesis
    by (simp add: session_tokens_def issueAccess_def sample_env_def sample_draws_def Let_def)
qed

end
