(* ===== verification/Content_Laws.thy ===== *)
theory Content_Laws
  imports Login_Laws
begin

text \<open>
  Saved queries, dashboards and alert rules are three stores with one contract: what a tenant
  owns in each is a finite map from ids, and the repository operations are lookup, insertion,
  update and deletion of that map. The contract is a locale; the services are its clients.
\<close>

section \<open>Rows of one tenant, by id\<close>

definition lookup_row :: "('r \<Rightarrow> uuid) \<Rightarrow> ('r \<Rightarrow> uuid) \<Rightarrow> 'r list \<Rightarrow> uuid \<Rightarrow> uuid \<Rightarrow> 'r option" where
  "lookup_row tenant_of id_of rows u v = find (\<lambda>r. tenant_of r = u \<and> id_of r = v) rows"

lemma lookup_select:
  "first_row (filter (\<lambda>r. id_of r = v) (rls tenant_of (Some u) rows)) = lookup_row tenant_of id_of rows u v"
  by (simp add: lookup_row_def rls_Some first_row_filter conj_commute)

lemma lookup_count:
  "filter (\<lambda>r. id_of r = v) (rls tenant_of (Some u) rows) = [] \<longleftrightarrow> lookup_row tenant_of id_of rows u v = None"
  by (auto simp: lookup_row_def rls_Some find_None_iff filter_empty_conv)

lemma lookup_row_Some:
  "lookup_row tenant_of id_of rows u v = Some r \<Longrightarrow> r \<in> set rows \<and> tenant_of r = u \<and> id_of r = v"
  by (auto simp: lookup_row_def find_Some_iff)

lemma lookup_delete:
  "lookup_row tenant_of id_of (rls_delete tenant_of (Some u) (\<lambda>r. id_of r = v) rows) u x
     = (if x = v then None else lookup_row tenant_of id_of rows u x)"
  by (induction rows) (auto simp: lookup_row_def rls_delete_def)

lemma lookup_append:
  "lookup_row tenant_of id_of (rows @ [row]) u x =
     (case lookup_row tenant_of id_of rows u x of
        Some r \<Rightarrow> Some r
      | None \<Rightarrow> if tenant_of row = u \<and> id_of row = x then Some row else None)"
  by (induction rows) (auto simp: lookup_row_def)

lemma lookup_update:
  assumes "\<And>r. tenant_of (f r) = tenant_of r" "\<And>r. id_of (f r) = id_of r"
  shows "lookup_row tenant_of id_of (rls_update tenant_of (Some u) (\<lambda>r. id_of r = v) f rows) u x
     = (if x = v then map_option f (lookup_row tenant_of id_of rows u x) else lookup_row tenant_of id_of rows u x)"
  by (induction rows) (auto simp: lookup_row_def rls_update_def assms)

lemma lookup_fresh:
  assumes "rows_ok ck ix (rows @ [row])" "(n, \<lambda>r. Some [id_of r]) \<in> set ix"
  shows "lookup_row tenant_of id_of rows u (id_of row) = None"
proof -
  have "distinct (List.map_filter (\<lambda>r. Some [id_of r]) (rows @ [row]))"
    using assms by (force simp: rows_ok_def list_all_iff)
  then have "distinct (map (\<lambda>r. [id_of r]) (rows @ [row]))" by (simp only: map_filter_Some)
  then have "\<forall>r \<in> set rows. [id_of r] \<noteq> [id_of row]" by (simp add: image_iff) metis
  then show ?thesis by (auto simp: lookup_row_def find_None_iff)
qed

lemma update_stmt_lookup:
  assumes "update_stmt ck ix get upd tenant_of (Some u) (\<lambda>r. id_of r = v) f d = (Inr rs, d')"
    "\<And>g d. get (upd g d) = g (get d)" "\<And>r. tenant_of (f r) = tenant_of r" "\<And>r. id_of (f r) = id_of r"
  shows "first_row rs = map_option f (lookup_row tenant_of id_of (get d) u v)"
    "lookup_row tenant_of id_of (get d') u x =
       (if x = v then first_row rs else lookup_row tenant_of id_of (get d) u x)"
  using assms by (auto simp: update_stmt_Inr first_row_map lookup_select lookup_update)

section \<open>The contract\<close>

locale content_store =
  fixes ui :: uuid_input
    and contents :: "uuid \<Rightarrow> db \<Rightarrow> uuid \<rightharpoonup> 'e"
    and create :: "uuid \<Rightarrow> string \<Rightarrow> 'i \<Rightarrow> (db, 'e) prog"
    and find_by :: "string \<Rightarrow> string \<Rightarrow> (db, 'e option) prog"
    and update :: "string \<Rightarrow> string \<Rightarrow> 'p \<Rightarrow> (db, 'e option) prog"
    and delete :: "string \<Rightarrow> string \<Rightarrow> (db, bool) prog"
  assumes create_map: "ui t = Some u \<Longrightarrow> t \<noteq> [] \<Longrightarrow> create n t x d = (Inr e, d') \<Longrightarrow>
      contents u d n = None \<and> contents u d' = (contents u d)(n \<mapsto> e)"
    and find_map: "ui t = Some u \<Longrightarrow> t \<noteq> [] \<Longrightarrow> ui i = Some v \<Longrightarrow> find_by t i d = (Inr (contents u d v), d)"
    and update_map: "ui t = Some u \<Longrightarrow> t \<noteq> [] \<Longrightarrow> ui i = Some v \<Longrightarrow> update t i p d = (Inr r, d') \<Longrightarrow>
      (r = None \<longleftrightarrow> contents u d v = None) \<and> contents u d' = (contents u d)(v := r)"
    and delete_map: "ui t = Some u \<Longrightarrow> t \<noteq> [] \<Longrightarrow> ui i = Some v \<Longrightarrow>
      \<exists>d'. delete t i d = (Inr (contents u d v \<noteq> None), d') \<and> contents u d' = (contents u d)(v := None)"
begin

lemma created_found:
  assumes "ui t = Some u" "t \<noteq> []" "ui n = Some n" "create n t x d = (Inr e, d')"
  shows "find_by t n d' = (Inr (Some e), d')"
  using find_map [OF assms(1-3)] create_map [OF assms(1,2,4)] by simp

lemma updated_found:
  assumes "ui t = Some u" "t \<noteq> []" "ui i = Some v" "update t i p d = (Inr (Some e), d')"
  shows "find_by t i d' = (Inr (Some e), d')"
  using find_map [OF assms(1-3)] update_map [OF assms] by simp

lemma delete_undoes_create:
  assumes "ui t = Some u" "t \<noteq> []" "ui n = Some n" "create n t x d = (Inr e, d')"
  shows "\<exists>d''. delete t n d' = (Inr True, d'') \<and> contents u d'' = contents u d"
  using delete_map [OF assms(1-3), of d'] create_map [OF assms(1,2,4)] by (auto simp: fun_upd_idem)

lemma deleted_gone:
  assumes "ui t = Some u" "t \<noteq> []" "ui i = Some v" "delete t i d = (Inr b, d')"
  shows "b = (contents u d v \<noteq> None) \<and> find_by t i d' = (Inr None, d')
    \<and> (\<exists>d''. delete t i d' = (Inr False, d'') \<and> contents u d'' = contents u d')"
proof -
  have b: "b = (contents u d v \<noteq> None)" "contents u d' v = None"
    using delete_map [OF assms(1-3), of d] assms(4) by auto
  then show ?thesis
    using find_map [OF assms(1-3), of d'] delete_map [OF assms(1-3), of d'] by (auto simp: fun_upd_idem)
qed

end

section \<open>The three providers\<close>

definition saved_query_map :: "uuid \<Rightarrow> db \<Rightarrow> uuid \<rightharpoonup> SavedQuery" where
  "saved_query_map u d v = map_option toSavedQuery (lookup_row sq_tenant_id sq_id (db_saved_queries d) u v)"

definition dashboard_map :: "uuid \<Rightarrow> db \<Rightarrow> uuid \<rightharpoonup> Dashboard" where
  "dashboard_map u d v = map_option toDashboard (lookup_row da_tenant_id da_id (db_dashboards d) u v)"

definition alert_rule_map :: "uuid \<Rightarrow> db \<Rightarrow> uuid \<rightharpoonup> AlertRule" where
  "alert_rule_map u d v = map_option toRule (lookup_row ar_tenant_id ar_id (db_alert_rules d) u v)"

lemma armed: "ui t = Some u \<Longrightarrow> t \<noteq> [] \<Longrightarrow> current_tenant_id ui t = Inr (Some u)"
  by simp

lemma armed_run:
  assumes "ui t = Some u" "t \<noteq> []"
  shows "withTenantTx ui t fn d = (case fn (Some u) d of (Inl e, _) \<Rightarrow> (Inl e, d) | (Inr x, d') \<Rightarrow> (Inr x, d'))"
  using assms by (intro withTenantTx_armed) simp

lemma cast_uuid_opt_Inr: "cast_uuid_opt ui v s = (Inr r, s') \<Longrightarrow> s' = s"
  by (auto simp: cast_uuid_opt_def split: option.splits)

lemma cast_int4_Inr: "cast_int4 n s = (Inr r, s') \<Longrightarrow> s' = s \<and> r = n"
  by (auto simp: cast_int4_def split: if_splits)

lemma cast_patch_savedQueryId_Inr: "cast_patch_savedQueryId ui p d = (Inr r, d') \<Longrightarrow> d' = d"
  by (auto simp: cast_patch_savedQueryId_def andThen_eq_Inr dest!: cast_uuid_opt_Inr split: option.splits)

lemma cast_patch_window_Inr: "cast_patch_window p d = (Inr r, d') \<Longrightarrow> d' = d"
  by (auto simp: cast_patch_window_def andThen_eq_Inr dest!: cast_int4_Inr split: option.splits)

lemma savedQueries_create_map:
  assumes "ui t = Some u" "t \<noteq> []" "savedQueries_create ui n now t x d = (Inr e, d')"
  shows "saved_query_map u d n = None \<and> saved_query_map u d' = (saved_query_map u d)(n \<mapsto> e)"
proof -
  from assms obtain row where ok: "rows_ok [] saved_queries_indexes (db_saved_queries d @ [row])"
    and row: "sq_id row = n" "sq_tenant_id row = u" "e = toSavedQuery row"
    and d': "d' = d\<lparr>db_saved_queries := db_saved_queries d @ [row]\<rparr>"
    by atomize_elim (auto simp: savedQueries_create_def withTenantTx_Inr andThen_eq_Inr insert_saved_queries_def insert_stmt_Inr
        dest!: cast_uuid_opt_Inr)
  have "lookup_row sq_tenant_id sq_id (db_saved_queries d) u n = None"
    using lookup_fresh [OF ok, where n = "''saved_queries_pkey''" and id_of = sq_id] row(1)
    by (simp add: saved_queries_indexes_def)
  then show ?thesis by (auto simp: saved_query_map_def d' lookup_append row fun_eq_iff split: option.split)
qed

lemma dashboards_create_map:
  assumes "ui t = Some u" "t \<noteq> []" "dashboards_create ui n now t x d = (Inr e, d')"
  shows "dashboard_map u d n = None \<and> dashboard_map u d' = (dashboard_map u d)(n \<mapsto> e)"
proof -
  from assms obtain row where ok: "rows_ok [] dashboards_indexes (db_dashboards d @ [row])"
    and row: "da_id row = n" "da_tenant_id row = u" "e = toDashboard row"
    and d': "d' = d\<lparr>db_dashboards := db_dashboards d @ [row]\<rparr>"
    by atomize_elim (auto simp: dashboards_create_def withTenantTx_Inr andThen_eq_Inr insert_dashboards_def insert_stmt_Inr
        dest!: cast_uuid_opt_Inr)
  have "lookup_row da_tenant_id da_id (db_dashboards d) u n = None"
    using lookup_fresh [OF ok, where n = "''dashboards_pkey''" and id_of = da_id] row(1)
    by (simp add: dashboards_indexes_def)
  then show ?thesis by (auto simp: dashboard_map_def d' lookup_append row fun_eq_iff split: option.split)
qed

lemma alertRules_create_map:
  assumes "ui t = Some u" "t \<noteq> []" "alertRules_create ui n now t x d = (Inr e, d')"
  shows "alert_rule_map u d n = None \<and> alert_rule_map u d' = (alert_rule_map u d)(n \<mapsto> e)"
proof -
  from assms obtain row where ok: "rows_ok alert_rules_checks alert_rules_indexes (db_alert_rules d @ [row])"
    and row: "ar_id row = n" "ar_tenant_id row = u" "e = toRule row"
    and d': "d' = d\<lparr>db_alert_rules := db_alert_rules d @ [row]\<rparr>"
    by atomize_elim (auto simp: alertRules_create_def withTenantTx_Inr andThen_eq_Inr insert_alert_rules_def insert_stmt_Inr
        dest!: cast_uuid_opt_Inr cast_int4_Inr)
  have "lookup_row ar_tenant_id ar_id (db_alert_rules d) u n = None"
    using lookup_fresh [OF ok, where n = "''alert_rules_pkey''" and id_of = ar_id] row(1)
    by (simp add: alert_rules_indexes_def)
  then show ?thesis by (auto simp: alert_rule_map_def d' lookup_append row fun_eq_iff split: option.split)
qed


lemma savedQueries_find_map:
  assumes "ui t = Some u" "t \<noteq> []" "ui i = Some v"
  shows "savedQueries_findById ui t i d = (Inr (saved_query_map u d v), d)"
  using assms by (simp add: savedQueries_findById_def armed_run prog_simps cast_uuid_def select_saved_queries_def select_stmt_def
      lookup_select saved_query_map_def)

lemma savedQueries_update_map:
  assumes "ui t = Some u" "t \<noteq> []" "ui i = Some v" "savedQueries_update ui now t i p d = (Inr r, d')"
  shows "(r = None \<longleftrightarrow> saved_query_map u d v = None) \<and> saved_query_map u d' = (saved_query_map u d)(v := r)"
proof (cases "psq_name p = None \<and> psq_description p = None \<and> psq_queryText p = None \<and> psq_filters p = None \<and> psq_timeRange p = None")
  case True
  with assms show ?thesis by (auto simp: savedQueries_update_def savedQueries_find_map)
next
  case False
  from assms obtain f rs where
    run: "update_stmt [] saved_queries_indexes db_saved_queries db_saved_queries_update sq_tenant_id
        (Some u) (\<lambda>r. sq_id r = v) f d = (Inr rs, d')"
    and f: "\<And>r. sq_tenant_id (f r) = sq_tenant_id r" "\<And>r. sq_id (f r) = sq_id r" and r: "r = map_option toSavedQuery (first_row rs)"
    unfolding savedQueries_update_def if_not_P [OF False]
    by atomize_elim (auto simp: withTenantTx_Inr andThen_eq_Inr update_saved_queries_def cast_uuid_def,
        intro exI conjI, assumption, simp_all)
  from update_stmt_lookup [where id_of = sq_id, OF run _ f] show ?thesis
    by (auto simp: saved_query_map_def r fun_eq_iff)
qed

lemma savedQueries_delete_map:
  assumes "ui t = Some u" "t \<noteq> []" "ui i = Some v"
  shows "\<exists>d'. savedQueries_delete ui t i d = (Inr (saved_query_map u d v \<noteq> None), d') \<and> saved_query_map u d' = (saved_query_map u d)(v := None)"
  using assms by (auto simp: savedQueries_delete_def armed_run prog_simps cast_uuid_def delete_saved_queries_def delete_stmt_def
      lookup_count lookup_delete saved_query_map_def fun_eq_iff)

lemma dashboards_find_map:
  assumes "ui t = Some u" "t \<noteq> []" "ui i = Some v"
  shows "dashboards_findById ui t i d = (Inr (dashboard_map u d v), d)"
  using assms by (simp add: dashboards_findById_def armed_run prog_simps cast_uuid_def select_dashboards_def select_stmt_def
      lookup_select dashboard_map_def)

lemma dashboards_update_map:
  assumes "ui t = Some u" "t \<noteq> []" "ui i = Some v" "dashboards_update ui now t i p d = (Inr r, d')"
  shows "(r = None \<longleftrightarrow> dashboard_map u d v = None) \<and> dashboard_map u d' = (dashboard_map u d)(v := r)"
proof (cases "pd_name p = None \<and> pd_description p = None \<and> pd_layout p = None")
  case True
  with assms show ?thesis by (auto simp: dashboards_update_def dashboards_find_map)
next
  case False
  from assms obtain f rs where
    run: "update_stmt [] dashboards_indexes db_dashboards db_dashboards_update da_tenant_id
        (Some u) (\<lambda>r. da_id r = v) f d = (Inr rs, d')"
    and f: "\<And>r. da_tenant_id (f r) = da_tenant_id r" "\<And>r. da_id (f r) = da_id r" and r: "r = map_option toDashboard (first_row rs)"
    unfolding dashboards_update_def if_not_P [OF False]
    by atomize_elim (auto simp: withTenantTx_Inr andThen_eq_Inr update_dashboards_def cast_uuid_def,
        intro exI conjI, assumption, simp_all)
  from update_stmt_lookup [where id_of = da_id, OF run _ f] show ?thesis
    by (auto simp: dashboard_map_def r fun_eq_iff)
qed

lemma dashboards_delete_map:
  assumes "ui t = Some u" "t \<noteq> []" "ui i = Some v"
  shows "\<exists>d'. dashboards_delete ui t i d = (Inr (dashboard_map u d v \<noteq> None), d') \<and> dashboard_map u d' = (dashboard_map u d)(v := None)"
  using assms by (auto simp: dashboards_delete_def armed_run prog_simps cast_uuid_def delete_dashboards_def delete_stmt_def
      lookup_count lookup_delete dashboard_map_def fun_eq_iff)

lemma alertRules_find_map:
  assumes "ui t = Some u" "t \<noteq> []" "ui i = Some v"
  shows "alertRules_findById ui t i d = (Inr (alert_rule_map u d v), d)"
  using assms by (simp add: alertRules_findById_def armed_run prog_simps cast_uuid_def select_alert_rules_def select_stmt_def
      lookup_select alert_rule_map_def)

lemma alertRules_update_map:
  assumes "ui t = Some u" "t \<noteq> []" "ui i = Some v" "alertRules_update ui now t i p d = (Inr r, d')"
  shows "(r = None \<longleftrightarrow> alert_rule_map u d v = None) \<and> alert_rule_map u d' = (alert_rule_map u d)(v := r)"
proof (cases "par_name p = None \<and> par_savedQueryId p = None \<and> par_query p = None \<and> par_comparator p = None \<and> par_threshold p = None \<and> par_windowSeconds p = None \<and> par_severity p = None \<and> par_enabled p = None \<and> par_notifyChannels p = None")
  case True
  with assms show ?thesis by (auto simp: alertRules_update_def alertRules_find_map)
next
  case False
  from assms obtain f rs where
    run: "update_stmt alert_rules_checks alert_rules_indexes db_alert_rules db_alert_rules_update ar_tenant_id
        (Some u) (\<lambda>r. ar_id r = v) f d = (Inr rs, d')"
    and f: "\<And>r. ar_tenant_id (f r) = ar_tenant_id r" "\<And>r. ar_id (f r) = ar_id r" and r: "r = map_option toRule (first_row rs)"
    unfolding alertRules_update_def if_not_P [OF False]
    by atomize_elim (auto simp: withTenantTx_Inr andThen_eq_Inr update_alert_rules_def cast_uuid_def
        dest!: cast_patch_savedQueryId_Inr cast_patch_window_Inr, intro exI conjI, assumption, simp_all)
  from update_stmt_lookup [where id_of = ar_id, OF run _ f] show ?thesis
    by (auto simp: alert_rule_map_def r fun_eq_iff)
qed

lemma alertRules_delete_map:
  assumes "ui t = Some u" "t \<noteq> []" "ui i = Some v"
  shows "\<exists>d'. alertRules_delete ui t i d = (Inr (alert_rule_map u d v \<noteq> None), d') \<and> alert_rule_map u d' = (alert_rule_map u d)(v := None)"
  using assms by (auto simp: alertRules_delete_def armed_run prog_simps cast_uuid_def delete_alert_rules_def delete_stmt_def
      lookup_count lookup_delete alert_rule_map_def fun_eq_iff)


section \<open>The services as clients\<close>

text \<open>
  A content service is a store behind \<open>assertCan\<close>: an absent row is a \<open>NotFoundError\<close>, and a role that
  may create may also read and delete.
\<close>

locale content_service = content_store +
  fixes sv_create :: "uuid \<Rightarrow> TenantContext \<Rightarrow> 'c \<Rightarrow> (world, 'e) prog"
    and sv_get :: "TenantContext \<Rightarrow> string \<Rightarrow> (world, 'e) prog"
    and sv_update :: "TenantContext \<Rightarrow> string \<Rightarrow> 'p \<Rightarrow> (world, 'e) prog"
    and sv_remove :: "TenantContext \<Rightarrow> string \<Rightarrow> (world, unit) prog"
    and may_create may_read may_update may_delete :: operation
    and missing :: js_error
  assumes grants: "can ro may_create \<Longrightarrow> can ro may_read \<and> can ro may_delete"
    and update_reads: "can ro may_update \<Longrightarrow> can ro may_read"
    and sv_create_run: "sv_create n ctx c w = (Inr e, w') \<Longrightarrow> can (ctx_role ctx) may_create
      \<and> (\<exists>x d. create n (ctx_tenantId ctx) x (w_db w) = (Inr e, d) \<and> w' = w\<lparr>w_db := d\<rparr>)"
    and sv_get_run: "can (ctx_role ctx) may_read \<Longrightarrow> find_by (ctx_tenantId ctx) i (w_db w) = (Inr r, d) \<Longrightarrow>
      sv_get ctx i w = (case r of None \<Rightarrow> Inl missing | Some e \<Rightarrow> Inr e, w\<lparr>w_db := d\<rparr>)"
    and sv_update_run: "sv_update ctx i p w = (Inr e, w') \<Longrightarrow> can (ctx_role ctx) may_update
      \<and> (\<exists>d. update (ctx_tenantId ctx) i p (w_db w) = (Inr (Some e), d) \<and> w' = w\<lparr>w_db := d\<rparr>)"
    and sv_remove_run: "can (ctx_role ctx) may_delete \<Longrightarrow> delete (ctx_tenantId ctx) i (w_db w) = (Inr b, d) \<Longrightarrow>
      sv_remove ctx i w = (if b then Inr () else Inl missing, w\<lparr>w_db := d\<rparr>)"
begin

lemma lifecycle:
  assumes u: "ui (ctx_tenantId ctx) = Some u" "ctx_tenantId ctx \<noteq> []" and n: "ui n = Some n"
    and run: "sv_create n ctx c w = (Inr e, w1)"
  shows "sv_get ctx n w1 = (Inr e, w1)
    \<and> (\<exists>w2. sv_remove ctx n w1 = (Inr (), w2) \<and> contents u (w_db w2) = contents u (w_db w)
         \<and> sv_get ctx n w2 = (Inl missing, w2) \<and> fst (sv_remove ctx n w2) = Inl missing)"
proof -
  from sv_create_run [OF run] grants obtain x d1 where
    may: "can (ctx_role ctx) may_read" "can (ctx_role ctx) may_delete"
    and new: "create n (ctx_tenantId ctx) x (w_db w) = (Inr e, d1)" and w1: "w1 = w\<lparr>w_db := d1\<rparr>" by auto
  obtain d2 where del: "delete (ctx_tenantId ctx) n d1 = (Inr True, d2)" "contents u d2 = contents u (w_db w)"
    using delete_undoes_create [OF u n new] by auto
  obtain d3 where gone: "find_by (ctx_tenantId ctx) n d2 = (Inr None, d2)"
    "delete (ctx_tenantId ctx) n d2 = (Inr False, d3)"
    using deleted_gone [OF u n del(1)] by auto
  have "sv_get ctx n w1 = (Inr e, w1)" "sv_remove ctx n w1 = (Inr (), w\<lparr>w_db := d2\<rparr>)"
    using sv_get_run [OF may(1), of n w1] sv_remove_run [OF may(2), of n w1] created_found [OF u n new] del(1)
    by (simp_all add: w1)
  moreover have "sv_get ctx n (w\<lparr>w_db := d2\<rparr>) = (Inl missing, w\<lparr>w_db := d2\<rparr>)"
    "fst (sv_remove ctx n (w\<lparr>w_db := d2\<rparr>)) = Inl missing"
    using sv_get_run [OF may(1), of n "w\<lparr>w_db := d2\<rparr>"] sv_remove_run [OF may(2), of n "w\<lparr>w_db := d2\<rparr>" False d3] gone
    by simp_all
  ultimately show ?thesis using del(2) by auto
qed

lemma update_visible:
  assumes u: "ui (ctx_tenantId ctx) = Some u" "ctx_tenantId ctx \<noteq> []" and i: "ui i = Some v"
    and run: "sv_update ctx i p w = (Inr e, w')"
  shows "sv_get ctx i w' = (Inr e, w') \<and> contents u (w_db w') = (contents u (w_db w))(v \<mapsto> e)
    \<and> contents u (w_db w) v \<noteq> None"
proof -
  from sv_update_run [OF run] update_reads obtain d where may: "can (ctx_role ctx) may_read"
    and upd: "update (ctx_tenantId ctx) i p (w_db w) = (Inr (Some e), d)" and w': "w' = w\<lparr>w_db := d\<rparr>" by auto
  show ?thesis
    using sv_get_run [OF may, where w = w'] updated_found [OF u i upd] update_map [OF u i upd] by (auto simp: w')
qed

end

interpretation saved_store: content_store ui "saved_query_map" "\<lambda>n. savedQueries_create ui n now"
    "savedQueries_findById ui" "savedQueries_update ui now" "savedQueries_delete ui"
  by unfold_locales (rule savedQueries_create_map savedQueries_find_map savedQueries_update_map savedQueries_delete_map, assumption+)+

interpretation dash_store: content_store ui "dashboard_map" "\<lambda>n. dashboards_create ui n now"
    "dashboards_findById ui" "dashboards_update ui now" "dashboards_delete ui"
  by unfold_locales (rule dashboards_create_map dashboards_find_map dashboards_update_map dashboards_delete_map, assumption+)+

interpretation alert_store: content_store ui "alert_rule_map" "\<lambda>n. alertRules_create ui n now"
    "alertRules_findById ui" "alertRules_update ui now" "alertRules_delete ui"
  by unfold_locales (rule alertRules_create_map alertRules_find_map alertRules_update_map alertRules_delete_map, assumption+)+

lemma tryCatch_rethrow_Inr:
  "tryCatch m (\<lambda>e. if p e then throw (f e) else throw e) w = (Inr x, w') \<longleftrightarrow> m w = (Inr x, w')"
  by (auto simp: tryCatch_def throw_def split: prod.splits sum.splits)

lemma assertChannels_pure: "assertChannels chs w = (r, w') \<Longrightarrow> w' = w"
  by (induction chs) (auto simp: ret_def throw_def split: NotifyChannel.splits if_splits)

lemma assertQuerySource_pure: "assertQuerySource sid q w = (r, w') \<Longrightarrow> w' = w"
  by (auto simp: assertQuerySource_def ret_def throw_def split: if_splits)

lemma content_grants:
  "can r Savedquery_create \<Longrightarrow> can r Savedquery_read \<and> can r Savedquery_delete"
  "can r Savedquery_update \<Longrightarrow> can r Savedquery_read"
  "can r Dashboard_create \<Longrightarrow> can r Dashboard_read \<and> can r Dashboard_delete"
  "can r Dashboard_update \<Longrightarrow> can r Dashboard_read"
  "can r Alert_create \<Longrightarrow> can r Alert_read \<and> can r Alert_delete"
  "can r Alert_update \<Longrightarrow> can r Alert_read"
  by (cases r; simp add: can_iffs)+

interpretation saved_service: content_service "uuid_in E" "saved_query_map" "\<lambda>n. savedQueries_create (uuid_in E) n now"
    "savedQueries_findById (uuid_in E)" "savedQueries_update (uuid_in E) now" "savedQueries_delete (uuid_in E)"
    "\<lambda>n. savedQueryService_create E n now" "savedQueryService_get E" "savedQueryService_update E now" "savedQueryService_remove E"
    Savedquery_create Savedquery_read Savedquery_update Savedquery_delete "not_found ''saved query not found''"
proof (unfold_locales, goal_cases)
  case (3 n ctx c w e w')
  then show ?case by (cases "can (ctx_role ctx) Savedquery_create")
    (auto simp: savedQueryService_create_def tryCatch_rethrow_Inr onDb_Inr throw_def andThen_eq_Inr)
next
  case (5 ctx i p w e w')
  then show ?case by (cases "can (ctx_role ctx) Savedquery_update")
    (auto simp: savedQueryService_update_def tryCatch_rethrow_Inr onDb_Inr throw_def andThen_eq_Inr ret_def split: option.splits if_splits)
qed (auto simp: content_grants savedQueryService_get_def savedQueryService_remove_def andThen_Inr onDb_run throw_def ret_def split: option.splits)

interpretation dash_service: content_service "uuid_in E" "dashboard_map" "\<lambda>n. dashboards_create (uuid_in E) n now"
    "dashboards_findById (uuid_in E)" "dashboards_update (uuid_in E) now" "dashboards_delete (uuid_in E)"
    "\<lambda>n. dashboardService_create E n now" "dashboardService_get E" "dashboardService_update E now" "dashboardService_remove E"
    Dashboard_create Dashboard_read Dashboard_update Dashboard_delete "not_found ''dashboard not found''"
proof (unfold_locales, goal_cases)
  case (3 n ctx c w e w')
  then show ?case by (cases "can (ctx_role ctx) Dashboard_create")
    (auto simp: dashboardService_create_def tryCatch_rethrow_Inr onDb_Inr throw_def andThen_eq_Inr)
next
  case (5 ctx i p w e w')
  then show ?case by (cases "can (ctx_role ctx) Dashboard_update")
    (auto simp: dashboardService_update_def tryCatch_rethrow_Inr onDb_Inr throw_def andThen_eq_Inr ret_def split: option.splits if_splits)
qed (auto simp: content_grants dashboardService_get_def dashboardService_remove_def andThen_Inr onDb_run throw_def ret_def split: option.splits)

interpretation alert_service: content_service "uuid_in E" "alert_rule_map" "\<lambda>n. alertRules_create (uuid_in E) n now"
    "alertRules_findById (uuid_in E)" "alertRules_update (uuid_in E) now" "alertRules_delete (uuid_in E)"
    "\<lambda>n. alertRuleService_create E n now" "alertRuleService_get E" "alertRuleService_update E now" "alertRuleService_remove E"
    Alert_create Alert_read Alert_update Alert_delete "not_found ''alert rule not found''"
proof (unfold_locales, goal_cases)
  case (3 n ctx c w e w')
  then show ?case by (cases "can (ctx_role ctx) Alert_create")
    (auto simp: alertRuleService_create_def tryCatch_rethrow_Inr onDb_Inr throw_def andThen_eq_Inr
      dest!: assertChannels_pure assertQuerySource_pure)
next
  case (5 ctx i p w e w')
  then show ?case by (cases "can (ctx_role ctx) Alert_update")
    (auto simp: alertRuleService_update_def tryCatch_rethrow_Inr onDb_Inr throw_def andThen_eq_Inr ret_def split: option.splits if_splits
      dest!: assertChannels_pure)
qed (auto simp: content_grants alertRuleService_get_def alertRuleService_remove_def andThen_Inr onDb_run throw_def ret_def split: option.splits)


section \<open>A taken name\<close>

lemma insert_stmt_duplicate:
  assumes "(n, k) \<in> set ix" "k row = Some key" "r \<in> set (get d)" "k r = Some key"
  shows "\<exists>c. insert_stmt [] ix fks get upd row d = (Inl (PgError ''23505'' c), d)"
proof -
  have "key \<in> set (List.map_filter k (get d))" using assms(3,4) by (force simp: map_filter_def)
  then have "\<not> distinct (List.map_filter k (get d @ [row]))"
    using assms(2) by (simp add: map_filter_append map_filter_simps)
  then have "find (\<lambda>i. \<not> distinct (List.map_filter (snd i) (get d @ [row]))) ix \<noteq> None"
    using assms(1) by (auto simp: find_None_iff)
  then show ?thesis by (auto simp: insert_stmt_def write_rows_def)
qed

lemma onDb_Inl_same: "m (w_db w) = (Inl e, w_db w) \<Longrightarrow> onDb m w = (Inl e, w)"
  by (simp add: onDb_def)

lemma insert_saved_queries_duplicate:
  assumes "saved_query_map u d v = Some q" "sqy_name q = sq_name row" "sq_tenant_id row = u"
  shows "\<exists>c. insert_saved_queries row d = (Inl (PgError ''23505'' c), d)"
proof -
  from assms obtain r where "r \<in> set (db_saved_queries d)" "[sq_tenant_id r, sq_name r] = [sq_tenant_id row, sq_name row]"
    by (auto simp: saved_query_map_def toSavedQuery_def dest!: lookup_row_Some)
  then show ?thesis unfolding insert_saved_queries_def
    by (intro insert_stmt_duplicate [where k = "\<lambda>r. Some [sq_tenant_id r, sq_name r]"
        and n = "''saved_queries_tenant_id_name_key''"]) (auto simp: saved_queries_indexes_def)
qed

lemma savedQueries_create_duplicate:
  assumes "ui t = Some u" "t \<noteq> []" "nsq_createdBy x = Some b" "ui b = Some p"
    "saved_query_map u d v = Some q" "sqy_name q = nsq_name x"
  shows "\<exists>c. savedQueries_create ui n now t x d = (Inl (PgError ''23505'' c), d)"
proof -
  let ?row = "\<lparr> sq_id = n, sq_tenant_id = u, sq_name = nsq_name x, sq_description = nsq_description x,
    sq_query_text = nsq_queryText x, sq_filters = nsq_filters x, sq_time_range = nsq_timeRange x, sq_created_by = Some p,
    sq_created_at = now, sq_updated_at = now \<rparr>"
  obtain c where "insert_saved_queries ?row d = (Inl (PgError ''23505'' c), d)"
    using insert_saved_queries_duplicate [OF assms(5), of ?row] assms(6) by auto
  with assms(1-4) show ?thesis
    by (simp add: savedQueries_create_def armed_run cast_uuid_opt_def cast_uuid_def andThen_Inl andThen_ret)
qed

lemma insert_dashboards_duplicate:
  assumes "dashboard_map u d v = Some q" "dash_name q = da_name row" "da_tenant_id row = u"
  shows "\<exists>c. insert_dashboards row d = (Inl (PgError ''23505'' c), d)"
proof -
  from assms obtain r where "r \<in> set (db_dashboards d)" "[da_tenant_id r, da_name r] = [da_tenant_id row, da_name row]"
    by (auto simp: dashboard_map_def toDashboard_def dest!: lookup_row_Some)
  then show ?thesis unfolding insert_dashboards_def
    by (intro insert_stmt_duplicate [where k = "\<lambda>r. Some [da_tenant_id r, da_name r]"
        and n = "''dashboards_tenant_id_name_key''"]) (auto simp: dashboards_indexes_def)
qed

lemma dashboards_create_duplicate:
  assumes "ui t = Some u" "t \<noteq> []" "nd_createdBy x = Some b" "ui b = Some p"
    "dashboard_map u d v = Some q" "dash_name q = nd_name x"
  shows "\<exists>c. dashboards_create ui n now t x d = (Inl (PgError ''23505'' c), d)"
proof -
  let ?row = "\<lparr> da_id = n, da_tenant_id = u, da_name = nd_name x, da_description = nd_description x,
    da_layout = nd_layout x, da_created_by = Some p,
    da_created_at = now, da_updated_at = now \<rparr>"
  obtain c where "insert_dashboards ?row d = (Inl (PgError ''23505'' c), d)"
    using insert_dashboards_duplicate [OF assms(5), of ?row] assms(6) by auto
  with assms(1-4) show ?thesis
    by (simp add: dashboards_create_def armed_run cast_uuid_opt_def cast_uuid_def andThen_Inl andThen_ret)
qed

section \<open>Properties\<close>

definition sample_cq :: CreateSavedQueryCommand where
  "sample_cq = \<lparr> cq_name = ''errors'', cq_description = None, cq_queryText = ''level:error'',
     cq_filters = \<lparr> sf_service = None, sf_level = None, sf_labels = None \<rparr>, cq_timeRange = [] \<rparr>"

definition sample_cd :: CreateDashboardCommand where
  "sample_cd = \<lparr> cd_name = ''main'', cd_description = None, cd_layout = [] \<rparr>"

definition sample_ca :: CreateAlertRuleCommand where
  "sample_ca = \<lparr> ca_name = ''spike'', ca_savedQueryId = None,
     ca_query = \<lparr> q_text = Some ''error'', q_service = None, q_level = None, q_labels = None \<rparr>,
     ca_comparator = gt, ca_threshold = 5, ca_windowSeconds = 60, ca_severity = ''warning'',
     ca_enabled = True, ca_notifyChannels = [webhook ''https://hook''] \<rparr>"

text \<open>
  C15. A saved query that was created is the one \<open>get\<close> returns under its id; \<open>remove\<close> then takes the
  tenant's saved queries back to exactly what they were before the creation, after which both \<open>get\<close>
  and a second \<open>remove\<close> answer not found.
\<close>

theorem saved_query_lifecycle:
  assumes "uuid_in E (ctx_tenantId ctx) = Some u" "ctx_tenantId ctx \<noteq> []" "uuid_in E n = Some n"
    and "savedQueryService_create E n now ctx cmd w = (Inr q, w1)"
  shows "savedQueryService_get E ctx n w1 = (Inr q, w1)
    \<and> (\<exists>w2. savedQueryService_remove E ctx n w1 = (Inr (), w2)
         \<and> saved_query_map u (w_db w2) = saved_query_map u (w_db w)
         \<and> savedQueryService_get E ctx n w2 = (Inl (not_found ''saved query not found''), w2)
         \<and> fst (savedQueryService_remove E ctx n w2) = Inl (not_found ''saved query not found''))"
  by (rule saved_service.lifecycle [OF assms])

theorem saved_query_lifecycle_witness:
  "let r = savedQueryService_create sample_env ''q1'' 0 (sample_ctx tenant_admin) sample_cq sample_world;
       q = (case fst r of Inr q \<Rightarrow> q) in
   savedQueryService_get sample_env (sample_ctx tenant_admin) ''q1'' (snd r) = (Inr q, snd r)"
proof -
  let ?r = "savedQueryService_create sample_env ''q1'' 0 (sample_ctx tenant_admin) sample_cq sample_world"
  let ?q = "case fst ?r of Inr q \<Rightarrow> q"
  have "\<not> isl (fst ?r)" by code_simp
  then have "?r = (Inr ?q, snd ?r)" by (cases ?r; cases "fst ?r") auto
  moreover have "uuid_in sample_env (ctx_tenantId (sample_ctx tenant_admin)) = Some ''t1''"
    "ctx_tenantId (sample_ctx tenant_admin) \<noteq> []" "uuid_in sample_env ''q1'' = Some ''q1''" by code_simp+
  ultimately show ?thesis unfolding Let_def using saved_query_lifecycle by blast
qed

text \<open>
  An accepted dashboard update is what \<open>get\<close> returns from then on, the dashboard existed before,
  and no other dashboard of the tenant is touched.
\<close>

theorem dashboard_update_visible:
  assumes "uuid_in E (ctx_tenantId ctx) = Some u" "ctx_tenantId ctx \<noteq> []" "uuid_in E i = Some v"
    and "dashboardService_update E now ctx i p w = (Inr e, w')"
  shows "dashboardService_get E ctx i w' = (Inr e, w')
    \<and> dashboard_map u (w_db w') = (dashboard_map u (w_db w))(v \<mapsto> e)
    \<and> dashboard_map u (w_db w) v \<noteq> None"
  by (rule dash_service.update_visible [OF assms])

text \<open>
  Creating a saved query or a dashboard under a name the tenant already uses is a conflict that
  names it, and nothing is written.
\<close>

theorem duplicate_name_conflict:
  assumes "uuid_in E (ctx_tenantId ctx) = Some u" "ctx_tenantId ctx \<noteq> []"
    and "uuid_in E (ctx_principalId ctx) = Some p"
  shows "(can (ctx_role ctx) Savedquery_create \<and> saved_query_map u (w_db w) v = Some q \<and> sqy_name q = cq_name cq \<longrightarrow>
      savedQueryService_create E n now ctx cq w =
        (Inl (DomainErr (ConflictError (''a saved query named '' @ quoted (cq_name cq) @ '' already exists''))), w))
    \<and> (can (ctx_role ctx) Dashboard_create \<and> dashboard_map u (w_db w) v = Some da \<and> dash_name da = cd_name cd \<longrightarrow>
      dashboardService_create E n now ctx cd w =
        (Inl (DomainErr (ConflictError (''a dashboard named '' @ quoted (cd_name cd) @ '' already exists''))), w))"
proof (intro conjI impI; elim conjE)
  assume a: "can (ctx_role ctx) Savedquery_create" "saved_query_map u (w_db w) v = Some q" "sqy_name q = cq_name cq"
  let ?x = "\<lparr> nsq_name = cq_name cq, nsq_description = cq_description cq, nsq_queryText = cq_queryText cq,
    nsq_filters = cq_filters cq, nsq_timeRange = cq_timeRange cq, nsq_createdBy = Some (ctx_principalId ctx) \<rparr>"
  from savedQueries_create_duplicate [OF assms(1,2) _ assms(3) a(2), of ?x n now] a(1,3)
  show "savedQueryService_create E n now ctx cq w =
        (Inl (DomainErr (ConflictError (''a saved query named '' @ quoted (cq_name cq) @ '' already exists''))), w)"
    by (auto simp: savedQueryService_create_def tryCatch_def onDb_def PG_UNIQUE_VIOLATION_def throw_def)
next
  assume a: "can (ctx_role ctx) Dashboard_create" "dashboard_map u (w_db w) v = Some da" "dash_name da = cd_name cd"
  let ?x = "\<lparr> nd_name = cd_name cd, nd_description = cd_description cd, nd_layout = cd_layout cd,
    nd_createdBy = Some (ctx_principalId ctx) \<rparr>"
  from dashboards_create_duplicate [OF assms(1,2) _ assms(3) a(2), of ?x n now] a(1,3)
  show "dashboardService_create E n now ctx cd w =
        (Inl (DomainErr (ConflictError (''a dashboard named '' @ quoted (cd_name cd) @ '' already exists''))), w)"
    by (auto simp: dashboardService_create_def tryCatch_def onDb_def PG_UNIQUE_VIOLATION_def throw_def)
qed

theorem duplicate_name_conflict_witness:
  "let w1 = snd (savedQueryService_create sample_env ''q1'' 0 (sample_ctx tenant_admin) sample_cq sample_world) in
   savedQueryService_create sample_env ''q2'' 5 (sample_ctx tenant_admin) sample_cq w1 =
     (Inl (DomainErr (ConflictError ''a saved query named 'errors' already exists'')), w1)"
proof -
  let ?w1 = "snd (savedQueryService_create sample_env ''q1'' 0 (sample_ctx tenant_admin) sample_cq sample_world)"
  let ?q = "the (saved_query_map ''t1'' (w_db ?w1) ''q1'')"
  have "saved_query_map ''t1'' (w_db ?w1) ''q1'' \<noteq> None" by code_simp
  then have "saved_query_map ''t1'' (w_db ?w1) ''q1'' = Some ?q" by auto
  moreover have "uuid_in sample_env (ctx_tenantId (sample_ctx tenant_admin)) = Some ''t1''"
    "ctx_tenantId (sample_ctx tenant_admin) \<noteq> []" "uuid_in sample_env (ctx_principalId (sample_ctx tenant_admin)) = Some ''u1''"
    "can (ctx_role (sample_ctx tenant_admin)) Savedquery_create" "sqy_name ?q = cq_name sample_cq"
    "''a saved query named '' @ quoted (cq_name sample_cq) @ '' already exists'' = ''a saved query named 'errors' already exists''"
    by code_simp+
  ultimately show ?thesis
    unfolding Let_def using duplicate_name_conflict [of sample_env "sample_ctx tenant_admin" "''t1''" "''u1''" ?w1 "''q1''" ?q sample_cq]
    by metis
qed

definition sample_dash :: world where
  "sample_dash = snd (dashboardService_create sample_env ''d1'' 0 (sample_ctx tenant_admin) sample_cd sample_world)"

definition sample_dash_patch :: DashboardPatch where
  "sample_dash_patch = \<lparr> pd_name = Some ''ops'', pd_description = None, pd_layout = None \<rparr>"

theorem dashboard_update_visible_witness:
  "let r = dashboardService_update sample_env 5 (sample_ctx tenant_admin) ''d1'' sample_dash_patch sample_dash;
       e = (case fst r of Inr e \<Rightarrow> e) in
   dash_name e = ''ops'' \<and> dashboardService_get sample_env (sample_ctx tenant_admin) ''d1'' (snd r) = (Inr e, snd r)"
proof -
  let ?r = "dashboardService_update sample_env 5 (sample_ctx tenant_admin) ''d1'' sample_dash_patch sample_dash"
  let ?e = "case fst ?r of Inr e \<Rightarrow> e"
  have "\<not> isl (fst ?r)" by code_simp
  then have "?r = (Inr ?e, snd ?r)" by (cases ?r; cases "fst ?r") auto
  moreover have "uuid_in sample_env (ctx_tenantId (sample_ctx tenant_admin)) = Some ''t1''"
    "ctx_tenantId (sample_ctx tenant_admin) \<noteq> []" "uuid_in sample_env ''d1'' = Some ''d1''" "dash_name ?e = ''ops''"
    by code_simp+
  ultimately show ?thesis unfolding Let_def using dashboard_update_visible by blast
qed

definition new_rule :: "TenantContext \<Rightarrow> CreateAlertRuleCommand \<Rightarrow> NewAlertRule" where
  "new_rule ctx cmd =
     \<lparr> nar_name = ca_name cmd, nar_savedQueryId = ca_savedQueryId cmd, nar_query = ca_query cmd,
       nar_comparator = ca_comparator cmd, nar_threshold = ca_threshold cmd,
       nar_windowSeconds = ca_windowSeconds cmd, nar_severity = ca_severity cmd,
       nar_enabled = ca_enabled cmd, nar_notifyChannels = ca_notifyChannels cmd,
       nar_createdBy = Some (ctx_principalId ctx) \<rparr>"

definition channel_complete :: "NotifyChannel \<Rightarrow> bool" where
  "channel_complete ch = (case ch of webhook url \<Rightarrow> url \<noteq> [] | email_channel to \<Rightarrow> to \<noteq> [])"

lemma assertChannels_complete: "assertChannels chs w = (Inr (), w') \<Longrightarrow> list_all channel_complete chs"
  by (induction chs) (auto simp: channel_complete_def throw_def split: NotifyChannel.splits if_splits)

lemma assertQuerySource_one: "assertQuerySource sid q w = (Inr (), w') \<Longrightarrow> (sid \<noteq> None) \<noteq> hasInlineQuery q"
  by (auto simp: assertQuerySource_def throw_def split: if_splits)

lemma cast_uuid_opt_None: "cast_uuid_opt ui v s = (Inr r, s') \<Longrightarrow> r = None \<longleftrightarrow> v = None"
  by (cases v) (auto simp: cast_uuid_opt_def split: option.splits dest: sym)

lemma alertRules_create_fields:
  assumes "ui t = Some u" "t \<noteq> []" "alertRules_create ui n now t x d = (Inr r, d')"
  shows "rule_query r = nar_query x \<and> (rule_savedQueryId r = None \<longleftrightarrow> nar_savedQueryId x = None)
    \<and> rule_notifyChannels r = nar_notifyChannels x \<and> rule_state r = AS_ok
    \<and> 30 \<le> rule_windowSeconds r \<and> rule_windowSeconds r \<le> 86400"
  using assms
  by (auto simp: alertRules_create_def withTenantTx_Inr andThen_eq_Inr insert_alert_rules_def insert_stmt_Inr
      toRule_def rows_ok_def alert_rules_checks_def dest!: cast_uuid_opt_None)

lemma alertRuleService_create_Inr:
  assumes "alertRuleService_create E n now ctx cmd w = (Inr r, w')"
  shows "\<exists>d. assertChannels (ca_notifyChannels cmd) w = (Inr (), w)
    \<and> assertQuerySource (ca_savedQueryId cmd) (ca_query cmd) w = (Inr (), w)
    \<and> alertRules_create (uuid_in E) n now (ctx_tenantId ctx) (new_rule ctx cmd) (w_db w) = (Inr r, d)
    \<and> w' = w\<lparr>w_db := d\<rparr>"
proof -
  have "can (ctx_role ctx) Alert_create" by (rule alert_service.sv_create_run [OF assms, THEN conjunct1])
  with assms show ?thesis
    by (auto simp: alertRuleService_create_def new_rule_def tryCatch_rethrow_Inr onDb_Inr andThen_eq_Inr
        dest: assertChannels_pure assertQuerySource_pure)
qed

text \<open>
  C16. An alert rule is only ever created with exactly one query source, a window between thirty
  seconds and a day and complete notification channels; it starts in state ok, and it is what the
  tenant finds under the new id.
\<close>

theorem alert_create_sound:
  assumes "uuid_in E (ctx_tenantId ctx) = Some u" "ctx_tenantId ctx \<noteq> []"
    and "alertRuleService_create E n now ctx cmd w = (Inr r, w')"
  shows "(rule_savedQueryId r \<noteq> None) \<noteq> hasInlineQuery (rule_query r)
    \<and> 30 \<le> rule_windowSeconds r \<and> rule_windowSeconds r \<le> 86400
    \<and> list_all channel_complete (rule_notifyChannels r) \<and> rule_state r = AS_ok
    \<and> alert_rule_map u (w_db w') = (alert_rule_map u (w_db w))(n \<mapsto> r)"
proof -
  from alertRuleService_create_Inr [OF assms(3)] obtain d
    where ch: "assertChannels (ca_notifyChannels cmd) w = (Inr (), w)"
    and src: "assertQuerySource (ca_savedQueryId cmd) (ca_query cmd) w = (Inr (), w)"
    and new: "alertRules_create (uuid_in E) n now (ctx_tenantId ctx) (new_rule ctx cmd) (w_db w) = (Inr r, d)"
    and w': "w' = w\<lparr>w_db := d\<rparr>" by blast
  show ?thesis
    using alertRules_create_fields [OF assms(1,2) new] alertRules_create_map [OF assms(1,2) new]
      assertChannels_complete [OF ch] assertQuerySource_one [OF src]
    by (auto simp: w' new_rule_def)
qed

theorem alert_create_sound_witness:
  "let r = alertRuleService_create sample_env ''a1'' 0 (sample_ctx tenant_admin) sample_ca sample_world in
   alert_rule_map ''t1'' (w_db (snd r)) ''a1'' = Some (case fst r of Inr a \<Rightarrow> a)"
proof -
  let ?r = "alertRuleService_create sample_env ''a1'' 0 (sample_ctx tenant_admin) sample_ca sample_world"
  let ?a = "case fst ?r of Inr a \<Rightarrow> a"
  have "\<not> isl (fst ?r)" by code_simp
  then have "?r = (Inr ?a, snd ?r)" by (cases ?r; cases "fst ?r") auto
  moreover have "uuid_in sample_env (ctx_tenantId (sample_ctx tenant_admin)) = Some ''t1''"
    "ctx_tenantId (sample_ctx tenant_admin) \<noteq> []" by code_simp+
  ultimately have "alert_rule_map ''t1'' (w_db (snd ?r)) = (alert_rule_map ''t1'' (w_db sample_world))(''a1'' \<mapsto> ?a)"
    using alert_create_sound by blast
  then show ?thesis unfolding Let_def by simp
qed

definition sample_rule_patch :: AlertRulePatch where
  "sample_rule_patch =
     \<lparr> par_name = None, par_savedQueryId = Some (Some ''q1''), par_query = None, par_comparator = None,
       par_threshold = None, par_windowSeconds = None, par_severity = None, par_enabled = None,
       par_notifyChannels = None \<rparr>"

text \<open>
  The single source of \<open>assertQuerySource\<close> is not kept by \<open>update\<close>: a patch that sets \<open>savedQueryId\<close> on a
  rule with an inline query is accepted and leaves the rule with both sources.
\<close>

theorem alert_update_two_sources:
  "case alertRuleService_update sample_env 5 (sample_ctx tenant_admin) ''a1'' sample_rule_patch
     (snd (alertRuleService_create sample_env ''a1'' 0 (sample_ctx tenant_admin) sample_ca sample_world)) of
     (Inl e, w) \<Rightarrow> False
   | (Inr r, w) \<Rightarrow> rule_savedQueryId r \<noteq> None \<and> hasInlineQuery (rule_query r)"
  by code_simp

end
