(* ===== verification/Oidc_Laws.thy ===== *)
theory Oidc_Laws
  imports Content_Laws
begin

text \<open>
  Google sign-in. The state store is an interface of single-use tickets; on it rest the replay
  protection of the callback, the binding of a callback to its own authorisation request, and the
  soundness of the sessions it opens.
\<close>

section \<open>Single-use tickets\<close>

locale ticket_store =
  fixes pending :: "world \<Rightarrow> string \<rightharpoonup> 'r \<times> millis"
    and key :: "'r \<Rightarrow> string"
    and put :: "millis \<Rightarrow> 'r \<Rightarrow> int \<Rightarrow> (world, unit) prog"
    and consume :: "millis \<Rightarrow> string \<Rightarrow> (world, 'r option) prog"
  assumes put_pending: "\<exists>w'. put now r ttl w = (Inr (), w') \<and> w_db w' = w_db w
      \<and> pending w' = (pending w)(key r \<mapsto> (r, now + ttl * 1000))"
    and consume_pending: "\<exists>w'. consume now s w =
        (Inr (case pending w s of None \<Rightarrow> None | Some (r, e) \<Rightarrow> if now > e then None else Some r), w')
      \<and> w_db w' = w_db w \<and> pending w' = (pending w)(s := None)"
begin

lemma redeem:
  assumes "put now r ttl w = (x, w1)" "now' \<le> now + ttl * 1000"
  shows "\<exists>w2. consume now' (key r) w1 = (Inr (Some r), w2) \<and> pending w2 (key r) = None"
  using put_pending [of now r ttl w] consume_pending [of now' "key r" w1] assms by auto

lemma spent:
  assumes "consume now s w = (x, w1)"
  shows "\<exists>w2. consume now' s w1 = (Inr None, w2) \<and> pending w2 = pending w1"
  using consume_pending [of now s w] consume_pending [of now' s w1] assms by (auto simp: fun_upd_idem)

lemma unknown: "pending w s = None \<Longrightarrow> \<exists>w'. consume now s w = (Inr None, w') \<and> pending w' = pending w"
  using consume_pending [of now s w] by (auto simp: fun_upd_idem)

end

lemma stateStore_consume_run:
  "stateStore_consume now s w =
     (Inr (case w_states w s of None \<Rightarrow> None | Some (r, e) \<Rightarrow> if now > e then None else Some r),
      w\<lparr>w_states := (w_states w)(s := None)\<rparr>)"
  by (auto simp: stateStore_consume_def andThen_def fun_upd_idem split: option.split)

interpretation state_tickets: ticket_store w_states os_state stateStore_put stateStore_consume
  by unfold_locales (auto simp: stateStore_put_def stateStore_consume_run)

section \<open>What a callback leaves alone\<close>

definition oidc_frame :: "world \<Rightarrow> world \<Rightarrow> bool" where
  "oidc_frame w w' \<longleftrightarrow>
     w_states w' = w_states w \<and> w_google w' = w_google w \<and> w_verifies w' = w_verifies w
     \<and> w_invite_audit w' = w_invite_audit w \<and> w_outbox w' = w_outbox w
     \<and> (\<exists>evs. w_oauth_audit w' = w_oauth_audit w @ evs)"

lemma oidc_frame_preorder [simp]: "reflp oidc_frame" "transp oidc_frame"
  by (auto simp: reflp_def transp_def oidc_frame_def)

lemma keeps_oidc_basic:
  "keeps oidc_frame (onDb m)" "keeps oidc_frame (audit R t u h out)"
  "keeps oidc_frame (updS (\<lambda>w. w\<lparr>w_oauth_audit := w_oauth_audit w @ evs\<rparr>))"
  by (auto simp: keeps_def oidc_frame_def onDb_apply audit_def)

lemma keeps_resolve: "keeps oidc_frame (resolve_identity E R cmd t claims)"
  unfolding resolve_identity_def reject_with_def provisionFromInvite_def Let_def
  by (rule keeps_intros keeps_oidc_basic | simp)+

lemma keeps_finish: "keeps oidc_frame (finish_callback E R t h resolved)"
  unfolding finish_callback_def reject_with_def mintSession_def
  by (rule keeps_intros keeps_oidc_basic | simp)+

text \<open>The calls to Google touch its trace only.\<close>

lemma call_exchange_run:
  "call_exchange E code v w =
     (exchange E code (oidc_redirectUri E) v, w\<lparr>w_google := w_google w @ [Exchange code (oidc_redirectUri E) v]\<rparr>)"
  by (simp add: call_exchange_def)

lemma call_verify_run:
  "call_verify E i n w = (verifyIdToken E i n, w\<lparr>w_google := w_google w @ [VerifyIdToken i n]\<rparr>)"
  by (simp add: call_verify_def)


text \<open>The callback after its ticket was taken.\<close>

definition callback_body ::
  "env \<Rightarrow> callback_draws \<Rightarrow> OidcCallbackCommand \<Rightarrow> OAuthStateRecord option \<Rightarrow> (world, SessionTokens \<times> string) prog" where
  "callback_body E R cmd consumed =
     (case consumed of
       None \<Rightarrow> reject_with R None None None reject_invalid_state
                 (DomainErr (UnauthorizedError ''invalid or expired OAuth state''))
     | Some st \<Rightarrow>
         let tenantId = os_tenantId st;
             codeVerifier = (case os_meta st ''codeVerifier'' of None \<Rightarrow> [] | Some v \<Rightarrow> v);
             nonce = (case os_meta st ''nonce'' of None \<Rightarrow> [] | Some v \<Rightarrow> v);
             returnTo = (case os_meta st ''returnTo'' of None \<Rightarrow> ''/'' | Some v \<Rightarrow> v)
         in if codeVerifier = [] \<or> nonce = []
            then reject_with R (Some tenantId) None None reject_invalid_state
                   (DomainErr (UnauthorizedError ''malformed OAuth state record''))
            else
              andThen
                (tryCatch (call_exchange E (oc_code cmd) codeVerifier)
                   (\<lambda>err. reject_with R (Some tenantId) None None reject_exchange_failure
                            (if isServiceUnavailable err then err else exchange_failed))) (\<lambda>exchanged.
              andThen
                (tryCatch (call_verify E (gx_idToken exchanged) nonce)
                   (\<lambda>err. reject_with R (Some tenantId) None None reject_invalid_token
                            (if isServiceUnavailable err then err
                             else DomainErr (UnauthorizedError ''id_token verification failed'')))) (\<lambda>claims.
              andThen (resolve_identity E R cmd tenantId claims) (\<lambda>resolved.
              andThen (finish_callback E R tenantId (hashProviderSub E (g_sub claims)) resolved) (\<lambda>tokens.
              ret (tokens, returnTo))))))"

lemma handleCallback_run:
  "handleCallback E R cmd w =
     callback_body E R cmd
       (case w_states w (oc_state cmd) of None \<Rightarrow> None | Some (r, e) \<Rightarrow> if cb_storeNow R > e then None else Some r)
       (w\<lparr>w_states := (w_states w)(oc_state cmd := None)\<rparr>)"
proof -
  have "handleCallback E R cmd = andThen (stateStore_consume (cb_storeNow R) (oc_state cmd)) (callback_body E R cmd)"
    unfolding handleCallback_def callback_body_def [abs_def] ..
  then show ?thesis by (simp add: andThen_Inr [OF stateStore_consume_run])
qed

abbreviation same_states :: "world \<Rightarrow> world \<Rightarrow> bool" where
  "same_states w w' \<equiv> w_states w' = w_states w"

lemma same_states_preorder [simp]: "reflp same_states" "transp same_states"
  by (auto simp: reflp_def transp_def)

lemma keeps_callback_body: "keeps same_states (callback_body E R cmd consumed)"
proof -
  have "keeps same_states (resolve_identity E R cmd t claims)" for t claims
    using keeps_resolve by (auto simp: keeps_def oidc_frame_def)
  moreover have "keeps same_states (finish_callback E R t h resolved)" for t h resolved
    using keeps_finish by (auto simp: keeps_def oidc_frame_def)
  moreover have "keeps same_states (audit R t u h out)" for t u h out by (simp add: keeps_def audit_def)
  moreover have "keeps same_states (call_exchange E code v)" "keeps same_states (call_verify E i n)" for code v i n
    by (simp_all add: keeps_def call_exchange_run call_verify_run)
  ultimately show ?thesis unfolding callback_body_def reject_with_def Let_def
    by - (rule keeps_intros | simp)+
qed

lemma callback_spends:
  "handleCallback E R cmd w = (r, w') \<Longrightarrow> w_states w' = (w_states w)(oc_state cmd := None)"
  using keepsD [OF keeps_callback_body] by (fastforce simp: handleCallback_run)

lemma callback_without_ticket:
  assumes "\<And>r e. w_states w (oc_state cmd) = Some (r, e) \<Longrightarrow> e < cb_storeNow R"
  shows "handleCallback E R cmd w =
    (Inl (DomainErr (UnauthorizedError ''invalid or expired OAuth state'')),
     w\<lparr>w_states := (w_states w)(oc_state cmd := None),
       w_oauth_audit := w_oauth_audit w @
         [\<lparr> oa_tenantId = None, oa_userId = None, oa_provider = ''google'', oa_hashedSub = None,
            oa_outcome = reject_invalid_state, oa_ts = cb_auditNow R \<rparr>]\<rparr>)"
  using assms
  by (auto simp: handleCallback_run callback_body_def reject_with_def audit_def andThen_def split: option.splits)

section \<open>Whom a callback signs in\<close>

definition linked :: "uuid \<Rightarrow> string \<Rightarrow> uuid \<Rightarrow> db \<Rightarrow> bool" where
  "linked v sub uid d \<longleftrightarrow>
     (\<exists>l \<in> set (db_oauth_identities d). oi_tenant_id l = v \<and> oi_provider l = google
        \<and> oi_provider_sub l = sub \<and> oi_user_id l = uid)"

lemma tryCatch_eq_Inr:
  "tryCatch m h s = (Inr x, s') \<longleftrightarrow>
     m s = (Inr x, s') \<or> (\<exists>e t. m s = (Inl e, t) \<and> h e t = (Inr x, s'))"
  by (auto simp: tryCatch_def split: prod.splits sum.splits)

lemma reject_with_not_Inr [simp]: "reject_with R t u h out err w \<noteq> (Inr x, w')"
  by (simp add: reject_with_def audit_def)

lemma select_linked:
  assumes "first_row (filter (\<lambda>r. oi_provider r = google \<and> oi_provider_sub r = sub)
    (rls oi_tenant_id sc (db_oauth_identities d))) = Some row"
  shows "\<exists>v. sc = Some v \<and> linked v sub (oi_user_id row) d"
  using assms by (cases sc) (auto simp: linked_def rls_def first_row_filter dest!: find_member)

lemma linkFirst_linked:
  assumes "linkFirstWithClient ui n now sc inp d = (Inr ref, d')" "noi_provider inp = google"
  shows "\<exists>v. sc = Some v \<and> linked v (noi_providerSub inp) (oref_userId ref) d'"
  using assms(1) unfolding linkFirstWithClient_def tryCatch_eq_Inr
proof (elim disjE exE conjE, goal_cases)
  case 1
  then show ?case
    by (cases sc) (auto simp: andThen_eq_Inr tenant_param_def insert_oauth_identities_def insert_stmt_Inr
        identity_ref_def linked_def throw_def assms(2))
next
  case (2 e t)
  let ?sel = "filter (\<lambda>r. oi_provider r = google \<and> oi_provider_sub r = noi_providerSub inp)
    (rls oi_tenant_id sc (db_oauth_identities t))"
  from 2(2) obtain row where "first_row ?sel = Some row" "ref = identity_ref row" "d' = t"
    by (cases "first_row ?sel") (auto simp: andThen_eq_Inr select_oauth_identities_def select_stmt_def throw_def assms(2)
        split: if_splits)
  then show ?case using select_linked [of "noi_providerSub inp" sc t row] by (auto simp: identity_ref_def)
qed

lemma findByProviderSub_linked:
  assumes "oauthIdentities_findByProviderSub ui t google sub d = (Inr (Some ref), d')"
  shows "d' = d \<and> (\<exists>v. current_tenant_id ui t = Inr (Some v) \<and> linked v sub (oref_userId ref) d)"
  using assms
  by (auto simp: oauthIdentities_findByProviderSub_def withTenantTx_Inr andThen_eq_Inr select_oauth_identities_def
      select_stmt_def identity_ref_def dest!: select_linked)

lemma provision_linked:
  assumes "provisionFromInvite_db ui nu nl now t inp d = (Inr (Some uid), d')"
  shows "\<exists>v. current_tenant_id ui t = Inr (Some v) \<and> linked v (ip_providerSub inp) uid d'"
  using assms
  by (auto simp: provisionFromInvite_db_def provision_tx_def tryCatch_eq_Inr withTenantTx_Inr andThen_eq_Inr throw_def
      split: option.splits if_splits dest!: linkFirst_linked)

lemma resolve_linked:
  assumes "resolve_identity E R cmd t claims w = (Inr (uid, first, existing), w')"
  shows "\<exists>v. current_tenant_id (uuid_in E) t = Inr (Some v) \<and> linked v (g_sub claims) uid (w_db w')"
  using assms
  by (auto simp: resolve_identity_def Let_def andThen_eq_Inr onDb_Inr tryCatch_eq_Inr provisionFromInvite_def
      oauthIdentities_linkFirst_def withTenantTx_Inr throw_def
      split: option.splits if_splits dest!: findByProviderSub_linked provision_linked linkFirst_linked)

text \<open>The last steps of a callback change no account and unlink nothing.\<close>

definition acct_frame :: "db \<Rightarrow> db \<Rightarrow> bool" where
  "acct_frame d d' \<longleftrightarrow>
     db_users d' = db_users d \<and> db_memberships d' = db_memberships d
     \<and> (\<forall>v sub uid. linked v sub uid d \<longrightarrow> linked v sub uid d')"

lemma acct_frame_preorder [simp]: "reflp acct_frame" "transp acct_frame"
  by (auto simp: reflp_def transp_def acct_frame_def)

lemma acct_frame_same:
  "db_users d' = db_users d \<Longrightarrow> db_memberships d' = db_memberships d \<Longrightarrow>
   db_oauth_identities d' = db_oauth_identities d \<Longrightarrow> acct_frame d d'"
  by (simp add: acct_frame_def linked_def)

lemma cast_uuid_Inr: "cast_uuid ui i d = (Inr x, d') \<Longrightarrow> d' = d \<and> ui i = Some x"
  by (auto simp: cast_uuid_def throw_def split: option.splits)

lemma linked_rls_update:
  assumes "linked v sub uid d"
    "\<And>r. oi_tenant_id (f r) = oi_tenant_id r \<and> oi_provider (f r) = oi_provider r
      \<and> oi_provider_sub (f r) = oi_provider_sub r \<and> oi_user_id (f r) = oi_user_id r"
  shows "linked v sub uid (d\<lparr>db_oauth_identities := rls_update oi_tenant_id sc p f (db_oauth_identities d)\<rparr>)"
proof -
  from assms(1) obtain l where l: "l \<in> set (db_oauth_identities d)" "oi_tenant_id l = v" "oi_provider l = google"
    "oi_provider_sub l = sub" "oi_user_id l = uid" unfolding linked_def by blast
  let ?l = "if sc = Some (oi_tenant_id l) \<and> p l then f l else l"
  have "?l \<in> set (rls_update oi_tenant_id sc p f (db_oauth_identities d))"
    using l(1) by (auto simp: rls_update_def)
  moreover have "oi_tenant_id ?l = v" "oi_provider ?l = google" "oi_provider_sub ?l = sub" "oi_user_id ?l = uid"
    using l assms(2) by auto
  ultimately show ?thesis unfolding linked_def by auto
qed

lemma touch_frame: "keeps acct_frame (oauthIdentities_touchLastLogin ui now t i n)"
proof (rule keepsI)
  fix d r d'
  assume run: "oauthIdentities_touchLastLogin ui now t i n d = (r, d')"
  show "acct_frame d d'"
  proof (cases r)
    case (Inl e)
    with run show ?thesis by (simp add: oauthIdentities_touchLastLogin_def withTenantTx_Inl acct_frame_def)
  next
    case (Inr x)
    with run show ?thesis
      by (auto simp: oauthIdentities_touchLastLogin_def withTenantTx_Inr andThen_eq_Inr update_oauth_identities_def
          update_stmt_Inr acct_frame_def linked_rls_update
          dest!: cast_uuid_Inr)
  qed
qed

lemma token_create_frame: "keeps acct_frame (refreshTokens_create ui n now t inp)"
proof (rule keepsI)
  fix d r d'
  assume run: "refreshTokens_create ui n now t inp d = (r, d')"
  show "acct_frame d d'"
  proof (cases r)
    case (Inl e)
    with run show ?thesis by (simp add: refreshTokens_create_def withTenantTx_Inl acct_frame_def)
  next
    case (Inr x)
    with run show ?thesis
      by (auto simp: refreshTokens_create_def withTenantTx_Inr andThen_eq_Inr insert_refresh_token_def tenant_param_def
          insert_refresh_tokens_def insert_stmt_Inr throw_def intro!: acct_frame_same split: option.splits dest!: cast_uuid_Inr)
  qed
qed

lemma auth_role_sound:
  assumes "auth_role (auth_of d u) = Some role"
  shows "has_role d u role"
proof (cases "us_is_platform_operator u")
  case True
  with assms show ?thesis
    by (auto simp: auth_of_def toAuthRecord_def auth_role_text_def has_role_def ROLES_def)
next
  case False
  with assms obtain mr where mr: "joined_role (Some (us_tenant_id u)) d u = Some mr" "role = membership_as_role mr"
    by (cases "joined_role (Some (us_tenant_id u)) d u")
       (auto simp: auth_of_def toAuthRecord_def auth_role_text_def known_role simp del: isRole.simps role_of_name.simps)
  then show ?thesis using False
    by (auto simp: joined_role_def has_role_def rls_Some dest!: find_member)
qed

lemma findCredentials_sound:
  assumes "users_findCredentialsById ui t uid d = (Inr (Some rec), d')" "current_tenant_id ui t = Inr (Some v)"
  shows "d' = d \<and> (\<exists>us \<in> set (db_users d). us_tenant_id us = v \<and> ui uid = Some (us_id us) \<and> rec = auth_of d us)"
  using assms
  by (auto simp: users_findCredentialsById_def withTenantTx_Inr andThen_eq_Inr select_auth_def rls_Some auth_of_def
      first_row_filter dest!: cast_uuid_Inr find_member)

lemma acct_frame_has_role: "acct_frame d d' \<Longrightarrow> has_role d u role \<Longrightarrow> has_role d' u role"
  by (simp add: acct_frame_def has_role_def)

lemma mintSession_frame:
  assumes "mintSession E R t u role w = (Inr tokens, w')"
  shows "acct_frame (w_db w) (w_db w') \<and> w_oauth_audit w' = w_oauth_audit w
    \<and> st_tenantId tokens = t \<and> st_userId tokens = u \<and> st_role tokens = role"
  using assms keepsD [OF token_create_frame]
  by (fastforce simp: mintSession_def andThen_eq_Inr onDb_Inr session_tokens_def Let_def)

lemma touch_step_frame:
  assumes "(case existing of None \<Rightarrow> ret () | Some i \<Rightarrow> tryCatch (onDb (oauthIdentities_touchLastLogin ui now t (f i) n)) (\<lambda>_. ret ())) w
    = (Inr (), w')"
  shows "acct_frame (w_db w) (w_db w') \<and> w_oauth_audit w' = w_oauth_audit w"
proof (cases existing)
  case None
  with assms show ?thesis by (simp add: acct_frame_def)
next
  case (Some i)
  with assms show ?thesis
    using keepsD [OF touch_frame] by (fastforce simp: tryCatch_eq_Inr onDb_Inr onDb_Inl)
qed

lemma finish_found:
  assumes "finish_callback E R t h (uid, first, existing) w = (Inr tokens, w')"
  shows "\<exists>rec role d1 w2 w3. users_findCredentialsById (uuid_in E) t uid (w_db w) = (Inr (Some rec), d1)
    \<and> auth_status rec = ''active'' \<and> auth_role rec = Some role
    \<and> (case existing of None \<Rightarrow> ret () | Some i \<Rightarrow>
        tryCatch (onDb (oauthIdentities_touchLastLogin (uuid_in E) (cb_dbNow R) t (oref_id i) (cb_touchNow R))) (\<lambda>_. ret ()))
        (w\<lparr>w_db := d1\<rparr>) = (Inr (), w2)
    \<and> mintSession E (cb_session R) t (auth_id rec) role w2 = (Inr tokens, w3)
    \<and> audit R (Some t) (Some (auth_id rec)) (Some h) (if first then first_link else login_outcome) w3 = (Inr (), w')"
proof -
  obtain fr d1 where f: "users_findCredentialsById (uuid_in E) t uid (w_db w) = (fr, d1)" by fastforce
  show ?thesis
  proof (cases fr)
    case (Inl e)
    then show ?thesis using assms f by (simp add: finish_callback_def andThen_def onDb_def)
  next
    case (Inr found)
    have run: "andThen (onDb (users_findCredentialsById (uuid_in E) t uid)) g w = g found (w\<lparr>w_db := d1\<rparr>)" for g
      by (simp add: andThen_def onDb_def f Inr)
    show ?thesis
    proof (cases found)
      case None
      then show ?thesis using assms by (simp add: finish_callback_def run)
    next
      case (Some rec)
      have act: "auth_status rec = ''active''"
        using assms by (rule contrapos_pp) (simp add: finish_callback_def run Some)
      moreover obtain role where role: "auth_role rec = Some role"
        using assms act by (cases "auth_role rec") (simp_all add: finish_callback_def run Some)
      ultimately show ?thesis using assms f Inr Some
        by (simp add: finish_callback_def run andThen_eq_Inr)
    qed
  qed
qed

lemma finish_sound:
  assumes "finish_callback E R t h (uid, first, existing) w = (Inr tokens, w')"
    "current_tenant_id (uuid_in E) t = Inr (Some v)"
  shows "acct_frame (w_db w) (w_db w') \<and> st_tenantId tokens = t
    \<and> (\<exists>us \<in> set (db_users (w_db w')). us_tenant_id us = v \<and> uuid_in E uid = Some (us_id us)
         \<and> us_id us = st_userId tokens \<and> us_status us = ''active'' \<and> has_role (w_db w') us (st_role tokens))
    \<and> (\<exists>ev. w_oauth_audit w' = w_oauth_audit w @ [ev] \<and> oa_userId ev = Some (st_userId tokens)
         \<and> oa_outcome ev = (if first then first_link else login_outcome))"
proof -
  obtain rec role d1 w2 w3 where
    rec: "users_findCredentialsById (uuid_in E) t uid (w_db w) = (Inr (Some rec), d1)" "auth_status rec = ''active''" "auth_role rec = Some role"
    and step: "(case existing of None \<Rightarrow> ret () | Some i \<Rightarrow>
        tryCatch (onDb (oauthIdentities_touchLastLogin (uuid_in E) (cb_dbNow R) t (oref_id i) (cb_touchNow R))) (\<lambda>_. ret ())) (w\<lparr>w_db := d1\<rparr>)
      = (Inr (), w2)"
    and mint: "mintSession E (cb_session R) t (auth_id rec) role w2 = (Inr tokens, w3)"
    and aud: "audit R (Some t) (Some (auth_id rec)) (Some h) (if first then first_link else login_outcome) w3 = (Inr (), w')"
    using finish_found [OF assms(1)] by (elim exE conjE)
  note touch = touch_step_frame [OF step]
  from findCredentials_sound [OF rec(1) assms(2)] obtain us where
    d1: "d1 = w_db w" and us: "us \<in> set (db_users (w_db w))" "us_tenant_id us = v"
      "uuid_in E uid = Some (us_id us)" "rec = auth_of (w_db w) us" by auto
  note m = mintSession_frame [OF mint]
  have fr: "acct_frame (w_db w) (w_db w3)"
    using transpD [OF acct_frame_preorder(2), of "w_db w" "w_db w2" "w_db w3"] touch m d1 by simp
  have w': "w_db w' = w_db w3" "\<exists>ev. w_oauth_audit w' = w_oauth_audit w3 @ [ev] \<and> oa_userId ev = Some (auth_id rec)
      \<and> oa_outcome ev = (if first then first_link else login_outcome)"
    using aud by (auto simp: audit_def)
  have "has_role (w_db w') us role"
    using rec(3) us(4) auth_role_sound acct_frame_has_role [OF fr] w'(1) by simp
  moreover have "us \<in> set (db_users (w_db w'))" using us(1) fr w'(1) by (simp add: acct_frame_def)
  ultimately show ?thesis using fr w' m us rec(2) touch by auto
qed

text \<open>
  C17. An OAuth state is good for one callback. Whatever the first callback came to, a second one
  with the same state is answered 401 before any call to Google and without touching the
  database; it only leaves an audit event. The same holds of a state that was never issued or has
  expired.
\<close>

theorem oauth_state_single_use:
  assumes "handleCallback E R1 cmd1 w = (r, w1)"
    and "oc_state cmd2 = oc_state cmd1
      \<or> w_states w1 (oc_state cmd2) = None
      \<or> (\<exists>st e. w_states w1 (oc_state cmd2) = Some (st, e) \<and> e < cb_storeNow R2)"
    and "handleCallback E R2 cmd2 w1 = (r', w2)"
  shows "r' = Inl (DomainErr (UnauthorizedError ''invalid or expired OAuth state''))
    \<and> w_db w2 = w_db w1 \<and> w_google w2 = w_google w1
    \<and> (\<exists>ev. w_oauth_audit w2 = w_oauth_audit w1 @ [ev] \<and> oa_outcome ev = reject_invalid_state)"
  using assms callback_spends [OF assms(1)] callback_without_ticket [of w1 cmd2 R2 E]
  by auto


text \<open>What a successful callback went through.\<close>

lemma callback_steps:
  assumes "handleCallback E R cmd w = (Inr (tokens, returnTo), w')"
  shows "\<exists>st e verifier nonce x claims resolved w1.
    w_states w (oc_state cmd) = Some (st, e) \<and> cb_storeNow R \<le> e
    \<and> os_meta st ''codeVerifier'' = Some verifier \<and> verifier \<noteq> [] \<and> os_meta st ''nonce'' = Some nonce \<and> nonce \<noteq> []
    \<and> exchange E (oc_code cmd) (oidc_redirectUri E) verifier = Inr x
    \<and> verifyIdToken E (gx_idToken x) nonce = Inr claims
    \<and> resolve_identity E R cmd (os_tenantId st) claims
        (w\<lparr>w_states := (w_states w)(oc_state cmd := None),
          w_google := w_google w @ [Exchange (oc_code cmd) (oidc_redirectUri E) verifier, VerifyIdToken (gx_idToken x) nonce]\<rparr>)
        = (Inr resolved, w1)
    \<and> finish_callback E R (os_tenantId st) (hashProviderSub E (g_sub claims)) resolved w1 = (Inr tokens, w')
    \<and> returnTo = (case os_meta st ''returnTo'' of None \<Rightarrow> ''/'' | Some v \<Rightarrow> v)"
proof -
  let ?got = "case w_states w (oc_state cmd) of None \<Rightarrow> None | Some (r, e) \<Rightarrow> if cb_storeNow R > e then None else Some r"
  from assms obtain st where st: "?got = Some st"
    by (cases ?got) (auto simp: handleCallback_run callback_body_def)
  then obtain e where "w_states w (oc_state cmd) = Some (st, e)" "cb_storeNow R \<le> e"
    by (auto split: option.splits if_splits)
  then show ?thesis
    using assms unfolding handleCallback_run st callback_body_def
    by (auto simp: Let_def andThen_eq_Inr tryCatch_eq_Inr call_exchange_run call_verify_run split: option.splits if_splits)
qed

text \<open>
  C18. Soundness of Google sign-in. A callback opens a session only when its state was pending, the
  code exchange with the stored PKCE verifier and the check of the id token against the stored
  nonce both succeeded, and the Google subject is linked to an active account with a role in the
  tenant of the state; the session is for that account and tenant, exactly these two calls went to
  Google, and the trail records the sign-in under the account.
\<close>

theorem callback_session_sound:
  assumes "handleCallback E R cmd w = (Inr (tokens, returnTo), w')"
  shows "\<exists>st e verifier nonce x claims v uid us.
    w_states w (oc_state cmd) = Some (st, e) \<and> cb_storeNow R \<le> e
    \<and> os_meta st ''codeVerifier'' = Some verifier \<and> os_meta st ''nonce'' = Some nonce
    \<and> exchange E (oc_code cmd) (oidc_redirectUri E) verifier = Inr x
    \<and> verifyIdToken E (gx_idToken x) nonce = Inr claims
    \<and> w_google w' = w_google w @ [Exchange (oc_code cmd) (oidc_redirectUri E) verifier, VerifyIdToken (gx_idToken x) nonce]
    \<and> st_tenantId tokens = os_tenantId st \<and> uuid_in E (os_tenantId st) = Some v
    \<and> linked v (g_sub claims) uid (w_db w') \<and> uuid_in E uid = Some (st_userId tokens)
    \<and> us \<in> set (db_users (w_db w')) \<and> us_tenant_id us = v \<and> us_id us = st_userId tokens
    \<and> us_status us = ''active'' \<and> has_role (w_db w') us (st_role tokens)
    \<and> oa_userId (last (w_oauth_audit w')) = Some (st_userId tokens)
    \<and> oa_outcome (last (w_oauth_audit w')) \<in> {first_link, login_outcome}"
proof -
  from callback_steps [OF assms] obtain st e verifier nonce x claims uid first existing w1 where
    a: "w_states w (oc_state cmd) = Some (st, e)" "cb_storeNow R \<le> e"
      "os_meta st ''codeVerifier'' = Some verifier" "os_meta st ''nonce'' = Some nonce"
      "exchange E (oc_code cmd) (oidc_redirectUri E) verifier = Inr x"
      "verifyIdToken E (gx_idToken x) nonce = Inr claims"
    and res: "resolve_identity E R cmd (os_tenantId st) claims
        (w\<lparr>w_states := (w_states w)(oc_state cmd := None),
          w_google := w_google w @ [Exchange (oc_code cmd) (oidc_redirectUri E) verifier, VerifyIdToken (gx_idToken x) nonce]\<rparr>)
        = (Inr (uid, first, existing), w1)"
    and fin: "finish_callback E R (os_tenantId st) (hashProviderSub E (g_sub claims)) (uid, first, existing) w1 = (Inr tokens, w')"
    by auto
  from resolve_linked [OF res] obtain v where v: "current_tenant_id (uuid_in E) (os_tenantId st) = Inr (Some v)"
    "linked v (g_sub claims) uid (w_db w1)" by auto
  have "uuid_in E (os_tenantId st) = Some v" using v(1) current_tenant_id_Some by blast
  moreover have "w_google w' = w_google w @ [Exchange (oc_code cmd) (oidc_redirectUri E) verifier, VerifyIdToken (gx_idToken x) nonce]"
    using keepsD [OF keeps_resolve res] keepsD [OF keeps_finish fin] by (simp add: oidc_frame_def)
  ultimately show ?thesis
    using a v finish_sound [OF fin v(1)] by (fastforce simp: acct_frame_def)
qed


section \<open>A callback and its own request\<close>

lemma keeps_google:
  "keeps (\<lambda>w w'. w_google w' = w_google w) (resolve_identity E R cmd t claims)"
  "keeps (\<lambda>w w'. w_google w' = w_google w) (finish_callback E R t h resolved)"
  using keeps_resolve keeps_finish by (auto simp: keeps_def oidc_frame_def)

lemma reject_google: "w_google (snd (reject_with R t u h out err w)) = w_google w"
  by (simp add: reject_with_def audit_def)

lemma identify_google:
  "w_google (snd (andThen (resolve_identity E R cmd t claims) (\<lambda>resolved.
     andThen (finish_callback E R t h resolved) (\<lambda>tokens. ret (tokens, rt))) w)) = w_google w"
proof -
  have "keeps (\<lambda>w w'. w_google w' = w_google w) (andThen (resolve_identity E R cmd t claims) (\<lambda>resolved.
     andThen (finish_callback E R t h resolved) (\<lambda>tokens. ret (tokens, rt))))"
    by (intro keeps_andThen keeps_google keeps_ret) (auto simp: reflp_def transp_def)
  then show ?thesis by (simp add: keeps_def)
qed

lemma andThen_try:
  "m s = (Inr x, s') \<Longrightarrow> andThen (tryCatch m h) f s = f x s'"
  "m s = (Inl e, s') \<Longrightarrow> andThen (tryCatch m h) f s = andThen (h e) f s'"
  by (simp_all add: andThen_def tryCatch_def)

lemma andThen_reject [simp]: "andThen (reject_with R t u h out err) f = reject_with R t u h out err"
  by (simp add: reject_with_def andThen_assoc)

lemma callback_google:
  assumes "w_states w (oc_state cmd) = Some (st, e)" "cb_storeNow R \<le> e"
    "os_meta st ''codeVerifier'' = Some v" "v \<noteq> []" "os_meta st ''nonce'' = Some n" "n \<noteq> []"
  shows "w_google (snd (handleCallback E R cmd w)) = w_google w @ Exchange (oc_code cmd) (oidc_redirectUri E) v #
    (case exchange E (oc_code cmd) (oidc_redirectUri E) v of Inl _ \<Rightarrow> [] | Inr x \<Rightarrow> [VerifyIdToken (gx_idToken x) n])"
proof (cases "exchange E (oc_code cmd) (oidc_redirectUri E) v")
  case (Inl err)
  with assms show ?thesis
    by (simp add: handleCallback_run callback_body_def Let_def andThen_try call_exchange_run reject_google)
next
  case (Inr x)
  with assms show ?thesis
    by (cases "verifyIdToken E (gx_idToken x) n")
       (simp_all add: handleCallback_run callback_body_def Let_def andThen_try call_exchange_run call_verify_run
          identify_google reject_google)
qed

lemma base64url_nonempty: "bs \<noteq> [] \<Longrightarrow> base64url bs \<noteq> []"
  by (cases bs rule: base64url.cases) (simp_all add: Let_def)

text \<open>
  C19. A callback is bound to the authorisation request its state came from. The user is sent to
  Google with the S256 challenge of a fresh verifier; the callback for that state within the
  lifetime of the state presents exactly this verifier, checks the id token against exactly this
  request's nonce, and sends the user to the sanitised target of the request.
\<close>

theorem callback_bound_to_request:
  assumes "beginAuthorize E A slug rt w = (Inr url, w1)"
    and "ad_verifierBytes A \<noteq> []" "ad_nonceBytes A \<noteq> []"
    and "oc_state cmd = base64url (ad_stateBytes A)" "cb_storeNow R \<le> ad_now A + oidc_stateTtlSeconds E * 1000"
    and "handleCallback E R cmd w1 = (r, w2)"
  shows "url = oidc_authEndpoint E @ ''?'' @ urlencode
      [(''client_id'', oidc_clientId E), (''redirect_uri'', oidc_redirectUri E), (''response_type'', ''code''),
       (''scope'', ''openid email''), (''state'', oc_state cmd), (''nonce'', base64url (ad_nonceBytes A)),
       (''code_challenge'', base64url (sha256 E (base64url (ad_verifierBytes A)))), (''code_challenge_method'', ''S256'')]
    \<and> w_google w2 = w_google w @ Exchange (oc_code cmd) (oidc_redirectUri E) (base64url (ad_verifierBytes A)) #
        (case exchange E (oc_code cmd) (oidc_redirectUri E) (base64url (ad_verifierBytes A)) of
           Inl _ \<Rightarrow> [] | Inr x \<Rightarrow> [VerifyIdToken (gx_idToken x) (base64url (ad_nonceBytes A))])
    \<and> (\<forall>tokens returnTo. r = Inr (tokens, returnTo) \<longrightarrow> returnTo = sanitizeReturnTo rt)"
proof -
  let ?verifier = "base64url (ad_verifierBytes A)" and ?nonce = "base64url (ad_nonceBytes A)"
  from assms(1) obtain t where url: "url = oidc_authEndpoint E @ ''?'' @ urlencode
      [(''client_id'', oidc_clientId E), (''redirect_uri'', oidc_redirectUri E), (''response_type'', ''code''),
       (''scope'', ''openid email''), (''state'', oc_state cmd), (''nonce'', ?nonce),
       (''code_challenge'', base64url (sha256 E ?verifier)), (''code_challenge_method'', ''S256'')]"
    and st: "w_states w1 (oc_state cmd) = Some (
       \<lparr> os_state = oc_state cmd, os_tenantId = t,
         os_meta = [''provider'' \<mapsto> ''google'', ''codeVerifier'' \<mapsto> ?verifier, ''nonce'' \<mapsto> ?nonce,
                    ''returnTo'' \<mapsto> sanitizeReturnTo rt], os_createdAt = ad_now A \<rparr>,
       ad_now A + oidc_stateTtlSeconds E * 1000)"
    and w1: "w_google w1 = w_google w"
    by (auto simp: beginAuthorize_def andThen_eq_Inr onDb_Inr findByPublicId_run stateStore_put_def Let_def throw_def
        codeVerifierToChallenge_def GOOGLE_SCOPES_def assms(4) split: option.splits if_splits)
  have "w_google (snd (handleCallback E R cmd w1)) = w_google w1 @ Exchange (oc_code cmd) (oidc_redirectUri E) ?verifier #
    (case exchange E (oc_code cmd) (oidc_redirectUri E) ?verifier of Inl _ \<Rightarrow> [] | Inr x \<Rightarrow> [VerifyIdToken (gx_idToken x) ?nonce])"
    by (rule callback_google [OF st]) (use assms(2,3,5) base64url_nonempty in simp_all)
  moreover have "returnTo = sanitizeReturnTo rt" if "r = Inr (tokens, returnTo)" for tokens returnTo
    using callback_steps [OF assms(6) [unfolded that]] st by auto
  ultimately show ?thesis using url w1 assms(6) by auto
qed

text \<open>
  The target after sign-in stays on the site: whatever the request asked for, the sanitised
  target is a path with a single leading slash (no scheme, no \<open>//host\<close>, no \<open>/\host\<close>), at most 2000
  characters and free of control characters; and a target that already is such a path is kept.
\<close>

theorem sanitizeReturnTo_stays_on_site:
  "(\<exists>path. sanitizeReturnTo v = CHR ''/'' # path \<and> (path = [] \<or> hd path \<notin> {CHR ''/'', CHR 0x5C})
      \<and> length path < 2000 \<and> (\<forall>c \<in> set path. (of_char c :: nat) > 0x1f \<and> (of_char c :: nat) \<noteq> 0x7f))
   \<and> (isValidReturnTo p \<and> trim p = p \<longrightarrow> sanitizeReturnTo (Some p) = p)
   \<and> sanitizeReturnTo (Some (sanitizeReturnTo v)) = sanitizeReturnTo v"
proof -
  have shape: "\<exists>path. t = CHR ''/'' # path \<and> (path = [] \<or> hd path \<notin> {CHR ''/'', CHR 0x5C})
      \<and> length path < 2000 \<and> (\<forall>c \<in> set path. (of_char c :: nat) > 0x1f \<and> (of_char c :: nat) \<noteq> 0x7f)"
    if "isValidReturnTo t" for t
    using that by (cases t rule: single_leading_slash.cases) (auto simp: isValidReturnTo_def control_char_def Let_def list_all_iff)
  have def: "isValidReturnTo DEFAULT_RETURN_TO" "trim DEFAULT_RETURN_TO = DEFAULT_RETURN_TO" by code_simp+
  have valid: "isValidReturnTo (sanitizeReturnTo v)"
    by (auto simp: sanitizeReturnTo_def Let_def def split: option.split)
  have trimmed: "trim (sanitizeReturnTo v) = sanitizeReturnTo v"
    by (auto simp: sanitizeReturnTo_def Let_def def split: option.split)
  have kept: "sanitizeReturnTo (Some p) = p" if "isValidReturnTo p" "trim p = p" for p
    using that by (auto simp: sanitizeReturnTo_def Let_def isValidReturnTo_def)
  show ?thesis using shape [OF valid] kept kept [OF valid trimmed] by blast
qed


section \<open>Witnesses\<close>

definition sample_oauth :: OAuthStateRecord where
  "sample_oauth = \<lparr> os_state = ''s0'', os_tenantId = ''t1'',
     os_meta = [''provider'' \<mapsto> ''google'', ''codeVerifier'' \<mapsto> ''v0'', ''nonce'' \<mapsto> ''n0'', ''returnTo'' \<mapsto> ''/logs''],
     os_createdAt = 0 \<rparr>"

definition sample_pending :: world where
  "sample_pending = snd (stateStore_put 0 sample_oauth 600 sample_world)"

definition sample_callback :: OidcCallbackCommand where
  "sample_callback = \<lparr> oc_code = ''code'', oc_state = ''s0'', oc_inviteTokenHash = None \<rparr>"

definition sample_callback_draws :: callback_draws where
  "sample_callback_draws =
     \<lparr> cb_storeNow = 1, cb_auditNow = 1, cb_provisionNow = 1, cb_touchNow = 1, cb_dbNow = 1,
       cb_newUserId = ''x1'', cb_newLinkId = ''l1'', cb_session = sample_draws \<rparr>"

definition sample_authorize :: authorize_draws where
  "sample_authorize = \<lparr> ad_stateBytes = ''abc'', ad_nonceBytes = ''def'', ad_verifierBytes = ''ghi'', ad_now = 0 \<rparr>"

theorem oauth_state_single_use_witness:
  "fst (handleCallback sample_env sample_callback_draws sample_callback
     (snd (handleCallback sample_env sample_callback_draws sample_callback sample_pending)))
     = Inl (DomainErr (UnauthorizedError ''invalid or expired OAuth state''))"
proof -
  let ?r = "handleCallback sample_env sample_callback_draws sample_callback sample_pending"
  let ?r' = "handleCallback sample_env sample_callback_draws sample_callback (snd ?r)"
  show ?thesis
    using oauth_state_single_use [of sample_env sample_callback_draws sample_callback sample_pending "fst ?r" "snd ?r"
        sample_callback sample_callback_draws "fst ?r'" "snd ?r'"] by simp
qed

theorem callback_session_sound_witness:
  "\<exists>us. us \<in> set (db_users (w_db (snd (handleCallback sample_env sample_callback_draws sample_callback sample_pending))))
     \<and> us_id us = ''u1'' \<and> us_status us = ''active''"
proof -
  let ?r = "handleCallback sample_env sample_callback_draws sample_callback sample_pending"
  let ?x = "case fst ?r of Inr x \<Rightarrow> x"
  have "\<not> isl (fst ?r)" by code_simp
  then have "?r = (Inr (fst ?x, snd ?x), snd ?r)" by (cases ?r; cases "fst ?r") auto
  moreover have "st_userId (fst ?x) = ''u1''" by code_simp
  ultimately show ?thesis
    using callback_session_sound [of sample_env sample_callback_draws sample_callback sample_pending "fst ?x" "snd ?x" "snd ?r"]
    by metis
qed

theorem callback_bound_to_request_witness:
  "hd (w_google (snd (handleCallback sample_env sample_callback_draws (sample_callback\<lparr>oc_state := ''YWJj''\<rparr>)
     (snd (beginAuthorize sample_env sample_authorize ''acme'' (Some ''/logs'') sample_world)))))
   = Exchange ''code'' ''https://app/cb'' ''Z2hp''"
proof -
  let ?b = "beginAuthorize sample_env sample_authorize ''acme'' (Some ''/logs'') sample_world"
  let ?cmd = "sample_callback\<lparr>oc_state := ''YWJj''\<rparr>"
  let ?url = "case fst ?b of Inr u \<Rightarrow> u"
  let ?r = "handleCallback sample_env sample_callback_draws ?cmd (snd ?b)"
  have "\<not> isl (fst ?b)" by code_simp
  then have "?b = (Inr ?url, snd ?b)" by (cases ?b; cases "fst ?b") auto
  moreover have "oc_state ?cmd = base64url (ad_stateBytes sample_authorize)" "ad_verifierBytes sample_authorize \<noteq> []"
    "ad_nonceBytes sample_authorize \<noteq> []" "base64url (ad_verifierBytes sample_authorize) = ''Z2hp''"
    "cb_storeNow sample_callback_draws \<le> ad_now sample_authorize + oidc_stateTtlSeconds sample_env * 1000"
    "oidc_redirectUri sample_env = ''https://app/cb''" "oc_code ?cmd = ''code''" "w_google sample_world = []"
    by code_simp+
  ultimately have "w_google (snd ?r) = w_google sample_world @ Exchange (oc_code ?cmd) (oidc_redirectUri sample_env) ''Z2hp'' #
        (case exchange sample_env (oc_code ?cmd) (oidc_redirectUri sample_env) ''Z2hp'' of
           Inl _ \<Rightarrow> [] | Inr x \<Rightarrow> [VerifyIdToken (gx_idToken x) (base64url (ad_nonceBytes sample_authorize))])"
    using callback_bound_to_request [of sample_env sample_authorize "''acme''" "Some ''/logs''" sample_world ?url "snd ?b"
        ?cmd sample_callback_draws "fst ?r" "snd ?r"] by simp
  then show ?thesis by (simp add: sample_world_def sample_callback_def sample_env_def)
qed

theorem sanitizeReturnTo_stays_on_site_witness:
  "sanitizeReturnTo (Some ''/logs?q=1'') = ''/logs?q=1''"
proof -
  have "isValidReturnTo ''/logs?q=1'' \<and> trim ''/logs?q=1'' = ''/logs?q=1''" by code_simp
  then show ?thesis using sanitizeReturnTo_stays_on_site [of None "''/logs?q=1''"] by blast
qed


definition sample_suspended :: world where
  "sample_suspended = sample_pending\<lparr>w_db := (w_db sample_pending)\<lparr>db_tenants :=
     map (\<lambda>t. t\<lparr>tn_status := TS_suspended\<rparr>) (db_tenants (w_db sample_pending))\<rparr>\<rparr>"

text \<open>
  A tenant that is suspended between the authorisation request and the callback still gets a
  session from the callback, although password login and a new authorisation request are refused.
\<close>

theorem callback_ignores_suspension:
  "\<not> isl (fst (handleCallback sample_env sample_callback_draws sample_callback sample_suspended))
   \<and> fst (login sample_env sample_draws sample_login sample_suspended) = Inl invalid_credentials
   \<and> isl (fst (beginAuthorize sample_env sample_authorize ''acme'' None sample_suspended))"
  by code_simp

end
