(* ===== verification/Domain_Laws.thy ===== *)
theory Domain_Laws
  imports Services
begin

text \<open>
  Properties of the domain core: the wire formats of the three credentials, key material,
  invite routing, e-mail normalisation, and the permission matrix with its mirror in the
  contracts package.
\<close>

section \<open>Helpers\<close>

lemmas printers =
  print_api_key_def assemblePlaintext_def print_refresh_token_def assembleRefreshToken_def
  print_invite_token_def assembleInviteToken_def credential_consts

lemma byte_bound: "(of_char b :: nat) < 256"
  by (metis of_char_mod_256 mod_less_divisor zero_less_numeral)

lemma hex_chars: "c \<in> set (hex bs) \<Longrightarrow> c \<noteq> CHR ''_''"
proof (induction bs)
  case (Cons b bs)
  have digit: "hex_digit n \<noteq> CHR ''_''" if "n < 16" for n
  proof
    assume "hex_digit n = CHR ''_''"
    then have "(of_char (hex_digit n) :: nat) = 95" by simp
    with that show False by (simp split: if_splits)
  qed
  have "(of_char b :: nat) div 16 < 16" "(of_char b :: nat) mod 16 < 16"
    using byte_bound [of b] by (simp_all add: div_less_iff_less_mult)
  then have "hex_digit (of_char b div 16) \<noteq> CHR ''_''" "hex_digit (of_char b mod 16) \<noteq> CHR ''_''"
    by (simp_all only: digit not_False_eq_True)
  with Cons show ?case by (auto simp del: hex_digit.simps)
qed simp

lemma hex_length: "length (hex bs) = 2 * length bs"
  by (induction bs) simp_all

lemma slug_of_prefixed:
  "parseInviteTenantSlug (''lginv_'' @ rest) =
     (case indexOf rest ''_'' of
        None \<Rightarrow> None
      | Some i \<Rightarrow> if i = 0 \<or> i = length rest - 1 then None
                  else if tenantPublicIdSchema (take i rest) then Some (take i rest) else None)"
  by (simp add: parseInviteTenantSlug_def INVITE_TOKEN_PREFIX_def startsWith_def Let_def del: indexOf_char_None split: option.split)

lemma invite_slug_split:
  "parseInviteTenantSlug tok = Some s \<longleftrightarrow>
     tenantPublicIdSchema s \<and> (\<exists>secret. secret \<noteq> [] \<and> tok = ''lginv_'' @ s @ ''_'' @ secret)"
proof
  assume slug: "parseInviteTenantSlug tok = Some s"
  then have pre: "startsWith tok ''lginv_''"
    by (simp add: parseInviteTenantSlug_def INVITE_TOKEN_PREFIX_def split: if_splits)
  then have "take 6 tok = ''lginv_''" by (simp add: startsWith_def numeral_eq_Suc)
  then have tok: "tok = ''lginv_'' @ drop 6 tok" by (metis append_take_drop_id)
  from slug have "parseInviteTenantSlug (''lginv_'' @ drop 6 tok) = Some s" using tok by simp
  then obtain i where i: "indexOf (drop 6 tok) ''_'' = Some i" "i \<noteq> length (drop 6 tok) - 1"
      "s = take i (drop 6 tok)" "tenantPublicIdSchema s"
    unfolding slug_of_prefixed by (auto split: if_splits option.splits)
  from i(1) obtain p r where pr: "drop 6 tok = p @ CHR ''_'' # r" "i = length p"
    by (auto elim: indexOf_char_SomeE)
  with i have "s = p" "r \<noteq> []" by auto
  with tok pr i(4) show "tenantPublicIdSchema s \<and> (\<exists>secret. secret \<noteq> [] \<and> tok = ''lginv_'' @ s @ ''_'' @ secret)"
    by auto
next
  assume "tenantPublicIdSchema s \<and> (\<exists>secret. secret \<noteq> [] \<and> tok = ''lginv_'' @ s @ ''_'' @ secret)"
  then obtain secret where "tenantPublicIdSchema s" "secret \<noteq> []" "tok = ''lginv_'' @ s @ ''_'' @ secret" by blast
  with slug_no_separator [of s] show "parseInviteTenantSlug tok = Some s"
    by (simp add: parseInviteTenantSlug_def INVITE_TOKEN_PREFIX_def startsWith_def Let_def)
qed

section \<open>Properties\<close>

text \<open>
  C14. The three credential formats are exact. A string is accepted by a parser if and only if it
  is the printed form of a well-formed value, which the parser returns; and no string is accepted
  by two of the parsers, so a credential of one kind is never taken for another.
\<close>

theorem wire_formats_exact:
  "(parseApiKey raw = Inr k \<longleftrightarrow> api_key_wf k \<and> raw = print_api_key k)
   \<and> (parseRefreshToken raw = Inr t \<longleftrightarrow> refresh_token_wf t \<and> raw = print_refresh_token t)
   \<and> (parseInviteToken raw = Inr i \<longleftrightarrow> invite_token_wf i \<and> raw = print_invite_token i)
   \<and> \<not> (parseApiKey raw = Inr k \<and> parseRefreshToken raw = Inr t)
   \<and> \<not> (parseApiKey raw = Inr k \<and> parseInviteToken raw = Inr i)
   \<and> \<not> (parseRefreshToken raw = Inr t \<and> parseInviteToken raw = Inr i)"
proof -
  have "print_api_key k \<noteq> print_refresh_token t" "print_api_key k \<noteq> print_invite_token i"
    "print_refresh_token t \<noteq> print_invite_token i"
    by (auto simp: printers)
  then show ?thesis
    by (auto simp: api_key.parse_iff refresh_token.parse_iff invite_token.parse_iff)
qed

text \<open>
  An issued API key is recognised. The plaintext minted for a tenant slug from generated key
  material parses back to the slug, the key id and the secret, its id is 32 and its secret 64
  characters long, and the stored hash is the digest of the secret, never the secret itself.
\<close>

theorem minted_key_parses:
  assumes "tenantPublicIdSchema slug" "length idBytes = KEY_ID_BYTES" "length secretBytes = SECRET_BYTES"
  shows "parseApiKey (mk_plaintext (mintApiKey digest slug (generate_key_material idBytes secretBytes)))
      = Inr \<lparr> pk_publicId = slug, pk_keyId = hex idBytes, pk_secret = hex secretBytes \<rparr>
    \<and> length (hex idBytes) = 32 \<and> length (hex secretBytes) = 64
    \<and> mk_keyHash (mintApiKey digest slug (generate_key_material idBytes secretBytes)) = digest (hex secretBytes)"
proof -
  let ?k = "\<lparr> pk_publicId = slug, pk_keyId = hex idBytes, pk_secret = hex secretBytes \<rparr>"
  have len: "length (hex idBytes) = 32" "length (hex secretBytes) = 64"
    using assms(2,3) by (simp_all add: hex_length KEY_ID_BYTES_def SECRET_BYTES_def)
  then have "hex idBytes \<noteq> []" "hex secretBytes \<noteq> []" by auto
  then have "api_key_wf ?k" using slug_no_separator [OF assms(1)] hex_chars by (auto simp: api_key_wf_def)
  from api_key.parse_assemble [OF this] len show ?thesis
    by (simp add: print_api_key_def mintApiKey_def generate_key_material_def hashSecret_def)
qed

theorem minted_key_parses_witness:
  "parseApiKey (mk_plaintext (mintApiKey (\<lambda>s. s) ''acme''
      (generate_key_material (replicate 16 (CHR ''a'')) (replicate 32 (CHR ''b'')))))
     = Inr \<lparr> pk_publicId = ''acme'', pk_keyId = hex (replicate 16 (CHR ''a'')),
             pk_secret = hex (replicate 32 (CHR ''b'')) \<rparr>"
proof -
  have "tenantPublicIdSchema ''acme''" by code_simp
  from minted_key_parses [OF this, of "replicate 16 (CHR ''a'')" "replicate 32 (CHR ''b'')" "\<lambda>s. s"]
  show ?thesis by (simp add: KEY_ID_BYTES_def SECRET_BYTES_def)
qed

text \<open>
  The slug the web front end routes an invitee by is the one the control plane will see: the
  front end extracts a slug exactly when it has the shape of a tenant slug and the control plane
  parses the same token to that slug.
\<close>

theorem invite_slug_agrees:
  "parseInviteTenantSlug tok = Some s \<longleftrightarrow>
     tenantPublicIdSchema s \<and> (\<exists>secret. parseInviteToken tok = Inr \<lparr> pi_publicId = s, pi_secret = secret \<rparr>)"
  using slug_no_separator [of s]
  by (auto simp: invite_slug_split parseInviteToken_eq_Inr invite_token_wf_def printers)

text \<open>
  E-mail normalisation is a canonical form: normalising twice changes nothing, and case and
  surrounding white space do not matter.
\<close>

lemma normalizeEmail_canonical:
  "normalizeEmail (normalizeEmail e) = normalizeEmail e
   \<and> normalizeEmail (toLowerCase e) = normalizeEmail e
   \<and> normalizeEmail (trim e) = normalizeEmail e"
  by (simp add: normalizeEmail_def normalize_NFC_def trim_toLowerCase)

text \<open>
  Separation of roles. A platform operator has the operations of the tenant registry and no
  other, so none on the content of a tenant; a member has a subset of the administrator's
  operations and none of them changes anything; and every operation is granted to some role.
\<close>

definition reads_only :: "operation \<Rightarrow> bool" where
  "reads_only op \<longleftrightarrow>
     op \<in> {Tenant_read, Tenant_list, User_read, User_list, Apikey_list, Retention_read, Alert_read, Alert_list,
            Savedquery_read, Savedquery_list, Dashboard_read, Dashboard_list, Invite_list}"

definition registry_operation :: "operation \<Rightarrow> bool" where
  "registry_operation op \<longleftrightarrow> take 7 (op_name op) = ''tenant:''"

theorem role_separation:
  "(can platform_operator op \<longleftrightarrow> registry_operation op)
   \<and> {op. can member op} \<subseteq> {op. can tenant_admin op \<and> reads_only op}
   \<and> {op. can tenant_admin op \<and> can platform_operator op} = {Tenant_read}
   \<and> (\<exists>r. can r op)"
proof -
  have "can platform_operator op \<longleftrightarrow> registry_operation op"
    by (cases op) (simp_all add: can_iffs registry_operation_def)
  moreover have "{op. can member op} \<subseteq> {op. can tenant_admin op \<and> reads_only op}"
    by (auto simp: can_iffs reads_only_def)
  moreover have "{op. can tenant_admin op \<and> can platform_operator op} = {Tenant_read}"
    by (auto simp: can_iffs)
  moreover have "\<exists>r. can r op"
    by (cases op) (auto simp: can_iffs intro: exI [of _ tenant_admin] exI [of _ platform_operator])
  ultimately show ?thesis by blast
qed

text \<open>
  The web mirror of the matrix tells the truth. On the operations the user interface knows,
  its answer is the control plane's for every role; on all others it answers no.
\<close>

theorem ui_matrix_agrees:
  "ui_can r op \<longleftrightarrow> op \<in> set UI_OPERATIONS \<and> can r op"
  by (cases r; cases op) (simp_all add: ui_can_def UI_OPERATIONS_def can_def can_name_def)

end
