(* ===== verification/Invite_Laws.thy ===== *)
theory Invite_Laws
  imports Oidc_Laws Domain_Laws
begin

text \<open>
  The life of an invite: issued under the cap of its tenant, redeemed by at most one first sign-in,
  or revoked. A redemption is one transaction over the invite, the account and the linked identity.
\<close>

section \<open>Redeeming an invite\<close>

definition spent_hash :: "bytes \<Rightarrow> db \<Rightarrow> bool" where
  "spent_hash h d \<longleftrightarrow> (\<forall>r \<in> set (db_invites d). iv_token_hash r = h \<longrightarrow> iv_status r \<noteq> ''pending'')"

lemma update_stmt_none:
  assumes "\<And>r. r \<in> set (get d) \<Longrightarrow> \<not> p r" "rows_ok ck ix (get d)" "upd (\<lambda>_. get d) d = d"
  shows "update_stmt ck ix get upd tenant_of sc p f d = (Inr [], d)"
proof -
  have same: "rls_update tenant_of sc p f (get d) = get d"
    using assms(1) by (auto simp: rls_update_def intro: map_idI)
  have "filter p (rls tenant_of sc (get d)) = []" using assms(1) by (auto simp: rls_def filter_empty_conv)
  then show ?thesis using assms(2,3) by (auto simp: update_stmt_Inr same)
qed

lemma invites_rows_ok: "db_ok d \<Longrightarrow> rows_ok invites_checks invites_indexes (db_invites d)"
  by (simp add: db_ok_def keys_ok_def)

lemma consume_spent:
  assumes "spent_hash h d" "rows_ok invites_checks invites_indexes (db_invites d)"
  shows "consumeWithClient sc now h email t d = (Inr None, d)"
proof -
  have "update_invites sc (consumable h email t)
      (\<lambda>r. r\<lparr> iv_status := ''consumed'', iv_consumed_at := Some t, iv_updated_at := now \<rparr>) d = (Inr [], d)"
    unfolding update_invites_def
    by (rule update_stmt_none) (use assms in \<open>auto simp: spent_hash_def consumable_def\<close>)
  then show ?thesis by (simp add: consumeWithClient_def andThen_Inr)
qed

lemma unique_hash:
  assumes "rows_ok invites_checks invites_indexes rows" "a \<in> set rows" "b \<in> set rows" "iv_token_hash a = iv_token_hash b"
  shows "a = b"
  by (rule rows_ok_unique [OF assms(1), of "(''invites_token_hash_key'', \<lambda>r. Some [iv_token_hash r])"])
     (use assms in \<open>auto simp: invites_indexes_def\<close>)

lemma consume_Some:
  assumes "consumeWithClient sc now h email t d = (Inr (Some c), d')"
  shows "\<exists>r v. sc = Some v \<and> r \<in> set (db_invites d) \<and> iv_tenant_id r = v \<and> consumable h email t r
    \<and> ci_role c = iv_role r \<and> spent_hash h d' \<and> rows_ok invites_checks invites_indexes (db_invites d')
    \<and> (\<exists>rows. d' = d\<lparr>db_invites := rows\<rparr>)"
proof -
  let ?f = "\<lambda>r. r\<lparr> iv_status := ''consumed'', iv_consumed_at := Some t, iv_updated_at := now \<rparr>"
  let ?rows = "rls_update iv_tenant_id sc (consumable h email t) ?f (db_invites d)"
  from assms have ok: "rows_ok invites_checks invites_indexes ?rows" and d': "d' = d\<lparr>db_invites := ?rows\<rparr>"
    and row: "\<exists>r. first_row (filter (consumable h email t) (rls iv_tenant_id sc (db_invites d))) = Some r \<and> ci_role c = iv_role r"
    by (auto simp: consumeWithClient_def andThen_eq_Inr update_invites_def update_stmt_Inr split: option.splits)
  then obtain r where r: "r \<in> set (db_invites d)" "sc = Some (iv_tenant_id r)" "consumable h email t r" "ci_role c = iv_role r"
    by (cases sc) (auto simp: first_row_filter rls_def dest!: find_member)
  have "?f r \<in> set ?rows" using r by (force simp: rls_update_def)
  then have "iv_status x \<noteq> ''pending''" if "x \<in> set ?rows" "iv_token_hash x = h" for x
    using unique_hash [OF ok that(1), of "?f r"] that(2) r(3) by (auto simp: consumable_def)
  then have "spent_hash h d'" by (auto simp: spent_hash_def d')
  with r ok d' show ?thesis by auto
qed


definition new_user :: "uuid \<Rightarrow> uuid \<Rightarrow> millis \<Rightarrow> NewUser \<Rightarrow> user_row" where
  "new_user n v now inp =
     \<lparr> us_id = n, us_tenant_id = v, us_email = nu_email inp, us_password_hash = nu_passwordHash inp,
       us_display_name = nu_displayName inp, us_status = ''active'', us_is_platform_operator = False,
       us_created_at = now, us_updated_at = now \<rparr>"

definition new_membership :: "uuid \<Rightarrow> uuid \<Rightarrow> millis \<Rightarrow> NewUser \<Rightarrow> membership_row" where
  "new_membership n v now inp =
     \<lparr> mb_tenant_id = v, mb_user_id = n, mb_role = nu_role inp, mb_created_at = now, mb_updated_at = now \<rparr>"

lemma select_user_id:
  assumes "select_user sc (\<lambda>u. us_id u = n) d = (Inr rows, d')" "first_row rows = Some u"
  shows "d' = d \<and> user_id u = n"
proof -
  have "set rows \<subseteq> {u. user_id u = n}" "d' = d" using assms(1) by (auto simp: select_user_def toUser_def)
  moreover have "u \<in> set rows" using assms(2) by (cases rows) auto
  ultimately show ?thesis by auto
qed

lemma required_row:
  "(case v of None \<Rightarrow> throw e | Some u \<Rightarrow> ret u) s = (Inr x, s') \<longleftrightarrow> v = Some x \<and> s' = s"
  by (auto simp: throw_def split: option.split)

lemma insertUser_Inr:
  assumes "insertUserWithMembership n now sc inp d = (Inr user, d')"
  shows "\<exists>v. sc = Some v \<and> user_id user = n
    \<and> d' = d\<lparr>db_users := db_users d @ [new_user n v now inp],
             db_memberships := db_memberships d @ [new_membership n v now inp]\<rparr>"
  using assms unfolding insertUserWithMembership_def tryCatch_rethrow_Inr
  by (cases sc)
     (auto simp: andThen_eq_Inr tenant_param_def insert_users_def insert_memberships_def insert_stmt_Inr
        throw_def new_user_def new_membership_def required_row dest: select_user_id)

lemma linkFirst_frame:
  assumes "linkFirstWithClient ui n now sc inp d = (Inr ref, d')"
  shows "\<exists>ids. d' = d\<lparr>db_oauth_identities := ids\<rparr>"
  using assms unfolding linkFirstWithClient_def tryCatch_eq_Inr
proof (elim disjE exE conjE, goal_cases)
  case 1
  then show ?case
    by (cases sc) (auto simp: andThen_eq_Inr tenant_param_def insert_oauth_identities_def insert_stmt_Inr throw_def
        dest!: cast_uuid_Inr)
next
  case (2 e t)
  have "t = d"
    using 2(1) by (cases sc) (auto simp: andThen_eq_Inl tenant_param_def insert_oauth_identities_def throw_def cast_uuid_def
        dest!: insert_stmt_Inl split: option.splits)
  moreover have "d' = t"
    using 2(2) by (auto simp: andThen_eq_Inr select_oauth_identities_def select_stmt_def throw_def
        split: if_splits option.splits)
  ultimately show ?case by (metis db.surjective db.update_convs(10))
qed

lemma provision_Some:
  assumes "provisionFromInvite_db ui nu nl now t inp d = (Inr (Some uid), d')"
  shows "uid = nu \<and> spent_hash (ip_inviteTokenHash inp) d' \<and> rows_ok invites_checks invites_indexes (db_invites d')
    \<and> (\<exists>v iv u m. current_tenant_id ui t = Inr (Some v)
         \<and> iv \<in> set (db_invites d) \<and> iv_tenant_id iv = v \<and> consumable (ip_inviteTokenHash inp) (ip_email inp) (ip_now inp) iv
         \<and> u \<in> set (db_users d') \<and> us_id u = uid \<and> us_tenant_id u = v \<and> us_email u = iv_email iv
         \<and> us_password_hash u = DISABLED_PASSWORD \<and> us_status u = ''active''
         \<and> m \<in> set (db_memberships d') \<and> mb_tenant_id m = v \<and> mb_user_id m = uid \<and> mb_role m = translateRole (iv_role iv)
         \<and> linked v (ip_providerSub inp) uid d')"
proof -
  from assms obtain sc c d1 user d2 ref where sc: "current_tenant_id ui t = Inr sc"
    and con: "consumeWithClient sc now (ip_inviteTokenHash inp) (ip_email inp) (ip_now inp) d = (Inr (Some c), d1)"
    and ins: "insertUserWithMembership nu now sc
      \<lparr> nu_email = ip_email inp, nu_passwordHash = DISABLED_PASSWORD, nu_displayName = None,
        nu_role = translateRole (ci_role c) \<rparr> d1 = (Inr user, d2)"
    and lnk: "linkFirstWithClient ui nl now sc
      \<lparr> noi_userId = user_id user, noi_provider = google, noi_providerSub = ip_providerSub inp,
        noi_email = ip_email inp \<rparr> d2 = (Inr ref, d')" and uid: "oref_userId ref = uid" "user_id user = uid"
    by (auto simp: provisionFromInvite_db_def provision_tx_def tryCatch_eq_Inr withTenantTx_Inr andThen_eq_Inr throw_def
        split: option.splits if_splits)
  obtain ids where d': "d' = d2\<lparr>db_oauth_identities := ids\<rparr>" using linkFirst_frame [OF lnk] by blast
  from consume_Some [OF con] obtain iv v where sv: "sc = Some v" and iv: "iv \<in> set (db_invites d)" "iv_tenant_id iv = v"
      "consumable (ip_inviteTokenHash inp) (ip_email inp) (ip_now inp) iv" "ci_role c = iv_role iv"
    and sp: "spent_hash (ip_inviteTokenHash inp) d1" "rows_ok invites_checks invites_indexes (db_invites d1)" by blast
  let ?inp = "\<lparr> nu_email = ip_email inp, nu_passwordHash = DISABLED_PASSWORD, nu_displayName = None,
    nu_role = translateRole (ci_role c) \<rparr>"
  have d2: "user_id user = nu" "d2 = d1\<lparr>db_users := db_users d1 @ [new_user nu v now ?inp],
      db_memberships := db_memberships d1 @ [new_membership nu v now ?inp]\<rparr>"
    using insertUser_Inr [OF ins] sv by auto
  have "new_user nu v now ?inp \<in> set (db_users d')" "new_membership nu v now ?inp \<in> set (db_memberships d')"
    by (simp_all add: d' d2)
  moreover have "linked v (ip_providerSub inp) uid d'" using linkFirst_linked [OF lnk] sv uid(1) by simp
  moreover have "us_email (new_user nu v now ?inp) = iv_email iv" using iv(3) by (simp add: new_user_def consumable_def)
  ultimately show ?thesis
    using sc sv iv sp uid(2) d2
    by (intro conjI exI [of _ v] exI [of _ iv] exI [of _ "new_user nu v now ?inp"] exI [of _ "new_membership nu v now ?inp"])
       (simp_all add: d' spent_hash_def new_user_def new_membership_def)
qed

lemma rls_update_unmatched:
  "filter p (rls tenant_of sc rows) = [] \<Longrightarrow> rls_update tenant_of sc p f rows = rows"
  by (auto simp: rls_update_def rls_def filter_empty_conv intro!: map_idI)

lemma consume_None: "consumeWithClient sc now h email t d = (Inr None, d') \<Longrightarrow> d' = d"
  by (auto simp: consumeWithClient_def andThen_eq_Inr update_invites_def update_stmt_Inr first_row_None
      rls_update_unmatched split: option.splits)

lemma provision_failed:
  assumes "provisionFromInvite_db ui nu nl now t inp d = (r, d')" "\<And>uid. r \<noteq> Inr (Some uid)"
  shows "d' = d"
proof (cases "provision_tx ui nu nl now t inp d")
  case (Pair r' d1)
  show ?thesis
  proof (cases r')
    case (Inl e)
    with Pair have "d1 = d" by (simp add: provision_tx_def withTenantTx_Inl)
    with assms(1) Pair Inl show ?thesis
      by (auto simp: provisionFromInvite_db_def tryCatch_def throw_def split: if_splits)
  next
    case (Inr x)
    with assms(1) Pair have run: "r = Inr x" "d' = d1" by (auto simp: provisionFromInvite_db_def tryCatch_def)
    with assms(2) have "x = None" by (cases x) auto
    with Pair Inr run show ?thesis
      by (auto simp: provision_tx_def withTenantTx_Inr andThen_eq_Inr throw_def split: option.splits if_splits
          dest: consume_None)
  qed
qed

lemma provision_spent:
  assumes "spent_hash (ip_inviteTokenHash inp) d" "rows_ok invites_checks invites_indexes (db_invites d)"
    "current_tenant_id ui t = Inr sc"
  shows "provisionFromInvite_db ui nu nl now t inp d = (Inr None, d)"
  by (simp add: provisionFromInvite_db_def provision_tx_def tryCatch_def withTenantTx_armed [OF assms(3)]
      andThen_def consume_spent [OF assms(1,2)])


text \<open>
  C20. An invite is redeemed all or nothing and at most once. A first sign-in that does not provision
  an account leaves the database as it was. One that does found a pending, unexpired invite of the
  tenant for that very e-mail address, created an active account with the invited role and no usable
  password, and linked the Google subject to it; after that nobody can redeem the token again, in
  any tenant and for any address.
\<close>

theorem invite_redeemed_once:
  assumes "provisionFromInvite_db ui nu nl now t inp d = (r, d')"
  shows "((\<forall>uid. r \<noteq> Inr (Some uid)) \<longrightarrow> d' = d)
    \<and> (\<forall>uid. r = Inr (Some uid) \<longrightarrow>
        (\<exists>v iv u m. current_tenant_id ui t = Inr (Some v) \<and> iv \<in> set (db_invites d) \<and> iv_tenant_id iv = v
           \<and> iv_token_hash iv = ip_inviteTokenHash inp \<and> iv_email iv = ip_email inp
           \<and> iv_status iv = ''pending'' \<and> ip_now inp < iv_expires_at iv
           \<and> u \<in> set (db_users d') \<and> us_id u = uid \<and> us_tenant_id u = v \<and> us_email u = ip_email inp
           \<and> us_password_hash u = DISABLED_PASSWORD \<and> us_status u = ''active''
           \<and> m \<in> set (db_memberships d') \<and> mb_tenant_id m = v \<and> mb_user_id m = uid
           \<and> mb_role m = translateRole (iv_role iv) \<and> linked v (ip_providerSub inp) uid d')
        \<and> (\<forall>nu2 nl2 now2 t2 inp2 sc. ip_inviteTokenHash inp2 = ip_inviteTokenHash inp \<and> current_tenant_id ui t2 = Inr sc
             \<longrightarrow> provisionFromInvite_db ui nu2 nl2 now2 t2 inp2 d' = (Inr None, d')))"
proof (intro conjI impI allI)
  assume "\<forall>uid. r \<noteq> Inr (Some uid)"
  then show "d' = d" using provision_failed [OF assms] by blast
next
  fix uid
  assume r: "r = Inr (Some uid)"
  show "\<exists>v iv u m. current_tenant_id ui t = Inr (Some v) \<and> iv \<in> set (db_invites d) \<and> iv_tenant_id iv = v
           \<and> iv_token_hash iv = ip_inviteTokenHash inp \<and> iv_email iv = ip_email inp
           \<and> iv_status iv = ''pending'' \<and> ip_now inp < iv_expires_at iv
           \<and> u \<in> set (db_users d') \<and> us_id u = uid \<and> us_tenant_id u = v \<and> us_email u = ip_email inp
           \<and> us_password_hash u = DISABLED_PASSWORD \<and> us_status u = ''active''
           \<and> m \<in> set (db_memberships d') \<and> mb_tenant_id m = v \<and> mb_user_id m = uid
           \<and> mb_role m = translateRole (iv_role iv) \<and> linked v (ip_providerSub inp) uid d'"
    using provision_Some [OF assms [unfolded r]] unfolding consumable_def by metis
next
  fix uid nu2 nl2 now2 t2 sc and inp2 :: InviteProvisionInput
  assume "r = Inr (Some uid)" "ip_inviteTokenHash inp2 = ip_inviteTokenHash inp \<and> current_tenant_id ui t2 = Inr sc"
  then show "provisionFromInvite_db ui nu2 nl2 now2 t2 inp2 d' = (Inr None, d')"
    using provision_Some [of ui nu nl now t inp d uid d'] assms by (intro provision_spent) auto
qed


section \<open>Issuing and revoking\<close>

definition pending_count :: "uuid \<Rightarrow> db \<Rightarrow> nat" where
  "pending_count v d = length (filter (\<lambda>r. iv_tenant_id r = v \<and> iv_status r = ''pending'') (db_invites d))"

lemma countPending_run:
  assumes "ui t = Some v" "t \<noteq> []"
  shows "invites_countPending ui t d = (Inr (int (pending_count v d)), d)"
  using assms
  by (simp add: invites_countPending_def armed_run andThen_def select_invites_def select_stmt_def rls_Some
      pending_count_def conj_commute)

lemma invites_create_Inr:
  assumes "ui t = Some v" "t \<noteq> []" "invites_create ui n now t inp d = (Inr i, d')"
  shows "\<exists>row. d' = d\<lparr>db_invites := db_invites d @ [row]\<rparr> \<and> iv_tenant_id row = v \<and> iv_id row = n
    \<and> iv_status row = ''pending'' \<and> iv_email row = ni_email inp \<and> iv_role row = ni_role inp
    \<and> iv_token_hash row = ni_secretHash inp \<and> iv_expires_at row = ni_expiresAt inp
    \<and> inv_id i = n \<and> inv_email i = ni_email inp \<and> inv_role i = ni_role inp"
  using assms
  by (auto simp: invites_create_def withTenantTx_Inr andThen_eq_Inr insert_invites_def insert_stmt_Inr toInvite_def
      isInviteStatus_def INVITE_STATUSES_def dest!: cast_uuid_opt_Inr)

lemma tenant_slug_ok: "db_ok d \<Longrightarrow> t \<in> set (db_tenants d) \<Longrightarrow> tenantPublicIdSchema (tn_public_id t)"
  by (auto simp: db_ok_def keys_ok_def rows_ok_def tenants_checks_def list_all_iff)

lemma issued_token:
  assumes "tenantPublicIdSchema slug" "secret \<noteq> []"
  shows "parseInviteTenantSlug (assembleInviteToken slug secret) = Some slug"
    "invite_token_hash E (Some (assembleInviteToken slug secret)) = Some (sha256 E secret)"
proof -
  have p: "parseInviteToken (assembleInviteToken slug secret) = Inr \<lparr> pi_publicId = slug, pi_secret = secret \<rparr>"
    using slug_no_separator [OF assms(1)] assms(2)
    by (simp add: parseInviteToken_eq_Inr invite_token_wf_def print_invite_token_def)
  show "parseInviteTenantSlug (assembleInviteToken slug secret) = Some slug"
    using assms by (auto simp: invite_slug_split assembleInviteToken_def INVITE_PREFIX_def INVITE_SEPARATOR_def)
  show "invite_token_hash E (Some (assembleInviteToken slug secret)) = Some (sha256 E secret)"
    by (simp add: invite_token_hash_def p) (simp add: assembleInviteToken_def INVITE_PREFIX_def)
qed

lemma emailSender_quiet:
  "tryCatch (emailSender_send E m) (\<lambda>_. ret ()) w = (Inr (), w\<lparr>w_outbox := w_outbox w @ [m]\<rparr>)"
  by (cases "send_email E m") (simp_all add: emailSender_send_def tryCatch_def)


text \<open>
  C21. Issuing an invite. A tenant at its cap of pending invites gets a conflict and nothing happens.
  Otherwise a successful call adds one pending row for the normalised address and keeps the tenant
  within its cap; the link handed out carries a token that the web front end attributes to the
  tenant's slug and whose digest, as the sign-in callback computes it, is the one stored; one audit
  event and one mail to the invitee with that link are produced, and a failing mail server does not
  fail the call.
\<close>

theorem invite_issue_sound:
  assumes "db_ok (w_db w)" "uuid_in E (ctx_tenantId ctx) = Some v" "ctx_tenantId ctx \<noteq> []"
    and "inviteService_create E secret now n dbNow ctx cmd w = (r, w')"
  shows "(inviteMaxOutstandingPerTenant E \<le> int (pending_count v (w_db w)) \<longrightarrow> isl r \<and> w' = w)
    \<and> (\<forall>iss. r = Inr iss \<longrightarrow>
        (\<exists>row ten tok ev.
           w_db w' = (w_db w)\<lparr>db_invites := db_invites (w_db w) @ [row]\<rparr>
           \<and> iv_tenant_id row = v \<and> iv_status row = ''pending'' \<and> iv_role row = cinv_role cmd
           \<and> iv_email row = normalizeEmail (cinv_email cmd) \<and> iv_expires_at row = now + inviteTtlSeconds E * 1000
           \<and> int (pending_count v (w_db w')) \<le> inviteMaxOutstandingPerTenant E
           \<and> ten \<in> set (db_tenants (w_db w)) \<and> tn_id ten = v
           \<and> iss_inviteUrl iss = inviteAcceptBaseUrl E @ ''/invite/accept?token='' @ tok
           \<and> parseInviteTenantSlug tok = Some (tn_public_id ten)
           \<and> invite_token_hash E (Some tok) = Some (iv_token_hash row)
           \<and> w_invite_audit w' = w_invite_audit w @ [ev] \<and> ia_outcome ev = invite_created
           \<and> w_outbox w' = w_outbox w @ [invite_mail (iv_email row) (iss_inviteUrl iss)]))"
proof -
  let ?t = "find (\<lambda>t. tn_id t = v) (db_tenants (w_db w))"
  have ten: "andThen (onDb (tenants_findById (uuid_in E) (ctx_tenantId ctx))) g w = g (map_option toTenant ?t) w"
    for g :: "_ \<Rightarrow> (world, IssuedInvite) prog"
    by (simp add: andThen_def onDb_def tenants_findById_run [OF assms(2)])
  have cnt: "andThen (onDb (invites_countPending (uuid_in E) (ctx_tenantId ctx))) g w = g (int (pending_count v (w_db w))) w"
    for g :: "_ \<Rightarrow> (world, IssuedInvite) prog"
    by (simp add: andThen_def onDb_def countPending_run [where v = v] assms(2,3))
  show ?thesis
  proof (cases "isl r \<and> w' = w")
    case True
    then show ?thesis by (cases r) auto
  next
    case False
    have may: "can (ctx_role ctx) Invite_create"
      using assms(4) False by (cases "can (ctx_role ctx) Invite_create") (auto simp: inviteService_create_def)
    obtain t where t: "?t = Some t"
      using assms(4) False may by (cases ?t) (auto simp: inviteService_create_def ten throw_def)
    let ?email = "normalizeEmail (cinv_email cmd)" and ?tok = "assembleInviteToken (tn_public_id t) secret"
    let ?new = "\<lparr> ni_role = cinv_role cmd, ni_email = ?email, ni_secretHash = sha256 E secret,
      ni_invitedBy = Some (ctx_principalId ctx), ni_expiresAt = now + inviteTtlSeconds E * 1000 \<rparr>"
    have cap: "int (pending_count v (w_db w)) < inviteMaxOutstandingPerTenant E"
      and len: "length secret = INVITE_SECRET_HEX_LENGTH"
      using assms(4) False may t
      by (auto simp: inviteService_create_def ten cnt throw_def split: if_splits)
    have "\<exists>row ten tok ev.
           w_db w' = (w_db w)\<lparr>db_invites := db_invites (w_db w) @ [row]\<rparr>
           \<and> iv_tenant_id row = v \<and> iv_status row = ''pending'' \<and> iv_role row = cinv_role cmd
           \<and> iv_email row = normalizeEmail (cinv_email cmd) \<and> iv_expires_at row = now + inviteTtlSeconds E * 1000
           \<and> int (pending_count v (w_db w')) \<le> inviteMaxOutstandingPerTenant E
           \<and> ten \<in> set (db_tenants (w_db w)) \<and> tn_id ten = v
           \<and> iss_inviteUrl iss = inviteAcceptBaseUrl E @ ''/invite/accept?token='' @ tok
           \<and> parseInviteTenantSlug tok = Some (tn_public_id ten)
           \<and> invite_token_hash E (Some tok) = Some (iv_token_hash row)
           \<and> w_invite_audit w' = w_invite_audit w @ [ev] \<and> ia_outcome ev = invite_created
           \<and> w_outbox w' = w_outbox w @ [invite_mail (iv_email row) (iss_inviteUrl iss)]"
      if r: "r = Inr iss" for iss
    proof -
      from assms(4) [unfolded r] obtain i d1 where
        new: "invites_create (uuid_in E) n dbNow (ctx_tenantId ctx) ?new (w_db w) = (Inr i, d1)"
        and iss: "iss_inviteUrl iss = invite_url E ?tok"
        and w': "w_db w' = d1" "w_outbox w' = w_outbox w @ [invite_mail (inv_email i) (invite_url E ?tok)]"
          "\<exists>ev. w_invite_audit w' = w_invite_audit w @ [ev] \<and> ia_outcome ev = invite_created"
        using cap len t
        by (auto simp: inviteService_create_def may ten cnt Let_def andThen_eq_Inr
            onDb_Inr log_invite_def emailSender_quiet hashInviteSecret_def)
      from invites_create_Inr [OF assms(2,3) new] obtain row where
        d1: "d1 = (w_db w)\<lparr>db_invites := db_invites (w_db w) @ [row]\<rparr>" and row: "iv_tenant_id row = v"
          "iv_status row = ''pending''" "iv_email row = ?email" "iv_role row = cinv_role cmd"
          "iv_token_hash row = sha256 E secret" "iv_expires_at row = now + inviteTtlSeconds E * 1000" "inv_email i = ?email"
        by auto
      have tm: "t \<in> set (db_tenants (w_db w))" "tn_id t = v" using find_member [OF t] by auto
      have slug: "tenantPublicIdSchema (tn_public_id t)" using tenant_slug_ok [OF assms(1) tm(1)] .
      have "secret \<noteq> []" using len by (auto simp: INVITE_SECRET_HEX_LENGTH_def INVITE_SECRET_BYTES_def)
      note tok = issued_token [OF slug this]
      have "int (pending_count v (w_db w')) \<le> inviteMaxOutstandingPerTenant E"
        using cap row(1,2) by (simp add: w'(1) d1 pending_count_def)
      moreover obtain ev where "w_invite_audit w' = w_invite_audit w @ [ev]" "ia_outcome ev = invite_created"
        using w'(3) by blast
      ultimately show ?thesis
        using w'(1,2) d1 row tm tok iss
        by (intro exI [of _ row] exI [of _ t] exI [of _ ?tok] exI [of _ ev] conjI) (simp_all add: invite_url_def)
    qed
    with cap show ?thesis by auto
  qed
qed


lemma revoke_spends:
  assumes "ui t = Some v" "t \<noteq> []" "ui i = Some x" "invites_revoke ui now t i clock d = (Inr b, d')"
  shows "(b \<longleftrightarrow> (\<exists>r \<in> set (db_invites d). iv_tenant_id r = v \<and> iv_id r = x \<and> iv_status r = ''pending''))
    \<and> (\<forall>r \<in> set (db_invites d'). iv_tenant_id r = v \<and> iv_id r = x \<longrightarrow> iv_status r \<noteq> ''pending'')
    \<and> rows_ok invites_checks invites_indexes (db_invites d')
    \<and> map (\<lambda>r. (iv_id r, iv_tenant_id r, iv_token_hash r)) (db_invites d')
        = map (\<lambda>r. (iv_id r, iv_tenant_id r, iv_token_hash r)) (db_invites d)"
proof -
  let ?p = "\<lambda>r. iv_id r = x \<and> iv_status r = ''pending''"
  let ?f = "\<lambda>r. r\<lparr> iv_status := ''revoked'', iv_updated_at := now \<rparr>"
  let ?rows = "rls_update iv_tenant_id (Some v) ?p ?f (db_invites d)"
  have run: "d' = d\<lparr>db_invites := ?rows\<rparr>" "rows_ok invites_checks invites_indexes ?rows"
    "b \<longleftrightarrow> filter ?p (rls iv_tenant_id (Some v) (db_invites d)) \<noteq> []"
    using assms by (simp_all add: invites_revoke_def withTenantTx_Inr andThen_eq_Inr update_invites_def update_stmt_Inr cast_uuid_def)
  have "map (\<lambda>r. (iv_id r, iv_tenant_id r, iv_token_hash r)) ?rows = map (\<lambda>r. (iv_id r, iv_tenant_id r, iv_token_hash r)) (db_invites d)"
    by (simp add: rls_update_def)
  moreover have "\<forall>r \<in> set ?rows. iv_tenant_id r = v \<and> iv_id r = x \<longrightarrow> iv_status r \<noteq> ''pending''"
    unfolding rls_update_def set_map by (rule ballI, erule imageE, simp)
  ultimately show ?thesis using run by (auto simp: rls_Some filter_empty_conv)
qed

lemma revoke_again:
  assumes "ui t = Some v" "t \<noteq> []" "ui i = Some x"
    "\<forall>r \<in> set (db_invites d). iv_tenant_id r = v \<and> iv_id r = x \<longrightarrow> iv_status r \<noteq> ''pending''"
    "rows_ok invites_checks invites_indexes (db_invites d)"
  shows "invites_revoke ui now t i clock d = (Inr False, d)"
proof -
  let ?p = "\<lambda>r. iv_id r = x \<and> iv_status r = ''pending''"
  have none: "filter ?p (rls iv_tenant_id (Some v) (db_invites d)) = []"
    using assms(4) by (auto simp: rls_Some filter_empty_conv)
  have "update_invites (Some v) ?p (\<lambda>r. r\<lparr> iv_status := ''revoked'', iv_updated_at := now \<rparr>) d = (Inr [], d)"
    using assms(5) none by (simp add: update_invites_def update_stmt_Inr rls_update_unmatched)
  then show ?thesis using assms(1-3) by (simp add: invites_revoke_def armed_run andThen_def cast_uuid_def)
qed

lemma invite_by_id:
  "db_ok d \<Longrightarrow> a \<in> set (db_invites d) \<Longrightarrow> b \<in> set (db_invites d) \<Longrightarrow> iv_id a = iv_id b \<Longrightarrow> a = b"
  by (rule rows_ok_unique [OF invites_rows_ok, of _ "(''invites_pkey'', \<lambda>r. Some [iv_id r])"])
     (auto simp: invites_indexes_def)

text \<open>
  Revoking an invite is final. It succeeds exactly on a pending invite of the tenant; afterwards
  its token redeems nothing and a second revocation answers not found. It is recorded in the trail.
\<close>

theorem invite_revoke_final:
  assumes "uuid_in E (ctx_tenantId ctx) = Some v" "ctx_tenantId ctx \<noteq> []" "uuid_in E i = Some x"
    and "iv \<in> set (db_invites (w_db w))" "iv_id iv = x" "iv_tenant_id iv = v" "db_ok (w_db w)"
    and "inviteService_revoke E now dbNow ctx i w = (Inr (), w')"
  shows "iv_status iv = ''pending''
    \<and> (current_tenant_id (uuid_in E) t = Inr sc \<and> ip_inviteTokenHash inp = iv_token_hash iv \<longrightarrow>
         provisionFromInvite_db (uuid_in E) nu nl dbNow2 t inp (w_db w') = (Inr None, w_db w'))
    \<and> fst (inviteService_revoke E now2 dbNow3 ctx i w') = Inl (not_found ''invite not found'')
    \<and> (\<exists>ev. w_invite_audit w' = w_invite_audit w @ [ev] \<and> ia_outcome ev = invite_revoked \<and> ia_inviteId ev = i)"
proof -
  have may: "can (ctx_role ctx) Invite_revoke"
    using assms(8) by (cases "can (ctx_role ctx) Invite_revoke") (auto simp: inviteService_revoke_def)
  from assms(8) may obtain d1 where
    rev: "invites_revoke (uuid_in E) dbNow (ctx_tenantId ctx) i now (w_db w) = (Inr True, d1)" and w': "w_db w' = d1"
      "\<exists>ev. w_invite_audit w' = w_invite_audit w @ [ev] \<and> ia_outcome ev = invite_revoked \<and> ia_inviteId ev = i"
    by (auto simp: inviteService_revoke_def andThen_eq_Inr onDb_Inr log_invite_def throw_def split: if_splits)
  note sp = revoke_spends [OF assms(1-3) rev]
  have pend: "iv_status iv = ''pending''"
  proof -
    from sp obtain r where "r \<in> set (db_invites (w_db w))" "iv_id r = x" "iv_status r = ''pending''" by auto
    with invite_by_id [OF assms(7) assms(4), of r] assms(5) show ?thesis by simp
  qed
  have "spent_hash (iv_token_hash iv) d1"
    unfolding spent_hash_def
  proof (intro ballI impI)
    fix r
    assume r: "r \<in> set (db_invites d1)" "iv_token_hash r = iv_token_hash iv"
    then have "(iv_id r, iv_tenant_id r, iv_token_hash r) \<in> (\<lambda>r. (iv_id r, iv_tenant_id r, iv_token_hash r)) ` set (db_invites (w_db w))"
      using sp by (metis (no_types, lifting) imageI list.set_map)
    then obtain r0 where r0: "r0 \<in> set (db_invites (w_db w))" "iv_id r = iv_id r0" "iv_tenant_id r = iv_tenant_id r0"
      "iv_token_hash r = iv_token_hash r0" by auto
    with r(2) have "r0 = iv" using unique_hash [OF invites_rows_ok [OF assms(7)] r0(1) assms(4)] by simp
    with r(1) r0 assms(5,6) sp show "iv_status r \<noteq> ''pending''" by auto
  qed
  moreover have ok: "rows_ok invites_checks invites_indexes (db_invites d1)" using sp by blast
  ultimately have "provisionFromInvite_db (uuid_in E) nu nl dbNow2 t inp (w_db w') = (Inr None, w_db w')"
    if "current_tenant_id (uuid_in E) t = Inr sc" "ip_inviteTokenHash inp = iv_token_hash iv"
    unfolding w'(1) by (intro provision_spent [where sc = sc]) (use that in auto)
  moreover have "fst (inviteService_revoke E now2 dbNow3 ctx i w') = Inl (not_found ''invite not found'')"
    using revoke_again [OF assms(1-3) _ ok, of dbNow3 now2] sp may
    by (simp add: inviteService_revoke_def andThen_def onDb_def w'(1))
  ultimately show ?thesis using pend w'(2) by blast
qed


section \<open>Witnesses\<close>

definition sample_invite :: CreateInviteCommand where
  "sample_invite = \<lparr> cinv_email = '' Eve@acme.io'', cinv_role = ''admin'' \<rparr>"

definition sample_invited :: world where
  "sample_invited = snd (inviteService_create sample_env (replicate 64 (CHR ''a'')) 0 ''i1'' 0 (sample_ctx tenant_admin)
     sample_invite sample_world)"

definition sample_provision :: InviteProvisionInput where
  "sample_provision = \<lparr> ip_email = ''eve@acme.io'', ip_providerSub = ''g2'',
     ip_inviteTokenHash = sample_digest (replicate 64 (CHR ''a'')), ip_now = 5 \<rparr>"

theorem invite_redeemed_once_witness:
  "let r = provisionFromInvite_db (uuid_in sample_env) ''x1'' ''l1'' 0 ''t1'' sample_provision (w_db sample_invited)
   in fst r = Inr (Some ''x1'')
      \<and> provisionFromInvite_db (uuid_in sample_env) ''x2'' ''l2'' 0 ''t1'' sample_provision (snd r) = (Inr None, snd r)"
proof -
  let ?r = "provisionFromInvite_db (uuid_in sample_env) ''x1'' ''l1'' 0 ''t1'' sample_provision (w_db sample_invited)"
  have r: "fst ?r = Inr (Some ''x1'')" by code_simp
  have t: "current_tenant_id (uuid_in sample_env) ''t1'' = Inr (Some ''t1'')" by code_simp
  have run: "?r = (Inr (Some ''x1''), snd ?r)" using r by (cases ?r) simp
  have "provisionFromInvite_db (uuid_in sample_env) ''x2'' ''l2'' 0 ''t1'' sample_provision (snd ?r) = (Inr None, snd ?r)"
    by (rule invite_redeemed_once [OF run, THEN conjunct2, THEN spec, THEN mp, OF refl, THEN conjunct2, rule_format])
       (use t in auto)
  then show ?thesis using r unfolding Let_def by blast
qed

theorem invite_issue_sound_witness:
  "int (pending_count ''t1'' (w_db sample_invited)) \<le> 5"
proof -
  let ?r = "inviteService_create sample_env (replicate 64 (CHR ''a'')) 0 ''i1'' 0 (sample_ctx tenant_admin) sample_invite sample_world"
  have "\<not> isl (fst ?r)" by code_simp
  then obtain iss where "fst ?r = Inr iss" by (cases "fst ?r") auto
  then have run: "?r = (Inr iss, sample_invited)" by (cases ?r) (simp add: sample_invited_def)
  have h: "db_ok (w_db sample_world)" "uuid_in sample_env (ctx_tenantId (sample_ctx tenant_admin)) = Some ''t1''"
    "ctx_tenantId (sample_ctx tenant_admin) \<noteq> []" "inviteMaxOutstandingPerTenant sample_env = 5" by code_simp+
  from invite_issue_sound [OF h(1-3) run, THEN conjunct2, THEN spec, THEN mp, OF refl]
  have "int (pending_count ''t1'' (w_db sample_invited)) \<le> inviteMaxOutstandingPerTenant sample_env" by (elim exE conjE)
  with h(4) show ?thesis by simp
qed

theorem invite_revoke_final_witness:
  "fst (inviteService_revoke sample_env 7 7 (sample_ctx tenant_admin) ''i1''
     (snd (inviteService_revoke sample_env 6 6 (sample_ctx tenant_admin) ''i1'' sample_invited)))
   = Inl (not_found ''invite not found'')"
proof -
  let ?ctx = "sample_ctx tenant_admin"
  let ?r = "inviteService_revoke sample_env 6 6 ?ctx ''i1'' sample_invited"
  let ?iv = "hd (db_invites (w_db sample_invited))"
  have "fst ?r = Inr ()" by code_simp
  then have "?r = (Inr (), snd ?r)" by (cases ?r) simp
  moreover have "uuid_in sample_env (ctx_tenantId ?ctx) = Some ''t1''" "ctx_tenantId ?ctx \<noteq> []"
    "uuid_in sample_env ''i1'' = Some ''i1''" "?iv \<in> set (db_invites (w_db sample_invited))" "iv_id ?iv = ''i1''"
    "iv_tenant_id ?iv = ''t1''" "db_ok (w_db sample_invited)" by code_simp+
  ultimately show ?thesis using invite_revoke_final by blast
qed

text \<open>
  A second invite for an address that still has a pending one, expired or not, is not answered
  as a conflict: the unique-index error of the database passes through the service untranslated and
  becomes a 500.
\<close>

theorem invite_duplicate_unmapped:
  "let r = inviteService_create sample_env (replicate 64 (CHR ''b'')) 900000 ''i2'' 900000 (sample_ctx tenant_admin)
     sample_invite sample_invited
   in iv_expires_at (hd (db_invites (w_db sample_invited))) < 900000
      \<and> (case fst r of Inl e \<Rightarrow> e = PgError ''23505'' ''uq_invites_pending_per_email'' \<and> rep_status (errorHandler e) = 500
         | Inr _ \<Rightarrow> False)"
  by code_simp

end
