(* ===== verification/Admin_Laws.thy ===== *)
theory Admin_Laws
  imports Invite_Laws
begin

text \<open>
  The administrative services against what they are for: removing a tenant removes exactly its
  data, a created user can log in, an issued API key parses to what was stored and can be revoked
  once, and a retention policy stays within its limits.
\<close>

section \<open>Removing a tenant\<close>

lemma tenant_view_drop:
  assumes "t \<noteq> v"
  shows "tenant_view t ((drop_tenant_rows (\<lambda>x. x = v) d)\<lparr>db_tenants := filter (\<lambda>r. tn_id r \<noteq> v) (db_tenants d)\<rparr>)
    = tenant_view t d"
proof -
  have "(x \<noteq> v \<and> x = t) = (x = t)" for x using assms by auto
  then show ?thesis by (simp add: tenant_view_def drop_tenant_rows_def)
qed

lemma delete_tenant_others:
  assumes "authors_local d" "t \<noteq> v" "tenant_gone (\<lambda>r. tn_id r = v) d v"
  shows "tenant_view t (delete_tenants now (\<lambda>r. tn_id r = v) d) = tenant_view t d"
proof -
  have gone: "tenant_gone (\<lambda>r. tn_id r = v) d = (\<lambda>x. x = v)"
    using assms(3) by (auto simp: tenant_gone_def list_ex_iff fun_eq_iff)
  let ?d1 = "delete_users now (\<lambda>r. us_tenant_id r = v) d"
  have "tenant_view t ?d1 = tenant_view t d"
    by (rule tenant_view_delete_users [where sc = "Some v"]) (use assms in auto)
  moreover have "tenant_view t (delete_tenants now (\<lambda>r. tn_id r = v) d) = tenant_view t ?d1"
    using tenant_view_drop [OF assms(2), of ?d1] by (simp add: delete_tenants_def gone Let_def drop_tenant_rows_def)
  ultimately show ?thesis by simp
qed

text \<open>
  C22. Removing a tenant removes its row and every row that refers to it, in each of the tables of
  accounts, sessions, keys, content and invites, and nothing of anybody else; a second removal
  answers not found. Its log events stay exactly as they were: that table has no foreign key on
  purpose, and nothing of the control plane deletes from it. The outbox of alert notifications is
  not part of the model.
\<close>

theorem tenant_remove_purges:
  assumes "authors_local (w_db w)" "uuid_in E i = Some v"
    and "tenantService_remove E now ctx i w = (Inr (), w')"
  shows "tenant_view v (w_db w') = empty_db\<lparr>db_log_events := db_log_events (tenant_view v (w_db w))\<rparr>
    \<and> (\<forall>t. t \<noteq> v \<longrightarrow> tenant_view t (w_db w') = tenant_view t (w_db w))
    \<and> fst (tenantService_remove E now2 ctx i w') = Inl (not_found ''tenant not found'')"
proof -
  have may: "can (ctx_role ctx) Tenant_delete"
    using assms(3) by (cases "can (ctx_role ctx) Tenant_delete") (auto simp: tenantService_remove_def)
  from assms(2,3) may have d': "w_db w' = delete_tenants now (\<lambda>r. tn_id r = v) (w_db w)"
    and ex: "filter (\<lambda>r. tn_id r = v) (db_tenants (w_db w)) \<noteq> []"
    by (auto simp: tenantService_remove_def tenants_delete_def andThen_eq_Inr onDb_Inr cast_uuid_def throw_def split: if_splits)
  have tg: "tenant_gone (\<lambda>r. tn_id r = v) (w_db w) v"
    using ex by (auto simp: tenant_gone_def list_ex_iff filter_empty_conv)
  from delete_tenants_gone [OF tg, of now] have gone:
    "tenant_view v (w_db w') = empty_db\<lparr>db_log_events := db_log_events (tenant_view v (w_db w))\<rparr>"
    by (simp add: d' empty_db_def conj_commute cong: conj_cong)
  then have "filter (\<lambda>r. tn_id r = v) (db_tenants (w_db w')) = []"
    by (simp add: tenant_view_def empty_db_def)
  then have "fst (tenantService_remove E now2 ctx i w') = Inl (not_found ''tenant not found'')"
    using may assms(2) by (simp add: tenantService_remove_def tenants_delete_def andThen_def onDb_def cast_uuid_def)
  with gone delete_tenant_others [OF assms(1) _ tg] show ?thesis by (auto simp: d')
qed

definition sample_log_event :: log_event_row where
  "sample_log_event = \<lparr> le_tenant_id = ''t2'', le_ts = 0, le_id = ''e1'', le_service = ''api'', le_level = ''info'',
     le_message = ''hello'', le_labels = JObj [], le_trace_id = None, le_span_id = None, le_raw = JObj [] \<rparr>"

definition sample_logged_world :: world where
  "sample_logged_world = sample_world\<lparr>w_db := sample_db\<lparr>db_log_events := [sample_log_event]\<rparr>\<rparr>"

theorem tenant_remove_purges_witness:
  "tenant_view ''t2'' (w_db (snd (tenantService_remove sample_env 0 (sample_ctx platform_operator) ''t2'' sample_logged_world)))
     = empty_db\<lparr>db_log_events := [sample_log_event]\<rparr>"
proof -
  let ?r = "tenantService_remove sample_env 0 (sample_ctx platform_operator) ''t2'' sample_logged_world"
  have "fst ?r = Inr ()" by code_simp
  then have run: "?r = (Inr (), snd ?r)" by (cases ?r) simp
  have "authors_local (w_db sample_logged_world)" "uuid_in sample_env ''t2'' = Some ''t2''" by code_simp+
  from tenant_remove_purges [OF this run] have
    "tenant_view ''t2'' (w_db (snd ?r)) = empty_db\<lparr>db_log_events := db_log_events (tenant_view ''t2'' (w_db sample_logged_world))\<rparr>"
    by blast
  then show ?thesis by (simp add: sample_logged_world_def tenant_view_def sample_log_event_def)
qed

section \<open>Creating a user\<close>

text \<open>
  C23. A created user can log in: with the password it was created with and any spelling of its
  e-mail address that normalises alike, at the slug of its active tenant, and gets a session as
  itself with the role it was given. The password hash is only required to accept the password it
  was made from.
\<close>

theorem created_user_logs_in:
  assumes "db_ok (w_db w)" "digest_32 E" "bcrypt_verify E (cu_password cmd) (bcrypt_hash E salt (cu_password cmd))"
    and t: "t \<in> set (db_tenants (w_db w))" "tn_status t = TS_active" "canonical E (tn_id t)" "ctx_tenantId ctx = tn_id t"
    and new: "canonical E n" "userService_create E n now salt ctx cmd w = (Inr user, w1)"
    and "token_fresh E R (w_db w1)"
    and c: "lc_tenantSlug c = tn_public_id t" "normalizeEmail (lc_email c) = normalizeEmail (cu_email cmd)"
      "lc_password c = cu_password cmd"
  shows "\<exists>tokens w2. login E R c w1 = (Inr tokens, w2) \<and> st_tenantId tokens = tn_id t \<and> st_userId tokens = n
    \<and> st_role tokens = membership_as_role (cu_role cmd)"
proof -
  let ?inp = "\<lparr> nu_email = normalizeEmail (cu_email cmd), nu_passwordHash = bcrypt_hash E salt (cu_password cmd),
    nu_displayName = cu_displayName cmd, nu_role = cu_role cmd \<rparr>"
  let ?u = "new_user n (tn_id t) now ?inp" and ?m = "new_membership n (tn_id t) now ?inp"
  note tid = canonicalD [OF t(3)]
  have "can (ctx_role ctx) User_create"
    using new(2) by (cases "can (ctx_role ctx) User_create") (auto simp: userService_create_def)
  with new(2) have run: "users_create (uuid_in E) n now (tn_id t) ?inp (w_db w) = (Inr user, w_db w1)"
    by (auto simp: userService_create_def onDb_Inr t(4))
  have ok1: "db_ok (w_db w1)"
    using keepsD [OF users_create_ok run] assms(1) by (simp add: preserves_db_def)
  have d1: "w_db w1 = (w_db w)\<lparr>db_users := db_users (w_db w) @ [?u], db_memberships := db_memberships (w_db w) @ [?m]\<rparr>"
    using run tid by (auto simp: users_create_def withTenantTx_Inr dest!: insertUser_Inr)
  have t1: "t \<in> set (db_tenants (w_db w1))" and u1: "?u \<in> set (db_users (w_db w1))" "us_tenant_id ?u = tn_id t" "us_id ?u = n"
    using t(1) by (simp_all add: d1 new_user_def)
  have addr: "addressed c (w_db w1) = Some (t, ?u)"
    using t1 u1 t(2) c by (simp add: addressed_Some [OF ok1] new_user_def)
  have role: "auth_role (auth_of (w_db w1) ?u) = Some (membership_as_role (cu_role cmd))"
    unfolding auth_role_of [OF ok1] by (auto simp: has_role_def d1 new_user_def new_membership_def)
  have mint: "mintRefreshToken E R (tn_id t) (us_id ?u) (dr_uuid R) (w1\<lparr>w_verifies := vs\<rparr>) =
    (Inr (assembleRefreshToken (tn_id t) (dr_newId R) (dr_secret R)),
     w1\<lparr>w_verifies := vs, w_db := (w_db w1)\<lparr>db_refresh_tokens :=
       db_refresh_tokens (w_db w1) @ [session_row E R (tn_id t) (us_id ?u) (dr_uuid R)]\<rparr>\<rparr>)" for vs
    using mint_run [of "w1\<lparr>w_verifies := vs\<rparr>" E R t ?u] ok1 assms(2,10) t1 t(3) u1 new(1) by simp
  show ?thesis
    using role assms(3) c(3) u1(3)
    by (simp add: login_addressed [OF addr t(3)] Let_def andThen_def mint [unfolded u1(3)] session_tokens_def new_user_def)
qed


definition sample_cu :: CreateUserCommand where
  "sample_cu = \<lparr> cu_email = ''Cy@acme.io'', cu_password = ''pw'', cu_displayName = None, cu_role = MR_member \<rparr>"

theorem created_user_logs_in_witness:
  "\<exists>tokens w2. login sample_env sample_draws \<lparr> lc_tenantSlug = ''acme'', lc_email = '' CY@acme.io '', lc_password = ''pw'' \<rparr>
     (snd (userService_create sample_env ''x1'' 0 ''$'' (sample_ctx tenant_admin) sample_cu sample_world)) = (Inr tokens, w2)
     \<and> st_userId tokens = ''x1'' \<and> st_role tokens = member"
proof -
  let ?ctx = "sample_ctx tenant_admin" and ?t = "sample_tenant ''t1'' ''acme''"
  let ?r = "userService_create sample_env ''x1'' 0 ''$'' ?ctx sample_cu sample_world"
  let ?c = "\<lparr> lc_tenantSlug = ''acme'', lc_email = '' CY@acme.io '', lc_password = ''pw'' \<rparr>"
  let ?user = "case fst ?r of Inr u \<Rightarrow> u"
  have "\<not> isl (fst ?r)" by code_simp
  then have run: "?r = (Inr ?user, snd ?r)" by (cases ?r; cases "fst ?r") auto
  have h: "db_ok (w_db sample_world)" "bcrypt_verify sample_env (cu_password sample_cu) (bcrypt_hash sample_env ''$'' (cu_password sample_cu))"
    "?t \<in> set (db_tenants (w_db sample_world))" "tn_status ?t = TS_active" "canonical sample_env (tn_id ?t)"
    "ctx_tenantId ?ctx = tn_id ?t" "canonical sample_env ''x1''" "token_fresh sample_env sample_draws (w_db (snd ?r))"
    "lc_tenantSlug ?c = tn_public_id ?t" "normalizeEmail (lc_email ?c) = normalizeEmail (cu_email sample_cu)"
    "lc_password ?c = cu_password sample_cu" "membership_as_role (cu_role sample_cu) = member" by code_simp+
  show ?thesis
    using created_user_logs_in [OF h(1) sample_digest_32 h(2-7) run h(8-11)] unfolding h(12) by blast
qed

section \<open>API keys\<close>

lemma api_key_by_id:
  "rows_ok api_keys_checks api_keys_indexes rows \<Longrightarrow> a \<in> set rows \<Longrightarrow> b \<in> set rows \<Longrightarrow> ak_id a = ak_id b \<Longrightarrow> a = b"
  by (rule rows_ok_unique [of api_keys_checks api_keys_indexes rows "(''api_keys_pkey'', \<lambda>r. Some [ak_id r])"])
     (auto simp: api_keys_indexes_def)

lemma apiKeys_create_Inr:
  assumes "ui t = Some v" "t \<noteq> []" "apiKeys_create ui now t inp d = (Inr rec, d')"
  shows "\<exists>row. rows_ok api_keys_checks api_keys_indexes (db_api_keys d @ [row])
    \<and> d' = d\<lparr>db_api_keys := db_api_keys d @ [row]\<rparr> \<and> ak_id row = nk_keyId inp
    \<and> ak_tenant_id row = v \<and> ak_key_hash row = nk_keyHash inp \<and> ak_scopes row = nk_scopes inp
    \<and> ak_revoked_at row = None \<and> ak_expires_at row = nk_expiresAt inp"
  using assms
  by (auto simp: apiKeys_create_def withTenantTx_Inr andThen_eq_Inr insert_api_keys_def insert_stmt_Inr
      dest!: cast_uuid_opt_Inr)

lemma apiKeys_revoke_run:
  assumes "ui t = Some v" "t \<noteq> []" "rows_ok api_keys_checks api_keys_indexes (db_api_keys d)"
  shows "apiKeys_revoke ui t k now d =
    (Inr (\<exists>r \<in> set (db_api_keys d). ak_tenant_id r = v \<and> ak_id r = k \<and> ak_revoked_at r = None),
     d\<lparr>db_api_keys := rls_update ak_tenant_id (Some v) (\<lambda>r. ak_id r = k \<and> ak_revoked_at r = None)
         (\<lambda>r. r\<lparr>ak_revoked_at := Some now\<rparr>) (db_api_keys d)\<rparr>)"
proof -
  let ?p = "\<lambda>r. ak_id r = k \<and> ak_revoked_at r = None" and ?f = "\<lambda>r. r\<lparr>ak_revoked_at := Some now\<rparr>"
  have "rows_ok api_keys_checks api_keys_indexes (rls_update ak_tenant_id (Some v) ?p ?f (db_api_keys d))"
    unfolding rls_update_def
    by (rule rows_ok_map_cong [OF assms(3)]) (auto simp: api_keys_checks_def api_keys_indexes_def)
  then have "update_api_keys (Some v) ?p ?f d = (Inr (map ?f (filter ?p (rls ak_tenant_id (Some v) (db_api_keys d)))),
      d\<lparr>db_api_keys := rls_update ak_tenant_id (Some v) ?p ?f (db_api_keys d)\<rparr>)"
    by (simp add: update_api_keys_def update_stmt_Inr)
  then show ?thesis
    using assms(1,2) by (auto simp: apiKeys_revoke_def armed_run andThen_def rls_Some filter_empty_conv)
qed


lemma revoke_key_twice:
  assumes "uuid_in E (ctx_tenantId ctx) = Some v" "ctx_tenantId ctx \<noteq> []"
    and ok: "rows_ok api_keys_checks api_keys_indexes rows" and may: "can (ctx_role ctx) Apikey_revoke"
    and row: "row \<in> set rows" "ak_id row = k" "ak_tenant_id row = v" "ak_revoked_at row = None" "k \<noteq> []"
    and w: "db_api_keys (w_db w) = rows"
  shows "\<exists>w2. apiKeyService_revoke E now2 ctx k w = (Inr (), w2)
    \<and> (\<forall>r \<in> set (db_api_keys (w_db w2)). ak_id r = k \<longrightarrow> ak_revoked_at r = Some now2)
    \<and> fst (apiKeyService_revoke E now3 ctx k w2) = Inl (not_found ''api key not found'')"
proof -
  let ?p = "\<lambda>r. ak_id r = k \<and> ak_revoked_at r = None" and ?f = "\<lambda>r. r\<lparr>ak_revoked_at := Some now2\<rparr>"
  let ?rows = "rls_update ak_tenant_id (Some v) ?p ?f rows"
  let ?w2 = "w\<lparr>w_db := (w_db w)\<lparr>db_api_keys := ?rows\<rparr>\<rparr>"
  have hit: "\<exists>r \<in> set rows. ak_tenant_id r = v \<and> ak_id r = k \<and> ak_revoked_at r = None" using row by blast
  have first: "apiKeyService_revoke E now2 ctx k w = (Inr (), ?w2)"
    using may row(5) hit apiKeys_revoke_run [of "uuid_in E" "ctx_tenantId ctx" v "w_db w" k now2] assms(1,2) ok
    by (simp add: apiKeyService_revoke_def andThen_def onDb_def w)
  have marked: "ak_revoked_at r = Some now2" if "r \<in> set ?rows" "ak_id r = k" for r
  proof -
    from that(1) obtain r0 where r0: "r0 \<in> set rows" "r = (if Some v = Some (ak_tenant_id r0) \<and> ?p r0 then ?f r0 else r0)"
      unfolding rls_update_def set_map by (rule imageE)
    with that(2) have "ak_id r0 = ak_id row" using row(2) by (cases "Some v = Some (ak_tenant_id r0) \<and> ?p r0") auto
    with r0 have "r0 = row" using api_key_by_id [OF ok _ row(1)] by blast
    with r0(2) row show ?thesis by simp
  qed
  have ok2: "rows_ok api_keys_checks api_keys_indexes ?rows"
    unfolding rls_update_def by (rule rows_ok_map_cong [OF ok]) (auto simp: api_keys_checks_def api_keys_indexes_def)
  have "\<not> (\<exists>r \<in> set ?rows. ak_tenant_id r = v \<and> ak_id r = k \<and> ak_revoked_at r = None)"
    using marked by (metis option.distinct(1))
  then have "fst (apiKeyService_revoke E now3 ctx k ?w2) = Inl (not_found ''api key not found'')"
    using may row(5) apiKeys_revoke_run [of "uuid_in E" "ctx_tenantId ctx" v "w_db ?w2" k now3] assms(1,2) ok2
    by (simp add: apiKeyService_revoke_def andThen_def onDb_def)
  with first marked show ?thesis by auto
qed

text \<open>
  C24. An issued API key. The plaintext shown once parses to the tenant's slug, the key id and the
  secret; what is stored is one new unrevoked row with that id, the digest of the secret and at least
  one scope. The key can be revoked, which marks its row, and a second revocation answers not found.
\<close>

theorem api_key_lifecycle:
  assumes "db_ok (w_db w)" "uuid_in E (ctx_tenantId ctx) = Some v" "ctx_tenantId ctx \<noteq> []"
    and "km_keyId m \<noteq> []" "CHR ''_'' \<notin> set (km_keyId m)" "km_secret m \<noteq> []"
    and "apiKeyService_issue E m now ctx cmd w = (Inr iss, w1)"
  shows "\<exists>ten row. ten \<in> set (db_tenants (w_db w)) \<and> tn_id ten = v
    \<and> parseApiKey (issued_plaintext iss) =
        Inr \<lparr> pk_publicId = tn_public_id ten, pk_keyId = km_keyId m, pk_secret = km_secret m \<rparr>
    \<and> w_db w1 = (w_db w)\<lparr>db_api_keys := db_api_keys (w_db w) @ [row]\<rparr>
    \<and> ak_tenant_id row = v \<and> ak_id row = km_keyId m \<and> ak_key_hash row = sha256 E (km_secret m)
    \<and> ak_scopes row \<noteq> [] \<and> ak_revoked_at row = None
    \<and> (\<exists>w2. apiKeyService_revoke E now2 ctx (km_keyId m) w1 = (Inr (), w2)
         \<and> (\<forall>r \<in> set (db_api_keys (w_db w2)). ak_id r = km_keyId m \<longrightarrow> ak_revoked_at r = Some now2)
         \<and> fst (apiKeyService_revoke E now3 ctx (km_keyId m) w2) = Inl (not_found ''api key not found''))"
proof -
  let ?t = "find (\<lambda>t. tn_id t = v) (db_tenants (w_db w))"
  have may: "can (ctx_role ctx) Apikey_create"
    using assms(7) by (cases "can (ctx_role ctx) Apikey_create") (auto simp: apiKeyService_issue_def)
  then have rev: "can (ctx_role ctx) Apikey_revoke" by (cases "ctx_role ctx") (simp_all add: can_iffs)
  have ten: "andThen (onDb (tenants_findById (uuid_in E) (ctx_tenantId ctx))) g w = g (map_option toTenant ?t) w"
    for g :: "_ \<Rightarrow> (world, IssuedApiKey) prog"
    by (simp add: andThen_def onDb_def tenants_findById_run [OF assms(2)])
  obtain t where t: "?t = Some t"
    using assms(7) may by (cases ?t) (auto simp: apiKeyService_issue_def ten throw_def)
  let ?minted = "mintApiKey (sha256 E) (tn_public_id t) m"
  let ?scopes = "case ik_scopes cmd of None \<Rightarrow> DEFAULT_SCOPES | Some s \<Rightarrow> if 0 < length s then s else DEFAULT_SCOPES"
  let ?inp = "\<lparr> nk_keyId = mk_keyId ?minted, nk_name = ik_name cmd, nk_keyHash = mk_keyHash ?minted, nk_scopes = ?scopes,
    nk_createdBy = Some (ctx_principalId ctx), nk_expiresAt = ik_expiresAt cmd \<rparr>"
  from assms(7) may t obtain rec d1 where
    new: "apiKeys_create (uuid_in E) now (ctx_tenantId ctx) ?inp (w_db w) = (Inr rec, d1)"
    and iss: "issued_plaintext iss = mk_plaintext ?minted" and w1: "w1 = w\<lparr>w_db := d1\<rparr>"
    by (auto simp: apiKeyService_issue_def ten Let_def andThen_eq_Inr onDb_Inr)
  have scopes: "?scopes \<noteq> []" by (auto simp: DEFAULT_SCOPES_def split: option.split)
  from apiKeys_create_Inr [OF assms(2,3) new] obtain row where
    ok: "rows_ok api_keys_checks api_keys_indexes (db_api_keys (w_db w) @ [row])"
    and d1: "d1 = (w_db w)\<lparr>db_api_keys := db_api_keys (w_db w) @ [row]\<rparr>"
    and row: "ak_id row = km_keyId m" "ak_tenant_id row = v" "ak_key_hash row = sha256 E (km_secret m)"
      "ak_scopes row = ?scopes" "ak_revoked_at row = None"
    by (auto simp: mintApiKey_def hashSecret_def)
  have tm: "t \<in> set (db_tenants (w_db w))" "tn_id t = v" using find_member [OF t] by auto
  have "parseApiKey (issued_plaintext iss) = Inr \<lparr> pk_publicId = tn_public_id t, pk_keyId = km_keyId m, pk_secret = km_secret m \<rparr>"
    using slug_no_separator [OF tenant_slug_ok [OF assms(1) tm(1)]] assms(4-6)
    by (simp add: iss parseApiKey_eq_Inr api_key_wf_def print_api_key_def mintApiKey_def assemblePlaintext_def)
  moreover obtain w2 where "apiKeyService_revoke E now2 ctx (km_keyId m) w1 = (Inr (), w2)"
    "\<forall>r \<in> set (db_api_keys (w_db w2)). ak_id r = km_keyId m \<longrightarrow> ak_revoked_at r = Some now2"
    "fst (apiKeyService_revoke E now3 ctx (km_keyId m) w2) = Inl (not_found ''api key not found'')"
    using revoke_key_twice [OF assms(2,3) ok rev _ row(1,2,5) assms(4), of w1 now2 now3] w1 d1 by auto
  ultimately show ?thesis
    using tm row scopes w1 d1 by (intro exI [of _ t] exI [of _ row] conjI) auto
qed


theorem api_key_lifecycle_witness:
  "\<exists>slug. parseApiKey (issued_plaintext (case fst (apiKeyService_issue sample_env \<lparr> km_keyId = ''k1'', km_secret = ''s1'' \<rparr> 0
      (sample_ctx tenant_admin) \<lparr> ik_name = ''ci'', ik_scopes = None, ik_expiresAt = None \<rparr> sample_world) of Inr i \<Rightarrow> i))
     = Inr \<lparr> pk_publicId = slug, pk_keyId = ''k1'', pk_secret = ''s1'' \<rparr>"
proof -
  let ?ctx = "sample_ctx tenant_admin" and ?m = "\<lparr> km_keyId = ''k1'', km_secret = ''s1'' \<rparr>"
  let ?cmd = "\<lparr> ik_name = ''ci'', ik_scopes = None, ik_expiresAt = None \<rparr>"
  let ?r = "apiKeyService_issue sample_env ?m 0 ?ctx ?cmd sample_world"
  let ?i = "case fst ?r of Inr i \<Rightarrow> i"
  have "\<not> isl (fst ?r)" by code_simp
  then have run: "?r = (Inr ?i, snd ?r)" by (cases ?r; cases "fst ?r") auto
  have h: "db_ok (w_db sample_world)" "uuid_in sample_env (ctx_tenantId ?ctx) = Some ''t1''" "ctx_tenantId ?ctx \<noteq> []"
    "km_keyId ?m \<noteq> []" "CHR ''_'' \<notin> set (km_keyId ?m)" "km_secret ?m \<noteq> []" by code_simp+
  from api_key_lifecycle [OF h run, of 1 2] obtain ten :: tenant_row where
    "parseApiKey (issued_plaintext ?i) = Inr \<lparr> pk_publicId = tn_public_id ten, pk_keyId = km_keyId ?m, pk_secret = km_secret ?m \<rparr>"
    by (elim exE conjE) (rule that, assumption)
  then show ?thesis by (intro exI [of _ "tn_public_id ten"]) simp
qed

section \<open>Retention\<close>

lemma retention_by_tenant:
  "rows_ok retention_checks retention_indexes rows \<Longrightarrow> a \<in> set rows \<Longrightarrow> b \<in> set rows \<Longrightarrow> rp_tenant_id a = rp_tenant_id b \<Longrightarrow> a = b"
  by (rule rows_ok_unique [of retention_checks retention_indexes rows "(''retention_policies_pkey'', \<lambda>r. Some [rp_tenant_id r])"])
     (auto simp: retention_indexes_def)

lemma filter_key_single:
  "distinct (map (\<lambda>r. [f r]) xs) \<Longrightarrow> x \<in> set xs \<Longrightarrow> filter (\<lambda>r. f r = f x) xs = [x]"
  by (induction xs) (auto simp: filter_empty_conv image_iff)

lemma upsert_retention_Inr:
  assumes "upsert_retention row d = (Inr new, d')"
  shows "new \<in> set (db_retention d') \<and> rows_ok retention_checks retention_indexes (db_retention d')
    \<and> rp_tenant_id new = rp_tenant_id row \<and> rp_hot_days new = rp_hot_days row \<and> rp_cold_days new = rp_cold_days row"
proof (cases "find (\<lambda>r. rp_tenant_id r = rp_tenant_id row) (db_retention d)")
  case None
  with assms show ?thesis by (auto simp: upsert_retention_def insert_stmt_Inr)
next
  case (Some old)
  with assms find_member [OF Some] show ?thesis
    by (auto simp: upsert_retention_def Let_def write_rows_Inr split: sum.splits if_splits)
qed

text \<open>
  A stored retention policy is within its limits: at least one and at most ninety hot days, and
  no fewer cold days than hot ones; it has the days that were asked for, it is what \<open>get\<close> returns,
  and it is the only policy of the tenant.
\<close>

theorem retention_within_limits:
  assumes "uuid_in E (ctx_tenantId ctx) = Some v" "ctx_tenantId ctx \<noteq> []"
    and "retentionService_upsert E now ctx cmd w = (Inr p, w')"
  shows "ret_tenantId p = v \<and> ret_hotDays p = ur_hotDays cmd \<and> ret_coldDays p = ur_coldDays cmd
    \<and> 1 \<le> ret_hotDays p \<and> ret_hotDays p \<le> 90 \<and> ret_hotDays p \<le> ret_coldDays p
    \<and> retentionService_get E ctx w' = (Inr p, w')
    \<and> length (filter (\<lambda>r. rp_tenant_id r = v) (db_retention (w_db w'))) = 1"
proof -
  have may: "can (ctx_role ctx) Retention_update"
    using assms(3) by (cases "can (ctx_role ctx) Retention_update") (auto simp: retentionService_upsert_def)
  then have rd: "can (ctx_role ctx) Retention_read" by (cases "ctx_role ctx") (simp_all add: can_iffs)
  from assms may obtain row new where ups: "upsert_retention row (w_db w) = (Inr new, w_db w')" and p: "p = toPolicy new"
    and row: "rp_tenant_id row = v" "rp_hot_days row = ur_hotDays cmd" "rp_cold_days row = ur_coldDays cmd"
    by atomize_elim (auto simp: retentionService_upsert_def onDb_Inr retention_upsert_def withTenantTx_Inr andThen_eq_Inr
        dest!: cast_int4_Inr cast_uuid_opt_Inr, intro exI conjI, assumption, simp_all)
  note up = upsert_retention_Inr [OF ups]
  have dist: "distinct (map (\<lambda>r. [rp_tenant_id r]) (db_retention (w_db w')))"
    using up by (simp add: rows_ok_def retention_indexes_def map_filter_Some)
  have only: "filter (\<lambda>r. rp_tenant_id r = v) (db_retention (w_db w')) = [new]"
    using filter_key_single [OF dist, of new] up row(1) by simp
  have lim: "rp_hot_days new \<le> rp_cold_days new" "1 \<le> rp_hot_days new" "rp_hot_days new \<le> 90"
    using up by (auto simp: rows_ok_def retention_checks_def list_all_iff)
  have "retention_get (uuid_in E) (ctx_tenantId ctx) (w_db w') = (Inr (Some p), w_db w')"
    using assms(1,2) by (simp add: retention_get_def armed_run rls_Some only p)
  then have "retentionService_get E ctx w' = (Inr p, w')"
    using rd by (simp add: retentionService_get_def andThen_def onDb_def)
  with only lim up row show ?thesis by (simp add: p toPolicy_def)
qed

theorem retention_within_limits_witness:
  "let r = retentionService_upsert sample_env 0 (sample_ctx tenant_admin) \<lparr> ur_hotDays = 30, ur_coldDays = 365 \<rparr> sample_world;
       p = (case fst r of Inr p \<Rightarrow> p) in retentionService_get sample_env (sample_ctx tenant_admin) (snd r) = (Inr p, snd r)"
proof -
  let ?r = "retentionService_upsert sample_env 0 (sample_ctx tenant_admin) \<lparr> ur_hotDays = 30, ur_coldDays = 365 \<rparr> sample_world"
  let ?p = "case fst ?r of Inr p \<Rightarrow> p"
  have "\<not> isl (fst ?r)" by code_simp
  then have run: "?r = (Inr ?p, snd ?r)" by (cases ?r; cases "fst ?r") auto
  have "uuid_in sample_env (ctx_tenantId (sample_ctx tenant_admin)) = Some ''t1''"
    "ctx_tenantId (sample_ctx tenant_admin) \<noteq> []" by code_simp+
  from retention_within_limits [OF this run] show ?thesis unfolding Let_def by blast
qed

end
