(* ===== verification/Read_Laws.thy ===== *)
theory Read_Laws
  imports Service_Laws Samples
begin

text \<open>
  Isolation of reads: what a principal of one tenant is answered is a function of what that
  tenant owns. A reader leaves the database alone and gives the same answer on any two databases
  that agree on the tenant's view.
\<close>

definition reader :: "uuid \<Rightarrow> (db, 'a) prog \<Rightarrow> bool" where
  "reader t m \<longleftrightarrow>
     (\<forall>d. snd (m d) = d) \<and> (\<forall>d d'. tenant_view t d = tenant_view t d' \<longrightarrow> fst (m d) = fst (m d'))"

definition world_reader :: "uuid \<Rightarrow> (world, 'a) prog \<Rightarrow> bool" where
  "world_reader t m \<longleftrightarrow>
     (\<forall>w. snd (m w) = w)
     \<and> (\<forall>w w'. tenant_view t (w_db w) = tenant_view t (w_db w') \<longrightarrow> fst (m w) = fst (m w'))"

named_theorems reader_intros

lemma reader_ret [reader_intros]: "reader t (ret x)" "world_reader t (ret x)"
  by (simp_all add: reader_def world_reader_def)

lemma reader_throw [reader_intros]: "reader t (throw e)" "world_reader t (throw e)"
  by (simp_all add: reader_def world_reader_def)

lemma reader_getS: "(\<And>d. f d = g (tenant_view t d)) \<Longrightarrow> reader t (getS f)"
  by (simp add: reader_def)

lemma reader_andThen [reader_intros]:
  assumes "reader t m" "\<And>x. reader t (f x)"
  shows "reader t (andThen m f)"
  unfolding reader_def
proof (intro conjI allI impI)
  fix d d' :: db
  have eq: "andThen m f d = (case fst (m d) of Inl e \<Rightarrow> (Inl e, d) | Inr x \<Rightarrow> f x d)" for d :: db
  proof -
    obtain r where "m d = (r, d)" using assms(1) unfolding reader_def by (metis prod.collapse)
    then show ?thesis by (simp add: andThen_def split: sum.split)
  qed
  show "snd (andThen m f d) = d" using assms(2) by (simp add: eq reader_def split: sum.split)
  assume v: "tenant_view t d = tenant_view t d'"
  with assms(1) have "fst (m d) = fst (m d')" unfolding reader_def by blast
  moreover have "fst (f x d) = fst (f x d')" for x using v assms(2) unfolding reader_def by blast
  ultimately show "fst (andThen m f d) = fst (andThen m f d')"
    by (simp add: eq split: sum.split)
qed

lemma world_reader_andThen [reader_intros]:
  assumes "world_reader t m" "\<And>x. world_reader t (f x)"
  shows "world_reader t (andThen m f)"
  unfolding world_reader_def
proof (intro conjI allI impI)
  fix w w' :: world
  have eq: "andThen m f w = (case fst (m w) of Inl e \<Rightarrow> (Inl e, w) | Inr x \<Rightarrow> f x w)" for w :: world
  proof -
    obtain r where "m w = (r, w)" using assms(1) unfolding world_reader_def by (metis prod.collapse)
    then show ?thesis by (simp add: andThen_def split: sum.split)
  qed
  show "snd (andThen m f w) = w" using assms(2) by (simp add: eq world_reader_def split: sum.split)
  assume v: "tenant_view t (w_db w) = tenant_view t (w_db w')"
  with assms(1) have "fst (m w) = fst (m w')" unfolding world_reader_def by blast
  moreover have "fst (f x w) = fst (f x w')" for x using v assms(2) unfolding world_reader_def by blast
  ultimately show "fst (andThen m f w) = fst (andThen m f w')"
    by (simp add: eq split: sum.split)
qed

lemma reader_case_option [reader_intros]:
  "world_reader t m \<Longrightarrow> (\<And>x. world_reader t (f x)) \<Longrightarrow> world_reader t (case v of None \<Rightarrow> m | Some x \<Rightarrow> f x)"
  by (cases v) simp_all

lemma reader_if [reader_intros]:
  "world_reader t m \<Longrightarrow> world_reader t m' \<Longrightarrow> world_reader t (if b then m else m')"
  by simp

lemma reader_onDb [reader_intros]:
  assumes "reader t m"
  shows "world_reader t (onDb m)"
  unfolding world_reader_def
proof (intro conjI allI impI)
  fix w w' :: world
  have m: "snd (m d) = d" for d using assms by (simp add: reader_def)
  show "snd (onDb m w) = w" by (simp add: onDb_apply m)
  assume "tenant_view t (w_db w) = tenant_view t (w_db w')"
  with assms have "fst (m (w_db w)) = fst (m (w_db w'))" unfolding reader_def by blast
  then show "fst (onDb m w) = fst (onDb m w')" by (simp add: onDb_apply)
qed

lemma reader_send [reader_intros]: "world_reader t m \<Longrightarrow> world_reader t (send st b m)"
  unfolding send_def by (intro reader_intros)

lemma reader_assertCan [reader_intros]: "world_reader t (assertCan ctx op)"
  by (simp add: assertCan_def reader_intros)

lemma reader_cast_uuid [reader_intros]: "reader t (cast_uuid ui v)"
  by (simp add: cast_uuid_def reader_intros split: option.split)

lemma reader_toInvite [reader_intros]: "reader t (toInvite row)"
  by (simp add: toInvite_def reader_ret reader_throw)

lemma reader_toInvites [reader_intros]: "reader t (toInvites rows)"
proof (induction rows)
  case Nil
  then show ?case by (simp add: reader_def)
next
  case (Cons r rows)
  then show ?case unfolding toInvites.simps by (intro reader_intros)
qed

lemma reader_tx:
  assumes "tenant_scope ui s = Some t" "reader t (fn (Some t))"
  shows "reader t (withTenantTx ui s fn)"
proof -
  have "current_tenant_id ui s = Inr (Some t)"
    using assms(1) by (auto simp: tenant_scope_def split: sum.splits)
  then have eq: "withTenantTx ui s fn d = (fst (fn (Some t) d), d)" for d
  proof -
    obtain r where "fn (Some t) d = (r, d)" using assms(2) unfolding reader_def by (metis prod.collapse)
    then show ?thesis using \<open>current_tenant_id ui s = Inr (Some t)\<close> by (simp add: withTenantTx_armed split: sum.split)
  qed
  show ?thesis using assms(2) unfolding reader_def eq fst_conv snd_conv by blast
qed

section \<open>Statements\<close>

lemma rls_view:
  "rls us_tenant_id (Some t) (db_users d) = db_users (tenant_view t d)"
  "rls mb_tenant_id (Some t) (db_memberships d) = db_memberships (tenant_view t d)"
  "rls ak_tenant_id (Some t) (db_api_keys d) = db_api_keys (tenant_view t d)"
  "rls rp_tenant_id (Some t) (db_retention d) = db_retention (tenant_view t d)"
  "rls sq_tenant_id (Some t) (db_saved_queries d) = db_saved_queries (tenant_view t d)"
  "rls da_tenant_id (Some t) (db_dashboards d) = db_dashboards (tenant_view t d)"
  "rls ar_tenant_id (Some t) (db_alert_rules d) = db_alert_rules (tenant_view t d)"
  "rls iv_tenant_id (Some t) (db_invites d) = db_invites (tenant_view t d)"
  "filter (\<lambda>r. tn_id r = t) (db_tenants d) = db_tenants (tenant_view t d)"
  by (simp_all add: rls_Some tenant_view_def)

lemma reader_statements [reader_intros]:
  "reader t (select_user (Some t) p)"
  "reader t (select_api_keys (Some t) pk)" "reader t (select_saved_queries (Some t) ps)"
  "reader t (select_dashboards (Some t) pd)" "reader t (select_alert_rules (Some t) pa)"
  "reader t (select_invites (Some t) pv)"
  by (simp_all add: reader_def select_user_def joined_role_def select_api_keys_def select_saved_queries_def
      select_dashboards_def select_alert_rules_def select_invites_def rls_view)

lemma reader_repositories [reader_intros]:
  assumes "tenant_scope ui s = Some t"
  shows "reader t (users_list ui s)" "reader t (users_findById ui s i)" "reader t (apiKeys_list ui s)"
    "reader t (retention_get ui s)" "reader t (savedQueries_list ui s)" "reader t (savedQueries_findById ui s i)"
    "reader t (dashboards_list ui s)" "reader t (dashboards_findById ui s i)" "reader t (alertRules_list ui s)"
    "reader t (alertRules_findById ui s i)" "reader t (invites_listByTenant ui s)" "reader t (tenants_findById ui s)"
proof -
  have t: "ui s = Some t"
    using assms by (auto simp: tenant_scope_def dest: current_tenant_id_Some split: sum.splits)
  show "reader t (retention_get ui s)"
    unfolding retention_get_def by (intro reader_tx [OF assms]) (simp add: reader_def rls_view)
  show "reader t (tenants_findById ui s)"
    by (simp add: tenants_findById_def t reader_def rls_view)
qed (simp only: users_list_def users_findById_def apiKeys_list_def savedQueries_list_def savedQueries_findById_def
       dashboards_list_def dashboards_findById_def alertRules_list_def alertRules_findById_def invites_listByTenant_def,
     intro reader_tx [OF assms] reader_intros)+

section \<open>Calls\<close>

fun read_call :: "call \<Rightarrow> bool" where
  "read_call (Tenants c) = (case c of TenantGet _ \<Rightarrow> True | TenantList \<Rightarrow> True | _ \<Rightarrow> False)"
| "read_call (Users c) = (case c of UserGet _ \<Rightarrow> True | UserList \<Rightarrow> True | _ \<Rightarrow> False)"
| "read_call (Keys c) = (case c of KeyList \<Rightarrow> True | _ \<Rightarrow> False)"
| "read_call (Retention c) = (case c of RetentionGet \<Rightarrow> True | _ \<Rightarrow> False)"
| "read_call (Alerts c) = (case c of AlertGet _ \<Rightarrow> True | AlertList \<Rightarrow> True | _ \<Rightarrow> False)"
| "read_call (SavedQueries c) = (case c of SavedQueryGet _ \<Rightarrow> True | SavedQueryList \<Rightarrow> True | _ \<Rightarrow> False)"
| "read_call (Dashboards c) = (case c of DashboardGet _ \<Rightarrow> True | DashboardList \<Rightarrow> True | _ \<Rightarrow> False)"
| "read_call (Invites c) = (case c of InviteList \<Rightarrow> True | _ \<Rightarrow> False)"

lemma tenantService_get_reader:
  assumes "tenant_scope (uuid_in E) (ctx_tenantId ctx) = Some t" "ctx_role ctx \<noteq> platform_operator"
  shows "world_reader t (tenantService_get E ctx i)"
proof (cases "i = ctx_tenantId ctx")
  case True
  then show ?thesis unfolding tenantService_get_def by (intro reader_intros) (use assms in simp)
next
  case False
  with assms(2) have "tenantService_get E ctx i = andThen (assertCan ctx Tenant_read) (\<lambda>_. throw (not_found ''tenant not found''))"
    by (simp add: tenantService_get_def)
  then show ?thesis by (simp only:) (intro reader_intros)
qed

lemma tenantService_list_reader:
  assumes "ctx_role ctx \<noteq> platform_operator"
  shows "world_reader t (tenantService_list ctx)"
proof -
  have "\<not> can (ctx_role ctx) Tenant_list" using assms by (cases "ctx_role ctx") (simp_all add: can_iffs)
  then show ?thesis by (simp add: tenantService_list_def reader_intros)
qed

text \<open>The tenant registry is the one thing the platform operator reads across tenants.\<close>

fun registry_read :: "TenantContext \<Rightarrow> call \<Rightarrow> bool" where
  "registry_read ctx (Tenants c) \<longleftrightarrow> ctx_role ctx = platform_operator"
| "registry_read ctx _ \<longleftrightarrow> False"

lemma read_call_reader:
  assumes "read_call c" "scope_of E ctx = Some t" "\<not> registry_read ctx c"
  shows "world_reader t (run_call E R ctx c)"
proof -
  note rules = reader_intros assms(2)
  show ?thesis
  proof (cases c)
    case (Tenants x)
    with assms(3) have "ctx_role ctx \<noteq> platform_operator" by simp
    note rules = rules tenantService_get_reader [OF assms(2) this] tenantService_list_reader [OF this]
    from Tenants assms(1) show ?thesis by (cases x) (simp_all, (intro rules)+)
  next
    case (Users x)
    with assms(1) show ?thesis by (cases x) (simp_all add: service_defs, (intro rules)+)
  next
    case (Keys x)
    with assms(1) show ?thesis by (cases x) (simp_all add: service_defs, (intro rules)+)
  next
    case (Retention x)
    with assms(1) show ?thesis by (cases x) (simp_all add: service_defs, (intro rules)+)
  next
    case (Alerts x)
    with assms(1) show ?thesis by (cases x) (simp_all add: service_defs, (intro rules)+)
  next
    case (SavedQueries x)
    with assms(1) show ?thesis by (cases x) (simp_all add: service_defs, (intro rules)+)
  next
    case (Dashboards x)
    with assms(1) show ?thesis by (cases x) (simp_all add: service_defs, (intro rules)+)
  next
    case (Invites x)
    with assms(1) show ?thesis by (cases x) (simp_all add: service_defs, (intro rules)+)
  qed
qed

section \<open>Property\<close>

text \<open>
  C13. Isolation of reads. The answer to a reading call of a principal of a tenant depends only on
  the rows that tenant owns: whatever other tenants store, the answer is the same, and the call
  changes nothing. This is for every role and every reading call, with one exception: the platform
  operator reads the registry of tenants, whose answers depend on the rows of all of them.
\<close>

theorem reads_isolated:
  assumes "read_call c" "scope_of E ctx = Some t" "\<not> registry_read ctx c"
    "tenant_view t (w_db w) = tenant_view t (w_db w')"
  shows "fst (run_call E R ctx c w) = fst (run_call E R ctx c w') \<and> snd (run_call E R ctx c w) = w"
  using read_call_reader [OF assms(1-3), of R] assms(4) unfolding world_reader_def by blast

theorem reads_isolated_witness:
  "fst (run_call sample_env sample_call_draws (sample_ctx tenant_admin) (Users UserList) sample_world)
     = fst (run_call sample_env sample_call_draws (sample_ctx tenant_admin) (Users UserList)
         (sample_world\<lparr>w_db := delete_tenants 0 (\<lambda>r. tn_id r = ''t2'') sample_db\<rparr>))"
proof -
  have "scope_of sample_env (sample_ctx tenant_admin) = Some ''t1''" by code_simp
  moreover have "tenant_view ''t1'' (w_db sample_world) =
      tenant_view ''t1'' (w_db (sample_world\<lparr>w_db := delete_tenants 0 (\<lambda>r. tn_id r = ''t2'') sample_db\<rparr>))"
    by code_simp
  ultimately show ?thesis
    using reads_isolated [of "Users UserList" sample_env "sample_ctx tenant_admin" "''t1''" sample_world
        "sample_world\<lparr>w_db := delete_tenants 0 (\<lambda>r. tn_id r = ''t2'') sample_db\<rparr>" sample_call_draws]
    by (simp add: sample_ctx_def)
qed

end
