(* ===== verification/Json.thy ===== *)
theory Json
  imports Credentials
begin

text \<open>
  \<open>JSON.parse\<close> and \<open>JSON.stringify\<close> on the modelled repertoire, and the fragment of zod the
  wire contracts use.

  \<^item> Texts are strings of code units below 256; an escape that denotes a larger code unit lies
    outside the repertoire and is rejected.
  \<^item> A number is the rational its decimal notation denotes; \<open>JSON_stringify\<close> covers the
    documents whose numbers are integers, which are the ones the program sends.
  \<^item> The parser descends with a fuel argument. \<open>JSON_parse\<close> starts it with twice the length of
    the text plus one, and \<open>parse_value_fuel\<close> shows that more fuel never changes a result.
  \<^item> A schema takes the value of a property, \<open>None\<close> when it is absent, and returns the decoded
    value, \<open>None\<close> when it does not conform.
\<close>

section \<open>Decimal numbers\<close>

definition is_digit :: "char \<Rightarrow> bool" where
  "is_digit c \<longleftrightarrow> (let n = (of_char c :: nat) in 48 \<le> n \<and> n \<le> 57)"

definition digit_val :: "char \<Rightarrow> nat" where
  "digit_val c = of_char c - 48"

definition digits_val :: "string \<Rightarrow> nat" where
  "digits_val ds = foldl (\<lambda>a c. 10 * a + digit_val c) 0 ds"

section \<open>JSON.stringify\<close>

definition json_escape :: "char \<Rightarrow> string" where
  "json_escape c =
     (if c = CHR 0x22 then [CHR 0x5C, CHR 0x22]
      else if c = CHR 0x5C then [CHR 0x5C, CHR 0x5C]
      else if c = CHR 0x08 then [CHR 0x5C, CHR ''b'']
      else if c = CHR 0x09 then [CHR 0x5C, CHR ''t'']
      else if c = CHR 0x0A then [CHR 0x5C, CHR ''n'']
      else if c = CHR 0x0C then [CHR 0x5C, CHR ''f'']
      else if c = CHR 0x0D then [CHR 0x5C, CHR ''r'']
      else if (of_char c :: nat) < 32 then
        [CHR 0x5C, CHR ''u'', CHR ''0'', CHR ''0'', hex_digit (of_char c div 16), hex_digit (of_char c mod 16)]
      else [c])"

definition json_quote :: "string \<Rightarrow> string" where
  "json_quote s = CHR 0x22 # concat (map json_escape s) @ [CHR 0x22]"

fun JSON_stringify :: "json \<Rightarrow> string"
  and stringify_elements :: "json list \<Rightarrow> string"
  and stringify_members :: "(string \<times> json) list \<Rightarrow> string" where
  "JSON_stringify JNull = ''null''"
| "JSON_stringify (JBool b) = (if b then ''true'' else ''false'')"
| "JSON_stringify (JNum r) = int_digits \<lfloor>r\<rfloor>"
| "JSON_stringify (JStr s) = json_quote s"
| "JSON_stringify (JArr vs) = CHR ''['' # stringify_elements vs"
| "JSON_stringify (JObj kvs) = CHR ''{'' # stringify_members kvs"
| "stringify_elements [] = '']''"
| "stringify_elements (v # vs) =
     JSON_stringify v @ (if vs = [] then '']'' else CHR '','' # stringify_elements vs)"
| "stringify_members [] = ''}''"
| "stringify_members (kv # kvs) =
     json_quote (fst kv) @ CHR '':'' # JSON_stringify (snd kv)
     @ (if kvs = [] then ''}'' else CHR '','' # stringify_members kvs)"

section \<open>JSON.parse\<close>

definition is_json_space :: "char \<Rightarrow> bool" where
  "is_json_space c \<longleftrightarrow> c = CHR 0x20 \<or> c = CHR 0x09 \<or> c = CHR 0x0A \<or> c = CHR 0x0D"

abbreviation skip_ws :: "string \<Rightarrow> string" where
  "skip_ws \<equiv> dropWhile is_json_space"

definition hex_val :: "char \<Rightarrow> nat option" where
  "hex_val c =
     (let n = (of_char c :: nat) in
      if 48 \<le> n \<and> n \<le> 57 then Some (n - 48)
      else if 97 \<le> n \<and> n \<le> 102 then Some (n - 87)
      else if 65 \<le> n \<and> n \<le> 70 then Some (n - 55)
      else None)"

definition simple_escape :: "char \<Rightarrow> char option" where
  "simple_escape c =
     (if c = CHR 0x22 \<or> c = CHR 0x5C \<or> c = CHR ''/'' then Some c
      else if c = CHR ''b'' then Some (CHR 0x08)
      else if c = CHR ''f'' then Some (CHR 0x0C)
      else if c = CHR ''n'' then Some (CHR 0x0A)
      else if c = CHR ''r'' then Some (CHR 0x0D)
      else if c = CHR ''t'' then Some (CHR 0x09)
      else None)"

definition unicode_escape :: "char \<Rightarrow> char \<Rightarrow> char \<Rightarrow> char \<Rightarrow> char option" where
  "unicode_escape a b c d =
     (case (hex_val a, hex_val b, hex_val c, hex_val d) of
        (Some 0, Some 0, Some h, Some l) \<Rightarrow> Some (char_of (16 * h + l))
      | _ \<Rightarrow> None)"

text \<open>The characters of a string literal up to its closing quote, and the rest of the text.\<close>

fun parse_chars :: "string \<Rightarrow> (string \<times> string) option" where
  "parse_chars [] = None"
| "parse_chars (c # cs) =
     (if c = CHR 0x22 then Some ([], cs)
      else if c = CHR 0x5C then
        (case cs of
           [] \<Rightarrow> None
         | e # rest \<Rightarrow>
             if e = CHR ''u'' then
               (case rest of
                  h1 # h2 # h3 # h4 # rest' \<Rightarrow>
                    (case unicode_escape h1 h2 h3 h4 of
                       None \<Rightarrow> None
                     | Some u \<Rightarrow> map_option (apfst (Cons u)) (parse_chars rest'))
                | _ \<Rightarrow> None)
             else
               (case simple_escape e of
                  None \<Rightarrow> None
                | Some u \<Rightarrow> map_option (apfst (Cons u)) (parse_chars rest)))
      else if (of_char c :: nat) < 32 then None
      else map_option (apfst (Cons c)) (parse_chars cs))"

definition parse_digits :: "string \<Rightarrow> (string \<times> string) option" where
  "parse_digits s =
     (let ds = takeWhile is_digit s
      in if ds = [] then None else Some (ds, dropWhile is_digit s))"

text \<open>\<open>int frac? exp?\<close> without the sign.\<close>

definition parse_fraction :: "string \<Rightarrow> (rat \<times> string) option" where
  "parse_fraction s =
     (case s of
        c # rest \<Rightarrow>
          if c = CHR ''.'' then
            map_option (\<lambda>(ds, r). (of_nat (digits_val ds) / 10 ^ length ds, r)) (parse_digits rest)
          else Some (0, s)
      | [] \<Rightarrow> Some (0, s))"

definition parse_exponent :: "string \<Rightarrow> (int \<times> string) option" where
  "parse_exponent s =
     (case s of
        c # rest \<Rightarrow>
          if c = CHR ''e'' \<or> c = CHR ''E'' then
            (case rest of
               [] \<Rightarrow> None
             | sg # rest' \<Rightarrow>
                 if sg = CHR ''-'' then map_option (apfst (\<lambda>ds. - int (digits_val ds))) (parse_digits rest')
                 else if sg = CHR ''+'' then map_option (apfst (\<lambda>ds. int (digits_val ds))) (parse_digits rest')
                 else map_option (apfst (\<lambda>ds. int (digits_val ds))) (parse_digits rest))
          else Some (0, s)
      | [] \<Rightarrow> Some (0, s))"

definition scale10 :: "rat \<Rightarrow> int \<Rightarrow> rat" where
  "scale10 x e = (if e < 0 then x / 10 ^ nat (- e) else x * 10 ^ nat e)"

definition parse_unsigned :: "string \<Rightarrow> (rat \<times> string) option" where
  "parse_unsigned s =
     Option.bind (parse_digits s) (\<lambda>(ds, r1).
     if 1 < length ds \<and> hd ds = CHR ''0'' then None
     else Option.bind (parse_fraction r1) (\<lambda>(f, r2).
     Option.bind (parse_exponent r2) (\<lambda>(e, r3).
     Some (scale10 (of_nat (digits_val ds) + f) e, r3))))"

definition parse_number :: "string \<Rightarrow> (rat \<times> string) option" where
  "parse_number s =
     (case s of
        c # rest \<Rightarrow> if c = CHR ''-'' then map_option (apfst uminus) (parse_unsigned rest) else parse_unsigned s
      | [] \<Rightarrow> None)"

text \<open>A repeated key takes the last value at the place of the first.\<close>

fun set_prop :: "string \<Rightarrow> 'a \<Rightarrow> (string \<times> 'a) list \<Rightarrow> (string \<times> 'a) list" where
  "set_prop k v [] = [(k, v)]"
| "set_prop k v (kv # kvs) = (if fst kv = k then (k, v) # kvs else kv # set_prop k v kvs)"

fun parse_value :: "nat \<Rightarrow> string \<Rightarrow> (json \<times> string) option"
  and parse_elements :: "nat \<Rightarrow> string \<Rightarrow> (json list \<times> string) option"
  and parse_members :: "nat \<Rightarrow> (string \<times> json) list \<Rightarrow> string \<Rightarrow> ((string \<times> json) list \<times> string) option" where
  "parse_value 0 s = None"
| "parse_value (Suc n) s =
     (case skip_ws s of
        [] \<Rightarrow> None
      | c # cs \<Rightarrow>
          if c = CHR 0x22 then map_option (apfst JStr) (parse_chars cs)
          else if c = CHR ''['' then
            (case skip_ws cs of
               [] \<Rightarrow> None
             | d # ds \<Rightarrow> if d = CHR '']'' then Some (JArr [], ds) else map_option (apfst JArr) (parse_elements n cs))
          else if c = CHR ''{'' then
            (case skip_ws cs of
               [] \<Rightarrow> None
             | d # ds \<Rightarrow> if d = CHR ''}'' then Some (JObj [], ds) else map_option (apfst JObj) (parse_members n [] cs))
          else if take 4 (c # cs) = ''null'' then Some (JNull, drop 4 (c # cs))
          else if take 4 (c # cs) = ''true'' then Some (JBool True, drop 4 (c # cs))
          else if take 5 (c # cs) = ''false'' then Some (JBool False, drop 5 (c # cs))
          else map_option (apfst JNum) (parse_number (c # cs)))"
| "parse_elements 0 s = None"
| "parse_elements (Suc n) s =
     Option.bind (parse_value n s) (\<lambda>(v, r).
     case skip_ws r of
       [] \<Rightarrow> None
     | c # cs \<Rightarrow>
         if c = CHR '']'' then Some ([v], cs)
         else if c = CHR '','' then map_option (apfst (Cons v)) (parse_elements n cs)
         else None)"
| "parse_members 0 acc s = None"
| "parse_members (Suc n) acc s =
     (case skip_ws s of
        [] \<Rightarrow> None
      | q # qs \<Rightarrow>
          if q \<noteq> CHR 0x22 then None
          else Option.bind (parse_chars qs) (\<lambda>(k, r1).
            case skip_ws r1 of
              [] \<Rightarrow> None
            | d # ds \<Rightarrow>
                if d \<noteq> CHR '':'' then None
                else Option.bind (parse_value n ds) (\<lambda>(v, r2).
                  case skip_ws r2 of
                    [] \<Rightarrow> None
                  | c # cs \<Rightarrow>
                      if c = CHR ''}'' then Some (set_prop k v acc, cs)
                      else if c = CHR '','' then parse_members n (set_prop k v acc) cs
                      else None)))"

definition JSON_parse :: "string \<Rightarrow> json option" where
  "JSON_parse s =
     (case parse_value (Suc (2 * length s)) s of
        Some (v, r) \<Rightarrow> if skip_ws r = [] then Some v else None
      | None \<Rightarrow> None)"

section \<open>Schemas\<close>

type_synonym 'a schema = "json option \<Rightarrow> 'a option"

fun z_string :: "string schema" where
  "z_string (Some (JStr s)) = Some s"
| "z_string _ = None"

definition z_refine :: "('a \<Rightarrow> bool) \<Rightarrow> 'a schema \<Rightarrow> 'a schema" where
  "z_refine p z v = Option.bind (z v) (\<lambda>x. if p x then Some x else None)"

definition z_optional :: "'a schema \<Rightarrow> 'a option schema" where
  "z_optional z v = (case v of None \<Rightarrow> Some None | Some _ \<Rightarrow> map_option Some (z v))"

definition z_nullish :: "'a schema \<Rightarrow> 'a option schema" where
  "z_nullish z v =
     (case v of None \<Rightarrow> Some None | Some j \<Rightarrow> if j = JNull then Some None else map_option Some (z v))"

text \<open>\<open>z.number().int()\<close>: an integer in the range JavaScript represents exactly.\<close>

definition MAX_SAFE_INTEGER :: int where "MAX_SAFE_INTEGER = 9007199254740991"

text \<open>A number whose nearest double is finite; \<open>JSON.parse\<close> and \<open>Number\<close> read the others as infinities.\<close>

definition finite_double :: "rat \<Rightarrow> bool" where
  "finite_double r \<longleftrightarrow> \<bar>r\<bar> < 2 ^ 1024 - 2 ^ 970"

fun z_int :: "int schema" where
  "z_int (Some (JNum r)) = (if of_int \<lfloor>r\<rfloor> = r \<and> \<bar>\<lfloor>r\<rfloor>\<bar> \<le> MAX_SAFE_INTEGER then Some \<lfloor>r\<rfloor> else None)"
| "z_int _ = None"

fun z_array :: "'a schema \<Rightarrow> 'a list schema" where
  "z_array z (Some (JArr vs)) = those (map (\<lambda>v. z (Some v)) vs)"
| "z_array z _ = None"

text \<open>\<open>z.record(z.string(), \<dots>)\<close>\<close>

fun z_record :: "'a schema \<Rightarrow> (string \<times> 'a) list schema" where
  "z_record z (Some (JObj kvs)) = those (map (\<lambda>(k, v). map_option (Pair k) (z (Some v))) kvs)"
| "z_record z _ = None"

text \<open>\<open>z.object(\<dots>)\<close>: the shape reads the properties it names, unknown keys are stripped.\<close>

definition z_object :: "((string \<Rightarrow> json option) \<Rightarrow> 'a option) \<Rightarrow> 'a schema" where
  "z_object shape v = (case v of Some (JObj kvs) \<Rightarrow> shape (map_of kvs) | _ \<Rightarrow> None)"

section \<open>The fuel is enough\<close>

lemma parse_chars_shorter: "parse_chars s = Some (t, r) \<Longrightarrow> length r < length s"
proof (induction s arbitrary: t r rule: parse_chars.induct)
  case (2 c cs)
  then show ?case
    by (fastforce split: if_splits list.splits option.splits)
qed simp

lemma parse_digits_shorter: "parse_digits s = Some (ds, r) \<Longrightarrow> length r < length s"
  by (cases s) (auto simp: parse_digits_def Let_def le_imp_less_Suc length_dropWhile_le split: if_splits)

lemma parse_fraction_shorter: "parse_fraction s = Some (q, r) \<Longrightarrow> length r \<le> length s"
  by (auto simp: parse_fraction_def dest: parse_digits_shorter split: list.splits if_splits)

lemma parse_exponent_shorter: "parse_exponent s = Some (e, r) \<Longrightarrow> length r \<le> length s"
  by (auto simp: parse_exponent_def apfst_def dest!: parse_digits_shorter split: list.splits if_splits)

lemma parse_number_shorter: "parse_number s = Some (q, r) \<Longrightarrow> length r < length s"
proof -
  have u: "length r < length s" if "parse_unsigned s = Some (q, r)" for s q r
    using that by (auto simp: parse_unsigned_def bind_eq_Some_conv split: if_splits
        dest!: parse_digits_shorter parse_fraction_shorter parse_exponent_shorter)
  show "parse_number s = Some (q, r) \<Longrightarrow> length r < length s"
    by (auto simp: parse_number_def dest!: u split: list.splits if_splits)
qed

lemma skip_ws_shorter: "skip_ws s = c # cs \<Longrightarrow> length cs < length s"
  by (metis Suc_le_eq length_Cons length_dropWhile_le)

lemma parse_value_shorter:
  assumes "\<And>t vs r. parse_elements n t = Some (vs, r) \<Longrightarrow> length r < length t"
    and "\<And>t acc kvs r. parse_members n acc t = Some (kvs, r) \<Longrightarrow> length r < length t"
    and "parse_value (Suc n) s = Some (v, r)"
  shows "length r < length s"
proof -
  obtain c cs where ws: "skip_ws s = c # cs" using assms(3) by (auto split: list.splits)
  have "length r < length (c # cs)"
    using assms(3) ws
    by (auto split: if_splits list.splits intro: less_SucI
        dest!: parse_chars_shorter parse_number_shorter skip_ws_shorter assms(1,2))
  with skip_ws_shorter [OF ws] show ?thesis by simp
qed

lemma parse_elements_shorter:
  assumes "\<And>t v r. parse_value n t = Some (v, r) \<Longrightarrow> length r < length t"
    and "\<And>t vs r. parse_elements n t = Some (vs, r) \<Longrightarrow> length r < length t"
    and p: "parse_elements (Suc n) s = Some (vs, r)"
  shows "length r < length s"
proof -
  obtain v r' where v: "parse_value n s = Some (v, r')" using p by (auto simp: bind_eq_Some_conv)
  then obtain c cs where c: "skip_ws r' = c # cs" using p by (auto split: list.splits)
  have "length r \<le> length cs"
    using p v c by (auto split: if_splits dest!: assms(2))
  with skip_ws_shorter [OF c] assms(1) [OF v] show ?thesis by simp
qed

lemma parse_members_shorter:
  assumes "\<And>t v r. parse_value n t = Some (v, r) \<Longrightarrow> length r < length t"
    and "\<And>t acc kvs r. parse_members n acc t = Some (kvs, r) \<Longrightarrow> length r < length t"
    and p: "parse_members (Suc n) acc s = Some (kvs, r)"
  shows "length r < length s"
proof -
  obtain qs where q: "skip_ws s = CHR 0x22 # qs" using p by (auto split: list.splits if_splits)
  then obtain k r1 where k: "parse_chars qs = Some (k, r1)" using p by (auto simp: bind_eq_Some_conv)
  obtain ds where d: "skip_ws r1 = CHR '':'' # ds" using p q k by (auto split: list.splits if_splits)
  obtain v r2 where v: "parse_value n ds = Some (v, r2)" using p q k d by (auto simp: bind_eq_Some_conv)
  obtain c cs where c: "skip_ws r2 = c # cs" using p q k d v by (auto split: list.splits)
  have "length r \<le> length cs"
    using p q k d v c by (auto split: if_splits dest!: assms(2))
  then show ?thesis
    using skip_ws_shorter [OF q] parse_chars_shorter [OF k] skip_ws_shorter [OF d] assms(1) [OF v]
      skip_ws_shorter [OF c] by simp
qed

lemma parse_shorter:
  "parse_value n s = Some (v, r) \<Longrightarrow> length r < length s"
  "parse_elements n s = Some (vs, r) \<Longrightarrow> length r < length s"
  "parse_members n acc s = Some (kvs, r) \<Longrightarrow> length r < length s"
proof (induction n arbitrary: s v r vs acc kvs)
  case (Suc n)
  show "parse_value (Suc n) s = Some (v, r) \<Longrightarrow> length r < length s" for s v r
    using Suc.IH(2,3) by (rule parse_value_shorter)
  show "parse_elements (Suc n) s = Some (vs, r) \<Longrightarrow> length r < length s" for s vs r
    using Suc.IH(1,2) by (rule parse_elements_shorter)
  show "parse_members (Suc n) acc s = Some (kvs, r) \<Longrightarrow> length r < length s" for s acc kvs r
    using Suc.IH(1,3) by (rule parse_members_shorter)
qed simp_all

lemma parse_fuel_value:
  assumes "\<And>t. length t < length s \<Longrightarrow> parse_elements m t = parse_elements n t"
    and "\<And>t. length t < length s \<Longrightarrow> parse_members m [] t = parse_members n [] t"
  shows "parse_value (Suc m) s = parse_value (Suc n) s"
proof (cases "skip_ws s")
  case (Cons c cs)
  show ?thesis
    by (simp only: parse_value.simps Cons list.case assms [OF skip_ws_shorter [OF Cons]])
next
  case Nil
  show ?thesis by (simp only: parse_value.simps Nil list.case)
qed

lemma parse_fuel_elements:
  assumes v: "parse_value m s = parse_value n s"
    and e: "\<And>t. length t < length s \<Longrightarrow> parse_elements m t = parse_elements n t"
  shows "parse_elements (Suc m) s = parse_elements (Suc n) s"
proof (cases "parse_value n s")
  case (Some vr)
  obtain x r where vr: "vr = (x, r)" by (cases vr)
  show ?thesis
  proof (cases "skip_ws r")
    case (Cons c cs)
    have "length cs < length s"
      using skip_ws_shorter [OF Cons] parse_shorter(1) [OF Some [unfolded vr]] by simp
    from e [OF this] show ?thesis by (simp add: v Some vr Cons)
  next
    case Nil
    show ?thesis by (simp only: parse_elements.simps v Some vr bind.simps prod.case Nil list.case)
  qed
qed (simp add: v)

lemma parse_fuel_members:
  assumes v: "\<And>t. length t < length s \<Longrightarrow> parse_value m t = parse_value n t"
    and e: "\<And>t acc. length t < length s \<Longrightarrow> parse_members m acc t = parse_members n acc t"
  shows "parse_members (Suc m) acc s = parse_members (Suc n) acc s"
proof (cases "skip_ws s")
  case q: (Cons q qs)
  show ?thesis
  proof (cases "parse_chars qs")
    case k: (Some kr)
    obtain key r where kr: "kr = (key, r)" by (cases kr)
    show ?thesis
    proof (cases "skip_ws r")
      case d: (Cons d ds)
      have ds: "length ds < length s"
        using skip_ws_shorter [OF q] parse_chars_shorter [OF k [unfolded kr]] skip_ws_shorter [OF d] by simp
      show ?thesis
      proof (cases "parse_value n ds")
        case x: (Some xr)
        obtain x r2 where xr: "xr = (x, r2)" by (cases xr)
        show ?thesis
        proof (cases "skip_ws r2")
          case c: (Cons c cs)
          have "length cs < length s"
            using skip_ws_shorter [OF c] parse_shorter(1) [OF x [unfolded xr]] ds by simp
          then show ?thesis by (simp add: q k kr d v [OF ds] x xr c e)
        next
          case Nil
          show ?thesis
            by (simp only: parse_members.simps q k kr d v [OF ds] x xr bind.simps prod.case Nil list.case)
        qed
      qed (simp add: q k kr d v [OF ds])
    next
      case Nil
      show ?thesis by (simp only: parse_members.simps q k kr bind.simps prod.case Nil list.case)
    qed
  qed (simp add: q)
next
  case Nil
  show ?thesis by (simp only: parse_members.simps Nil list.case)
qed

lemma parse_fuel:
  "(\<forall>s. 2 * length s < n \<longrightarrow> parse_value (n + d) s = parse_value n s) \<and>
   (\<forall>s. 2 * length s + 1 < n \<longrightarrow> parse_elements (n + d) s = parse_elements n s) \<and>
   (\<forall>s acc. 2 * length s + 1 < n \<longrightarrow> parse_members (n + d) acc s = parse_members n acc s)"
proof (induction n)
  case (Suc n)
  then have v: "\<And>t. 2 * length t < n \<Longrightarrow> parse_value (n + d) t = parse_value n t"
    and e: "\<And>t. 2 * length t + 1 < n \<Longrightarrow> parse_elements (n + d) t = parse_elements n t"
    and k: "\<And>t acc. 2 * length t + 1 < n \<Longrightarrow> parse_members (n + d) acc t = parse_members n acc t"
    by blast+
  show ?case
    unfolding add_Suc
    by (intro conjI allI impI parse_fuel_value parse_fuel_elements parse_fuel_members v e k) simp_all
qed simp

lemma parse_value_fuel: "2 * length s < n \<Longrightarrow> parse_value (n + d) s = parse_value n s"
  using parse_fuel by blast

section \<open>Printing and parsing\<close>

definition ends_value :: "string \<Rightarrow> bool" where
  "ends_value r \<longleftrightarrow> r = [] \<or> hd r \<in> set '',]}''"

fun printable :: "json \<Rightarrow> bool" where
  "printable (JNum r) \<longleftrightarrow> of_int \<lfloor>r\<rfloor> = r"
| "printable (JArr vs) \<longleftrightarrow> (\<forall>v \<in> set vs. printable v)"
| "printable (JObj kvs) \<longleftrightarrow> distinct (map fst kvs) \<and> (\<forall>kv \<in> set kvs. printable (snd kv))"
| "printable _ \<longleftrightarrow> True"

lemma hex_val_hex_digit: "n < 16 \<Longrightarrow> hex_val (hex_digit n) = Some n"
  by (simp add: hex_val_def Let_def)

lemma unicode_escape_hex:
  "unicode_escape (CHR ''0'') (CHR ''0'') (hex_digit (of_char c div 16)) (hex_digit (of_char c mod 16)) = Some c"
proof -
  have "(of_char c :: nat) div 16 < 16" by (rule less_mult_imp_div_less) simp
  then show ?thesis
    by (simp add: unicode_escape_def hex_val_hex_digit del: hex_digit.simps) (simp add: hex_val_def)
qed

lemma parse_chars_escape:
  "parse_chars (json_escape c @ r) = map_option (apfst (Cons c)) (parse_chars r)"
  by (simp add: json_escape_def simple_escape_def unicode_escape_hex del: hex_digit.simps)

lemma parse_chars_quote:
  "parse_chars (concat (map json_escape s) @ CHR 0x22 # r) = Some (s, r)"
proof (induction s)
  case (Cons c s)
  then show ?case by (simp add: parse_chars_escape del: parse_chars.simps(2))
qed simp

text \<open>Numbers.\<close>

lemma is_digit_char_of [simp]: "n < 10 \<Longrightarrow> is_digit (char_of (48 + n :: nat))"
  by (simp add: is_digit_def Let_def)

lemma digit_val_char_of [simp]: "n < 10 \<Longrightarrow> digit_val (char_of (48 + n :: nat)) = n"
  by (simp add: digit_val_def)

lemma nat_digits_digits: "\<forall>c \<in> set (nat_digits n). is_digit c"
proof (induction n rule: nat_digits.induct)
  case (1 n)
  then show ?case by (subst nat_digits.simps) (auto simp del: nat_digits.simps)
qed

lemma nat_digits_ne [simp]: "nat_digits n \<noteq> []"
  by (subst nat_digits.simps) simp

lemma digits_val_snoc: "digits_val (ds @ [c]) = 10 * digits_val ds + digit_val c"
  by (simp add: digits_val_def)

lemma digits_val_nat_digits [simp]: "digits_val (nat_digits n) = n"
proof (induction n rule: nat_digits.induct)
  case (1 n)
  show ?case
  proof (cases "n < 10")
    case True
    then show ?thesis by (subst nat_digits.simps) (simp add: digits_val_def)
  next
    case False
    with 1 show ?thesis by (subst nat_digits.simps) (simp add: digits_val_snoc)
  qed
qed

lemma hd_nat_digits: "0 < n \<Longrightarrow> hd (nat_digits n) \<noteq> CHR ''0''"
proof (induction n rule: nat_digits.induct)
  case (1 n)
  show ?case
  proof (cases "n < 10")
    case True
    then have "(of_char (char_of (48 + n) :: char) :: nat) \<noteq> of_char (CHR ''0'')" using 1(2) by simp
    then have "char_of (48 + n) \<noteq> CHR ''0''" by (metis of_char_of)
    with True show ?thesis by (subst nat_digits.simps) simp
  next
    case False
    with 1 show ?thesis by (subst nat_digits.simps) simp
  qed
qed

lemma no_leading_zero: "\<not> (1 < length (nat_digits n) \<and> hd (nat_digits n) = CHR ''0'')"
  using hd_nat_digits [of n] by (cases "n = 0") (auto simp: nat_digits.simps [of 0])

lemma ends_value_not_digit: "ends_value r \<Longrightarrow> takeWhile is_digit r = [] \<and> dropWhile is_digit r = r"
  by (cases r) (auto simp: ends_value_def is_digit_def)

lemma parse_digits_nat:
  "takeWhile is_digit r = [] \<and> dropWhile is_digit r = r \<Longrightarrow> parse_digits (nat_digits n @ r) = Some (nat_digits n, r)"
  using nat_digits_digits [of n]
  by (simp add: parse_digits_def takeWhile_append2 dropWhile_append2)

lemma ends_value_number:
  "ends_value r \<Longrightarrow> parse_fraction r = Some (0, r) \<and> parse_exponent r = Some (0, r)"
  by (cases r) (auto simp: ends_value_def parse_fraction_def parse_exponent_def)

lemma parse_unsigned_nat: "ends_value r \<Longrightarrow> parse_unsigned (nat_digits n @ r) = Some (of_nat n, r)"
  unfolding parse_unsigned_def parse_digits_nat [OF ends_value_not_digit]
  using no_leading_zero [of n] ends_value_number [of r] by (simp add: scale10_def)

lemma nat_digits_Cons: obtains c cs where "nat_digits n = c # cs" "is_digit c"
  using nat_digits_digits [of n] nat_digits_ne [of n] by (cases "nat_digits n") auto

lemma parse_number_int:
  assumes "ends_value r"
  shows "parse_number (int_digits i @ r) = Some (of_int i, r)"
proof (cases "i < 0")
  case True
  then show ?thesis using assms by (simp add: int_digits_def parse_number_def parse_unsigned_nat)
next
  case False
  obtain c cs where c: "nat_digits (nat i) = c # cs" "is_digit c" by (rule nat_digits_Cons)
  then have "c \<noteq> CHR ''-''" by (auto simp: is_digit_def)
  with False c have "parse_number (int_digits i @ r) = parse_unsigned (nat_digits (nat i) @ r)"
    by (simp add: int_digits_def parse_number_def)
  with False assms show ?thesis by (simp add: parse_unsigned_nat)
qed

text \<open>Documents.\<close>

lemma json_quote_Cons: "json_quote s @ r = CHR 0x22 # concat (map json_escape s) @ CHR 0x22 # r"
  by (simp add: json_quote_def)

lemma int_digits_Cons:
  obtains c cs where "int_digits i = c # cs" "is_digit c \<or> c = CHR ''-''"
proof (cases "i < 0")
  case True
  then show ?thesis using that by (simp add: int_digits_def)
next
  case False
  obtain c cs where "nat_digits (nat i) = c # cs" "is_digit c" by (rule nat_digits_Cons)
  with False show ?thesis using that by (simp add: int_digits_def)
qed

lemma number_char:
  assumes "is_digit c \<or> c = CHR ''-''"
  shows "\<not> is_json_space c" "c \<noteq> CHR '']''" "c \<noteq> CHR ''}''" "c \<noteq> CHR ''[''" "c \<noteq> CHR ''{''" "c \<noteq> CHR 0x22"
    "c \<noteq> CHR ''n''" "c \<noteq> CHR ''t''" "c \<noteq> CHR ''f''"
  using assms by (auto simp: is_json_space_def is_digit_def)

lemma stringify_head:
  obtains c cs where "JSON_stringify v = c # cs" "\<not> is_json_space c" "c \<noteq> CHR '']''" "c \<noteq> CHR ''}''"
proof (cases v)
  case (JNum r)
  obtain c cs where "int_digits \<lfloor>r\<rfloor> = c # cs" "is_digit c \<or> c = CHR ''-''" by (rule int_digits_Cons)
  with JNum show ?thesis using that [of c cs] number_char [of c] by simp
next
  case (JBool b)
  then show ?thesis using that by (cases b) (simp_all add: is_json_space_def)
qed (use that in \<open>simp_all add: json_quote_def is_json_space_def split: if_splits\<close>)

lemma parse_value_number:
  assumes "ends_value r"
  shows "parse_value (Suc n) (int_digits i @ r) = Some (JNum (of_int i), r)"
proof -
  obtain c cs where c: "int_digits i = c # cs" "is_digit c \<or> c = CHR ''-''" by (rule int_digits_Cons)
  then have "parse_value (Suc n) (int_digits i @ r) = map_option (apfst JNum) (parse_number (int_digits i @ r))"
    using number_char [OF c(2)] by simp
  with assms show ?thesis by (simp add: parse_number_int)
qed

lemma set_prop_fresh: "k \<notin> fst ` set kvs \<Longrightarrow> set_prop k v kvs = kvs @ [(k, v)]"
  by (induction kvs) auto

lemma parse_stringify:
  "printable v \<Longrightarrow> ends_value r \<Longrightarrow> length (JSON_stringify v) \<le> n
     \<Longrightarrow> parse_value n (JSON_stringify v @ r) = Some (v, r)"
  "vs \<noteq> [] \<Longrightarrow> \<forall>v \<in> set vs. printable v \<Longrightarrow> length (stringify_elements vs) \<le> n
     \<Longrightarrow> parse_elements n (stringify_elements vs @ r) = Some (vs, r)"
  "kvs \<noteq> [] \<Longrightarrow> distinct (map fst (acc @ kvs)) \<Longrightarrow> \<forall>kv \<in> set kvs. printable (snd kv)
     \<Longrightarrow> length (stringify_members kvs) \<le> n
     \<Longrightarrow> parse_members n acc (stringify_members kvs @ r) = Some (acc @ kvs, r)"
proof (induction v and vs and kvs arbitrary: r n and r n and acc r n
    rule: JSON_stringify_stringify_elements_stringify_members.induct)
  case 1
  then show ?case by (cases n) (simp_all add: is_json_space_def)
next
  case (2 b)
  then show ?case by (cases n; cases b) (simp_all add: is_json_space_def)
next
  case (3 q)
  obtain c cs where "int_digits \<lfloor>q\<rfloor> = c # cs" by (rule int_digits_Cons)
  with 3 obtain m where "n = Suc m" by (cases n) simp_all
  with 3 show ?case by (simp add: parse_value_number del: parse_value.simps)
next
  case (4 s)
  then show ?case
    by (cases n) (simp_all add: json_quote_Cons is_json_space_def parse_chars_quote json_quote_def)
next
  case (5 vs)
  then obtain m where n: "n = Suc m" by (cases n) auto
  show ?case
  proof (cases "vs = []")
    case True
    then show ?thesis by (simp add: n is_json_space_def)
  next
    case False
    then obtain v vs' where vs: "vs = v # vs'" by (cases vs) auto
    obtain c cs where "JSON_stringify v = c # cs" "\<not> is_json_space c" "c \<noteq> CHR '']''" by (rule stringify_head)
    with 5 n False vs have "parse_elements m (stringify_elements vs @ r) = Some (vs, r)" by simp
    moreover have "skip_ws (stringify_elements vs @ r) = c # cs @ (if vs' = [] then '']'' else CHR '','' # stringify_elements vs') @ r"
      using \<open>JSON_stringify v = c # cs\<close> \<open>\<not> is_json_space c\<close> vs by simp
    ultimately show ?thesis using \<open>c \<noteq> CHR '']''\<close> by (simp add: n is_json_space_def)
  qed
next
  case (6 kvs)
  then obtain m where n: "n = Suc m" by (cases n) auto
  show ?case
  proof (cases "kvs = []")
    case True
    then show ?thesis by (simp add: n is_json_space_def)
  next
    case False
    then obtain kv kvs' where kvs: "kvs = kv # kvs'" by (cases kvs) auto
    obtain cs where cs: "stringify_members kvs @ r = CHR 0x22 # cs" by (simp add: kvs json_quote_def)
    from 6 n False have "parse_members m [] (stringify_members kvs @ r) = Some (kvs, r)" by simp
    with cs show ?thesis by (simp add: n is_json_space_def)
  qed
next
  case 7
  then show ?case by simp
next
  case (8 v vs)
  then obtain m where n: "n = Suc m" by (cases n) (auto split: if_splits)
  have "ends_value ((if vs = [] then '']'' else CHR '','' # stringify_elements vs) @ r)"
    by (simp add: ends_value_def)
  from 8(1) [OF _ this, of m] 8(2) [of m r] 8(3-) n show ?case
    by (auto simp: is_json_space_def split: if_splits)
next
  case 9
  then show ?case by simp
next
  case (10 kv kvs)
  then obtain m where n: "n = Suc m" by (cases n) auto
  have "ends_value ((if kvs = [] then ''}'' else CHR '','' # stringify_members kvs) @ r)"
    by (simp add: ends_value_def)
  note v = 10(1) [OF _ this, of m]
  from v 10(2) [of "acc @ [kv]" m r] 10(3-) n show ?case
    by (cases kv) (auto simp: json_quote_Cons is_json_space_def parse_chars_quote set_prop_fresh split: if_splits)
qed

lemma JSON_parse_stringify: "printable v \<Longrightarrow> JSON_parse (JSON_stringify v) = Some v"
  using parse_stringify(1) [of v "[]" "Suc (2 * length (JSON_stringify v))"]
  by (simp add: JSON_parse_def ends_value_def del: parse_value.simps)

section \<open>Schemas, read backwards\<close>

named_theorems schema_simps \<open>characterisations of what a schema accepts\<close>

lemma z_string_Some [schema_simps]: "z_string v = Some s \<longleftrightarrow> v = Some (JStr s)"
  by (cases "v" rule: z_string.cases) auto

lemma z_int_Some [schema_simps]:
  "z_int v = Some n \<longleftrightarrow> v = Some (JNum (of_int n)) \<and> \<bar>n\<bar> \<le> MAX_SAFE_INTEGER"
  by (cases "v" rule: z_int.cases) auto

lemma z_refine_Some [schema_simps]: "z_refine p z v = Some x \<longleftrightarrow> z v = Some x \<and> p x"
  by (auto simp: z_refine_def bind_eq_Some_conv split: if_splits)

lemma z_optional_Some [schema_simps]:
  "z_optional z v = Some y \<longleftrightarrow> (if v = None then y = None else \<exists>x. y = Some x \<and> z v = Some x)"
  by (auto simp: z_optional_def split: option.splits)

lemma z_object_Some [schema_simps]:
  "z_object shape v = Some x \<longleftrightarrow> (\<exists>kvs. v = Some (JObj kvs) \<and> shape (map_of kvs) = Some x)"
  by (auto simp: z_object_def split: option.splits json.splits)

lemma those_Some: "those (map f xs) = Some ys \<longleftrightarrow> list_all2 (\<lambda>x y. f x = Some y) xs ys"
  by (induction xs arbitrary: ys) (auto simp: list_all2_Cons1 split: option.splits)

lemma those_map_ok: "(\<And>x. x \<in> set xs \<Longrightarrow> f x = Some (g x)) \<Longrightarrow> those (map f xs) = Some (map g xs)"
  by (induction xs) auto

lemma z_array_Some [schema_simps]:
  "z_array z v = Some ys \<longleftrightarrow> (\<exists>vs. v = Some (JArr vs) \<and> list_all2 (\<lambda>w y. z (Some w) = Some y) vs ys)"
  by (cases "(z, v)" rule: z_array.cases) (auto simp: those_Some)

lemma z_record_Some [schema_simps]:
  "z_record z v = Some ys \<longleftrightarrow> (\<exists>kvs. v = Some (JObj kvs) \<and>
     list_all2 (\<lambda>(k, w) (k', y). k = k' \<and> z (Some w) = Some y) kvs ys)"
  by (cases "(z, v)" rule: z_record.cases) (auto simp: those_Some elim!: list_all2_mono)

end
