(* ===== verification/Event_Machines.thy ===== *)
theory Event_Machines
  imports Prelude
begin

text \<open>
  Machines driven by events, as the hooks of the web front end are: a guard says which events can
  happen in a state, and a function says what the handlers make of one. \<open>reachable\<close> are the
  states that runs lead to, \<open>run_events\<close> computes a given run. The locale \<open>event_machine\<close> is the
  proof obligation of an invariant; what it gives is used by every machine of the front end.
\<close>

inductive reachable :: "('e \<Rightarrow> 's \<Rightarrow> bool) \<Rightarrow> ('e \<Rightarrow> 's \<Rightarrow> 's) \<Rightarrow> 's \<Rightarrow> 's \<Rightarrow> bool" for guard act s0 where
  start: "reachable guard act s0 s0"
| step: "reachable guard act s0 s \<Longrightarrow> guard e s \<Longrightarrow> reachable guard act s0 (act e s)"

fun run_events :: "('e \<Rightarrow> 's \<Rightarrow> bool) \<Rightarrow> ('e \<Rightarrow> 's \<Rightarrow> 's) \<Rightarrow> 'e list \<Rightarrow> 's \<Rightarrow> 's option" where
  "run_events guard act [] s = Some s"
| "run_events guard act (e # es) s = (if guard e s then run_events guard act es (act e s) else None)"

lemma run_events_append:
  "run_events guard act (es @ fs) s = Option.bind (run_events guard act es s) (run_events guard act fs)"
  by (induction es arbitrary: s) auto

lemma run_events_reachable_from:
  "reachable guard act s0 s \<Longrightarrow> run_events guard act es s = Some t \<Longrightarrow> reachable guard act s0 t"
  by (induction es arbitrary: s) (auto split: if_splits intro: reachable.step)

lemma run_events_reachable: "run_events guard act es s = Some t \<Longrightarrow> reachable guard act s t"
  by (rule run_events_reachable_from [OF reachable.start])

lemma reachable_run: "reachable guard act s t \<Longrightarrow> \<exists>es. run_events guard act es s = Some t"
proof (induction rule: reachable.induct)
  case start
  have "run_events guard act [] s = Some s" by simp
  then show ?case by blast
next
  case (step u e)
  then obtain es where "run_events guard act es s = Some u" by blast
  with step.hyps have "run_events guard act (es @ [e]) s = Some (act e u)"
    by (simp add: run_events_append)
  then show ?case by blast
qed

locale event_machine =
  fixes guard :: "'e \<Rightarrow> 's \<Rightarrow> bool" and act :: "'e \<Rightarrow> 's \<Rightarrow> 's" and s0 :: 's and ok :: "'s \<Rightarrow> bool"
  assumes ok_start: "ok s0"
    and ok_step: "ok s \<Longrightarrow> guard e s \<Longrightarrow> ok (act e s)"
begin

lemma reachable_ok: "reachable guard act s0 s \<Longrightarrow> ok s"
  by (induction rule: reachable.induct) (auto intro: ok_start ok_step)

lemma run_ok: "ok s \<Longrightarrow> run_events guard act es s = Some t \<Longrightarrow> ok t"
  by (induction es arbitrary: s) (auto split: if_splits intro: ok_step)

end

end
