(* ===== verification/Log_Tail.thy ===== *)
theory Log_Tail
  imports Json Event_Machines "HOL-Library.Monad_Syntax"
begin

text \<open>
  The live tail of the web front end, \<^verbatim>\<open>apps/web/src/features/log-explorer\<close>: the frame
  contract (\<^verbatim>\<open>tail-event.ts\<close>), client-side filtering (\<^verbatim>\<open>filtering.ts\<close>), the autoscroll
  decision (\<^verbatim>\<open>scroll.ts\<close>) and the state machine of the hook (\<^verbatim>\<open>use-log-tail.ts\<close>) with
  the buttons its toolbar offers (\<^verbatim>\<open>tail-toolbar.tsx\<close>).

  The state of the hook is one record: React state, the refs, and what the platform holds for
  it, namely the event sources that were constructed and not closed, the armed timeouts and
  intervals, and the next handle. A \<open>tail_event\<close> is what the browser or the user does next, with
  the condition under which it can happen: only an open source delivers, a source fires
  \<open>open\<close> once and data only afterwards, only an armed timer fires, and a button is clicked only
  while the toolbar shows it. React state updates take effect at once, and the options of the
  hook stay fixed.
\<close>

section \<open>Frames\<close>

definition logLevelSchema :: "string list" where
  "logLevelSchema = [''trace'', ''debug'', ''info'', ''warn'', ''error'', ''fatal'']"

definition LOG_LEVELS :: "string list" where
  "LOG_LEVELS = logLevelSchema"

record TailLogEvent =
  te_tenant_id :: string
  te_ts :: string
  te_id :: "string option"
  te_service :: string
  te_level :: string
  te_message :: string
  te_labels :: "(string \<times> string) list"
  te_trace_id :: "string option"
  te_span_id :: "string option"

definition tailLogEventSchema :: "TailLogEvent schema" where
  "tailLogEventSchema = z_object (\<lambda>p. do {
     tenant_id \<leftarrow> z_string (p ''tenant_id'');
     ts \<leftarrow> z_string (p ''ts'');
     ident \<leftarrow> z_optional z_string (p ''id'');
     service \<leftarrow> z_string (p ''service'');
     level \<leftarrow> z_refine (\<lambda>l. l \<in> set logLevelSchema) z_string (p ''level'');
     message \<leftarrow> z_string (p ''message'');
     labels \<leftarrow> map_option (\<lambda>v. case v of None \<Rightarrow> [] | Some l \<Rightarrow> l) (z_nullish (z_record z_string) (p ''labels''));
     trace_id \<leftarrow> z_optional z_string (p ''trace_id'');
     span_id \<leftarrow> z_optional z_string (p ''span_id'');
     Some \<lparr> te_tenant_id = tenant_id, te_ts = ts, te_id = ident, te_service = service, te_level = level,
            te_message = message, te_labels = labels, te_trace_id = trace_id, te_span_id = span_id \<rparr> })"

definition gapFrameSchema :: "int schema" where
  "gapFrameSchema = z_object (\<lambda>p. z_refine (\<lambda>n. 0 \<le> n) z_int (p ''dropped''))"

definition parseLogFrame :: "string \<Rightarrow> TailLogEvent option" where
  "parseLogFrame data =
     (case JSON_parse data of None \<Rightarrow> None | Some v \<Rightarrow> tailLogEventSchema (Some v))"

definition parseGapFrame :: "string \<Rightarrow> int" where
  "parseGapFrame data =
     (case JSON_parse data of
        None \<Rightarrow> 0
      | Some v \<Rightarrow> (case gapFrameSchema (Some v) of None \<Rightarrow> 0 | Some n \<Rightarrow> n))"

section \<open>Filtering\<close>

record LogFilters =
  lf_service :: string
  lf_levels :: "string list"
  lf_label :: string
  lf_text :: string

definition EMPTY_FILTERS :: LogFilters where
  "EMPTY_FILTERS = \<lparr> lf_service = [], lf_levels = [], lf_label = [], lf_text = [] \<rparr>"

definition filtersActive :: "LogFilters \<Rightarrow> bool" where
  "filtersActive f \<longleftrightarrow>
     trim (lf_service f) \<noteq> [] \<or> 0 < length (lf_levels f) \<or> trim (lf_label f) \<noteq> [] \<or> trim (lf_text f) \<noteq> []"

definition matchesLabel :: "(string \<times> string) list \<Rightarrow> string \<Rightarrow> bool" where
  "matchesLabel labels query =
     (let q = toLowerCase (trim query)
      in if q = [] then True
         else case indexOf q ''='' of
           Some eq \<Rightarrow>
             (let key = trim (take eq q); val = trim (drop (eq + 1) q)
              in list_ex (\<lambda>(k, v). toLowerCase k = key \<and> includesStr (toLowerCase v) val) labels)
         | None \<Rightarrow>
             list_ex (\<lambda>(k, v). includesStr (toLowerCase k) q \<or> includesStr (toLowerCase v) q) labels)"

definition matchesFilters :: "TailLogEvent \<Rightarrow> LogFilters \<Rightarrow> bool" where
  "matchesFilters ev f =
     (if 0 < length (lf_levels f) \<and> te_level ev \<notin> set (lf_levels f) then False
      else let service = toLowerCase (trim (lf_service f))
      in if service \<noteq> [] \<and> \<not> includesStr (toLowerCase (te_service ev)) service then False
      else let text = toLowerCase (trim (lf_text f))
      in if text \<noteq> [] \<and> \<not> includesStr (toLowerCase (te_message ev)) text then False
      else matchesLabel (te_labels ev) (lf_label f))"

section \<open>Autoscroll\<close>

definition NEAR_BOTTOM_PX :: rat where "NEAR_BOTTOM_PX = 24"

definition isNearBottom :: "rat \<Rightarrow> rat \<Rightarrow> rat \<Rightarrow> rat \<Rightarrow> bool" where
  "isNearBottom scrollTop scrollHeight clientHeight threshold \<longleftrightarrow>
     scrollHeight - scrollTop - clientHeight < threshold"

definition nextAutoscroll :: "bool \<Rightarrow> bool \<Rightarrow> bool" where
  "nextAutoscroll current atBottom =
     (if \<not> atBottom \<and> current then False else if atBottom \<and> \<not> current then True else current)"

section \<open>The hook\<close>

datatype TailStatus = Connecting | Streaming | Reconnecting | Paused | Offline

datatype gap_reason = Dropped | Reconnect

datatype TailItem =
    LogItem (item_seq: nat) TailLogEvent
  | GapItem (item_seq: nat) gap_reason int

record Stats =
  st_received :: nat
  st_dropped :: int
  st_reconnects :: nat

record tail_config =
  cf_maxItems :: nat
  cf_backoffMs :: "int list"
  cf_maxReconnectAttempts :: nat

definition default_config :: tail_config where
  "default_config =
     \<lparr> cf_maxItems = 1000, cf_backoffMs = [500, 1000, 2000, 5000, 10000], cf_maxReconnectAttempts = 5 \<rparr>"

record tail =
  tl_items :: "TailItem list"
  tl_status :: TailStatus
  tl_paused :: bool
  tl_stats :: Stats
  tl_es :: "nat option"
  tl_reconnectTimer :: "nat option"
  tl_flushTimer :: "nat option"
  tl_attempt :: nat
  tl_stopped :: bool
  tl_sawOpen :: bool
  tl_wantGapOnOpen :: bool
  tl_seq :: nat
  tl_pending :: "TailItem list"
  tl_statsRef :: Stats
  tl_sources :: "nat list"
  tl_connected :: "nat list"
  tl_timeouts :: "(nat \<times> int) list"
  tl_intervals :: "nat list"
  tl_handle :: nat
  tl_exhausted :: nat
  tl_cleanup :: bool
  tl_mounted :: bool

definition no_stats :: Stats where
  "no_stats = \<lparr> st_received = 0, st_dropped = 0, st_reconnects = 0 \<rparr>"

definition tail_zero :: tail where
  "tail_zero =
     \<lparr> tl_items = [], tl_status = Connecting, tl_paused = False, tl_stats = no_stats,
       tl_es = None, tl_reconnectTimer = None, tl_flushTimer = None, tl_attempt = 0,
       tl_stopped = False, tl_sawOpen = False, tl_wantGapOnOpen = False, tl_seq = 0,
       tl_pending = [], tl_statsRef = no_stats, tl_sources = [], tl_connected = [],
       tl_timeouts = [], tl_intervals = [], tl_handle = 0, tl_exhausted = 0,
       tl_cleanup = False, tl_mounted = True \<rparr>"

definition pushItem :: "(nat \<Rightarrow> TailItem) \<Rightarrow> tail \<Rightarrow> tail" where
  "pushItem item t = t\<lparr>tl_pending := tl_pending t @ [item (tl_seq t)], tl_seq := Suc (tl_seq t)\<rparr>"

definition flush :: "tail_config \<Rightarrow> tail \<Rightarrow> tail" where
  "flush cfg t =
     (let pend = tl_pending t;
          merged = tl_items t @ pend;
          t1 = t\<lparr>tl_pending := []\<rparr>;
          t2 = (if 0 < length pend
                then t1\<lparr>tl_items := if cf_maxItems cfg < length merged
                                    then drop (length merged - cf_maxItems cfg) merged else merged\<rparr>
                else t1)
      in t2\<lparr>tl_stats := tl_statsRef t\<rparr>)"

definition closeSource :: "tail \<Rightarrow> tail" where
  "closeSource t =
     (case tl_es t of
        None \<Rightarrow> t
      | Some i \<Rightarrow> t\<lparr>tl_sources := removeAll i (tl_sources t), tl_es := None\<rparr>)"

definition connect :: "tail \<Rightarrow> tail" where
  "connect t =
     (if tl_stopped t then t
      else t\<lparr>tl_es := Some (tl_handle t), tl_sources := tl_sources t @ [tl_handle t],
             tl_handle := Suc (tl_handle t)\<rparr>)"

definition onOpen :: "nat \<Rightarrow> tail \<Rightarrow> tail" where
  "onOpen i t =
     (let t1 = t\<lparr>tl_connected := i # tl_connected t, tl_attempt := 0\<rparr>;
          t2 = (if tl_wantGapOnOpen t1
                then (pushItem (\<lambda>s. GapItem s Reconnect 0) t1)
                       \<lparr>tl_statsRef := (tl_statsRef t1)\<lparr>st_reconnects := st_reconnects (tl_statsRef t1) + 1\<rparr>,
                        tl_wantGapOnOpen := False\<rparr>
                else t1)
      in t2\<lparr>tl_sawOpen := True, tl_status := Streaming\<rparr>)"

definition onMessage :: "string \<Rightarrow> tail \<Rightarrow> tail" where
  "onMessage data t =
     (case parseLogFrame data of
        None \<Rightarrow> t
      | Some ev \<Rightarrow>
          (pushItem (\<lambda>s. LogItem s ev) t)
            \<lparr>tl_statsRef := (tl_statsRef t)\<lparr>st_received := st_received (tl_statsRef t) + 1\<rparr>\<rparr>)"

definition onGap :: "string \<Rightarrow> tail \<Rightarrow> tail" where
  "onGap data t =
     (let dropped = parseGapFrame data
      in (pushItem (\<lambda>s. GapItem s Dropped dropped) t)
           \<lparr>tl_statsRef := (tl_statsRef t)\<lparr>st_dropped := st_dropped (tl_statsRef t) + dropped\<rparr>\<rparr>)"

text \<open>\<open>backoff[idx] ?? backoff[backoff.length - 1] ?? 1000\<close> with \<open>idx\<close> capped at the last entry.\<close>

definition backoff_delay :: "tail_config \<Rightarrow> nat \<Rightarrow> int" where
  "backoff_delay cfg attempt =
     (let backoff = cf_backoffMs cfg
      in if backoff = [] then 1000 else backoff ! min attempt (length backoff - 1))"

definition onError :: "tail_config \<Rightarrow> tail \<Rightarrow> tail" where
  "onError cfg t =
     (if tl_stopped t then t
      else let t1 = (closeSource t)\<lparr>tl_wantGapOnOpen := True\<rparr>
      in if cf_maxReconnectAttempts cfg \<le> tl_attempt t1
         then t1\<lparr>tl_status := Offline, tl_exhausted := Suc (tl_exhausted t1)\<rparr>
         else t1\<lparr>tl_status := Reconnecting,
                 tl_attempt := Suc (tl_attempt t1),
                 tl_reconnectTimer := Some (tl_handle t1),
                 tl_timeouts := tl_timeouts t1 @ [(tl_handle t1, backoff_delay cfg (tl_attempt t1))],
                 tl_handle := Suc (tl_handle t1)\<rparr>)"

definition clearReconnectTimer :: "tail \<Rightarrow> tail" where
  "clearReconnectTimer t =
     (case tl_reconnectTimer t of
        None \<Rightarrow> t
      | Some h \<Rightarrow> t\<lparr>tl_timeouts := filter (\<lambda>(k, d). k \<noteq> h) (tl_timeouts t), tl_reconnectTimer := None\<rparr>)"

definition clearFlushTimer :: "tail \<Rightarrow> tail" where
  "clearFlushTimer t =
     (case tl_flushTimer t of
        None \<Rightarrow> t
      | Some h \<Rightarrow> t\<lparr>tl_intervals := removeAll h (tl_intervals t), tl_flushTimer := None\<rparr>)"

definition setFlushTimer :: "tail \<Rightarrow> tail" where
  "setFlushTimer t =
     t\<lparr>tl_flushTimer := Some (tl_handle t), tl_intervals := tl_intervals t @ [tl_handle t],
       tl_handle := Suc (tl_handle t)\<rparr>"

definition stop :: "tail_config \<Rightarrow> tail \<Rightarrow> tail" where
  "stop cfg t =
     flush cfg (closeSource (clearFlushTimer (clearReconnectTimer (t\<lparr>tl_stopped := True\<rparr>))))"

text \<open>The effect on \<open>[paused, url]\<close>, and the cleanup of its previous run.\<close>

definition run_effect :: "tail \<Rightarrow> tail" where
  "run_effect t =
     (if tl_paused t then t\<lparr>tl_status := Paused\<rparr>
      else let t1 = t\<lparr>tl_stopped := False, tl_attempt := 0\<rparr>;
               t2 = (if tl_sawOpen t1 then t1\<lparr>tl_wantGapOnOpen := True, tl_status := Reconnecting\<rparr>
                     else t1\<lparr>tl_status := Connecting\<rparr>)
           in (connect (setFlushTimer t2))\<lparr>tl_cleanup := True\<rparr>)"

definition run_cleanup :: "tail_config \<Rightarrow> tail \<Rightarrow> tail" where
  "run_cleanup cfg t = (if tl_cleanup t then (stop cfg t)\<lparr>tl_cleanup := False\<rparr> else t)"

definition setPaused :: "tail_config \<Rightarrow> bool \<Rightarrow> tail \<Rightarrow> tail" where
  "setPaused cfg b t =
     (if tl_paused t = b then t else run_effect (run_cleanup cfg (t\<lparr>tl_paused := b\<rparr>)))"

definition pause :: "tail_config \<Rightarrow> tail \<Rightarrow> tail" where "pause cfg = setPaused cfg True"

definition resume :: "tail_config \<Rightarrow> tail \<Rightarrow> tail" where "resume cfg = setPaused cfg False"

definition reconnect :: "tail \<Rightarrow> tail" where
  "reconnect t =
     (if tl_stopped t then t
      else let t1 = (clearReconnectTimer t)\<lparr>tl_attempt := 0, tl_wantGapOnOpen := True\<rparr>;
               t2 = (if tl_flushTimer t1 = None then setFlushTimer t1 else t1)
           in connect (t2\<lparr>tl_status := Reconnecting\<rparr>))"

definition clear :: "tail \<Rightarrow> tail" where
  "clear t = t\<lparr>tl_pending := [], tl_items := []\<rparr>"

definition tail_start :: tail where
  "tail_start = run_effect tail_zero"

section \<open>What can happen\<close>

datatype toolbar_button = ReconnectButton | ResumeButton | PauseButton

definition toolbar_action :: "TailStatus \<Rightarrow> bool \<Rightarrow> toolbar_button" where
  "toolbar_action status paused =
     (if status = Offline then ReconnectButton else if paused then ResumeButton else PauseButton)"

datatype tail_event =
    SourceOpen nat
  | SourceMessage nat string
  | SourceGap nat string
  | SourceError nat
  | TimeoutFires nat
  | FlushTick nat
  | Click toolbar_button
  | ClickClear
  | Unmount

fun enabled :: "tail_event \<Rightarrow> tail \<Rightarrow> bool" where
  "enabled (SourceOpen i) t \<longleftrightarrow> i \<in> set (tl_sources t) \<and> i \<notin> set (tl_connected t)"
| "enabled (SourceMessage i d) t \<longleftrightarrow> i \<in> set (tl_sources t) \<and> i \<in> set (tl_connected t)"
| "enabled (SourceGap i d) t \<longleftrightarrow> i \<in> set (tl_sources t) \<and> i \<in> set (tl_connected t)"
| "enabled (SourceError i) t \<longleftrightarrow> i \<in> set (tl_sources t)"
| "enabled (TimeoutFires h) t \<longleftrightarrow> h \<in> fst ` set (tl_timeouts t)"
| "enabled (FlushTick h) t \<longleftrightarrow> h \<in> set (tl_intervals t)"
| "enabled (Click b) t \<longleftrightarrow> tl_mounted t \<and> b = toolbar_action (tl_status t) (tl_paused t)"
| "enabled ClickClear t \<longleftrightarrow> tl_mounted t"
| "enabled Unmount t \<longleftrightarrow> tl_mounted t"

fun tail_do :: "tail_config \<Rightarrow> tail_event \<Rightarrow> tail \<Rightarrow> tail" where
  "tail_do cfg (SourceOpen i) t = onOpen i t"
| "tail_do cfg (SourceMessage i data) t = onMessage data t"
| "tail_do cfg (SourceGap i data) t = onGap data t"
| "tail_do cfg (SourceError i) t = onError cfg t"
| "tail_do cfg (TimeoutFires h) t = connect (t\<lparr>tl_timeouts := filter (\<lambda>(k, d). k \<noteq> h) (tl_timeouts t)\<rparr>)"
| "tail_do cfg (FlushTick h) t = flush cfg t"
| "tail_do cfg (Click PauseButton) t = pause cfg t"
| "tail_do cfg (Click ResumeButton) t = resume cfg t"
| "tail_do cfg (Click ReconnectButton) t = reconnect t"
| "tail_do cfg ClickClear t = clear t"
| "tail_do cfg Unmount t = (run_cleanup cfg t)\<lparr>tl_mounted := False\<rparr>"

abbreviation tail_reach :: "tail_config \<Rightarrow> tail \<Rightarrow> bool" where
  "tail_reach cfg \<equiv> reachable enabled (tail_do cfg) tail_start"

abbreviation tail_run :: "tail_config \<Rightarrow> tail_event list \<Rightarrow> tail \<Rightarrow> tail option" where
  "tail_run cfg \<equiv> run_events enabled (tail_do cfg)"

section \<open>Visible rows\<close>

text \<open>The rows the explorer renders: gap markers always, log lines when they match.\<close>

fun row_visible :: "LogFilters \<Rightarrow> TailItem \<Rightarrow> bool" where
  "row_visible f (GapItem s r d) = True"
| "row_visible f (LogItem s ev) = matchesFilters ev f"

definition visible_rows :: "tail \<Rightarrow> LogFilters \<Rightarrow> TailItem list" where
  "visible_rows t f = filter (row_visible f) (tl_items t)"

end
