(* ===== verification/Contracts.thy ===== *)
theory Contracts
  imports Json Auth Services Log_Tail "HOL-Library.Monad_Syntax"
begin

text \<open>
  \<^verbatim>\<open>packages/contracts/src\<close>: the zod schemas of the requests and responses that cross the wire,
  as decoders of JSON values. A request schema decodes into the command the route hands to its
  service, a response schema into the record the web application works with.

  \<^item> The format checks of zod (\<open>email\<close>, \<open>url\<close>, \<open>datetime\<close>), the instant an accepted datetime
    denotes and the host name of the URL parser are library code: the record \<open>formats\<close>.
  \<^item> \<open>.strict()\<close> is \<open>z_strict\<close> with the names of the shape; the other objects strip unknown
    names. \<open>.default(d)\<close> replaces an absent value and nothing else.
\<close>

record formats =
  fm_email :: "string \<Rightarrow> bool"
  fm_url :: "string \<Rightarrow> bool"
  fm_datetime :: "string \<Rightarrow> bool"
  fm_instant :: "string \<Rightarrow> millis"
  fm_hostname :: "string \<Rightarrow> string option"

section \<open>Combinators\<close>

definition z_strict :: "string list \<Rightarrow> ((string \<Rightarrow> json option) \<Rightarrow> 'a option) \<Rightarrow> 'a schema" where
  "z_strict names shape v =
     (case v of
        Some (JObj kvs) \<Rightarrow>
          if list_all (\<lambda>(k, _). k \<in> set names) kvs then shape (map_of kvs) else None
      | _ \<Rightarrow> None)"

definition z_default :: "'a \<Rightarrow> 'a schema \<Rightarrow> 'a schema" where
  "z_default d z v = (case v of None \<Rightarrow> Some d | Some _ \<Rightarrow> z v)"

definition z_nullable :: "'a schema \<Rightarrow> 'a option schema" where
  "z_nullable z v = (if v = Some JNull then Some None else map_option Some (z v))"

definition z_sized :: "nat \<Rightarrow> nat \<Rightarrow> string schema" where
  "z_sized lo hi = z_refine (\<lambda>s. lo \<le> length s \<and> length s \<le> hi) z_string"

text \<open>\<open>z.string().trim().min(lo).max(hi)\<close>: the bounds apply to the trimmed text.\<close>

definition z_trimmed :: "nat \<Rightarrow> nat \<Rightarrow> string schema" where
  "z_trimmed lo hi =
     z_refine (\<lambda>s. lo \<le> length s \<and> length s \<le> hi) (\<lambda>v. map_option trim (z_string v))"

definition z_enum :: "(string \<times> 'a) list \<Rightarrow> 'a schema" where
  "z_enum names v = Option.bind (z_string v) (map_of names)"

definition z_names :: "string list \<Rightarrow> string schema" where
  "z_names names = z_refine (\<lambda>s. s \<in> set names) z_string"

fun z_bool :: "bool schema" where
  "z_bool (Some (JBool b)) = Some b"
| "z_bool _ = None"

fun z_number :: "rat schema" where
  "z_number (Some (JNum r)) = Some r"
| "z_number _ = None"

definition z_unknown :: "json schema" where "z_unknown v = v"

definition z_between :: "int \<Rightarrow> int \<Rightarrow> int schema" where
  "z_between lo hi = z_refine (\<lambda>n. lo \<le> n \<and> n \<le> hi) z_int"

definition z_email :: "formats \<Rightarrow> string schema" where
  "z_email F = z_refine (\<lambda>s. fm_email F s \<and> length s \<le> 320) z_string"

text \<open>\<open>z.string().url()\<close> checks, and hands on, the text without the blanks around it.\<close>

definition z_url :: "formats \<Rightarrow> string schema" where
  "z_url F = z_refine (fm_url F) (\<lambda>v. map_option trim (z_string v))"

text \<open>The order of JavaScript strings: by code unit, a proper prefix first.\<close>

fun js_less :: "string \<Rightarrow> string \<Rightarrow> bool" where
  "js_less _ [] = False"
| "js_less [] (_ # _) = True"
| "js_less (a # as) (b # bs) =
     ((of_char a :: nat) < of_char b \<or> (a = b \<and> js_less as bs))"

section \<open>Identifiers and names\<close>

definition is_hex :: "char \<Rightarrow> bool" where
  "is_hex c \<longleftrightarrow> (let n = (of_char c :: nat)
     in (48 \<le> n \<and> n \<le> 57) \<or> (97 \<le> n \<and> n \<le> 102) \<or> (65 \<le> n \<and> n \<le> 70))"

definition uuid_shaped :: "string \<Rightarrow> bool" where
  "uuid_shaped s \<longleftrightarrow>
     length s = 36
     \<and> list_all (\<lambda>i. s ! i = CHR ''-'') [8, 13, 18, 23]
     \<and> list_all (\<lambda>i. is_hex (s ! i))
         ([0..<8] @ [9..<13] @ [14..<18] @ [19..<23] @ [24..<36])"

definition uuidSchema :: "string schema" where
  "uuidSchema = z_refine uuid_shaped z_string"

definition z_slug :: "string schema" where
  "z_slug = z_refine tenantPublicIdSchema z_string"

definition membershipRoleSchema :: "membership_role schema" where
  "membershipRoleSchema = z_enum [(''tenant_admin'', MR_tenant_admin), (''member'', MR_member)]"

definition roleSchema :: "role schema" where
  "roleSchema = z_enum
     [(''platform_operator'', platform_operator), (''tenant_admin'', tenant_admin), (''member'', member)]"

section \<open>Sessions\<close>

definition loginRequestSchema :: "formats \<Rightarrow> LoginCommand schema" where
  "loginRequestSchema F = z_strict [''tenantSlug'', ''email'', ''password''] (\<lambda>p. do {
     slug \<leftarrow> z_slug (p ''tenantSlug'');
     email \<leftarrow> z_email F (p ''email'');
     password \<leftarrow> z_sized 1 200 (p ''password'');
     Some \<lparr> lc_tenantSlug = slug, lc_email = email, lc_password = password \<rparr> })"

definition z_nonempty :: "string schema" where
  "z_nonempty = z_refine (\<lambda>s. s \<noteq> []) z_string"

definition refreshRequestSchema :: "string schema" where
  "refreshRequestSchema = z_strict [''refreshToken''] (\<lambda>p. z_nonempty (p ''refreshToken''))"

definition logoutRequestSchema :: "string schema" where
  "logoutRequestSchema = z_strict [''refreshToken''] (\<lambda>p. z_nonempty (p ''refreshToken''))"

definition tokenPairSchema :: "SessionTokens schema" where
  "tokenPairSchema = z_object (\<lambda>p. do {
     access \<leftarrow> z_string (p ''accessToken'');
     refresh \<leftarrow> z_string (p ''refreshToken'');
     expires \<leftarrow> z_refine (\<lambda>n. 0 < n) z_int (p ''expiresIn'');
     kind \<leftarrow> z_names [''Bearer''] (p ''tokenType'');
     role \<leftarrow> roleSchema (p ''role'');
     tenant \<leftarrow> uuidSchema (p ''tenantId'');
     user \<leftarrow> uuidSchema (p ''userId'');
     Some \<lparr> st_accessToken = access, st_refreshToken = refresh, st_expiresIn = expires,
            st_tokenType = kind, st_role = role, st_tenantId = tenant, st_userId = user \<rparr> })"

record AccessClaims =
  ac_sub :: string
  ac_tenant_id :: string
  ac_role :: role
  ac_iat :: int
  ac_exp :: int

definition accessClaimsSchema :: "AccessClaims schema" where
  "accessClaimsSchema = z_object (\<lambda>p. do {
     sub \<leftarrow> uuidSchema (p ''sub'');
     tenant \<leftarrow> uuidSchema (p ''tenant_id'');
     role \<leftarrow> roleSchema (p ''role'');
     iat \<leftarrow> z_int (p ''iat'');
     exp \<leftarrow> z_int (p ''exp'');
     Some \<lparr> ac_sub = sub, ac_tenant_id = tenant, ac_role = role, ac_iat = iat, ac_exp = exp \<rparr> })"

section \<open>Tenants and users\<close>

definition tenantStatusSchema :: "tenant_status schema" where
  "tenantStatusSchema = z_enum [(''active'', TS_active), (''suspended'', TS_suspended), (''deleted'', TS_deleted)]"

definition createTenantRequestSchema :: "NewTenant schema" where
  "createTenantRequestSchema = z_strict [''publicId'', ''name''] (\<lambda>p. do {
     slug \<leftarrow> z_slug (p ''publicId'');
     name \<leftarrow> z_trimmed 1 200 (p ''name'');
     Some \<lparr> nt_publicId = slug, nt_name = name \<rparr> })"

definition updateTenantRequestSchema :: "TenantPatch schema" where
  "updateTenantRequestSchema =
     z_refine (\<lambda>v. tp_name v \<noteq> None \<or> tp_status v \<noteq> None)
       (z_strict [''name'', ''status''] (\<lambda>p. do {
          name \<leftarrow> z_optional (z_trimmed 1 200) (p ''name'');
          status \<leftarrow> z_optional tenantStatusSchema (p ''status'');
          Some \<lparr> tp_name = name, tp_status = status \<rparr> }))"

definition userStatusSchema :: "string schema" where
  "userStatusSchema = z_names [''active'', ''suspended'']"

definition passwordSchema :: "string schema" where
  "passwordSchema = z_sized 8 200"

definition createUserRequestSchema :: "formats \<Rightarrow> CreateUserCommand schema" where
  "createUserRequestSchema F =
     z_strict [''email'', ''password'', ''displayName'', ''role''] (\<lambda>p. do {
       email \<leftarrow> z_email F (p ''email'');
       password \<leftarrow> passwordSchema (p ''password'');
       name \<leftarrow> z_optional (z_trimmed 1 200) (p ''displayName'');
       role \<leftarrow> z_default MR_member membershipRoleSchema (p ''role'');
       Some \<lparr> cu_email = email, cu_password = password, cu_displayName = name, cu_role = role \<rparr> })"

definition updateUserRequestSchema :: "UpdateUserCommand schema" where
  "updateUserRequestSchema =
     z_refine (\<lambda>v. uu_displayName v \<noteq> None \<or> uu_status v \<noteq> None \<or> uu_role v \<noteq> None \<or> uu_password v \<noteq> None)
       (z_strict [''displayName'', ''status'', ''role'', ''password''] (\<lambda>p. do {
          name \<leftarrow> z_optional (z_trimmed 1 200) (p ''displayName'');
          status \<leftarrow> z_optional userStatusSchema (p ''status'');
          role \<leftarrow> z_optional membershipRoleSchema (p ''role'');
          password \<leftarrow> z_optional passwordSchema (p ''password'');
          Some \<lparr> uu_displayName = name, uu_status = status, uu_role = role, uu_password = password \<rparr> }))"

definition provisionAdminSchema :: "formats \<Rightarrow> ProvisionAdminCommand schema" where
  "provisionAdminSchema F =
     z_strict [''email'', ''password'', ''displayName''] (\<lambda>p. do {
       email \<leftarrow> z_email F (p ''email'');
       password \<leftarrow> z_sized 8 200 (p ''password'');
       name \<leftarrow> z_optional (z_trimmed 1 200) (p ''displayName'');
       Some \<lparr> pa_email = email, pa_password = password, pa_displayName = name \<rparr> })"

section \<open>API keys, retention and invites\<close>

definition scopeSchema :: "string schema" where
  "scopeSchema = z_names [''ingest:write'', ''logs:read'']"

text \<open>The route turns an accepted \<open>expiresAt\<close> into a date and an absent one into null.\<close>

definition createApiKeyRequestSchema :: "formats \<Rightarrow> IssueApiKeyCommand schema" where
  "createApiKeyRequestSchema F = z_strict [''name'', ''scopes'', ''expiresAt''] (\<lambda>p. do {
     name \<leftarrow> z_trimmed 1 200 (p ''name'');
     scopes \<leftarrow> z_default [''ingest:write''] (z_refine (\<lambda>xs. xs \<noteq> []) (z_array scopeSchema)) (p ''scopes'');
     expires \<leftarrow> z_optional (z_refine (fm_datetime F) z_string) (p ''expiresAt'');
     Some \<lparr> ik_name = name, ik_scopes = Some scopes,
            ik_expiresAt = (case expires of None \<Rightarrow> None | Some d \<Rightarrow> if d = [] then None else Some (fm_instant F d)) \<rparr> })"

definition upsertRetentionRequestSchema :: "UpsertRetentionCommand schema" where
  "upsertRetentionRequestSchema =
     z_refine (\<lambda>v. ur_hotDays v \<le> ur_coldDays v)
       (z_strict [''hotDays'', ''coldDays''] (\<lambda>p. do {
          hot \<leftarrow> z_between 1 90 (p ''hotDays'');
          cold \<leftarrow> z_between 1 36500 (p ''coldDays'');
          Some \<lparr> ur_hotDays = hot, ur_coldDays = cold \<rparr> }))"

definition createInviteRequestSchema :: "formats \<Rightarrow> CreateInviteCommand schema" where
  "createInviteRequestSchema F = z_strict [''email'', ''role''] (\<lambda>p. do {
     email \<leftarrow> z_email F (p ''email'');
     role \<leftarrow> z_default ''member'' (z_names [''member'', ''admin'']) (p ''role'');
     Some \<lparr> cinv_email = email, cinv_role = role \<rparr> })"

section \<open>Saved queries\<close>

definition z_labels :: "(string \<times> string) list option schema" where
  "z_labels = z_optional (z_record z_string)"

definition savedQueryFiltersSchema :: "SavedQueryFilters schema" where
  "savedQueryFiltersSchema = z_strict [''service'', ''level'', ''labels''] (\<lambda>p. do {
     service \<leftarrow> z_optional (z_trimmed 0 200) (p ''service'');
     level \<leftarrow> z_optional (z_names logLevelSchema) (p ''level'');
     labels \<leftarrow> z_labels (p ''labels'');
     Some \<lparr> sf_service = service, sf_level = level, sf_labels = labels \<rparr> })"

definition savedQueryTimeRangeSchema :: "(string \<times> json) list schema" where
  "savedQueryTimeRangeSchema v =
     (case z_strict [''relative''] (\<lambda>p. z_trimmed 1 50 (p ''relative'')) v of
        Some r \<Rightarrow> Some [(''relative'', JStr r)]
      | None \<Rightarrow>
          (case z_refine (\<lambda>(f, t). js_less f t)
                  (z_strict [''from'', ''to''] (\<lambda>p. do {
                     f \<leftarrow> z_string (p ''from'');
                     t \<leftarrow> z_string (p ''to'');
                     Some (f, t) })) v of
             Some (f, t) \<Rightarrow> Some [(''from'', JStr f), (''to'', JStr t)]
           | None \<Rightarrow> z_strict [] (\<lambda>_. Some []) v))"

definition no_filters :: SavedQueryFilters where
  "no_filters = \<lparr> sf_service = None, sf_level = None, sf_labels = None \<rparr>"

definition createSavedQueryRequestSchema :: "CreateSavedQueryCommand schema" where
  "createSavedQueryRequestSchema =
     z_strict [''name'', ''description'', ''queryText'', ''filters'', ''timeRange''] (\<lambda>p. do {
       name \<leftarrow> z_trimmed 1 200 (p ''name'');
       description \<leftarrow> z_optional (z_trimmed 0 2000) (p ''description'');
       text \<leftarrow> z_default [] (z_sized 0 1000) (p ''queryText'');
       filters \<leftarrow> z_default no_filters savedQueryFiltersSchema (p ''filters'');
       range \<leftarrow> z_default [] savedQueryTimeRangeSchema (p ''timeRange'');
       Some \<lparr> cq_name = name, cq_description = description, cq_queryText = text,
              cq_filters = filters, cq_timeRange = range \<rparr> })"

definition updateSavedQueryRequestSchema :: "SavedQueryPatch schema" where
  "updateSavedQueryRequestSchema =
     z_refine (\<lambda>v. psq_name v \<noteq> None \<or> psq_description v \<noteq> None \<or> psq_queryText v \<noteq> None
                 \<or> psq_filters v \<noteq> None \<or> psq_timeRange v \<noteq> None)
       (z_strict [''name'', ''description'', ''queryText'', ''filters'', ''timeRange''] (\<lambda>p. do {
          name \<leftarrow> z_optional (z_trimmed 1 200) (p ''name'');
          description \<leftarrow> z_optional (z_nullable (z_trimmed 0 2000)) (p ''description'');
          text \<leftarrow> z_optional (z_sized 0 1000) (p ''queryText'');
          filters \<leftarrow> z_optional savedQueryFiltersSchema (p ''filters'');
          range \<leftarrow> z_optional savedQueryTimeRangeSchema (p ''timeRange'');
          Some \<lparr> psq_name = name, psq_description = description, psq_queryText = text,
                 psq_filters = filters, psq_timeRange = range \<rparr> }))"

section \<open>Dashboards\<close>

definition z_positive :: "int schema" where
  "z_positive = z_refine (\<lambda>n. 0 < n) z_int"

definition z_natural :: "int schema" where
  "z_natural = z_refine (\<lambda>n. 0 \<le> n) z_int"

definition panelGridSchema :: "(int \<times> int \<times> int \<times> int) schema" where
  "panelGridSchema = z_strict [''x'', ''y'', ''w'', ''h''] (\<lambda>p. do {
     x \<leftarrow> z_natural (p ''x'');
     y \<leftarrow> z_natural (p ''y'');
     w \<leftarrow> z_positive (p ''w'');
     h \<leftarrow> z_positive (p ''h'');
     Some (x, y, w, h) })"

definition panelTypeSchema :: "panel_type schema" where
  "panelTypeSchema = z_enum [(''timeseries'', timeseries), (''stat'', stat), (''logs'', logs)]"

definition panelSchema :: "Panel schema" where
  "panelSchema = z_strict [''id'', ''type'', ''title'', ''savedQueryId'', ''viz'', ''grid''] (\<lambda>p. do {
     i \<leftarrow> z_trimmed 1 100 (p ''id'');
     kind \<leftarrow> panelTypeSchema (p ''type'');
     title \<leftarrow> z_trimmed 1 200 (p ''title'');
     sq \<leftarrow> uuidSchema (p ''savedQueryId'');
     viz \<leftarrow> z_default [] (z_record z_unknown) (p ''viz'');
     grid \<leftarrow> panelGridSchema (p ''grid'');
     Some \<lparr> pn_id = i, pn_type = kind, pn_title = title, pn_savedQueryId = sq, pn_viz = viz, pn_grid = grid \<rparr> })"

definition dashboardLayoutSchema :: "DashboardLayout schema" where
  "dashboardLayoutSchema = z_strict [''panels''] (\<lambda>p.
     z_refine (\<lambda>ps. length ps \<le> 50) (z_array panelSchema) (p ''panels''))"

definition createDashboardRequestSchema :: "CreateDashboardCommand schema" where
  "createDashboardRequestSchema = z_strict [''name'', ''description'', ''layout''] (\<lambda>p. do {
     name \<leftarrow> z_trimmed 1 200 (p ''name'');
     description \<leftarrow> z_optional (z_trimmed 0 2000) (p ''description'');
     layout \<leftarrow> z_default [] dashboardLayoutSchema (p ''layout'');
     Some \<lparr> cd_name = name, cd_description = description, cd_layout = layout \<rparr> })"

definition updateDashboardRequestSchema :: "DashboardPatch schema" where
  "updateDashboardRequestSchema =
     z_refine (\<lambda>v. pd_name v \<noteq> None \<or> pd_description v \<noteq> None \<or> pd_layout v \<noteq> None)
       (z_strict [''name'', ''description'', ''layout''] (\<lambda>p. do {
          name \<leftarrow> z_optional (z_trimmed 1 200) (p ''name'');
          description \<leftarrow> z_optional (z_nullable (z_trimmed 0 2000)) (p ''description'');
          layout \<leftarrow> z_optional dashboardLayoutSchema (p ''layout'');
          Some \<lparr> pd_name = name, pd_description = description, pd_layout = layout \<rparr> }))"

section \<open>Alert rules\<close>

definition alertComparatorSchema :: "alert_comparator schema" where
  "alertComparatorSchema = z_enum [(''gt'', gt), (''gte'', gte), (''lt'', lt), (''lte'', lte), (''eq'', eq)]"

definition alertStateSchema :: "alert_state schema" where
  "alertStateSchema = z_enum [(''ok'', AS_ok), (''firing'', AS_firing), (''no_data'', AS_no_data)]"

definition alertSeveritySchema :: "string schema" where
  "alertSeveritySchema = z_names [''info'', ''warning'', ''critical'']"

definition ruleQuerySchema :: "RuleQuery schema" where
  "ruleQuerySchema = z_strict [''text'', ''service'', ''level'', ''labels''] (\<lambda>p. do {
     text \<leftarrow> z_optional (z_trimmed 0 1000) (p ''text'');
     service \<leftarrow> z_optional (z_trimmed 0 200) (p ''service'');
     level \<leftarrow> z_optional (z_names logLevelSchema) (p ''level'');
     labels \<leftarrow> z_labels (p ''labels'');
     Some \<lparr> q_text = text, q_service = service, q_level = level, q_labels = labels \<rparr> })"

definition no_query :: RuleQuery where
  "no_query = \<lparr> q_text = None, q_service = None, q_level = None, q_labels = None \<rparr>"

definition notifyChannelSchema :: "formats \<Rightarrow> NotifyChannel schema" where
  "notifyChannelSchema F v =
     (case z_object (\<lambda>p. z_string (p ''type'')) v of
        Some t \<Rightarrow>
          if t = ''webhook'' then
            map_option webhook (z_strict [''type'', ''url''] (\<lambda>p.
              z_refine (\<lambda>s. length s \<le> 2000) (z_url F) (p ''url'')) v)
          else if t = ''email'' then
            map_option email_channel (z_strict [''type'', ''to''] (\<lambda>p. z_email F (p ''to'')) v)
          else None
      | None \<Rightarrow> None)"

definition z_channels :: "formats \<Rightarrow> NotifyChannel list schema" where
  "z_channels F = z_refine (\<lambda>cs. length cs \<le> 20) (z_array (notifyChannelSchema F))"

definition z_threshold :: "rat schema" where
  "z_threshold = z_refine (\<lambda>r. 0 \<le> r) (z_refine finite_double z_number)"

definition createAlertRuleRequestSchema :: "formats \<Rightarrow> CreateAlertRuleCommand schema" where
  "createAlertRuleRequestSchema F =
     z_refine (\<lambda>v. (ca_savedQueryId v \<noteq> None) \<noteq> hasInlineQuery (ca_query v))
       (z_strict [''name'', ''savedQueryId'', ''query'', ''comparator'', ''threshold'', ''windowSeconds'',
                  ''severity'', ''enabled'', ''notifyChannels''] (\<lambda>p. do {
          name \<leftarrow> z_trimmed 1 200 (p ''name'');
          sq \<leftarrow> z_optional uuidSchema (p ''savedQueryId'');
          query \<leftarrow> z_default no_query ruleQuerySchema (p ''query'');
          comparator \<leftarrow> z_default gt alertComparatorSchema (p ''comparator'');
          threshold \<leftarrow> z_threshold (p ''threshold'');
          window \<leftarrow> z_default 300 (z_between 30 86400) (p ''windowSeconds'');
          severity \<leftarrow> z_default ''warning'' alertSeveritySchema (p ''severity'');
          enabled \<leftarrow> z_default True z_bool (p ''enabled'');
          channels \<leftarrow> z_default [] (z_channels F) (p ''notifyChannels'');
          Some \<lparr> ca_name = name, ca_savedQueryId = sq, ca_query = query, ca_comparator = comparator,
                 ca_threshold = threshold, ca_windowSeconds = window, ca_severity = severity,
                 ca_enabled = enabled, ca_notifyChannels = channels \<rparr> }))"

definition patch_present :: "AlertRulePatch \<Rightarrow> bool" where
  "patch_present v \<longleftrightarrow>
     par_name v \<noteq> None \<or> par_savedQueryId v \<noteq> None \<or> par_query v \<noteq> None \<or> par_comparator v \<noteq> None
     \<or> par_threshold v \<noteq> None \<or> par_windowSeconds v \<noteq> None \<or> par_severity v \<noteq> None
     \<or> par_enabled v \<noteq> None \<or> par_notifyChannels v \<noteq> None"

definition updateAlertRuleRequestSchema :: "formats \<Rightarrow> AlertRulePatch schema" where
  "updateAlertRuleRequestSchema F =
     z_refine (\<lambda>v. (case par_query v of None \<Rightarrow> True | Some q \<Rightarrow> hasInlineQuery q) \<or> par_savedQueryId v \<noteq> None)
     (z_refine patch_present
       (z_strict [''name'', ''savedQueryId'', ''query'', ''comparator'', ''threshold'', ''windowSeconds'',
                  ''severity'', ''enabled'', ''notifyChannels''] (\<lambda>p. do {
          name \<leftarrow> z_optional (z_trimmed 1 200) (p ''name'');
          sq \<leftarrow> z_optional (z_nullable uuidSchema) (p ''savedQueryId'');
          query \<leftarrow> z_optional ruleQuerySchema (p ''query'');
          comparator \<leftarrow> z_optional alertComparatorSchema (p ''comparator'');
          threshold \<leftarrow> z_optional z_threshold (p ''threshold'');
          window \<leftarrow> z_optional (z_between 30 86400) (p ''windowSeconds'');
          severity \<leftarrow> z_optional alertSeveritySchema (p ''severity'');
          enabled \<leftarrow> z_optional z_bool (p ''enabled'');
          channels \<leftarrow> z_optional (z_channels F) (p ''notifyChannels'');
          Some \<lparr> par_name = name, par_savedQueryId = sq, par_query = query, par_comparator = comparator,
                 par_threshold = threshold, par_windowSeconds = window, par_severity = severity,
                 par_enabled = enabled, par_notifyChannels = channels \<rparr> })))"

section \<open>OIDC\<close>

definition containsControlChar :: "string \<Rightarrow> bool" where
  "containsControlChar v = list_ex (\<lambda>c. (of_char c :: nat) \<le> 31 \<or> (of_char c :: nat) = 127) v"

definition relative_path :: "string \<Rightarrow> bool" where
  "relative_path v \<longleftrightarrow>
     (case v of
        [] \<Rightarrow> False
      | c # rest \<Rightarrow> c = CHR ''/'' \<and> (case rest of [] \<Rightarrow> True | d # _ \<Rightarrow> d \<noteq> CHR ''/'' \<and> d \<noteq> CHR 0x5C))"

definition returnToSchema :: "string schema" where
  "returnToSchema = z_refine (\<lambda>v. relative_path v \<and> \<not> containsControlChar v) (z_trimmed 1 2000)"

record OidcAuthorizeRequest =
  oar_tenantSlug :: string
  oar_returnTo :: "string option"

definition oidcAuthorizeRequestSchema :: "OidcAuthorizeRequest schema" where
  "oidcAuthorizeRequestSchema = z_strict [''tenantSlug'', ''returnTo''] (\<lambda>p. do {
     slug \<leftarrow> z_slug (p ''tenantSlug'');
     to \<leftarrow> z_optional returnToSchema (p ''returnTo'');
     Some \<lparr> oar_tenantSlug = slug, oar_returnTo = to \<rparr> })"

definition oidcAuthorizeResponseSchema :: "formats \<Rightarrow> string schema" where
  "oidcAuthorizeResponseSchema F = z_strict [''redirectUrl''] (\<lambda>p.
     z_refine (\<lambda>u. fm_hostname F u = Some ''accounts.google.com'') (z_url F) (p ''redirectUrl''))"

record OidcCallbackRequest =
  ocr_tenantSlug :: string
  ocr_code :: string
  ocr_state :: string
  ocr_inviteToken :: "string option"

definition oidcCallbackRequestSchema :: "OidcCallbackRequest schema" where
  "oidcCallbackRequestSchema = z_strict [''tenantSlug'', ''code'', ''state'', ''inviteToken''] (\<lambda>p. do {
     slug \<leftarrow> z_slug (p ''tenantSlug'');
     code \<leftarrow> z_sized 1 4096 (p ''code'');
     state \<leftarrow> z_sized 1 1024 (p ''state'');
     invite \<leftarrow> z_optional (z_sized 1 512) (p ''inviteToken'');
     Some \<lparr> ocr_tenantSlug = slug, ocr_code = code, ocr_state = state, ocr_inviteToken = invite \<rparr> })"

definition oidcCallbackClientRequestSchema :: "(string \<times> string \<times> string) schema" where
  "oidcCallbackClientRequestSchema = z_strict [''tenantSlug'', ''code'', ''state''] (\<lambda>p. do {
     slug \<leftarrow> z_slug (p ''tenantSlug'');
     code \<leftarrow> z_sized 1 4096 (p ''code'');
     state \<leftarrow> z_sized 1 1024 (p ''state'');
     Some (slug, code, state) })"

end
