(* ===== verification/Responses.thy ===== *)
theory Responses
  imports Contracts Http
begin

text \<open>
  The replies of the control plane as JSON documents, and the response schemas of
  \<^verbatim>\<open>packages/contracts/src\<close> that the web application decodes them with. Fastify sends the
  entities of \<^verbatim>\<open>domain/entities.ts\<close> as they are: a date becomes its ISO text, the argument
  \<open>to_iso\<close>, a null field stays null and an undefined one is left out.
\<close>

section \<open>Documents\<close>

definition j_opt :: "('a \<Rightarrow> json) \<Rightarrow> 'a option \<Rightarrow> json" where
  "j_opt f v = (case v of None \<Rightarrow> JNull | Some x \<Rightarrow> f x)"

definition j_field :: "string \<Rightarrow> ('a \<Rightarrow> json) \<Rightarrow> 'a option \<Rightarrow> (string \<times> json) list" where
  "j_field name f v = (case v of None \<Rightarrow> [] | Some x \<Rightarrow> [(name, f x)])"

definition j_labels :: "(string \<times> string) list \<Rightarrow> json" where
  "j_labels ls = JObj (map (\<lambda>(k, v). (k, JStr v)) ls)"

fun status_name :: "tenant_status \<Rightarrow> string" where
  "status_name TS_active = ''active''"
| "status_name TS_suspended = ''suspended''"
| "status_name TS_deleted = ''deleted''"

fun membership_name :: "membership_role \<Rightarrow> string" where
  "membership_name MR_tenant_admin = ''tenant_admin''"
| "membership_name MR_member = ''member''"

fun comparator_name :: "alert_comparator \<Rightarrow> string" where
  "comparator_name gt = ''gt''"
| "comparator_name gte = ''gte''"
| "comparator_name lt = ''lt''"
| "comparator_name lte = ''lte''"
| "comparator_name eq = ''eq''"

fun state_name :: "alert_state \<Rightarrow> string" where
  "state_name AS_ok = ''ok''"
| "state_name AS_firing = ''firing''"
| "state_name AS_no_data = ''no_data''"

fun panel_type_name :: "panel_type \<Rightarrow> string" where
  "panel_type_name timeseries = ''timeseries''"
| "panel_type_name stat = ''stat''"
| "panel_type_name logs = ''logs''"

definition session_json :: "SessionTokens \<Rightarrow> json" where
  "session_json t = JObj
     [(''accessToken'', JStr (st_accessToken t)), (''refreshToken'', JStr (st_refreshToken t)),
      (''expiresIn'', JNum (of_int (st_expiresIn t))), (''tokenType'', JStr (st_tokenType t)),
      (''role'', JStr (role_name (st_role t))), (''tenantId'', JStr (st_tenantId t)),
      (''userId'', JStr (st_userId t))]"

definition tenant_json :: "(millis \<Rightarrow> string) \<Rightarrow> Tenant \<Rightarrow> json" where
  "tenant_json to_iso t = JObj
     [(''id'', JStr (tenant_id t)), (''publicId'', JStr (tenant_publicId t)), (''name'', JStr (tenant_name t)),
      (''status'', JStr (status_name (tenant_status t))),
      (''createdAt'', JStr (to_iso (tenant_createdAt t))), (''updatedAt'', JStr (to_iso (tenant_updatedAt t)))]"

definition user_json :: "(millis \<Rightarrow> string) \<Rightarrow> User \<Rightarrow> json" where
  "user_json to_iso u = JObj
     [(''id'', JStr (user_id u)), (''tenantId'', JStr (user_tenantId u)), (''email'', JStr (user_email u)),
      (''displayName'', j_opt JStr (user_displayName u)), (''status'', JStr (user_status u)),
      (''isPlatformOperator'', JBool (user_isPlatformOperator u)),
      (''role'', j_opt (JStr \<circ> membership_name) (user_role u)),
      (''createdAt'', JStr (to_iso (user_createdAt u))), (''updatedAt'', JStr (to_iso (user_updatedAt u)))]"

definition api_key_fields :: "(millis \<Rightarrow> string) \<Rightarrow> ApiKeyRecord \<Rightarrow> (string \<times> json) list" where
  "api_key_fields to_iso k =
     [(''id'', JStr (key_id k)), (''tenantId'', JStr (key_tenantId k)), (''name'', JStr (key_name k)),
      (''scopes'', JArr (map JStr (key_scopes k))), (''createdBy'', j_opt JStr (key_createdBy k)),
      (''createdAt'', JStr (to_iso (key_createdAt k))), (''expiresAt'', j_opt (JStr \<circ> to_iso) (key_expiresAt k)),
      (''revokedAt'', j_opt (JStr \<circ> to_iso) (key_revokedAt k)),
      (''lastUsedAt'', j_opt (JStr \<circ> to_iso) (key_lastUsedAt k))]"

definition retention_json :: "(millis \<Rightarrow> string) \<Rightarrow> RetentionPolicy \<Rightarrow> json" where
  "retention_json to_iso r = JObj
     [(''tenantId'', JStr (ret_tenantId r)), (''hotDays'', JNum (of_int (ret_hotDays r))),
      (''coldDays'', JNum (of_int (ret_coldDays r))),
      (''createdAt'', JStr (to_iso (ret_createdAt r))), (''updatedAt'', JStr (to_iso (ret_updatedAt r)))]"

definition filters_json :: "SavedQueryFilters \<Rightarrow> json" where
  "filters_json f = JObj (j_field ''service'' JStr (sf_service f) @ j_field ''level'' JStr (sf_level f)
     @ j_field ''labels'' j_labels (sf_labels f))"

definition saved_query_json :: "(millis \<Rightarrow> string) \<Rightarrow> SavedQuery \<Rightarrow> json" where
  "saved_query_json to_iso s = JObj
     [(''id'', JStr (sqy_id s)), (''tenantId'', JStr (sqy_tenantId s)), (''name'', JStr (sqy_name s)),
      (''description'', j_opt JStr (sqy_description s)), (''queryText'', JStr (sqy_queryText s)),
      (''filters'', filters_json (sqy_filters s)), (''timeRange'', JObj (sqy_timeRange s)),
      (''createdBy'', j_opt JStr (sqy_createdBy s)),
      (''createdAt'', JStr (to_iso (sqy_createdAt s))), (''updatedAt'', JStr (to_iso (sqy_updatedAt s)))]"

fun grid_json :: "int \<times> int \<times> int \<times> int \<Rightarrow> json" where
  "grid_json (x, y, w, h) = JObj
     [(''x'', JNum (of_int x)), (''y'', JNum (of_int y)), (''w'', JNum (of_int w)), (''h'', JNum (of_int h))]"

definition panel_json :: "Panel \<Rightarrow> json" where
  "panel_json p = JObj
     [(''id'', JStr (pn_id p)), (''type'', JStr (panel_type_name (pn_type p))), (''title'', JStr (pn_title p)),
      (''savedQueryId'', JStr (pn_savedQueryId p)), (''viz'', JObj (pn_viz p)), (''grid'', grid_json (pn_grid p))]"

definition layout_json :: "DashboardLayout \<Rightarrow> json" where
  "layout_json ps = JObj [(''panels'', JArr (map panel_json ps))]"

definition dashboard_json :: "(millis \<Rightarrow> string) \<Rightarrow> Dashboard \<Rightarrow> json" where
  "dashboard_json to_iso d = JObj
     [(''id'', JStr (dash_id d)), (''tenantId'', JStr (dash_tenantId d)), (''name'', JStr (dash_name d)),
      (''description'', j_opt JStr (dash_description d)), (''layout'', layout_json (dash_layout d)),
      (''createdBy'', j_opt JStr (dash_createdBy d)),
      (''createdAt'', JStr (to_iso (dash_createdAt d))), (''updatedAt'', JStr (to_iso (dash_updatedAt d)))]"

definition rule_query_json :: "RuleQuery \<Rightarrow> json" where
  "rule_query_json q = JObj (j_field ''text'' JStr (q_text q) @ j_field ''service'' JStr (q_service q)
     @ j_field ''level'' JStr (q_level q) @ j_field ''labels'' j_labels (q_labels q))"

fun channel_json :: "NotifyChannel \<Rightarrow> json" where
  "channel_json (webhook url) = JObj [(''type'', JStr ''webhook''), (''url'', JStr url)]"
| "channel_json (email_channel to) = JObj [(''type'', JStr ''email''), (''to'', JStr to)]"

definition rule_json :: "(millis \<Rightarrow> string) \<Rightarrow> AlertRule \<Rightarrow> json" where
  "rule_json to_iso r = JObj
     [(''id'', JStr (rule_id r)), (''tenantId'', JStr (rule_tenantId r)), (''name'', JStr (rule_name r)),
      (''savedQueryId'', j_opt JStr (rule_savedQueryId r)), (''query'', rule_query_json (rule_query r)),
      (''comparator'', JStr (comparator_name (rule_comparator r))), (''threshold'', JNum (rule_threshold r)),
      (''windowSeconds'', JNum (of_int (rule_windowSeconds r))), (''severity'', JStr (rule_severity r)),
      (''enabled'', JBool (rule_enabled r)),
      (''notifyChannels'', JArr (map channel_json (rule_notifyChannels r))),
      (''state'', JStr (state_name (rule_state r))),
      (''lastEvaluatedAt'', j_opt (JStr \<circ> to_iso) (rule_lastEvaluatedAt r)),
      (''lastTriggeredAt'', j_opt (JStr \<circ> to_iso) (rule_lastTriggeredAt r)),
      (''createdBy'', j_opt JStr (rule_createdBy r)),
      (''createdAt'', JStr (to_iso (rule_createdAt r))), (''updatedAt'', JStr (to_iso (rule_updatedAt r)))]"

definition invite_fields :: "(millis \<Rightarrow> string) \<Rightarrow> Invite \<Rightarrow> (string \<times> json) list" where
  "invite_fields to_iso i =
     [(''id'', JStr (inv_id i)), (''tenantId'', JStr (inv_tenantId i)), (''email'', JStr (inv_email i)),
      (''role'', JStr (inv_role i)), (''status'', JStr (inv_status i)),
      (''createdBy'', j_opt JStr (inv_createdBy i)), (''expiresAt'', JStr (to_iso (inv_expiresAt i))),
      (''consumedAt'', j_opt (JStr \<circ> to_iso) (inv_consumedAt i)),
      (''createdAt'', JStr (to_iso (inv_createdAt i))), (''updatedAt'', JStr (to_iso (inv_updatedAt i)))]"

text \<open>The document of a reply; \<open>None\<close> for an empty body.\<close>

fun body_json :: "(millis \<Rightarrow> string) \<Rightarrow> reply_body \<Rightarrow> json option" where
  "body_json to_iso (ErrorBody code message details) =
     Some (JObj ([(''error'', JStr code), (''message'', JStr message)] @ j_field ''details'' id details))"
| "body_json to_iso (TenantBody t) = Some (tenant_json to_iso t)"
| "body_json to_iso (TenantsBody ts) = Some (JObj [(''tenants'', JArr (map (tenant_json to_iso) ts))])"
| "body_json to_iso (UserBody u) = Some (user_json to_iso u)"
| "body_json to_iso (UsersBody us) = Some (JObj [(''users'', JArr (map (user_json to_iso) us))])"
| "body_json to_iso (IssuedKeyBody k plaintext) =
     Some (JObj (api_key_fields to_iso k @ [(''plaintext'', JStr plaintext)]))"
| "body_json to_iso (KeysBody ks) = Some (JObj [(''apiKeys'', JArr (map (JObj \<circ> api_key_fields to_iso) ks))])"
| "body_json to_iso (RetentionBody r) = Some (retention_json to_iso r)"
| "body_json to_iso (RuleBody r) = Some (rule_json to_iso r)"
| "body_json to_iso (RulesBody rs) = Some (JObj [(''alertRules'', JArr (map (rule_json to_iso) rs))])"
| "body_json to_iso (SavedQueryBody s) = Some (saved_query_json to_iso s)"
| "body_json to_iso (SavedQueriesBody ss) =
     Some (JObj [(''savedQueries'', JArr (map (saved_query_json to_iso) ss))])"
| "body_json to_iso (DashboardBody d) = Some (dashboard_json to_iso d)"
| "body_json to_iso (DashboardsBody ds) = Some (JObj [(''dashboards'', JArr (map (dashboard_json to_iso) ds))])"
| "body_json to_iso (IssuedInviteBody i url) =
     Some (JObj (invite_fields to_iso i @ [(''inviteUrl'', JStr url)]))"
| "body_json to_iso (InvitesBody is) = Some (JObj [(''invites'', JArr (map (JObj \<circ> invite_fields to_iso) is))])"
| "body_json to_iso (SessionBody t) = Some (session_json t)"
| "body_json to_iso EmptyBody = None"

section \<open>Response schemas\<close>

record TenantResponse =
  trs_id :: string
  trs_publicId :: string
  trs_name :: string
  trs_status :: tenant_status
  trs_createdAt :: string
  trs_updatedAt :: string

definition tenantResponseSchema :: "TenantResponse schema" where
  "tenantResponseSchema = z_object (\<lambda>p. do {
     i \<leftarrow> uuidSchema (p ''id'');
     slug \<leftarrow> z_slug (p ''publicId'');
     name \<leftarrow> z_string (p ''name'');
     status \<leftarrow> tenantStatusSchema (p ''status'');
     created \<leftarrow> z_string (p ''createdAt'');
     updated \<leftarrow> z_string (p ''updatedAt'');
     Some \<lparr> trs_id = i, trs_publicId = slug, trs_name = name, trs_status = status,
            trs_createdAt = created, trs_updatedAt = updated \<rparr> })"

record UserResponse =
  urs_id :: string
  urs_tenantId :: string
  urs_email :: string
  urs_displayName :: "string option"
  urs_status :: string
  urs_role :: membership_role
  urs_isPlatformOperator :: bool
  urs_createdAt :: string
  urs_updatedAt :: string

definition userResponseSchema :: "formats \<Rightarrow> UserResponse schema" where
  "userResponseSchema F = z_object (\<lambda>p. do {
     i \<leftarrow> uuidSchema (p ''id'');
     tenant \<leftarrow> uuidSchema (p ''tenantId'');
     email \<leftarrow> z_refine (fm_email F) z_string (p ''email'');
     name \<leftarrow> z_nullable z_string (p ''displayName'');
     status \<leftarrow> userStatusSchema (p ''status'');
     role \<leftarrow> membershipRoleSchema (p ''role'');
     operator \<leftarrow> z_bool (p ''isPlatformOperator'');
     created \<leftarrow> z_string (p ''createdAt'');
     updated \<leftarrow> z_string (p ''updatedAt'');
     Some \<lparr> urs_id = i, urs_tenantId = tenant, urs_email = email, urs_displayName = name,
            urs_status = status, urs_role = role, urs_isPlatformOperator = operator,
            urs_createdAt = created, urs_updatedAt = updated \<rparr> })"

record ApiKeyResponse =
  krs_id :: string
  krs_tenantId :: string
  krs_name :: string
  krs_scopes :: "string list"
  krs_createdBy :: "string option"
  krs_createdAt :: string
  krs_lastUsedAt :: "string option"
  krs_expiresAt :: "string option"
  krs_revokedAt :: "string option"

definition apiKeyResponseSchema :: "ApiKeyResponse schema" where
  "apiKeyResponseSchema = z_object (\<lambda>p. do {
     i \<leftarrow> z_string (p ''id'');
     tenant \<leftarrow> uuidSchema (p ''tenantId'');
     name \<leftarrow> z_string (p ''name'');
     scopes \<leftarrow> z_array scopeSchema (p ''scopes'');
     by \<leftarrow> z_nullable uuidSchema (p ''createdBy'');
     created \<leftarrow> z_string (p ''createdAt'');
     used \<leftarrow> z_nullable z_string (p ''lastUsedAt'');
     expires \<leftarrow> z_nullable z_string (p ''expiresAt'');
     revoked \<leftarrow> z_nullable z_string (p ''revokedAt'');
     Some \<lparr> krs_id = i, krs_tenantId = tenant, krs_name = name, krs_scopes = scopes, krs_createdBy = by,
            krs_createdAt = created, krs_lastUsedAt = used, krs_expiresAt = expires, krs_revokedAt = revoked \<rparr> })"

definition apiKeyCreatedResponseSchema :: "(ApiKeyResponse \<times> string) schema" where
  "apiKeyCreatedResponseSchema v = do {
     k \<leftarrow> apiKeyResponseSchema v;
     plaintext \<leftarrow> z_object (\<lambda>p. z_string (p ''plaintext'')) v;
     Some (k, plaintext) }"

record RetentionResponse =
  rrs_tenantId :: string
  rrs_hotDays :: rat
  rrs_coldDays :: rat
  rrs_createdAt :: string
  rrs_updatedAt :: string

definition retentionResponseSchema :: "RetentionResponse schema" where
  "retentionResponseSchema = z_object (\<lambda>p. do {
     tenant \<leftarrow> uuidSchema (p ''tenantId'');
     hot \<leftarrow> z_number (p ''hotDays'');
     cold \<leftarrow> z_number (p ''coldDays'');
     created \<leftarrow> z_string (p ''createdAt'');
     updated \<leftarrow> z_string (p ''updatedAt'');
     Some \<lparr> rrs_tenantId = tenant, rrs_hotDays = hot, rrs_coldDays = cold,
            rrs_createdAt = created, rrs_updatedAt = updated \<rparr> })"

record SavedQueryResponse =
  srs_id :: string
  srs_tenantId :: string
  srs_name :: string
  srs_description :: "string option"
  srs_queryText :: string
  srs_filters :: SavedQueryFilters
  srs_timeRange :: "(string \<times> json) list"
  srs_createdBy :: "string option"
  srs_createdAt :: string
  srs_updatedAt :: string

definition savedQueryResponseSchema :: "SavedQueryResponse schema" where
  "savedQueryResponseSchema = z_object (\<lambda>p. do {
     i \<leftarrow> uuidSchema (p ''id'');
     tenant \<leftarrow> uuidSchema (p ''tenantId'');
     name \<leftarrow> z_string (p ''name'');
     description \<leftarrow> z_nullable z_string (p ''description'');
     text \<leftarrow> z_string (p ''queryText'');
     filters \<leftarrow> savedQueryFiltersSchema (p ''filters'');
     range \<leftarrow> z_record z_unknown (p ''timeRange'');
     by \<leftarrow> z_nullable uuidSchema (p ''createdBy'');
     created \<leftarrow> z_string (p ''createdAt'');
     updated \<leftarrow> z_string (p ''updatedAt'');
     Some \<lparr> srs_id = i, srs_tenantId = tenant, srs_name = name, srs_description = description,
            srs_queryText = text, srs_filters = filters, srs_timeRange = range, srs_createdBy = by,
            srs_createdAt = created, srs_updatedAt = updated \<rparr> })"

record DashboardResponse =
  drs_id :: string
  drs_tenantId :: string
  drs_name :: string
  drs_description :: "string option"
  drs_layout :: DashboardLayout
  drs_createdBy :: "string option"
  drs_createdAt :: string
  drs_updatedAt :: string

definition dashboardResponseSchema :: "DashboardResponse schema" where
  "dashboardResponseSchema = z_object (\<lambda>p. do {
     i \<leftarrow> uuidSchema (p ''id'');
     tenant \<leftarrow> uuidSchema (p ''tenantId'');
     name \<leftarrow> z_string (p ''name'');
     description \<leftarrow> z_nullable z_string (p ''description'');
     layout \<leftarrow> dashboardLayoutSchema (p ''layout'');
     by \<leftarrow> z_nullable uuidSchema (p ''createdBy'');
     created \<leftarrow> z_string (p ''createdAt'');
     updated \<leftarrow> z_string (p ''updatedAt'');
     Some \<lparr> drs_id = i, drs_tenantId = tenant, drs_name = name, drs_description = description,
            drs_layout = layout, drs_createdBy = by, drs_createdAt = created, drs_updatedAt = updated \<rparr> })"

record AlertRuleResponse =
  ars_id :: string
  ars_tenantId :: string
  ars_name :: string
  ars_savedQueryId :: "string option"
  ars_query :: RuleQuery
  ars_comparator :: alert_comparator
  ars_threshold :: rat
  ars_windowSeconds :: rat
  ars_severity :: string
  ars_enabled :: bool
  ars_notifyChannels :: "NotifyChannel list"
  ars_state :: alert_state
  ars_lastEvaluatedAt :: "string option"
  ars_lastTriggeredAt :: "string option"
  ars_createdBy :: "string option"
  ars_createdAt :: string
  ars_updatedAt :: string

definition alertRuleResponseSchema :: "formats \<Rightarrow> AlertRuleResponse schema" where
  "alertRuleResponseSchema F = z_object (\<lambda>p. do {
     i \<leftarrow> uuidSchema (p ''id'');
     tenant \<leftarrow> uuidSchema (p ''tenantId'');
     name \<leftarrow> z_string (p ''name'');
     sq \<leftarrow> z_nullable uuidSchema (p ''savedQueryId'');
     query \<leftarrow> ruleQuerySchema (p ''query'');
     comparator \<leftarrow> alertComparatorSchema (p ''comparator'');
     threshold \<leftarrow> z_number (p ''threshold'');
     window \<leftarrow> z_number (p ''windowSeconds'');
     severity \<leftarrow> z_string (p ''severity'');
     enabled \<leftarrow> z_bool (p ''enabled'');
     channels \<leftarrow> z_array (notifyChannelSchema F) (p ''notifyChannels'');
     state \<leftarrow> alertStateSchema (p ''state'');
     evaluated \<leftarrow> z_nullable z_string (p ''lastEvaluatedAt'');
     triggered \<leftarrow> z_nullable z_string (p ''lastTriggeredAt'');
     by \<leftarrow> z_nullable uuidSchema (p ''createdBy'');
     created \<leftarrow> z_string (p ''createdAt'');
     updated \<leftarrow> z_string (p ''updatedAt'');
     Some \<lparr> ars_id = i, ars_tenantId = tenant, ars_name = name, ars_savedQueryId = sq, ars_query = query,
            ars_comparator = comparator, ars_threshold = threshold, ars_windowSeconds = window,
            ars_severity = severity, ars_enabled = enabled, ars_notifyChannels = channels, ars_state = state,
            ars_lastEvaluatedAt = evaluated, ars_lastTriggeredAt = triggered, ars_createdBy = by,
            ars_createdAt = created, ars_updatedAt = updated \<rparr> })"

definition inviteStatusSchema :: "string schema" where
  "inviteStatusSchema = z_names [''pending'', ''consumed'', ''revoked'']"

record InviteResponse =
  irs_id :: string
  irs_tenantId :: string
  irs_email :: string
  irs_role :: string
  irs_status :: string
  irs_expiresAt :: string
  irs_createdBy :: "string option"
  irs_consumedAt :: "string option"
  irs_createdAt :: string
  irs_updatedAt :: string

definition inviteResponseSchema :: "formats \<Rightarrow> InviteResponse schema" where
  "inviteResponseSchema F = z_object (\<lambda>p. do {
     i \<leftarrow> uuidSchema (p ''id'');
     tenant \<leftarrow> uuidSchema (p ''tenantId'');
     email \<leftarrow> z_refine (fm_email F) z_string (p ''email'');
     role \<leftarrow> z_names [''member'', ''admin''] (p ''role'');
     status \<leftarrow> inviteStatusSchema (p ''status'');
     expires \<leftarrow> z_string (p ''expiresAt'');
     by \<leftarrow> z_nullable uuidSchema (p ''createdBy'');
     consumed \<leftarrow> z_nullable z_string (p ''consumedAt'');
     created \<leftarrow> z_string (p ''createdAt'');
     updated \<leftarrow> z_string (p ''updatedAt'');
     Some \<lparr> irs_id = i, irs_tenantId = tenant, irs_email = email, irs_role = role, irs_status = status,
            irs_expiresAt = expires, irs_createdBy = by, irs_consumedAt = consumed,
            irs_createdAt = created, irs_updatedAt = updated \<rparr> })"

definition inviteCreatedResponseSchema :: "formats \<Rightarrow> (InviteResponse \<times> string) schema" where
  "inviteCreatedResponseSchema F v = do {
     i \<leftarrow> inviteResponseSchema F v;
     url \<leftarrow> z_object (\<lambda>p. z_url F (p ''inviteUrl'')) v;
     Some (i, url) }"

definition inviteListSchema :: "formats \<Rightarrow> InviteResponse list schema" where
  "inviteListSchema F = z_object (\<lambda>p. z_array (inviteResponseSchema F) (p ''invites''))"

end
