(* ===== verification/Api.thy ===== *)
theory Api
  imports Responses
begin

text \<open>
  The HTTP interface of the control plane from the request line to the reply document:
  \<^verbatim>\<open>adapters/http/validation.ts\<close> and the registrations of \<^verbatim>\<open>adapters/http/routes.ts\<close>. A path is
  the list of its decoded segments; matching it against the registered patterns is Fastify's
  part and comes out as the case distinction of \<open>route\<close>. The list of issues a failed validation
  carries is composed by zod and is the argument \<open>issues\<close>. A request that no route matches has
  no value here.
\<close>

section \<open>Validation\<close>

definition parse :: "(json option \<Rightarrow> json) \<Rightarrow> 'a schema \<Rightarrow> json option \<Rightarrow> json + 'a" where
  "parse issues schema v = (case schema v of Some x \<Rightarrow> Inr x | None \<Rightarrow> Inl (issues v))"

definition path_params :: "string \<Rightarrow> json option" where
  "path_params ident = Some (JObj [(''id'', JStr ident)])"

definition uuidParamSchema :: "string schema" where
  "uuidParamSchema = z_object (\<lambda>p. uuidSchema (p ''id''))"

definition apiKeyIdParamSchema :: "string schema" where
  "apiKeyIdParamSchema = z_object (\<lambda>p. z_nonempty (p ''id''))"

text \<open>A handler validates the body, the path parameter, or the parameter and then the body.\<close>

definition on_body :: "(json option \<Rightarrow> json) \<Rightarrow> 'a schema \<Rightarrow> ('a \<Rightarrow> call) \<Rightarrow> json option \<Rightarrow> json + call" where
  "on_body issues schema f body = map_sum id f (parse issues schema body)"

definition on_id :: "(json option \<Rightarrow> json) \<Rightarrow> (string \<Rightarrow> call) \<Rightarrow> string \<Rightarrow> json + call" where
  "on_id issues f ident = map_sum id f (parse issues uuidParamSchema (path_params ident))"

definition on_id_body ::
  "(json option \<Rightarrow> json) \<Rightarrow> 'a schema \<Rightarrow> (string \<Rightarrow> 'a \<Rightarrow> call) \<Rightarrow> string \<Rightarrow> json option \<Rightarrow> json + call" where
  "on_id_body issues schema f ident body =
     (case parse issues uuidParamSchema (path_params ident) of
        Inl e \<Rightarrow> Inl e
      | Inr i \<Rightarrow> on_body issues schema (f i) body)"

section \<open>Protected routes\<close>

text \<open>
  Each table gives, for the method and the segments after \<open>/v1/<resource>\<close>, the operation the route
  is registered with and its validated call.
\<close>

type_synonym route_entry = "operation \<times> (json + call)"

definition tenants_routes ::
  "formats \<Rightarrow> (json option \<Rightarrow> json) \<Rightarrow> string \<Rightarrow> string list \<Rightarrow> json option \<Rightarrow> route_entry option" where
  "tenants_routes F issues m rest body =
     (case rest of
        [] \<Rightarrow>
          if m = ''POST'' then Some (Tenant_create, on_body issues createTenantRequestSchema (Tenants \<circ> TenantCreate) body)
          else if m = ''GET'' then Some (Tenant_list, Inr (Tenants TenantList))
          else None
      | [i] \<Rightarrow>
          if m = ''GET'' then Some (Tenant_read, on_id issues (Tenants \<circ> TenantGet) i)
          else if m = ''PATCH'' then
            Some (Tenant_update, on_id_body issues updateTenantRequestSchema (\<lambda>i b. Tenants (TenantUpdate i b)) i body)
          else if m = ''DELETE'' then Some (Tenant_delete, on_id issues (Tenants \<circ> TenantRemove) i)
          else None
      | [i, action] \<Rightarrow>
          if m = ''POST'' \<and> action = ''admin'' then
            Some (Tenant_provision_admin,
              on_id_body issues (provisionAdminSchema F) (\<lambda>i b. Tenants (TenantProvisionAdmin i b)) i body)
          else None
      | _ \<Rightarrow> None)"

definition users_routes ::
  "formats \<Rightarrow> (json option \<Rightarrow> json) \<Rightarrow> string \<Rightarrow> string list \<Rightarrow> json option \<Rightarrow> route_entry option" where
  "users_routes F issues m rest body =
     (case rest of
        [] \<Rightarrow>
          if m = ''POST'' then Some (User_create, on_body issues (createUserRequestSchema F) (Users \<circ> UserCreate) body)
          else if m = ''GET'' then Some (User_list, Inr (Users UserList))
          else None
      | [i] \<Rightarrow>
          if m = ''GET'' then Some (User_read, on_id issues (Users \<circ> UserGet) i)
          else if m = ''PATCH'' then
            Some (User_update, on_id_body issues updateUserRequestSchema (\<lambda>i b. Users (UserUpdate i b)) i body)
          else if m = ''DELETE'' then Some (User_delete, on_id issues (Users \<circ> UserRemove) i)
          else None
      | _ \<Rightarrow> None)"

definition api_keys_routes ::
  "formats \<Rightarrow> (json option \<Rightarrow> json) \<Rightarrow> string \<Rightarrow> string list \<Rightarrow> json option \<Rightarrow> route_entry option" where
  "api_keys_routes F issues m rest body =
     (case rest of
        [] \<Rightarrow>
          if m = ''POST'' then Some (Apikey_create, on_body issues (createApiKeyRequestSchema F) (Keys \<circ> KeyIssue) body)
          else if m = ''GET'' then Some (Apikey_list, Inr (Keys KeyList))
          else None
      | [i] \<Rightarrow>
          if m = ''DELETE'' then
            Some (Apikey_revoke,
              map_sum id (Keys \<circ> KeyRevoke) (parse issues apiKeyIdParamSchema (path_params i)))
          else None
      | _ \<Rightarrow> None)"

definition retention_routes ::
  "(json option \<Rightarrow> json) \<Rightarrow> string \<Rightarrow> string list \<Rightarrow> json option \<Rightarrow> route_entry option" where
  "retention_routes issues m rest body =
     (case rest of
        [] \<Rightarrow>
          if m = ''GET'' then Some (Retention_read, Inr (Retention RetentionGet))
          else if m = ''PUT'' then
            Some (Retention_update, on_body issues upsertRetentionRequestSchema (Retention \<circ> RetentionUpsert) body)
          else None
      | _ \<Rightarrow> None)"

definition alert_rules_routes ::
  "formats \<Rightarrow> (json option \<Rightarrow> json) \<Rightarrow> string \<Rightarrow> string list \<Rightarrow> json option \<Rightarrow> route_entry option" where
  "alert_rules_routes F issues m rest body =
     (case rest of
        [] \<Rightarrow>
          if m = ''POST'' then Some (Alert_create, on_body issues (createAlertRuleRequestSchema F) (Alerts \<circ> AlertCreate) body)
          else if m = ''GET'' then Some (Alert_list, Inr (Alerts AlertList))
          else None
      | [i] \<Rightarrow>
          if m = ''GET'' then Some (Alert_read, on_id issues (Alerts \<circ> AlertGet) i)
          else if m = ''PATCH'' then
            Some (Alert_update, on_id_body issues (updateAlertRuleRequestSchema F) (\<lambda>i b. Alerts (AlertUpdate i b)) i body)
          else if m = ''DELETE'' then Some (Alert_delete, on_id issues (Alerts \<circ> AlertRemove) i)
          else None
      | _ \<Rightarrow> None)"

definition saved_queries_routes ::
  "(json option \<Rightarrow> json) \<Rightarrow> string \<Rightarrow> string list \<Rightarrow> json option \<Rightarrow> route_entry option" where
  "saved_queries_routes issues m rest body =
     (case rest of
        [] \<Rightarrow>
          if m = ''POST'' then
            Some (Savedquery_create, on_body issues createSavedQueryRequestSchema (SavedQueries \<circ> SavedQueryCreate) body)
          else if m = ''GET'' then Some (Savedquery_list, Inr (SavedQueries SavedQueryList))
          else None
      | [i] \<Rightarrow>
          if m = ''GET'' then Some (Savedquery_read, on_id issues (SavedQueries \<circ> SavedQueryGet) i)
          else if m = ''PATCH'' then
            Some (Savedquery_update,
              on_id_body issues updateSavedQueryRequestSchema (\<lambda>i b. SavedQueries (SavedQueryUpdate i b)) i body)
          else if m = ''DELETE'' then Some (Savedquery_delete, on_id issues (SavedQueries \<circ> SavedQueryRemove) i)
          else None
      | _ \<Rightarrow> None)"

definition dashboards_routes ::
  "(json option \<Rightarrow> json) \<Rightarrow> string \<Rightarrow> string list \<Rightarrow> json option \<Rightarrow> route_entry option" where
  "dashboards_routes issues m rest body =
     (case rest of
        [] \<Rightarrow>
          if m = ''POST'' then
            Some (Dashboard_create, on_body issues createDashboardRequestSchema (Dashboards \<circ> DashboardCreate) body)
          else if m = ''GET'' then Some (Dashboard_list, Inr (Dashboards DashboardList))
          else None
      | [i] \<Rightarrow>
          if m = ''GET'' then Some (Dashboard_read, on_id issues (Dashboards \<circ> DashboardGet) i)
          else if m = ''PATCH'' then
            Some (Dashboard_update,
              on_id_body issues updateDashboardRequestSchema (\<lambda>i b. Dashboards (DashboardUpdate i b)) i body)
          else if m = ''DELETE'' then Some (Dashboard_delete, on_id issues (Dashboards \<circ> DashboardRemove) i)
          else None
      | _ \<Rightarrow> None)"

definition invites_routes ::
  "formats \<Rightarrow> (json option \<Rightarrow> json) \<Rightarrow> string \<Rightarrow> string list \<Rightarrow> json option \<Rightarrow> route_entry option" where
  "invites_routes F issues m rest body =
     (case rest of
        [] \<Rightarrow>
          if m = ''POST'' then Some (Invite_create, on_body issues (createInviteRequestSchema F) (Invites \<circ> InviteCreate) body)
          else if m = ''GET'' then Some (Invite_list, Inr (Invites InviteList))
          else None
      | [i, action] \<Rightarrow>
          if m = ''POST'' \<and> action = ''revoke'' then Some (Invite_revoke, on_id issues (Invites \<circ> InviteRevoke) i)
          else None
      | _ \<Rightarrow> None)"

definition route ::
  "formats \<Rightarrow> (json option \<Rightarrow> json) \<Rightarrow> string \<Rightarrow> string list \<Rightarrow> json option \<Rightarrow> route_entry option" where
  "route F issues m path body =
     (case path of
        v # resource # rest \<Rightarrow>
          if v \<noteq> ''v1'' then None
          else if resource = ''tenants'' then tenants_routes F issues m rest body
          else if resource = ''users'' then users_routes F issues m rest body
          else if resource = ''api-keys'' then api_keys_routes F issues m rest body
          else if resource = ''retention'' then retention_routes issues m rest body
          else if resource = ''alert-rules'' then alert_rules_routes F issues m rest body
          else if resource = ''saved-queries'' then saved_queries_routes issues m rest body
          else if resource = ''dashboards'' then dashboards_routes issues m rest body
          else if resource = ''invites'' then invites_routes F issues m rest body
          else None
      | _ \<Rightarrow> None)"

section \<open>Public routes\<close>

text \<open>What a request may draw, by the route that handles it.\<close>

record api_draws =
  xd_call :: call_draws
  xd_session :: draws
  xd_authorize :: authorize_draws
  xd_callback :: callback_draws
  xd_now :: millis

type_synonym document = "int \<times> json option"

definition reply_document :: "(millis \<Rightarrow> string) \<Rightarrow> reply \<Rightarrow> document" where
  "reply_document to_iso r = (rep_status r, body_json to_iso (rep_body r))"

definition answer :: "(millis \<Rightarrow> string) \<Rightarrow> (world, document) prog \<Rightarrow> world \<Rightarrow> document \<times> world" where
  "answer to_iso m w =
     (case m w of
        (Inl e, w') \<Rightarrow> (reply_document to_iso (errorHandler e), w')
      | (Inr d, w') \<Rightarrow> (d, w'))"

definition send_reply :: "(millis \<Rightarrow> string) \<Rightarrow> (world, reply) prog \<Rightarrow> (world, document) prog" where
  "send_reply to_iso m = andThen m (\<lambda>r. ret (reply_document to_iso r))"

definition validated :: "json + 'a \<Rightarrow> ('a \<Rightarrow> (world, 'b) prog) \<Rightarrow> (world, 'b) prog" where
  "validated parsed f =
     (case parsed of
        Inl issues \<Rightarrow> throw (DomainErr (ValidationError ''request validation failed'' (Some issues)))
      | Inr x \<Rightarrow> f x)"

definition oidc_authorize_route ::
  "env \<Rightarrow> authorize_draws \<Rightarrow> json + OidcAuthorizeRequest \<Rightarrow> (world, document) prog" where
  "oidc_authorize_route E R parsed = validated parsed (\<lambda>body.
     andThen (beginAuthorize E R (oar_tenantSlug body) (oar_returnTo body)) (\<lambda>url.
     ret (200, Some (JObj [(''redirectUrl'', JStr url)]))))"

definition oidc_callback_route ::
  "env \<Rightarrow> callback_draws \<Rightarrow> json + OidcCallbackRequest \<Rightarrow> (world, document) prog" where
  "oidc_callback_route E R parsed = validated parsed (\<lambda>body.
     andThen (callback_route E R (ocr_code body) (ocr_state body) (ocr_inviteToken body)) (\<lambda>(tokens, returnTo).
     ret (200, Some (case session_json tokens of
                       JObj kvs \<Rightarrow> JObj (kvs @ [(''returnTo'', JStr returnTo)]) | j \<Rightarrow> j))))"

definition public_routes ::
  "env \<Rightarrow> api_draws \<Rightarrow> (json option \<Rightarrow> json) \<Rightarrow> formats \<Rightarrow> (millis \<Rightarrow> string) \<Rightarrow> string \<Rightarrow> string list
     \<Rightarrow> json option \<Rightarrow> (world, document) prog option" where
  "public_routes E R issues F to_iso m path body =
     (if m \<noteq> ''POST'' then None
      else if path = [''v1'', ''auth'', ''login''] then
        Some (send_reply to_iso (login_route E (xd_session R) (parse issues (loginRequestSchema F) body)))
      else if path = [''v1'', ''auth'', ''refresh''] then
        Some (send_reply to_iso (refresh_route E (xd_session R) (parse issues refreshRequestSchema body)))
      else if path = [''v1'', ''auth'', ''logout''] then
        Some (send_reply to_iso (logout_route E (xd_now R) (parse issues logoutRequestSchema body)))
      else if path = [''v1'', ''auth'', ''oidc'', ''google'', ''authorize''] then
        Some (oidc_authorize_route E (xd_authorize R) (parse issues oidcAuthorizeRequestSchema body))
      else if path = [''v1'', ''auth'', ''oidc'', ''google'', ''callback''] then
        Some (oidc_callback_route E (xd_callback R) (parse issues oidcCallbackRequestSchema body))
      else None)"

section \<open>The interface\<close>

definition control_plane ::
  "env \<Rightarrow> api_draws \<Rightarrow> (json option \<Rightarrow> json) \<Rightarrow> formats \<Rightarrow> (millis \<Rightarrow> string) \<Rightarrow> string \<Rightarrow> string list
     \<Rightarrow> string option \<Rightarrow> json option \<Rightarrow> world \<Rightarrow> (document \<times> world) option" where
  "control_plane E R issues F to_iso m path header body w =
     (case public_routes E R issues F to_iso m path body of
        Some p \<Rightarrow> Some (answer to_iso p w)
      | None \<Rightarrow>
          (case route F issues m path body of
             Some (op, parsed) \<Rightarrow>
               Some (answer to_iso (send_reply to_iso (protected_route E (xd_call R) (xd_now R) header op parsed)) w)
           | None \<Rightarrow> None))"

end
