(* ===== verification/Contract_Laws.thy ===== *)
theory Contract_Laws
  imports Api Oidc_Laws
begin

text \<open>
  What the wire contracts guarantee: the values a request schema lets through, the documents the
  response schemas read back, their agreement with the checks of the services and of the
  database, and the order in which a request is refused.
\<close>

section \<open>Schemas, read backwards\<close>

lemma z_bool_Some [schema_simps]: "z_bool v = Some b \<longleftrightarrow> v = Some (JBool b)"
  by (cases "v" rule: z_bool.cases) auto

lemma z_number_Some [schema_simps]: "z_number v = Some r \<longleftrightarrow> v = Some (JNum r)"
  by (cases "v" rule: z_number.cases) auto

lemma z_default_Some [schema_simps]:
  "z_default d z v = Some x \<longleftrightarrow> (if v = None then x = d else z v = Some x)"
  by (auto simp: z_default_def split: option.splits)

lemma z_nullable_Some [schema_simps]:
  "z_nullable z v = Some y \<longleftrightarrow> (if v = Some JNull then y = None else \<exists>x. y = Some x \<and> z v = Some x)"
  by (auto simp: z_nullable_def)

lemma z_strict_Some [schema_simps]:
  "z_strict names shape v = Some x \<longleftrightarrow>
     (\<exists>kvs. v = Some (JObj kvs) \<and> fst ` set kvs \<subseteq> set names \<and> shape (map_of kvs) = Some x)"
  by (auto simp: z_strict_def list_all_iff split: option.splits json.splits if_splits)

lemma z_trimmed_Some [schema_simps]:
  "z_trimmed lo hi v = Some s \<longleftrightarrow> (\<exists>t. v = Some (JStr t) \<and> s = trim t \<and> lo \<le> length s \<and> length s \<le> hi)"
  by (auto simp: z_trimmed_def schema_simps)

lemmas schema_defs =
  z_sized_def z_names_def z_between_def z_email_def z_nonempty_def z_positive_def z_natural_def z_slug_def
  uuidSchema_def z_threshold_def z_unknown_def

lemma z_labels_document: "z_record z_string (Some (j_labels ls)) = Some ls"
  using those_map_ok [of ls "\<lambda>(k, v). Some (k, v)" id] by (simp add: j_labels_def o_def case_prod_unfold)

lemma z_viz_document: "z_record z_unknown (Some (JObj kvs)) = Some kvs"
  using those_map_ok [of kvs "\<lambda>(k, v). Some (k, v)" id] by (simp add: z_unknown_def case_prod_unfold)

section \<open>Content: what is accepted, and what it reads back as\<close>

definition trimmed :: "nat \<Rightarrow> nat \<Rightarrow> string \<Rightarrow> bool" where
  "trimmed lo hi s \<longleftrightarrow> trim s = s \<and> lo \<le> length s \<and> length s \<le> hi"

definition filters_typed :: "SavedQueryFilters \<Rightarrow> bool" where
  "filters_typed f \<longleftrightarrow> pred_option (trimmed 0 200) (sf_service f)
     \<and> pred_option (\<lambda>l. l \<in> set logLevelSchema) (sf_level f)"

definition query_typed :: "RuleQuery \<Rightarrow> bool" where
  "query_typed q \<longleftrightarrow> pred_option (trimmed 0 1000) (q_text q) \<and> pred_option (trimmed 0 200) (q_service q)
     \<and> pred_option (\<lambda>l. l \<in> set logLevelSchema) (q_level q)"

fun grid_typed :: "int \<times> int \<times> int \<times> int \<Rightarrow> bool" where
  "grid_typed (x, y, w, h) \<longleftrightarrow> 0 \<le> x \<and> 0 \<le> y \<and> 0 < w \<and> 0 < h
     \<and> x \<le> MAX_SAFE_INTEGER \<and> y \<le> MAX_SAFE_INTEGER \<and> w \<le> MAX_SAFE_INTEGER \<and> h \<le> MAX_SAFE_INTEGER"

definition panel_typed :: "Panel \<Rightarrow> bool" where
  "panel_typed p \<longleftrightarrow> trimmed 1 100 (pn_id p) \<and> trimmed 1 200 (pn_title p) \<and> uuid_shaped (pn_savedQueryId p)
     \<and> grid_typed (pn_grid p)"

fun channel_typed :: "formats \<Rightarrow> NotifyChannel \<Rightarrow> bool" where
  "channel_typed F (webhook url) \<longleftrightarrow> fm_url F url \<and> length url \<le> 2000 \<and> trim url = url"
| "channel_typed F (email_channel to) \<longleftrightarrow> fm_email F to \<and> length to \<le> 320"

lemma trimmed_trim: "lo \<le> length (trim s) \<Longrightarrow> length (trim s) \<le> hi \<Longrightarrow> trimmed lo hi (trim s)"
  by (simp add: trimmed_def trim_idem)

lemma z_trimmed_document: "trimmed lo hi s \<Longrightarrow> z_trimmed lo hi (Some (JStr s)) = Some s"
  by (simp add: trimmed_def schema_simps)

lemma filters_accepted: "savedQueryFiltersSchema v = Some f \<Longrightarrow> filters_typed f"
  by (auto simp: savedQueryFiltersSchema_def filters_typed_def schema_simps schema_defs bind_eq_Some_conv
      trimmed_trim split: if_splits)

lemma filters_document: "filters_typed f \<Longrightarrow> savedQueryFiltersSchema (Some (filters_json f)) = Some f"
  by (cases f) (auto simp: savedQueryFiltersSchema_def filters_typed_def filters_json_def j_field_def z_strict_def
      z_optional_def z_trimmed_document z_labels_def z_labels_document z_names_def z_refine_def split: option.splits)

lemma query_accepted: "ruleQuerySchema v = Some q \<Longrightarrow> query_typed q"
  by (auto simp: ruleQuerySchema_def query_typed_def schema_simps schema_defs bind_eq_Some_conv
      trimmed_trim split: if_splits)

lemma query_document: "query_typed q \<Longrightarrow> ruleQuerySchema (Some (rule_query_json q)) = Some q"
  by (cases q) (auto simp: ruleQuerySchema_def query_typed_def rule_query_json_def j_field_def z_strict_def
      z_optional_def z_trimmed_document z_labels_def z_labels_document z_names_def z_refine_def split: option.splits)

lemma channel_accepted: "notifyChannelSchema F v = Some c \<Longrightarrow> channel_typed F c"
  by (auto simp: notifyChannelSchema_def schema_simps schema_defs z_url_def split: option.splits if_splits)

lemma channel_document: "channel_typed F c \<Longrightarrow> notifyChannelSchema F (Some (channel_json c)) = Some c"
  by (cases c) (simp_all add: notifyChannelSchema_def z_object_def z_strict_def z_email_def z_url_def z_refine_def)

lemma channels_document:
  "list_all (channel_typed F) cs \<Longrightarrow> z_array (notifyChannelSchema F) (Some (JArr (map channel_json cs))) = Some cs"
  using those_map_ok [of cs "\<lambda>c. notifyChannelSchema F (Some (channel_json c))" id]
  by (simp add: list_all_iff channel_document o_def)

lemma channels_accepted: "z_array (notifyChannelSchema F) v = Some cs \<Longrightarrow> list_all (channel_typed F) cs"
  by (auto simp: schema_simps list_all_iff list_all2_conv_all_nth in_set_conv_nth dest!: channel_accepted)

lemma panel_accepted: "panelSchema v = Some p \<Longrightarrow> panel_typed p"
  by (auto simp: panelSchema_def panel_typed_def panelGridSchema_def schema_simps schema_defs bind_eq_Some_conv trimmed_trim)

lemma panel_type_document: "panelTypeSchema (Some (JStr (panel_type_name t))) = Some t"
  by (cases t) (simp_all add: panelTypeSchema_def z_enum_def)

lemma grid_document: "grid_typed g \<Longrightarrow> panelGridSchema (Some (grid_json g)) = Some g"
  by (cases g) (simp add: panelGridSchema_def z_strict_def z_natural_def z_positive_def z_refine_def)

lemma panel_document: "panel_typed p \<Longrightarrow> panelSchema (Some (panel_json p)) = Some p"
  by (cases p) (simp add: panelSchema_def panel_typed_def panel_json_def z_strict_def z_trimmed_document
      panel_type_document uuidSchema_def z_refine_def z_default_def z_viz_document grid_document del: z_record.simps)

lemma layout_accepted: "dashboardLayoutSchema v = Some ps \<Longrightarrow> list_all panel_typed ps \<and> length ps \<le> 50"
  by (auto simp: dashboardLayoutSchema_def schema_simps list_all_iff list_all2_conv_all_nth in_set_conv_nth
      dest!: panel_accepted)

lemma layout_document:
  "list_all panel_typed ps \<Longrightarrow> length ps \<le> 50 \<Longrightarrow> dashboardLayoutSchema (Some (layout_json ps)) = Some ps"
  using those_map_ok [of ps "\<lambda>p. panelSchema (Some (panel_json p))" id]
  by (simp add: dashboardLayoutSchema_def layout_json_def z_strict_def z_refine_def list_all_iff panel_document o_def)

section \<open>Entities\<close>

definition tokens_typed :: "SessionTokens \<Rightarrow> bool" where
  "tokens_typed t \<longleftrightarrow> 0 < st_expiresIn t \<and> st_expiresIn t \<le> MAX_SAFE_INTEGER \<and> st_tokenType t = ''Bearer''
     \<and> uuid_shaped (st_tenantId t) \<and> uuid_shaped (st_userId t)"

lemma role_document: "roleSchema (Some (JStr (role_name r))) = Some r"
  by (cases r) (simp_all add: roleSchema_def z_enum_def)

lemma session_document: "tokens_typed t \<Longrightarrow> tokenPairSchema (Some (session_json t)) = Some t"
  by (cases t) (simp add: tokenPairSchema_def tokens_typed_def session_json_def z_object_def z_refine_def z_names_def
      role_document uuidSchema_def)

definition rule_typed :: "formats \<Rightarrow> AlertRule \<Rightarrow> bool" where
  "rule_typed F r \<longleftrightarrow> uuid_shaped (rule_id r) \<and> uuid_shaped (rule_tenantId r)
     \<and> pred_option uuid_shaped (rule_savedQueryId r) \<and> pred_option uuid_shaped (rule_createdBy r)
     \<and> query_typed (rule_query r) \<and> list_all (channel_typed F) (rule_notifyChannels r)"

definition rule_response :: "(millis \<Rightarrow> string) \<Rightarrow> AlertRule \<Rightarrow> AlertRuleResponse" where
  "rule_response to_iso r =
     \<lparr> ars_id = rule_id r, ars_tenantId = rule_tenantId r, ars_name = rule_name r,
       ars_savedQueryId = rule_savedQueryId r, ars_query = rule_query r, ars_comparator = rule_comparator r,
       ars_threshold = rule_threshold r, ars_windowSeconds = of_int (rule_windowSeconds r),
       ars_severity = rule_severity r, ars_enabled = rule_enabled r, ars_notifyChannels = rule_notifyChannels r,
       ars_state = rule_state r, ars_lastEvaluatedAt = map_option to_iso (rule_lastEvaluatedAt r),
       ars_lastTriggeredAt = map_option to_iso (rule_lastTriggeredAt r), ars_createdBy = rule_createdBy r,
       ars_createdAt = to_iso (rule_createdAt r), ars_updatedAt = to_iso (rule_updatedAt r) \<rparr>"

lemma nullable_document:
  "pred_option p v \<Longrightarrow> z_nullable (z_refine p z_string) (Some (j_opt JStr v)) = Some v"
  by (cases v) (simp_all add: z_nullable_def j_opt_def z_refine_def)

lemma nullable_text_document: "z_nullable z_string (Some (j_opt JStr v)) = Some v"
  by (cases v) (simp_all add: z_nullable_def j_opt_def)

lemma nullable_date_document: "z_nullable z_string (Some (j_opt (JStr \<circ> to_iso) v)) = Some (map_option to_iso v)"
  by (cases v) (simp_all add: z_nullable_def j_opt_def)

lemmas document_simps =
  nullable_document nullable_text_document nullable_date_document query_document filters_document
  channels_document layout_document

lemma comparator_document: "alertComparatorSchema (Some (JStr (comparator_name c))) = Some c"
  by (cases c) (simp_all add: alertComparatorSchema_def z_enum_def)

lemma state_document: "alertStateSchema (Some (JStr (state_name c))) = Some c"
  by (cases c) (simp_all add: alertStateSchema_def z_enum_def)

lemma rule_document:
  assumes "rule_typed F r"
  shows "alertRuleResponseSchema F (Some (rule_json to_iso r)) = Some (rule_response to_iso r)"
  using assms
  by (simp add: alertRuleResponseSchema_def rule_json_def z_object_def rule_typed_def uuidSchema_def document_simps
      comparator_document state_document rule_response_def z_refine_def [of _ z_string "Some (JStr _)"] del: z_array.simps)

definition saved_query_typed :: "SavedQuery \<Rightarrow> bool" where
  "saved_query_typed s \<longleftrightarrow> uuid_shaped (sqy_id s) \<and> uuid_shaped (sqy_tenantId s)
     \<and> pred_option uuid_shaped (sqy_createdBy s) \<and> filters_typed (sqy_filters s)"

definition saved_query_response :: "(millis \<Rightarrow> string) \<Rightarrow> SavedQuery \<Rightarrow> SavedQueryResponse" where
  "saved_query_response to_iso s =
     \<lparr> srs_id = sqy_id s, srs_tenantId = sqy_tenantId s, srs_name = sqy_name s, srs_description = sqy_description s,
       srs_queryText = sqy_queryText s, srs_filters = sqy_filters s, srs_timeRange = sqy_timeRange s,
       srs_createdBy = sqy_createdBy s, srs_createdAt = to_iso (sqy_createdAt s),
       srs_updatedAt = to_iso (sqy_updatedAt s) \<rparr>"

lemma saved_query_document:
  assumes "saved_query_typed s"
  shows "savedQueryResponseSchema (Some (saved_query_json to_iso s)) = Some (saved_query_response to_iso s)"
  using assms
  by (simp add: savedQueryResponseSchema_def saved_query_json_def z_object_def saved_query_typed_def uuidSchema_def
      document_simps z_viz_document saved_query_response_def z_refine_def [of _ z_string "Some (JStr _)"] del: z_record.simps)

definition dashboard_typed :: "Dashboard \<Rightarrow> bool" where
  "dashboard_typed d \<longleftrightarrow> uuid_shaped (dash_id d) \<and> uuid_shaped (dash_tenantId d)
     \<and> pred_option uuid_shaped (dash_createdBy d) \<and> list_all panel_typed (dash_layout d) \<and> length (dash_layout d) \<le> 50"

definition dashboard_response :: "(millis \<Rightarrow> string) \<Rightarrow> Dashboard \<Rightarrow> DashboardResponse" where
  "dashboard_response to_iso d =
     \<lparr> drs_id = dash_id d, drs_tenantId = dash_tenantId d, drs_name = dash_name d, drs_description = dash_description d,
       drs_layout = dash_layout d, drs_createdBy = dash_createdBy d, drs_createdAt = to_iso (dash_createdAt d),
       drs_updatedAt = to_iso (dash_updatedAt d) \<rparr>"

lemma dashboard_document:
  assumes "dashboard_typed d"
  shows "dashboardResponseSchema (Some (dashboard_json to_iso d)) = Some (dashboard_response to_iso d)"
  using assms
  by (simp add: dashboardResponseSchema_def dashboard_json_def z_object_def dashboard_typed_def uuidSchema_def
      document_simps dashboard_response_def z_refine_def [of _ z_string "Some (JStr _)"])

text \<open>A user without a membership has the role null, which the response schema refuses.\<close>

lemma user_without_role_refused:
  assumes "user_role u = None"
  shows "userResponseSchema F (Some (user_json to_iso u)) = None"
proof (rule ccontr)
  assume "userResponseSchema F (Some (user_json to_iso u)) \<noteq> None"
  then obtain r where "membershipRoleSchema (Some JNull) = Some r"
    using assms by (auto simp: userResponseSchema_def user_json_def z_object_def bind_eq_Some_conv j_opt_def)
  then show False by (simp add: membershipRoleSchema_def z_enum_def)
qed

section \<open>Agreement with the services and the database\<close>

lemma channels_pass: "list_all channel_complete cs \<Longrightarrow> assertChannels cs w = (Inr (), w)"
  by (induction cs) (auto simp: channel_complete_def split: NotifyChannel.splits)

lemma default_query_typed: "z_default no_query ruleQuerySchema v = Some q \<Longrightarrow> query_typed q"
  by (auto simp: z_default_Some query_typed_def no_query_def dest: query_accepted split: if_splits)

lemma default_channels_typed: "z_default [] (z_channels F) v = Some cs \<Longrightarrow> list_all (channel_typed F) cs"
  by (auto simp: z_default_Some z_channels_def z_refine_Some dest: channels_accepted split: if_splits)

lemma default_window_bounds: "z_default 300 (z_between 30 86400) v = Some n \<Longrightarrow> 30 \<le> n \<and> n \<le> 86400"
  by (auto simp: z_default_Some z_between_def z_refine_Some split: if_splits)

lemma optional_uuid_shaped: "z_optional uuidSchema v = Some x \<Longrightarrow> pred_option uuid_shaped x"
  by (auto simp: z_optional_Some uuidSchema_def z_refine_Some split: if_splits)

lemma createAlertRule_accepted:
  assumes "createAlertRuleRequestSchema F v = Some cmd"
  shows "(ca_savedQueryId cmd \<noteq> None) \<noteq> hasInlineQuery (ca_query cmd)"
    "30 \<le> ca_windowSeconds cmd \<and> ca_windowSeconds cmd \<le> 86400" "query_typed (ca_query cmd)"
    "list_all (channel_typed F) (ca_notifyChannels cmd)" "0 \<le> ca_threshold cmd"
    "pred_option uuid_shaped (ca_savedQueryId cmd)"
  using assms unfolding createAlertRuleRequestSchema_def z_refine_Some z_strict_Some bind_eq_Some_conv
  by (elim exE conjE; simp; fail | elim exE conjE;
      auto dest: default_query_typed default_channels_typed default_window_bounds optional_uuid_shaped
        simp: z_threshold_def z_refine_Some)+

section \<open>Routing\<close>

lemma on_body_Inr: "on_body is z f b = Inr c \<longleftrightarrow> (\<exists>x. z b = Some x \<and> c = f x)"
  by (auto simp: on_body_def parse_def split: option.splits)

lemma on_id_Inr: "on_id is f i = Inr c \<longleftrightarrow> uuid_shaped i \<and> c = f i"
  by (auto simp: on_id_def parse_def uuidParamSchema_def path_params_def z_object_def uuidSchema_def z_refine_def)

lemma on_id_body_Inr: "on_id_body is z f i b = Inr c \<longleftrightarrow> uuid_shaped i \<and> (\<exists>x. z b = Some x \<and> c = f i x)"
  by (auto simp: on_id_body_def parse_def uuidParamSchema_def path_params_def z_object_def uuidSchema_def z_refine_def
      on_body_Inr)

lemma tenants_routes_operation: "tenants_routes F is m rest body = Some (op, Inr c) \<Longrightarrow> call_op c = op"
  unfolding tenants_routes_def
  by (auto simp: on_body_Inr on_id_Inr on_id_body_Inr parse_def map_sum_def split: list.splits if_splits option.splits sum.splits)

lemma users_routes_operation: "users_routes F is m rest body = Some (op, Inr c) \<Longrightarrow> call_op c = op"
  unfolding users_routes_def
  by (auto simp: on_body_Inr on_id_Inr on_id_body_Inr parse_def map_sum_def split: list.splits if_splits option.splits sum.splits)

lemma api_keys_routes_operation: "api_keys_routes F is m rest body = Some (op, Inr c) \<Longrightarrow> call_op c = op"
  unfolding api_keys_routes_def
  by (auto simp: on_body_Inr on_id_Inr on_id_body_Inr parse_def map_sum_def split: list.splits if_splits option.splits sum.splits)

lemma retention_routes_operation: "retention_routes is m rest body = Some (op, Inr c) \<Longrightarrow> call_op c = op"
  unfolding retention_routes_def
  by (auto simp: on_body_Inr on_id_Inr on_id_body_Inr parse_def map_sum_def split: list.splits if_splits option.splits sum.splits)

lemma alert_rules_routes_operation: "alert_rules_routes F is m rest body = Some (op, Inr c) \<Longrightarrow> call_op c = op"
  unfolding alert_rules_routes_def
  by (auto simp: on_body_Inr on_id_Inr on_id_body_Inr parse_def map_sum_def split: list.splits if_splits option.splits sum.splits)

lemma saved_queries_routes_operation: "saved_queries_routes is m rest body = Some (op, Inr c) \<Longrightarrow> call_op c = op"
  unfolding saved_queries_routes_def
  by (auto simp: on_body_Inr on_id_Inr on_id_body_Inr parse_def map_sum_def split: list.splits if_splits option.splits sum.splits)

lemma dashboards_routes_operation: "dashboards_routes is m rest body = Some (op, Inr c) \<Longrightarrow> call_op c = op"
  unfolding dashboards_routes_def
  by (auto simp: on_body_Inr on_id_Inr on_id_body_Inr parse_def map_sum_def split: list.splits if_splits option.splits sum.splits)

lemma invites_routes_operation: "invites_routes F is m rest body = Some (op, Inr c) \<Longrightarrow> call_op c = op"
  unfolding invites_routes_def
  by (auto simp: on_body_Inr on_id_Inr on_id_body_Inr parse_def map_sum_def split: list.splits if_splits option.splits sum.splits)

lemma route_operation:
  assumes "route F is m path body = Some (op, Inr c)"
  shows "call_op c = op"
  using assms unfolding route_def
  by (auto split: list.splits if_splits dest: tenants_routes_operation
      users_routes_operation
      api_keys_routes_operation
      retention_routes_operation
      alert_rules_routes_operation
      saved_queries_routes_operation
      dashboards_routes_operation
      invites_routes_operation)

lemma route_not_public:
  assumes "route F is m path body = Some entry"
  shows "public_routes E R is F to_iso m path body = None"
  using assms unfolding route_def public_routes_def by (auto split: list.splits if_splits)

definition error_document :: "int \<Rightarrow> string \<Rightarrow> string \<Rightarrow> (string \<times> json) list \<Rightarrow> document" where
  "error_document status code message extra =
     (status, Some (JObj ([(''error'', JStr code), (''message'', JStr message)] @ extra)))"

lemma answer_throw: "answer to_iso (send_reply to_iso (throw e)) w = (reply_document to_iso (errorHandler e), w)"
  by (simp add: answer_def send_reply_def andThen_def)

text \<open>
  C32. A request is refused in a fixed order and without a trace. For every registered route the
  control plane answers 401 when the bearer token does not authenticate, else 403 when the role
  lacks the operation of the route, whatever the body, else 400 with the issues when path
  parameter or body do not conform to their schema; in each case database, traces and mail are as
  before. Otherwise it runs the call, and the operation that was checked is the one of the call.
\<close>

theorem request_pipeline:
  assumes "route F issues m path body = Some (op, parsed)"
  shows "control_plane E R issues F to_iso m path header body w = Some (
     case authenticate E (xd_now R) header of
       Inl e \<Rightarrow> (error_document 401 ''unauthorized''
                  (if Option.bind header bearer = None then ''missing bearer token'' else ''invalid or expired token'') [], w)
     | Inr ctx \<Rightarrow>
         if \<not> can (ctx_role ctx) op
         then (error_document 403 ''forbidden''
                 (''role '' @ [CHR 0x27] @ role_name (ctx_role ctx) @ [CHR 0x27] @ '' may not perform ''
                   @ [CHR 0x27] @ op_name op @ [CHR 0x27]) [], w)
         else case parsed of
           Inl errs \<Rightarrow> (error_document 400 ''validation_error'' ''request validation failed'' [(''details'', errs)], w)
         | Inr c \<Rightarrow> answer to_iso (send_reply to_iso (run_call E (xd_call R) ctx c)) w)
   \<and> (case parsed of Inl _ \<Rightarrow> True | Inr c \<Rightarrow> call_op c = op)"
proof -
  let ?p = "protected_route E (xd_call R) (xd_now R) header op parsed"
  have cp: "control_plane E R issues F to_iso m path header body w = Some (answer to_iso (send_reply to_iso ?p) w)"
    using assms by (simp add: control_plane_def route_not_public)
  have op: "case parsed of Inl _ \<Rightarrow> True | Inr c \<Rightarrow> call_op c = op"
    using route_operation assms by (auto split: sum.split)
  note shapes = answer_throw errorHandler.simps reply_document_def error_document_def j_field_def
  show ?thesis
  proof (cases "authenticate E (xd_now R) header")
    case (Inl e)
    then have "?p = throw e" by (simp add: protected_route_def fun_eq_iff andThen_def)
    with Inl op cp show ?thesis
      by (auto simp: authenticate_def answer_throw reply_document_def error_document_def j_field_def
          split: option.splits sum.splits Option.bind_splits)
  next
    case (Inr ctx)
    show ?thesis
    proof (cases "can (ctx_role ctx) op")
      case False
      then have "?p = throw (forbidden_error (ctx_role ctx) op)"
        using Inr by (simp add: protected_route_def requireOperation_def fun_eq_iff andThen_def)
      with Inr False op cp show ?thesis
        by (simp add: shapes forbidden_error_def)
    next
      case True
      then have "?p = (case parsed of
          Inl errs \<Rightarrow> throw (DomainErr (ValidationError ''request validation failed'' (Some errs)))
        | Inr c \<Rightarrow> run_call E (xd_call R) ctx c)"
        using Inr by (simp add: protected_route_def requireOperation_def fun_eq_iff andThen_def split: sum.split)
      with Inr True op cp show ?thesis
        by (simp add: shapes split: sum.split)
    qed
  qed
qed

definition sample_formats :: formats where
  "sample_formats = \<lparr> fm_email = (\<lambda>s. s \<noteq> []), fm_url = (\<lambda>s. s \<noteq> []), fm_datetime = (\<lambda>s. s \<noteq> []),
     fm_instant = (\<lambda>_. 0), fm_hostname = (\<lambda>_. Some ''accounts.google.com'') \<rparr>"

definition sample_api_draws :: api_draws where
  "sample_api_draws = \<lparr> xd_call = sample_call_draws, xd_session = sample_draws,
     xd_authorize = \<lparr> ad_stateBytes = ''s'', ad_nonceBytes = ''n'', ad_verifierBytes = ''v'', ad_now = 0 \<rparr>,
     xd_callback = sample_callback_draws, xd_now = 0 \<rparr>"

theorem request_pipeline_witness:
  "control_plane sample_env sample_api_draws (\<lambda>_. JArr []) sample_formats (\<lambda>_. ''now'') ''PUT'' [''v1'', ''retention'']
     (Some ''Bearer jwt'') (Some (JObj [(''hotDays'', JNum 30), (''coldDays'', JNum 7)])) sample_world
   = Some (error_document 400 ''validation_error'' ''request validation failed'' [(''details'', JArr [])], sample_world)"
proof -
  have r: "route sample_formats (\<lambda>_. JArr []) ''PUT'' [''v1'', ''retention'']
      (Some (JObj [(''hotDays'', JNum 30), (''coldDays'', JNum 7)])) = Some (Retention_update, Inl (JArr []))"
    by code_simp
  have "authenticate sample_env (xd_now sample_api_draws) (Some ''Bearer jwt'') = Inr (sample_ctx tenant_admin)"
    by code_simp
  moreover have "can (ctx_role (sample_ctx tenant_admin)) Retention_update" by code_simp
  ultimately show ?thesis
    using request_pipeline [OF r, of sample_env sample_api_draws "\<lambda>_. ''now''" "Some ''Bearer jwt''" sample_world] by simp
qed

section \<open>Requests against the constraints of the store\<close>

lemma retention_accepted:
  assumes "upsertRetentionRequestSchema v = Some c"
  shows "1 \<le> ur_hotDays c \<and> ur_hotDays c \<le> 90 \<and> ur_hotDays c \<le> ur_coldDays c \<and> ur_coldDays c \<le> 36500"
  using assms by (auto simp: upsertRetentionRequestSchema_def schema_simps z_between_def bind_eq_Some_conv)

lemma createTenant_accepted:
  "createTenantRequestSchema v = Some c \<Longrightarrow> tenantPublicIdSchema (nt_publicId c) \<and> trimmed 1 200 (nt_name c)"
  by (auto simp: createTenantRequestSchema_def schema_simps z_slug_def bind_eq_Some_conv trimmed_trim)

lemma inline_query_not_empty: "hasInlineQuery q \<Longrightarrow> \<not> query_is_empty_object q"
  by (auto simp: hasInlineQuery_def query_is_empty_object_def non_blank_def)

text \<open>
  C33. A request the contract accepts is one the layers below accept. The row made of an accepted
  tenant, retention policy or alert rule satisfies every check constraint of its table and its
  numbers fit the integer columns, and an accepted alert rule passes the channel and query-source
  checks of the service, given that the empty text is neither a URL nor an e-mail address.
\<close>

theorem accepted_requests_fit:
  assumes "createTenantRequestSchema jt = Some nt" "upsertRetentionRequestSchema jr = Some ur"
    "createAlertRuleRequestSchema F ja = Some ca" "\<not> fm_url F []" "\<not> fm_email F []"
    and "tn_public_id tenant = nt_publicId nt"
    and "rp_hot_days policy = ur_hotDays ur" "rp_cold_days policy = ur_coldDays ur"
    and "ar_query rule = ca_query ca" "ar_saved_query_id rule = None \<longleftrightarrow> ca_savedQueryId ca = None"
    and "ar_window_seconds rule = ca_windowSeconds ca"
  shows "list_all (\<lambda>(_, ok). ok tenant) tenants_checks
    \<and> list_all (\<lambda>(_, ok). ok policy) retention_checks
    \<and> list_all (\<lambda>(_, ok). ok rule) alert_rules_checks
    \<and> cast_int4 (ur_hotDays ur) d = (Inr (ur_hotDays ur), d) \<and> cast_int4 (ur_coldDays ur) d = (Inr (ur_coldDays ur), d)
    \<and> cast_int4 (ca_windowSeconds ca) d = (Inr (ca_windowSeconds ca), d)
    \<and> assertChannels (ca_notifyChannels ca) w = (Inr (), w)
    \<and> assertQuerySource (ca_savedQueryId ca) (ca_query ca) w = (Inr (), w)"
proof -
  note rule = createAlertRule_accepted [OF assms(3)]
  have "channel_complete c" if "channel_typed F c" for c
    using that assms(4,5) by (cases c) (auto simp: channel_complete_def)
  with rule(4) have "assertChannels (ca_notifyChannels ca) w = (Inr (), w)"
    by (auto intro!: channels_pass simp: list_all_iff)
  moreover have "list_all (\<lambda>(_, ok). ok rule) alert_rules_checks"
    using rule(1,2) assms(9-11) inline_query_not_empty by (auto simp: alert_rules_checks_def)
  ultimately show ?thesis
    using rule(1,2) retention_accepted [OF assms(2)] createTenant_accepted [OF assms(1)] assms(6-8)
    by (auto simp: tenants_checks_def retention_checks_def cast_int4_def assertQuerySource_def)
qed

definition sample_tenant_request :: json where
  "sample_tenant_request = JObj [(''publicId'', JStr ''acme''), (''name'', JStr '' Acme '')]"

definition sample_retention_request :: json where
  "sample_retention_request = JObj [(''hotDays'', JNum 7), (''coldDays'', JNum 30)]"

definition sample_rule_request :: json where
  "sample_rule_request = JObj
     [(''name'', JStr ''spike''), (''query'', JObj [(''text'', JStr '' error '')]), (''threshold'', JNum 5),
      (''notifyChannels'', JArr [JObj [(''type'', JStr ''webhook''), (''url'', JStr ''https://hook'')]])]"

definition sample_rule_command :: CreateAlertRuleCommand where
  "sample_rule_command = sample_ca\<lparr>ca_windowSeconds := 300\<rparr>"

definition sample_rule_row :: alert_rule_row where
  "sample_rule_row = \<lparr> ar_id = ''a1'', ar_tenant_id = ''t1'', ar_name = ''spike'', ar_saved_query_id = None,
     ar_query = ca_query sample_rule_command, ar_comparator = gt, ar_threshold = 5, ar_window_seconds = 300,
     ar_severity = ''warning'', ar_enabled = True, ar_notify_channels = [webhook ''https://hook''],
     ar_state = AS_ok, ar_last_evaluated_at = None, ar_last_triggered_at = None, ar_created_by = None,
     ar_created_at = 0, ar_updated_at = 0 \<rparr>"

theorem accepted_requests_fit_witness:
  "assertChannels (ca_notifyChannels sample_rule_command) sample_world = (Inr (), sample_world)
   \<and> list_all (\<lambda>(_, ok). ok sample_rule_row) alert_rules_checks"
proof -
  have t: "createTenantRequestSchema (Some sample_tenant_request) = Some \<lparr> nt_publicId = ''acme'', nt_name = ''Acme'' \<rparr>"
    by code_simp
  have r: "upsertRetentionRequestSchema (Some sample_retention_request) = Some \<lparr> ur_hotDays = 7, ur_coldDays = 30 \<rparr>"
    by code_simp
  have a: "createAlertRuleRequestSchema sample_formats (Some sample_rule_request) = Some sample_rule_command"
    by code_simp
  show ?thesis
    using accepted_requests_fit [OF t r a, of "sample_tenant ''t1'' ''acme''"
        "\<lparr> rp_tenant_id = ''t1'', rp_hot_days = 7, rp_cold_days = 30, rp_updated_by = None, rp_created_at = 0, rp_updated_at = 0 \<rparr>"
        sample_rule_row sample_world sample_world]
    by (simp add: sample_formats_def sample_tenant_def sample_rule_row_def sample_rule_command_def sample_ca_def)
qed

section \<open>From request to response\<close>

lemma alertRules_create_row:
  assumes "ui t = Some u" "t \<noteq> []" "alertRules_create ui n now t x d = (Inr r, d')"
  shows "rule_id r = n" "rule_tenantId r = u" "rule_name r = nar_name x" "rule_comparator r = nar_comparator x"
    "rule_threshold r = nar_threshold x" "rule_windowSeconds r = nar_windowSeconds x" "rule_severity r = nar_severity x"
    "rule_enabled r = nar_enabled x" "rule_savedQueryId r = Option.bind (nar_savedQueryId x) ui"
    "rule_createdBy r = Option.bind (nar_createdBy x) ui"
  using assms
  by (auto simp: alertRules_create_def withTenantTx_Inr andThen_eq_Inr insert_alert_rules_def insert_stmt_Inr
      toRule_def cast_uuid_opt_def cast_uuid_def dest!: cast_int4_Inr split: option.splits)

lemma errorHandler_status: "rep_status (errorHandler e) \<noteq> 201"
  by (cases e rule: errorHandler.cases; (simp; fail)?) (auto elim: err_status.elims)

lemma answer_created:
  assumes "answer to_iso (send_reply to_iso m) w = ((201, doc), w')"
  shows "\<exists>body. m w = (Inr \<lparr> rep_status = 201, rep_body = body \<rparr>, w') \<and> doc = body_json to_iso body"
proof (cases "m w")
  case (Pair r w1)
  show ?thesis
  proof (cases r)
    case (Inl e)
    with assms Pair errorHandler_status [of e] show ?thesis
      by (simp add: answer_def send_reply_def andThen_def reply_document_def)
  next
    case (Inr rep)
    with assms Pair show ?thesis
      by (cases rep) (auto simp: answer_def send_reply_def andThen_def reply_document_def)
  qed
qed

lemma alertRules_create_dates:
  assumes "alertRules_create ui n now t x d = (Inr r, d')"
  shows "rule_lastEvaluatedAt r = None" "rule_lastTriggeredAt r = None" "rule_createdAt r = now" "rule_updatedAt r = now"
  using assms
  by (auto simp: alertRules_create_def withTenantTx_Inr andThen_eq_Inr insert_alert_rules_def insert_stmt_Inr toRule_def)

lemma created_rule_typed:
  assumes "createAlertRuleRequestSchema F v = Some cmd" "alertRuleService_create E n now ctx cmd w = (Inr r, w')"
    and "uuid_in E (ctx_tenantId ctx) = Some u" "ctx_tenantId ctx \<noteq> []"
    and canonical: "\<And>s x. uuid_in E s = Some x \<Longrightarrow> uuid_shaped x" and "uuid_shaped n"
  shows "rule_typed F r \<and> rule_response to_iso r =
     \<lparr> ars_id = n, ars_tenantId = u, ars_name = ca_name cmd,
       ars_savedQueryId = Option.bind (ca_savedQueryId cmd) (uuid_in E), ars_query = ca_query cmd,
       ars_comparator = ca_comparator cmd, ars_threshold = ca_threshold cmd,
       ars_windowSeconds = of_int (ca_windowSeconds cmd), ars_severity = ca_severity cmd,
       ars_enabled = ca_enabled cmd, ars_notifyChannels = ca_notifyChannels cmd, ars_state = AS_ok,
       ars_lastEvaluatedAt = None, ars_lastTriggeredAt = None,
       ars_createdBy = uuid_in E (ctx_principalId ctx), ars_createdAt = to_iso now, ars_updatedAt = to_iso now \<rparr>"
proof -
  from alertRuleService_create_Inr [OF assms(2)] obtain d where
    new: "alertRules_create (uuid_in E) n now (ctx_tenantId ctx) (new_rule ctx cmd) (w_db w) = (Inr r, d)" by blast
  note row = alertRules_create_row [OF assms(3,4) new] alertRules_create_fields [OF assms(3,4) new]
    and dates = alertRules_create_dates [OF new]
  have "pred_option uuid_shaped (Option.bind x (uuid_in E))" for x
    using canonical by (cases x; auto simp: pred_option_def split: Option.bind_splits)
  moreover have "pred_option uuid_shaped (uuid_in E s)" for s
    using canonical by (cases "uuid_in E s") auto
  moreover have "uuid_shaped u" using canonical assms(3) .
  ultimately show ?thesis
    using row createAlertRule_accepted(3,4) [OF assms(1)] assms(6) dates
    by (simp add: rule_typed_def rule_response_def new_rule_def)
qed

text \<open>
  C34. What was asked for is what the contract reads back. When the control plane answers a posted
  alert rule with 201, the request conformed to the contract, the document of the answer conforms
  to the response contract, and the response carries the fields of the request, defaults filled in
  and texts trimmed, under the new id in the tenant of the bearer token, in state ok. The
  hypothesis on Postgres is that stored uuids have the canonical form.
\<close>

theorem posted_rule_reads_back:
  assumes "control_plane E R issues F to_iso ''POST'' [''v1'', ''alert-rules''] header body w = Some ((201, doc), w')"
    and "authenticate E (xd_now R) header = Inr ctx" "uuid_in E (ctx_tenantId ctx) = Some u" "ctx_tenantId ctx \<noteq> []"
    and "\<And>s x. uuid_in E s = Some x \<Longrightarrow> uuid_shaped x" "uuid_shaped (cd_newId (xd_call R))"
  shows "\<exists>cmd. createAlertRuleRequestSchema F body = Some cmd
    \<and> alertRuleResponseSchema F doc = Some
     \<lparr> ars_id = cd_newId (xd_call R), ars_tenantId = u, ars_name = ca_name cmd,
       ars_savedQueryId = Option.bind (ca_savedQueryId cmd) (uuid_in E), ars_query = ca_query cmd,
       ars_comparator = ca_comparator cmd, ars_threshold = ca_threshold cmd,
       ars_windowSeconds = of_int (ca_windowSeconds cmd), ars_severity = ca_severity cmd,
       ars_enabled = ca_enabled cmd, ars_notifyChannels = ca_notifyChannels cmd, ars_state = AS_ok,
       ars_lastEvaluatedAt = None, ars_lastTriggeredAt = None,
       ars_createdBy = uuid_in E (ctx_principalId ctx),
       ars_createdAt = to_iso (cd_dbNow (xd_call R)), ars_updatedAt = to_iso (cd_dbNow (xd_call R)) \<rparr>"
proof -
  let ?parsed = "on_body issues (createAlertRuleRequestSchema F) (Alerts \<circ> AlertCreate) body"
  have r: "route F issues ''POST'' [''v1'', ''alert-rules''] body = Some (Alert_create, ?parsed)"
    by (simp add: route_def alert_rules_routes_def)
  then have "answer to_iso (send_reply to_iso (protected_route E (xd_call R) (xd_now R) header Alert_create ?parsed)) w
      = ((201, doc), w')"
    using assms(1) by (simp add: control_plane_def route_not_public [OF r])
  from answer_created [OF this] obtain b where
    run: "protected_route E (xd_call R) (xd_now R) header Alert_create ?parsed w = (Inr \<lparr> rep_status = 201, rep_body = b \<rparr>, w')"
    and doc: "doc = body_json to_iso b" by blast
  then obtain cmd rule where acc: "createAlertRuleRequestSchema F body = Some cmd"
    and new: "alertRuleService_create E (cd_newId (xd_call R)) (cd_dbNow (xd_call R)) ctx cmd w = (Inr rule, w')"
    and b: "b = RuleBody rule"
    using assms(2)
    by (auto simp: protected_route_def requireOperation_def andThen_eq_Inr on_body_def parse_def send_def
        split: option.splits if_splits sum.splits)
  from created_rule_typed [OF acc new assms(3-6), where to_iso = to_iso] show ?thesis
    using acc by (simp add: doc b rule_document)
qed

text \<open>A tenant and its administrator whose ids have the canonical form.\<close>

definition uuid_of :: "char \<Rightarrow> string" where
  "uuid_of c = replicate 8 c @ ''-'' @ replicate 4 c @ ''-'' @ replicate 4 c @ ''-'' @ replicate 4 c @ ''-'' @ replicate 12 c"

lemma uuid_of_shaped: "is_hex c \<Longrightarrow> uuid_shaped (uuid_of c)"
  by (simp add: uuid_shaped_def uuid_of_def upt_rec numeral_eq_Suc)

definition uuid_env :: env where
  "uuid_env = sample_env\<lparr>uuid_in := (\<lambda>s. if list_ex (\<lambda>c. s = uuid_of c) ''abc'' then Some s else None),
     jwt_verify := (\<lambda>t iss aud algs now.
       if t = ''jwt'' then Inr [(''tenant_id'', JStr (uuid_of (CHR ''a''))), (''role'', JStr ''tenant_admin''),
         (''sub'', JStr (uuid_of (CHR ''b''))), (''iat'', JNum 0), (''exp'', JNum 900)]
       else Inl (PlainError ''JWSInvalid''))\<rparr>"

definition uuid_world :: world where
  "uuid_world = sample_world\<lparr>w_db := empty_db
     \<lparr> db_tenants := [sample_tenant (uuid_of (CHR ''a'')) ''acme''],
       db_users := [sample_user (uuid_of (CHR ''b'')) (uuid_of (CHR ''a'')) ''ann@acme.io''],
       db_memberships := [sample_membership (uuid_of (CHR ''b'')) (uuid_of (CHR ''a''))] \<rparr>\<rparr>"

definition uuid_api_draws :: api_draws where
  "uuid_api_draws = sample_api_draws\<lparr>xd_call := sample_call_draws\<lparr>cd_newId := uuid_of (CHR ''c'')\<rparr>\<rparr>"

theorem posted_rule_reads_back_witness:
  "\<exists>doc w' resp. control_plane uuid_env uuid_api_draws (\<lambda>_. JNull) sample_formats (\<lambda>_. ''now'') ''POST''
      [''v1'', ''alert-rules''] (Some ''Bearer jwt'') (Some sample_rule_request) uuid_world = Some ((201, doc), w')
    \<and> alertRuleResponseSchema sample_formats doc = Some resp
    \<and> ars_name resp = ''spike'' \<and> ars_tenantId resp = uuid_of (CHR ''a'') \<and> q_text (ars_query resp) = Some ''error''"
proof -
  let ?cp = "control_plane uuid_env uuid_api_draws (\<lambda>_. JNull) sample_formats (\<lambda>_. ''now'') ''POST''
      [''v1'', ''alert-rules''] (Some ''Bearer jwt'') (Some sample_rule_request) uuid_world"
  have "map_option (fst \<circ> fst) ?cp = Some 201" by code_simp
  then obtain doc w' where cp: "?cp = Some ((201, doc), w')" by (cases ?cp) auto
  have a: "authenticate uuid_env (xd_now uuid_api_draws) (Some ''Bearer jwt'') =
      Inr \<lparr> ctx_tenantId = uuid_of (CHR ''a''), ctx_principalId = uuid_of (CHR ''b''), ctx_role = tenant_admin, ctx_scopes = None \<rparr>"
    by code_simp
  have u: "uuid_in uuid_env (uuid_of (CHR ''a'')) = Some (uuid_of (CHR ''a''))" by code_simp
  have ne: "uuid_of (CHR ''a'') \<noteq> []" by (simp add: uuid_of_def)
  have can: "uuid_shaped x" if "uuid_in uuid_env s = Some x" for s x
    using that by (auto simp: uuid_env_def is_hex_def intro!: uuid_of_shaped split: if_splits)
  have n: "uuid_shaped (cd_newId (xd_call uuid_api_draws))"
    by (simp add: uuid_api_draws_def uuid_of_shaped is_hex_def)
  have c: "createAlertRuleRequestSchema sample_formats (Some sample_rule_request) = Some sample_rule_command"
    by code_simp
  from posted_rule_reads_back [OF cp a, of "uuid_of (CHR ''a'')"] u ne can n c cp show ?thesis
    by (auto simp: sample_rule_command_def sample_ca_def)
qed

end
