(* ===== verification/Log_Tail_Laws.thy ===== *)
theory Log_Tail_Laws
  imports Log_Tail
begin

text \<open>
  What the live tail guarantees in every state its runs lead to: the scrollback is the
  end of the sequence of received rows, there is never more than one connection or pending
  retry, a reopened stream is marked, and an outage ends in the offline state after exactly
  the configured number of retries.
\<close>

section \<open>The scrollback window\<close>

fun row_typed :: "TailItem \<Rightarrow> bool" where
  "row_typed (LogItem s ev) \<longleftrightarrow> te_level ev \<in> set LOG_LEVELS"
| "row_typed (GapItem s r d) \<longleftrightarrow> 0 \<le> d"

text \<open>Rows with consecutive sequence numbers that end just below \<open>n\<close>.\<close>

definition numbered :: "TailItem list \<Rightarrow> nat \<Rightarrow> bool" where
  "numbered rows n \<longleftrightarrow> length rows \<le> n \<and> map item_seq rows = [n - length rows..<n]"

definition window :: "nat \<Rightarrow> TailItem list \<Rightarrow> TailItem list \<Rightarrow> nat \<Rightarrow> bool" where
  "window m shown pend n \<longleftrightarrow>
     length shown \<le> m \<and> numbered (shown @ pend) n \<and> (\<forall>r \<in> set (shown @ pend). row_typed r)"

abbreviation tail_window :: "tail_config \<Rightarrow> tail \<Rightarrow> bool" where
  "tail_window cfg t \<equiv> window (cf_maxItems cfg) (tl_items t) (tl_pending t) (tl_seq t)"

lemma numbered_snoc: "numbered rows n \<Longrightarrow> item_seq r = n \<Longrightarrow> numbered (rows @ [r]) (Suc n)"
  by (simp add: numbered_def)

lemma numbered_drop: "numbered rows n \<Longrightarrow> numbered (drop k rows) n"
proof (cases "k \<le> length rows")
  case True
  assume *: "numbered rows n"
  then have "map item_seq (drop k rows) = drop k [n - length rows..<n]"
    by (simp add: numbered_def flip: drop_map)
  with * True show ?thesis by (auto simp: numbered_def add.commute)
qed (simp add: numbered_def)

lemma window_push:
  assumes "window m shown pend n" "item_seq r = n" "row_typed r"
  shows "window m shown (pend @ [r]) (Suc n)"
  using assms numbered_snoc [of "shown @ pend" n r] by (simp add: window_def)

lemma window_flush:
  assumes "window m shown pend n"
  shows "window m (drop (length (shown @ pend) - m) (shown @ pend)) [] n"
  using assms numbered_drop [of "shown @ pend" n "length (shown @ pend) - m"]
  by (auto simp: window_def simp del: drop_append dest: in_set_dropD)

lemma window_clear: "window m [] [] n"
  by (simp add: window_def numbered_def)

lemma parseLogFrame_level: "parseLogFrame d = Some ev \<Longrightarrow> te_level ev \<in> set LOG_LEVELS"
  unfolding parseLogFrame_def tailLogEventSchema_def LOG_LEVELS_def
  by (simp only: z_object_Some z_refine_Some bind_eq_Some_conv option.inject split: option.splits)
    (simp, elim exE conjE, metis TailLogEvent.select_convs(5))

lemma parseGapFrame_nonneg: "0 \<le> parseGapFrame d"
  by (auto simp: parseGapFrame_def gapFrameSchema_def z_object_def z_refine_def bind_eq_Some_conv
      split: option.splits json.splits if_splits)

text \<open>The operations on the window; the others leave its three fields alone.\<close>

lemma tail_window_push:
  "tail_window cfg t \<Longrightarrow> item_seq (item (tl_seq t)) = tl_seq t \<Longrightarrow> row_typed (item (tl_seq t))
     \<Longrightarrow> tail_window cfg (pushItem item t)"
  by (simp add: pushItem_def window_push)

lemma tail_window_flush: "tail_window cfg t \<Longrightarrow> tail_window cfg (flush cfg t)"
  using window_flush [of "cf_maxItems cfg" "tl_items t" "tl_pending t" "tl_seq t"]
  by (auto simp: flush_def Let_def simp del: drop_append)

lemma window_fields:
  "tl_items (closeSource t) = tl_items t" "tl_pending (closeSource t) = tl_pending t" "tl_seq (closeSource t) = tl_seq t"
  "tl_items (clearReconnectTimer t) = tl_items t" "tl_pending (clearReconnectTimer t) = tl_pending t"
  "tl_seq (clearReconnectTimer t) = tl_seq t"
  "tl_items (clearFlushTimer t) = tl_items t" "tl_pending (clearFlushTimer t) = tl_pending t"
  "tl_seq (clearFlushTimer t) = tl_seq t"
  "tl_items (connect t) = tl_items t" "tl_pending (connect t) = tl_pending t" "tl_seq (connect t) = tl_seq t"
  "tl_items (setFlushTimer t) = tl_items t" "tl_pending (setFlushTimer t) = tl_pending t"
  "tl_seq (setFlushTimer t) = tl_seq t"
  by (simp_all add: closeSource_def clearReconnectTimer_def clearFlushTimer_def connect_def setFlushTimer_def
      split: option.split)

lemma tail_window_stop: "tail_window cfg t \<Longrightarrow> tail_window cfg (stop cfg t)"
  unfolding stop_def by (rule tail_window_flush) (simp add: window_fields)

lemma tail_window_effect: "tail_window cfg t \<Longrightarrow> tail_window cfg (run_effect t)"
  by (simp add: run_effect_def window_fields Let_def)

lemma tail_window_cleanup: "tail_window cfg t \<Longrightarrow> tail_window cfg (run_cleanup cfg t)"
  using tail_window_stop [of cfg t] by (simp add: run_cleanup_def)

lemma tail_window_setPaused: "tail_window cfg t \<Longrightarrow> tail_window cfg (setPaused cfg b t)"
  by (simp add: setPaused_def tail_window_effect tail_window_cleanup)

lemma tail_window_do: "tail_window cfg t \<Longrightarrow> tail_window cfg (tail_do cfg e t)"
proof (induction cfg e t rule: tail_do.induct)
  case (1 cfg i t)
  then show ?case
    using window_push [of "cf_maxItems cfg" "tl_items t" "tl_pending t" "tl_seq t" "GapItem (tl_seq t) Reconnect 0"]
    by (simp add: onOpen_def Let_def pushItem_def)
next
  case (2 cfg i d t)
  then show ?case
    using window_push [of "cf_maxItems cfg" "tl_items t" "tl_pending t" "tl_seq t"] parseLogFrame_level [of d]
    by (simp add: onMessage_def pushItem_def split: option.split)
next
  case (3 cfg i d t)
  then show ?case
    using window_push [of "cf_maxItems cfg" "tl_items t" "tl_pending t" "tl_seq t"] parseGapFrame_nonneg [of d]
    by (simp add: onGap_def pushItem_def Let_def)
qed (simp_all add: onError_def Let_def window_fields tail_window_flush pause_def resume_def tail_window_setPaused
    reconnect_def clear_def window_clear tail_window_cleanup)

section \<open>The connection\<close>

text \<open>
  A mounted tail that is not paused flushes on one interval and is in one of three situations:
  one open source (streaming exactly when it has fired \<open>open\<close>), one pending retry, or offline.
  Otherwise nothing is open or armed.
\<close>

definition one_source :: "tail \<Rightarrow> bool" where
  "one_source t \<longleftrightarrow> (\<exists>i. tl_sources t = [i] \<and> tl_es t = Some i \<and> (tl_status t = Streaming \<longleftrightarrow> i \<in> set (tl_connected t)))
     \<and> tl_timeouts t = [] \<and> tl_status t \<in> {Connecting, Reconnecting, Streaming}"

definition one_retry :: "tail \<Rightarrow> bool" where
  "one_retry t \<longleftrightarrow> tl_sources t = [] \<and> tl_es t = None
     \<and> (\<exists>h d. tl_timeouts t = [(h, d)] \<and> tl_reconnectTimer t = Some h) \<and> tl_status t = Reconnecting"

definition is_offline :: "tail \<Rightarrow> bool" where
  "is_offline t \<longleftrightarrow> tl_sources t = [] \<and> tl_es t = None \<and> tl_timeouts t = [] \<and> tl_status t = Offline"

definition linked :: "tail \<Rightarrow> bool" where
  "linked t \<longleftrightarrow> \<not> tl_stopped t \<and> tl_mounted t \<and> tl_cleanup t \<and> \<not> tl_paused t
     \<and> (\<exists>h. tl_flushTimer t = Some h \<and> tl_intervals t = [h])
     \<and> (one_source t \<or> one_retry t \<or> is_offline t)
     \<and> (tl_sawOpen t \<longrightarrow> tl_status t = Streaming \<or> tl_wantGapOnOpen t)
     \<and> (tl_status t = Streaming \<longrightarrow> tl_sawOpen t)"

definition idle :: "tail \<Rightarrow> bool" where
  "idle t \<longleftrightarrow> tl_stopped t \<and> \<not> tl_cleanup t \<and> tl_sources t = [] \<and> tl_es t = None \<and> tl_timeouts t = []
     \<and> tl_intervals t = [] \<and> (tl_mounted t \<longrightarrow> tl_paused t \<and> tl_status t = Paused)"

definition handles_fresh :: "tail \<Rightarrow> bool" where
  "handles_fresh t \<longleftrightarrow> (\<forall>i \<in> set (tl_connected t). i < tl_handle t) \<and> (\<forall>i \<in> set (tl_sources t). i < tl_handle t)"

definition tail_inv :: "tail_config \<Rightarrow> tail \<Rightarrow> bool" where
  "tail_inv cfg t \<longleftrightarrow> tail_window cfg t \<and> (linked t \<or> idle t) \<and> handles_fresh t
     \<and> tl_attempt t \<le> cf_maxReconnectAttempts cfg"

lemmas link_defs = linked_def idle_def one_source_def one_retry_def is_offline_def

lemma link_flush [simp]: "linked (flush cfg t) = linked t" "idle (flush cfg t) = idle t"
  by (simp_all add: flush_def Let_def link_defs)

lemma link_push [simp]: "linked (pushItem item t) = linked t" "idle (pushItem item t) = idle t"
  by (simp_all add: pushItem_def link_defs)

lemma link_stats [simp]:
  "linked (t\<lparr>tl_statsRef := x\<rparr>) = linked t" "idle (t\<lparr>tl_statsRef := x\<rparr>) = idle t"
  by (simp_all add: link_defs)

lemma fresh_flush [simp]:
  "handles_fresh (flush cfg t) = handles_fresh t" "handles_fresh (pushItem item t) = handles_fresh t"
  "handles_fresh (t\<lparr>tl_statsRef := x\<rparr>) = handles_fresh t"
  by (simp_all add: flush_def Let_def pushItem_def handles_fresh_def)

lemma linked_source: "linked t \<or> idle t \<Longrightarrow> i \<in> set (tl_sources t) \<Longrightarrow> linked t \<and> one_source t \<and> tl_sources t = [i]"
  by (auto simp: link_defs)

lemma linked_timeout:
  "linked t \<or> idle t \<Longrightarrow> h \<in> fst ` set (tl_timeouts t) \<Longrightarrow> linked t \<and> one_retry t \<and> (\<exists>d. tl_timeouts t = [(h, d)])"
  by (auto simp: link_defs)

lemma onOpen_linked:
  assumes "linked t" "one_source t" "tl_sources t = [i]"
  shows "linked (onOpen i t)"
  using assms by (auto simp: onOpen_def Let_def pushItem_def link_defs)

lemma onError_linked:
  assumes "linked t" "one_source t"
  shows "linked (onError cfg t)"
  using assms by (auto simp: onError_def Let_def closeSource_def link_defs)

lemma timeout_linked:
  assumes "linked t" "one_retry t" "tl_timeouts t = [(h, d)]" "handles_fresh t"
  shows "linked (connect (t\<lparr>tl_timeouts := filter (\<lambda>(k, d). k \<noteq> h) (tl_timeouts t)\<rparr>))"
  using assms by (auto simp: connect_def link_defs handles_fresh_def)

text \<open>\<open>stop\<close> as one update of the state it is called in.\<close>

lemma clearReconnectTimer_update:
  "clearReconnectTimer t =
     t\<lparr>tl_timeouts := (case tl_reconnectTimer t of None \<Rightarrow> tl_timeouts t
                      | Some h \<Rightarrow> filter (\<lambda>(k, d). k \<noteq> h) (tl_timeouts t)),
       tl_reconnectTimer := None\<rparr>"
  by (cases "tl_reconnectTimer t") (simp_all add: clearReconnectTimer_def)

lemma clearFlushTimer_update:
  "clearFlushTimer t =
     t\<lparr>tl_intervals := (case tl_flushTimer t of None \<Rightarrow> tl_intervals t | Some h \<Rightarrow> removeAll h (tl_intervals t)),
       tl_flushTimer := None\<rparr>"
  by (cases "tl_flushTimer t") (simp_all add: clearFlushTimer_def)

lemma closeSource_update:
  "closeSource t =
     t\<lparr>tl_sources := (case tl_es t of None \<Rightarrow> tl_sources t | Some i \<Rightarrow> removeAll i (tl_sources t)), tl_es := None\<rparr>"
  by (cases "tl_es t") (simp_all add: closeSource_def)

lemmas stop_update = stop_def clearReconnectTimer_update clearFlushTimer_update closeSource_update

lemma flush_fields [simp]:
  "tl_stopped (flush cfg t) = tl_stopped t" "tl_sources (flush cfg t) = tl_sources t"
  "tl_es (flush cfg t) = tl_es t" "tl_timeouts (flush cfg t) = tl_timeouts t"
  "tl_intervals (flush cfg t) = tl_intervals t" "tl_mounted (flush cfg t) = tl_mounted t"
  "tl_paused (flush cfg t) = tl_paused t" "tl_cleanup (flush cfg t) = tl_cleanup t"
  "tl_sawOpen (flush cfg t) = tl_sawOpen t" "tl_connected (flush cfg t) = tl_connected t"
  "tl_handle (flush cfg t) = tl_handle t" "tl_attempt (flush cfg t) = tl_attempt t"
  by (simp_all add: flush_def Let_def)

lemma linked_shape:
  assumes "linked t"
  shows "(\<exists>i. tl_sources t = [i] \<and> tl_es t = Some i) \<or> tl_sources t = [] \<and> tl_es t = None"
    and "tl_timeouts t = [] \<or> (\<exists>h d. tl_timeouts t = [(h, d)] \<and> tl_reconnectTimer t = Some h)"
    and "\<exists>h. tl_flushTimer t = Some h \<and> tl_intervals t = [h]"
  using assms by (auto simp: link_defs)

lemma stop_linked:
  assumes "linked t" "u = t \<or> u = t\<lparr>tl_paused := True\<rparr>"
  shows "tl_stopped (stop cfg u) \<and> tl_sources (stop cfg u) = [] \<and> tl_es (stop cfg u) = None
    \<and> tl_timeouts (stop cfg u) = [] \<and> tl_intervals (stop cfg u) = []"
proof -
  have "tl_sources u = tl_sources t" "tl_es u = tl_es t" "tl_timeouts u = tl_timeouts t"
    "tl_reconnectTimer u = tl_reconnectTimer t" "tl_flushTimer u = tl_flushTimer t" "tl_intervals u = tl_intervals t"
    using assms(2) by auto
  then show ?thesis
    using linked_shape [OF assms(1)] by (simp add: stop_update) (elim disjE exE conjE; simp split: option.split)
qed

lemma stop_fields:
  "tl_mounted (stop cfg t) = tl_mounted t" "tl_paused (stop cfg t) = tl_paused t"
  "tl_cleanup (stop cfg t) = tl_cleanup t" "tl_sawOpen (stop cfg t) = tl_sawOpen t"
  "tl_connected (stop cfg t) = tl_connected t" "tl_handle (stop cfg t) = tl_handle t"
  "tl_attempt (stop cfg t) = tl_attempt t"
  by (simp_all add: stop_update)

lemma pause_idle:
  assumes "linked t"
  shows "idle (pause cfg t)"
  using assms stop_linked [OF assms, of "t\<lparr>tl_paused := True\<rparr>" cfg]
  by (simp add: pause_def setPaused_def run_cleanup_def run_effect_def idle_def linked_def stop_fields)

lemma resume_linked:
  assumes "idle t" "tl_mounted t" "handles_fresh t"
  shows "linked (resume cfg t)"
proof -
  have "tl_paused t" "\<not> tl_cleanup t" using assms by (auto simp: idle_def)
  then have "resume cfg t = run_effect (t\<lparr>tl_paused := False\<rparr>)"
    by (simp add: resume_def setPaused_def run_cleanup_def)
  then show ?thesis
    using assms by (auto simp: run_effect_def Let_def connect_def setFlushTimer_def link_defs handles_fresh_def)
qed

lemma reconnect_linked:
  assumes "linked t" "is_offline t" "handles_fresh t"
  shows "linked (reconnect t)"
  using assms
  by (auto simp: reconnect_def Let_def clearReconnectTimer_def connect_def link_defs handles_fresh_def split: option.split)

lemma unmount_idle:
  assumes "linked t \<or> idle t"
  shows "idle ((run_cleanup cfg t)\<lparr>tl_mounted := False\<rparr>)"
  using assms stop_linked [of t t cfg] by (auto simp: run_cleanup_def idle_def linked_def)

lemma linked_clear: "linked (clear t) = linked t" "idle (clear t) = idle t"
  by (simp_all add: clear_def link_defs)

section \<open>The invariant\<close>

lemma tail_inv_start: "tail_inv cfg tail_start"
  by (simp add: tail_inv_def tail_start_def tail_zero_def run_effect_def connect_def setFlushTimer_def
      window_clear link_defs handles_fresh_def)

lemma enabled_cases:
  assumes "linked t \<or> idle t" "enabled (Click b) t"
  shows "b = PauseButton \<and> linked t \<or> b = ResumeButton \<and> idle t \<and> tl_mounted t
    \<or> b = ReconnectButton \<and> linked t \<and> is_offline t"
  using assms by (auto simp: toolbar_action_def link_defs split: if_splits)

lemma tail_inv_link:
  assumes "linked t \<or> idle t" "handles_fresh t" "enabled e t"
  shows "linked (tail_do cfg e t) \<or> idle (tail_do cfg e t)"
proof (cases e)
  case (SourceOpen i)
  then show ?thesis using assms linked_source [of t i] onOpen_linked [of t i] by simp
next
  case (SourceMessage i d)
  then show ?thesis using assms(1) by (simp add: onMessage_def split: option.split)
next
  case (SourceGap i d)
  then show ?thesis using assms(1) by (simp add: onGap_def Let_def)
next
  case (SourceError i)
  then show ?thesis using assms linked_source [of t i] onError_linked [of t cfg] by simp
next
  case (TimeoutFires h)
  then obtain d where "linked t" "one_retry t" "tl_timeouts t = [(h, d)]"
    using assms linked_timeout [of t h] by auto
  with TimeoutFires timeout_linked [OF this assms(2)] show ?thesis by simp
next
  case (Click b)
  with assms enabled_cases [of t b] show ?thesis
    using pause_idle [of t cfg] resume_linked [of t cfg] reconnect_linked [of t] by auto
qed (use assms(1) linked_clear unmount_idle [of t cfg] in simp_all)

lemma fresh_setPaused: "handles_fresh t \<Longrightarrow> handles_fresh (setPaused cfg b t)"
  by (auto simp: setPaused_def run_effect_def run_cleanup_def stop_update Let_def connect_def setFlushTimer_def
      handles_fresh_def less_Suc_eq split: option.split)

lemma tail_inv_fresh:
  assumes "linked t \<or> idle t" "handles_fresh t" "enabled e t"
  shows "handles_fresh (tail_do cfg e t)"
proof (cases e)
  case (SourceOpen i)
  then show ?thesis using assms by (auto simp: onOpen_def Let_def pushItem_def handles_fresh_def)
next
  case (SourceMessage i d)
  then show ?thesis using assms by (simp add: onMessage_def split: option.split)
next
  case (SourceGap i d)
  then show ?thesis using assms by (simp add: onGap_def Let_def)
next
  case (SourceError i)
  then show ?thesis
    using assms by (auto simp: onError_def closeSource_update Let_def handles_fresh_def less_Suc_eq split: option.split)
next
  case (Click b)
  then show ?thesis
    using assms fresh_setPaused [of t cfg]
    by (cases b) (auto simp: pause_def resume_def reconnect_def clearReconnectTimer_update Let_def connect_def
        setFlushTimer_def handles_fresh_def less_Suc_eq)
qed (use assms in \<open>auto simp: connect_def handles_fresh_def less_Suc_eq clear_def run_cleanup_def stop_update split: option.split\<close>)

lemma tail_inv_attempt:
  assumes "tl_attempt t \<le> cf_maxReconnectAttempts cfg"
  shows "tl_attempt (tail_do cfg e t) \<le> cf_maxReconnectAttempts cfg"
proof (cases e)
  case (SourceMessage i d)
  then show ?thesis using assms by (simp add: onMessage_def pushItem_def split: option.split)
next
  case (Click b)
  then show ?thesis
    using assms by (cases b) (simp_all add: pause_def resume_def setPaused_def run_effect_def run_cleanup_def
        stop_fields reconnect_def Let_def connect_def setFlushTimer_def clearReconnectTimer_update)
qed (use assms in \<open>simp_all add: onOpen_def onGap_def Let_def pushItem_def onError_def closeSource_update connect_def
    clear_def run_cleanup_def stop_fields\<close>)

interpretation tail_machine: event_machine enabled "tail_do cfg" tail_start "tail_inv cfg" for cfg
proof
  show "tail_inv cfg tail_start" by (rule tail_inv_start)
  show "tail_inv cfg (tail_do cfg e t)" if "tail_inv cfg t" "enabled e t" for t e
    using that tail_window_do [of cfg t e] tail_inv_link [of t e cfg] tail_inv_fresh [of t e cfg]
      tail_inv_attempt [of t cfg e]
    by (simp add: tail_inv_def)
qed

section \<open>Outages\<close>

text \<open>During an outage every connection fails before it opens: only errors and retries happen.\<close>

fun is_outage :: "tail_event \<Rightarrow> bool" where
  "is_outage (SourceError i) = True"
| "is_outage (TimeoutFires h) = True"
| "is_outage _ = False"

definition outage_left :: "tail_config \<Rightarrow> tail \<Rightarrow> nat" where
  "outage_left cfg t =
     (if tl_sources t \<noteq> [] then 2 * (cf_maxReconnectAttempts cfg - tl_attempt t) + 1
      else if tl_timeouts t \<noteq> [] then 2 * (cf_maxReconnectAttempts cfg - tl_attempt t) + 2
      else 0)"

lemma outage_error:
  assumes "linked t" "one_source t" "tl_attempt t \<le> cf_maxReconnectAttempts cfg"
  shows "Suc (outage_left cfg (onError cfg t)) \<le> outage_left cfg t
    \<and> tl_exhausted (onError cfg t) = tl_exhausted t + (if outage_left cfg (onError cfg t) = 0 then 1 else 0)"
  using assms by (auto simp: onError_def Let_def closeSource_update link_defs outage_left_def)

lemma outage_retry:
  assumes "linked t" "one_retry t" "tl_timeouts t = [(h, d)]"
  shows "let t' = tail_do cfg (TimeoutFires h) t in
    Suc (outage_left cfg t') \<le> outage_left cfg t \<and> outage_left cfg t' \<noteq> 0 \<and> tl_exhausted t' = tl_exhausted t"
  using assms by (auto simp: connect_def link_defs outage_left_def Let_def)

lemma outage_step:
  assumes "tail_inv cfg t" "enabled e t" "is_outage e"
  shows "Suc (outage_left cfg (tail_do cfg e t)) \<le> outage_left cfg t
    \<and> tl_exhausted (tail_do cfg e t) = tl_exhausted t + (if outage_left cfg (tail_do cfg e t) = 0 then 1 else 0)"
proof (cases e)
  case (SourceError i)
  then show ?thesis using assms linked_source [of t i] outage_error [of t cfg] by (simp add: tail_inv_def)
next
  case (TimeoutFires h)
  then obtain d where "linked t" "one_retry t" "tl_timeouts t = [(h, d)]"
    using assms linked_timeout [of t h] by (auto simp: tail_inv_def)
  with TimeoutFires outage_retry [OF this, of cfg] show ?thesis by (simp add: Let_def del: tail_do.simps)
qed (use assms(3) in simp_all)

lemma outage_stuck:
  assumes "tail_inv cfg t" "\<And>e. is_outage e \<Longrightarrow> \<not> enabled e t"
  shows "outage_left cfg t = 0"
proof -
  have "\<not> enabled (SourceError i) t" "\<not> enabled (TimeoutFires i) t" for i
    using assms(2) [of "SourceError i"] assms(2) [of "TimeoutFires i"] by simp_all
  then have "set (tl_sources t) = {}" "fst ` set (tl_timeouts t) = {}" by (simp_all add: set_eq_iff)
  then show ?thesis by (simp add: outage_left_def)
qed

lemma outage_run:
  assumes "tail_inv cfg t" "tail_run cfg es t = Some t'" "list_all is_outage es"
  shows "length es + outage_left cfg t' \<le> outage_left cfg t
    \<and> tl_exhausted t' = tl_exhausted t + (if es \<noteq> [] \<and> outage_left cfg t' = 0 then 1 else 0)"
  using assms
proof (induction es arbitrary: t)
  case (Cons e es)
  then have e: "enabled e t" "is_outage e" and r: "tail_run cfg es (tail_do cfg e t) = Some t'"
    by (auto split: if_splits)
  note st = outage_step [OF Cons.prems(1) e]
  have "tail_inv cfg (tail_do cfg e t)" using tail_machine.ok_step Cons.prems(1) e(1) by blast
  note ih = Cons.IH [OF this r]
  have "list_all is_outage es" using Cons.prems(3) by simp
  note ih = ih [OF this]
  show ?case
  proof (cases "es = []")
    case True
    with r st show ?thesis by simp
  next
    case False
    then have "1 \<le> length es" by (cases es) simp_all
    with ih have "outage_left cfg (tail_do cfg e t) \<noteq> 0" by linarith
    with ih st False show ?thesis by simp
  qed
qed simp

lemma outage_run_linked:
  assumes "tail_inv cfg t" "tail_run cfg es t = Some t'" "list_all is_outage es" "es \<noteq> []"
  shows "linked t'"
proof -
  have st: "linked (tail_do cfg e u)" if "tail_inv cfg u" "enabled e u" "is_outage e" for e u
  proof (cases e)
    case (SourceError i)
    with that show ?thesis using linked_source [of u i] onError_linked [of u cfg] by (simp add: tail_inv_def)
  next
    case (TimeoutFires h)
    with that obtain d where "linked u" "one_retry u" "tl_timeouts u = [(h, d)]"
      using linked_timeout [of u h] by (auto simp: tail_inv_def)
    with TimeoutFires that timeout_linked show ?thesis by (simp add: tail_inv_def)
  qed (use that(3) in simp_all)
  from assms(4,2,3) obtain fs e u where "es = fs @ [e]" "tail_run cfg fs t = Some u" "enabled e u" "t' = tail_do cfg e u"
    by (cases es rule: rev_cases) (auto simp: run_events_append bind_eq_Some_conv split: if_splits)
  with st [of u e] tail_machine.run_ok [OF assms(1)] assms(3) show ?thesis by auto
qed

lemma linked_end:
  assumes "tail_inv cfg t" "outage_left cfg t = 0"
  shows "linked t \<longrightarrow> tl_status t = Offline"
  using assms by (auto simp: link_defs outage_left_def split: if_splits)

section \<open>Counting retries\<close>

fun is_failure :: "tail_event \<Rightarrow> bool" where
  "is_failure (SourceError i) = True"
| "is_failure _ = False"

abbreviation failures :: "tail_event list \<Rightarrow> nat" where
  "failures es \<equiv> length (filter is_failure es)"

abbreviation retries_left :: "tail_config \<Rightarrow> tail \<Rightarrow> nat" where
  "retries_left cfg t \<equiv> cf_maxReconnectAttempts cfg - tl_attempt t"

lemma failure_retries:
  assumes "linked t" "one_source t" "tl_attempt t < cf_maxReconnectAttempts cfg"
  shows "tl_status (onError cfg t) \<noteq> Offline \<and> tl_attempt (onError cfg t) = Suc (tl_attempt t)
    \<and> tl_exhausted (onError cfg t) = tl_exhausted t"
  using assms by (simp add: onError_def Let_def closeSource_update linked_def)

lemma failure_gives_up:
  assumes "linked t" "one_source t" "tl_attempt t = cf_maxReconnectAttempts cfg"
  shows "tl_status (onError cfg t) = Offline \<and> tl_attempt (onError cfg t) = tl_attempt t
    \<and> tl_exhausted (onError cfg t) = Suc (tl_exhausted t)"
  using assms by (simp add: onError_def Let_def closeSource_update linked_def)

lemma retry_keeps_count:
  "tl_status (tail_do cfg (TimeoutFires h) t) = tl_status t \<and> tl_attempt (tail_do cfg (TimeoutFires h) t) = tl_attempt t
    \<and> tl_exhausted (tail_do cfg (TimeoutFires h) t) = tl_exhausted t"
  by (simp add: connect_def)

lemma offline_no_outage:
  assumes "tail_inv cfg t" "tl_status t = Offline" "is_outage e"
  shows "\<not> enabled e t"
  using assms by (cases e) (auto simp: tail_inv_def link_defs)

lemma outage_exact:
  assumes "tail_inv cfg t" "tail_run cfg es t = Some t'" "list_all is_outage es" "tl_status t \<noteq> Offline"
  shows "failures es \<le> Suc (retries_left cfg t)
    \<and> (tl_status t' = Offline \<longleftrightarrow> failures es = Suc (retries_left cfg t))
    \<and> tl_attempt t' = tl_attempt t + min (failures es) (retries_left cfg t)
    \<and> tl_exhausted t' = tl_exhausted t + (if failures es = Suc (retries_left cfg t) then 1 else 0)"
  using assms
proof (induction es arbitrary: t)
  case (Cons e es)
  then have e: "enabled e t" "is_outage e" and r: "tail_run cfg es (tail_do cfg e t) = Some t'"
    and es: "list_all is_outage es"
    by (auto split: if_splits)
  have inv: "tail_inv cfg (tail_do cfg e t)" using tail_machine.ok_step Cons.prems(1) e(1) by blast
  note ih = Cons.IH [OF inv r es]
  have att: "tl_attempt t \<le> cf_maxReconnectAttempts cfg" using Cons.prems(1) by (simp add: tail_inv_def)
  show ?case
  proof (cases e)
    case (SourceError i)
    then have l: "linked t" "one_source t" using Cons.prems(1) e(1) linked_source [of t i] by (auto simp: tail_inv_def)
    show ?thesis
    proof (cases "tl_attempt t < cf_maxReconnectAttempts cfg")
      case True
      with failure_retries [OF l True] ih SourceError show ?thesis by (auto simp: min_def)
    next
      case False
      with att have m: "tl_attempt t = cf_maxReconnectAttempts cfg" by simp
      note off = failure_gives_up [OF l m]
      have "es = []"
      proof (cases es)
        case (Cons f fs)
        with r have "enabled f (tail_do cfg e t)" by (simp split: if_splits)
        with offline_no_outage [OF inv, of f] off SourceError es Cons show ?thesis by simp
      qed simp
      with r off m SourceError show ?thesis by simp
    qed
  next
    case (TimeoutFires h)
    with retry_keeps_count [of cfg h t] ih Cons.prems(4) show ?thesis by simp
  qed (use e(2) in simp_all)
qed simp

section \<open>The stream of rows\<close>

text \<open>
  The rows a run takes in, in the order of its events and since the last click on clear: a line for
  every frame that parses, a row for every slow-consumer gap, and one for a stream that opens when
  a gap is due. It is computed from the events alone, without the buffer and the window.
\<close>

fun accepted_rows :: "tail_event \<Rightarrow> tail \<Rightarrow> TailItem list" where
  "accepted_rows (SourceOpen i) t = (if tl_wantGapOnOpen t then [GapItem (tl_seq t) Reconnect 0] else [])"
| "accepted_rows (SourceMessage i data) t =
     (case parseLogFrame data of None \<Rightarrow> [] | Some ev \<Rightarrow> [LogItem (tl_seq t) ev])"
| "accepted_rows (SourceGap i data) t = [GapItem (tl_seq t) Dropped (parseGapFrame data)]"
| "accepted_rows _ t = []"

fun stream_from :: "tail_config \<Rightarrow> TailItem list \<Rightarrow> tail_event list \<Rightarrow> tail \<Rightarrow> TailItem list" where
  "stream_from cfg rows [] t = rows"
| "stream_from cfg rows (e # es) t =
     stream_from cfg (if e = ClickClear then [] else rows @ accepted_rows e t) es (tail_do cfg e t)"

definition last_rows :: "nat \<Rightarrow> 'a list \<Rightarrow> 'a list" where
  "last_rows m xs = drop (length xs - m) xs"

lemma last_rows_short [simp]: "length xs \<le> m \<Longrightarrow> last_rows m xs = xs"
  by (simp add: last_rows_def)

lemma last_rows_append: "last_rows m (last_rows m xs @ ys) = last_rows m (xs @ ys)"
proof (cases "length xs \<le> m")
  case False
  then have "last_rows m xs @ ys = drop (length xs - m) (xs @ ys)" by (simp add: last_rows_def)
  moreover have "length (last_rows m xs @ ys) - m + (length xs - m) = length (xs @ ys) - m"
    using False by (simp add: last_rows_def)
  ultimately show ?thesis by (simp add: last_rows_def del: drop_append)
qed simp

text \<open>The first \<open>n\<close> rows were flushed, of which the last ones are shown; the rest is buffered.\<close>

definition streamed :: "tail_config \<Rightarrow> TailItem list \<Rightarrow> TailItem list \<times> TailItem list \<Rightarrow> bool" where
  "streamed cfg rows v \<longleftrightarrow> (\<exists>flushed. rows = flushed @ snd v \<and> fst v = last_rows (cf_maxItems cfg) flushed)"

definition tail_rows :: "tail \<Rightarrow> TailItem list \<times> TailItem list" where
  "tail_rows t = (tl_items t, tl_pending t)"

lemma rows_unchanged [simp]:
  "tail_rows (closeSource t) = tail_rows t" "tail_rows (clearReconnectTimer t) = tail_rows t"
  "tail_rows (clearFlushTimer t) = tail_rows t" "tail_rows (connect t) = tail_rows t"
  "tail_rows (setFlushTimer t) = tail_rows t" "tail_rows (onError cfg t) = tail_rows t"
  "tail_rows (reconnect t) = tail_rows t" "tail_rows (run_effect t) = tail_rows t"
  by (simp_all add: tail_rows_def window_fields onError_def reconnect_def run_effect_def Let_def)

lemma rows_of_fields [simp]:
  "tail_rows (t\<lparr>tl_stopped := a\<rparr>) = tail_rows t" "tail_rows (t\<lparr>tl_cleanup := a\<rparr>) = tail_rows t"
  "tail_rows (t\<lparr>tl_paused := a\<rparr>) = tail_rows t" "tail_rows (t\<lparr>tl_mounted := a\<rparr>) = tail_rows t"
  "tail_rows (t\<lparr>tl_timeouts := x\<rparr>) = tail_rows t" "tail_rows (t\<lparr>tl_statsRef := y\<rparr>) = tail_rows t"
  by (simp_all add: tail_rows_def)

lemma streamed_push: "streamed cfg rows (shown, pend) \<Longrightarrow> streamed cfg (rows @ [r]) (shown, pend @ [r])"
  by (auto simp: streamed_def)

lemma streamed_flush:
  assumes "streamed cfg rows (tail_rows t)"
  shows "streamed cfg rows (tail_rows (flush cfg t))"
proof -
  from assms obtain flushed where rows: "rows = flushed @ tl_pending t"
    and shown: "tl_items t = last_rows (cf_maxItems cfg) flushed"
    by (auto simp: streamed_def tail_rows_def)
  have "tl_items (flush cfg t) = last_rows (cf_maxItems cfg) rows"
  proof (cases "tl_pending t = []")
    case True
    with rows shown show ?thesis by (simp add: flush_def Let_def)
  next
    case False
    then have "tl_items (flush cfg t) = last_rows (cf_maxItems cfg) (tl_items t @ tl_pending t)"
      by (simp add: flush_def Let_def last_rows_def del: drop_append)
    with rows shown show ?thesis by (simp only: last_rows_append)
  qed
  then show ?thesis by (simp add: streamed_def tail_rows_def flush_def Let_def)
qed

lemma streamed_cleanup: "streamed cfg rows (tail_rows t) \<Longrightarrow> streamed cfg rows (tail_rows (run_cleanup cfg t))"
  by (simp add: run_cleanup_def stop_def streamed_flush)

lemma streamed_step:
  assumes "streamed cfg rows (tail_rows t)"
  shows "streamed cfg (if e = ClickClear then [] else rows @ accepted_rows e t) (tail_rows (tail_do cfg e t))"
proof (cases e)
  case (SourceOpen i)
  then show ?thesis using assms streamed_push [of cfg rows "tl_items t" "tl_pending t"]
    by (simp add: onOpen_def Let_def pushItem_def tail_rows_def)
next
  case (SourceMessage i d)
  then show ?thesis using assms streamed_push [of cfg rows "tl_items t" "tl_pending t"]
    by (simp add: onMessage_def pushItem_def tail_rows_def split: option.split)
next
  case (SourceGap i d)
  then show ?thesis using assms streamed_push [of cfg rows "tl_items t" "tl_pending t"]
    by (simp add: onGap_def Let_def pushItem_def tail_rows_def)
next
  case (Click b)
  then show ?thesis using assms
    by (cases b) (simp_all add: pause_def resume_def setPaused_def streamed_cleanup)
next
  case ClickClear
  then show ?thesis by (simp add: clear_def streamed_def tail_rows_def)
qed (use assms in \<open>simp_all add: streamed_flush streamed_cleanup\<close>)

lemma streamed_run:
  "streamed cfg rows (tail_rows t) \<Longrightarrow> tail_run cfg es t = Some t'
     \<Longrightarrow> streamed cfg (stream_from cfg rows es t) (tail_rows t')"
proof (induction es arbitrary: rows t)
  case (Cons e es)
  then have "tail_run cfg es (tail_do cfg e t) = Some t'" by (simp split: if_splits)
  with Cons.IH [OF streamed_step [OF Cons.prems(1)], of e] show ?case by simp
qed simp

lemma streamed_start: "streamed cfg [] (tail_rows tail_start)"
proof -
  have "tail_rows tail_start = ([], [])" unfolding tail_start_def rows_unchanged by (simp add: tail_rows_def tail_zero_def)
  then show ?thesis by (simp add: streamed_def)
qed

section \<open>A sample run\<close>

text \<open>
  A tail that shows two rows: it opens, receives a log line, a slow-consumer gap and a line that is
  not JSON, loses the connection, reopens after the first backoff and flushes.
\<close>

definition sample_config :: tail_config where
  "sample_config = default_config\<lparr>cf_maxItems := 2, cf_maxReconnectAttempts := 1\<rparr>"

definition sample_frame :: string where
  "sample_frame = JSON_stringify (JObj
     [(''tenant_id'', JStr ''t''), (''ts'', JStr ''2026-01-01T00:00:00Z''), (''service'', JStr ''api''),
      (''level'', JStr ''error''), (''message'', JStr ''boom''), (''labels'', JNull)])"

definition sample_run :: "tail_event list" where
  "sample_run = [SourceOpen 1, SourceMessage 1 sample_frame, SourceGap 1 (JSON_stringify (JObj [(''dropped'', JNum 3)])),
     SourceMessage 1 ''oops'', SourceError 1, TimeoutFires 2]"

definition sample_tail :: tail where
  "sample_tail = the (tail_run sample_config sample_run tail_start)"

lemma sample_tail_reach: "tail_reach sample_config sample_tail"
proof -
  have "tail_run sample_config sample_run tail_start \<noteq> None" by code_simp
  then show ?thesis
    unfolding sample_tail_def by (intro run_events_reachable [where es = sample_run]) simp
qed

section \<open>Properties\<close>

text \<open>
  C25. The scrollback of the live tail is the end of what was received. Take the stream of rows a run
  takes in since the last clear (\<open>stream_from\<close>). It falls into what was flushed and what is still
  buffered: the buffer holds exactly the rest, and the rows on screen are exactly the last
  \<open>maxItems\<close> of the flushed part, all of it if there are fewer. So nothing is lost, repeated or
  reordered except by dropping the oldest rows. The rows carry consecutive numbers that end just
  below the next one, every log row has one of the six levels and every gap row a count of at least
  zero.
\<close>

theorem tail_scrollback_window:
  assumes "tail_run cfg es tail_start = Some t"
  shows "(\<exists>flushed. stream_from cfg [] es tail_start = flushed @ tl_pending t
      \<and> tl_items t = drop (length flushed - cf_maxItems cfg) flushed)
    \<and> length (tl_items t) \<le> cf_maxItems cfg
    \<and> map item_seq (tl_items t @ tl_pending t) = [tl_seq t - length (tl_items t @ tl_pending t)..<tl_seq t]
    \<and> list_all row_typed (tl_items t @ tl_pending t)"
proof -
  have "tail_inv cfg t" using tail_machine.reachable_ok [OF run_events_reachable [OF assms]] .
  moreover have "streamed cfg (stream_from cfg [] es tail_start) (tail_rows t)"
    by (rule streamed_run [OF streamed_start assms])
  ultimately show ?thesis
    by (simp add: tail_inv_def window_def numbered_def list_all_iff streamed_def tail_rows_def last_rows_def)
qed

theorem tail_scrollback_window_witness:
  "let es = sample_run @ [SourceOpen 3, FlushTick 0];
       t = the (tail_run sample_config es tail_start); rows = stream_from sample_config [] es tail_start
   in length rows = 3 \<and> tl_pending t = [] \<and> tl_items t = drop 1 rows"
proof -
  let ?es = "sample_run @ [SourceOpen 3, FlushTick 0]"
  let ?t = "the (tail_run sample_config ?es tail_start)" and ?rows = "stream_from sample_config [] ?es tail_start"
  have "tail_run sample_config ?es tail_start \<noteq> None" by code_simp
  then have run: "tail_run sample_config ?es tail_start = Some ?t" by simp
  have n: "length ?rows = 3" "tl_pending ?t = []" by code_simp+
  moreover have "cf_maxItems sample_config = 2" by (simp add: sample_config_def)
  ultimately show ?thesis using tail_scrollback_window [OF run] by (auto simp: Let_def)
qed

text \<open>
  C26. The live tail never leaks a connection. In every state a run of the hook leads to there is at
  most one open event source or armed retry, never both; the source is the one the hook
  holds; and a tail that is paused, offline or unmounted holds neither, a paused or unmounted one
  no flush interval either.
\<close>

theorem tail_single_connection:
  assumes "tail_reach cfg t"
  shows "length (tl_sources t) + length (tl_timeouts t) \<le> 1
    \<and> set (tl_sources t) = set_option (tl_es t)
    \<and> (tl_paused t \<or> tl_status t = Offline \<or> \<not> tl_mounted t \<longrightarrow> tl_sources t = [] \<and> tl_timeouts t = [])
    \<and> (tl_paused t \<or> \<not> tl_mounted t \<longrightarrow> tl_intervals t = [])"
  using tail_machine.reachable_ok [OF assms] by (auto simp: tail_inv_def link_defs)

theorem tail_single_connection_witness:
  "tl_sources sample_tail = [3] \<and> length (tl_sources sample_tail) + length (tl_timeouts sample_tail) \<le> 1"
proof -
  have "tl_sources sample_tail = [3]" by code_simp
  with tail_single_connection [OF sample_tail_reach] show ?thesis by blast
qed

text \<open>
  A reopened stream is marked. When a source opens on a tail that has streamed before, after an
  error, a pause or a manual reconnect, the first row that follows is a reconnect gap with the next
  sequence number, the reconnect count goes up by one, and the attempt counter starts again.
\<close>

theorem tail_reopen_marks_gap:
  assumes "tail_reach cfg t" "tl_sawOpen t" "enabled (SourceOpen i) t"
  shows "let t' = tail_do cfg (SourceOpen i) t in
      tl_pending t' = tl_pending t @ [GapItem (tl_seq t) Reconnect 0]
      \<and> st_reconnects (tl_statsRef t') = st_reconnects (tl_statsRef t) + 1
      \<and> tl_status t' = Streaming \<and> tl_attempt t' = 0 \<and> \<not> tl_wantGapOnOpen t'"
proof -
  from tail_machine.reachable_ok [OF assms(1)] have "linked t \<or> idle t" by (simp add: tail_inv_def)
  with assms(3) linked_source [of t i] have l: "linked t" "one_source t" "tl_sources t = [i]" by auto
  with assms(2,3) have "tl_wantGapOnOpen t" by (auto simp: linked_def one_source_def)
  then show ?thesis by (simp add: onOpen_def Let_def pushItem_def)
qed

theorem tail_reopen_marks_gap_witness:
  "tl_pending (tail_do sample_config (SourceOpen 3) sample_tail) = tl_pending sample_tail @ [GapItem 2 Reconnect 0]"
proof -
  have "tl_sawOpen sample_tail" "enabled (SourceOpen 3) sample_tail" "tl_seq sample_tail = 2" by code_simp+
  with tail_reopen_marks_gap [OF sample_tail_reach, of 3] show ?thesis by (simp add: Let_def del: tail_do.simps)
qed

text \<open>
  C28. Reconnection is bounded, and the bound is exact. From any state a run of the hook leads to that
  is not offline, let a sequence of failing connections and retries happen without a successful
  \<open>open\<close>. The tail stays in business for as many failures as retries are left
  (\<open>maxReconnectAttempts - attempt\<close>), counting each as an attempt; it is offline exactly after one
  failure more, when \<open>onReconnectExhausted\<close> has been called once; no further failure can follow. The
  sequence has at most two steps per retry left and two more, and when it can go no further that
  last failure has happened.
\<close>

theorem tail_outage_terminates:
  assumes "tail_reach cfg t" "tl_status t \<noteq> Offline" "tail_run cfg es t = Some t'" "list_all is_outage es"
  shows "failures es \<le> Suc (retries_left cfg t)
    \<and> (tl_status t' = Offline \<longleftrightarrow> failures es = Suc (retries_left cfg t))
    \<and> tl_attempt t' = tl_attempt t + min (failures es) (retries_left cfg t)
    \<and> tl_exhausted t' = tl_exhausted t + (if failures es = Suc (retries_left cfg t) then 1 else 0)
    \<and> length es \<le> 2 * retries_left cfg t + 2
    \<and> (es \<noteq> [] \<and> (\<forall>e. is_outage e \<longrightarrow> \<not> enabled e t') \<longrightarrow> failures es = Suc (retries_left cfg t))"
proof -
  note inv = tail_machine.reachable_ok [OF assms(1)]
  note exact = outage_exact [OF inv assms(3,4,2)]
  have "length es \<le> 2 * retries_left cfg t + 2"
    using outage_run [OF inv assms(3,4)] by (auto simp: outage_left_def split: if_splits)
  moreover have "tl_status t' = Offline" if "es \<noteq> []" "\<forall>e. is_outage e \<longrightarrow> \<not> enabled e t'"
  proof -
    have inv': "tail_inv cfg t'" using tail_machine.run_ok [OF inv assms(3)] .
    then have "outage_left cfg t' = 0" using outage_stuck that(2) by blast
    with linked_end [OF inv'] outage_run_linked [OF inv assms(3,4) that(1)] show ?thesis by blast
  qed
  ultimately show ?thesis using exact by blast
qed

text \<open>The sample tail has used its one retry, so the next failure is the last; at its start it had one left.\<close>

theorem tail_outage_terminates_witness:
  "let t = the (tail_run sample_config [SourceError 1, TimeoutFires 2] tail_start);
       t' = the (tail_run sample_config [SourceError 1, TimeoutFires 2, SourceError 3] tail_start) in
     tl_status t \<noteq> Offline \<and> tl_attempt t = 1 \<and> tl_status t' = Offline \<and> tl_exhausted t' = 1"
proof -
  let ?es = "[SourceError 1, TimeoutFires 2]" and ?es' = "[SourceError 1, TimeoutFires 2, SourceError 3]"
  let ?t = "the (tail_run sample_config ?es tail_start)" and ?t' = "the (tail_run sample_config ?es' tail_start)"
  have "tail_run sample_config ?es tail_start \<noteq> None" "tail_run sample_config ?es' tail_start \<noteq> None" by code_simp+
  then have runs: "tail_run sample_config ?es tail_start = Some ?t" "tail_run sample_config ?es' tail_start = Some ?t'"
    by simp_all
  have start: "tl_status tail_start \<noteq> Offline" "tl_attempt tail_start = 0" "tl_exhausted tail_start = 0"
    "cf_maxReconnectAttempts sample_config = 1" by code_simp+
  show ?thesis
    using tail_outage_terminates [OF reachable.start start(1) runs(1)]
      tail_outage_terminates [OF reachable.start start(1) runs(2)] start(2-4)
    by (simp add: Let_def)
qed

end
