(* ===== verification/Log_Search.thy ===== *)
theory Log_Search
  imports Log_Tail
begin

text \<open>
  Historical search of the web front end: the filter model and its wire mapping
  (\<^verbatim>\<open>features/log-search/search-query.ts\<close>), the state machine of the hook
  (\<^verbatim>\<open>use-log-search.ts\<close>) and the relay to the query service (\<^verbatim>\<open>server/search.ts\<close>).

  \<open>rfc\<close> stands for \<open>new Date(v)\<close> followed by \<open>toISOString()\<close>, \<open>None\<close> when the date is invalid: it
  depends on the viewer's zone and on the formats the engine accepts. A query string is the list of
  its pairs. The query service is the argument \<open>fetch\<close>.

  In the hook the promise of request \<open>i\<close> settles as \<open>srv i\<close> says, at any time after the request was
  made, so answers may overtake each other. \<open>sh_calls\<close> records the calls of \<open>search\<close>.
\<close>

section \<open>Filters and the query string\<close>

record SearchFilters =
  srf_text :: string
  srf_service :: string
  srf_level :: string
  srf_labels :: "string list"
  srf_from :: string
  srf_to :: string

definition EMPTY_SEARCH_FILTERS :: SearchFilters where
  "EMPTY_SEARCH_FILTERS =
     \<lparr> srf_text = [], srf_service = [], srf_level = [], srf_labels = [], srf_from = [], srf_to = [] \<rparr>"

definition SEARCH_PAGE_LIMIT :: int where "SEARCH_PAGE_LIMIT = 100"
definition MAX_SEARCH_RESULTS :: nat where "MAX_SEARCH_RESULTS = 1000"

definition searchFiltersActive :: "SearchFilters \<Rightarrow> bool" where
  "searchFiltersActive f \<longleftrightarrow>
     trim (srf_text f) \<noteq> [] \<or> trim (srf_service f) \<noteq> [] \<or> srf_level f \<noteq> [] \<or> trim (srf_from f) \<noteq> []
     \<or> trim (srf_to f) \<noteq> [] \<or> list_ex (\<lambda>l. trim l \<noteq> []) (srf_labels f)"

definition toRfc3339 :: "(string \<Rightarrow> string option) \<Rightarrow> string \<Rightarrow> string" where
  "toRfc3339 rfc value =
     (let v = trim value in if v = [] then [] else case rfc v of None \<Rightarrow> v | Some d \<Rightarrow> d)"

text \<open>\<open>URLSearchParams\<close>: \<open>set\<close> replaces the first pair of the name and drops the others.\<close>

type_synonym params = "(string \<times> string) list"

fun params_set :: "string \<Rightarrow> string \<Rightarrow> params \<Rightarrow> params" where
  "params_set k v [] = [(k, v)]"
| "params_set k v ((k', v') # ps) =
     (if k' = k then (k, v) # filter (\<lambda>p. fst p \<noteq> k) ps else (k', v') # params_set k v ps)"

definition params_append :: "string \<Rightarrow> string \<Rightarrow> params \<Rightarrow> params" where
  "params_append k v ps = ps @ [(k, v)]"

definition params_getAll :: "string \<Rightarrow> params \<Rightarrow> string list" where
  "params_getAll k ps = map snd (filter (\<lambda>p. fst p = k) ps)"

definition set_if :: "bool \<Rightarrow> string \<Rightarrow> string \<Rightarrow> params \<Rightarrow> params" where
  "set_if c k v ps = (if c then params_set k v ps else ps)"

fun append_labels :: "string list \<Rightarrow> params \<Rightarrow> params" where
  "append_labels [] ps = ps"
| "append_labels (raw # labels) ps =
     (let label = trim raw in append_labels labels (if label \<noteq> [] then params_append ''label'' label ps else ps))"

definition buildSearchParams ::
  "(string \<Rightarrow> string option) \<Rightarrow> SearchFilters \<Rightarrow> string option \<Rightarrow> int option \<Rightarrow> params" where
  "buildSearchParams rfc f cursor limit =
     (let q = trim (srf_text f);
          service = trim (srf_service f);
          from = toRfc3339 rfc (srf_from f);
          to = toRfc3339 rfc (srf_to f);
          p1 = set_if (q \<noteq> []) ''q'' q [];
          p2 = set_if (service \<noteq> []) ''service'' service p1;
          p3 = set_if (srf_level f \<noteq> []) ''level'' (srf_level f) p2;
          p4 = set_if (from \<noteq> []) ''from'' from p3;
          p5 = set_if (to \<noteq> []) ''to'' to p4;
          p6 = append_labels (srf_labels f) p5;
          p7 = (case limit of None \<Rightarrow> p6 | Some n \<Rightarrow> params_set ''limit'' (int_digits n) p6)
      in case cursor of None \<Rightarrow> p7 | Some c \<Rightarrow> set_if (c \<noteq> []) ''cursor'' c p7)"

record SearchQueryState =
  qs_q :: string
  qs_service :: string
  qs_level :: "string option"
  qs_labels :: "string list"
  qs_from :: string
  qs_to :: string

definition filtersFromQuery :: "SearchQueryState \<Rightarrow> SearchFilters" where
  "filtersFromQuery s =
     \<lparr> srf_text = qs_q s, srf_service = qs_service s,
       srf_level = (case qs_level s of None \<Rightarrow> [] | Some l \<Rightarrow> l),
       srf_labels = qs_labels s, srf_from = qs_from s, srf_to = qs_to s \<rparr>"

definition queryFromFilters :: "SearchFilters \<Rightarrow> SearchQueryState" where
  "queryFromFilters f =
     \<lparr> qs_q = srf_text f, qs_service = srf_service f,
       qs_level = (if srf_level f = [] then None else Some (srf_level f)),
       qs_labels = srf_labels f, qs_from = srf_from f, qs_to = srf_to f \<rparr>"

section \<open>The relay\<close>

record SearchResult =
  sr_events :: "TailLogEvent list"
  sr_nextCursor :: "string option"

definition searchResponseSchema :: "SearchResult schema" where
  "searchResponseSchema = z_object (\<lambda>p. do {
     events \<leftarrow> z_array tailLogEventSchema (p ''events'');
     nextCursor \<leftarrow> map_option (\<lambda>v. case v of Some c \<Rightarrow> if c = [] then None else Some c | None \<Rightarrow> None)
                     (z_optional z_string (p ''nextCursor''));
     Some \<lparr> sr_events = events, sr_nextCursor = nextCursor \<rparr> })"

text \<open>
  What \<open>fetch\<close> comes to: a rejection, or a status, its text and the body (\<open>None\<close> when reading the
  body fails).
\<close>

datatype http_result = FetchRejected | FetchResponse int string "string option"

record http_request =
  hr_method :: string
  hr_path :: string
  hr_params :: params
  hr_headers :: "(string \<times> string) list"
  hr_body :: "string option"

definition status_ok :: "int \<Rightarrow> bool" where
  "status_ok s \<longleftrightarrow> 200 \<le> s \<and> s \<le> 299"

text \<open>\<open>await res.text().catch(() => '')\<close>, then \<open>JSON.parse\<close> when the text is not empty.\<close>

datatype parsed_body = NoBody | BadBody | JsonBody json

definition read_body :: "string option \<Rightarrow> parsed_body" where
  "read_body body =
     (case body of
        None \<Rightarrow> NoBody
      | Some raw \<Rightarrow> if raw = [] then NoBody
                    else case JSON_parse raw of None \<Rightarrow> BadBody | Some v \<Rightarrow> JsonBody v)"

fun body_field :: "parsed_body \<Rightarrow> string \<Rightarrow> string option" where
  "body_field (JsonBody (JObj kvs)) k = (case map_of kvs k of Some (JStr s) \<Rightarrow> Some s | _ \<Rightarrow> None)"
| "body_field _ k = None"

fun body_value :: "parsed_body \<Rightarrow> json option" where
  "body_value (JsonBody v) = Some v"
| "body_value _ = None"

datatype SearchUpstream = UpstreamOk SearchResult | UpstreamError int string

definition search_unavailable :: string where
  "search_unavailable = ''Search is temporarily unavailable.''"

definition bearer_get :: "string \<Rightarrow> params \<Rightarrow> string \<Rightarrow> http_request" where
  "bearer_get path ps token =
     \<lparr> hr_method = ''GET'', hr_path = path, hr_params = ps,
       hr_headers = [(''accept'', ''application/json''), (''authorization'', ''Bearer '' @ token)], hr_body = None \<rparr>"

definition searchUpstream ::
  "(string \<Rightarrow> string option) \<Rightarrow> (http_request \<Rightarrow> http_result) \<Rightarrow> string option \<Rightarrow> SearchFilters \<Rightarrow> string option
     \<Rightarrow> SearchUpstream" where
  "searchUpstream rfc fetch token filters cursor =
     (case token of
        None \<Rightarrow> UpstreamError 401 ''Your session has ended.''
      | Some tok \<Rightarrow>
          if tok = [] then UpstreamError 401 ''Your session has ended.''
          else
            (case fetch (bearer_get ''/v1/search'' (buildSearchParams rfc filters cursor (Some SEARCH_PAGE_LIMIT)) tok) of
               FetchRejected \<Rightarrow> UpstreamError 502 search_unavailable
             | FetchResponse status statusText text \<Rightarrow>
                 let body = read_body text
                 in if body = BadBody
                    then UpstreamError (if status_ok status then 502 else status) search_unavailable
                    else if \<not> status_ok status then
                      (if status = 400
                       then UpstreamError 400
                              (case body_field body ''message'' of
                                 Some m \<Rightarrow> if trim m \<noteq> [] then m else ''Your search filters are invalid. Please adjust them.''
                               | None \<Rightarrow> ''Your search filters are invalid. Please adjust them.'')
                       else if status = 401 then UpstreamError 401 ''Your session has ended.''
                       else UpstreamError status search_unavailable)
                    else (case searchResponseSchema (body_value body) of
                            Some parsed \<Rightarrow> UpstreamOk parsed
                          | None \<Rightarrow> UpstreamError 502 search_unavailable)))"

text \<open>The result of the server function: an outcome, or the redirect to the login page it throws.\<close>

datatype SearchOutcome = SearchOk "TailLogEvent list" "string option" | SearchFailed string | SearchRedirect

definition searchFn ::
  "(string \<Rightarrow> string option) \<Rightarrow> (http_request \<Rightarrow> http_result) \<Rightarrow> string option \<Rightarrow> SearchFilters \<Rightarrow> string option
     \<Rightarrow> SearchOutcome" where
  "searchFn rfc fetch cookie filters cursor =
     (if cookie = None \<or> cookie = Some [] then SearchRedirect
      else case searchUpstream rfc fetch cookie filters cursor of
        UpstreamOk r \<Rightarrow> SearchOk (sr_events r) (sr_nextCursor r)
      | UpstreamError status message \<Rightarrow> if status = 401 then SearchRedirect else SearchFailed message)"

section \<open>The hook\<close>

datatype SearchStatus = SearchIdle | SearchLoading | SearchSuccess | SearchLoadingMore | SearchError

record search_hook =
  sh_status :: SearchStatus
  sh_events :: "TailLogEvent list"
  sh_nextCursor :: "string option"
  sh_error :: "string option"
  sh_hasSearched :: bool
  sh_capped :: bool
  sh_reqId :: nat
  sh_lastFilters :: "SearchFilters option"
  sh_cursorRef :: "string option"
  sh_inFlight :: bool
  sh_outstanding :: "nat list"
  sh_calls :: "(nat \<times> SearchFilters \<times> string option) list"

definition search_start :: search_hook where
  "search_start =
     \<lparr> sh_status = SearchIdle, sh_events = [], sh_nextCursor = None, sh_error = None, sh_hasSearched = False,
       sh_capped = False, sh_reqId = 0, sh_lastFilters = None, sh_cursorRef = None, sh_inFlight = False,
       sh_outstanding = [], sh_calls = [] \<rparr>"

text \<open>\<open>search(filters, cursor)\<close> under the id of the request.\<close>

definition call_search :: "SearchFilters \<Rightarrow> string option \<Rightarrow> search_hook \<Rightarrow> search_hook" where
  "call_search filters cursor h =
     h\<lparr>sh_outstanding := sh_outstanding h @ [sh_reqId h], sh_calls := sh_calls h @ [(sh_reqId h, filters, cursor)]\<rparr>"

definition run :: "SearchFilters \<Rightarrow> search_hook \<Rightarrow> search_hook" where
  "run filters h =
     call_search filters None
       (h\<lparr>sh_reqId := Suc (sh_reqId h), sh_lastFilters := Some filters, sh_cursorRef := None, sh_inFlight := True,
          sh_status := SearchLoading, sh_events := [], sh_nextCursor := None, sh_error := None,
          sh_hasSearched := False, sh_capped := False\<rparr>)"

definition loadMore :: "search_hook \<Rightarrow> search_hook" where
  "loadMore h =
     (case (sh_lastFilters h, sh_cursorRef h) of
        (Some filters, Some cursor) \<Rightarrow>
          if cursor = [] \<or> sh_inFlight h then h
          else call_search filters (Some cursor)
                 (h\<lparr>sh_reqId := Suc (sh_reqId h), sh_inFlight := True, sh_status := SearchLoadingMore, sh_error := None\<rparr>)
      | _ \<Rightarrow> h)"

text \<open>
  The pages \<open>run\<close> and \<open>loadMore\<close> show: the first page replaces the results, a further one is
  appended; from the ceiling on, the list is cut and paging stops.
\<close>

definition show_page :: "TailLogEvent list \<Rightarrow> string option \<Rightarrow> search_hook \<Rightarrow> search_hook" where
  "show_page combined cursor h =
     (let capped = (MAX_SEARCH_RESULTS \<le> length combined);
          events = (if capped then take MAX_SEARCH_RESULTS combined else combined);
          nextCursor = (if capped then None else cursor)
      in h\<lparr>sh_cursorRef := nextCursor, sh_status := SearchSuccess, sh_events := events,
           sh_nextCursor := nextCursor, sh_error := None, sh_hasSearched := True, sh_capped := capped\<rparr>)"

definition settle_run :: "SearchOutcome \<Rightarrow> search_hook \<Rightarrow> search_hook" where
  "settle_run out h =
     (case out of
        SearchOk events cursor \<Rightarrow> show_page events cursor (h\<lparr>sh_inFlight := False\<rparr>)
      | SearchFailed message \<Rightarrow>
          h\<lparr>sh_inFlight := False, sh_cursorRef := None, sh_status := SearchError, sh_events := [],
            sh_nextCursor := None, sh_error := Some message, sh_hasSearched := True, sh_capped := False\<rparr>
      | SearchRedirect \<Rightarrow> h)"

definition settle_more :: "SearchOutcome \<Rightarrow> search_hook \<Rightarrow> search_hook" where
  "settle_more out h =
     (case out of
        SearchOk events cursor \<Rightarrow> show_page (sh_events h @ events) cursor (h\<lparr>sh_inFlight := False\<rparr>)
      | SearchFailed message \<Rightarrow> h\<lparr>sh_inFlight := False, sh_status := SearchSuccess, sh_error := Some message\<rparr>
      | SearchRedirect \<Rightarrow> h)"

definition call_cursor :: "search_hook \<Rightarrow> nat \<Rightarrow> string option" where
  "call_cursor h i = (case map_of (sh_calls h) i of Some (f, c) \<Rightarrow> c | None \<Rightarrow> None)"

text \<open>The promise of request \<open>i\<close> settles; a rejected promise runs no handler.\<close>

definition settle :: "SearchOutcome \<Rightarrow> nat \<Rightarrow> search_hook \<Rightarrow> search_hook" where
  "settle out i h =
     (let h1 = h\<lparr>sh_outstanding := removeAll i (sh_outstanding h)\<rparr>
      in if out = SearchRedirect then h1
         else if i \<noteq> sh_reqId h1 then h1
         else if call_cursor h i = None then settle_run out h1 else settle_more out h1)"

datatype search_event = Run SearchFilters | LoadMore | Settle nat

fun search_enabled :: "search_event \<Rightarrow> search_hook \<Rightarrow> bool" where
  "search_enabled (Run f) h = True"
| "search_enabled LoadMore h = True"
| "search_enabled (Settle i) h = (i \<in> set (sh_outstanding h))"

fun search_do :: "(nat \<Rightarrow> SearchOutcome) \<Rightarrow> search_event \<Rightarrow> search_hook \<Rightarrow> search_hook" where
  "search_do srv (Run f) h = run f h"
| "search_do srv LoadMore h = loadMore h"
| "search_do srv (Settle i) h = settle (srv i) i h"

abbreviation search_reach :: "(nat \<Rightarrow> SearchOutcome) \<Rightarrow> search_hook \<Rightarrow> bool" where
  "search_reach srv \<equiv> reachable search_enabled (search_do srv) search_start"

end
