(* ===== verification/Log_Search_Laws.thy ===== *)
theory Log_Search_Laws
  imports Log_Search
begin

text \<open>
  What the search surface guarantees: the query string carries exactly the filters, and the hook
  shows the pages of its latest search, in order and without gaps, whatever order the answers come
  in.
\<close>

section \<open>The query string\<close>

lemma params_set_fresh: "k \<notin> fst ` set ps \<Longrightarrow> params_set k v ps = ps @ [(k, v)]"
  by (induction k v ps rule: params_set.induct) auto

lemma append_labels_eq:
  "append_labels labels ps = ps @ map (Pair ''label'') (filter (\<lambda>l. l \<noteq> []) (map trim labels))"
  by (induction labels arbitrary: ps) (simp_all add: params_append_def Let_def)

definition opt_pair :: "string \<Rightarrow> string \<Rightarrow> params" where
  "opt_pair k v = (if v \<noteq> [] then [(k, v)] else [])"

lemma fst_opt_pair: "fst ` set (opt_pair k v) \<subseteq> {k}"
  by (auto simp: opt_pair_def)

lemma set_if_fresh: "k \<notin> fst ` set ps \<Longrightarrow> set_if (v \<noteq> []) k v ps = ps @ opt_pair k v"
  by (simp add: set_if_def params_set_fresh opt_pair_def)

lemma buildSearchParams_eq:
  "buildSearchParams rfc f cursor limit =
    opt_pair ''q'' (trim (srf_text f)) @ opt_pair ''service'' (trim (srf_service f)) @ opt_pair ''level'' (srf_level f)
    @ opt_pair ''from'' (toRfc3339 rfc (srf_from f)) @ opt_pair ''to'' (toRfc3339 rfc (srf_to f))
    @ map (Pair ''label'') (filter (\<lambda>l. l \<noteq> []) (map trim (srf_labels f)))
    @ (case limit of None \<Rightarrow> [] | Some n \<Rightarrow> [(''limit'', int_digits n)])
    @ (case cursor of None \<Rightarrow> [] | Some c \<Rightarrow> opt_pair ''cursor'' c)"
proof -
  let ?q = "opt_pair ''q'' (trim (srf_text f))" and ?s = "opt_pair ''service'' (trim (srf_service f))"
    and ?v = "opt_pair ''level'' (srf_level f)" and ?f = "opt_pair ''from'' (toRfc3339 rfc (srf_from f))"
    and ?t = "opt_pair ''to'' (toRfc3339 rfc (srf_to f))"
  note sub = fst_opt_pair [of "''q''" "trim (srf_text f)"] fst_opt_pair [of "''service''" "trim (srf_service f)"]
    fst_opt_pair [of "''level''" "srf_level f"] fst_opt_pair [of "''from''" "toRfc3339 rfc (srf_from f)"]
    fst_opt_pair [of "''to''" "toRfc3339 rfc (srf_to f)"]
  have 1: "set_if (trim (srf_text f) \<noteq> []) ''q'' (trim (srf_text f)) [] = ?q" by (simp add: set_if_fresh)
  have 2: "set_if (trim (srf_service f) \<noteq> []) ''service'' (trim (srf_service f)) ?q = ?q @ ?s"
    using sub by (intro set_if_fresh) auto
  have 3: "set_if (srf_level f \<noteq> []) ''level'' (srf_level f) (?q @ ?s) = (?q @ ?s) @ ?v"
    using sub by (intro set_if_fresh) auto
  have 4: "set_if (toRfc3339 rfc (srf_from f) \<noteq> []) ''from'' (toRfc3339 rfc (srf_from f)) ((?q @ ?s) @ ?v)
      = ((?q @ ?s) @ ?v) @ ?f"
    using sub by (intro set_if_fresh) auto
  have 5: "set_if (toRfc3339 rfc (srf_to f) \<noteq> []) ''to'' (toRfc3339 rfc (srf_to f)) (((?q @ ?s) @ ?v) @ ?f)
      = (((?q @ ?s) @ ?v) @ ?f) @ ?t"
    using sub by (intro set_if_fresh) auto
  let ?l = "map (Pair ''label'') (filter (\<lambda>l. l \<noteq> []) (map trim (srf_labels f)))"
  let ?p = "((((?q @ ?s) @ ?v) @ ?f) @ ?t) @ ?l"
  have k: "fst ` set ?p \<subseteq> {''q'', ''service'', ''level'', ''from'', ''to'', ''label''}" using sub by auto
  have 6: "params_set ''limit'' (int_digits n) ?p = ?p @ [(''limit'', int_digits n)]" for n
    using k by (intro params_set_fresh) auto
  have 7: "set_if (c \<noteq> []) ''cursor'' c (?p @ m) = (?p @ m) @ opt_pair ''cursor'' c"
    if "fst ` set m \<subseteq> {''limit''}" for c m
    using k that by (intro set_if_fresh) auto
  have 8: "set_if (c \<noteq> []) ''cursor'' c ?p = ?p @ opt_pair ''cursor'' c" for c
    using k by (intro set_if_fresh) auto
  have 9: "set_if (c \<noteq> []) ''cursor'' c (?p @ [(''limit'', x)]) = (?p @ [(''limit'', x)]) @ opt_pair ''cursor'' c" for c x
    by (rule 7) simp
  show ?thesis
    unfolding buildSearchParams_def Let_def 1 2 3 4 5 append_labels_eq
    by (cases limit; cases cursor) (simp_all only: option.case 6 8 9, simp_all)
qed

section \<open>Pages\<close>

fun page :: "SearchOutcome \<Rightarrow> TailLogEvent list" where
  "page (SearchOk events cursor) = events"
| "page _ = []"

fun page_cursor :: "SearchOutcome \<Rightarrow> string option" where
  "page_cursor (SearchOk events cursor) = cursor"
| "page_cursor _ = None"

text \<open>
  The requests \<open>ids\<close> fetch consecutive pages of one search: each was made with its filters, the
  first from the cursor \<open>cur\<close> and each later one with the cursor of the page before it, and each
  was answered with a page.
\<close>

fun page_chain ::
  "(nat \<Rightarrow> SearchOutcome) \<Rightarrow> (nat \<times> SearchFilters \<times> string option) list \<Rightarrow> SearchFilters \<Rightarrow> string option
     \<Rightarrow> nat list \<Rightarrow> bool" where
  "page_chain srv calls f cur [] = True"
| "page_chain srv calls f cur (r # rs) =
     ((r, f, cur) \<in> set calls
      \<and> (case srv r of SearchOk events cursor \<Rightarrow> rs = [] \<or> cursor \<noteq> None \<and> page_chain srv calls f cursor rs
         | _ \<Rightarrow> False))"

lemma page_chain_mono: "page_chain srv calls f cur ids \<Longrightarrow> set calls \<subseteq> set calls' \<Longrightarrow> page_chain srv calls' f cur ids"
  by (induction srv calls f cur ids rule: page_chain.induct) (auto split: SearchOutcome.splits)

lemma page_chain_snoc:
  assumes "page_chain srv calls f cur ids" "ids \<noteq> []" "page_cursor (srv (last ids)) = Some c"
    "(r, f, Some c) \<in> set calls" "srv r = SearchOk events cursor"
  shows "page_chain srv calls f cur (ids @ [r])"
  using assms
proof (induction ids arbitrary: cur)
  case (Cons i ids)
  then show ?case by (cases "ids = []") (auto split: SearchOutcome.splits)
qed simp

definition shown :: "(nat \<Rightarrow> SearchOutcome) \<Rightarrow> search_hook \<Rightarrow> SearchFilters \<Rightarrow> nat list \<Rightarrow> bool" where
  "shown srv h f ids \<longleftrightarrow>
     (let all = concat (map (page \<circ> srv) ids) in
      sh_lastFilters h = Some f \<and> ids \<noteq> [] \<and> page_chain srv (sh_calls h) f None ids
      \<and> sh_events h = take MAX_SEARCH_RESULTS all
      \<and> sh_capped h = (MAX_SEARCH_RESULTS \<le> length all)
      \<and> sh_nextCursor h = sh_cursorRef h
      \<and> sh_cursorRef h = (if sh_capped h then None else page_cursor (srv (last ids))))"

definition search_inv :: "(nat \<Rightarrow> SearchOutcome) \<Rightarrow> search_hook \<Rightarrow> bool" where
  "search_inv srv h \<longleftrightarrow>
     map fst (sh_calls h) = [1..<Suc (sh_reqId h)]
     \<and> sh_inFlight h = (sh_status h \<in> {SearchLoading, SearchLoadingMore})
     \<and> (sh_reqId h \<in> set (sh_outstanding h) \<longrightarrow> sh_inFlight h)
     \<and> (case sh_status h of
          SearchIdle \<Rightarrow> sh_events h = [] \<and> sh_cursorRef h = None
        | SearchLoading \<Rightarrow> sh_events h = []
            \<and> (\<exists>f. sh_lastFilters h = Some f \<and> (sh_reqId h, f, None) \<in> set (sh_calls h))
        | SearchSuccess \<Rightarrow> (\<exists>f ids. shown srv h f ids)
        | SearchLoadingMore \<Rightarrow> (\<exists>f ids c. shown srv h f ids \<and> sh_cursorRef h = Some c
                                  \<and> (sh_reqId h, f, Some c) \<in> set (sh_calls h))
        | SearchError \<Rightarrow> sh_events h = [] \<and> sh_cursorRef h = None)"

lemma map_of_call:
  assumes "map fst calls = [1..<Suc n]" "(i, f, c) \<in> set calls"
  shows "map_of calls i = Some (f, c)"
proof -
  have "distinct (map fst calls)" by (simp only: assms(1) distinct_upt)
  with assms(2) show ?thesis by (simp add: map_of_is_SomeI)
qed

lemma shown_cong:
  "sh_lastFilters h' = sh_lastFilters h \<Longrightarrow> set (sh_calls h) \<subseteq> set (sh_calls h') \<Longrightarrow> sh_events h' = sh_events h
     \<Longrightarrow> sh_capped h' = sh_capped h \<Longrightarrow> sh_nextCursor h' = sh_nextCursor h \<Longrightarrow> sh_cursorRef h' = sh_cursorRef h
     \<Longrightarrow> shown srv h f ids \<Longrightarrow> shown srv h' f ids"
  by (auto simp: shown_def Let_def intro: page_chain_mono)

lemma shown_fields [simp]:
  "shown srv (h\<lparr>sh_outstanding := x\<rparr>) = shown srv h"
  "shown srv (h\<lparr>sh_inFlight := b\<rparr>) = shown srv h"
  "shown srv (h\<lparr>sh_status := st\<rparr>) = shown srv h"
  "shown srv (h\<lparr>sh_error := m\<rparr>) = shown srv h"
  by (simp_all add: shown_def Let_def fun_eq_iff)

lemma search_inv_start: "search_inv srv search_start"
  by (simp add: search_inv_def search_start_def)

lemma search_inv_run:
  assumes "search_inv srv h"
  shows "search_inv srv (run f h)"
  using assms by (simp add: search_inv_def run_def call_search_def)

lemma search_inv_loadMore:
  assumes "search_inv srv h"
  shows "search_inv srv (loadMore h)"
proof (cases "\<exists>f c. sh_lastFilters h = Some f \<and> sh_cursorRef h = Some c \<and> c \<noteq> [] \<and> \<not> sh_inFlight h")
  case True
  then obtain f c where c: "sh_lastFilters h = Some f" "sh_cursorRef h = Some c" "c \<noteq> []" "\<not> sh_inFlight h" by blast
  with assms obtain f' ids where s: "shown srv h f' ids"
    by (auto simp: search_inv_def split: SearchStatus.splits)
  then have "f' = f" using c by (simp add: shown_def Let_def)
  let ?h = "loadMore h"
  have h: "?h = call_search f (Some c)
      (h\<lparr>sh_reqId := Suc (sh_reqId h), sh_inFlight := True, sh_status := SearchLoadingMore, sh_error := None\<rparr>)"
    using c by (simp add: loadMore_def)
  have "shown srv ?h f ids" using s \<open>f' = f\<close> by (auto simp: h call_search_def intro: shown_cong [where h = h])
  then show ?thesis using assms c(2) by (auto simp: h search_inv_def call_search_def)
next
  case False
  then have "loadMore h = h" by (auto simp: loadMore_def split: option.split)
  with assms show ?thesis by simp
qed

lemma show_page_shown:
  assumes "sh_lastFilters h = Some f" "ids \<noteq> []" "page_chain srv (sh_calls h) f None ids"
    "combined = concat (map (page \<circ> srv) ids)" "cursor = page_cursor (srv (last ids))"
  shows "shown srv (show_page combined cursor h) f ids"
  using assms by (simp add: shown_def show_page_def Let_def)

lemma search_inv_success:
  assumes "search_inv srv h" "sh_calls h' = sh_calls h" "sh_reqId h' = sh_reqId h" "\<not> sh_inFlight h'"
    "sh_reqId h \<notin> set (sh_outstanding h')" "sh_status h' = SearchSuccess" "shown srv h' f ids"
  shows "search_inv srv h'"
  using assms by (auto simp: search_inv_def)

lemma show_page_fields [simp]:
  "sh_calls (show_page es c h) = sh_calls h" "sh_reqId (show_page es c h) = sh_reqId h"
  "sh_inFlight (show_page es c h) = sh_inFlight h" "sh_outstanding (show_page es c h) = sh_outstanding h"
  "sh_status (show_page es c h) = SearchSuccess"
  by (simp_all add: show_page_def Let_def)

lemma search_inv_settle:
  assumes inv: "search_inv srv h" and out: "i \<in> set (sh_outstanding h)"
  shows "search_inv srv (settle (srv i) i h)"
proof -
  let ?h = "h\<lparr>sh_outstanding := removeAll i (sh_outstanding h)\<rparr>"
  have keep: "search_inv srv ?h"
    using inv by (auto simp: search_inv_def split: SearchStatus.splits)
  show ?thesis
  proof (cases "srv i = SearchRedirect \<or> i \<noteq> sh_reqId h")
    case True
    with keep show ?thesis by (auto simp: settle_def Let_def)
  next
    case False
    then have i: "i = sh_reqId h" by simp
    with inv out have "sh_status h = SearchLoading \<or> sh_status h = SearchLoadingMore"
      by (auto simp: search_inv_def)
    then show ?thesis
    proof
      assume st: "sh_status h = SearchLoading"
      with inv i obtain f where f: "sh_lastFilters h = Some f" "(i, f, None) \<in> set (sh_calls h)"
        by (auto simp: search_inv_def)
      then have "call_cursor h i = None"
        using map_of_call [of "sh_calls h" "sh_reqId h" i f None] inv by (simp add: call_cursor_def search_inv_def)
      then have e: "settle (srv i) i h = settle_run (srv i) ?h" using False by (auto simp: settle_def Let_def)
      show ?thesis
      proof (cases "srv i")
        case (SearchOk events cursor)
        have "shown srv (show_page events cursor (?h\<lparr>sh_inFlight := False\<rparr>)) f [i]"
          by (rule show_page_shown) (use f SearchOk in simp_all)
        moreover note e' = e [unfolded SearchOk settle_run_def SearchOutcome.case]
        ultimately show ?thesis
          unfolding SearchOk e' by (intro search_inv_success [OF inv]) (use i in simp_all)
      next
        case (SearchFailed m)
        note e' = e [unfolded SearchFailed settle_run_def SearchOutcome.case]
        show ?thesis unfolding SearchFailed e' using inv i by (simp add: search_inv_def)
      qed (use False in simp)
    next
      assume st: "sh_status h = SearchLoadingMore"
      with inv i obtain f ids c where s: "shown srv h f ids" "sh_cursorRef h = Some c" "(i, f, Some c) \<in> set (sh_calls h)"
        by (auto simp: search_inv_def)
      then have "call_cursor h i \<noteq> None"
        using map_of_call [of "sh_calls h" "sh_reqId h" i f "Some c"] inv by (simp add: call_cursor_def search_inv_def)
      then have e: "settle (srv i) i h = settle_more (srv i) ?h" using False by (auto simp: settle_def Let_def)
      show ?thesis
      proof (cases "srv i")
        case (SearchOk events cursor)
        from s have nc: "\<not> sh_capped h" "page_cursor (srv (last ids)) = Some c"
          by (auto simp: shown_def Let_def split: if_splits)
        with s have ev: "sh_events h = concat (map (page \<circ> srv) ids)" by (simp add: shown_def Let_def)
        from s nc SearchOk have "page_chain srv (sh_calls h) f None (ids @ [i])"
          by (intro page_chain_snoc) (simp_all add: shown_def Let_def)
        then have "shown srv (show_page (sh_events h @ events) cursor (?h\<lparr>sh_inFlight := False\<rparr>)) f (ids @ [i])"
          by (intro show_page_shown) (use s ev SearchOk in \<open>simp_all add: shown_def Let_def\<close>)
        moreover note e' = e [unfolded SearchOk settle_more_def SearchOutcome.case]
        ultimately show ?thesis
          unfolding SearchOk e' by (intro search_inv_success [OF inv]) (use i in simp_all)
      next
        case (SearchFailed m)
        from s(1) have "shown srv (?h\<lparr>sh_inFlight := False, sh_status := SearchSuccess, sh_error := Some m\<rparr>) f ids"
          by simp
        moreover note e' = e [unfolded SearchFailed settle_more_def SearchOutcome.case]
        ultimately show ?thesis
          unfolding SearchFailed e' by (intro search_inv_success [OF inv]) (use i in simp_all)
      qed (use False in simp)
    qed
  qed
qed

interpretation search_machine: event_machine search_enabled "search_do srv" search_start "search_inv srv" for srv
proof
  show "search_inv srv search_start" by (rule search_inv_start)
  show "search_inv srv (search_do srv e h)" if "search_inv srv h" "search_enabled e h" for h e
    using that search_inv_run [of srv h] search_inv_loadMore [of srv h] search_inv_settle [of srv h] by (cases e) simp_all
qed

section \<open>Properties\<close>

text \<open>
  C29. The search surface shows the pages of its latest search. In every state a run of the hook leads
  to, with answers arriving in any order and failing at will, results on screen are the first
  1000 events of consecutive pages: every page was requested with the filters of the latest
  search, the first without a cursor and each later one with the cursor of the page before it. The
  surface is capped exactly when the pages reach 1000 events, and otherwise offers the cursor of
  the last page.
\<close>

theorem search_shows_latest_pages:
  assumes "search_reach srv h" "sh_status h = SearchSuccess \<or> sh_status h = SearchLoadingMore"
  shows "\<exists>f ids. sh_lastFilters h = Some f \<and> ids \<noteq> [] \<and> page_chain srv (sh_calls h) f None ids
    \<and> sh_events h = take 1000 (concat (map (page \<circ> srv) ids))
    \<and> sh_capped h = (1000 \<le> length (concat (map (page \<circ> srv) ids)))
    \<and> sh_nextCursor h = (if sh_capped h then None else page_cursor (srv (last ids)))"
proof -
  from search_machine.reachable_ok [OF assms(1)] assms(2) obtain f ids where "shown srv h f ids"
    by (auto simp: search_inv_def)
  then have "sh_lastFilters h = Some f \<and> ids \<noteq> [] \<and> page_chain srv (sh_calls h) f None ids
    \<and> sh_events h = take 1000 (concat (map (page \<circ> srv) ids))
    \<and> sh_capped h = (1000 \<le> length (concat (map (page \<circ> srv) ids)))
    \<and> sh_nextCursor h = (if sh_capped h then None else page_cursor (srv (last ids)))"
    by (simp add: shown_def Let_def MAX_SEARCH_RESULTS_def)
  then show ?thesis by blast
qed

definition sample_event :: TailLogEvent where
  "sample_event = \<lparr> te_tenant_id = ''t'', te_ts = ''ts'', te_id = None, te_service = ''api'', te_level = ''info'',
     te_message = ''m'', te_labels = [], te_trace_id = None, te_span_id = None \<rparr>"

definition sample_srv :: "nat \<Rightarrow> SearchOutcome" where
  "sample_srv i = (if i = 1 then SearchFailed ''late'' else if i = 2 then SearchOk [sample_event] (Some ''c'')
     else SearchOk [sample_event, sample_event] None)"

definition sample_searches :: "search_event list" where
  "sample_searches =
     [Run EMPTY_SEARCH_FILTERS, Run (EMPTY_SEARCH_FILTERS\<lparr>srf_text := ''x''\<rparr>), Settle 2, LoadMore, Settle 1, Settle 3]"

definition sample_search :: search_hook where
  "sample_search = the (run_events search_enabled (search_do sample_srv) sample_searches search_start)"

theorem search_shows_latest_pages_witness:
  "length (sh_events sample_search) = 3 \<and> (\<exists>f ids. sh_lastFilters sample_search = Some f \<and> ids \<noteq> []
     \<and> page_chain sample_srv (sh_calls sample_search) f None ids
     \<and> sh_events sample_search = take 1000 (concat (map (page \<circ> sample_srv) ids)))"
proof -
  have "run_events search_enabled (search_do sample_srv) sample_searches search_start \<noteq> None" by code_simp
  then have "search_reach sample_srv sample_search"
    unfolding sample_search_def by (intro run_events_reachable [where es = sample_searches]) simp
  moreover have "sh_status sample_search = SearchSuccess" "length (sh_events sample_search) = 3" by code_simp+
  ultimately show ?thesis using search_shows_latest_pages [of sample_srv sample_search] by blast
qed

text \<open>
  The query string carries exactly the filters. Each of \<open>q\<close>, \<open>service\<close>, \<open>level\<close>, \<open>from\<close> and \<open>to\<close>
  appears at most once, with the trimmed or normalised value, and only when that is not empty;
  \<open>label\<close> is repeated with the trimmed labels in their order; \<open>limit\<close> and \<open>cursor\<close> are passed as
  they are; and no other name, a tenant id in particular, is ever sent.
\<close>

theorem search_params_exact:
  "let p = buildSearchParams rfc f cursor limit; one = (\<lambda>v. if v \<noteq> [] then [v] else []) in
     params_getAll ''q'' p = one (trim (srf_text f))
     \<and> params_getAll ''service'' p = one (trim (srf_service f))
     \<and> params_getAll ''level'' p = one (srf_level f)
     \<and> params_getAll ''from'' p = one (toRfc3339 rfc (srf_from f))
     \<and> params_getAll ''to'' p = one (toRfc3339 rfc (srf_to f))
     \<and> params_getAll ''label'' p = filter (\<lambda>l. l \<noteq> []) (map trim (srf_labels f))
     \<and> params_getAll ''limit'' p = (case limit of None \<Rightarrow> [] | Some n \<Rightarrow> [int_digits n])
     \<and> params_getAll ''cursor'' p = (case cursor of None \<Rightarrow> [] | Some c \<Rightarrow> one c)
     \<and> fst ` set p \<subseteq> {''q'', ''service'', ''level'', ''from'', ''to'', ''label'', ''limit'', ''cursor''}"
proof -
  let ?l = "map (Pair ''label'') (filter (\<lambda>l. l \<noteq> []) (map trim (srf_labels f)))"
  have p: "buildSearchParams rfc f cursor limit =
    opt_pair ''q'' (trim (srf_text f)) @ opt_pair ''service'' (trim (srf_service f)) @ opt_pair ''level'' (srf_level f)
    @ opt_pair ''from'' (toRfc3339 rfc (srf_from f)) @ opt_pair ''to'' (toRfc3339 rfc (srf_to f)) @ ?l
    @ (case limit of None \<Rightarrow> [] | Some n \<Rightarrow> [(''limit'', int_digits n)])
    @ (case cursor of None \<Rightarrow> [] | Some c \<Rightarrow> opt_pair ''cursor'' c)"
    by (rule buildSearchParams_eq)
  have g: "params_getAll k (opt_pair k' v) = (if k = k' \<and> v \<noteq> [] then [v] else [])" for k k' v
    by (simp add: params_getAll_def opt_pair_def)
  have l: "params_getAll k (map (Pair k') vs) = (if k = k' then vs else [])" for k k' vs
    by (induction vs) (auto simp: params_getAll_def)
  have a: "params_getAll k (ps @ qs) = params_getAll k ps @ params_getAll k qs" for k ps qs
    by (simp add: params_getAll_def)
  have n: "params_getAll k [] = []" "params_getAll k [(k', v)] = (if k = k' then [v] else [])" for k k' v
    by (simp_all add: params_getAll_def)
  show ?thesis
    unfolding p Let_def
    by (intro conjI) (simp_all add: a g l n split: option.split, auto simp: opt_pair_def)
qed

end
