(* ===== verification/Panels.thy ===== *)
theory Panels
  imports Log_Search Schema
begin

text \<open>
  Dashboard panels of the web front end: the panel-data contract and the densifying of sparse
  series (\<^verbatim>\<open>features/dashboards/panel-data.ts\<close>), the relay (\<^verbatim>\<open>server/panel-data.ts\<close>), the
  per-panel hook (\<^verbatim>\<open>use-panel-data.ts\<close>), the edits of a layout (\<^verbatim>\<open>types.ts\<close>,
  \<^verbatim>\<open>panel-dialog.tsx\<close>, \<^verbatim>\<open>dashboard-detail.tsx\<close>), the time-range picker
  (\<^verbatim>\<open>time-range-picker.tsx\<close>) and the geometry of the chart (\<^verbatim>\<open>timeseries-chart.tsx\<close>).

  \<open>date_parse\<close> stands for \<open>Date.parse\<close> (\<open>None\<close> for an invalid date) and \<open>to_iso\<close> for
  \<open>new Date(ms).toISOString()\<close>; both depend on the engine and the viewer's zone. Times and widths are
  rationals; \<open>fl\<close> stands for the rounding of an arithmetic result to a double, applied at every
  operation of the densifier. Counts are whole numbers and added exactly. The picker and the chart
  compute with exact rationals.
\<close>

section \<open>Contract\<close>

record PanelBucket =
  pb_bucketStart :: string
  pb_count :: int

record PanelDataResult =
  pd_totalCount :: int
  pd_buckets :: "PanelBucket list"
  pd_recentLogs :: "TailLogEvent list"

definition z_nonneg :: "int schema" where
  "z_nonneg = z_refine (\<lambda>n. 0 \<le> n) z_int"

definition panelDataResponseSchema :: "PanelDataResult schema" where
  "panelDataResponseSchema = z_object (\<lambda>p. do {
     totalCount \<leftarrow> z_nonneg (p ''totalCount'');
     buckets \<leftarrow> z_array (z_object (\<lambda>b. do {
         start \<leftarrow> z_string (b ''bucketStart'');
         n \<leftarrow> z_nonneg (b ''count'');
         Some \<lparr> pb_bucketStart = start, pb_count = n \<rparr> })) (p ''buckets'');
     recentLogs \<leftarrow> z_array tailLogEventSchema (p ''recentLogs'');
     Some \<lparr> pd_totalCount = totalCount, pd_buckets = buckets, pd_recentLogs = recentLogs \<rparr> })"

definition MAX_PANEL_BUCKETS :: int where "MAX_PANEL_BUCKETS = 100"

text \<open>\<open>Math.round\<close> rounds halves up. The argument is a finite number.\<close>

definition clampBuckets :: "rat \<Rightarrow> int" where
  "clampBuckets n = (if n \<le> 0 then 1 else min MAX_PANEL_BUCKETS \<lfloor>n + 1 / 2\<rfloor>)"

record PanelDataParamsInput =
  pi_savedQueryId :: string
  pi_from :: "string option"
  pi_to :: "string option"
  pi_buckets :: "rat option"

definition set_time :: "(string \<Rightarrow> string option) \<Rightarrow> string \<Rightarrow> string option \<Rightarrow> params \<Rightarrow> params" where
  "set_time rfc k v ps =
     (case v of None \<Rightarrow> ps | Some raw \<Rightarrow> let t = toRfc3339 rfc raw in set_if (t \<noteq> []) k t ps)"

definition buildPanelDataParams :: "(string \<Rightarrow> string option) \<Rightarrow> PanelDataParamsInput \<Rightarrow> params" where
  "buildPanelDataParams rfc input =
     (let p1 = params_set ''savedQueryId'' (pi_savedQueryId input) [];
          p2 = set_time rfc ''from'' (pi_from input) p1;
          p3 = set_time rfc ''to'' (pi_to input) p2
      in case pi_buckets input of
           None \<Rightarrow> p3
         | Some n \<Rightarrow> params_set ''buckets'' (int_digits (clampBuckets n)) p3)"

section \<open>Densifying\<close>

text \<open>The inner loop: the cursor moves over the sorted points while they start before the slot ends.\<close>

fun fill_slot :: "rat \<Rightarrow> rat \<Rightarrow> (rat \<times> int) list \<Rightarrow> int \<Rightarrow> int \<times> (rat \<times> int) list" where
  "fill_slot slotStart slotEnd [] count = (count, [])"
| "fill_slot slotStart slotEnd ((ms, c) # rest) count =
     (if ms < slotEnd then fill_slot slotStart slotEnd rest (if slotStart \<le> ms then count + c else count)
      else (count, (ms, c) # rest))"

text \<open>The outer loop, with the number of slots that are left.\<close>

fun fill_slots :: "(rat \<Rightarrow> rat) \<Rightarrow> rat \<Rightarrow> rat \<Rightarrow> nat \<Rightarrow> nat \<Rightarrow> (rat \<times> int) list \<Rightarrow> (rat \<times> int) list" where
  "fill_slots fl fromMs width i 0 rest = []"
| "fill_slots fl fromMs width i (Suc k) rest =
     (let slotStart = fl (fromMs + fl (of_nat i * width));
          slotEnd = fl (slotStart + width);
          (count, rest') = fill_slot slotStart slotEnd rest 0
      in (slotStart, count) # fill_slots fl fromMs width (Suc i) k rest')"

definition parsed_points :: "(string \<Rightarrow> rat option) \<Rightarrow> PanelBucket list \<Rightarrow> (rat \<times> int) list" where
  "parsed_points date_parse buckets =
     List.map_filter (\<lambda>b. map_option (\<lambda>ms. (ms, pb_count b)) (date_parse (pb_bucketStart b))) buckets"

definition gapFillBuckets ::
  "(rat \<Rightarrow> rat) \<Rightarrow> (string \<Rightarrow> rat option) \<Rightarrow> (rat \<Rightarrow> string) \<Rightarrow> PanelBucket list \<Rightarrow> string \<Rightarrow> string \<Rightarrow> int \<Rightarrow> PanelBucket list" where
  "gapFillBuckets fl date_parse to_iso buckets from to n =
     (if n \<le> 0 then []
      else case (date_parse from, date_parse to) of
        (Some fromMs, Some toMs) \<Rightarrow>
          if toMs \<le> fromMs then []
          else let width = fl (fl (toMs - fromMs) / of_int n);
                   sorted = sort_key fst (parsed_points date_parse buckets)
               in map (\<lambda>(slotStart, count). \<lparr> pb_bucketStart = to_iso slotStart, pb_count = count \<rparr>)
                    (fill_slots fl fromMs width 0 (nat n) sorted)
      | _ \<Rightarrow> [])"

section \<open>The relay\<close>

datatype PanelUpstream = PanelOk PanelDataResult | PanelError int string

definition panel_unavailable :: string where
  "panel_unavailable = ''Panel data is temporarily unavailable.''"

definition panelDataUpstream ::
  "(string \<Rightarrow> string option) \<Rightarrow> (http_request \<Rightarrow> http_result) \<Rightarrow> string option \<Rightarrow> PanelDataParamsInput \<Rightarrow> PanelUpstream" where
  "panelDataUpstream rfc fetch token input =
     (case token of
        None \<Rightarrow> PanelError 401 ''Your session has ended.''
      | Some tok \<Rightarrow>
          if tok = [] then PanelError 401 ''Your session has ended.''
          else
            (case fetch (bearer_get ''/v1/panel-data'' (buildPanelDataParams rfc input) tok) of
               FetchRejected \<Rightarrow> PanelError 502 panel_unavailable
             | FetchResponse status statusText text \<Rightarrow>
                 let body = read_body text
                 in if body = BadBody then PanelError (if status_ok status then 502 else status) panel_unavailable
                    else if \<not> status_ok status then
                      (if status = 400
                       then PanelError 400
                              (case body_field body ''message'' of
                                 Some m \<Rightarrow> if trim m \<noteq> [] then m else ''This panel query is invalid.''
                               | None \<Rightarrow> ''This panel query is invalid.'')
                       else if status = 401 then PanelError 401 ''Your session has ended.''
                       else if status = 404 then PanelError 404 ''panel query not found''
                       else PanelError status panel_unavailable)
                    else (case panelDataResponseSchema (body_value body) of
                            Some data \<Rightarrow> PanelOk data
                          | None \<Rightarrow> PanelError 502 panel_unavailable)))"

datatype PanelDataOutcome = PanelLoaded PanelDataResult | PanelFailed string | PanelRedirect

definition loadPanelDataFn ::
  "(string \<Rightarrow> string option) \<Rightarrow> (http_request \<Rightarrow> http_result) \<Rightarrow> string option \<Rightarrow> PanelDataParamsInput \<Rightarrow> PanelDataOutcome" where
  "loadPanelDataFn rfc fetch cookie input =
     (if cookie = None \<or> cookie = Some [] then PanelRedirect
      else case panelDataUpstream rfc fetch cookie input of
        PanelOk data \<Rightarrow> PanelLoaded data
      | PanelError status message \<Rightarrow> if status = 401 then PanelRedirect else PanelFailed message)"

section \<open>The hook\<close>

text \<open>
  The effect is keyed by the saved query, the range and the bucket count. A new key cancels the
  request of the old one; request \<open>i\<close> settles as \<open>srv i\<close> says.
\<close>

datatype PanelDataState = PanelLoading | PanelDefault | PanelErrored

type_synonym panel_key = "string \<times> string \<times> string \<times> int"

definition DEFAULT_BUCKETS :: int where "DEFAULT_BUCKETS = 30"

record panel_hook =
  ph_state :: PanelDataState
  ph_series :: "PanelBucket list"
  ph_totalCount :: int
  ph_errorMessage :: "string option"
  ph_key :: panel_key
  ph_current :: nat
  ph_next :: nat
  ph_outstanding :: "nat list"

definition panel_effect :: "panel_key \<Rightarrow> panel_hook \<Rightarrow> panel_hook" where
  "panel_effect key h =
     h\<lparr>ph_key := key, ph_state := PanelLoading, ph_errorMessage := None, ph_current := ph_next h,
       ph_outstanding := ph_outstanding h @ [ph_next h], ph_next := Suc (ph_next h)\<rparr>"

definition panel_start :: "panel_key \<Rightarrow> panel_hook" where
  "panel_start key =
     panel_effect key
       \<lparr> ph_state = PanelLoading, ph_series = [], ph_totalCount = 0, ph_errorMessage = None, ph_key = key,
         ph_current = 0, ph_next = 0, ph_outstanding = [] \<rparr>"

definition panel_settle ::
  "(rat \<Rightarrow> rat) \<Rightarrow> (string \<Rightarrow> rat option) \<Rightarrow> (rat \<Rightarrow> string) \<Rightarrow> PanelDataOutcome \<Rightarrow> nat \<Rightarrow> panel_hook \<Rightarrow> panel_hook" where
  "panel_settle fl date_parse to_iso outcome i h =
     (let h1 = h\<lparr>ph_outstanding := removeAll i (ph_outstanding h)\<rparr>
      in if i \<noteq> ph_current h then h1
         else case outcome of
           PanelRedirect \<Rightarrow> h1
         | PanelFailed message \<Rightarrow> h1\<lparr>ph_state := PanelErrored, ph_errorMessage := Some message\<rparr>
         | PanelLoaded data \<Rightarrow>
             (case ph_key h of
                (savedQueryId, from, to, buckets) \<Rightarrow>
                  h1\<lparr>ph_series := gapFillBuckets fl date_parse to_iso (pd_buckets data) from to buckets,
                     ph_totalCount := pd_totalCount data, ph_state := PanelDefault\<rparr>))"

datatype panel_event = SetKey panel_key | PanelSettle nat

fun panel_enabled :: "panel_event \<Rightarrow> panel_hook \<Rightarrow> bool" where
  "panel_enabled (SetKey k) h = (k \<noteq> ph_key h)"
| "panel_enabled (PanelSettle i) h = (i \<in> set (ph_outstanding h))"

fun panel_do ::
  "(rat \<Rightarrow> rat) \<Rightarrow> (string \<Rightarrow> rat option) \<Rightarrow> (rat \<Rightarrow> string) \<Rightarrow> (nat \<Rightarrow> PanelDataOutcome) \<Rightarrow> panel_event \<Rightarrow> panel_hook \<Rightarrow> panel_hook" where
  "panel_do fl date_parse to_iso srv (SetKey k) h = panel_effect k h"
| "panel_do fl date_parse to_iso srv (PanelSettle i) h = panel_settle fl date_parse to_iso (srv i) i h"

section \<open>Layouts\<close>

definition defaultGrid :: "int \<times> int \<times> int \<times> int" where
  "defaultGrid = (0, 0, 4, 2)"

fun findIndex :: "('a \<Rightarrow> bool) \<Rightarrow> 'a list \<Rightarrow> nat option" where
  "findIndex p [] = None"
| "findIndex p (x # xs) = (if p x then Some 0 else map_option Suc (findIndex p xs))"

definition upsertPanel :: "Panel list \<Rightarrow> Panel \<Rightarrow> Panel list" where
  "upsertPanel panels panel =
     (case findIndex (\<lambda>p. pn_id p = pn_id panel) panels of
        None \<Rightarrow> panels @ [panel]
      | Some index \<Rightarrow> map (\<lambda>(i, p). if i = index then panel else p) (zip [0..<length panels] panels))"

definition removePanelById :: "Panel list \<Rightarrow> string \<Rightarrow> Panel list" where
  "removePanelById panels i = filter (\<lambda>p. pn_id p \<noteq> i) panels"

text \<open>What submitting the dialog sends: a message for the user, or the panels of the patch.\<close>

definition panel_submit ::
  "Panel list \<Rightarrow> Panel option \<Rightarrow> string \<Rightarrow> string \<Rightarrow> panel_type \<Rightarrow> string \<Rightarrow> string + Panel list" where
  "panel_submit panels editing newPanelId rawTitle type savedQueryId =
     (let title = trim rawTitle
      in if title = [] then Inl ''Title is required.''
         else if savedQueryId = [] then Inl ''A saved query is required.''
         else let panel =
                \<lparr> pn_id = (case editing of Some e \<Rightarrow> pn_id e | None \<Rightarrow> newPanelId),
                  pn_type = type, pn_title = title, pn_savedQueryId = savedQueryId,
                  pn_viz = (case editing of Some e \<Rightarrow> pn_viz e | None \<Rightarrow> []),
                  pn_grid = (case editing of Some e \<Rightarrow> pn_grid e | None \<Rightarrow> defaultGrid) \<rparr>
              in Inr (upsertPanel panels panel))"

section \<open>Time ranges\<close>

record TimeRange =
  tr_from :: string
  tr_to :: string

definition TIME_RANGE_PRESETS :: "(string \<times> rat) list" where
  "TIME_RANGE_PRESETS =
     [(''5m'', 5 * 60 * 1000), (''15m'', 15 * 60 * 1000), (''1h'', 60 * 60 * 1000), (''24h'', 24 * 60 * 60 * 1000),
      (''7d'', 7 * 24 * 60 * 60 * 1000), (''30d'', 30 * 24 * 60 * 60 * 1000)]"

definition HOT_WINDOW_MS :: rat where "HOT_WINDOW_MS = 30 * 24 * 60 * 60 * 1000"

definition isColdRange :: "(string \<Rightarrow> rat option) \<Rightarrow> string \<Rightarrow> rat \<Rightarrow> bool" where
  "isColdRange date_parse from now =
     (case date_parse from of None \<Rightarrow> False | Some fromMs \<Rightarrow> fromMs < now - HOT_WINDOW_MS)"

definition activePresetFor :: "(string \<Rightarrow> rat option) \<Rightarrow> TimeRange \<Rightarrow> rat \<Rightarrow> (string \<times> rat) option" where
  "activePresetFor date_parse value now =
     (case (date_parse (tr_from value), date_parse (tr_to value)) of
        (Some fromMs, Some toMs) \<Rightarrow>
          if \<bar>now - toMs\<bar> > 60000 then None
          else find (\<lambda>(label, ms). \<bar>ms - (toMs - fromMs)\<bar> < 1000) TIME_RANGE_PRESETS
      | _ \<Rightarrow> None)"

definition applyPreset :: "(rat \<Rightarrow> string) \<Rightarrow> rat \<Rightarrow> string \<times> rat \<Rightarrow> TimeRange" where
  "applyPreset to_iso now preset = \<lparr> tr_from = to_iso (now - snd preset), tr_to = to_iso now \<rparr>"

definition applyAbsolute ::
  "(string \<Rightarrow> rat option) \<Rightarrow> (string \<Rightarrow> string option) \<Rightarrow> string \<Rightarrow> string \<Rightarrow> string + TimeRange" where
  "applyAbsolute date_parse rfc fromDraft toDraft =
     (let from = toRfc3339 rfc fromDraft; to = toRfc3339 rfc toDraft
      in case (date_parse from, date_parse to) of
           (Some fromMs, Some toMs) \<Rightarrow>
             if from = [] \<or> to = [] then Inl ''Enter a valid from and to time.''
             else if toMs \<le> fromMs then Inl ''\"From\" must be before \"to\".''
             else Inr \<lparr> tr_from = from, tr_to = to \<rparr>
         | _ \<Rightarrow> Inl ''Enter a valid from and to time.'')"

definition DEFAULT_RANGE_MS :: rat where "DEFAULT_RANGE_MS = 60 * 60 * 1000"

definition computeDefaultRange :: "(rat \<Rightarrow> string) \<Rightarrow> rat \<Rightarrow> TimeRange" where
  "computeDefaultRange to_iso now = \<lparr> tr_from = to_iso (now - DEFAULT_RANGE_MS), tr_to = to_iso now \<rparr>"

text \<open>The range of the page: the one in the URL when both ends are there, the default otherwise.\<close>

definition shown_range :: "TimeRange \<Rightarrow> TimeRange \<Rightarrow> TimeRange" where
  "shown_range urlRange defaultRange =
     (if tr_from urlRange \<noteq> [] \<and> tr_to urlRange \<noteq> [] then urlRange else defaultRange)"

section \<open>The chart\<close>

definition VIEWBOX_HEIGHT :: rat where "VIEWBOX_HEIGHT = 100"
definition BAR_GAP :: rat where "BAR_GAP = 2"

definition barFill :: "int \<Rightarrow> int option \<Rightarrow> int option \<Rightarrow> string" where
  "barFill count warnThreshold errorThreshold =
     (if (case errorThreshold of Some e \<Rightarrow> e \<le> count | None \<Rightarrow> False) then ''var(--color-severity-error-fg)''
      else if (case warnThreshold of Some w \<Rightarrow> w \<le> count | None \<Rightarrow> False) then ''var(--color-severity-warn-fg)''
      else ''var(--color-brand-solid)'')"

record bar =
  bar_x :: rat
  bar_y :: rat
  bar_width :: rat
  bar_height :: rat

definition chart_bars :: "PanelBucket list \<Rightarrow> bar list" where
  "chart_bars series =
     (let m = foldl max 1 (map pb_count series); barWidth = 100 / of_nat (length series)
      in map (\<lambda>(i, b). let barHeight = (of_int (pb_count b) / of_int m) * VIEWBOX_HEIGHT
                       in \<lparr> bar_x = of_nat i * barWidth + BAR_GAP / 2, bar_y = VIEWBOX_HEIGHT - barHeight,
                            bar_width = max 0 (barWidth - BAR_GAP), bar_height = barHeight \<rparr>)
           (zip [0..<length series] series))"

end
