(* ===== verification/Panel_Laws.thy ===== *)
theory Panel_Laws
  imports Panels "HOL-Library.Multiset"
begin

text \<open>
  The densified series of a panel agrees with its definition by slots, a panel shows the answer to
  its current query, and the edits of a layout touch one panel.
\<close>

section \<open>Densifying\<close>

definition slot_count :: "(rat \<times> int) list \<Rightarrow> rat \<Rightarrow> rat \<Rightarrow> int" where
  "slot_count points lo hi = sum_list (map snd (filter (\<lambda>p. lo \<le> fst p \<and> fst p < hi) points))"

lemma slot_count_Nil [simp]: "slot_count [] lo hi = 0"
  by (simp add: slot_count_def)

lemma slot_count_Cons:
  "slot_count (p # ps) lo hi = (if lo \<le> fst p \<and> fst p < hi then snd p else 0) + slot_count ps lo hi"
  by (simp add: slot_count_def)

lemma slot_count_above: "\<forall>p \<in> set ps. hi \<le> fst p \<Longrightarrow> slot_count ps lo hi = 0"
  by (induction ps) (auto simp: slot_count_Cons)

lemma fill_slot_eq:
  assumes "sorted (map fst ps)"
  shows "fill_slot lo hi ps c = (c + slot_count ps lo hi, filter (\<lambda>p. hi \<le> fst p) ps)"
  using assms
proof (induction lo hi ps c rule: fill_slot.induct)
  case (2 lo hi ms n rest c)
  then show ?case
  proof (cases "ms < hi")
    case False
    with 2(2) have "\<forall>p \<in> set ((ms, n) # rest). hi \<le> fst p" by auto
    moreover from this have "filter (\<lambda>p. hi \<le> fst p) ((ms, n) # rest) = (ms, n) # rest"
      by (simp only: filter_True)
    ultimately show ?thesis using False slot_count_above [of "(ms, n) # rest" hi lo] by simp
  qed (auto simp: slot_count_Cons)
qed simp

lemma slot_count_filter: "slot_count (filter (\<lambda>p. hi \<le> fst p) ps) lo up = slot_count ps (max lo hi) up"
  by (induction ps) (auto simp: slot_count_Cons)

text \<open>
  The bounds of slot \<open>j\<close> as the code computes them, each operation rounded by \<open>fl\<close>. A slot takes
  the points from its start, or from the end of the slot before it where that is later: rounding
  may let two slots overlap, and then the cursor has already passed the common points.
\<close>

definition slot_start :: "(rat \<Rightarrow> rat) \<Rightarrow> rat \<Rightarrow> rat \<Rightarrow> nat \<Rightarrow> rat" where
  "slot_start fl f width j = fl (f + fl (of_nat j * width))"

definition slot_end :: "(rat \<Rightarrow> rat) \<Rightarrow> rat \<Rightarrow> rat \<Rightarrow> nat \<Rightarrow> rat" where
  "slot_end fl f width j = fl (slot_start fl f width j + width)"

definition slot_low :: "(rat \<Rightarrow> rat) \<Rightarrow> rat \<Rightarrow> rat \<Rightarrow> nat \<Rightarrow> rat" where
  "slot_low fl f width j =
     (if j = 0 then slot_start fl f width 0 else max (slot_start fl f width j) (slot_end fl f width (j - 1)))"

lemma slot_start_mono:
  assumes "mono fl" "0 \<le> width" "i \<le> j"
  shows "slot_start fl f width i \<le> slot_start fl f width j"
proof -
  have "of_nat i * width \<le> of_nat j * width" using assms by (simp add: mult_right_mono)
  then have "f + fl (of_nat i * width) \<le> f + fl (of_nat j * width)" using monoD [OF assms(1)] by simp
  then show ?thesis unfolding slot_start_def by (rule monoD [OF assms(1)])
qed

lemma slot_end_mono:
  assumes "mono fl" "0 \<le> width" "i \<le> j"
  shows "slot_end fl f width i \<le> slot_end fl f width j"
  unfolding slot_end_def using slot_start_mono [OF assms] by (intro monoD [OF assms(1)]) simp

text \<open>The single pass over the sorted points counts every slot.\<close>

lemma fill_slots_from:
  assumes "mono fl" "0 \<le> width" "sorted (map fst ps)"
  shows "fill_slots fl f width i k ps =
    map (\<lambda>j. (slot_start fl f width j,
        slot_count ps (if j = i then slot_start fl f width j else slot_low fl f width j) (slot_end fl f width j))) [i..<i + k]"
  using assms(3)
proof (induction k arbitrary: i ps)
  case (Suc k)
  let ?s = "slot_start fl f width" and ?e = "slot_end fl f width" and ?l = "slot_low fl f width"
  let ?rest = "filter (\<lambda>p. ?e i \<le> fst p) ps"
  have later: "slot_count ?rest (if j = Suc i then ?s j else ?l j) (?e j)
      = slot_count ps (if j = i then ?s j else ?l j) (?e j)" if "Suc i \<le> j" for j
  proof (cases "j = Suc i")
    case False
    with that have "?e i \<le> ?e (j - 1)" by (intro slot_end_mono [OF assms(1,2)]) simp
    with that have "max (?l j) (?e i) = ?l j" by (auto simp: slot_low_def)
    with False that show ?thesis by (simp add: slot_count_filter)
  qed (simp add: slot_count_filter slot_low_def)
  have "fill_slots fl f width i (Suc k) ps = (?s i, slot_count ps (?s i) (?e i)) # fill_slots fl f width (Suc i) k ?rest"
    by (simp add: Let_def fill_slot_eq [OF Suc.prems] slot_start_def slot_end_def)
  also have "fill_slots fl f width (Suc i) k ?rest =
      map (\<lambda>j. (?s j, slot_count ?rest (if j = Suc i then ?s j else ?l j) (?e j))) [Suc i..<Suc i + k]"
    using Suc.prems by (intro Suc.IH) (auto intro: sorted_filter)
  also have "\<dots> = map (\<lambda>j. (?s j, slot_count ps (if j = i then ?s j else ?l j) (?e j))) [Suc i..<Suc i + k]"
  proof (rule map_cong [OF refl])
    fix j
    assume "j \<in> set [Suc i..<Suc i + k]"
    then have "Suc i \<le> j" by (auto split: if_splits)
    from later [OF this] show "(?s j, slot_count ?rest (if j = Suc i then ?s j else ?l j) (?e j)) =
        (?s j, slot_count ps (if j = i then ?s j else ?l j) (?e j))" by (simp only:)
  qed
  finally show ?case using upt_conv_Cons [of i "i + Suc k"] by simp
qed simp

lemma fill_slots_eq:
  assumes "mono fl" "0 \<le> width" "sorted (map fst ps)"
  shows "fill_slots fl f width 0 k ps =
    map (\<lambda>j. (slot_start fl f width j, slot_count ps (slot_low fl f width j) (slot_end fl f width j))) [0..<k]"
proof -
  have "(if j = 0 then slot_start fl f width j else slot_low fl f width j) = slot_low fl f width j" for j
    by (simp add: slot_low_def)
  then show ?thesis using fill_slots_from [OF assms, of f 0 k] by simp
qed

lemma slot_count_sort: "slot_count (sort_key fst ps) lo hi = slot_count ps lo hi"
proof -
  let ?P = "\<lambda>p. lo \<le> fst p \<and> fst p < hi"
  have "sum_mset (mset (map snd (filter ?P (sort_key fst ps)))) = sum_mset (mset (map snd (filter ?P ps)))"
    by (simp only: mset_map mset_filter mset_sort)
  then show ?thesis by (simp only: slot_count_def sum_mset_sum_list)
qed

text \<open>Adjacent slots make up one interval.\<close>

lemma slot_count_split:
  "a \<le> b \<Longrightarrow> b \<le> c \<Longrightarrow> slot_count ps a c = slot_count ps a b + slot_count ps b c"
  by (induction ps) (auto simp: slot_count_Cons)

text \<open>Slots that abut make up the range from the first start to the last end.\<close>

abbreviation slots_abut :: "(rat \<Rightarrow> rat) \<Rightarrow> rat \<Rightarrow> rat \<Rightarrow> nat \<Rightarrow> bool" where
  "slots_abut fl f width k \<equiv> (\<forall>j < k. slot_end fl f width j = slot_start fl f width (Suc j))"

lemma slot_count_sum:
  assumes "mono fl" "0 \<le> width" "slots_abut fl f width k"
  shows "sum_list (map (\<lambda>j. slot_count ps (slot_low fl f width j) (slot_end fl f width j)) [0..<Suc k])
    = slot_count ps (slot_start fl f width 0) (slot_end fl f width k)"
  using assms(3)
proof (induction k)
  case (Suc k)
  let ?s = "slot_start fl f width" and ?e = "slot_end fl f width"
  have e: "?e k = ?s (Suc k)" using Suc.prems by simp
  then have "slot_low fl f width (Suc k) = ?e k" by (simp add: slot_low_def)
  moreover have "?s 0 \<le> ?e k" unfolding e by (rule slot_start_mono [OF assms(1,2)]) simp
  moreover have "?e k \<le> ?e (Suc k)" by (rule slot_end_mono [OF assms(1,2)]) simp
  ultimately show ?case using Suc slot_count_split [of "?s 0" "?e k" "?e (Suc k)" ps] by simp
qed (simp add: slot_low_def)

lemma slot_width_nonneg:
  fixes fl :: "rat \<Rightarrow> rat"
  assumes "mono fl" "fl 0 = 0" "f < t" "0 < (n :: int)"
  shows "0 \<le> fl (fl (t - f) / of_int n)"
proof -
  have pos: "0 \<le> fl x" if "0 \<le> x" for x using monoD [OF assms(1) that] assms(2) by simp
  have "0 \<le> fl (t - f)" using assms(3) by (intro pos) simp
  then show ?thesis using assms(4) by (intro pos) (simp add: zero_le_divide_iff)
qed

text \<open>
  C30. The linear-time densifier agrees with its definition. Let the rounding of a double operation
  be monotone and exact at zero. For a valid range and a positive number of slots, the series has
  one bucket per slot, labelled with the start the code computes for it, and each carries the sum
  of the counts of exactly those points that start in its slot, whatever the order of the input; a
  point that two slots share through rounding counts for the first only. If the slots abut, as they
  do when no operation rounds, the counts of the series add up to the counts of the points from the
  first start to the last end. Points outside the slots are ignored. With an invalid range or
  number the series is empty.
\<close>

theorem gap_fill_exact:
  assumes "mono fl" "fl 0 = 0"
  shows "(case (date_parse from, date_parse to) of
      (Some f, Some t) \<Rightarrow>
        if 0 < n \<and> f < t
        then let w = fl (fl (t - f) / of_int n); points = parsed_points date_parse buckets;
                 series = gapFillBuckets fl date_parse to_iso buckets from to n
             in map pb_bucketStart series = map (\<lambda>j. to_iso (slot_start fl f w j)) [0..<nat n]
                \<and> map pb_count series = map (\<lambda>j. slot_count points (slot_low fl f w j) (slot_end fl f w j)) [0..<nat n]
                \<and> (slots_abut fl f w (nat n - 1) \<longrightarrow>
                     sum_list (map pb_count series) = slot_count points (slot_start fl f w 0) (slot_end fl f w (nat n - 1)))
        else gapFillBuckets fl date_parse to_iso buckets from to n = []
    | _ \<Rightarrow> gapFillBuckets fl date_parse to_iso buckets from to n = [])"
proof (cases "\<exists>f t. date_parse from = Some f \<and> date_parse to = Some t \<and> 0 < n \<and> f < t")
  case True
  then obtain f t where ft: "date_parse from = Some f" "date_parse to = Some t" "0 < n" "f < t" by blast
  let ?w = "fl (fl (t - f) / of_int n)" and ?ps = "parsed_points date_parse buckets"
  note w = slot_width_nonneg [OF assms ft(4,3)]
  have series: "gapFillBuckets fl date_parse to_iso buckets from to n =
      map (\<lambda>j. \<lparr> pb_bucketStart = to_iso (slot_start fl f ?w j),
                 pb_count = slot_count ?ps (slot_low fl f ?w j) (slot_end fl f ?w j) \<rparr>) [0..<nat n]"
    using ft fill_slots_eq [OF assms(1) w, of "sort_key fst ?ps" f "nat n"]
    by (simp add: gapFillBuckets_def Let_def slot_count_sort comp_def)
  have "Suc (nat n - 1) = nat n" using ft(3) by simp
  then show ?thesis
    using ft slot_count_sum [OF assms(1) w, where f = f and k = "nat n - 1" and ps = ?ps]
    by (simp add: series Let_def comp_def del: upt_Suc)
next
  case False
  then show ?thesis by (auto simp: gapFillBuckets_def split: option.split)
qed

text \<open>
  Without rounding the slots divide the range evenly.
\<close>

lemma exact_slots:
  assumes "f < t" "0 < (n :: int)"
  shows "slots_abut (\<lambda>x. x) f ((t - f) / of_int n) k"
    and "slot_start (\<lambda>x. x) f ((t - f) / of_int n) 0 = f"
    and "slot_end (\<lambda>x. x) f ((t - f) / of_int n) (nat n - 1) = t"
proof -
  have "slots_abut (\<lambda>x. x) f width k" for width by (simp add: slot_end_def slot_start_def algebra_simps)
  then show "slots_abut (\<lambda>x. x) f ((t - f) / of_int n) k" .
  show "slot_start (\<lambda>x. x) f ((t - f) / of_int n) 0 = f" by (simp add: slot_start_def)
  have n: "rat_of_nat (nat n - 1) = of_int n - 1" using assms(2) by (simp add: of_nat_diff)
  show "slot_end (\<lambda>x. x) f ((t - f) / of_int n) (nat n - 1) = t"
    using assms(2) by (simp add: slot_end_def slot_start_def n field_simps)
qed

text \<open>
  Rounding down to eighths divides ten milliseconds into three slots of 3.25. A second instance, of
  the exact rounding, adds up to the points of the whole range.
\<close>

definition eighths :: "rat \<Rightarrow> rat" where
  "eighths x = of_int \<lfloor>8 * x\<rfloor> / 8"

definition sample_parse :: "string \<Rightarrow> rat option" where
  "sample_parse s = (if s = [] then None else Some (rat_of_nat (length s) - 1))"

definition sample_point :: "nat \<Rightarrow> int \<Rightarrow> PanelBucket" where
  "sample_point ms c = \<lparr> pb_bucketStart = replicate (Suc ms) CHR ''x'', pb_count = c \<rparr>"

lemma sample_slots:
  "eighths (eighths 10 / 3) = 13 / 4"
  "slot_start eighths 0 (13 / 4) 0 = 0" "slot_start eighths 0 (13 / 4) 1 = 13 / 4" "slot_start eighths 0 (13 / 4) 2 = 13 / 2"
  "slot_end eighths 0 (13 / 4) 0 = 13 / 4" "slot_end eighths 0 (13 / 4) 1 = 13 / 2" "slot_end eighths 0 (13 / 4) 2 = 39 / 4"
  by (simp_all add: eighths_def slot_start_def slot_end_def floor_eq_iff)

theorem gap_fill_exact_witness:
  "map pb_count (gapFillBuckets eighths sample_parse (\<lambda>ms. []) [sample_point 9 4, sample_point 3 2, sample_point 12 5]
      ''x'' (replicate 11 CHR ''x'') 3) = [2, 0, 4]
   \<and> sum_list (map pb_count (gapFillBuckets (\<lambda>x. x) sample_parse (\<lambda>ms. [])
        [sample_point 9 4, sample_point 3 2, sample_point 12 5] ''x'' (replicate 11 CHR ''x'') 3)) = 6"
proof -
  let ?b = "[sample_point 9 4, sample_point 3 2, sample_point 12 5]" and ?to = "replicate 11 CHR ''x''"
  let ?points = "parsed_points sample_parse ?b"
  have p: "sample_parse ''x'' = Some 0" "sample_parse ?to = Some 10" by (simp_all add: sample_parse_def)
  have points: "?points = [(9, 4), (3, 2), (12, 5)]"
    by (simp add: parsed_points_def map_filter_simps sample_parse_def sample_point_def)
  have "mono eighths"
    by (intro monoI) (simp add: eighths_def divide_right_mono floor_mono)
  moreover have "eighths 0 = 0" by (simp add: eighths_def)
  moreover have "map (\<lambda>j. slot_count ?points (slot_low eighths 0 (13 / 4) j) (slot_end eighths 0 (13 / 4) j)) [0, 1, 2]
      = [2, 0, 4]"
    unfolding points by (simp add: slot_low_def sample_slots sample_slots [unfolded One_nat_def] slot_count_def)
  ultimately have "map pb_count (gapFillBuckets eighths sample_parse (\<lambda>ms. []) ?b ''x'' ?to 3) = [2, 0, 4]"
    using gap_fill_exact [of eighths sample_parse "\<lambda>ms. []" ?b "''x''" ?to 3] p
    by (simp add: Let_def sample_slots(1) upt_rec numeral_2_eq_2)
  moreover have six: "slot_count ?points 0 10 = 6" unfolding points by (simp add: slot_count_def)
  note exact = exact_slots [of 0 10 3, simplified]
  have "sum_list (map pb_count (gapFillBuckets (\<lambda>x. x) sample_parse (\<lambda>ms. []) ?b ''x'' ?to 3)) = 6"
    using gap_fill_exact [of "\<lambda>x. x" sample_parse "\<lambda>ms. []" ?b "''x''" ?to 3]
    by (simp (no_asm_use) add: Let_def mono_def p exact six) blast
  ultimately show ?thesis by blast
qed

section \<open>The hook\<close>

fun panel_key_series :: "(rat \<Rightarrow> rat) \<Rightarrow> (string \<Rightarrow> rat option) \<Rightarrow> (rat \<Rightarrow> string) \<Rightarrow> PanelDataResult \<Rightarrow> panel_key \<Rightarrow> PanelBucket list" where
  "panel_key_series fl date_parse to_iso data (savedQueryId, from, to, buckets) =
     gapFillBuckets fl date_parse to_iso (pd_buckets data) from to buckets"

definition panel_inv ::
  "(rat \<Rightarrow> rat) \<Rightarrow> (string \<Rightarrow> rat option) \<Rightarrow> (rat \<Rightarrow> string) \<Rightarrow> (nat \<Rightarrow> PanelDataOutcome) \<Rightarrow> panel_hook \<Rightarrow> bool" where
  "panel_inv fl date_parse to_iso srv h \<longleftrightarrow>
     (ph_state h = PanelDefault \<longrightarrow> (\<exists>data. srv (ph_current h) = PanelLoaded data
        \<and> ph_series h = panel_key_series fl date_parse to_iso data (ph_key h) \<and> ph_totalCount h = pd_totalCount data))
     \<and> (ph_state h = PanelErrored \<longrightarrow> (\<exists>m. srv (ph_current h) = PanelFailed m \<and> ph_errorMessage h = Some m))
     \<and> (ph_state h \<noteq> PanelErrored \<longrightarrow> ph_errorMessage h = None)
     \<and> (ph_state h \<noteq> PanelLoading \<longrightarrow> ph_current h \<notin> set (ph_outstanding h))"

interpretation panel_machine:
  event_machine panel_enabled "panel_do fl date_parse to_iso srv" "panel_start key" "panel_inv fl date_parse to_iso srv"
  for fl date_parse to_iso srv key
proof
  show "panel_inv fl date_parse to_iso srv (panel_start key)"
    by (simp add: panel_inv_def panel_start_def panel_effect_def)
  show "panel_inv fl date_parse to_iso srv (panel_do fl date_parse to_iso srv e h)"
    if "panel_inv fl date_parse to_iso srv h" "panel_enabled e h" for h e
  proof (cases e)
    case (SetKey k)
    then show ?thesis by (simp add: panel_inv_def panel_effect_def)
  next
    case (PanelSettle i)
    obtain sq f t n where k: "ph_key h = (sq, f, t, n)" by (cases "ph_key h") auto
    show ?thesis
      using that by (auto simp: PanelSettle panel_inv_def panel_settle_def Let_def k split: PanelDataOutcome.split)
  qed
qed

text \<open>The keys requested in a run, in the order of the requests: the one at mount and one per change.\<close>

fun asked_key :: "panel_event \<Rightarrow> panel_key list" where
  "asked_key (SetKey k) = [k]"
| "asked_key (PanelSettle i) = []"

definition asked_keys :: "panel_key \<Rightarrow> panel_event list \<Rightarrow> panel_key list" where
  "asked_keys key es = key # concat (map asked_key es)"

lemma panel_asks_step:
  assumes "ph_next h = length ks" "ph_current h < length ks" "ks ! ph_current h = ph_key h"
  shows "ph_next (panel_do fl date_parse to_iso srv e h) = length (ks @ asked_key e)
    \<and> ph_current (panel_do fl date_parse to_iso srv e h) < length (ks @ asked_key e)
    \<and> (ks @ asked_key e) ! ph_current (panel_do fl date_parse to_iso srv e h) = ph_key (panel_do fl date_parse to_iso srv e h)"
proof (cases e)
  case (SetKey k)
  with assms show ?thesis by (simp add: panel_effect_def)
next
  case (PanelSettle i)
  with assms show ?thesis
    by (cases "ph_key h") (simp add: panel_settle_def Let_def split: PanelDataOutcome.split)
qed

lemma panel_asks_run:
  assumes "run_events panel_enabled (panel_do fl date_parse to_iso srv) es h = Some h'"
    "ph_next h = length ks" "ph_current h < length ks" "ks ! ph_current h = ph_key h"
  shows "(ks @ concat (map asked_key es)) ! ph_current h' = ph_key h'"
  using assms
proof (induction es arbitrary: h ks)
  case (Cons e es)
  then have "run_events panel_enabled (panel_do fl date_parse to_iso srv) es (panel_do fl date_parse to_iso srv e h) = Some h'"
    by (simp split: if_splits)
  from Cons.IH [OF this, of "ks @ asked_key e"] panel_asks_step [OF Cons.prems(2-4), of fl date_parse to_iso srv e] show ?case by simp
qed simp

text \<open>
  C12. A panel shows the answer to what it asks for now. After every run of the hook, whatever order
  the answers arrive in, a panel that is not loading shows the outcome of a request for its
  current query and range: the densified series and total of its answer, or its error message; an
  answer to an earlier request is never shown as the current one, and no error message is shown
  with data or while loading. Request \<open>i\<close> is the one for the \<open>i\<close>-th key the run asks for.
\<close>

theorem panel_shows_current_key:
  assumes "run_events panel_enabled (panel_do fl date_parse to_iso srv) es (panel_start key) = Some h"
  shows "asked_keys key es ! ph_current h = ph_key h
    \<and> (ph_state h = PanelDefault \<longrightarrow> (\<exists>data. srv (ph_current h) = PanelLoaded data
        \<and> ph_series h = panel_key_series fl date_parse to_iso data (ph_key h) \<and> ph_totalCount h = pd_totalCount data))
    \<and> (ph_state h = PanelErrored \<longrightarrow> (\<exists>m. srv (ph_current h) = PanelFailed m \<and> ph_errorMessage h = Some m))
    \<and> (ph_state h \<noteq> PanelErrored \<longrightarrow> ph_errorMessage h = None)"
proof -
  have "panel_inv fl date_parse to_iso srv h"
    using panel_machine.reachable_ok [OF run_events_reachable [OF assms]] .
  moreover have "asked_keys key es ! ph_current h = ph_key h"
    using panel_asks_run [OF assms, of "[key]"] by (simp add: panel_start_def panel_effect_def asked_keys_def)
  ultimately show ?thesis by (simp add: panel_inv_def)
qed

definition sample_panel_srv :: "nat \<Rightarrow> PanelDataOutcome" where
  "sample_panel_srv i =
     (if i = 0 then PanelFailed ''old'' else PanelLoaded \<lparr> pd_totalCount = 7, pd_buckets = [], pd_recentLogs = [] \<rparr>)"

definition sample_panel :: panel_hook where
  "sample_panel = the (run_events panel_enabled (panel_do (\<lambda>x. x) (\<lambda>s. None) (\<lambda>x. []) sample_panel_srv)
     [SetKey (''q'', ''a'', ''b'', 30), PanelSettle 1, PanelSettle 0] (panel_start (''q'', [], [], 30)))"

theorem panel_shows_current_key_witness:
  "ph_state sample_panel = PanelDefault \<and> ph_key sample_panel = (''q'', ''a'', ''b'', 30)
   \<and> (\<exists>data. sample_panel_srv (ph_current sample_panel) = PanelLoaded data
     \<and> ph_totalCount sample_panel = pd_totalCount data)"
proof -
  let ?es = "[SetKey (''q'', ''a'', ''b'', 30), PanelSettle 1, PanelSettle 0]"
  let ?run = "run_events panel_enabled (panel_do (\<lambda>x. x) (\<lambda>s. None) (\<lambda>x. []) sample_panel_srv) ?es (panel_start (''q'', [], [], 30))"
  have "?run \<noteq> None" by code_simp
  then have run: "?run = Some sample_panel" unfolding sample_panel_def by (simp del: run_events.simps)
  have "ph_state sample_panel = PanelDefault" "ph_current sample_panel = 1" by code_simp+
  with panel_shows_current_key [OF run] show ?thesis by (auto simp: asked_keys_def)
qed

section \<open>Layouts\<close>

lemma findIndex_None: "findIndex p xs = None \<longleftrightarrow> (\<forall>x \<in> set xs. \<not> p x)"
  by (induction xs) auto

lemma findIndex_Some: "findIndex p xs = Some i \<Longrightarrow> i < length xs \<and> p (xs ! i) \<and> (\<forall>j < i. \<not> p (xs ! j))"
  by (induction xs arbitrary: i) (auto simp: nth_Cons split: if_splits nat.splits)

lemma map_zip_update:
  "i < length xs \<Longrightarrow> map (\<lambda>(j, x). if j = i then y else x) (zip [0..<length xs] xs) = xs[i := y]"
  by (auto intro!: nth_equalityI simp: nth_list_update)

lemma upsertPanel_cases:
  "upsertPanel panels panel =
     (case findIndex (\<lambda>p. pn_id p = pn_id panel) panels of None \<Rightarrow> panels @ [panel] | Some i \<Rightarrow> panels[i := panel])"
  by (auto simp: upsertPanel_def map_zip_update dest: findIndex_Some split: option.split)

text \<open>
  Editing a layout touches one panel: the ids stay distinct, the panel is stored, the others keep
  their places, and removing it afterwards leaves the others.
\<close>

lemma upsertPanel_ids:
  assumes "distinct (map pn_id panels)"
  shows "map pn_id (upsertPanel panels panel) =
      (if pn_id panel \<in> pn_id ` set panels then map pn_id panels else map pn_id panels @ [pn_id panel])"
    and "panel \<in> set (upsertPanel panels panel)"
    and "filter (\<lambda>p. pn_id p \<noteq> pn_id panel) (upsertPanel panels panel) = filter (\<lambda>p. pn_id p \<noteq> pn_id panel) panels"
proof -
  let ?P = "\<lambda>p. pn_id p = pn_id panel"
  have "map pn_id (upsertPanel panels panel) =
      (if pn_id panel \<in> pn_id ` set panels then map pn_id panels else map pn_id panels @ [pn_id panel])
    \<and> panel \<in> set (upsertPanel panels panel)
    \<and> filter (\<lambda>p. pn_id p \<noteq> pn_id panel) (upsertPanel panels panel) = filter (\<lambda>p. pn_id p \<noteq> pn_id panel) panels"
  proof (cases "findIndex ?P panels")
    case None
    then have u: "upsertPanel panels panel = panels @ [panel]" by (simp add: upsertPanel_cases)
    from None have "pn_id panel \<notin> pn_id ` set panels" by (auto simp: findIndex_None)
    then show ?thesis by (simp add: u)
  next
    case (Some i)
    then have i: "i < length panels" "pn_id (panels ! i) = pn_id panel" using findIndex_Some by auto
    then have u: "panels[i := panel] = take i panels @ panel # drop (Suc i) panels"
      and p: "panels = take i panels @ panels ! i # drop (Suc i) panels"
      by (simp_all add: upd_conv_take_nth_drop id_take_nth_drop)
    have "map pn_id (panels[i := panel]) = map pn_id panels"
      using i by (metis list_update_id map_update)
    moreover have "filter (\<lambda>p. pn_id p \<noteq> pn_id panel) (panels[i := panel]) = filter (\<lambda>p. pn_id p \<noteq> pn_id panel) panels"
      using i(2) by (subst (2) p) (simp add: u)
    moreover have "pn_id panel \<in> pn_id ` set panels" using i by (metis image_eqI nth_mem)
    ultimately show ?thesis using Some i(1) by (simp add: upsertPanel_cases set_update_memI)
  qed
  then show "map pn_id (upsertPanel panels panel) =
      (if pn_id panel \<in> pn_id ` set panels then map pn_id panels else map pn_id panels @ [pn_id panel])"
    and "panel \<in> set (upsertPanel panels panel)"
    and "filter (\<lambda>p. pn_id p \<noteq> pn_id panel) (upsertPanel panels panel) = filter (\<lambda>p. pn_id p \<noteq> pn_id panel) panels"
    by blast+
qed

lemma remove_upserted:
  assumes "distinct (map pn_id panels)"
  shows "removePanelById (upsertPanel panels panel) (pn_id panel) = removePanelById panels (pn_id panel)"
  using upsertPanel_ids(3) [OF assms] by (simp add: removePanelById_def)

end
