(* ===== verification/Web_Session.thy ===== *)
theory Web_Session
  imports Contracts Log_Search Oidc "HOL-Library.AList"
begin

text \<open>
  The server half of the web application, first part: \<^verbatim>\<open>apps/web/src/server/session.ts\<close>,
  \<^verbatim>\<open>control-plane.ts\<close>, \<^verbatim>\<open>auth.ts\<close> and \<^verbatim>\<open>tail-proxy.ts\<close>.

  \<^item> A server function is a program over the state \<open>web\<close>: the cookies of the browser that sent
    the request and the state of the control plane. No function reads a cookie after it has set
    it, so a cookie set on the response counts as set at once.
  \<^item> The control plane is reached through \<open>fetch\<close>, which takes a request and the state behind it
    to a result and the next state. It may be any service; \<^verbatim>\<open>Web_Laws\<close> puts the model of the
    control plane in its place.
  \<^item> What a program throws is a \<open>ControlPlaneError\<close>, the error of a schema, or a redirect.
\<close>

section \<open>Texts of the platform\<close>

fun split_char :: "char \<Rightarrow> string \<Rightarrow> string list" where
  "split_char d [] = [[]]"
| "split_char d (c # cs) =
     (if c = d then [] # split_char d cs
      else case split_char d cs of [] \<Rightarrow> [[c]] | p # ps \<Rightarrow> (c # p) # ps)"

definition b64_value :: "char \<Rightarrow> nat option" where
  "b64_value c =
     (let n = (of_char c :: nat)
      in if 65 \<le> n \<and> n \<le> 90 then Some (n - 65)
         else if 97 \<le> n \<and> n \<le> 122 then Some (n - 71)
         else if 48 \<le> n \<and> n \<le> 57 then Some (n + 4)
         else if c = CHR ''+'' \<or> c = CHR ''-'' then Some 62
         else if c = CHR ''/'' \<or> c = CHR ''_'' then Some 63
         else None)"

text \<open>\<open>Buffer.from(s, 'base64')\<close>: characters outside the alphabet are skipped.\<close>

fun b64_bytes :: "nat list \<Rightarrow> bytes" where
  "b64_bytes (a # b # c # d # rest) =
     char_of (a * 4 + b div 16) # char_of ((b mod 16) * 16 + c div 4) # char_of ((c mod 4) * 64 + d) # b64_bytes rest"
| "b64_bytes [a, b, c] = [char_of (a * 4 + b div 16), char_of ((b mod 16) * 16 + c div 4)]"
| "b64_bytes [a, b] = [char_of (a * 4 + b div 16)]"
| "b64_bytes _ = []"

text \<open>\<open>toString('utf8')\<close>; a code point beyond the modelled repertoire gives \<open>None\<close>.\<close>

fun utf8_text :: "bytes \<Rightarrow> string option" where
  "utf8_text [] = Some []"
| "utf8_text (c # cs) =
     (if (of_char c :: nat) < 128 then map_option (Cons c) (utf8_text cs)
      else case cs of
        d # ds \<Rightarrow>
          if (of_char c :: nat) \<in> {194, 195} \<and> (of_char d :: nat) div 64 = 2
          then map_option (Cons (char_of (((of_char c :: nat) - 192) * 64 + of_char d mod 64))) (utf8_text ds)
          else None
      | [] \<Rightarrow> None)"

section \<open>Sessions\<close>

definition ACCESS_COOKIE :: string where "ACCESS_COOKIE = ''lg_at''"
definition REFRESH_COOKIE :: string where "REFRESH_COOKIE = ''lg_rt''"

record ClientSession =
  cs_userId :: string
  cs_tenantId :: string
  cs_role :: role
  cs_expiresAt :: int

definition base64UrlDecode :: "string \<Rightarrow> string option" where
  "base64UrlDecode segment = utf8_text (b64_bytes (List.map_filter b64_value segment))"

definition decodeAccessClaims :: "string option \<Rightarrow> AccessClaims option" where
  "decodeAccessClaims token =
     (case token of
        None \<Rightarrow> None
      | Some t \<Rightarrow>
          if t = [] then None
          else case split_char (CHR ''.'') t of
            [_, payload, _] \<Rightarrow> do {
              text \<leftarrow> base64UrlDecode payload;
              doc \<leftarrow> JSON_parse text;
              accessClaimsSchema (Some doc) }
          | _ \<Rightarrow> None)"

definition isExpired :: "AccessClaims \<Rightarrow> millis \<Rightarrow> bool" where
  "isExpired claims nowMs \<longleftrightarrow> ac_exp claims \<le> nowMs div 1000 + 30"

definition sessionFromClaims :: "AccessClaims \<Rightarrow> ClientSession" where
  "sessionFromClaims claims =
     \<lparr> cs_userId = ac_sub claims, cs_tenantId = ac_tenant_id claims, cs_role = ac_role claims,
       cs_expiresAt = ac_exp claims \<rparr>"

definition SESSION_COOKIE_MAX_AGE :: int where "SESSION_COOKIE_MAX_AGE = 60 * 60 * 24 * 7"

text \<open>The two environment variables the cookie policy reads.\<close>

record web_env =
  we_COOKIE_SECURE :: "string option"
  we_NODE_ENV :: "string option"

definition sessionCookieSecure :: "web_env \<Rightarrow> bool" where
  "sessionCookieSecure V =
     (if we_COOKIE_SECURE V = Some ''true'' then True
      else if we_COOKIE_SECURE V = Some ''false'' then False
      else we_NODE_ENV V \<noteq> Some ''development'')"

record cookie_attributes =
  ck_httpOnly :: bool
  ck_secure :: bool
  ck_sameSite :: string
  ck_path :: string
  ck_maxAge :: int

definition sessionCookieAttributes :: "web_env \<Rightarrow> cookie_attributes" where
  "sessionCookieAttributes V =
     \<lparr> ck_httpOnly = True, ck_secure = sessionCookieSecure V, ck_sameSite = ''lax'', ck_path = ''/'',
       ck_maxAge = SESSION_COOKIE_MAX_AGE \<rparr>"

definition serializeSessionCookie :: "web_env \<Rightarrow> string \<Rightarrow> string \<Rightarrow> string" where
  "serializeSessionCookie V name value =
     (let a = sessionCookieAttributes V
      in join ''; '' ([name @ ''='' @ value, ''Max-Age='' @ int_digits (ck_maxAge a), ''Path='' @ ck_path a,
           ''HttpOnly'', ''SameSite=Lax''] @ (if ck_secure a then [''Secure''] else [])))"

section \<open>Server functions as programs\<close>

type_synonym jar = "(string \<times> string \<times> cookie_attributes) list"

record 'w web =
  wb_jar :: jar
  wb_up :: 'w

datatype web_error =
    ControlPlaneError int string string
  | ZodError
  | RedirectTo string

type_synonym 'w fetch = "http_request \<Rightarrow> 'w \<Rightarrow> http_result \<times> 'w"

type_synonym ('w, 'a) served = "('w web, web_error, 'a) eprog"

definition cookie :: "string \<Rightarrow> jar \<Rightarrow> string option" where
  "cookie name j = map_option fst (map_of j name)"

definition getCookie :: "string \<Rightarrow> ('w, string option) served" where
  "getCookie name = getS (\<lambda>s. cookie name (wb_jar s))"

definition setCookie :: "string \<Rightarrow> string \<Rightarrow> cookie_attributes \<Rightarrow> ('w, unit) served" where
  "setCookie name value attrs = updS (\<lambda>s. s\<lparr>wb_jar := AList.update name (value, attrs) (wb_jar s)\<rparr>)"

definition deleteCookie :: "string \<Rightarrow> ('w, unit) served" where
  "deleteCookie name = updS (\<lambda>s. s\<lparr>wb_jar := AList.delete name (wb_jar s)\<rparr>)"

section \<open>The client of the control plane\<close>

definition cpFetch ::
  "'w fetch \<Rightarrow> string \<Rightarrow> string \<Rightarrow> (string \<times> string) list \<Rightarrow> string option \<Rightarrow> ('w, json option) served" where
  "cpFetch fetch m path headers body = (\<lambda>s.
     let (res, up) = fetch \<lparr> hr_method = m, hr_path = path, hr_params = [],
            hr_headers = (if body \<noteq> None then [(''content-type'', ''application/json'')] else []) @ headers,
            hr_body = body \<rparr> (wb_up s);
         s' = s\<lparr>wb_up := up\<rparr>
     in case res of
          FetchRejected \<Rightarrow>
            (Inl (ControlPlaneError 503 ''upstream_unreachable'' ''control-plane is unreachable''), s')
        | FetchResponse status statusText text \<Rightarrow>
            let parsed = read_body text
            in if parsed = BadBody then
                 (Inl (ControlPlaneError (if status_ok status then 502 else status) ''invalid_response''
                    ''control-plane returned a non-JSON response''), s')
               else if \<not> status_ok status then
                 (Inl (ControlPlaneError status
                    (case body_field parsed ''error'' of Some c \<Rightarrow> c | None \<Rightarrow> ''error'')
                    (case body_field parsed ''message'' of Some t \<Rightarrow> t | None \<Rightarrow> statusText)), s')
               else (Inr (body_value parsed), s'))"

definition schema_parse :: "'a schema \<Rightarrow> json option \<Rightarrow> ('w, 'a) served" where
  "schema_parse z b = (case z b of Some x \<Rightarrow> ret x | None \<Rightarrow> throw ZodError)"

definition cp_post :: "'w fetch \<Rightarrow> string \<Rightarrow> json \<Rightarrow> ('w, json option) served" where
  "cp_post fetch path body = cpFetch fetch ''POST'' path [] (Some (JSON_stringify body))"

definition login_request_json :: "LoginCommand \<Rightarrow> json" where
  "login_request_json c = JObj [(''tenantSlug'', JStr (lc_tenantSlug c)), (''email'', JStr (lc_email c)),
     (''password'', JStr (lc_password c))]"

definition refresh_request_json :: "string \<Rightarrow> json" where
  "refresh_request_json token = JObj [(''refreshToken'', JStr token)]"

definition cpLogin :: "'w fetch \<Rightarrow> LoginCommand \<Rightarrow> ('w, SessionTokens) served" where
  "cpLogin fetch body =
     andThen (cp_post fetch ''/v1/auth/login'' (login_request_json body)) (schema_parse tokenPairSchema)"

definition cpRefresh :: "'w fetch \<Rightarrow> string \<Rightarrow> ('w, SessionTokens) served" where
  "cpRefresh fetch refreshToken =
     andThen (cp_post fetch ''/v1/auth/refresh'' (refresh_request_json refreshToken)) (schema_parse tokenPairSchema)"

definition cpLogout :: "'w fetch \<Rightarrow> string \<Rightarrow> ('w, unit) served" where
  "cpLogout fetch refreshToken =
     andThen (cp_post fetch ''/v1/auth/logout'' (refresh_request_json refreshToken)) (\<lambda>_. ret ())"

definition bearer_header :: "string \<Rightarrow> string \<times> string" where
  "bearer_header token = (''authorization'', ''Bearer '' @ token)"

definition cpAuthedFetch :: "'w fetch \<Rightarrow> string \<Rightarrow> string \<Rightarrow> 'a schema \<Rightarrow> ('w, 'a) served" where
  "cpAuthedFetch fetch accessToken path z =
     andThen (cpFetch fetch ''GET'' path [bearer_header accessToken] None) (schema_parse z)"

definition cpAuthedSend ::
  "'w fetch \<Rightarrow> string \<Rightarrow> string \<Rightarrow> string \<Rightarrow> 'a schema \<Rightarrow> json option \<Rightarrow> ('w, 'a) served" where
  "cpAuthedSend fetch accessToken m path z body =
     andThen (cpFetch fetch m path [bearer_header accessToken] (map_option JSON_stringify body)) (schema_parse z)"

section \<open>Login, logout and the current session\<close>

definition writeSessionCookies :: "web_env \<Rightarrow> SessionTokens \<Rightarrow> ('w, unit) served" where
  "writeSessionCookies V pair =
     andThen (setCookie ACCESS_COOKIE (st_accessToken pair) (sessionCookieAttributes V)) (\<lambda>_.
     setCookie REFRESH_COOKIE (st_refreshToken pair) (sessionCookieAttributes V))"

definition clearSessionCookies :: "('w, unit) served" where
  "clearSessionCookies = andThen (deleteCookie ACCESS_COOKIE) (\<lambda>_. deleteCookie REFRESH_COOKIE)"

datatype LoginResult = LoginOk ClientSession | LoginFailed string

definition loginFn :: "web_env \<Rightarrow> 'w fetch \<Rightarrow> LoginCommand \<Rightarrow> ('w, LoginResult) served" where
  "loginFn V fetch data =
     tryCatch
       (andThen (cpLogin fetch data) (\<lambda>pair.
        case decodeAccessClaims (Some (st_accessToken pair)) of
          None \<Rightarrow> ret (LoginFailed ''Login failed'')
        | Some claims \<Rightarrow>
            andThen (writeSessionCookies V pair) (\<lambda>_. ret (LoginOk (sessionFromClaims claims)))))
       (\<lambda>err. case err of
          ControlPlaneError status code message \<Rightarrow>
            if 400 \<le> status \<and> status < 500 then ret (LoginFailed ''Invalid credentials'')
            else ret (LoginFailed ''Sign-in is temporarily unavailable. Please try again.'')
        | _ \<Rightarrow> throw err)"

definition logoutFn :: "'w fetch \<Rightarrow> ('w, unit) served" where
  "logoutFn fetch =
     andThen (getCookie REFRESH_COOKIE) (\<lambda>refreshToken.
     andThen (case refreshToken of
                None \<Rightarrow> ret ()
              | Some t \<Rightarrow> if t = [] then ret () else tryCatch (cpLogout fetch t) (\<lambda>_. ret ())) (\<lambda>_.
     clearSessionCookies))"

definition no_session :: "('w, ClientSession option) served" where
  "no_session = andThen clearSessionCookies (\<lambda>_. ret None)"

definition refresh_session :: "web_env \<Rightarrow> 'w fetch \<Rightarrow> ('w, ClientSession option) served" where
  "refresh_session V fetch =
     andThen (getCookie REFRESH_COOKIE) (\<lambda>refreshToken.
     case refreshToken of
       None \<Rightarrow> no_session
     | Some t \<Rightarrow>
         if t = [] then no_session
         else tryCatch
           (andThen (cpRefresh fetch t) (\<lambda>pair.
            case decodeAccessClaims (Some (st_accessToken pair)) of
              None \<Rightarrow> no_session
            | Some fresh \<Rightarrow>
                andThen (writeSessionCookies V pair) (\<lambda>_. ret (Some (sessionFromClaims fresh)))))
           (\<lambda>_. no_session))"

definition getSession :: "web_env \<Rightarrow> 'w fetch \<Rightarrow> millis \<Rightarrow> ('w, ClientSession option) served" where
  "getSession V fetch now =
     andThen (getCookie ACCESS_COOKIE) (\<lambda>accessToken.
     case decodeAccessClaims accessToken of
       Some claims \<Rightarrow>
         if \<not> isExpired claims now then ret (Some (sessionFromClaims claims)) else refresh_session V fetch
     | None \<Rightarrow> refresh_session V fetch)"

text \<open>The guard of every page below \<^verbatim>\<open>/_authed\<close>.\<close>

definition authed_beforeLoad :: "web_env \<Rightarrow> 'w fetch \<Rightarrow> millis \<Rightarrow> ('w, ClientSession) served" where
  "authed_beforeLoad V fetch now =
     andThen (getSession V fetch now) (\<lambda>session.
     case session of None \<Rightarrow> throw (RedirectTo ''/login'') | Some cs \<Rightarrow> ret cs)"

section \<open>The live-tail proxy\<close>

definition sessionSetCookies :: "web_env \<Rightarrow> SessionTokens \<Rightarrow> string list" where
  "sessionSetCookies V pair =
     [serializeSessionCookie V ACCESS_COOKIE (st_accessToken pair),
      serializeSessionCookie V REFRESH_COOKIE (st_refreshToken pair)]"

definition cookie_part :: "string \<Rightarrow> (string \<rightharpoonup> string) \<Rightarrow> (string \<rightharpoonup> string)" where
  "cookie_part part out =
     (case indexOf part ''='' of
        None \<Rightarrow> out
      | Some i \<Rightarrow>
          let name = trim (take i part)
          in if name = [] then out else out(name \<mapsto> trim (drop (Suc i) part)))"

definition parseCookieHeader :: "string option \<Rightarrow> (string \<rightharpoonup> string)" where
  "parseCookieHeader header =
     (case header of
        None \<Rightarrow> Map.empty
      | Some h \<Rightarrow> if h = [] then Map.empty else fold cookie_part (split_char (CHR '';'') h) Map.empty)"

record TailAuth =
  ta_ok :: bool
  ta_token :: "string option"
  ta_setCookies :: "string list"

definition tail_unauthorized :: TailAuth where
  "tail_unauthorized = \<lparr> ta_ok = False, ta_token = None, ta_setCookies = [] \<rparr>"

definition resolveTailAuth :: "web_env \<Rightarrow> 'w fetch \<Rightarrow> millis \<Rightarrow> string option \<Rightarrow> ('w, TailAuth) served" where
  "resolveTailAuth V fetch now cookieHeader =
     (let cookies = parseCookieHeader cookieHeader;
          access = cookies ACCESS_COOKIE;
          refreshing =
            (case cookies REFRESH_COOKIE of
               None \<Rightarrow> ret tail_unauthorized
             | Some t \<Rightarrow>
                 if t = [] then ret tail_unauthorized
                 else tryCatch
                   (andThen (cpRefresh fetch t) (\<lambda>pair.
                    ret \<lparr> ta_ok = True, ta_token = Some (st_accessToken pair),
                          ta_setCookies = sessionSetCookies V pair \<rparr>))
                   (\<lambda>_. ret tail_unauthorized))
      in case decodeAccessClaims access of
           Some claims \<Rightarrow>
             if \<not> isExpired claims now
             then ret \<lparr> ta_ok = True, ta_token = access, ta_setCookies = [] \<rparr>
             else refreshing
         | None \<Rightarrow> refreshing)"

record tail_response =
  tr_status :: int
  tr_headers :: "(string \<times> string) list"
  tr_body :: string

definition jsonError :: "int \<Rightarrow> string \<Rightarrow> tail_response" where
  "jsonError status error =
     \<lparr> tr_status = status, tr_headers = [(''content-type'', ''application/json'')],
       tr_body = JSON_stringify (JObj [(''error'', JStr error)]) \<rparr>"

definition tail_request :: "string \<Rightarrow> http_request" where
  "tail_request token =
     \<lparr> hr_method = ''GET'', hr_path = ''/v1/tail'', hr_params = [],
       hr_headers = [bearer_header token, (''accept'', ''text/event-stream'')], hr_body = None \<rparr>"

text \<open>The event stream is passed through as it is; the query service is the argument \<open>tail\<close>.\<close>

definition tailProxy ::
  "web_env \<Rightarrow> 'w fetch \<Rightarrow> (http_request \<Rightarrow> http_result) \<Rightarrow> millis \<Rightarrow> string option \<Rightarrow> ('w, tail_response) served" where
  "tailProxy V fetch query now cookieHeader =
     andThen (resolveTailAuth V fetch now cookieHeader) (\<lambda>auth.
     case ta_token auth of
       None \<Rightarrow> ret (jsonError 401 ''unauthorized'')
     | Some token \<Rightarrow>
         if \<not> ta_ok auth \<or> token = [] then ret (jsonError 401 ''unauthorized'')
         else case query (tail_request token) of
           FetchRejected \<Rightarrow> ret (jsonError 502 ''tail_unavailable'')
         | FetchResponse status _ body \<Rightarrow>
             if \<not> status_ok status \<or> body = None
             then ret (jsonError (if status = 401 then 401 else 502) ''tail_unavailable'')
             else ret \<lparr> tr_status = 200,
                    tr_headers = [(''content-type'', ''text/event-stream''), (''cache-control'', ''no-cache''),
                      (''connection'', ''keep-alive''), (''x-accel-buffering'', ''no'')]
                      @ map (\<lambda>c. (''set-cookie'', c)) (ta_setCookies auth),
                    tr_body = the body \<rparr>)"

section \<open>Splitting\<close>

lemma split_char_part: "d \<notin> set a \<Longrightarrow> split_char d (a @ d # r) = a # split_char d r"
  by (induction a) auto

lemma split_char_last: "d \<notin> set a \<Longrightarrow> split_char d a = [a]"
  by (induction a) auto

end
