(* ===== verification/Web_Oidc.thy ===== *)
theory Web_Oidc
  imports Web_Session
begin

text \<open>
  Google sign-in and invite acceptance in the web server: \<^verbatim>\<open>apps/web/src/server/oidc.ts\<close> and the
  loaders of \<^verbatim>\<open>routes/auth/google/callback.tsx\<close> and \<^verbatim>\<open>routes/invite/accept.tsx\<close>. Reading the
  \<open>state\<close> parameter off the redirect URL is the URL parser's work: the argument \<open>url_state\<close>, which is
  undefined where the parser throws or finds none.
\<close>

definition OIDC_TENANT_COOKIE :: string where "OIDC_TENANT_COOKIE = ''lg_oidc_tenant''"
definition OIDC_RETURN_COOKIE :: string where "OIDC_RETURN_COOKIE = ''lg_oidc_return''"
definition OIDC_STATE_COOKIE :: string where "OIDC_STATE_COOKIE = ''lg_oidc_state''"
definition INVITE_TOKEN_COOKIE :: string where "INVITE_TOKEN_COOKIE = ''lg_invite_token''"

definition oidcCookieAttributes :: "web_env \<Rightarrow> cookie_attributes" where
  "oidcCookieAttributes V =
     \<lparr> ck_httpOnly = True, ck_secure = ck_secure (sessionCookieAttributes V), ck_sameSite = ''lax'',
       ck_path = ''/'', ck_maxAge = 60 * 10 \<rparr>"

definition clearOidcCookies :: "('w, unit) served" where
  "clearOidcCookies =
     andThen (deleteCookie OIDC_TENANT_COOKIE) (\<lambda>_.
     andThen (deleteCookie OIDC_RETURN_COOKIE) (\<lambda>_.
     andThen (deleteCookie OIDC_STATE_COOKIE) (\<lambda>_.
     deleteCookie INVITE_TOKEN_COOKIE)))"

section \<open>Start\<close>

definition authorize_request_json :: "OidcAuthorizeRequest \<Rightarrow> json" where
  "authorize_request_json r = JObj ((''tenantSlug'', JStr (oar_tenantSlug r))
     # (case oar_returnTo r of None \<Rightarrow> [] | Some t \<Rightarrow> [(''returnTo'', JStr t)]))"

definition cpOidcAuthorize :: "formats \<Rightarrow> 'w fetch \<Rightarrow> OidcAuthorizeRequest \<Rightarrow> ('w, string) served" where
  "cpOidcAuthorize F fetch body =
     andThen (cp_post fetch ''/v1/auth/oidc/google/authorize'' (authorize_request_json body))
       (schema_parse (oidcAuthorizeResponseSchema F))"

datatype StartGoogleSigninResult = StartOk string | StartFailed string

definition startGoogleSignin ::
  "web_env \<Rightarrow> formats \<Rightarrow> (string \<Rightarrow> string option) \<Rightarrow> 'w fetch \<Rightarrow> OidcAuthorizeRequest
     \<Rightarrow> ('w, StartGoogleSigninResult) served" where
  "startGoogleSignin V F url_state fetch data =
     tryCatch
       (andThen (cpOidcAuthorize F fetch data) (\<lambda>redirectUrl.
        case url_state redirectUrl of
          None \<Rightarrow> ret (StartFailed ''Sign-in is temporarily unavailable. Please try again.'')
        | Some oidcState \<Rightarrow>
            if oidcState = []
            then ret (StartFailed ''Sign-in is temporarily unavailable. Please try again.'')
            else
              andThen (setCookie OIDC_STATE_COOKIE oidcState (oidcCookieAttributes V)) (\<lambda>_.
              andThen (setCookie OIDC_TENANT_COOKIE (oar_tenantSlug data) (oidcCookieAttributes V)) (\<lambda>_.
              andThen (case oar_returnTo data of
                         None \<Rightarrow> ret ()
                       | Some t \<Rightarrow> if t = [] then ret ()
                                   else setCookie OIDC_RETURN_COOKIE t (oidcCookieAttributes V)) (\<lambda>_.
              ret (StartOk redirectUrl))))))
       (\<lambda>err. case err of
          ControlPlaneError status code message \<Rightarrow>
            if 400 \<le> status \<and> status < 500
            then ret (StartFailed ''Sign-in with Google is unavailable for this workspace.'')
            else ret (StartFailed ''Sign-in is temporarily unavailable. Please try again.'')
        | _ \<Rightarrow> throw err)"

section \<open>Completion\<close>

definition callback_request_json :: "string \<Rightarrow> string \<Rightarrow> string \<Rightarrow> string option \<Rightarrow> json" where
  "callback_request_json slug code state inviteToken = JObj
     ([(''tenantSlug'', JStr slug), (''code'', JStr code), (''state'', JStr state)]
      @ (case inviteToken of None \<Rightarrow> [] | Some t \<Rightarrow> if t = [] then [] else [(''inviteToken'', JStr t)]))"

definition cpOidcCallback :: "'w fetch \<Rightarrow> json \<Rightarrow> ('w, SessionTokens) served" where
  "cpOidcCallback fetch body =
     andThen (cp_post fetch ''/v1/auth/oidc/google/callback'' body) (schema_parse tokenPairSchema)"

datatype CompleteGoogleSigninResult = CompleteOk ClientSession "string option" | CompleteFailed string

definition completeGoogleSignin ::
  "web_env \<Rightarrow> 'w fetch \<Rightarrow> string \<times> string \<times> string \<Rightarrow> ('w, CompleteGoogleSigninResult) served" where
  "completeGoogleSignin V fetch data =
     (case data of (slug, code, state) \<Rightarrow>
     andThen (getCookie OIDC_RETURN_COOKIE) (\<lambda>returnTo.
     andThen (getCookie OIDC_STATE_COOKIE) (\<lambda>expectedState.
     if expectedState = None \<or> expectedState = Some [] \<or> expectedState \<noteq> Some state
     then andThen clearOidcCookies (\<lambda>_. ret (CompleteFailed ''Sign-in failed''))
     else
       andThen (getCookie INVITE_TOKEN_COOKIE) (\<lambda>inviteToken.
       tryCatch
         (andThen (cpOidcCallback fetch (callback_request_json slug code state inviteToken)) (\<lambda>pair.
          case decodeAccessClaims (Some (st_accessToken pair)) of
            None \<Rightarrow> andThen clearOidcCookies (\<lambda>_. ret (CompleteFailed ''Sign-in failed''))
          | Some claims \<Rightarrow>
              andThen (writeSessionCookies V pair) (\<lambda>_.
              andThen clearOidcCookies (\<lambda>_. ret (CompleteOk (sessionFromClaims claims) returnTo)))))
         (\<lambda>err. andThen clearOidcCookies (\<lambda>_.
            case err of
              ControlPlaneError status c message \<Rightarrow>
                if 400 \<le> status \<and> status < 500 then ret (CompleteFailed ''Sign-in failed'')
                else ret (CompleteFailed ''Sign-in is temporarily unavailable. Please try again.'')
            | _ \<Rightarrow> throw err))))))"

definition getOidcTenantSlug :: "('w, string option) served" where
  "getOidcTenantSlug = getCookie OIDC_TENANT_COOKIE"

section \<open>The callback page\<close>

definition hasControlChar :: "string \<Rightarrow> bool" where
  "hasControlChar s = list_ex (\<lambda>c. (of_char c :: nat) \<le> 31 \<or> (of_char c :: nat) = 127) s"

definition callback_destination :: "string option \<Rightarrow> string" where
  "callback_destination returnTo =
     (case returnTo of
        None \<Rightarrow> ''/app''
      | Some t \<Rightarrow> if t \<noteq> [] \<and> relative_path t \<and> \<not> hasControlChar t then t else ''/app'')"

text \<open>
  The loader either returns the message the page shows or throws the redirect. Its call of the server
  function passes the validator \<open>oidcCallbackClientRequestSchema\<close>, whose failure is thrown.
\<close>

definition callback_input :: "string \<Rightarrow> string \<Rightarrow> string \<Rightarrow> json option" where
  "callback_input slug code state =
     Some (JObj [(''tenantSlug'', JStr slug), (''code'', JStr code), (''state'', JStr state)])"

definition callback_loader ::
  "web_env \<Rightarrow> 'w fetch \<Rightarrow> string \<Rightarrow> string \<Rightarrow> string option \<Rightarrow> ('w, string) served" where
  "callback_loader V fetch code state error =
     (if error \<noteq> None \<and> error \<noteq> Some [] then ret ''Sign-in was cancelled or denied.''
      else if code = [] \<or> state = [] then ret ''Invalid callback parameters.''
      else
        andThen getOidcTenantSlug (\<lambda>slug.
        if slug = None \<or> slug = Some [] then ret ''Sign-in session expired. Please try signing in again.''
        else
          andThen (schema_parse oidcCallbackClientRequestSchema (callback_input (the slug) code state)) (\<lambda>data.
          andThen (completeGoogleSignin V fetch data) (\<lambda>result.
          case result of
            CompleteFailed message \<Rightarrow> ret message
          | CompleteOk session returnTo \<Rightarrow> throw (RedirectTo (callback_destination returnTo))))))"

section \<open>Invite acceptance\<close>

definition stashInviteToken :: "web_env \<Rightarrow> string \<Rightarrow> ('w, bool) served" where
  "stashInviteToken V token =
     (if parseInviteTenantSlug token = None then ret False
      else andThen (setCookie INVITE_TOKEN_COOKIE token (oidcCookieAttributes V)) (\<lambda>_. ret True))"

definition getInviteTenantSlug :: "('w, string option) served" where
  "getInviteTenantSlug =
     andThen (getCookie INVITE_TOKEN_COOKIE) (\<lambda>token.
     ret (case token of None \<Rightarrow> None | Some t \<Rightarrow> if t = [] then None else parseInviteTenantSlug t))"

definition stash_input :: "string schema" where
  "stash_input = z_object (\<lambda>p. z_sized 1 512 (p ''token''))"

text \<open>First pass with the token in the URL: stash and redirect. Second pass: the tenant of the stash.\<close>

definition invite_accept :: "web_env \<Rightarrow> string option \<Rightarrow> ('w, string option) served" where
  "invite_accept V token =
     (case token of
        Some t \<Rightarrow>
          if t \<noteq> [] then
            andThen (schema_parse stash_input (Some (JObj [(''token'', JStr t)]))) (\<lambda>data.
            andThen (stashInviteToken V data) (\<lambda>_. throw (RedirectTo ''/invite/accept'')))
          else getInviteTenantSlug
      | None \<Rightarrow> getInviteTenantSlug)"

end
