(* ===== verification/Web_Admin.thy ===== *)
theory Web_Admin
  imports Web_Session Responses
begin

text \<open>
  The administration and dashboard relays of the web server: \<^verbatim>\<open>apps/web/src/server/admin.ts\<close> and
  \<^verbatim>\<open>server/dashboards.ts\<close>. The second file repeats the error mapping, the runner and the session
  check of the first; so does the model (\<open>mapDashboardError\<close>, \<open>dashboard_run\<close>,
  \<open>dashboard_ensureSession\<close>). The model of a server function starts at its handler: the argument is
  what the validator let through, a body being a JSON document. The five reads of \<open>loadAdminData\<close>
  are issued in the order of the source; each is a read, so the order in which the answers arrive
  does not matter to the page.
\<close>

datatype AdminErrorKind = unauthorized | forbidden | invalid | unavailable

datatype 'a AdminOutcome = AdminOk 'a | AdminFailed AdminErrorKind string

fun mapAdminError :: "web_error \<Rightarrow> AdminErrorKind \<times> string" where
  "mapAdminError (ControlPlaneError status code message) =
     (if status = 401 then (unauthorized, ''Your session has ended.'')
      else if status = 403 then (forbidden, ''You do not have permission to do that.'')
      else if 400 \<le> status \<and> status < 500
      then (invalid, if message = [] then ''That request was invalid.'' else message)
      else (unavailable, ''Something went wrong. Please try again.''))"
| "mapAdminError _ = (unavailable, ''Something went wrong. Please try again.'')"

definition admin_run :: "string option \<Rightarrow> (string \<Rightarrow> ('w, 'a) served) \<Rightarrow> ('w, 'a AdminOutcome) served" where
  "admin_run token call =
     (case token of
        None \<Rightarrow> ret (AdminFailed unauthorized ''Your session has ended.'')
      | Some t \<Rightarrow>
          if t = [] then ret (AdminFailed unauthorized ''Your session has ended.'')
          else tryCatch (andThen (call t) (\<lambda>x. ret (AdminOk x)))
                 (\<lambda>err. ret (case mapAdminError err of (k, m) \<Rightarrow> AdminFailed k m)))"

definition list_schema :: "string \<Rightarrow> 'a schema \<Rightarrow> 'a list schema" where
  "list_schema name z = z_object (\<lambda>p. z_array z (p name))"

definition noContentSchema :: "unit schema" where
  "noContentSchema v = (case v of None \<Rightarrow> Some () | Some _ \<Rightarrow> None)"

section \<open>Upstream calls\<close>

definition listAlertRulesUpstream ::
  "formats \<Rightarrow> 'w fetch \<Rightarrow> string option \<Rightarrow> ('w, AlertRuleResponse list AdminOutcome) served" where
  "listAlertRulesUpstream F fetch token =
     admin_run token (\<lambda>t. cpAuthedFetch fetch t ''/v1/alert-rules'' (list_schema ''alertRules'' (alertRuleResponseSchema F)))"

definition createAlertRuleUpstream ::
  "formats \<Rightarrow> 'w fetch \<Rightarrow> string option \<Rightarrow> json \<Rightarrow> ('w, AlertRuleResponse AdminOutcome) served" where
  "createAlertRuleUpstream F fetch token body =
     admin_run token (\<lambda>t. cpAuthedSend fetch t ''POST'' ''/v1/alert-rules'' (alertRuleResponseSchema F) (Some body))"

definition updateAlertRuleUpstream ::
  "formats \<Rightarrow> 'w fetch \<Rightarrow> string option \<Rightarrow> string \<Rightarrow> json \<Rightarrow> ('w, AlertRuleResponse AdminOutcome) served" where
  "updateAlertRuleUpstream F fetch token ident body =
     admin_run token (\<lambda>t. cpAuthedSend fetch t ''PATCH'' (''/v1/alert-rules/'' @ ident) (alertRuleResponseSchema F) (Some body))"

definition deleteAlertRuleUpstream :: "'w fetch \<Rightarrow> string option \<Rightarrow> string \<Rightarrow> ('w, unit AdminOutcome) served" where
  "deleteAlertRuleUpstream fetch token ident =
     admin_run token (\<lambda>t. cpAuthedSend fetch t ''DELETE'' (''/v1/alert-rules/'' @ ident) noContentSchema None)"

definition listApiKeysUpstream :: "'w fetch \<Rightarrow> string option \<Rightarrow> ('w, ApiKeyResponse list AdminOutcome) served" where
  "listApiKeysUpstream fetch token =
     admin_run token (\<lambda>t. cpAuthedFetch fetch t ''/v1/api-keys'' (list_schema ''apiKeys'' apiKeyResponseSchema))"

definition createApiKeyUpstream ::
  "'w fetch \<Rightarrow> string option \<Rightarrow> json \<Rightarrow> ('w, (ApiKeyResponse \<times> string) AdminOutcome) served" where
  "createApiKeyUpstream fetch token body =
     admin_run token (\<lambda>t. cpAuthedSend fetch t ''POST'' ''/v1/api-keys'' apiKeyCreatedResponseSchema (Some body))"

definition revokeApiKeyUpstream :: "'w fetch \<Rightarrow> string option \<Rightarrow> string \<Rightarrow> ('w, unit AdminOutcome) served" where
  "revokeApiKeyUpstream fetch token ident =
     admin_run token (\<lambda>t. cpAuthedSend fetch t ''DELETE'' (''/v1/api-keys/'' @ ident) noContentSchema None)"

definition listInvitesUpstream ::
  "formats \<Rightarrow> 'w fetch \<Rightarrow> string option \<Rightarrow> ('w, InviteResponse list AdminOutcome) served" where
  "listInvitesUpstream F fetch token =
     admin_run token (\<lambda>t. cpAuthedFetch fetch t ''/v1/invites'' (inviteListSchema F))"

definition createInviteUpstream ::
  "formats \<Rightarrow> 'w fetch \<Rightarrow> string option \<Rightarrow> json \<Rightarrow> ('w, (InviteResponse \<times> string) AdminOutcome) served" where
  "createInviteUpstream F fetch token body =
     admin_run token (\<lambda>t. cpAuthedSend fetch t ''POST'' ''/v1/invites'' (inviteCreatedResponseSchema F) (Some body))"

definition revokeInviteUpstream :: "'w fetch \<Rightarrow> string option \<Rightarrow> string \<Rightarrow> ('w, unit AdminOutcome) served" where
  "revokeInviteUpstream fetch token ident =
     admin_run token (\<lambda>t. cpAuthedSend fetch t ''POST'' (''/v1/invites/'' @ ident @ ''/revoke'') noContentSchema None)"

definition listUsersUpstream ::
  "formats \<Rightarrow> 'w fetch \<Rightarrow> string option \<Rightarrow> ('w, UserResponse list AdminOutcome) served" where
  "listUsersUpstream F fetch token =
     admin_run token (\<lambda>t. cpAuthedFetch fetch t ''/v1/users'' (list_schema ''users'' (userResponseSchema F)))"

definition createUserUpstream ::
  "formats \<Rightarrow> 'w fetch \<Rightarrow> string option \<Rightarrow> json \<Rightarrow> ('w, UserResponse AdminOutcome) served" where
  "createUserUpstream F fetch token body =
     admin_run token (\<lambda>t. cpAuthedSend fetch t ''POST'' ''/v1/users'' (userResponseSchema F) (Some body))"

definition updateUserUpstream ::
  "formats \<Rightarrow> 'w fetch \<Rightarrow> string option \<Rightarrow> string \<Rightarrow> json \<Rightarrow> ('w, UserResponse AdminOutcome) served" where
  "updateUserUpstream F fetch token ident body =
     admin_run token (\<lambda>t. cpAuthedSend fetch t ''PATCH'' (''/v1/users/'' @ ident) (userResponseSchema F) (Some body))"

definition deleteUserUpstream :: "'w fetch \<Rightarrow> string option \<Rightarrow> string \<Rightarrow> ('w, unit AdminOutcome) served" where
  "deleteUserUpstream fetch token ident =
     admin_run token (\<lambda>t. cpAuthedSend fetch t ''DELETE'' (''/v1/users/'' @ ident) noContentSchema None)"

definition getTenantUpstream :: "'w fetch \<Rightarrow> string option \<Rightarrow> string \<Rightarrow> ('w, TenantResponse AdminOutcome) served" where
  "getTenantUpstream fetch token tenantId =
     admin_run token (\<lambda>t. cpAuthedFetch fetch t (''/v1/tenants/'' @ tenantId) tenantResponseSchema)"

text \<open>A 404 is the policy that is not configured yet.\<close>

definition getRetentionUpstream :: "'w fetch \<Rightarrow> string option \<Rightarrow> ('w, RetentionResponse option AdminOutcome) served" where
  "getRetentionUpstream fetch token =
     admin_run token (\<lambda>t.
       tryCatch (andThen (cpAuthedFetch fetch t ''/v1/retention'' retentionResponseSchema) (\<lambda>r. ret (Some r)))
         (\<lambda>err. case err of
            ControlPlaneError status code message \<Rightarrow> if status = 404 then ret None else throw err
          | _ \<Rightarrow> throw err))"

definition updateRetentionUpstream :: "'w fetch \<Rightarrow> string option \<Rightarrow> json \<Rightarrow> ('w, RetentionResponse AdminOutcome) served" where
  "updateRetentionUpstream fetch token body =
     admin_run token (\<lambda>t. cpAuthedSend fetch t ''PUT'' ''/v1/retention'' retentionResponseSchema (Some body))"

section \<open>The administration page\<close>

record AdminData =
  adm_role :: role
  adm_tenant :: "TenantResponse AdminOutcome"
  adm_retention :: "RetentionResponse option AdminOutcome"
  adm_users :: "UserResponse list AdminOutcome option"
  adm_apiKeys :: "ApiKeyResponse list AdminOutcome option"
  adm_invites :: "InviteResponse list AdminOutcome option"

definition if_allowed :: "bool \<Rightarrow> ('w, 'a) served \<Rightarrow> ('w, 'a option) served" where
  "if_allowed b m = (if b then andThen m (\<lambda>x. ret (Some x)) else ret None)"

definition loadAdminData :: "formats \<Rightarrow> 'w fetch \<Rightarrow> string option \<Rightarrow> ('w, AdminData option) served" where
  "loadAdminData F fetch token =
     (case decodeAccessClaims token of
        None \<Rightarrow> ret None
      | Some claims \<Rightarrow>
          andThen (getTenantUpstream fetch token (ac_tenant_id claims)) (\<lambda>tenant.
          andThen (getRetentionUpstream fetch token) (\<lambda>retention.
          andThen (if_allowed (ui_can (ac_role claims) User_list) (listUsersUpstream F fetch token)) (\<lambda>users.
          andThen (if_allowed (ui_can (ac_role claims) Apikey_list) (listApiKeysUpstream fetch token)) (\<lambda>apiKeys.
          andThen (if_allowed (ui_can (ac_role claims) Invite_list) (listInvitesUpstream F fetch token)) (\<lambda>invites.
          ret (Some \<lparr> adm_role = ac_role claims, adm_tenant = tenant, adm_retention = retention,
                      adm_users = users, adm_apiKeys = apiKeys, adm_invites = invites \<rparr>)))))))"

section \<open>Server functions\<close>

definition ensureSession :: "'a AdminOutcome \<Rightarrow> ('w, 'a AdminOutcome) served" where
  "ensureSession out =
     (case out of AdminFailed unauthorized m \<Rightarrow> throw (RedirectTo ''/login'') | _ \<Rightarrow> ret out)"

definition with_session :: "(string option \<Rightarrow> ('w, 'a AdminOutcome) served) \<Rightarrow> ('w, 'a AdminOutcome) served" where
  "with_session call = andThen (getCookie ACCESS_COOKIE) (\<lambda>token. andThen (call token) ensureSession)"

definition loadAlertRulesFn :: "formats \<Rightarrow> 'w fetch \<Rightarrow> ('w, AlertRuleResponse list AdminOutcome) served" where
  "loadAlertRulesFn F fetch = with_session (listAlertRulesUpstream F fetch)"

definition createAlertRuleFn :: "formats \<Rightarrow> 'w fetch \<Rightarrow> json \<Rightarrow> ('w, AlertRuleResponse AdminOutcome) served" where
  "createAlertRuleFn F fetch data = with_session (\<lambda>t. createAlertRuleUpstream F fetch t data)"

definition updateAlertRuleFn :: "formats \<Rightarrow> 'w fetch \<Rightarrow> string \<Rightarrow> json \<Rightarrow> ('w, AlertRuleResponse AdminOutcome) served" where
  "updateAlertRuleFn F fetch ident patch = with_session (\<lambda>t. updateAlertRuleUpstream F fetch t ident patch)"

definition deleteAlertRuleFn :: "'w fetch \<Rightarrow> string \<Rightarrow> ('w, unit AdminOutcome) served" where
  "deleteAlertRuleFn fetch ident = with_session (\<lambda>t. deleteAlertRuleUpstream fetch t ident)"

definition loadAdminFn :: "formats \<Rightarrow> 'w fetch \<Rightarrow> ('w, AdminData) served" where
  "loadAdminFn F fetch =
     andThen (getCookie ACCESS_COOKIE) (\<lambda>token.
     andThen (loadAdminData F fetch token) (\<lambda>data.
     case data of None \<Rightarrow> throw (RedirectTo ''/login'') | Some d \<Rightarrow> ret d))"

definition createApiKeyFn :: "'w fetch \<Rightarrow> json \<Rightarrow> ('w, (ApiKeyResponse \<times> string) AdminOutcome) served" where
  "createApiKeyFn fetch data = with_session (\<lambda>t. createApiKeyUpstream fetch t data)"

definition revokeApiKeyFn :: "'w fetch \<Rightarrow> string \<Rightarrow> ('w, unit AdminOutcome) served" where
  "revokeApiKeyFn fetch ident = with_session (\<lambda>t. revokeApiKeyUpstream fetch t ident)"

definition cpListInvites :: "formats \<Rightarrow> 'w fetch \<Rightarrow> ('w, InviteResponse list AdminOutcome) served" where
  "cpListInvites F fetch = with_session (listInvitesUpstream F fetch)"

definition cpCreateInvite :: "formats \<Rightarrow> 'w fetch \<Rightarrow> json \<Rightarrow> ('w, (InviteResponse \<times> string) AdminOutcome) served" where
  "cpCreateInvite F fetch data = with_session (\<lambda>t. createInviteUpstream F fetch t data)"

definition cpRevokeInvite :: "'w fetch \<Rightarrow> string \<Rightarrow> ('w, unit AdminOutcome) served" where
  "cpRevokeInvite fetch ident = with_session (\<lambda>t. revokeInviteUpstream fetch t ident)"

definition createUserFn :: "formats \<Rightarrow> 'w fetch \<Rightarrow> json \<Rightarrow> ('w, UserResponse AdminOutcome) served" where
  "createUserFn F fetch data = with_session (\<lambda>t. createUserUpstream F fetch t data)"

definition updateUserFn :: "formats \<Rightarrow> 'w fetch \<Rightarrow> string \<Rightarrow> json \<Rightarrow> ('w, UserResponse AdminOutcome) served" where
  "updateUserFn F fetch ident patch = with_session (\<lambda>t. updateUserUpstream F fetch t ident patch)"

definition deleteUserFn :: "'w fetch \<Rightarrow> string \<Rightarrow> ('w, unit AdminOutcome) served" where
  "deleteUserFn fetch ident = with_session (\<lambda>t. deleteUserUpstream fetch t ident)"

definition updateRetentionFn :: "'w fetch \<Rightarrow> json \<Rightarrow> ('w, RetentionResponse AdminOutcome) served" where
  "updateRetentionFn fetch data = with_session (\<lambda>t. updateRetentionUpstream fetch t data)"

section \<open>Dashboards and saved queries\<close>

type_synonym 'a DashboardOutcome = "'a AdminOutcome"

fun mapDashboardError :: "web_error \<Rightarrow> AdminErrorKind \<times> string" where
  "mapDashboardError (ControlPlaneError status code message) =
     (if status = 401 then (unauthorized, ''Your session has ended.'')
      else if status = 403 then (forbidden, ''You do not have permission to do that.'')
      else if 400 \<le> status \<and> status < 500
      then (invalid, if message = [] then ''That request was invalid.'' else message)
      else (unavailable, ''Something went wrong. Please try again.''))"
| "mapDashboardError _ = (unavailable, ''Something went wrong. Please try again.'')"

definition dashboard_run ::
  "string option \<Rightarrow> (string \<Rightarrow> ('w, 'a) served) \<Rightarrow> ('w, 'a DashboardOutcome) served" where
  "dashboard_run token call =
     (case token of
        None \<Rightarrow> ret (AdminFailed unauthorized ''Your session has ended.'')
      | Some t \<Rightarrow>
          if t = [] then ret (AdminFailed unauthorized ''Your session has ended.'')
          else tryCatch (andThen (call t) (\<lambda>x. ret (AdminOk x)))
                 (\<lambda>err. ret (case mapDashboardError err of (k, m) \<Rightarrow> AdminFailed k m)))"

definition dashboard_ensureSession :: "'a DashboardOutcome \<Rightarrow> ('w, 'a DashboardOutcome) served" where
  "dashboard_ensureSession out =
     (case out of AdminFailed unauthorized m \<Rightarrow> throw (RedirectTo ''/login'') | _ \<Rightarrow> ret out)"

definition dashboard_session ::
  "(string option \<Rightarrow> ('w, 'a DashboardOutcome) served) \<Rightarrow> ('w, 'a DashboardOutcome) served" where
  "dashboard_session call =
     andThen (getCookie ACCESS_COOKIE) (\<lambda>token. andThen (call token) dashboard_ensureSession)"

definition listDashboardsUpstream :: "'w fetch \<Rightarrow> string option \<Rightarrow> ('w, DashboardResponse list DashboardOutcome) served" where
  "listDashboardsUpstream fetch token =
     dashboard_run token (\<lambda>t. cpAuthedFetch fetch t ''/v1/dashboards'' (list_schema ''dashboards'' dashboardResponseSchema))"

definition getDashboardUpstream :: "'w fetch \<Rightarrow> string option \<Rightarrow> string \<Rightarrow> ('w, DashboardResponse DashboardOutcome) served" where
  "getDashboardUpstream fetch token ident =
     dashboard_run token (\<lambda>t. cpAuthedFetch fetch t (''/v1/dashboards/'' @ ident) dashboardResponseSchema)"

definition createDashboardUpstream :: "'w fetch \<Rightarrow> string option \<Rightarrow> json \<Rightarrow> ('w, DashboardResponse DashboardOutcome) served" where
  "createDashboardUpstream fetch token body =
     dashboard_run token (\<lambda>t. cpAuthedSend fetch t ''POST'' ''/v1/dashboards'' dashboardResponseSchema (Some body))"

definition updateDashboardUpstream ::
  "'w fetch \<Rightarrow> string option \<Rightarrow> string \<Rightarrow> json \<Rightarrow> ('w, DashboardResponse DashboardOutcome) served" where
  "updateDashboardUpstream fetch token ident body =
     dashboard_run token (\<lambda>t. cpAuthedSend fetch t ''PATCH'' (''/v1/dashboards/'' @ ident) dashboardResponseSchema (Some body))"

definition deleteDashboardUpstream :: "'w fetch \<Rightarrow> string option \<Rightarrow> string \<Rightarrow> ('w, unit DashboardOutcome) served" where
  "deleteDashboardUpstream fetch token ident =
     dashboard_run token (\<lambda>t. cpAuthedSend fetch t ''DELETE'' (''/v1/dashboards/'' @ ident) noContentSchema None)"

definition listSavedQueriesUpstream :: "'w fetch \<Rightarrow> string option \<Rightarrow> ('w, SavedQueryResponse list DashboardOutcome) served" where
  "listSavedQueriesUpstream fetch token =
     dashboard_run token (\<lambda>t. cpAuthedFetch fetch t ''/v1/saved-queries'' (list_schema ''savedQueries'' savedQueryResponseSchema))"

definition loadDashboardsFn :: "'w fetch \<Rightarrow> ('w, DashboardResponse list DashboardOutcome) served" where
  "loadDashboardsFn fetch = dashboard_session (listDashboardsUpstream fetch)"

definition loadDashboardFn :: "'w fetch \<Rightarrow> string \<Rightarrow> ('w, DashboardResponse DashboardOutcome) served" where
  "loadDashboardFn fetch ident = dashboard_session (\<lambda>t. getDashboardUpstream fetch t ident)"

definition createDashboardFn :: "'w fetch \<Rightarrow> json \<Rightarrow> ('w, DashboardResponse DashboardOutcome) served" where
  "createDashboardFn fetch data = dashboard_session (\<lambda>t. createDashboardUpstream fetch t data)"

definition updateDashboardFn :: "'w fetch \<Rightarrow> string \<Rightarrow> json \<Rightarrow> ('w, DashboardResponse DashboardOutcome) served" where
  "updateDashboardFn fetch ident patch = dashboard_session (\<lambda>t. updateDashboardUpstream fetch t ident patch)"

definition deleteDashboardFn :: "'w fetch \<Rightarrow> string \<Rightarrow> ('w, unit DashboardOutcome) served" where
  "deleteDashboardFn fetch ident = dashboard_session (\<lambda>t. deleteDashboardUpstream fetch t ident)"

definition loadSavedQueriesFn :: "'w fetch \<Rightarrow> ('w, SavedQueryResponse list DashboardOutcome) served" where
  "loadSavedQueriesFn fetch = dashboard_session (listSavedQueriesUpstream fetch)"

end
