(* ===== verification/Web_Laws.thy ===== *)
theory Web_Laws
  imports Web_Oidc Web_Admin Contract_Laws Login_Laws
begin

text \<open>
  What the web server guarantees: who passes the session guard, what a sign-in leaves in the
  browser, which requests reach the control plane, and, with the model of the control plane
  behind \<open>fetch\<close>, that the two halves agree.
\<close>

section \<open>Cookies\<close>

lemma cookie_update [simp]: "cookie n (AList.update m (v, a) j) = (if n = m then Some v else cookie n j)"
  by (simp add: cookie_def update_conv')

lemma cookie_delete [simp]: "cookie n (AList.delete m j) = (if n = m then None else cookie n j)"
  by (simp add: cookie_def delete_conv')

lemma cookie_names [simp]:
  "ACCESS_COOKIE \<noteq> REFRESH_COOKIE" "REFRESH_COOKIE \<noteq> ACCESS_COOKIE"
  "ACCESS_COOKIE \<notin> {OIDC_TENANT_COOKIE, OIDC_RETURN_COOKIE, OIDC_STATE_COOKIE, INVITE_TOKEN_COOKIE}"
  "REFRESH_COOKIE \<notin> {OIDC_TENANT_COOKIE, OIDC_RETURN_COOKIE, OIDC_STATE_COOKIE, INVITE_TOKEN_COOKIE}"
  by (simp_all add: ACCESS_COOKIE_def REFRESH_COOKIE_def OIDC_TENANT_COOKIE_def OIDC_RETURN_COOKIE_def
      OIDC_STATE_COOKIE_def INVITE_TOKEN_COOKIE_def)

lemmas served_defs =
  andThen_def tryCatch_def ret_def throw_def getS_def updS_def getCookie_def setCookie_def deleteCookie_def

text \<open>The cookies after the session cookies were written or cleared.\<close>

definition written :: "web_env \<Rightarrow> SessionTokens \<Rightarrow> jar \<Rightarrow> jar" where
  "written V pair j =
     AList.update REFRESH_COOKIE (st_refreshToken pair, sessionCookieAttributes V)
       (AList.update ACCESS_COOKIE (st_accessToken pair, sessionCookieAttributes V) j)"

definition cleared :: "jar \<Rightarrow> jar" where
  "cleared j = AList.delete REFRESH_COOKIE (AList.delete ACCESS_COOKIE j)"

lemma cookie_written [simp]:
  "cookie n (written V pair j) =
     (if n = REFRESH_COOKIE then Some (st_refreshToken pair)
      else if n = ACCESS_COOKIE then Some (st_accessToken pair) else cookie n j)"
  by (simp add: written_def)

lemma cookie_cleared [simp]:
  "cookie n (cleared j) = (if n = REFRESH_COOKIE \<or> n = ACCESS_COOKIE then None else cookie n j)"
  by (simp add: cleared_def)

lemma writeSessionCookies_run: "writeSessionCookies V pair s = (Inr (), s\<lparr>wb_jar := written V pair (wb_jar s)\<rparr>)"
  by (simp add: writeSessionCookies_def written_def served_defs)

lemma clearSessionCookies_run: "clearSessionCookies s = (Inr (), s\<lparr>wb_jar := cleared (wb_jar s)\<rparr>)"
  by (simp add: clearSessionCookies_def cleared_def served_defs)

lemma no_session_run: "no_session s = (Inr None, s\<lparr>wb_jar := cleared (wb_jar s)\<rparr>)"
  by (simp add: no_session_def clearSessionCookies_run served_defs)

lemma schema_parse_run: "schema_parse z b s = (case z b of Some x \<Rightarrow> Inr x | None \<Rightarrow> Inl ZodError, s)"
  by (simp add: schema_parse_def ret_def throw_def split: option.split)

section \<open>The session guard\<close>

text \<open>A call of the control plane leaves the cookies alone.\<close>

lemma cpFetch_jar: "cpFetch fetch m path hs body s = (r, s') \<Longrightarrow> wb_jar s' = wb_jar s"
  by (auto simp: cpFetch_def Let_def split: prod.splits http_result.splits if_splits)

lemma cp_post_schema_jar:
  "andThen (cp_post fetch path body) (schema_parse z) s = (r, s') \<Longrightarrow> wb_jar s' = wb_jar s"
  by (auto simp: cp_post_def andThen_def schema_parse_run dest: cpFetch_jar
      split: prod.splits sum.splits option.splits)

lemma cpRefresh_jar: "cpRefresh fetch t s = (r, s') \<Longrightarrow> wb_jar s' = wb_jar s"
  unfolding cpRefresh_def by (rule cp_post_schema_jar)

lemma refresh_session_run:
  "refresh_session V fetch s =
     (case cookie REFRESH_COOKIE (wb_jar s) of
        None \<Rightarrow> (Inr None, s\<lparr>wb_jar := cleared (wb_jar s)\<rparr>)
      | Some t \<Rightarrow>
          if t = [] then (Inr None, s\<lparr>wb_jar := cleared (wb_jar s)\<rparr>)
          else (case cpRefresh fetch t s of
            (Inl e, s') \<Rightarrow> (Inr None, s'\<lparr>wb_jar := cleared (wb_jar s)\<rparr>)
          | (Inr pair, s') \<Rightarrow>
              (case decodeAccessClaims (Some (st_accessToken pair)) of
                 None \<Rightarrow> (Inr None, s'\<lparr>wb_jar := cleared (wb_jar s)\<rparr>)
               | Some fresh \<Rightarrow>
                   (Inr (Some (sessionFromClaims fresh)), s'\<lparr>wb_jar := written V pair (wb_jar s)\<rparr>))))"
  by (auto simp: refresh_session_def getCookie_def getS_def andThen_def tryCatch_def ret_def no_session_run
      writeSessionCookies_run dest: cpRefresh_jar split: option.splits prod.splits sum.splits)


lemma getSession_run:
  "getSession V fetch now s =
     (case decodeAccessClaims (cookie ACCESS_COOKIE (wb_jar s)) of
        None \<Rightarrow> refresh_session V fetch s
      | Some claims \<Rightarrow>
          if isExpired claims now then refresh_session V fetch s else (Inr (Some (sessionFromClaims claims)), s))"
  by (simp add: getSession_def getCookie_def getS_def andThen_def ret_def split: option.split)

text \<open>
  C36. The session guard fails closed. A page below the guard is served with a session only when the
  access cookie decodes to claims that have not expired, and then nothing changes and nothing is
  requested, or when the control plane exchanged the refresh cookie for a pair, and then the session
  is the one of the new access token and the browser holds the new pair. In every other case the
  guard redirects to the login page and both session cookies are gone.
\<close>

theorem session_guard_fails_closed:
  assumes "authed_beforeLoad V fetch now s = (r, s')"
  shows "case r of
      Inr cs \<Rightarrow>
        (\<exists>claims. decodeAccessClaims (cookie ACCESS_COOKIE (wb_jar s)) = Some claims \<and> \<not> isExpired claims now
           \<and> cs = sessionFromClaims claims \<and> s' = s)
        \<or> (\<exists>t pair claims up. cookie REFRESH_COOKIE (wb_jar s) = Some t \<and> t \<noteq> []
           \<and> cpRefresh fetch t s = (Inr pair, up) \<and> decodeAccessClaims (Some (st_accessToken pair)) = Some claims
           \<and> cs = sessionFromClaims claims \<and> s' = up\<lparr>wb_jar := written V pair (wb_jar s)\<rparr>)
    | Inl e \<Rightarrow> e = RedirectTo ''/login'' \<and> wb_jar s' = cleared (wb_jar s)"
  using assms
  by (auto simp: authed_beforeLoad_def getSession_run refresh_session_run andThen_def ret_def throw_def
      split: option.splits if_splits prod.splits sum.splits)

definition sample_web_env :: web_env where
  "sample_web_env = \<lparr> we_COOKIE_SECURE = None, we_NODE_ENV = Some ''production'' \<rparr>"

definition sample_jar :: "(string \<times> string) list \<Rightarrow> jar" where
  "sample_jar kvs = map (\<lambda>(k, v). (k, v, sessionCookieAttributes sample_web_env)) kvs"

text \<open>A refresh cookie the control plane does not take.\<close>

theorem session_guard_fails_closed_witness:
  "\<exists>s'. authed_beforeLoad sample_web_env (\<lambda>q w. (FetchResponse 401 [] None, w)) 0
      \<lparr> wb_jar = sample_jar [(''lg_rt'', ''old''), (''theme'', ''dark'')], wb_up = () \<rparr> = (Inl (RedirectTo ''/login''), s')
    \<and> cookie ''lg_rt'' (wb_jar s') = None \<and> cookie ''theme'' (wb_jar s') = Some ''dark''"
proof -
  let ?s = "\<lparr> wb_jar = sample_jar [(''lg_rt'', ''old''), (''theme'', ''dark'')], wb_up = () \<rparr>"
  obtain s' where run: "authed_beforeLoad sample_web_env (\<lambda>q w. (FetchResponse 401 [] None, w)) 0 ?s =
      (Inl (RedirectTo ''/login''), s')"
    by (simp add: authed_beforeLoad_def getSession_run refresh_session_run sample_jar_def cookie_def ACCESS_COOKIE_def
        REFRESH_COOKIE_def decodeAccessClaims_def cpRefresh_def cp_post_def cpFetch_def read_body_def status_ok_def
        andThen_def throw_def Let_def)
  from session_guard_fails_closed [OF this] have "wb_jar s' = cleared (wb_jar ?s)" by simp
  with run show ?thesis by (simp add: REFRESH_COOKIE_def ACCESS_COOKIE_def) (simp add: cookie_def sample_jar_def)
qed

section \<open>Requests on record\<close>

text \<open>The control plane with a record of the requests it received.\<close>

definition recording :: "'w fetch \<Rightarrow> (http_request list \<times> 'w) fetch" where
  "recording fetch q lw = (case fetch q (snd lw) of (r, w') \<Rightarrow> (r, (fst lw @ [q], w')))"

definition post_request :: "string \<Rightarrow> json \<Rightarrow> http_request" where
  "post_request path body =
     \<lparr> hr_method = ''POST'', hr_path = path, hr_params = [], hr_headers = [(''content-type'', ''application/json'')],
       hr_body = Some (JSON_stringify body) \<rparr>"

definition get_request :: "string \<Rightarrow> string \<Rightarrow> http_request" where
  "get_request token path =
     \<lparr> hr_method = ''GET'', hr_path = path, hr_params = [], hr_headers = [bearer_header token], hr_body = None \<rparr>"

lemma cpFetch_recording:
  "\<exists>r up. cpFetch (recording fetch) m path hs body s =
     (r, s\<lparr>wb_up := (fst (wb_up s) @ [\<lparr> hr_method = m, hr_path = path, hr_params = [],
        hr_headers = (if body \<noteq> None then [(''content-type'', ''application/json'')] else []) @ hs, hr_body = body \<rparr>], up)\<rparr>)"
  by (auto simp: cpFetch_def recording_def Let_def split: prod.splits http_result.splits)

lemma cp_post_recording:
  "\<exists>r up. cp_post (recording fetch) path body s = (r, s\<lparr>wb_up := (fst (wb_up s) @ [post_request path body], up)\<rparr>)"
  using cpFetch_recording [of fetch "''POST''" path "[]" "Some (JSON_stringify body)" s]
  by (simp add: cp_post_def post_request_def)

section \<open>Google sign-in\<close>

definition handshake_cookies :: "string list" where
  "handshake_cookies = [OIDC_TENANT_COOKIE, OIDC_RETURN_COOKIE, OIDC_STATE_COOKIE, INVITE_TOKEN_COOKIE]"

definition no_handshake :: "jar \<Rightarrow> jar" where
  "no_handshake j = fold AList.delete handshake_cookies j"

lemma clearOidcCookies_run: "clearOidcCookies s = (Inr (), s\<lparr>wb_jar := no_handshake (wb_jar s)\<rparr>)"
  by (simp add: clearOidcCookies_def no_handshake_def handshake_cookies_def served_defs)

lemma cookie_no_handshake [simp]:
  "cookie n (no_handshake j) = (if n \<in> set handshake_cookies then None else cookie n j)"
  by (simp add: no_handshake_def handshake_cookies_def)

lemma session_not_handshake [simp]:
  "ACCESS_COOKIE \<notin> set handshake_cookies" "REFRESH_COOKIE \<notin> set handshake_cookies"
  using cookie_names by (auto simp: handshake_cookies_def)

text \<open>The state the browser was given when the flow began.\<close>

definition state_bound :: "jar \<Rightarrow> string \<Rightarrow> bool" where
  "state_bound j state \<longleftrightarrow> cookie OIDC_STATE_COOKIE j = Some state \<and> state \<noteq> []"

lemma completeGoogleSignin_unbound:
  "\<not> state_bound (wb_jar s) state \<Longrightarrow>
   completeGoogleSignin V fetch (slug, code, state) s = (Inr (CompleteFailed ''Sign-in failed''), s\<lparr>wb_jar := no_handshake (wb_jar s)\<rparr>)"
  by (auto simp: completeGoogleSignin_def state_bound_def getCookie_def getS_def andThen_def clearOidcCookies_run ret_def)

lemma completeGoogleSignin_bound:
  "state_bound (wb_jar s) state \<Longrightarrow>
   completeGoogleSignin V fetch (slug, code, state) s =
     (case cpOidcCallback fetch (callback_request_json slug code state (cookie INVITE_TOKEN_COOKIE (wb_jar s))) s of
        (Inl e, s') \<Rightarrow>
          ((case e of
              ControlPlaneError status c message \<Rightarrow>
                Inr (CompleteFailed (if 400 \<le> status \<and> status < 500 then ''Sign-in failed''
                     else ''Sign-in is temporarily unavailable. Please try again.''))
            | _ \<Rightarrow> Inl e), s'\<lparr>wb_jar := no_handshake (wb_jar s')\<rparr>)
      | (Inr pair, s') \<Rightarrow>
          (case decodeAccessClaims (Some (st_accessToken pair)) of
             None \<Rightarrow> (Inr (CompleteFailed ''Sign-in failed''), s'\<lparr>wb_jar := no_handshake (wb_jar s')\<rparr>)
           | Some claims \<Rightarrow>
               (Inr (CompleteOk (sessionFromClaims claims) (cookie OIDC_RETURN_COOKIE (wb_jar s))),
                s'\<lparr>wb_jar := no_handshake (written V pair (wb_jar s'))\<rparr>)))"
  by (auto simp: completeGoogleSignin_def state_bound_def getCookie_def getS_def andThen_def tryCatch_def ret_def throw_def
      clearOidcCookies_run writeSessionCookies_run split: prod.splits sum.splits option.splits web_error.splits)

lemma completeGoogleSignin_bound_to_browser:
  assumes "completeGoogleSignin V (recording fetch) (slug, code, state) \<lparr> wb_jar = j, wb_up = ([], w) \<rparr> = (r, s')"
  shows "list_all (\<lambda>n. cookie n (wb_jar s') = None) handshake_cookies
    \<and> fst (wb_up s') = (if state_bound j state
        then [post_request ''/v1/auth/oidc/google/callback''
                (callback_request_json slug code state (cookie INVITE_TOKEN_COOKIE j))]
        else [])
    \<and> (case r of
         Inr (CompleteOk cs returnTo) \<Rightarrow>
           state_bound j state \<and> returnTo = cookie OIDC_RETURN_COOKIE j
           \<and> (\<exists>pair claims. fst (cpOidcCallback (recording fetch)
                    (callback_request_json slug code state (cookie INVITE_TOKEN_COOKIE j)) \<lparr> wb_jar = j, wb_up = ([], w) \<rparr>) = Inr pair
                \<and> decodeAccessClaims (Some (st_accessToken pair)) = Some claims \<and> cs = sessionFromClaims claims
                \<and> wb_jar s' = no_handshake (written V pair j))
       | _ \<Rightarrow> wb_jar s' = no_handshake j)"
proof (cases "state_bound j state")
  case False
  with assms show ?thesis by (auto simp: completeGoogleSignin_unbound list_all_iff)
next
  case True
  let ?s = "\<lparr> wb_jar = j, wb_up = ([], w) \<rparr>"
  let ?body = "callback_request_json slug code state (cookie INVITE_TOKEN_COOKIE j)"
  obtain q up where post: "cp_post (recording fetch) ''/v1/auth/oidc/google/callback'' ?body ?s =
      (q, ?s\<lparr>wb_up := ([post_request ''/v1/auth/oidc/google/callback'' ?body], up)\<rparr>)"
    using cp_post_recording [of fetch "''/v1/auth/oidc/google/callback''" ?body ?s] by auto
  then obtain q' where "cpOidcCallback (recording fetch) ?body ?s =
      (q', ?s\<lparr>wb_up := ([post_request ''/v1/auth/oidc/google/callback'' ?body], up)\<rparr>)"
    by (cases q) (auto simp: cpOidcCallback_def andThen_def schema_parse_run split: option.splits)
  with assms True show ?thesis
    by (cases q') (auto simp: completeGoogleSignin_bound list_all_iff split: option.splits web_error.splits)
qed

text \<open>
  What the callback page hands to the server function: nothing when Google reports an error, a
  parameter is missing, the tenant cookie is gone or the validator refuses.
\<close>

definition callback_data :: "string option \<Rightarrow> string \<Rightarrow> string \<Rightarrow> jar \<Rightarrow> (string \<times> string \<times> string) option" where
  "callback_data error code state j =
     (case (error, cookie OIDC_TENANT_COOKIE j) of
        (Some (c # cs), _) \<Rightarrow> None
      | (_, Some (c # cs)) \<Rightarrow>
          if code = [] \<or> state = [] then None
          else oidcCallbackClientRequestSchema (callback_input (c # cs) code state)
      | _ \<Rightarrow> None)"

lemma callback_not_exchanged:
  "callback_data error code state (wb_jar s) = None \<Longrightarrow>
     snd (callback_loader V fetch code state error s) = s \<and> fst (callback_loader V fetch code state error s) \<noteq> Inl (RedirectTo d)"
  by (auto simp: callback_loader_def callback_data_def getOidcTenantSlug_def getCookie_def getS_def andThen_def ret_def throw_def
      schema_parse_run split: option.splits list.splits)

lemma callback_exchanged:
  "callback_data error code state (wb_jar s) = Some data \<Longrightarrow>
     snd (callback_loader V fetch code state error s) = snd (completeGoogleSignin V fetch data s)"
  by (auto simp: callback_loader_def callback_data_def getOidcTenantSlug_def getCookie_def getS_def andThen_def ret_def throw_def
      schema_parse_run split: option.splits list.splits prod.splits sum.splits CompleteGoogleSigninResult.splits)

text \<open>
  C37. A Google sign-in is bound to the browser that began it. Once the server function runs, the
  control plane is asked only when the returned state is the one in the state cookie, once, and the
  invite token it is given is the one of the invite cookie. However the function ends, by a message,
  an error or a session, the four handshake cookies are gone; the session cookies change only with a
  session, to the pair the control plane answered with, whose claims the session shows. The callback
  page leaves the browser's cookies and the control plane to that function: when it does call it,
  they end as the function leaves them; when it does not, because Google reported an error, a
  parameter is missing, the tenant cookie is gone or the validator refuses, nothing is asked, no
  redirect happens and every cookie stays, those of the handshake included.
\<close>

theorem google_signin_browser_bound:
  assumes "completeGoogleSignin V (recording fetch) (slug, code, state) \<lparr> wb_jar = j, wb_up = ([], w) \<rparr> = (r, s')"
  shows "list_all (\<lambda>n. cookie n (wb_jar s') = None) handshake_cookies
    \<and> fst (wb_up s') = (if state_bound j state
        then [post_request ''/v1/auth/oidc/google/callback''
                (callback_request_json slug code state (cookie INVITE_TOKEN_COOKIE j))]
        else [])
    \<and> (case r of
         Inr (CompleteOk cs returnTo) \<Rightarrow>
           state_bound j state \<and> returnTo = cookie OIDC_RETURN_COOKIE j
           \<and> (\<exists>pair claims. fst (cpOidcCallback (recording fetch)
                    (callback_request_json slug code state (cookie INVITE_TOKEN_COOKIE j)) \<lparr> wb_jar = j, wb_up = ([], w) \<rparr>) = Inr pair
                \<and> decodeAccessClaims (Some (st_accessToken pair)) = Some claims \<and> cs = sessionFromClaims claims
                \<and> wb_jar s' = no_handshake (written V pair j))
       | _ \<Rightarrow> wb_jar s' = no_handshake j)
    \<and> (\<forall>error c st. case callback_data error c st j of
          None \<Rightarrow> snd (callback_loader V (recording fetch) c st error \<lparr> wb_jar = j, wb_up = ([], w) \<rparr>)
              = \<lparr> wb_jar = j, wb_up = ([], w) \<rparr>
            \<and> (\<forall>d. fst (callback_loader V (recording fetch) c st error \<lparr> wb_jar = j, wb_up = ([], w) \<rparr>) \<noteq> Inl (RedirectTo d))
        | Some data \<Rightarrow> data = (slug, code, state) \<longrightarrow>
            snd (callback_loader V (recording fetch) c st error \<lparr> wb_jar = j, wb_up = ([], w) \<rparr>) = s')"
proof -
  let ?s = "\<lparr> wb_jar = j, wb_up = ([], w) \<rparr>"
  have loader: "case callback_data error c st j of
      None \<Rightarrow> snd (callback_loader V (recording fetch) c st error ?s) = ?s
        \<and> (\<forall>d. fst (callback_loader V (recording fetch) c st error ?s) \<noteq> Inl (RedirectTo d))
    | Some data \<Rightarrow> data = (slug, code, state) \<longrightarrow> snd (callback_loader V (recording fetch) c st error ?s) = s'" for error c st
    using callback_not_exchanged [of error c st ?s V "recording fetch"] callback_exchanged [of error c st ?s _ V "recording fetch"] assms
    by (auto split: option.split)
  show ?thesis using completeGoogleSignin_bound_to_browser [OF assms] loader by blast
qed

text \<open>A callback in the browser that began the flow, after an invite link: the control plane is down.\<close>

theorem google_signin_browser_bound_witness:
  "\<exists>r s'. completeGoogleSignin sample_web_env (recording (\<lambda>q w. (FetchRejected, w))) (''acme'', ''c'', ''st'')
      \<lparr> wb_jar = sample_jar [(''lg_oidc_state'', ''st''), (''lg_invite_token'', ''lgi_acme_x'')], wb_up = ([], ()) \<rparr> = (r, s')
    \<and> cookie ''lg_invite_token'' (wb_jar s') = None
    \<and> map hr_body (fst (wb_up s')) = [Some (JSON_stringify (JObj [(''tenantSlug'', JStr ''acme''), (''code'', JStr ''c''),
        (''state'', JStr ''st''), (''inviteToken'', JStr ''lgi_acme_x'')]))]"
proof -
  let ?j = "sample_jar [(''lg_oidc_state'', ''st''), (''lg_invite_token'', ''lgi_acme_x'')]"
  obtain r s' where run: "completeGoogleSignin sample_web_env (recording (\<lambda>q w. (FetchRejected, w))) (''acme'', ''c'', ''st'')
      \<lparr> wb_jar = ?j, wb_up = ([], ()) \<rparr> = (r, s')" by (cases "completeGoogleSignin sample_web_env
        (recording (\<lambda>q w. (FetchRejected, w))) (''acme'', ''c'', ''st'') \<lparr> wb_jar = ?j, wb_up = ([], ()) \<rparr>")
  have "state_bound ?j ''st''" "cookie INVITE_TOKEN_COOKIE ?j = Some ''lgi_acme_x''"
    by (simp_all add: state_bound_def cookie_def sample_jar_def OIDC_STATE_COOKIE_def INVITE_TOKEN_COOKIE_def)
  with google_signin_browser_bound [OF run] run show ?thesis
    by (simp add: handshake_cookies_def INVITE_TOKEN_COOKIE_def post_request_def callback_request_json_def)
qed

lemma cpFetch_error: "cpFetch fetch m path hs body s = (Inl e, s') \<Longrightarrow> e \<noteq> RedirectTo d"
  by (auto simp: cpFetch_def Let_def split: prod.splits http_result.splits if_splits)

lemma cpOidcCallback_error: "cpOidcCallback fetch body s = (Inl e, s') \<Longrightarrow> e \<noteq> RedirectTo d"
  by (auto simp: cpOidcCallback_def cp_post_def andThen_def schema_parse_run dest: cpFetch_error
      split: prod.splits sum.splits option.splits)

lemma completeGoogleSignin_error: "completeGoogleSignin V fetch data s = (Inl e, s') \<Longrightarrow> e \<noteq> RedirectTo d"
  by (cases data, cases "state_bound (wb_jar s) (snd (snd data))")
     (auto simp: completeGoogleSignin_unbound completeGoogleSignin_bound dest: cpOidcCallback_error
       split: prod.splits sum.splits option.splits web_error.splits)

text \<open>
  C38. The sign-in page never sends the browser off the site. Wherever the callback page redirects, to
  the stored return path or to the default, the target is a path that begins with a single slash and
  has no control character, whatever the browser sent as cookies and parameters.
\<close>

theorem callback_redirect_stays_on_site:
  assumes "callback_loader V fetch code state error s = (Inl (RedirectTo d), s')"
  shows "relative_path d \<and> \<not> hasControlChar d
    \<and> (d = ''/app'' \<or> cookie OIDC_RETURN_COOKIE (wb_jar s) = Some d)"
proof -
  obtain slug data t returnTo where run: "d = callback_destination returnTo"
    "completeGoogleSignin V fetch data s = (Inr (CompleteOk t returnTo), s')"
    using assms
    by (auto simp: callback_loader_def getOidcTenantSlug_def getCookie_def getS_def andThen_def ret_def throw_def
        schema_parse_run dest: completeGoogleSignin_error
        split: if_splits option.splits prod.splits sum.splits CompleteGoogleSigninResult.splits)
  then have "returnTo = cookie OIDC_RETURN_COOKIE (wb_jar s)"
    by (cases data, cases "state_bound (wb_jar s) (snd (snd data))")
       (auto simp: completeGoogleSignin_unbound completeGoogleSignin_bound
         split: prod.splits sum.splits option.splits web_error.splits)
  moreover have "relative_path ''/app'' \<and> \<not> hasControlChar ''/app''" by code_simp
  ultimately show ?thesis by (auto simp: run(1) callback_destination_def split: option.splits if_splits)
qed

section \<open>The administration page\<close>

text \<open>
  \<open>asks t ps P m\<close>: the program requests exactly the paths \<open>ps\<close> under the token \<open>t\<close>, leaves the
  cookies alone, throws nothing and returns a value with \<open>P\<close>.
\<close>

definition asks ::
  "string \<Rightarrow> string list \<Rightarrow> ('a \<Rightarrow> bool) \<Rightarrow> (http_request list \<times> 'w, 'a) served \<Rightarrow> bool" where
  "asks t ps P m \<longleftrightarrow>
     (\<forall>j seen w. \<exists>x up. m \<lparr> wb_jar = j, wb_up = (seen, w) \<rparr> =
        (Inr x, \<lparr> wb_jar = j, wb_up = (seen @ map (get_request t) ps, up) \<rparr>) \<and> P x)"

lemma asks_ret: "P x \<Longrightarrow> asks t [] P (ret x)"
  by (simp add: asks_def ret_def)

lemma asks_andThen:
  assumes "asks t ps P m" and "\<And>x. P x \<Longrightarrow> asks t qs Q (f x)"
  shows "asks t (ps @ qs) Q (andThen m f)"
  unfolding asks_def
proof (intro allI)
  fix j seen w
  obtain x up where x: "m \<lparr> wb_jar = j, wb_up = (seen, w) \<rparr> =
      (Inr x, \<lparr> wb_jar = j, wb_up = (seen @ map (get_request t) ps, up) \<rparr>)" "P x"
    using assms(1) unfolding asks_def by meson
  obtain y up' where "f x \<lparr> wb_jar = j, wb_up = (seen @ map (get_request t) ps, up) \<rparr> =
      (Inr y, \<lparr> wb_jar = j, wb_up = ((seen @ map (get_request t) ps) @ map (get_request t) qs, up') \<rparr>)" "Q y"
    using assms(2) [OF x(2)] unfolding asks_def by meson
  with x(1) show "\<exists>x up. andThen m f \<lparr> wb_jar = j, wb_up = (seen, w) \<rparr> =
      (Inr x, \<lparr> wb_jar = j, wb_up = (seen @ map (get_request t) (ps @ qs), up) \<rparr>) \<and> Q x"
    by (simp add: andThen_def)
qed

lemma cpAuthedFetch_recording:
  obtains r up where "cpAuthedFetch (recording fetch) t path z \<lparr> wb_jar = j, wb_up = (seen, w) \<rparr> =
    (r, \<lparr> wb_jar = j, wb_up = (seen @ [get_request t path], up) \<rparr>)"
proof -
  obtain r up where "cpFetch (recording fetch) ''GET'' path [bearer_header t] None \<lparr> wb_jar = j, wb_up = (seen, w) \<rparr> =
      (r, \<lparr> wb_jar = j, wb_up = (seen @ [get_request t path], up) \<rparr>)"
    using cpFetch_recording [of fetch "''GET''" path "[bearer_header t]" None "\<lparr> wb_jar = j, wb_up = (seen, w) \<rparr>"]
    by (auto simp: get_request_def)
  then show thesis by (cases r) (auto simp: cpAuthedFetch_def andThen_def schema_parse_run intro: that)
qed

lemma admin_run_asks:
  assumes "t \<noteq> []"
  shows "asks t [path] (\<lambda>_. True) (admin_run (Some t) (\<lambda>t. cpAuthedFetch (recording fetch) t path z))"
  unfolding asks_def
proof (intro allI)
  fix j seen and w :: 'b
  obtain r up where "cpAuthedFetch (recording fetch) t path z \<lparr> wb_jar = j, wb_up = (seen, w) \<rparr> =
      (r, \<lparr> wb_jar = j, wb_up = (seen @ [get_request t path], up) \<rparr>)" by (rule cpAuthedFetch_recording)
  with assms show "\<exists>x up. admin_run (Some t) (\<lambda>t. cpAuthedFetch (recording fetch) t path z) \<lparr> wb_jar = j, wb_up = (seen, w) \<rparr> =
      (Inr x, \<lparr> wb_jar = j, wb_up = (seen @ map (get_request t) [path], up) \<rparr>) \<and> True"
    by (cases r) (simp_all add: admin_run_def tryCatch_def andThen_def ret_def)
qed

lemma retention_asks:
  assumes "t \<noteq> []"
  shows "asks t [''/v1/retention''] (\<lambda>_. True) (getRetentionUpstream (recording fetch) (Some t))"
  unfolding asks_def
proof (intro allI)
  fix j seen and w :: 'a
  obtain r up where "cpAuthedFetch (recording fetch) t ''/v1/retention'' retentionResponseSchema \<lparr> wb_jar = j, wb_up = (seen, w) \<rparr> =
      (r, \<lparr> wb_jar = j, wb_up = (seen @ [get_request t ''/v1/retention''], up) \<rparr>)" by (rule cpAuthedFetch_recording)
  with assms show "\<exists>x up. getRetentionUpstream (recording fetch) (Some t) \<lparr> wb_jar = j, wb_up = (seen, w) \<rparr> =
      (Inr x, \<lparr> wb_jar = j, wb_up = (seen @ map (get_request t) [''/v1/retention''], up) \<rparr>) \<and> True"
    by (cases r) (simp_all add: getRetentionUpstream_def admin_run_def tryCatch_def andThen_def ret_def throw_def
        split: web_error.split)
qed

lemma if_allowed_asks:
  assumes "asks t [path] (\<lambda>_. True) m"
  shows "asks t (if b then [path] else []) (\<lambda>x. x = None \<longleftrightarrow> \<not> b) (if_allowed b m)"
proof (cases b)
  case True
  have "asks t ([path] @ []) (\<lambda>x. x \<noteq> None) (andThen m (\<lambda>x. ret (Some x)))"
    by (rule asks_andThen [OF assms]) (simp add: asks_ret)
  with True show ?thesis by (simp add: if_allowed_def)
qed (simp add: if_allowed_def asks_ret)

definition admin_paths :: "AccessClaims \<Rightarrow> string list" where
  "admin_paths c =
     [''/v1/tenants/'' @ ac_tenant_id c] @ [''/v1/retention'']
     @ (if ui_can (ac_role c) User_list then [''/v1/users''] else [])
     @ (if ui_can (ac_role c) Apikey_list then [''/v1/api-keys''] else [])
     @ (if ui_can (ac_role c) Invite_list then [''/v1/invites''] else [])"

definition admin_shown :: "AccessClaims \<Rightarrow> AdminData \<Rightarrow> bool" where
  "admin_shown c d \<longleftrightarrow> adm_role d = ac_role c
     \<and> (adm_users d = None \<longleftrightarrow> \<not> ui_can (ac_role c) User_list)
     \<and> (adm_apiKeys d = None \<longleftrightarrow> \<not> ui_can (ac_role c) Apikey_list)
     \<and> (adm_invites d = None \<longleftrightarrow> \<not> ui_can (ac_role c) Invite_list)"

lemma loadAdminData_asks:
  assumes "decodeAccessClaims (Some t) = Some c"
  shows "asks t (admin_paths c) (\<lambda>x. \<exists>d. x = Some d \<and> admin_shown c d) (loadAdminData F (recording fetch) (Some t))"
proof -
  have t: "t \<noteq> []" using assms by (auto simp: decodeAccessClaims_def)
  have "asks t (admin_paths c @ []) (\<lambda>x. \<exists>d. x = Some d \<and> admin_shown c d) (loadAdminData F (recording fetch) (Some t))"
    unfolding loadAdminData_def assms option.case admin_paths_def append_assoc
      getTenantUpstream_def listUsersUpstream_def listApiKeysUpstream_def listInvitesUpstream_def
    by (rule asks_andThen, rule admin_run_asks [OF t], rule asks_andThen, rule retention_asks [OF t],
        rule asks_andThen, rule if_allowed_asks, rule admin_run_asks [OF t],
        rule asks_andThen, rule if_allowed_asks, rule admin_run_asks [OF t],
        rule asks_andThen, rule if_allowed_asks, rule admin_run_asks [OF t], rule asks_ret) (simp add: admin_shown_def)
  then show ?thesis by simp
qed

text \<open>
  C39. The administration page asks for the lists the role may read and for no others. With a session
  it requests the tenant of the token and the retention policy for every role, and the users, API
  keys and invites exactly when the role of the token has the permission, each once, in this order
  and under the token of the cookie; a list without permission is absent from the page. The
  retention policy is requested for a platform operator too, the one role without the permission
  for it. Requests that fail, also by a 401, become parts of the page: it neither throws nor
  redirects. Without a session nothing is requested and the page redirects.
\<close>

theorem admin_page_minimal:
  assumes "loadAdminFn F (recording fetch) \<lparr> wb_jar = j, wb_up = ([], w) \<rparr> = (r, s')"
  shows "wb_jar s' = j
    \<and> (case decodeAccessClaims (cookie ACCESS_COOKIE j) of
         None \<Rightarrow> r = Inl (RedirectTo ''/login'') \<and> fst (wb_up s') = []
       | Some c \<Rightarrow>
           fst (wb_up s') = map (get_request (the (cookie ACCESS_COOKIE j))) (admin_paths c)
           \<and> (\<exists>d. r = Inr d \<and> admin_shown c d)
           \<and> (can (ac_role c) Retention_read \<longleftrightarrow> ac_role c \<noteq> platform_operator))"
proof (cases "decodeAccessClaims (cookie ACCESS_COOKIE j)")
  case None
  with assms show ?thesis
    by (auto simp: loadAdminFn_def loadAdminData_def getCookie_def getS_def andThen_def ret_def throw_def)
next
  case (Some c)
  then obtain t where t: "cookie ACCESS_COOKIE j = Some t" "decodeAccessClaims (Some t) = Some c"
    by (cases "cookie ACCESS_COOKIE j") (auto simp: decodeAccessClaims_def)
  obtain d up where "loadAdminData F (recording fetch) (Some t) \<lparr> wb_jar = j, wb_up = ([], w) \<rparr> =
      (Inr (Some d), \<lparr> wb_jar = j, wb_up = (map (get_request t) (admin_paths c), up) \<rparr>)" "admin_shown c d"
    using loadAdminData_asks [OF t(2), of F fetch] unfolding asks_def by (metis append_Nil)
  moreover have "can (ac_role c) Retention_read \<longleftrightarrow> ac_role c \<noteq> platform_operator"
    by (cases "ac_role c") (simp_all add: can_def can_name_def)
  ultimately show ?thesis using assms t
    by (auto simp: loadAdminFn_def getCookie_def getS_def andThen_def ret_def)
qed

section \<open>The relays\<close>

text \<open>The dashboard relay repeats the administration relay, as its comments say.\<close>

lemma mapDashboardError_mirrors: "mapDashboardError = mapAdminError"
proof
  show "mapDashboardError e = mapAdminError e" for e by (cases e) simp_all
qed

lemma dashboard_run_mirrors: "dashboard_run = admin_run"
  unfolding dashboard_run_def [abs_def] admin_run_def [abs_def] mapDashboardError_mirrors by (rule refl)

lemma dashboard_ensureSession_mirrors: "dashboard_ensureSession = ensureSession"
  unfolding dashboard_ensureSession_def [abs_def] ensureSession_def [abs_def] by (rule refl)

lemma dashboard_session_mirrors: "dashboard_session = with_session"
  unfolding dashboard_session_def [abs_def] with_session_def [abs_def] dashboard_ensureSession_mirrors by (rule refl)

text \<open>
  A relay throws nothing but the redirect to the login page, which it does exactly when there is no
  token or the control plane answered 401; it leaves the cookies alone if its call does.
\<close>

lemma relay_run:
  "with_session (\<lambda>token. admin_run token call) s =
     (case cookie ACCESS_COOKIE (wb_jar s) of
        None \<Rightarrow> (Inl (RedirectTo ''/login''), s)
      | Some t \<Rightarrow>
          if t = [] then (Inl (RedirectTo ''/login''), s)
          else (case call t s of
            (Inr x, s') \<Rightarrow> (Inr (AdminOk x), s')
          | (Inl e, s') \<Rightarrow>
              (if fst (mapAdminError e) = unauthorized then Inl (RedirectTo ''/login'')
               else Inr (AdminFailed (fst (mapAdminError e)) (snd (mapAdminError e))), s')))"
  by (auto simp: with_session_def admin_run_def getCookie_def getS_def andThen_def tryCatch_def ret_def throw_def
      ensureSession_def split: option.split prod.split sum.split AdminErrorKind.split)

text \<open>
  The administration and dashboard relays contain what goes wrong. A relayed call ends in its
  result, in a redirect to the login page, exactly when the browser has no access token or the
  control plane answered 401, or in a reported failure; the message of a failure is the control
  plane's own only for an answer between 400 and 499 other than 401 and 403, and without a token
  nothing is requested.
\<close>

theorem relay_outcomes:
  "with_session (\<lambda>token. admin_run token call) s =
     (case cookie ACCESS_COOKIE (wb_jar s) of
        None \<Rightarrow> (Inl (RedirectTo ''/login''), s)
      | Some t \<Rightarrow>
          if t = [] then (Inl (RedirectTo ''/login''), s)
          else (case call t s of
            (Inr x, s') \<Rightarrow> (Inr (AdminOk x), s')
          | (Inl (ControlPlaneError status code message), s') \<Rightarrow>
              (if status = 401 then Inl (RedirectTo ''/login'')
               else if status = 403 then Inr (AdminFailed forbidden ''You do not have permission to do that.'')
               else if 400 \<le> status \<and> status < 500
               then Inr (AdminFailed invalid (if message = [] then ''That request was invalid.'' else message))
               else Inr (AdminFailed unavailable ''Something went wrong. Please try again.''), s')
          | (Inl _, s') \<Rightarrow> (Inr (AdminFailed unavailable ''Something went wrong. Please try again.''), s')))
   \<and> dashboard_session (\<lambda>token. dashboard_run token call) s = with_session (\<lambda>token. admin_run token call) s"
  by (auto simp: relay_run dashboard_run_mirrors dashboard_session_mirrors split: option.split prod.split sum.split web_error.split)

section \<open>Access tokens in the web server\<close>

lemma b64_value_char: "n < 64 \<Longrightarrow> b64_value (b64_char n) = Some n"
  by (auto simp: b64_value_def b64_char_def Let_def)

lemma b64_char_no_dot: "n < 64 \<Longrightarrow> b64_char n \<noteq> CHR ''.''"
  using b64_value_char [of n] by (auto simp: b64_value_def)

lemma of_char_bound [simp]: "(of_char c :: nat) < 256"
  by (rule nat_of_char_less_256)

lemma limb_digits [simp]:
  "b < k \<Longrightarrow> (a * k + b) div k = (a :: nat)" "b < k \<Longrightarrow> (a * k + b) mod k = (b :: nat)"
  by simp_all

lemma byte_limbs [simp]: "(of_char c :: nat) div 4 < 64" "(of_char c :: nat) div 16 < 16" "(of_char c :: nat) div 64 < 4"
  using of_char_bound [of c] by (auto simp: div_less_iff_less_mult simp del: of_char_bound)

lemma limb_bounds [simp]:
  "b < 16 \<Longrightarrow> (x mod 4) * 16 + b < (64 :: nat)" "b < 4 \<Longrightarrow> (x mod 16) * 4 + b < (64 :: nat)"
  "(x mod 4) * 16 < (64 :: nat)" "(x mod 16) * 4 < (64 :: nat)" "x mod 64 < (64 :: nat)"
  using mod_less_divisor [of 4 x] mod_less_divisor [of 16 x] mod_less_divisor [of 64 x] by linarith+

lemma b64_roundtrip: "b64_bytes (List.map_filter b64_value (base64url bs)) = bs"
  by (induction bs rule: base64url.induct) (simp_all add: Let_def map_filter_simps b64_value_char)

lemma base64url_no_dot: "CHR ''.'' \<notin> set (base64url bs)"
  by (induction bs rule: base64url.induct) (simp_all add: Let_def b64_char_no_dot b64_char_no_dot [THEN not_sym])

definition ascii :: "string \<Rightarrow> bool" where
  "ascii s \<longleftrightarrow> list_all (\<lambda>c. (of_char c :: nat) < 128) s"

lemma ascii_simps [simp]:
  "ascii []" "ascii (c # s) \<longleftrightarrow> (of_char c :: nat) < 128 \<and> ascii s" "ascii (s @ t) \<longleftrightarrow> ascii s \<and> ascii t"
  by (simp_all add: ascii_def)

lemma utf8_text_ascii: "ascii s \<Longrightarrow> utf8_text s = Some s"
  by (induction s) auto

lemma ascii_hex_digit: "n < 16 \<Longrightarrow> (of_char (hex_digit n) :: nat) < 128"
  by simp

lemma ascii_escape: "(of_char c :: nat) < 128 \<Longrightarrow> ascii (json_escape c)"
  by (auto simp: json_escape_def simp del: hex_digit.simps intro!: ascii_hex_digit)

lemma ascii_quote [simp]: "ascii s \<Longrightarrow> ascii (json_quote s)"
  by (simp add: json_quote_def) (induction s, auto simp: ascii_escape)

lemma ascii_nat_digits: "ascii (nat_digits n)"
  using nat_digits_digits [of n] by (fastforce simp: ascii_def list_all_iff is_digit_def Let_def)

lemma ascii_int_digits [simp]: "ascii (int_digits n)"
  by (simp add: int_digits_def ascii_nat_digits)

lemma ascii_uuid:
  assumes "uuid_shaped s"
  shows "ascii s"
proof -
  have len: "length s = 36" using assms unfolding uuid_shaped_def by blast
  have "(of_char (s ! i) :: nat) < 128" if "i < 36" for i
  proof -
    have "i \<in> set [8, 13, 18, 23] \<or> i \<in> set ([0..<8] @ [9..<13] @ [14..<18] @ [19..<23] @ [24..<36])"
      using that by (simp del: upt.simps upt_rec_numeral) linarith
    with assms have "s ! i = CHR ''-'' \<or> is_hex (s ! i)" unfolding uuid_shaped_def list_all_iff by blast
    then show ?thesis by (auto simp: is_hex_def Let_def)
  qed
  with len show ?thesis by (simp add: ascii_def list_all_length)
qed

lemma ascii_role [simp]: "ascii (role_name r)"
  by (cases r) simp_all

text \<open>
  The compact serialisation of a signed token: header, payload and signature, each in base64url and
  joined by dots, the payload being the UTF-8 text of its JSON form.
\<close>

definition compact_jwt :: "env \<Rightarrow> bool" where
  "compact_jwt E \<longleftrightarrow>
     (\<exists>header signature. CHR ''.'' \<notin> set header \<and> (\<forall>p. CHR ''.'' \<notin> set (signature p))
        \<and> (\<forall>p. ascii (JSON_stringify (JObj p)) \<longrightarrow>
              jwt_sign E p = header @ CHR ''.'' # base64url (JSON_stringify (JObj p)) @ CHR ''.'' # signature p))"

definition safe_int :: "int \<Rightarrow> bool" where
  "safe_int n \<longleftrightarrow> \<bar>n\<bar> \<le> MAX_SAFE_INTEGER"

definition issued_claims :: "env \<Rightarrow> draws \<Rightarrow> uuid \<Rightarrow> uuid \<Rightarrow> role \<Rightarrow> AccessClaims" where
  "issued_claims E R t u role =
     \<lparr> ac_sub = u, ac_tenant_id = t, ac_role = role, ac_iat = dr_jwtNow R div 1000,
       ac_exp = dr_jwtNow R div 1000 + accessTtlSeconds E \<rparr>"

definition timely :: "env \<Rightarrow> draws \<Rightarrow> bool" where
  "timely E R \<longleftrightarrow> 0 < accessTtlSeconds E \<and> safe_int (accessTtlSeconds E) \<and> safe_int (dr_jwtNow R div 1000)
     \<and> safe_int (dr_jwtNow R div 1000 + accessTtlSeconds E)"

lemma decode_issued:
  assumes "compact_jwt E" "uuid_shaped t" "uuid_shaped u" "timely E R"
  shows "decodeAccessClaims (Some (st_accessToken (session_tokens E R t u role tok))) = Some (issued_claims E R t u role)"
proof -
  let ?p = "access_payload E (dr_jwtNow R) \<lparr> sc_tenantId = t, sc_principalId = u, sc_role = role \<rparr>"
  obtain header signature where sign: "CHR ''.'' \<notin> set header" "\<forall>p. CHR ''.'' \<notin> set (signature p)"
    "\<forall>p. ascii (JSON_stringify (JObj p)) \<longrightarrow>
       jwt_sign E p = header @ CHR ''.'' # base64url (JSON_stringify (JObj p)) @ CHR ''.'' # signature p"
    using assms(1) unfolding compact_jwt_def by blast
  have a: "ascii (JSON_stringify (JObj ?p))"
    by (simp add: access_payload_def ISSUER_def AUDIENCE_def ascii_uuid [OF assms(2)] ascii_uuid [OF assms(3)])
  have tok: "st_accessToken (session_tokens E R t u role tok) =
      header @ CHR ''.'' # base64url (JSON_stringify (JObj ?p)) @ CHR ''.'' # signature ?p"
    using sign(3) a by (simp add: session_tokens_def issueAccess_def Let_def)
  have "JSON_parse (JSON_stringify (JObj ?p)) = Some (JObj ?p)"
    by (rule JSON_parse_stringify) (simp add: access_payload_def)
  moreover have "accessClaimsSchema (Some (JObj ?p)) = Some (issued_claims E R t u role)"
    using assms(2-4)
    by (simp add: accessClaimsSchema_def z_object_def uuidSchema_def z_refine_def access_payload_def role_document
        timely_def safe_int_def issued_claims_def)
  ultimately show ?thesis
    using sign(1,2) base64url_no_dot [of "JSON_stringify (JObj ?p)"]
    by (simp add: decodeAccessClaims_def tok split_char_part split_char_last base64UrlDecode_def b64_roundtrip
        utf8_text_ascii [OF a] del: JSON_stringify.simps)
qed

section \<open>The control plane behind the web server\<close>

definition segments :: "string \<Rightarrow> string list" where
  "segments path = tl (split_char (CHR ''/'') path)"

text \<open>
  The contract of the connection: a request with a JSON body reaches the route table with the parsed
  document, and the answer comes back as its status and the text of its document.
\<close>

locale control_plane_connection =
  fixes fetch :: "world fetch" and E :: env and R :: api_draws and issues :: "json option \<Rightarrow> json"
    and F :: formats and to_iso :: "millis \<Rightarrow> string" and reason :: "int \<Rightarrow> string"
  assumes serves:
    "control_plane E R issues F to_iso (hr_method q) (segments (hr_path q)) (map_of (hr_headers q) ''authorization'')
       body w = Some ((status, doc), w') \<Longrightarrow>
     hr_body q = map_option JSON_stringify body \<Longrightarrow> pred_option printable body \<Longrightarrow>
     fetch q w = (FetchResponse status (reason status) (map_option JSON_stringify doc), w')"
begin

lemma read_document: "pred_option printable doc \<Longrightarrow>
  read_body (map_option JSON_stringify doc) = (case doc of None \<Rightarrow> NoBody | Some d \<Rightarrow> JsonBody d)"
proof (cases doc)
  case (Some d)
  moreover obtain c cs where "JSON_stringify d = c # cs" by (rule stringify_head)
  ultimately show "pred_option printable doc \<Longrightarrow> ?thesis" using JSON_parse_stringify [of d] by (simp add: read_body_def)
qed (simp add: read_body_def)

lemma post_answered:
  assumes "control_plane E R issues F to_iso ''POST'' (segments path) None (Some body) (wb_up s) = Some ((status, Some doc), w')"
    "printable body" "printable doc"
  shows "cp_post fetch path body s =
    ((if status_ok status then Inr (Some doc)
      else Inl (ControlPlaneError status (case body_field (JsonBody doc) ''error'' of Some c \<Rightarrow> c | None \<Rightarrow> ''error'')
        (case body_field (JsonBody doc) ''message'' of Some t \<Rightarrow> t | None \<Rightarrow> reason status))), s\<lparr>wb_up := w'\<rparr>)"
proof -
  have "fetch (post_request path body) (wb_up s) = (FetchResponse status (reason status) (map_option JSON_stringify (Some doc)), w')"
    by (rule serves [where body = "Some body"]) (use assms in \<open>simp_all add: post_request_def\<close>)
  moreover have "read_body (map_option JSON_stringify (Some doc)) = JsonBody doc" using read_document [of "Some doc"] assms(3) by simp
  ultimately show ?thesis by (simp add: cp_post_def cpFetch_def post_request_def Let_def)
qed

lemma session_answered:
  assumes route: "control_plane E R issues F to_iso ''POST'' (segments path) None (Some body) (wb_up s) =
      Some (answer to_iso (send_reply to_iso (send 200 SessionBody m)) (wb_up s))" and body: "printable body"
  shows "m (wb_up s) = (Inr st, w') \<Longrightarrow> tokens_typed st \<Longrightarrow>
      andThen (cp_post fetch path body) (schema_parse tokenPairSchema) s = (Inr st, s\<lparr>wb_up := w'\<rparr>)"
    and "m (wb_up s) = (Inl (DomainErr (UnauthorizedError msg)), w') \<Longrightarrow>
      andThen (cp_post fetch path body) (schema_parse tokenPairSchema) s =
        (Inl (ControlPlaneError 401 ''unauthorized'' msg), s\<lparr>wb_up := w'\<rparr>)"
proof -
  assume run: "m (wb_up s) = (Inr st, w')" and typed: "tokens_typed st"
  have "printable (session_json st)" by (simp add: session_json_def)
  moreover have "control_plane E R issues F to_iso ''POST'' (segments path) None (Some body) (wb_up s) =
      Some ((200, Some (session_json st)), w')"
    unfolding route by (simp add: answer_def send_reply_def send_def andThen_def ret_def run reply_document_def)
  ultimately show "andThen (cp_post fetch path body) (schema_parse tokenPairSchema) s = (Inr st, s\<lparr>wb_up := w'\<rparr>)"
    using post_answered body by (simp add: andThen_def schema_parse_run status_ok_def session_document [OF typed])
next
  assume run: "m (wb_up s) = (Inl (DomainErr (UnauthorizedError msg)), w')"
  let ?doc = "JObj [(''error'', JStr ''unauthorized''), (''message'', JStr msg)]"
  have "control_plane E R issues F to_iso ''POST'' (segments path) None (Some body) (wb_up s) = Some ((401, Some ?doc), w')"
    unfolding route
    by (simp add: answer_def send_reply_def send_def andThen_def ret_def run reply_document_def j_field_def)
  then show "andThen (cp_post fetch path body) (schema_parse tokenPairSchema) s =
      (Inl (ControlPlaneError 401 ''unauthorized'' msg), s\<lparr>wb_up := w'\<rparr>)"
    using post_answered body by (simp add: andThen_def status_ok_def)
qed

lemma login_route_served:
  assumes "loginRequestSchema F (Some (login_request_json c)) = Some c"
  shows "control_plane E R issues F to_iso ''POST'' (segments ''/v1/auth/login'') None (Some (login_request_json c)) w =
      Some (answer to_iso (send_reply to_iso (send 200 SessionBody (login E (xd_session R) c))) w)"
  by (simp add: control_plane_def public_routes_def segments_def login_route_def parse_def assms)

lemma login_answered:
  assumes "loginRequestSchema F (Some (login_request_json c)) = Some c"
  shows "login E (xd_session R) c (wb_up s) = (Inr st, w') \<Longrightarrow> tokens_typed st \<Longrightarrow>
      cpLogin fetch c s = (Inr st, s\<lparr>wb_up := w'\<rparr>)"
    and "login E (xd_session R) c (wb_up s) = (Inl invalid_credentials, w') \<Longrightarrow>
      cpLogin fetch c s = (Inl (ControlPlaneError 401 ''unauthorized'' ''invalid credentials''), s\<lparr>wb_up := w'\<rparr>)"
  unfolding cpLogin_def
  by (rule session_answered [OF login_route_served [OF assms]]; simp add: login_request_json_def)+

lemma refresh_answered:
  assumes "t \<noteq> []"
  shows "refresh E (xd_session R) t (wb_up s) = (Inr st, w') \<Longrightarrow> tokens_typed st \<Longrightarrow>
      cpRefresh fetch t s = (Inr st, s\<lparr>wb_up := w'\<rparr>)"
    and "refresh E (xd_session R) t (wb_up s) = (Inl invalid_refresh_token, w') \<Longrightarrow>
      cpRefresh fetch t s = (Inl (ControlPlaneError 401 ''unauthorized'' ''invalid refresh token''), s\<lparr>wb_up := w'\<rparr>)"
proof -
  have route: "control_plane E R issues F to_iso ''POST'' (segments ''/v1/auth/refresh'') None (Some (refresh_request_json t)) w =
      Some (answer to_iso (send_reply to_iso (send 200 SessionBody (refresh E (xd_session R) t))) w)" for w
    using assms
    by (simp add: control_plane_def public_routes_def segments_def refresh_route_def parse_def refresh_request_json_def
        refreshRequestSchema_def z_strict_def z_nonempty_def z_refine_def)
  have body: "printable (refresh_request_json t)" by (simp add: refresh_request_json_def)
  show "refresh E (xd_session R) t (wb_up s) = (Inr st, w') \<Longrightarrow> tokens_typed st \<Longrightarrow>
      cpRefresh fetch t s = (Inr st, s\<lparr>wb_up := w'\<rparr>)"
    unfolding cpRefresh_def by (rule session_answered(1) [OF route body])
  show "refresh E (xd_session R) t (wb_up s) = (Inl invalid_refresh_token, w') \<Longrightarrow>
      cpRefresh fetch t s = (Inl (ControlPlaneError 401 ''unauthorized'' ''invalid refresh token''), s\<lparr>wb_up := w'\<rparr>)"
    unfolding cpRefresh_def by (rule session_answered(2) [OF route body])
qed

end

text \<open>
  A connection of this kind on the model of the control plane. What the web framework answers by
  itself, to a path without a route or a body that is not JSON, is the argument \<open>other\<close>.
\<close>

definition http_server ::
  "world fetch \<Rightarrow> (int \<Rightarrow> string) \<Rightarrow> env \<Rightarrow> api_draws \<Rightarrow> (json option \<Rightarrow> json) \<Rightarrow> formats \<Rightarrow> (millis \<Rightarrow> string) \<Rightarrow> world fetch" where
  "http_server other reason E R issues F to_iso q w =
     (let handle = (\<lambda>body.
            case control_plane E R issues F to_iso (hr_method q) (segments (hr_path q))
                   (map_of (hr_headers q) ''authorization'') body w of
              Some ((status, doc), w') \<Rightarrow> (FetchResponse status (reason status) (map_option JSON_stringify doc), w')
            | None \<Rightarrow> other q w)
      in case hr_body q of
           None \<Rightarrow> handle None
         | Some raw \<Rightarrow> (case JSON_parse raw of Some d \<Rightarrow> handle (Some d) | None \<Rightarrow> other q w))"

interpretation link: control_plane_connection "http_server other reason E R issues F to_iso" E R issues F to_iso reason
  for other reason E R issues F to_iso
proof
  fix q :: http_request and body w status doc w'
  assume "control_plane E R issues F to_iso (hr_method q) (segments (hr_path q)) (map_of (hr_headers q) ''authorization'')
      body w = Some ((status, doc), w')" "hr_body q = map_option JSON_stringify body" "pred_option printable body"
  then show "http_server other reason E R issues F to_iso q w =
      (FetchResponse status (reason status) (map_option JSON_stringify doc), w')"
    by (cases body) (simp_all add: http_server_def JSON_parse_stringify)
qed

section \<open>Login, end to end\<close>

definition uuid_users :: "db \<Rightarrow> bool" where
  "uuid_users d \<longleftrightarrow> list_all (\<lambda>u. uuid_shaped (us_id u) \<and> uuid_shaped (us_tenant_id u)) (db_users d)"

lemma session_tokens_typed:
  "timely E R \<Longrightarrow> uuid_shaped t \<Longrightarrow> uuid_shaped u \<Longrightarrow> tokens_typed (session_tokens E R t u role tok)"
  by (auto simp: tokens_typed_def session_tokens_def issueAccess_def timely_def safe_int_def Let_def)

lemma guard_after_login:
  assumes "decodeAccessClaims (Some (st_accessToken st)) = Some claims" "now div 1000 + 30 < ac_exp claims"
  shows "authed_beforeLoad V fetch now \<lparr> wb_jar = written V st j, wb_up = up \<rparr> =
    (Inr (sessionFromClaims claims), \<lparr> wb_jar = written V st j, wb_up = up \<rparr>)"
  using assms by (simp add: authed_beforeLoad_def getSession_run andThen_def ret_def isExpired_def)

text \<open>
  C35. Login from the browser to the database. For the owner of a valid account the login form's
  server function returns the session of exactly that user, tenant and role, leaves in the browser
  the two tokens the control plane issued and in the database what its login stores; from then on,
  until half a minute before the token expires, the guard admits the browser with this session and
  without asking the control plane. For everyone else it answers the same message, whatever is
  wrong, and neither the cookies nor the database change. The signing library is any that uses the
  compact serialisation.
\<close>

theorem web_login_end_to_end:
  assumes "db_ok (w_db w)" "ids_canonical E (w_db w)" "digest_32 E" "token_fresh E (xd_session R) (w_db w)"
    "uuid_users (w_db w)" "timely E (xd_session R)" "compact_jwt E"
    "loginRequestSchema F (Some (login_request_json c)) = Some c"
  shows "(\<forall>t u role. valid_login E c (w_db w) t u role \<longrightarrow>
      (\<exists>st w' cs. login E (xd_session R) c w = (Inr st, w')
        \<and> loginFn V (http_server other reason E R issues F to_iso) c \<lparr> wb_jar = j, wb_up = w \<rparr> =
            (Inr (LoginOk cs), \<lparr> wb_jar = written V st j, wb_up = w' \<rparr>)
        \<and> cs = \<lparr> cs_userId = us_id u, cs_tenantId = tn_id t, cs_role = role,
                 cs_expiresAt = dr_jwtNow (xd_session R) div 1000 + accessTtlSeconds E \<rparr>
        \<and> (\<forall>fetch now up. now div 1000 + 30 < cs_expiresAt cs \<longrightarrow>
             authed_beforeLoad V fetch now \<lparr> wb_jar = written V st j, wb_up = (up :: 'w) \<rparr> =
               (Inr cs, \<lparr> wb_jar = written V st j, wb_up = up \<rparr>))))
    \<and> ((\<nexists>t u role. valid_login E c (w_db w) t u role) \<longrightarrow>
      (\<exists>w'. w_db w' = w_db w
        \<and> loginFn V (http_server other reason E R issues F to_iso) c \<lparr> wb_jar = j, wb_up = w \<rparr> =
            (Inr (LoginFailed ''Invalid credentials''), \<lparr> wb_jar = j, wb_up = w' \<rparr>)))"
proof (intro conjI allI impI)
  fix t u role
  assume v: "valid_login E c (w_db w) t u role"
  then have ids: "uuid_shaped (tn_id t)" "uuid_shaped (us_id u)"
    using assms(5) by (auto simp: valid_login_def uuid_users_def list_all_iff)
  obtain tok w' where run: "login E (xd_session R) c w = (Inr (session_tokens E (xd_session R) (tn_id t) (us_id u) role tok), w')"
    using login_run [OF assms(1-4) v] by blast
  let ?st = "session_tokens E (xd_session R) (tn_id t) (us_id u) role tok"
    and ?claims = "issued_claims E (xd_session R) (tn_id t) (us_id u) role"
  have dec: "decodeAccessClaims (Some (st_accessToken ?st)) = Some ?claims"
    by (rule decode_issued [OF assms(7) ids assms(6)])
  have up: "cpLogin (http_server other reason E R issues F to_iso) c \<lparr> wb_jar = j, wb_up = w \<rparr> =
      (Inr ?st, \<lparr> wb_jar = j, wb_up = w' \<rparr>)"
    using link.login_answered(1) [OF assms(8), of E R "\<lparr> wb_jar = j, wb_up = w \<rparr>" ?st w'] run
      session_tokens_typed [OF assms(6) ids] by simp
  let ?cs = "\<lparr> cs_userId = us_id u, cs_tenantId = tn_id t, cs_role = role,
      cs_expiresAt = dr_jwtNow (xd_session R) div 1000 + accessTtlSeconds E \<rparr>"
  have cs: "sessionFromClaims ?claims = ?cs" by (simp add: sessionFromClaims_def issued_claims_def)
  have guard: "authed_beforeLoad V fetch now \<lparr> wb_jar = written V ?st j, wb_up = up \<rparr> =
      (Inr ?cs, \<lparr> wb_jar = written V ?st j, wb_up = up \<rparr>)"
    if "now div 1000 + 30 < dr_jwtNow (xd_session R) div 1000 + accessTtlSeconds E" for fetch now and up :: 'w
    using guard_after_login [OF dec, of now V fetch j up] that cs by (simp add: issued_claims_def)
  show "\<exists>st w' cs. login E (xd_session R) c w = (Inr st, w')
        \<and> loginFn V (http_server other reason E R issues F to_iso) c \<lparr> wb_jar = j, wb_up = w \<rparr> =
            (Inr (LoginOk cs), \<lparr> wb_jar = written V st j, wb_up = w' \<rparr>)
        \<and> cs = \<lparr> cs_userId = us_id u, cs_tenantId = tn_id t, cs_role = role,
                 cs_expiresAt = dr_jwtNow (xd_session R) div 1000 + accessTtlSeconds E \<rparr>
        \<and> (\<forall>fetch now up. now div 1000 + 30 < cs_expiresAt cs \<longrightarrow>
             authed_beforeLoad V fetch now \<lparr> wb_jar = written V st j, wb_up = (up :: 'w) \<rparr> =
               (Inr cs, \<lparr> wb_jar = written V st j, wb_up = up \<rparr>))"
    using guard run up dec
    by (intro exI [of _ ?st] exI [of _ w'] exI [of _ ?cs])
       (simp add: loginFn_def tryCatch_def andThen_def ret_def writeSessionCookies_run cs)
next
  assume "\<nexists>t u role. valid_login E c (w_db w) t u role"
  then obtain h where "login E (xd_session R) c w =
      (Inl invalid_credentials, w\<lparr>w_verifies := w_verifies w @ [(lc_password c, h)]\<rparr>)"
    using login_reject_run [OF assms(1,2)] by blast
  then show "\<exists>w'. w_db w' = w_db w
        \<and> loginFn V (http_server other reason E R issues F to_iso) c \<lparr> wb_jar = j, wb_up = w \<rparr> =
            (Inr (LoginFailed ''Invalid credentials''), \<lparr> wb_jar = j, wb_up = w' \<rparr>)"
    using link.login_answered(2) [OF assms(8), of E R "\<lparr> wb_jar = j, wb_up = w \<rparr>"]
    by (intro exI [of _ "w\<lparr>w_verifies := w_verifies w @ [(lc_password c, h)]\<rparr>"])
       (simp add: loginFn_def tryCatch_def andThen_def ret_def)
qed
section \<open>The live tail and the rotation of sessions\<close>

lemma tailProxy_upstream_failure:
  assumes "\<And>claims. decodeAccessClaims (parseCookieHeader h ACCESS_COOKIE) = Some claims \<Longrightarrow> isExpired claims now"
    "parseCookieHeader h REFRESH_COOKIE = Some raw" "raw \<noteq> []" "cpRefresh fetch raw s = (Inr pair, s')"
    "\<And>token status why body. query (tail_request token) = FetchResponse status why body \<Longrightarrow> \<not> status_ok status"
  shows "\<exists>resp. tailProxy V fetch query now h s = (Inr resp, s') \<and> tr_status resp \<in> {401, 502}
    \<and> list_all (\<lambda>(name, _). name \<noteq> ''set-cookie'') (tr_headers resp)"
proof -
  have auth: "resolveTailAuth V fetch now h s =
      (Inr \<lparr> ta_ok = True, ta_token = Some (st_accessToken pair), ta_setCookies = sessionSetCookies V pair \<rparr>, s')"
    using assms(1-4) by (auto simp: resolveTailAuth_def Let_def tryCatch_def andThen_def ret_def split: option.split)
  show ?thesis
    by (cases "query (tail_request (st_accessToken pair))")
       (auto simp: tailProxy_def andThen_def auth ret_def jsonError_def dest: assms(5))
qed

lemma refresh_ok: "keeps world_ok (refresh E R raw)"
  unfolding refresh_def by (rule keeps_intros refresh_check_ok refresh_commit_ok | simp)+

lemma rotated_row:
  "r \<in> set rows \<Longrightarrow> live r \<Longrightarrow> r\<lparr>rt_rotated_at := Some now\<rparr> \<in> set (rotate_row (rt_tenant_id r) (rt_id r) now rows)"
  by (force simp: rotate_row_def)

text \<open>
  C40. A failing live tail costs the user the session. When the access token has expired, the proxy
  first exchanges the refresh token; if the query service then fails, the answer carries no
  cookies, so the browser keeps the used-up refresh token. The next page it opens presents that
  token again, which the control plane takes for theft: the session cookies are cleared and no
  token of the family is left alive.
\<close>

theorem tail_failure_ends_session:
  assumes "db_ok (w_db w)" "digest_32 E" "token_fresh E (xd_session R) (w_db w)" "timely E (xd_session R)"
    and r: "r \<in> set (db_refresh_tokens (w_db w))" "live r" "dr_now (xd_session R) < rt_expires_at r"
    and ids: "canonical E (rt_tenant_id r)" "canonical E (rt_id r)" "canonical E (rt_user_id r)" "canonical E (rt_family_id r)"
      "uuid_shaped (rt_tenant_id r)" "uuid_shaped (rt_user_id r)"
    and sec: "secret \<noteq> []" "sha256 E secret = rt_token_hash r"
    and t: "t \<in> set (db_tenants (w_db w))" "tn_id t = rt_tenant_id r" "tn_status t = TS_active"
    and u: "u \<in> set (db_users (w_db w))" "us_tenant_id u = rt_tenant_id r" "us_id u = rt_user_id r" "us_status u = ''active''"
      "has_role (w_db w) u role"
    and raw: "raw = assembleRefreshToken (rt_tenant_id r) (rt_id r) secret"
    and cookies: "parseCookieHeader h ACCESS_COOKIE = cookie ACCESS_COOKIE j" "parseCookieHeader h REFRESH_COOKIE = Some raw"
      "cookie REFRESH_COOKIE j = Some raw"
      "\<And>claims. decodeAccessClaims (cookie ACCESS_COOKIE j) = Some claims \<Longrightarrow> isExpired claims now"
    and down: "\<And>token status why body. query (tail_request token) = FetchResponse status why body \<Longrightarrow> \<not> status_ok status"
    and later: "now \<le> now'"
  shows "\<exists>resp up up'.
      tailProxy V (http_server other reason E R issues F to_iso) query now h \<lparr> wb_jar = j, wb_up = w \<rparr> =
        (Inr resp, \<lparr> wb_jar = j, wb_up = up \<rparr>)
    \<and> tr_status resp \<in> {401, 502} \<and> list_all (\<lambda>(name, _). name \<noteq> ''set-cookie'') (tr_headers resp)
    \<and> getSession V (http_server other reason E R' issues F to_iso) now' \<lparr> wb_jar = j, wb_up = up \<rparr> =
        (Inr None, \<lparr> wb_jar = cleared j, wb_up = up' \<rparr>)
    \<and> live_in_family (rt_tenant_id r) (rt_family_id r) (w_db up') = []"
proof -
  let ?fetch = "http_server other reason E R issues F to_iso" and ?fetch' = "http_server other reason E R' issues F to_iso"
  let ?rows = "rotate_row (rt_tenant_id r) (rt_id r) (dr_now (xd_session R)) (db_refresh_tokens (w_db w))
      @ [session_row E (xd_session R) (rt_tenant_id r) (rt_user_id r) (rt_family_id r)]"
  define up where "up = w\<lparr>w_db := (w_db w)\<lparr>db_refresh_tokens := ?rows\<rparr>\<rparr>"
  have "raw \<noteq> []" using sec(1) by (simp add: raw assembleRefreshToken_def)
  let ?st = "session_tokens E (xd_session R) (rt_tenant_id r) (rt_user_id r) role
      (assembleRefreshToken (rt_tenant_id r) (dr_newId (xd_session R)) (dr_secret (xd_session R)))"
  have st: "refresh E (xd_session R) raw w = (Inr ?st, up)"
    unfolding raw up_def by (rule refresh_run [OF assms(1-3) r ids(1-4) sec t u])
  have typed: "tokens_typed ?st" by (rule session_tokens_typed [OF assms(4) ids(5,6)])
  have ex: "cpRefresh ?fetch raw \<lparr> wb_jar = j, wb_up = w \<rparr> = (Inr ?st, \<lparr> wb_jar = j, wb_up = up \<rparr>)"
    using link.refresh_answered(1) [OF \<open>raw \<noteq> []\<close>, of E R "\<lparr> wb_jar = j, wb_up = w \<rparr>"] st typed by simp
  have exp: "isExpired claims now" if "decodeAccessClaims (parseCookieHeader h ACCESS_COOKIE) = Some claims" for claims
    using cookies(4) that by (simp add: cookies(1))
  obtain resp where tail: "tailProxy V ?fetch query now h \<lparr> wb_jar = j, wb_up = w \<rparr> = (Inr resp, \<lparr> wb_jar = j, wb_up = up \<rparr>)"
    "tr_status resp \<in> {401, 502}" "list_all (\<lambda>(name, _). name \<noteq> ''set-cookie'') (tr_headers resp)"
    using tailProxy_upstream_failure [OF exp cookies(2) \<open>raw \<noteq> []\<close> ex, of query V] down by blast
  let ?q = "r\<lparr>rt_rotated_at := Some (dr_now (xd_session R))\<rparr>"
  have "db_ok (w_db up)" using keepsD [OF refresh_ok st] assms(1) by (simp add: world_ok_def preserves_db_def)
  moreover have "?q \<in> set (db_refresh_tokens (w_db up))" using rotated_row [OF r(1,2)] by (simp add: up_def)
  moreover have "names_row E raw ?q"
    using assembled_token_names [of E ?q secret] ids(1,2) sec by (simp add: raw)
  moreover have "\<not> live ?q" by (simp add: live_def)
  moreover have "uuid_in E (rt_family_id ?q) = Some (rt_family_id ?q)" using canonicalD [OF ids(4)] by simp
  ultimately obtain up' where again: "refresh E (xd_session R') raw up = (Inl invalid_refresh_token, up')"
    "live_in_family (rt_tenant_id r) (rt_family_id r) (w_db up') = []"
    using refresh_dead_token [of up ?q E raw "xd_session R'"] by (auto simp: revoke_rows_dead)
  then have rej: "\<exists>e. cpRefresh ?fetch' raw \<lparr> wb_jar = j, wb_up = up \<rparr> = (Inl e, \<lparr> wb_jar = j, wb_up = up' \<rparr>)"
    using link.refresh_answered(2) [OF \<open>raw \<noteq> []\<close>, of E R' "\<lparr> wb_jar = j, wb_up = up \<rparr>"] by auto
  have "isExpired claims now'" if "decodeAccessClaims (cookie ACCESS_COOKIE j) = Some claims" for claims
    using cookies(4) [OF that] later zdiv_mono1 [of now now' 1000] by (simp add: isExpired_def)
  with rej \<open>raw \<noteq> []\<close> have "getSession V ?fetch' now' \<lparr> wb_jar = j, wb_up = up \<rparr> =
      (Inr None, \<lparr> wb_jar = cleared j, wb_up = up' \<rparr>)"
    by (auto simp: getSession_run refresh_session_run cookies(3) split: option.split)
  with tail again(2) show ?thesis by blast
qed

section \<open>Instances\<close>

text \<open>
  A tenant, its administrator and a signing function of the compact form, whose signature is a
  constant.
\<close>

definition link_env :: env where
  "link_env = uuid_env\<lparr>uuid_in := (\<lambda>s. if list_ex (\<lambda>c. s = uuid_of c) ''abcd'' then Some s else None),
     jwt_sign := (\<lambda>p. ''h'' @ CHR ''.'' # base64url (JSON_stringify (JObj p)) @ CHR ''.'' # ''s'')\<rparr>"

definition link_draws :: "char \<Rightarrow> draws" where
  "link_draws c =
     \<lparr> dr_uuid = uuid_of c, dr_secret = ''s1'', dr_now = 0, dr_newId = uuid_of c, dr_dbNow = 0, dr_jwtNow = 0 \<rparr>"

definition link_api_draws :: "char \<Rightarrow> api_draws" where
  "link_api_draws c = sample_api_draws\<lparr>xd_session := link_draws c\<rparr>"

definition link_login :: LoginCommand where
  "link_login = \<lparr> lc_tenantSlug = ''acme'', lc_email = ''ann@acme.io'', lc_password = ''pw'' \<rparr>"

definition link_tokens :: "role \<Rightarrow> SessionTokens" where
  "link_tokens role = session_tokens link_env (link_draws (CHR ''c'')) (uuid_of (CHR ''a'')) (uuid_of (CHR ''b'')) role ''rt''"

lemma link_compact: "compact_jwt link_env"
  unfolding compact_jwt_def by (rule exI [of _ "''h''"], rule exI [of _ "\<lambda>_. ''s''"]) (simp add: link_env_def)

lemma link_digest: "digest_32 link_env"
  using sample_digest_32 by (simp add: digest_32_def link_env_def uuid_env_def)

lemma link_timely: "xd_session R = link_draws c \<Longrightarrow> timely link_env (xd_session R)"
  by (simp add: timely_def safe_int_def MAX_SAFE_INTEGER_def link_env_def uuid_env_def sample_env_def link_draws_def)

lemma link_ids: "uuid_shaped (uuid_of (CHR ''a''))" "uuid_shaped (uuid_of (CHR ''b''))"
  by (simp_all add: uuid_of_shaped is_hex_def)

lemma link_session: "xd_session (link_api_draws c) = link_draws c"
  by (simp add: link_api_draws_def)

lemma link_decode:
  "decodeAccessClaims (Some (st_accessToken (link_tokens role))) =
     Some (issued_claims link_env (link_draws (CHR ''c'')) (uuid_of (CHR ''a'')) (uuid_of (CHR ''b'')) role)"
  unfolding link_tokens_def
  using decode_issued [OF link_compact link_ids, of "link_draws (CHR ''c'')"]
    link_timely [OF link_session, of "CHR ''c''"] by (simp add: link_session)

lemma link_world: "db_ok (w_db uuid_world)" "ids_canonical link_env (w_db uuid_world)" "uuid_users (w_db uuid_world)"
  "token_fresh link_env (link_draws (CHR ''c'')) (w_db uuid_world)"
proof -
  show "db_ok (w_db uuid_world)" by code_simp
  show "ids_canonical link_env (w_db uuid_world)" by code_simp
  show "uuid_users (w_db uuid_world)" using link_ids by (simp add: uuid_users_def uuid_world_def sample_user_def)
  show "token_fresh link_env (link_draws (CHR ''c'')) (w_db uuid_world)" by code_simp
qed

theorem web_login_end_to_end_witness:
  "\<exists>cs s'. loginFn sample_web_env (http_server (\<lambda>q w. (FetchRejected, w)) (\<lambda>_. []) link_env (link_api_draws (CHR ''c''))
      (\<lambda>_. JNull) sample_formats (\<lambda>_. [])) link_login \<lparr> wb_jar = [], wb_up = uuid_world \<rparr> = (Inr (LoginOk cs), s')
    \<and> cs_userId cs = uuid_of (CHR ''b'') \<and> cs_role cs = tenant_admin
    \<and> authed_beforeLoad sample_web_env (\<lambda>q w. (FetchRejected, w)) 60000 \<lparr> wb_jar = wb_jar s', wb_up = () \<rparr> =
        (Inr cs, \<lparr> wb_jar = wb_jar s', wb_up = () \<rparr>)"
proof -
  have v: "valid_login link_env link_login (w_db uuid_world) (sample_tenant (uuid_of (CHR ''a'')) ''acme'')
      (sample_user (uuid_of (CHR ''b'')) (uuid_of (CHR ''a'')) ''ann@acme.io'') tenant_admin" by code_simp
  have acc: "loginRequestSchema sample_formats (Some (login_request_json link_login)) = Some link_login" by code_simp
  have R: "token_fresh link_env (xd_session (link_api_draws (CHR ''c''))) (w_db uuid_world)"
    by (simp add: link_session link_world)
  note e2e = web_login_end_to_end [OF link_world(1,2) link_digest R link_world(3) link_timely [OF link_session]
      link_compact acc, of sample_web_env "\<lambda>q w. (FetchRejected, w)" "\<lambda>_. []" "\<lambda>_. JNull" "\<lambda>_. []" "[]",
      where ?'w = unit, THEN conjunct1, rule_format, OF v]
  then obtain st w' cs where "loginFn sample_web_env (http_server (\<lambda>q w. (FetchRejected, w)) (\<lambda>_. []) link_env
      (link_api_draws (CHR ''c'')) (\<lambda>_. JNull) sample_formats (\<lambda>_. [])) link_login \<lparr> wb_jar = [], wb_up = uuid_world \<rparr> =
        (Inr (LoginOk cs), \<lparr> wb_jar = written sample_web_env st [], wb_up = w' \<rparr>)"
    and cs: "cs = \<lparr> cs_userId = uuid_of (CHR ''b''), cs_tenantId = uuid_of (CHR ''a''), cs_role = tenant_admin, cs_expiresAt = 900 \<rparr>"
    and guard: "\<And>fetch now up. now div 1000 + 30 < cs_expiresAt cs \<Longrightarrow>
      authed_beforeLoad sample_web_env fetch now \<lparr> wb_jar = written sample_web_env st [], wb_up = (up :: unit) \<rparr> =
        (Inr cs, \<lparr> wb_jar = written sample_web_env st [], wb_up = up \<rparr>)"
    by (auto simp: sample_user_def sample_tenant_def link_session link_draws_def link_env_def uuid_env_def sample_env_def)
  moreover have "authed_beforeLoad sample_web_env (\<lambda>q w. (FetchRejected, w)) 60000
      \<lparr> wb_jar = written sample_web_env st [], wb_up = () \<rparr> = (Inr cs, \<lparr> wb_jar = written sample_web_env st [], wb_up = () \<rparr>)"
    by (rule guard) (simp add: cs)
  ultimately show ?thesis by (auto simp: cs)
qed

text \<open>A member opens the administration page while the control plane is down.\<close>

theorem admin_page_minimal_witness:
  "\<exists>d s'. loadAdminFn sample_formats (recording (\<lambda>q w. (FetchRejected, w)))
      \<lparr> wb_jar = sample_jar [(''lg_at'', st_accessToken (link_tokens member))], wb_up = ([], ()) \<rparr> = (Inr d, s')
    \<and> map hr_path (fst (wb_up s')) = [''/v1/tenants/'' @ uuid_of (CHR ''a''), ''/v1/retention'']
    \<and> adm_users d = None \<and> adm_apiKeys d = None \<and> adm_invites d = None"
proof -
  let ?j = "sample_jar [(''lg_at'', st_accessToken (link_tokens member))]"
  obtain r s' where run: "loadAdminFn sample_formats (recording (\<lambda>q w. (FetchRejected, w)))
      \<lparr> wb_jar = ?j, wb_up = ([], ()) \<rparr> = (r, s')" by (rule prod.exhaust)
  have j: "cookie ACCESS_COOKIE ?j = Some (st_accessToken (link_tokens member))"
    by (simp add: cookie_def sample_jar_def ACCESS_COOKIE_def)
  have no: "\<not> ui_can member User_list" "\<not> ui_can member Apikey_list" "\<not> ui_can member Invite_list" by code_simp+
  from admin_page_minimal [OF run] run no show ?thesis
    by (auto simp: j link_decode admin_paths_def admin_shown_def issued_claims_def get_request_def)
qed

text \<open>A sign-in that returns to the page of the logs.\<close>

definition callback_jar :: jar where
  "callback_jar = sample_jar [(''lg_oidc_tenant'', ''acme''), (''lg_oidc_state'', ''st''), (''lg_oidc_return'', ''/app/logs'')]"

definition token_answer :: "unit fetch" where
  "token_answer q w = (FetchResponse 200 [] (Some (JSON_stringify (session_json (link_tokens member)))), w)"

lemma callback_exchange:
  "cpOidcCallback token_answer body \<lparr> wb_jar = callback_jar, wb_up = () \<rparr> =
     (Inr (link_tokens member), \<lparr> wb_jar = callback_jar, wb_up = () \<rparr>)"
proof -
  have typed: "tokens_typed (link_tokens member)"
    unfolding link_tokens_def using session_tokens_typed [OF _ link_ids] link_timely [OF link_session, of "CHR ''c''"]
    by (simp add: link_session)
  have "read_body (map_option JSON_stringify (Some (session_json (link_tokens member)))) =
      JsonBody (session_json (link_tokens member))"
    using link.read_document [of "Some (session_json (link_tokens member))"] by (simp add: session_json_def)
  then show ?thesis
    by (simp add: cpOidcCallback_def cp_post_def cpFetch_def token_answer_def andThen_def schema_parse_run status_ok_def
        session_document [OF typed] Let_def)
qed

theorem callback_redirect_stays_on_site_witness:
  "\<exists>s'. callback_loader sample_web_env token_answer ''code'' ''st'' None \<lparr> wb_jar = callback_jar, wb_up = () \<rparr> =
      (Inl (RedirectTo ''/app/logs''), s') \<and> relative_path ''/app/logs''"
proof -
  let ?s = "\<lparr> wb_jar = callback_jar, wb_up = () \<rparr>"
  have c: "cookie OIDC_TENANT_COOKIE callback_jar = Some ''acme''" "cookie OIDC_RETURN_COOKIE callback_jar = Some ''/app/logs''"
    "state_bound callback_jar ''st''" by code_simp+
  have v: "oidcCallbackClientRequestSchema (callback_input ''acme'' ''code'' ''st'') = Some (''acme'', ''code'', ''st'')"
    and d: "callback_destination (Some ''/app/logs'') = ''/app/logs''" by code_simp+
  have "completeGoogleSignin sample_web_env token_answer (''acme'', ''code'', ''st'') ?s =
      (Inr (CompleteOk (sessionFromClaims (issued_claims link_env (link_draws (CHR ''c'')) (uuid_of (CHR ''a''))
         (uuid_of (CHR ''b'')) member)) (Some ''/app/logs'')),
       \<lparr> wb_jar = no_handshake (written sample_web_env (link_tokens member) callback_jar), wb_up = () \<rparr>)"
    using c(3) by (simp add: completeGoogleSignin_bound callback_exchange link_decode c(2))
  then obtain s' where run: "callback_loader sample_web_env token_answer ''code'' ''st'' None ?s = (Inl (RedirectTo ''/app/logs''), s')"
    by (simp add: callback_loader_def getOidcTenantSlug_def getCookie_def getS_def andThen_def schema_parse_run c(1) v
        throw_def d)
  with callback_redirect_stays_on_site [OF run] show ?thesis by blast
qed

text \<open>A browser with an expired session opens the live tail while the query service is down.\<close>

definition tail_row :: refresh_token_row where
  "tail_row = session_row link_env (link_draws (CHR ''c'')) (uuid_of (CHR ''a'')) (uuid_of (CHR ''b'')) (uuid_of (CHR ''c''))"

definition tail_world :: world where
  "tail_world = uuid_world\<lparr>w_db := (w_db uuid_world)\<lparr>db_refresh_tokens := [tail_row]\<rparr>\<rparr>"

definition tail_token :: string where
  "tail_token = assembleRefreshToken (uuid_of (CHR ''a'')) (uuid_of (CHR ''c'')) ''s1''"

theorem tail_failure_ends_session_witness:
  "\<exists>resp up up'.
      tailProxy sample_web_env (http_server (\<lambda>q w. (FetchRejected, w)) (\<lambda>_. []) link_env (link_api_draws (CHR ''d''))
        (\<lambda>_. JNull) sample_formats (\<lambda>_. [])) (\<lambda>_. FetchRejected) 0 (Some (''lg_rt='' @ tail_token))
        \<lparr> wb_jar = sample_jar [(''lg_rt'', tail_token)], wb_up = tail_world \<rparr> =
        (Inr resp, \<lparr> wb_jar = sample_jar [(''lg_rt'', tail_token)], wb_up = up \<rparr>)
    \<and> getSession sample_web_env (http_server (\<lambda>q w. (FetchRejected, w)) (\<lambda>_. []) link_env (link_api_draws (CHR ''d''))
        (\<lambda>_. JNull) sample_formats (\<lambda>_. [])) 1000 \<lparr> wb_jar = sample_jar [(''lg_rt'', tail_token)], wb_up = up \<rparr> =
        (Inr None, \<lparr> wb_jar = cleared (sample_jar [(''lg_rt'', tail_token)]), wb_up = up' \<rparr>)
    \<and> live_in_family (uuid_of (CHR ''a'')) (uuid_of (CHR ''c'')) (w_db up') = []"
proof -
  let ?t = "sample_tenant (uuid_of (CHR ''a'')) ''acme''"
    and ?u = "sample_user (uuid_of (CHR ''b'')) (uuid_of (CHR ''a'')) ''ann@acme.io''"
  have row: "rt_tenant_id tail_row = uuid_of (CHR ''a'')" "rt_user_id tail_row = uuid_of (CHR ''b'')"
    "rt_id tail_row = uuid_of (CHR ''c'')" "rt_family_id tail_row = uuid_of (CHR ''c'')"
    "sha256 link_env ''s1'' = rt_token_hash tail_row" "live tail_row" "rt_expires_at tail_row = 1000000"
    by (simp_all add: tail_row_def session_row_def new_token_row_def link_draws_def live_def link_env_def uuid_env_def sample_env_def)
  have world: "db_ok (w_db tail_world)" "token_fresh link_env (link_draws (CHR ''d'')) (w_db tail_world)"
    "has_role (w_db tail_world) ?u tenant_admin" by code_simp+
  have can: "canonical link_env (uuid_of c)" if "c \<in> set ''abcd''" for c
  proof -
    have "\<forall>c \<in> set ''abcd''. canonical link_env (uuid_of c)" by code_simp
    with that show ?thesis by blast
  qed
  have cookies: "parseCookieHeader (Some (''lg_rt='' @ tail_token)) ACCESS_COOKIE = None"
    "parseCookieHeader (Some (''lg_rt='' @ tail_token)) REFRESH_COOKIE = Some tail_token" by code_simp+
  have jar: "cookie ACCESS_COOKIE (sample_jar [(''lg_rt'', tail_token)]) = None"
    "cookie REFRESH_COOKIE (sample_jar [(''lg_rt'', tail_token)]) = Some tail_token"
    by (simp_all add: cookie_def sample_jar_def ACCESS_COOKIE_def REFRESH_COOKIE_def)
  note e = tail_failure_ends_session [where r = tail_row and t = ?t and u = ?u and role = tenant_admin and secret = "''s1''"
      and h = "Some (''lg_rt='' @ tail_token)" and j = "sample_jar [(''lg_rt'', tail_token)]" and raw = tail_token
      and w = tail_world and E = link_env and R = "link_api_draws (CHR ''d'')" and now = 0 and now' = 1000
      and query = "\<lambda>_. FetchRejected" and R' = "link_api_draws (CHR ''d'')" and V = sample_web_env
      and other = "\<lambda>q w. (FetchRejected, w)" and reason = "\<lambda>_. []" and issues = "\<lambda>_. JNull"
      and F = sample_formats and to_iso = "\<lambda>_. []", OF world(1) link_digest]
  have "tail_row \<in> set (db_refresh_tokens (w_db tail_world))" "?t \<in> set (db_tenants (w_db tail_world))"
    "?u \<in> set (db_users (w_db tail_world))" by (simp_all add: tail_world_def uuid_world_def)
  with e world link_timely [OF link_session, of "CHR ''d''"] row can cookies jar link_ids
  show ?thesis
    by (auto simp: link_session link_draws_def sample_tenant_def sample_user_def tail_token_def decodeAccessClaims_def)
qed

end
