(* ===== verification/Numbers.thy ===== *)
theory Numbers
  imports Json
begin

text \<open>
  JavaScript's \<open>Number\<close> on text, which the forms of the web application and the configuration of
  the control plane use: blanks around it are ignored, the empty text is zero, and besides decimal
  literals there are the radix prefixes. The result is undefined where it is not a finite number;
  such a value stands in a document as \<open>JNull\<close>, which the schemas of numbers refuse as they refuse
  \<open>NaN\<close> and the infinities.
\<close>

definition decimal_literal :: "string \<Rightarrow> rat option" where
  "decimal_literal s =
     (let i = takeWhile is_digit s; r = dropWhile is_digit s;
          (f, r') = (case r of
             c # cs \<Rightarrow> if c = CHR ''.'' then (takeWhile is_digit cs, dropWhile is_digit cs) else ([], r)
           | [] \<Rightarrow> ([], r))
      in if i = [] \<and> f = [] then None
         else case parse_exponent r' of
           Some (e, []) \<Rightarrow> Some (scale10 (of_nat (digits_val (i @ f)) / 10 ^ length f) e)
         | _ \<Rightarrow> None)"

fun radix_value :: "nat \<Rightarrow> nat \<Rightarrow> string \<Rightarrow> nat option" where
  "radix_value b acc [] = Some acc"
| "radix_value b acc (c # cs) =
     (case hex_val c of Some v \<Rightarrow> if v < b then radix_value b (acc * b + v) cs else None | None \<Rightarrow> None)"

definition radix_of :: "char \<Rightarrow> nat option" where
  "radix_of c =
     (if c = CHR ''x'' \<or> c = CHR ''X'' then Some 16 else if c = CHR ''o'' \<or> c = CHR ''O'' then Some 8
      else if c = CHR ''b'' \<or> c = CHR ''B'' then Some 2 else None)"

definition js_number :: "string \<Rightarrow> rat option" where
  "js_number s =
     (case trim s of
        [] \<Rightarrow> Some 0
      | c # cs \<Rightarrow>
          if c = CHR ''-'' then map_option uminus (decimal_literal cs)
          else if c = CHR ''+'' then decimal_literal cs
          else (case (c = CHR ''0'', cs) of
            (True, x # d # ds) \<Rightarrow>
              (case radix_of x of
                 Some b \<Rightarrow> map_option of_nat (radix_value b 0 (d # ds))
               | None \<Rightarrow> decimal_literal (c # cs))
          | _ \<Rightarrow> decimal_literal (c # cs)))"

definition number_json :: "string \<Rightarrow> json" where
  "number_json s = (case js_number s of Some r \<Rightarrow> JNum r | None \<Rightarrow> JNull)"

end
