(* ===== verification/Config.thy ===== *)
theory Config
  imports Contract_Laws Numbers
begin

text \<open>
  \<^verbatim>\<open>config/env.ts\<close> and \<^verbatim>\<open>container.ts\<close> of the control plane: the schema of the environment, the
  configuration and the service that starts with it. The environment is a partial function from names to texts; a number is read
  with \<open>Number\<close>, as \<open>z.coerce\<close> does. An environment that \<open>EnvSchema.parse\<close> throws on gives \<open>None\<close>. The
  check of URLs is that of \<open>formats\<close>.
\<close>

section \<open>The environment\<close>

type_synonym process_env = "string \<Rightarrow> string option"

definition env_text :: "process_env \<Rightarrow> string \<Rightarrow> json option" where
  "env_text env k = map_option JStr (env k)"

definition env_number :: "process_env \<Rightarrow> string \<Rightarrow> json option" where
  "env_number env k = map_option number_json (env k)"

definition z_at_least :: "nat \<Rightarrow> string schema" where
  "z_at_least n = z_refine (\<lambda>s. n \<le> length s) z_string"

record EnvVars =
  NODE_ENV :: string
  CONTROL_PLANE_HOST :: string
  CONTROL_PLANE_PORT :: int
  LOGALOT_APP_DATABASE_URL :: string
  JWT_SECRET :: string
  ACCESS_TOKEN_TTL_SECONDS :: int
  REFRESH_TOKEN_TTL_SECONDS :: int
  BCRYPT_COST :: int
  LOG_LEVEL :: string
  REDIS_URL :: "string option"
  OAUTH_STATE_TTL_SECONDS :: int
  GOOGLE_CLIENT_ID :: "string option"
  GOOGLE_CLIENT_SECRET :: "string option"
  GOOGLE_REDIRECT_URI :: "string option"
  GOOGLE_OIDC_CLIENT_ID :: "string option"
  GOOGLE_OIDC_REDIRECT_URI :: "string option"
  GOOGLE_OIDC_AUTH_ENDPOINT :: string
  OIDC_RATE_LIMIT_MAX :: int
  OIDC_RATE_LIMIT_WINDOW_MS :: int
  INVITE_TTL_SECONDS :: int
  INVITE_MAX_OUTSTANDING_PER_TENANT :: int
  INVITE_ACCEPT_BASE_URL :: string
  EMAIL_PROVIDER :: string
  SMTP_HOST :: "string option"
  SMTP_PORT :: "int option"
  SMTP_USER :: "string option"
  SMTP_PASS :: "string option"
  SMTP_FROM :: "string option"

definition env_shape :: "formats \<Rightarrow> process_env \<Rightarrow> EnvVars option" where
  "env_shape F env = do {
     nodeEnv \<leftarrow> z_default ''development'' (z_names [''development'', ''test'', ''production'']) (env_text env ''NODE_ENV'');
     host \<leftarrow> z_default ''0.0.0.0'' z_string (env_text env ''CONTROL_PLANE_HOST'');
     port \<leftarrow> z_default 8082 z_positive (env_number env ''CONTROL_PLANE_PORT'');
     dbUrl \<leftarrow> z_at_least 1 (env_text env ''LOGALOT_APP_DATABASE_URL'');
     secret \<leftarrow> z_at_least 16 (env_text env ''JWT_SECRET'');
     accessTtl \<leftarrow> z_default 900 z_positive (env_number env ''ACCESS_TOKEN_TTL_SECONDS'');
     refreshTtl \<leftarrow> z_default (60 * 60 * 24 * 7) z_positive (env_number env ''REFRESH_TOKEN_TTL_SECONDS'');
     cost \<leftarrow> z_default 10 (z_between 4 15) (env_number env ''BCRYPT_COST'');
     level \<leftarrow> z_default ''info''
       (z_names [''fatal'', ''error'', ''warn'', ''info'', ''debug'', ''trace'', ''silent'']) (env_text env ''LOG_LEVEL'');
     redis \<leftarrow> z_optional z_string (env_text env ''REDIS_URL'');
     stateTtl \<leftarrow> z_default 600 z_positive (env_number env ''OAUTH_STATE_TTL_SECONDS'');
     clientId \<leftarrow> z_optional z_string (env_text env ''GOOGLE_CLIENT_ID'');
     clientSecret \<leftarrow> z_optional z_string (env_text env ''GOOGLE_CLIENT_SECRET'');
     redirectUri \<leftarrow> z_optional z_string (env_text env ''GOOGLE_REDIRECT_URI'');
     oidcClientId \<leftarrow> z_optional z_string (env_text env ''GOOGLE_OIDC_CLIENT_ID'');
     oidcRedirectUri \<leftarrow> z_optional (z_url F) (env_text env ''GOOGLE_OIDC_REDIRECT_URI'');
     authEndpoint \<leftarrow> z_default ''https://accounts.google.com/o/oauth2/v2/auth'' (z_url F)
       (env_text env ''GOOGLE_OIDC_AUTH_ENDPOINT'');
     rateMax \<leftarrow> z_default 20 z_positive (env_number env ''OIDC_RATE_LIMIT_MAX'');
     rateWindow \<leftarrow> z_default 60000 z_positive (env_number env ''OIDC_RATE_LIMIT_WINDOW_MS'');
     inviteTtl \<leftarrow> z_default (60 * 60 * 24 * 7) z_positive (env_number env ''INVITE_TTL_SECONDS'');
     inviteMax \<leftarrow> z_default 50 z_positive (env_number env ''INVITE_MAX_OUTSTANDING_PER_TENANT'');
     baseUrl \<leftarrow> z_default ''http://localhost:5173'' (z_url F) (env_text env ''INVITE_ACCEPT_BASE_URL'');
     provider \<leftarrow> z_default ''none'' (z_names [''none'', ''smtp'', ''ses'']) (env_text env ''EMAIL_PROVIDER'');
     smtpHost \<leftarrow> z_optional z_string (env_text env ''SMTP_HOST'');
     smtpPort \<leftarrow> z_optional z_positive (env_number env ''SMTP_PORT'');
     smtpUser \<leftarrow> z_optional z_string (env_text env ''SMTP_USER'');
     smtpPass \<leftarrow> z_optional z_string (env_text env ''SMTP_PASS'');
     smtpFrom \<leftarrow> z_optional z_string (env_text env ''SMTP_FROM'');
     Some \<lparr> NODE_ENV = nodeEnv, CONTROL_PLANE_HOST = host, CONTROL_PLANE_PORT = port,
       LOGALOT_APP_DATABASE_URL = dbUrl, JWT_SECRET = secret, ACCESS_TOKEN_TTL_SECONDS = accessTtl,
       REFRESH_TOKEN_TTL_SECONDS = refreshTtl, BCRYPT_COST = cost, LOG_LEVEL = level, REDIS_URL = redis,
       OAUTH_STATE_TTL_SECONDS = stateTtl, GOOGLE_CLIENT_ID = clientId, GOOGLE_CLIENT_SECRET = clientSecret,
       GOOGLE_REDIRECT_URI = redirectUri, GOOGLE_OIDC_CLIENT_ID = oidcClientId,
       GOOGLE_OIDC_REDIRECT_URI = oidcRedirectUri, GOOGLE_OIDC_AUTH_ENDPOINT = authEndpoint,
       OIDC_RATE_LIMIT_MAX = rateMax, OIDC_RATE_LIMIT_WINDOW_MS = rateWindow, INVITE_TTL_SECONDS = inviteTtl,
       INVITE_MAX_OUTSTANDING_PER_TENANT = inviteMax, INVITE_ACCEPT_BASE_URL = baseUrl,
       EMAIL_PROVIDER = provider, SMTP_HOST = smtpHost, SMTP_PORT = smtpPort, SMTP_USER = smtpUser,
       SMTP_PASS = smtpPass, SMTP_FROM = smtpFrom \<rparr> }"

text \<open>The names that \<open>superRefine\<close> complains about.\<close>

definition smtp_missing :: "EnvVars \<Rightarrow> string list" where
  "smtp_missing data =
     (if EMAIL_PROVIDER data = ''smtp'' then
        (if SMTP_HOST data = None \<or> SMTP_HOST data = Some [] then [''SMTP_HOST''] else [])
        @ (if SMTP_PORT data = None then [''SMTP_PORT''] else [])
        @ (if SMTP_FROM data = None \<or> SMTP_FROM data = Some [] then [''SMTP_FROM''] else [])
      else [])"

definition EnvSchema :: "formats \<Rightarrow> process_env \<Rightarrow> EnvVars option" where
  "EnvSchema F env = do {
     data \<leftarrow> env_shape F env;
     if smtp_missing data = [] then Some data else None }"

section \<open>The configuration\<close>

record Config =
  cf_nodeEnv :: string
  cf_host :: string
  cf_port :: int
  cf_databaseUrl :: string
  cf_jwtSecret :: string
  cf_accessTokenTtlSeconds :: int
  cf_refreshTokenTtlSeconds :: int
  cf_bcryptCost :: int
  cf_logLevel :: string
  cf_redisUrl :: "string option"
  cf_oauthStateTtlSeconds :: int
  cf_googleClientId :: "string option"
  cf_googleClientSecret :: "string option"
  cf_googleRedirectUri :: "string option"
  cf_googleOidcClientId :: "string option"
  cf_googleOidcRedirectUri :: "string option"
  cf_googleOidcAuthEndpoint :: string
  cf_oidcRateLimitMax :: int
  cf_oidcRateLimitWindowMs :: int
  cf_inviteTtlSeconds :: int
  cf_inviteMaxOutstandingPerTenant :: int
  cf_inviteAcceptBaseUrl :: string
  cf_emailProvider :: string
  cf_smtpHost :: "string option"
  cf_smtpPort :: "int option"
  cf_smtpUser :: "string option"
  cf_smtpPass :: "string option"
  cf_smtpFrom :: "string option"

definition loadConfig :: "formats \<Rightarrow> process_env \<Rightarrow> Config option" where
  "loadConfig F env = do {
     parsed \<leftarrow> EnvSchema F env;
     Some \<lparr> cf_nodeEnv = NODE_ENV parsed, cf_host = CONTROL_PLANE_HOST parsed, cf_port = CONTROL_PLANE_PORT parsed,
       cf_databaseUrl = LOGALOT_APP_DATABASE_URL parsed, cf_jwtSecret = JWT_SECRET parsed,
       cf_accessTokenTtlSeconds = ACCESS_TOKEN_TTL_SECONDS parsed,
       cf_refreshTokenTtlSeconds = REFRESH_TOKEN_TTL_SECONDS parsed,
       cf_bcryptCost = BCRYPT_COST parsed, cf_logLevel = LOG_LEVEL parsed, cf_redisUrl = REDIS_URL parsed,
       cf_oauthStateTtlSeconds = OAUTH_STATE_TTL_SECONDS parsed, cf_googleClientId = GOOGLE_CLIENT_ID parsed,
       cf_googleClientSecret = GOOGLE_CLIENT_SECRET parsed, cf_googleRedirectUri = GOOGLE_REDIRECT_URI parsed,
       cf_googleOidcClientId = GOOGLE_OIDC_CLIENT_ID parsed,
       cf_googleOidcRedirectUri = GOOGLE_OIDC_REDIRECT_URI parsed,
       cf_googleOidcAuthEndpoint = GOOGLE_OIDC_AUTH_ENDPOINT parsed,
       cf_oidcRateLimitMax = OIDC_RATE_LIMIT_MAX parsed, cf_oidcRateLimitWindowMs = OIDC_RATE_LIMIT_WINDOW_MS parsed,
       cf_inviteTtlSeconds = INVITE_TTL_SECONDS parsed,
       cf_inviteMaxOutstandingPerTenant = INVITE_MAX_OUTSTANDING_PER_TENANT parsed,
       cf_inviteAcceptBaseUrl = INVITE_ACCEPT_BASE_URL parsed, cf_emailProvider = EMAIL_PROVIDER parsed,
       cf_smtpHost = SMTP_HOST parsed, cf_smtpPort = SMTP_PORT parsed, cf_smtpUser = SMTP_USER parsed,
       cf_smtpPass = SMTP_PASS parsed, cf_smtpFrom = SMTP_FROM parsed \<rparr> }"

section \<open>The composition root\<close>

text \<open>
  What \<open>buildContainer\<close> of \<^verbatim>\<open>container.ts\<close> makes of a configuration: the settings of the services, the
  hasher, the sender of mail and the clients of Google. The argument \<open>bcrypt\<close> hashes at a cost with a
  salt; \<open>L\<close> holds the other libraries: its \<open>send_email\<close> is the SMTP transport, its \<open>google_fetch\<close> and \<open>google_jwks\<close> are the network. Without a Google client the
  code puts in stubs that reject; the callback turns their error into the same 401 as an answer of
  Google with status 400 and a token that does not verify, which stand for them here.
\<close>

definition truthy :: "string option \<Rightarrow> bool" where
  "truthy x \<longleftrightarrow> x \<noteq> None \<and> x \<noteq> Some []"

definition uses_smtp :: "Config \<Rightarrow> bool" where
  "uses_smtp c \<longleftrightarrow> cf_emailProvider c = ''smtp'' \<and> truthy (cf_smtpHost c)
     \<and> cf_smtpPort c \<noteq> None \<and> cf_smtpPort c \<noteq> Some 0 \<and> truthy (cf_smtpFrom c)"

definition or_blank :: "string option \<Rightarrow> string" where
  "or_blank x = (case x of None \<Rightarrow> [] | Some s \<Rightarrow> s)"

definition buildContainer :: "(int \<Rightarrow> string \<Rightarrow> string \<Rightarrow> string) \<Rightarrow> env \<Rightarrow> Config \<Rightarrow> env" where
  "buildContainer bcrypt L c = L\<lparr>
     bcrypt_hash := bcrypt (cf_bcryptCost c),
     send_email := (if uses_smtp c then send_email L else (\<lambda>_. Inr ())),
     google_fetch :=
       (if truthy (cf_googleClientId c) \<and> truthy (cf_googleClientSecret c) then google_fetch L
        else (\<lambda>_. HttpResponse 400 None)),
     google_jwks := (if truthy (cf_googleClientId c) then google_jwks L else (\<lambda>_ _. JoseRejected)),
     accessTtlSeconds := cf_accessTokenTtlSeconds c,
     refreshTtlSeconds := cf_refreshTokenTtlSeconds c,
     inviteTtlSeconds := cf_inviteTtlSeconds c,
     inviteMaxOutstandingPerTenant := cf_inviteMaxOutstandingPerTenant c,
     inviteAcceptBaseUrl := cf_inviteAcceptBaseUrl c,
     oidc_clientId := or_blank (cf_googleOidcClientId c),
     google_clientId := or_blank (cf_googleClientId c),
     google_clientSecret := or_blank (cf_googleClientSecret c),
     oidc_inviteProvisioner := True,
     oidc_redirectUri :=
       (case cf_googleOidcRedirectUri c of Some u \<Rightarrow> u | None \<Rightarrow> or_blank (cf_googleRedirectUri c)),
     oidc_authEndpoint := cf_googleOidcAuthEndpoint c,
     oidc_stateTtlSeconds := cf_oauthStateTtlSeconds c\<rparr>"

section \<open>What a started service can rely on\<close>

lemma env_text_string [simp]: "z_string (env_text env k) = env k"
  by (cases "env k") (simp_all add: env_text_def)

lemma positive_default: "z_default d z_positive v = Some n \<Longrightarrow> 0 < d \<Longrightarrow> 0 < n"
  by (cases v) (auto simp: z_default_def z_positive_def z_refine_def bind_eq_Some_conv split: option.splits if_splits)

lemma between_default: "z_default d (z_between lo hi) v = Some n \<Longrightarrow> lo \<le> d \<Longrightarrow> d \<le> hi \<Longrightarrow> lo \<le> n \<and> n \<le> hi"
  by (cases v) (auto simp: z_default_def z_between_def z_refine_def bind_eq_Some_conv split: option.splits if_splits)

lemma at_least_text: "z_at_least n (env_text env k) = Some s \<Longrightarrow> env k = Some s \<and> n \<le> length s"
  by (auto simp: z_at_least_def z_refine_def bind_eq_Some_conv split: option.splits if_splits)

lemma optional_positive: "z_optional z_positive v = Some x \<Longrightarrow> pred_option (\<lambda>n. 0 < n) x"
  by (cases v) (auto simp: z_optional_def z_positive_def z_refine_def bind_eq_Some_conv split: option.splits if_splits)

lemma url_default: "z_default d (z_url F) (env_text env k) = Some s \<Longrightarrow> fm_url F s \<or> env k = None \<and> s = d"
  by (cases "env k") (auto simp: env_text_def z_default_def z_url_def z_refine_def bind_eq_Some_conv split: option.splits if_splits)

lemma config_fields:
  assumes "loadConfig F env = Some c"
  obtains e where "env_shape F env = Some e" "smtp_missing e = []"
    "cf_databaseUrl c = LOGALOT_APP_DATABASE_URL e" "cf_jwtSecret c = JWT_SECRET e"
    "cf_accessTokenTtlSeconds c = ACCESS_TOKEN_TTL_SECONDS e"
    "cf_refreshTokenTtlSeconds c = REFRESH_TOKEN_TTL_SECONDS e" "cf_bcryptCost c = BCRYPT_COST e"
    "cf_oauthStateTtlSeconds c = OAUTH_STATE_TTL_SECONDS e" "cf_inviteTtlSeconds c = INVITE_TTL_SECONDS e"
    "cf_inviteMaxOutstandingPerTenant c = INVITE_MAX_OUTSTANDING_PER_TENANT e"
    "cf_inviteAcceptBaseUrl c = INVITE_ACCEPT_BASE_URL e" "cf_emailProvider c = EMAIL_PROVIDER e"
    "cf_smtpHost c = SMTP_HOST e" "cf_smtpPort c = SMTP_PORT e" "cf_smtpFrom c = SMTP_FROM e"
    "cf_oidcRateLimitMax c = OIDC_RATE_LIMIT_MAX e" "cf_oidcRateLimitWindowMs c = OIDC_RATE_LIMIT_WINDOW_MS e"
proof -
  from assms obtain e where e: "env_shape F env = Some e" "smtp_missing e = []"
    unfolding loadConfig_def EnvSchema_def by (auto simp: bind_eq_Some_conv split: if_splits)
  with assms show thesis
    by (intro that [of e]) (auto simp: loadConfig_def EnvSchema_def)
qed

lemma env_shape_parts:
  assumes "env_shape F env = Some e"
  shows "z_at_least 1 (env_text env ''LOGALOT_APP_DATABASE_URL'') = Some (LOGALOT_APP_DATABASE_URL e)
    \<and> z_at_least 16 (env_text env ''JWT_SECRET'') = Some (JWT_SECRET e)
    \<and> z_default 900 z_positive (env_number env ''ACCESS_TOKEN_TTL_SECONDS'') = Some (ACCESS_TOKEN_TTL_SECONDS e)
    \<and> z_default (60 * 60 * 24 * 7) z_positive (env_number env ''REFRESH_TOKEN_TTL_SECONDS'')
        = Some (REFRESH_TOKEN_TTL_SECONDS e)
    \<and> z_default 10 (z_between 4 15) (env_number env ''BCRYPT_COST'') = Some (BCRYPT_COST e)
    \<and> z_default 600 z_positive (env_number env ''OAUTH_STATE_TTL_SECONDS'') = Some (OAUTH_STATE_TTL_SECONDS e)
    \<and> z_default (60 * 60 * 24 * 7) z_positive (env_number env ''INVITE_TTL_SECONDS'') = Some (INVITE_TTL_SECONDS e)
    \<and> z_default 50 z_positive (env_number env ''INVITE_MAX_OUTSTANDING_PER_TENANT'')
        = Some (INVITE_MAX_OUTSTANDING_PER_TENANT e)
    \<and> z_default ''http://localhost:5173'' (z_url F) (env_text env ''INVITE_ACCEPT_BASE_URL'')
        = Some (INVITE_ACCEPT_BASE_URL e)
    \<and> z_optional z_positive (env_number env ''SMTP_PORT'') = Some (SMTP_PORT e)
    \<and> z_default 20 z_positive (env_number env ''OIDC_RATE_LIMIT_MAX'') = Some (OIDC_RATE_LIMIT_MAX e)
    \<and> z_default 60000 z_positive (env_number env ''OIDC_RATE_LIMIT_WINDOW_MS'') = Some (OIDC_RATE_LIMIT_WINDOW_MS e)"
  using assms unfolding env_shape_def bind_eq_Some_conv
  by (elim exE conjE) (simp only: option.inject, hypsubst, simp only: EnvVars.simps simp_thms)

lemma env_shape_bounds:
  assumes "env_shape F env = Some e"
  shows "env ''LOGALOT_APP_DATABASE_URL'' = Some (LOGALOT_APP_DATABASE_URL e) \<and> 1 \<le> length (LOGALOT_APP_DATABASE_URL e)"
    and "env ''JWT_SECRET'' = Some (JWT_SECRET e) \<and> 16 \<le> length (JWT_SECRET e)"
    and "0 < ACCESS_TOKEN_TTL_SECONDS e" and "0 < REFRESH_TOKEN_TTL_SECONDS e"
    and "4 \<le> BCRYPT_COST e \<and> BCRYPT_COST e \<le> 15" and "0 < OAUTH_STATE_TTL_SECONDS e"
    and "0 < INVITE_TTL_SECONDS e" and "0 < INVITE_MAX_OUTSTANDING_PER_TENANT e"
    and "fm_url F (INVITE_ACCEPT_BASE_URL e) \<or> env ''INVITE_ACCEPT_BASE_URL'' = None \<and> INVITE_ACCEPT_BASE_URL e = ''http://localhost:5173''"
    and "pred_option (\<lambda>n. 0 < n) (SMTP_PORT e)"
    and "0 < OIDC_RATE_LIMIT_MAX e" and "0 < OIDC_RATE_LIMIT_WINDOW_MS e"
proof -
  note p = env_shape_parts [OF assms]
  show "env ''LOGALOT_APP_DATABASE_URL'' = Some (LOGALOT_APP_DATABASE_URL e) \<and> 1 \<le> length (LOGALOT_APP_DATABASE_URL e)"
    using p by (elim conjE) (erule at_least_text)
  show "env ''JWT_SECRET'' = Some (JWT_SECRET e) \<and> 16 \<le> length (JWT_SECRET e)"
    using p by (elim conjE) (erule at_least_text)
  show "0 < ACCESS_TOKEN_TTL_SECONDS e" using p by (elim conjE) (erule positive_default, simp)
  show "0 < REFRESH_TOKEN_TTL_SECONDS e" using p by (elim conjE) (erule positive_default, simp)
  show "0 < OAUTH_STATE_TTL_SECONDS e" using p by (elim conjE) (erule positive_default, simp)
  show "0 < INVITE_TTL_SECONDS e" using p by (elim conjE) (erule positive_default, simp)
  show "0 < INVITE_MAX_OUTSTANDING_PER_TENANT e" using p by (elim conjE) (erule positive_default, simp)
  show "0 < OIDC_RATE_LIMIT_MAX e" using p by (elim conjE) (erule positive_default, simp)
  show "0 < OIDC_RATE_LIMIT_WINDOW_MS e" using p by (elim conjE) (erule positive_default, simp)
  show "4 \<le> BCRYPT_COST e \<and> BCRYPT_COST e \<le> 15" using p by (elim conjE) (erule between_default, simp_all)
  show "fm_url F (INVITE_ACCEPT_BASE_URL e) \<or> env ''INVITE_ACCEPT_BASE_URL'' = None \<and> INVITE_ACCEPT_BASE_URL e = ''http://localhost:5173''"
    using p by (elim conjE) (erule url_default)
  show "pred_option (\<lambda>n. 0 < n) (SMTP_PORT e)" using p by (elim conjE) (erule optional_positive)
qed

lemma smtp_complete:
  "smtp_missing e = [] \<Longrightarrow> pred_option (\<lambda>n. 0 < n) (SMTP_PORT e) \<Longrightarrow> EMAIL_PROVIDER e = ''smtp''
    \<Longrightarrow> truthy (SMTP_HOST e) \<and> SMTP_PORT e \<noteq> None \<and> SMTP_PORT e \<noteq> Some 0 \<and> truthy (SMTP_FROM e)"
  by (auto simp: smtp_missing_def truthy_def split: if_splits)

text \<open>
  C27. A control plane that starts has the settings the rest of the code counts on. The database URL
  and a signing secret of at least 16 characters come from the environment and have no default.
  Access tokens, refresh tokens, sign-in states and invites live for a positive time, and a tenant
  may have at least one open invite. Passwords are hashed at the configured bcrypt cost, which lies
  between 4 and 15, and the limits on sign-in requests are positive. The base of invite links
  is a URL or the local default. Mail goes to the SMTP transport exactly when the provider is smtp: a
  start with that provider never falls back to the sender that drops mail, and under every other
  provider nothing is sent.
\<close>

theorem started_service_settings:
  assumes "loadConfig F env = Some c"
  shows "let S = buildContainer bcrypt L c in
     env ''LOGALOT_APP_DATABASE_URL'' = Some (cf_databaseUrl c) \<and> cf_databaseUrl c \<noteq> []
   \<and> env ''JWT_SECRET'' = Some (cf_jwtSecret c) \<and> 16 \<le> length (cf_jwtSecret c)
   \<and> 0 < accessTtlSeconds S \<and> 0 < refreshTtlSeconds S \<and> 0 < oidc_stateTtlSeconds S
   \<and> 0 < inviteTtlSeconds S \<and> 0 < inviteMaxOutstandingPerTenant S
   \<and> 4 \<le> cf_bcryptCost c \<and> cf_bcryptCost c \<le> 15 \<and> bcrypt_hash S = bcrypt (cf_bcryptCost c)
   \<and> 0 < cf_oidcRateLimitMax c \<and> 0 < cf_oidcRateLimitWindowMs c
   \<and> (fm_url F (inviteAcceptBaseUrl S)
      \<or> env ''INVITE_ACCEPT_BASE_URL'' = None \<and> inviteAcceptBaseUrl S = ''http://localhost:5173'')
   \<and> send_email S = (if cf_emailProvider c = ''smtp'' then send_email L else (\<lambda>_. Inr ()))"
proof -
  from assms obtain e where e: "env_shape F env = Some e" "smtp_missing e = []"
    and c: "cf_databaseUrl c = LOGALOT_APP_DATABASE_URL e" "cf_jwtSecret c = JWT_SECRET e"
      "cf_accessTokenTtlSeconds c = ACCESS_TOKEN_TTL_SECONDS e"
      "cf_refreshTokenTtlSeconds c = REFRESH_TOKEN_TTL_SECONDS e" "cf_bcryptCost c = BCRYPT_COST e"
      "cf_oauthStateTtlSeconds c = OAUTH_STATE_TTL_SECONDS e" "cf_inviteTtlSeconds c = INVITE_TTL_SECONDS e"
      "cf_inviteMaxOutstandingPerTenant c = INVITE_MAX_OUTSTANDING_PER_TENANT e"
      "cf_inviteAcceptBaseUrl c = INVITE_ACCEPT_BASE_URL e" "cf_emailProvider c = EMAIL_PROVIDER e"
      "cf_smtpHost c = SMTP_HOST e" "cf_smtpPort c = SMTP_PORT e" "cf_smtpFrom c = SMTP_FROM e"
      "cf_oidcRateLimitMax c = OIDC_RATE_LIMIT_MAX e" "cf_oidcRateLimitWindowMs c = OIDC_RATE_LIMIT_WINDOW_MS e"
    by (rule config_fields)
  note b = env_shape_bounds [OF e(1)]
  have "uses_smtp c \<longleftrightarrow> cf_emailProvider c = ''smtp''"
    using smtp_complete [OF e(2) b(10)] by (auto simp: uses_smtp_def c)
  then have "send_email (buildContainer bcrypt L c) = (if cf_emailProvider c = ''smtp'' then send_email L else (\<lambda>_. Inr ()))"
    by (simp add: buildContainer_def)
  with b show ?thesis unfolding Let_def
    by (simp add: buildContainer_def c Suc_le_eq)
qed

definition sample_environment :: process_env where
  "sample_environment = [''LOGALOT_APP_DATABASE_URL'' \<mapsto> ''postgres://db'', ''JWT_SECRET'' \<mapsto> ''0123456789abcdef'',
     ''ACCESS_TOKEN_TTL_SECONDS'' \<mapsto> '' 6e2 '', ''EMAIL_PROVIDER'' \<mapsto> ''smtp'', ''SMTP_HOST'' \<mapsto> ''mail'',
     ''SMTP_PORT'' \<mapsto> ''0x1d1'', ''SMTP_FROM'' \<mapsto> ''noreply@logalot.io'']"

definition sample_config :: Config where
  "sample_config = \<lparr> cf_nodeEnv = ''development'', cf_host = ''0.0.0.0'', cf_port = 8082,
     cf_databaseUrl = ''postgres://db'', cf_jwtSecret = ''0123456789abcdef'', cf_accessTokenTtlSeconds = 600,
     cf_refreshTokenTtlSeconds = 604800, cf_bcryptCost = 10, cf_logLevel = ''info'', cf_redisUrl = None,
     cf_oauthStateTtlSeconds = 600, cf_googleClientId = None, cf_googleClientSecret = None,
     cf_googleRedirectUri = None, cf_googleOidcClientId = None, cf_googleOidcRedirectUri = None,
     cf_googleOidcAuthEndpoint = ''https://accounts.google.com/o/oauth2/v2/auth'', cf_oidcRateLimitMax = 20,
     cf_oidcRateLimitWindowMs = 60000, cf_inviteTtlSeconds = 604800, cf_inviteMaxOutstandingPerTenant = 50,
     cf_inviteAcceptBaseUrl = ''http://localhost:5173'', cf_emailProvider = ''smtp'', cf_smtpHost = Some ''mail'',
     cf_smtpPort = Some 465, cf_smtpUser = None, cf_smtpPass = None, cf_smtpFrom = Some ''noreply@logalot.io'' \<rparr>"

lemma sample_numbers: "number_json '' 6e2 '' = JNum 600" "number_json ''0x1d1'' = JNum 465"
  by code_simp+

lemma sample_loads: "loadConfig F sample_environment = Some sample_config"
  by (simp add: loadConfig_def EnvSchema_def env_shape_def sample_environment_def env_text_def env_number_def
      sample_numbers z_default_def z_optional_def z_refine_def z_at_least_def z_names_def z_positive_def
      smtp_missing_def sample_config_def MAX_SAFE_INTEGER_def)

theorem started_service_settings_witness:
  "loadConfig sample_formats sample_environment = Some sample_config
   \<and> send_email (buildContainer (\<lambda>_. bcrypt_hash sample_env) sample_env sample_config) = send_email sample_env
   \<and> 0 < accessTtlSeconds (buildContainer (\<lambda>_. bcrypt_hash sample_env) sample_env sample_config)"
  using started_service_settings [OF sample_loads [of sample_formats], of "\<lambda>_. bcrypt_hash sample_env" sample_env] sample_loads
  unfolding Let_def by (simp add: sample_config_def)

end
