(* ===== verification/Mail.thy ===== *)
theory Mail
  imports Services
begin

text \<open>
  \<^verbatim>\<open>adapters/email\<close> of the control plane: the template of the invite mail with its guards, and what the
  two senders hand to the transport and to the log. The SMTP transport is a parameter.
\<close>

section \<open>The template\<close>

text \<open>The characters of category Cc.\<close>

definition control_char :: "char \<Rightarrow> bool" where
  "control_char c = (let n = (of_char c :: nat) in n \<le> 31 \<or> (127 \<le> n \<and> n \<le> 159))"

definition assertNoControlChars :: "string \<Rightarrow> string \<Rightarrow> js_error + unit" where
  "assertNoControlChars value field =
     (if list_ex control_char value
      then Inl (DomainErr (ValidationError
             (field @ '' contains disallowed control character (header injection rejected)'') None))
      else Inr ())"

definition replace_char :: "char \<Rightarrow> string \<Rightarrow> string \<Rightarrow> string" where
  "replace_char c r s = concat (map (\<lambda>x. if x = c then r else [x]) s)"

definition escapeHtml :: "string \<Rightarrow> string" where
  "escapeHtml raw =
     replace_char (CHR 0x27) ''&#39;'' (replace_char (CHR 0x22) ''&quot;''
       (replace_char (CHR ''>'') ''&gt;'' (replace_char (CHR ''<'') ''&lt;'' (replace_char (CHR ''&'') ''&amp;'' raw))))"

record InviteEmailFields =
  ief_recipientEmail :: string
  ief_inviteUrl :: string
  ief_inviteId :: string
  ief_tenantName :: string

definition quoted :: "string \<Rightarrow> string" where
  "quoted s = [CHR 0x22] @ s @ [CHR 0x22]"

definition you_have :: string where
  "you_have = ''You'' @ [CHR 0x27] @ ''ve been invited to ''"

definition invite_text :: "string \<Rightarrow> string \<Rightarrow> string" where
  "invite_text tenantName inviteUrl = join [CHR 0x0A]
     [you_have @ ''join '' @ tenantName @ '' on Logalot.'', [], ''Accept your invitation here:'', inviteUrl, [],
      ''This link will expire in 7 days. If you did not expect this invitation, you can safely ignore this email.'']"

definition invite_html :: "string \<Rightarrow> string \<Rightarrow> string \<Rightarrow> string" where
  "invite_html safeTenantName safeEmail inviteUrl = join [CHR 0x0A]
     [''<!DOCTYPE html>'',
      ''<html lang='' @ quoted ''en'' @ ''>'',
      ''<head><meta charset='' @ quoted ''utf-8'' @ ''><title>Invitation to '' @ safeTenantName @ ''</title></head>'',
      ''<body style='' @ quoted ''font-family:sans-serif;max-width:600px;margin:0 auto;padding:24px'' @ ''>'',
      ''  <h1 style='' @ quoted ''font-size:1.25rem'' @ ''>'' @ you_have @ ''join '' @ safeTenantName @ ''</h1>'',
      ''  <p>Hi '' @ safeEmail @ '',</p>'',
      ''  <p>An admin has invited you to join <strong>'' @ safeTenantName @ ''</strong> on Logalot.</p>'',
      ''  <p style='' @ quoted ''margin:24px 0'' @ ''>'',
      ''    <a href='' @ quoted inviteUrl,
      ''       style='' @ quoted ''background:#4f46e5;color:#fff;padding:12px 24px;border-radius:6px;text-decoration:none;display:inline-block'' @ ''>'',
      ''      Accept invitation'',
      ''    </a>'',
      ''  </p>'',
      ''  <p style='' @ quoted ''color:#6b7280;font-size:0.875rem'' @ ''>'',
      ''    This link will expire in 7 days. If you did not expect this invitation,'',
      ''    you can safely ignore this email.'',
      ''  </p>'',
      ''</body>'',
      ''</html>'']"

definition buildInviteEmail :: "InviteEmailFields \<Rightarrow> js_error + EmailMessage" where
  "buildInviteEmail f =
     (case assertNoControlChars (ief_recipientEmail f) ''recipientEmail'' of
        Inl e \<Rightarrow> Inl e
      | Inr _ \<Rightarrow>
          (case assertNoControlChars (ief_tenantName f) ''tenantName'' of
             Inl e \<Rightarrow> Inl e
           | Inr _ \<Rightarrow> Inr \<lparr>
               em_to = ief_recipientEmail f,
               em_subject = you_have @ ief_tenantName f,
               em_text = invite_text (ief_tenantName f) (ief_inviteUrl f),
               em_html = Some (invite_html (escapeHtml (ief_tenantName f)) (escapeHtml (ief_recipientEmail f))
                                 (ief_inviteUrl f)) \<rparr>))"

section \<open>The senders\<close>

record SmtpConfig =
  smtp_host :: string
  smtp_port :: int
  smtp_user :: "string option"
  smtp_pass :: "string option"
  smtp_from :: string
  smtp_secure :: "bool option"

record transport_options =
  to_host :: string
  to_port :: int
  to_secure :: bool
  to_auth :: "(string \<times> string) option"

definition createTransport :: "SmtpConfig \<Rightarrow> transport_options" where
  "createTransport cfg =
     \<lparr> to_host = smtp_host cfg, to_port = smtp_port cfg,
       to_secure = (case smtp_secure cfg of Some b \<Rightarrow> b | None \<Rightarrow> smtp_port cfg = 465),
       to_auth = map_option (\<lambda>u. (u, case smtp_pass cfg of Some p \<Rightarrow> p | None \<Rightarrow> [])) (smtp_user cfg) \<rparr>"

text \<open>The result of the call and the documents written to the log, one per line.\<close>

definition smtp_send ::
  "(transport_options \<Rightarrow> string \<Rightarrow> EmailMessage \<Rightarrow> js_error + unit) \<Rightarrow> SmtpConfig \<Rightarrow> EmailMessage
     \<Rightarrow> (js_error + unit) \<times> json list" where
  "smtp_send sendMail cfg m =
     (case sendMail (createTransport cfg) (smtp_from cfg) m of
        Inl e \<Rightarrow> (Inl e, [])
      | Inr _ \<Rightarrow> (Inr (), [JObj [(''type'', JStr ''email_sent''), (''to'', JStr (em_to m))]]))"

definition noop_send :: "EmailMessage \<Rightarrow> (js_error + unit) \<times> json list" where
  "noop_send m = (Inr (), [JObj [(''type'', JStr ''email_noop''), (''to'', JStr (em_to m))]])"

section \<open>Laws\<close>

definition escape_char :: "char \<Rightarrow> string" where
  "escape_char c =
     (if c = CHR ''&'' then ''&amp;'' else if c = CHR ''<'' then ''&lt;'' else if c = CHR ''>'' then ''&gt;''
      else if c = CHR 0x22 then ''&quot;'' else if c = CHR 0x27 then ''&#39;'' else [c])"

lemma replace_char_Nil [simp]: "replace_char c r [] = []"
  by (simp add: replace_char_def)

lemma replace_char_append: "replace_char c r (xs @ ys) = replace_char c r xs @ replace_char c r ys"
  by (simp add: replace_char_def)

lemma escapeHtml_append: "escapeHtml (xs @ ys) = escapeHtml xs @ escapeHtml ys"
  by (simp add: escapeHtml_def replace_char_append)

lemma escapeHtml_single: "escapeHtml [c] = escape_char c"
  by (simp add: escapeHtml_def escape_char_def replace_char_def)

text \<open>The five replacements in their order are one pass: none of them touches what another wrote.\<close>

lemma escapeHtml_one_pass: "escapeHtml s = concat (map escape_char s)"
proof (induction s)
  case Nil
  show ?case by (simp add: escapeHtml_def)
next
  case (Cons c s)
  have "escapeHtml (c # s) = escapeHtml [c] @ escapeHtml s"
    using escapeHtml_append [of "[c]" s] by simp
  with Cons.IH show ?case by (simp add: escapeHtml_single)
qed

definition markup :: "char \<Rightarrow> bool" where
  "markup c \<longleftrightarrow> c = CHR ''<'' \<or> c = CHR ''>'' \<or> c = CHR 0x22 \<or> c = CHR 0x27"

lemma escapeHtml_no_markup: "filter markup (escapeHtml s) = []"
  unfolding escapeHtml_one_pass by (induction s) (simp_all add: escape_char_def markup_def)

lemma filter_join: "filter p (join sep xs) = join (filter p sep) (map (filter p) xs)"
  by (induction sep xs rule: join.induct) simp_all

text \<open>
  The builder refuses control characters in the address and the name. What it accepts has none in
  the two header fields, and the characters of its document that can open or close a tag or an
  attribute are those of the template and of the link: the address and the name contribute none.
\<close>

lemma invite_mail_safe:
  assumes "buildInviteEmail f = Inr m"
  shows "\<not> list_ex control_char (em_to m) \<and> \<not> list_ex control_char (em_subject m)
    \<and> em_to m = ief_recipientEmail f
    \<and> map_option (filter markup) (em_html m) = Some (filter markup (invite_html [] [] (ief_inviteUrl f)))"
proof -
  from assms have ok: "\<not> list_ex control_char (ief_recipientEmail f)" "\<not> list_ex control_char (ief_tenantName f)"
    and m: "em_to m = ief_recipientEmail f" "em_subject m = you_have @ ief_tenantName f"
      "em_html m = Some (invite_html (escapeHtml (ief_tenantName f)) (escapeHtml (ief_recipientEmail f)) (ief_inviteUrl f))"
    by (auto simp: buildInviteEmail_def assertNoControlChars_def split: if_splits)
  have "\<not> list_ex control_char you_have" by code_simp
  moreover have "filter markup (invite_html (escapeHtml t) (escapeHtml a) u) = filter markup (invite_html [] [] u)" for t a u
    by (simp only: invite_html_def filter_join list.map filter_append escapeHtml_no_markup append_Nil filter.simps(1))
  ultimately show ?thesis using ok m by (simp add: list_ex_append)
qed

text \<open>Neither sender writes the link: the log depends on the recipient only.\<close>

lemma log_without_link:
  "em_to m = em_to m' \<Longrightarrow> snd (noop_send m) = snd (noop_send m')"
  "em_to m = em_to m' \<Longrightarrow> fst (smtp_send t cfg m) = fst (smtp_send t cfg m')
    \<Longrightarrow> snd (smtp_send t cfg m) = snd (smtp_send t cfg m')"
  by (auto simp: noop_send_def smtp_send_def split: sum.splits)

end
