(* ===== verification/Forms.thy ===== *)
theory Forms
  imports Web_Admin Numbers
begin

text \<open>
  What the forms of the web application make of their fields: \<^verbatim>\<open>features/alerts/alert-rule-form.tsx\<close>,
  the dialogs of \<^verbatim>\<open>features/admin\<close> and \<^verbatim>\<open>features/dashboards/dashboard-list.tsx\<close>, and which sections
  the administration page shows (\<^verbatim>\<open>features/admin/admin-dashboard.tsx\<close>).

  \<^item> A form ends in a message, \<open>Inl\<close>, or in the request it hands to its server function, \<open>Inr\<close>. The
    messages of a refused document are the argument \<open>issues\<close>.
  \<^item> Assigning text to the name \<^verbatim>\<open>__proto__\<close> of an object leaves the object as it is.
    \<open>String\<close> of a number is the argument \<open>num_text\<close>, \<open>new Date\<close> the argument \<open>date_parse\<close>.
\<close>

section \<open>Alert rules\<close>

datatype channel_type = ct_webhook | ct_email

record AlertRuleFormValues =
  fv_name :: string
  fv_text :: string
  fv_service :: string
  fv_level :: string
  fv_labels :: string
  fv_comparator :: alert_comparator
  fv_threshold :: string
  fv_windowSeconds :: string
  fv_severity :: string
  fv_enabled :: bool
  fv_notifyChannels :: "(channel_type \<times> string) list"

definition EMPTY_ALERT_RULE_VALUES :: AlertRuleFormValues where
  "EMPTY_ALERT_RULE_VALUES =
     \<lparr> fv_name = [], fv_text = [], fv_service = [], fv_level = [], fv_labels = [], fv_comparator = gt,
       fv_threshold = ''0'', fv_windowSeconds = ''300'', fv_severity = ''warning'', fv_enabled = True,
       fv_notifyChannels = [] \<rparr>"

definition parse_label_line :: "string \<Rightarrow> (string \<times> string) list \<Rightarrow> (string \<times> string) list" where
  "parse_label_line line out =
     (let trimmed = trim line
      in if trimmed = [] then out
         else case indexOf trimmed ''='' of
           None \<Rightarrow> out
         | Some i \<Rightarrow>
             if i = 0 then out
             else let key = trim (take i trimmed); value = trim (drop (Suc i) trimmed)
                  in if key = [] \<or> key = ''__proto__'' then out else set_prop key value out)"

definition parseLabels :: "string \<Rightarrow> (string \<times> string) list" where
  "parseLabels raw = fold parse_label_line (split_char (CHR 0x0A) raw) []"

definition query_body :: "AlertRuleFormValues \<Rightarrow> (string \<times> json) list" where
  "query_body v =
     (if trim (fv_text v) \<noteq> [] then [(''text'', JStr (trim (fv_text v)))] else [])
     @ (if trim (fv_service v) \<noteq> [] then [(''service'', JStr (trim (fv_service v)))] else [])
     @ (if fv_level v \<noteq> [] then [(''level'', JStr (fv_level v))] else [])
     @ (if parseLabels (fv_labels v) \<noteq> [] then [(''labels'', j_labels (parseLabels (fv_labels v)))] else [])"

definition channel_body :: "channel_type \<times> string \<Rightarrow> json" where
  "channel_body c =
     (case c of
        (ct_webhook, x) \<Rightarrow> JObj [(''type'', JStr ''webhook''), (''url'', JStr (trim x))]
      | (ct_email, x) \<Rightarrow> JObj [(''type'', JStr ''email''), (''to'', JStr (trim x))])"

definition assembleAlertRuleBody :: "AlertRuleFormValues \<Rightarrow> json" where
  "assembleAlertRuleBody v = JObj
     [(''name'', JStr (trim (fv_name v))), (''query'', JObj (query_body v)),
      (''comparator'', JStr (comparator_name (fv_comparator v))), (''threshold'', number_json (fv_threshold v)),
      (''windowSeconds'', number_json (fv_windowSeconds v)), (''severity'', JStr (fv_severity v)),
      (''enabled'', JBool (fv_enabled v)),
      (''notifyChannels'', JArr (map channel_body (filter (\<lambda>(_, x). trim x \<noteq> []) (fv_notifyChannels v))))]"

definition or_empty :: "string option \<Rightarrow> string" where
  "or_empty x = (case x of None \<Rightarrow> [] | Some s \<Rightarrow> s)"

fun channel_draft :: "NotifyChannel \<Rightarrow> channel_type \<times> string" where
  "channel_draft (webhook url) = (ct_webhook, url)"
| "channel_draft (email_channel to) = (ct_email, to)"

definition label_lines :: "(string \<times> string) list \<Rightarrow> string" where
  "label_lines ls = join [CHR 0x0A] (map (\<lambda>(k, v). k @ ''='' @ v) ls)"

definition valuesFromRule :: "(rat \<Rightarrow> string) \<Rightarrow> AlertRuleResponse \<Rightarrow> AlertRuleFormValues" where
  "valuesFromRule num_text rule =
     \<lparr> fv_name = ars_name rule,
       fv_text = or_empty (q_text (ars_query rule)),
       fv_service = or_empty (q_service (ars_query rule)),
       fv_level = or_empty (q_level (ars_query rule)),
       fv_labels = label_lines (case q_labels (ars_query rule) of None \<Rightarrow> [] | Some ls \<Rightarrow> ls),
       fv_comparator = ars_comparator rule,
       fv_threshold = num_text (ars_threshold rule),
       fv_windowSeconds = num_text (ars_windowSeconds rule),
       fv_severity = (case alertSeveritySchema (Some (JStr (ars_severity rule))) of Some s \<Rightarrow> s | None \<Rightarrow> ''warning''),
       fv_enabled = ars_enabled rule,
       fv_notifyChannels = map channel_draft (ars_notifyChannels rule) \<rparr>"

datatype form_mode = create_mode | edit_mode

datatype rule_request = CreateRule CreateAlertRuleCommand | UpdateRule AlertRulePatch

definition validateAlertRule ::
  "formats \<Rightarrow> (json \<Rightarrow> string list) \<Rightarrow> form_mode \<Rightarrow> AlertRuleFormValues \<Rightarrow> string list + rule_request" where
  "validateAlertRule F issues mode v =
     (let body = assembleAlertRuleBody v;
          messages = rev (remdups (rev (issues body)))
      in case mode of
           create_mode \<Rightarrow>
             (case createAlertRuleRequestSchema F (Some body) of Some c \<Rightarrow> Inr (CreateRule c) | None \<Rightarrow> Inl messages)
         | edit_mode \<Rightarrow>
             (case updateAlertRuleRequestSchema F (Some body) of Some p \<Rightarrow> Inr (UpdateRule p) | None \<Rightarrow> Inl messages))"

definition rule_form_submit ::
  "formats \<Rightarrow> (json \<Rightarrow> string list) \<Rightarrow> form_mode \<Rightarrow> AlertRuleFormValues \<Rightarrow> string + rule_request" where
  "rule_form_submit F issues mode v =
     (case validateAlertRule F issues mode v of Inl messages \<Rightarrow> Inl (join ''. '' messages) | Inr r \<Rightarrow> Inr r)"

section \<open>Users\<close>

definition checked :: "(json \<Rightarrow> string list) \<Rightarrow> 'a schema \<Rightarrow> json \<Rightarrow> string + 'a" where
  "checked issues schema body =
     (case schema (Some body) of Some x \<Rightarrow> Inr x | None \<Rightarrow> Inl (join ''. '' (issues body)))"

record CreateUserValues =
  cuv_email :: string
  cuv_password :: string
  cuv_displayName :: string
  cuv_role :: membership_role

definition create_user_submit ::
  "formats \<Rightarrow> (json \<Rightarrow> string list) \<Rightarrow> CreateUserValues \<Rightarrow> string + CreateUserCommand" where
  "create_user_submit F issues v =
     checked issues (createUserRequestSchema F) (JObj
       ([(''email'', JStr (trim (cuv_email v))), (''password'', JStr (cuv_password v)),
         (''role'', JStr (membership_name (cuv_role v)))]
        @ (if trim (cuv_displayName v) \<noteq> [] then [(''displayName'', JStr (trim (cuv_displayName v)))] else [])))"

record EditUserValues =
  euv_displayName :: string
  euv_role :: membership_role
  euv_status :: string
  euv_password :: string

definition edit_user_defaults :: "UserResponse \<Rightarrow> EditUserValues" where
  "edit_user_defaults user =
     \<lparr> euv_displayName = or_empty (urs_displayName user), euv_role = urs_role user, euv_status = urs_status user,
       euv_password = [] \<rparr>"

definition edit_user_body :: "UserResponse \<Rightarrow> EditUserValues \<Rightarrow> (string \<times> json) list" where
  "edit_user_body user v =
     (let displayName = trim (euv_displayName v)
      in (if displayName \<noteq> [] \<and> displayName \<noteq> or_empty (urs_displayName user)
          then [(''displayName'', JStr displayName)] else [])
         @ (if euv_role v \<noteq> urs_role user then [(''role'', JStr (membership_name (euv_role v)))] else [])
         @ (if euv_status v \<noteq> urs_status user then [(''status'', JStr (euv_status v))] else [])
         @ (if euv_password v \<noteq> [] then [(''password'', JStr (euv_password v))] else []))"

definition edit_user_submit ::
  "(json \<Rightarrow> string list) \<Rightarrow> UserResponse \<Rightarrow> EditUserValues \<Rightarrow> string + UpdateUserCommand" where
  "edit_user_submit issues user v =
     (let body = edit_user_body user v
      in if body = [] then Inl ''Nothing to update.'' else checked issues updateUserRequestSchema (JObj body))"

section \<open>API keys, invites, retention, dashboards\<close>

record IssueKeyValues =
  ikv_name :: string
  ikv_expiresAt :: string
  ikv_scopes :: "string list"

definition toggle_scope :: "bool \<Rightarrow> string \<Rightarrow> string list \<Rightarrow> string list" where
  "toggle_scope on scope scopes = (if on then scopes @ [scope] else filter (\<lambda>s. s \<noteq> scope) scopes)"

definition issue_key_submit ::
  "formats \<Rightarrow> (json \<Rightarrow> string list) \<Rightarrow> (string \<Rightarrow> millis option) \<Rightarrow> (millis \<Rightarrow> string) \<Rightarrow> IssueKeyValues
     \<Rightarrow> string + IssueApiKeyCommand" where
  "issue_key_submit F issues date_parse to_iso v =
     (if ikv_scopes v = [] then Inl ''At least one scope is required.''
      else
        let body = [(''name'', JStr (trim (ikv_name v))), (''scopes'', JArr (map JStr (ikv_scopes v)))]
        in if ikv_expiresAt v \<noteq> [] then
             (case date_parse (ikv_expiresAt v) of
                None \<Rightarrow> Inl ''Expiry is not a valid date.''
              | Some ms \<Rightarrow>
                  checked issues (createApiKeyRequestSchema F) (JObj (body @ [(''expiresAt'', JStr (to_iso ms))])))
           else checked issues (createApiKeyRequestSchema F) (JObj body))"

definition key_status :: "(string \<Rightarrow> millis option) \<Rightarrow> millis \<Rightarrow> ApiKeyResponse \<Rightarrow> string" where
  "key_status date_parse now key =
     (if krs_revokedAt key \<noteq> None \<and> krs_revokedAt key \<noteq> Some [] then ''Revoked''
      else case krs_expiresAt key of
        None \<Rightarrow> ''Active''
      | Some e \<Rightarrow>
          if e \<noteq> [] \<and> (case date_parse e of None \<Rightarrow> False | Some ms \<Rightarrow> ms < now) then ''Expired'' else ''Active'')"

definition create_invite_submit ::
  "formats \<Rightarrow> (json \<Rightarrow> string list) \<Rightarrow> string \<Rightarrow> string \<Rightarrow> string + CreateInviteCommand" where
  "create_invite_submit F issues email role =
     checked issues (createInviteRequestSchema F) (JObj [(''email'', JStr (trim email)), (''role'', JStr role)])"

definition invite_status :: "(string \<Rightarrow> millis option) \<Rightarrow> millis \<Rightarrow> InviteResponse \<Rightarrow> string" where
  "invite_status date_parse now invite =
     (if irs_status invite = ''revoked'' then ''Revoked''
      else if irs_status invite = ''consumed'' then ''Consumed''
      else case date_parse (irs_expiresAt invite) of
        None \<Rightarrow> ''Pending''
      | Some ms \<Rightarrow> if ms < now then ''Expired'' else ''Pending'')"

definition retention_defaults :: "(rat \<Rightarrow> string) \<Rightarrow> RetentionResponse option \<Rightarrow> string \<times> string" where
  "retention_defaults num_text retention =
     (case retention of
        None \<Rightarrow> (num_text 30, num_text 365)
      | Some r \<Rightarrow> (num_text (rrs_hotDays r), num_text (rrs_coldDays r)))"

definition retention_submit :: "(json \<Rightarrow> string list) \<Rightarrow> string \<times> string \<Rightarrow> string + UpsertRetentionCommand" where
  "retention_submit issues v =
     checked issues upsertRetentionRequestSchema
       (JObj [(''hotDays'', number_json (fst v)), (''coldDays'', number_json (snd v))])"

text \<open>This form sends its body without asking the schema first.\<close>

definition create_dashboard_submit :: "string \<Rightarrow> string \<Rightarrow> string + json" where
  "create_dashboard_submit name description =
     (if trim name = [] then Inl ''Name is required.''
      else Inr (JObj ([(''name'', JStr (trim name))]
             @ (if trim description \<noteq> [] then [(''description'', JStr (trim description))] else [])
             @ [(''layout'', JObj [(''panels'', JArr [])])])))"

section \<open>The sections of the administration page\<close>

datatype admin_section =
    TenantInfoCard TenantResponse
  | RetentionCard "RetentionResponse option"
  | UsersSection "UserResponse list"
  | ApiKeysSection "ApiKeyResponse list"
  | InvitesSection "InviteResponse list"
  | SectionError string AdminErrorKind string

definition section_of :: "string \<Rightarrow> ('a \<Rightarrow> admin_section) \<Rightarrow> 'a AdminOutcome \<Rightarrow> admin_section" where
  "section_of title show out = (case out of AdminOk x \<Rightarrow> show x | AdminFailed k m \<Rightarrow> SectionError title k m)"

definition section_if :: "string \<Rightarrow> ('a \<Rightarrow> admin_section) \<Rightarrow> 'a AdminOutcome option \<Rightarrow> admin_section list" where
  "section_if title show out = (case out of None \<Rightarrow> [] | Some x \<Rightarrow> [section_of title show x])"

definition AdminDashboard :: "AdminData \<Rightarrow> admin_section list" where
  "AdminDashboard data =
     [section_of ''Workspace'' TenantInfoCard (adm_tenant data),
      section_of ''Retention'' RetentionCard (adm_retention data)]
     @ section_if ''Users'' UsersSection (adm_users data)
     @ section_if ''API keys'' ApiKeysSection (adm_apiKeys data)
     @ section_if ''Invites'' InvitesSection (adm_invites data)"

end
