(* ===== verification/Form_Laws.thy ===== *)
theory Form_Laws
  imports Forms Contract_Laws
begin

text \<open>
  What the forms of \<^verbatim>\<open>Forms\<close> keep: labels survive their textarea, an alert rule and a retention policy
  survive their edit forms, the form of a user sends what was changed and nothing else, and the
  administration page shows no section of data it did not load.
\<close>

section \<open>Labels\<close>

lemma split_join:
  "xs \<noteq> [] \<Longrightarrow> \<forall>x \<in> set xs. d \<notin> set x \<Longrightarrow> split_char d (join [d] xs) = xs"
  by (induction "[d]" xs rule: join.induct) (simp_all add: split_char_last split_char_part)

lemma trim_ends: "trim s = s \<Longrightarrow> s \<noteq> [] \<Longrightarrow> \<not> is_js_space (hd s) \<and> \<not> is_js_space (last s)"
proof -
  assume t: "trim s = s" and ne: "s \<noteq> []"
  have "length (trim s) \<le> length (dropWhile is_js_space s)"
    unfolding trim_def by (simp add: length_dropWhile_le [THEN order_trans])
  with t have "length s \<le> length (dropWhile is_js_space s)" by simp
  then have d: "dropWhile is_js_space s = s"
    by (metis dropWhile_eq_self_iff dropWhile.simps(2) length_dropWhile_le list.exhaust not_less_eq_eq length_Cons)
  with t have "rev (dropWhile is_js_space (rev s)) = s" by (simp add: trim_def)
  then have "dropWhile is_js_space (rev s) = rev s" by (metis rev_rev_ident)
  with d ne show ?thesis by (simp add: dropWhile_eq_self_iff hd_rev)
qed

lemma trim_solid: "s \<noteq> [] \<Longrightarrow> \<not> is_js_space (hd s) \<Longrightarrow> \<not> is_js_space (last s) \<Longrightarrow> trim s = s"
proof -
  assume ne: "s \<noteq> []" and h: "\<not> is_js_space (hd s)" and l: "\<not> is_js_space (last s)"
  then have "dropWhile is_js_space s = s" by (simp add: dropWhile_eq_self_iff)
  moreover have "dropWhile is_js_space (rev s) = rev s" using ne l by (simp add: dropWhile_eq_self_iff hd_rev)
  ultimately show ?thesis by (simp add: trim_def)
qed

text \<open>Labels that can be written one per line as \<^verbatim>\<open>key=value\<close>.\<close>

definition line_safe :: "(string \<times> string) list \<Rightarrow> bool" where
  "line_safe ls \<longleftrightarrow> distinct (map fst ls) \<and> list_all (\<lambda>(k, v).
     trim k = k \<and> k \<noteq> [] \<and> k \<noteq> ''__proto__'' \<and> CHR ''='' \<notin> set k \<and> CHR 0x0A \<notin> set k
     \<and> trim v = v \<and> CHR 0x0A \<notin> set v) ls"

lemma label_line_trim:
  "trim k = k \<Longrightarrow> k \<noteq> [] \<Longrightarrow> trim v = v \<Longrightarrow> trim (k @ CHR ''='' # v) = k @ CHR ''='' # v"
  using trim_ends [of k] trim_ends [of v]
  by (intro trim_solid) (auto simp: is_js_space_def)

lemma parse_label_line_safe:
  assumes "trim k = k" "k \<noteq> []" "k \<noteq> ''__proto__''" "CHR ''='' \<notin> set k" "trim v = v"
  shows "parse_label_line (k @ CHR ''='' # v) out = set_prop k v out"
  using assms by (simp add: parse_label_line_def label_line_trim Let_def)

lemma parse_lines:
  "line_safe ls \<Longrightarrow> fst ` set out \<inter> fst ` set ls = {}
    \<Longrightarrow> fold parse_label_line (map (\<lambda>(k, v). k @ ''='' @ v) ls) out = out @ ls"
proof (induction ls arbitrary: out)
  case Nil
  then show ?case by simp
next
  case (Cons kv ls)
  obtain k v where kv: "kv = (k, v)" by (cases kv)
  with Cons.prems have "parse_label_line (k @ CHR ''='' # v) out = out @ [(k, v)]"
    by (subst parse_label_line_safe) (auto simp: line_safe_def intro!: set_prop_fresh)
  moreover have "line_safe ls" "fst ` set (out @ [(k, v)]) \<inter> fst ` set ls = {}"
    using Cons.prems kv by (auto simp: line_safe_def)
  ultimately show ?case using Cons.IH kv by simp
qed

lemma parse_label_lines:
  assumes "line_safe ls" shows "parseLabels (label_lines ls) = ls"
proof (cases ls)
  case Nil
  then show ?thesis by (simp add: parseLabels_def label_lines_def parse_label_line_def trim_def)
next
  case (Cons kv kvs)
  have "split_char (CHR 0x0A) (label_lines ls) = map (\<lambda>(k, v). k @ ''='' @ v) ls"
    unfolding label_lines_def
    using assms Cons by (intro split_join) (auto simp: line_safe_def list_all_iff)
  with parse_lines [OF assms, of "[]"] show ?thesis by (simp add: parseLabels_def)
qed

section \<open>The edit form of an alert rule\<close>

text \<open>The form does not send a text, a service or a set of labels that is empty.\<close>

definition nonempty :: "'a list option \<Rightarrow> 'a list option" where
  "nonempty x = (if x = Some [] then None else x)"

definition tidy_query :: "RuleQuery \<Rightarrow> RuleQuery" where
  "tidy_query q = q\<lparr>q_text := nonempty (q_text q), q_service := nonempty (q_service q), q_labels := nonempty (q_labels q)\<rparr>"

lemma trim_Nil [simp]: "trim [] = []"
  by (simp add: trim_def)

lemma tidy_query_typed: "query_typed q \<Longrightarrow> query_typed (tidy_query q)"
  by (simp add: query_typed_def tidy_query_def nonempty_def)

lemma tidy_query_inline: "hasInlineQuery (tidy_query q) = hasInlineQuery q"
  by (auto simp: hasInlineQuery_def tidy_query_def nonempty_def non_blank_def split: option.splits)

lemma text_field:
  "pred_option (trimmed lo hi) x
    \<Longrightarrow> (if trim (or_empty x) \<noteq> [] then [(k, JStr (trim (or_empty x)))] else []) = j_field k JStr (nonempty x)"
  by (cases x) (simp_all add: or_empty_def trimmed_def nonempty_def j_field_def)

lemma level_field:
  "x \<noteq> Some [] \<Longrightarrow> (if or_empty x \<noteq> [] then [(k, JStr (or_empty x))] else []) = j_field k JStr x"
  by (cases x) (simp_all add: or_empty_def j_field_def)

lemma labels_field:
  assumes "pred_option line_safe x" and raw: "raw = label_lines (case x of None \<Rightarrow> [] | Some ls \<Rightarrow> ls)"
  shows "(if parseLabels raw \<noteq> [] then [(k, j_labels (parseLabels raw))] else []) = j_field k j_labels (nonempty x)"
proof -
  have "line_safe (case x of None \<Rightarrow> [] | Some ls \<Rightarrow> ls)"
    using assms(1) by (cases x) (simp_all add: line_safe_def)
  then have "parseLabels raw = (case x of None \<Rightarrow> [] | Some ls \<Rightarrow> ls)"
    unfolding raw by (rule parse_label_lines)
  then show ?thesis by (cases x) (simp_all add: nonempty_def j_field_def)
qed

lemma query_body_of_rule:
  assumes "query_typed q" "pred_option line_safe (q_labels q)"
    and v: "fv_text v = or_empty (q_text q)" "fv_service v = or_empty (q_service q)"
      "fv_level v = or_empty (q_level q)"
      "fv_labels v = label_lines (case q_labels q of None \<Rightarrow> [] | Some ls \<Rightarrow> ls)"
  shows "JObj (query_body v) = rule_query_json (tidy_query q)"
proof -
  have t: "pred_option (trimmed 0 1000) (q_text q)" "pred_option (trimmed 0 200) (q_service q)"
    and l: "q_level q \<noteq> Some []"
    using assms(1) by (auto simp: query_typed_def logLevelSchema_def)
  show ?thesis
    unfolding query_body_def v(1-3) text_field [OF t(1)] text_field [OF t(2)] level_field [OF l]
      labels_field [OF assms(2) v(4)] by (simp add: rule_query_json_def tidy_query_def)
qed

fun channel_value :: "NotifyChannel \<Rightarrow> string" where
  "channel_value (webhook url) = url"
| "channel_value (email_channel to) = to"

definition channel_solid :: "NotifyChannel \<Rightarrow> bool" where
  "channel_solid c \<longleftrightarrow> trim (channel_value c) = channel_value c \<and> channel_value c \<noteq> []"

lemma channel_bodies:
  "list_all channel_solid cs
    \<Longrightarrow> map channel_body (filter (\<lambda>(_, x). trim x \<noteq> []) (map channel_draft cs)) = map channel_json cs"
proof (induction cs)
  case (Cons c cs)
  then show ?case by (cases c) (simp_all add: channel_solid_def channel_body_def)
qed simp

text \<open>A rule as the control plane reports it after the command created it.\<close>

definition carries :: "AlertRuleResponse \<Rightarrow> CreateAlertRuleCommand \<Rightarrow> bool" where
  "carries rule cmd \<longleftrightarrow> ars_name rule = ca_name cmd \<and> ars_query rule = ca_query cmd
     \<and> ars_comparator rule = ca_comparator cmd \<and> ars_threshold rule = ca_threshold cmd
     \<and> ars_windowSeconds rule = of_int (ca_windowSeconds cmd) \<and> ars_severity rule = ca_severity cmd
     \<and> ars_enabled rule = ca_enabled cmd \<and> ars_notifyChannels rule = ca_notifyChannels cmd"

lemma default_severity:
  "z_default ''warning'' alertSeveritySchema v = Some s \<Longrightarrow> s \<in> {''info'', ''warning'', ''critical''}"
  by (auto simp: z_default_Some alertSeveritySchema_def z_names_def z_refine_Some split: if_splits)

lemma default_channels_few: "z_default [] (z_channels F) v = Some cs \<Longrightarrow> length cs \<le> 20"
  by (auto simp: z_default_Some z_channels_def z_refine_Some split: if_splits)

lemma threshold_range: "z_threshold v = Some r \<Longrightarrow> 0 \<le> r \<and> finite_double r"
  by (auto simp: z_threshold_def z_refine_Some)

lemma trimmed_name: "z_trimmed lo hi v = Some s \<Longrightarrow> trimmed lo hi s"
  by (auto simp: z_trimmed_Some trimmed_def)

lemma createAlertRule_sizes:
  assumes "createAlertRuleRequestSchema F v = Some cmd"
  shows "trimmed 1 200 (ca_name cmd) \<and> length (ca_notifyChannels cmd) \<le> 20
    \<and> ca_severity cmd \<in> {''info'', ''warning'', ''critical''} \<and> 0 \<le> ca_threshold cmd \<and> finite_double (ca_threshold cmd)"
  using assms unfolding createAlertRuleRequestSchema_def z_refine_Some z_strict_Some bind_eq_Some_conv
  by (elim exE conjE)
    (drule default_severity, drule default_channels_few, drule trimmed_name, drule threshold_range,
     simp only: option.inject, hypsubst, simp only: CreateAlertRuleCommand.simps simp_thms)

lemma rule_patch_document:
  assumes "trimmed 1 200 n" "query_typed q" "hasInlineQuery q" "0 \<le> t \<and> finite_double t" "30 \<le> w \<and> w \<le> 86400"
    and "s \<in> {''info'', ''warning'', ''critical''}" "list_all (channel_typed F) cs" "length cs \<le> 20"
  shows "updateAlertRuleRequestSchema F (Some (JObj
      [(''name'', JStr n), (''query'', rule_query_json q), (''comparator'', JStr (comparator_name c)),
       (''threshold'', JNum t), (''windowSeconds'', JNum (of_int w)), (''severity'', JStr s), (''enabled'', JBool e),
       (''notifyChannels'', JArr (map channel_json cs))]))
    = Some \<lparr> par_name = Some n, par_savedQueryId = None, par_query = Some q, par_comparator = Some c,
        par_threshold = Some t, par_windowSeconds = Some w, par_severity = Some s, par_enabled = Some e,
        par_notifyChannels = Some cs \<rparr>"
proof -
  have "z_between 30 86400 (Some (JNum (of_int w))) = Some w"
    using assms(5) by (simp add: z_between_def z_refine_def MAX_SAFE_INTEGER_def)
  moreover have "alertSeveritySchema (Some (JStr s)) = Some s"
    using assms(6) by (auto simp: alertSeveritySchema_def z_names_def z_refine_def)
  moreover have "z_channels F (Some (JArr (map channel_json cs))) = Some cs"
    using assms(7,8) by (simp add: z_channels_def z_refine_def channels_document del: z_array.simps)
  moreover have "z_threshold (Some (JNum t)) = Some t"
    using assms(4) by (simp add: z_threshold_def z_refine_def)
  ultimately show ?thesis
    using assms(1-3) unfolding updateAlertRuleRequestSchema_def
    by (simp add: z_strict_def z_optional_def z_refine_def z_trimmed_document query_document comparator_document
        patch_present_def)
qed

text \<open>
  C31. Opening an alert rule in the edit form and saving it unchanged asks for exactly the rule that is
  there. Take a rule the control plane reports for a command its contract accepted, with an inline
  query: the form validates, and the patch it sends carries the name, query, comparator, threshold,
  window, severity, switch and channels of the command, and leaves the saved query alone. Of the query
  only a text, service or set of labels that is empty is left out. The hypotheses are that numbers
  survive being written as text, that the labels can be written one per line (\<open>line_safe\<close>), and that
  the addresses of the channels have no blanks around them.
\<close>

theorem edit_form_keeps_rule:
  assumes "createAlertRuleRequestSchema F body = Some cmd" "ca_savedQueryId cmd = None" "carries rule cmd"
    and "js_number (num_text (ca_threshold cmd)) = Some (ca_threshold cmd)"
    and "js_number (num_text (of_int (ca_windowSeconds cmd))) = Some (of_int (ca_windowSeconds cmd))"
    and "pred_option line_safe (q_labels (ca_query cmd))" "list_all channel_solid (ca_notifyChannels cmd)"
  shows "validateAlertRule F issues edit_mode (valuesFromRule num_text rule) = Inr (UpdateRule
     \<lparr> par_name = Some (ca_name cmd), par_savedQueryId = None, par_query = Some (tidy_query (ca_query cmd)),
       par_comparator = Some (ca_comparator cmd), par_threshold = Some (ca_threshold cmd),
       par_windowSeconds = Some (ca_windowSeconds cmd), par_severity = Some (ca_severity cmd),
       par_enabled = Some (ca_enabled cmd), par_notifyChannels = Some (ca_notifyChannels cmd) \<rparr>)"
proof -
  note acc = createAlertRule_accepted [OF assms(1)]
  have sizes: "trimmed 1 200 (ca_name cmd)" "length (ca_notifyChannels cmd) \<le> 20"
    "ca_severity cmd \<in> {''info'', ''warning'', ''critical''}" "0 \<le> ca_threshold cmd \<and> finite_double (ca_threshold cmd)"
    using createAlertRule_sizes [OF assms(1)] by blast+
  let ?v = "valuesFromRule num_text rule"
  have severity: "fv_severity ?v = ca_severity cmd"
    using sizes(3) assms(3)
    by (auto simp: valuesFromRule_def carries_def alertSeveritySchema_def z_names_def z_refine_def)
  have query: "JObj (query_body ?v) = rule_query_json (tidy_query (ca_query cmd))"
    using assms(3) by (intro query_body_of_rule [OF acc(3) assms(6)]) (simp_all add: valuesFromRule_def carries_def)
  have "assembleAlertRuleBody ?v = JObj
      [(''name'', JStr (ca_name cmd)), (''query'', rule_query_json (tidy_query (ca_query cmd))),
       (''comparator'', JStr (comparator_name (ca_comparator cmd))), (''threshold'', JNum (ca_threshold cmd)),
       (''windowSeconds'', JNum (of_int (ca_windowSeconds cmd))), (''severity'', JStr (ca_severity cmd)),
       (''enabled'', JBool (ca_enabled cmd)), (''notifyChannels'', JArr (map channel_json (ca_notifyChannels cmd)))]"
    unfolding assembleAlertRuleBody_def query severity
    using assms(3-5) sizes(1) channel_bodies [OF assms(7)]
    by (simp add: valuesFromRule_def carries_def number_json_def trimmed_def)
  moreover have "hasInlineQuery (tidy_query (ca_query cmd))"
    using acc(1) assms(2) by (simp add: tidy_query_inline)
  ultimately show ?thesis
    using rule_patch_document [OF sizes(1) tidy_query_typed [OF acc(3)] _ sizes(4) acc(2) sizes(3) acc(4) sizes(2)]
    by (simp add: validateAlertRule_def)
qed

definition labelled_request :: json where
  "labelled_request = JObj
     [(''name'', JStr ''spike''), (''query'', JObj [(''text'', JStr []), (''labels'', JObj [(''app'', JStr ''a=b''), (''env'', JStr [])])]),
      (''threshold'', JNum 5), (''notifyChannels'', JArr [JObj [(''type'', JStr ''email''), (''to'', JStr ''a@b.io'')]])]"

definition labelled_command :: CreateAlertRuleCommand where
  "labelled_command = \<lparr> ca_name = ''spike'', ca_savedQueryId = None,
     ca_query = \<lparr> q_text = Some [], q_service = None, q_level = None, q_labels = Some [(''app'', ''a=b''), (''env'', [])] \<rparr>,
     ca_comparator = gt, ca_threshold = 5, ca_windowSeconds = 300, ca_severity = ''warning'',
     ca_enabled = True, ca_notifyChannels = [email_channel ''a@b.io''] \<rparr>"

definition labelled_rule :: AlertRuleResponse where
  "labelled_rule = \<lparr> ars_id = ''a1'', ars_tenantId = ''t1'', ars_name = ''spike'', ars_savedQueryId = None,
     ars_query = ca_query labelled_command, ars_comparator = gt, ars_threshold = 5, ars_windowSeconds = 300,
     ars_severity = ''warning'', ars_enabled = True, ars_notifyChannels = [email_channel ''a@b.io''],
     ars_state = AS_ok, ars_lastEvaluatedAt = None, ars_lastTriggeredAt = None, ars_createdBy = None,
     ars_createdAt = [], ars_updatedAt = [] \<rparr>"

theorem edit_form_keeps_rule_witness:
  "\<exists>p. validateAlertRule sample_formats (\<lambda>_. []) edit_mode
     (valuesFromRule (\<lambda>r. if r = 5 then ''5'' else ''300'') labelled_rule) = Inr (UpdateRule p)
   \<and> map_option q_labels (par_query p) = Some (Some [(''app'', ''a=b''), (''env'', [])])"
proof -
  have "createAlertRuleRequestSchema sample_formats (Some labelled_request) = Some labelled_command" by code_simp
  moreover have "ca_savedQueryId labelled_command = None" "carries labelled_rule labelled_command"
    by (simp_all add: labelled_command_def labelled_rule_def carries_def)
  moreover have "js_number ''5'' = Some 5" "js_number ''300'' = Some 300" by code_simp+
  then have "js_number (if ca_threshold labelled_command = 5 then ''5'' else ''300'') = Some (ca_threshold labelled_command)"
    "js_number (if of_int (ca_windowSeconds labelled_command) = (5 :: rat) then ''5'' else ''300'')
      = Some (of_int (ca_windowSeconds labelled_command))"
    by (simp_all add: labelled_command_def)
  moreover have "line_safe [(''app'', ''a=b''), (''env'', [])]" by code_simp
  then have "pred_option line_safe (q_labels (ca_query labelled_command))" by (simp add: labelled_command_def)
  moreover have "list_all channel_solid (ca_notifyChannels labelled_command)" by code_simp
  ultimately show ?thesis
    using edit_form_keeps_rule [of sample_formats "Some labelled_request" labelled_command labelled_rule
        "\<lambda>r. if r = 5 then ''5'' else ''300''" "\<lambda>_. []"]
    by (simp add: labelled_command_def tidy_query_def nonempty_def)
qed

section \<open>Users, retention and the administration page\<close>

lemma edit_user_unchanged:
  "urs_displayName user = None \<or> (\<exists>n. urs_displayName user = Some n \<and> trim n = n)
    \<Longrightarrow> edit_user_submit issues user (edit_user_defaults user) = Inl ''Nothing to update.''"
  by (auto simp: edit_user_submit_def edit_user_body_def edit_user_defaults_def or_empty_def)

lemma edit_user_names_changes:
  "map_of (edit_user_body user v) ''role'' = (if euv_role v = urs_role user then None else Some (JStr (membership_name (euv_role v))))"
  "map_of (edit_user_body user v) ''status'' = (if euv_status v = urs_status user then None else Some (JStr (euv_status v)))"
  "map_of (edit_user_body user v) ''password'' = (if euv_password v = [] then None else Some (JStr (euv_password v)))"
  by (simp_all add: edit_user_body_def Let_def)

lemma retention_form_roundtrip:
  assumes "js_number (num_text (rrs_hotDays r)) = Some (of_int h)" "js_number (num_text (rrs_coldDays r)) = Some (of_int c)"
    and "1 \<le> h" "h \<le> 90" "h \<le> c" "c \<le> 36500"
  shows "retention_submit issues (retention_defaults num_text (Some r))
    = Inr \<lparr> ur_hotDays = h, ur_coldDays = c \<rparr>"
  using assms by (simp add: retention_submit_def retention_defaults_def checked_def number_json_def
      upsertRetentionRequestSchema_def z_strict_def z_between_def z_refine_def MAX_SAFE_INTEGER_def)

fun section_title :: "admin_section \<Rightarrow> string" where
  "section_title (TenantInfoCard _) = ''Workspace''"
| "section_title (RetentionCard _) = ''Retention''"
| "section_title (UsersSection _) = ''Users''"
| "section_title (ApiKeysSection _) = ''API keys''"
| "section_title (InvitesSection _) = ''Invites''"
| "section_title (SectionError t _ _) = t"

lemma sections_shown:
  "map section_title (AdminDashboard data) = [''Workspace'', ''Retention'']
     @ (if adm_users data = None then [] else [''Users''])
     @ (if adm_apiKeys data = None then [] else [''API keys''])
     @ (if adm_invites data = None then [] else [''Invites''])"
  by (auto simp: AdminDashboard_def section_if_def section_of_def split: option.splits AdminOutcome.splits)

end
