(* ===== verification/Spec2Isabelle.thy ===== *)
theory Spec2Isabelle
  imports Admin_Laws Read_Laws Contract_Laws Log_Tail_Laws Log_Search_Laws Panel_Laws Web_Laws
    Config Mail Form_Laws
begin

text \<open>
  A verification of Logalot, a multi-tenant logging platform: its control plane
  (\<^verbatim>\<open>services/control-plane/src\<close>), the wire contracts (\<^verbatim>\<open>packages/contracts/src\<close>), the schema the
  control plane relies on (\<^verbatim>\<open>migrations\<close>) and the web application (\<^verbatim>\<open>apps/web/src\<close>), server and
  hooks. All paths are relative to \<^verbatim>\<open>src\<close>.

  \<^bold>\<open>The program.\<close> A browser talks to the web server, which keeps the session in two cookies and
  relays to the control plane and the query service. The control plane authenticates a request by
  its bearer token, checks the permission of the route, validates the body, runs a service and
  answers a JSON document. A service checks the permission again and calls a repository; a
  repository runs one transaction with the tenant set for row level security. Sessions are an access
  token and a refresh token that is rotated at every use, with detection of reuse.

  \<^bold>\<open>Conventions.\<close> A stateful function is a program: from a state to a result, an error or a value, and
  the next state (\<^verbatim>\<open>Prelude\<close>, type \<open>eprog\<close>; \<open>andThen\<close> is \<open>await\<close>, \<open>tryCatch\<close> is
  \<open>try\<close>). Errors keep the classes of the source. JavaScript strings are strings of code units
  below 256; dates are integers, milliseconds. What a function draws (random bytes, clock readings,
  generated ids) is an argument. Third-party code is an argument too: the record \<open>env\<close> of
  \<^verbatim>\<open>World\<close> holds the digest, bcrypt, the signing library, the uuid input of the database,
  Google's endpoints and the mail transport; the record \<open>formats\<close> of \<^verbatim>\<open>Contracts\<close> holds the
  text formats of zod; \<open>fetch\<close> of \<^verbatim>\<open>Web_Session\<close> is whatever answers a request. What a theorem
  needs of them is a hypothesis with a name (\<open>digest_32\<close>, \<open>jwt_roundtrip\<close>, \<open>compact_jwt\<close>,
  \<open>canonical\<close>), and its witness instantiates them.

  \<^bold>\<open>Store and control plane.\<close>
  \<^item> \<^verbatim>\<open>Prelude\<close>, \<^verbatim>\<open>Rbac\<close>, \<^verbatim>\<open>Credentials\<close>, \<^verbatim>\<open>Domain_Laws\<close>: \<^verbatim>\<open>domain\<close>. Roles and the permission
    matrix, the three credential formats with their splitter, digests, address normalisation. The
    parsers accept exactly the printed forms (C14, over the locale \<open>credential_format\<close>).
  \<^item> \<^verbatim>\<open>Schema\<close>, \<^verbatim>\<open>Store_Laws\<close>, \<^verbatim>\<open>Isolation_Laws\<close>: the tables of \<^verbatim>\<open>migrations\<close> as rows, their check
    constraints, unique indexes and references, referential actions, row level security, statements
    and transactions with rollback. Log events have a tenant but no reference to it, so they outlive
    its deletion.
  \<^item> \<^verbatim>\<open>Repositories\<close>, \<^verbatim>\<open>Content_Repositories\<close>, \<^verbatim>\<open>Invite_Repositories\<close>, \<^verbatim>\<open>Repository_Laws\<close>:
    \<^verbatim>\<open>adapters/postgres\<close>, statement by statement, including the transaction that redeems an invite.
  \<^item> \<^verbatim>\<open>World\<close>, \<^verbatim>\<open>Auth\<close>, \<^verbatim>\<open>Services\<close>, \<^verbatim>\<open>Oidc\<close>, \<^verbatim>\<open>Http\<close>: \<^verbatim>\<open>app\<close>, \<^verbatim>\<open>adapters/crypto\<close>,
    \<^verbatim>\<open>adapters/redis\<close> and the guards of \<^verbatim>\<open>adapters/http\<close>. \<open>refresh\<close> is its two halves
    \<open>refresh_check\<close> and \<open>refresh_commit\<close>, between which other requests may run.
  \<^item> \<^verbatim>\<open>Auth_Laws\<close>, \<^verbatim>\<open>Token_Laws\<close>, \<^verbatim>\<open>Sessions\<close>, \<^verbatim>\<open>Login_Laws\<close>: sessions. \<^verbatim>\<open>Sessions\<close> is a step
    relation in which the halves of concurrent refreshes interleave with logins, logouts, sign-ins
    and administrative calls; a family never has two live tokens, a race has one winner, reuse
    revokes the family and a dead family stays dead (C1, C2, C8 to C10). Login against its
    specification, and what its tokens are good for (C5 to C7, C11).
  \<^item> \<^verbatim>\<open>Service_Laws\<close>, \<^verbatim>\<open>Read_Laws\<close> and this theory: every call of the protected interface is
    authorised twice (C4) and writes (C3) and reads (C13) inside its tenant, but for the registry of
    tenants the platform operator keeps.
  \<^item> \<^verbatim>\<open>Content_Laws\<close>: saved queries, dashboards and alert rules are three instances of the locale
    \<open>content_store\<close> and their services of \<open>content_service\<close> (C15, C16).
  \<^item> \<^verbatim>\<open>Oidc_Laws\<close>, \<^verbatim>\<open>Invite_Laws\<close>, \<^verbatim>\<open>Admin_Laws\<close>: Google sign-in over the locale \<open>ticket_store\<close>
    (C17 to C19), the life of an invite (C20, C21), tenants, users and API keys (C22 to C24).
  \<^item> \<^verbatim>\<open>Config\<close>: \<^verbatim>\<open>config/env.ts\<close> and the settings \<^verbatim>\<open>container.ts\<close> makes of it (C27). \<^verbatim>\<open>Mail\<close>:
    \<^verbatim>\<open>adapters/email\<close>, the template that escapes what it interpolates and the senders that do not
    log the link.
  \<^item> \<^verbatim>\<open>Samples\<close>: the concrete environment and database of the witnesses.

  \<^bold>\<open>Contracts and interface.\<close>
  \<^item> \<^verbatim>\<open>Json\<close>: \<open>JSON.parse\<close> and \<open>JSON.stringify\<close> with their round trip, and the combinators of zod. The
    parser takes fuel of twice the length of the text and one, which \<open>parse_fuel\<close> shows enough.
  \<^item> \<^verbatim>\<open>Contracts\<close>, \<^verbatim>\<open>Responses\<close>, \<^verbatim>\<open>Api\<close>, \<^verbatim>\<open>Contract_Laws\<close>: the request and response schemas, the
    reply documents, the route tables and the whole interface \<open>control_plane\<close>. The order of
    refusals (C32), requests that fit the database (C33), a posted rule reads back (C34).

  \<^bold>\<open>Web application.\<close>
  \<^item> \<^verbatim>\<open>Event_Machines\<close>: React hooks as machines whose events are user actions, timers and answers in
    any order; the locale \<open>event_machine\<close> gives invariants of all runs.
  \<^item> \<^verbatim>\<open>Log_Tail\<close>, \<^verbatim>\<open>Log_Tail_Laws\<close>: the live tail, its frames, buffer, reconnects and filters (C25,
    C26, C28). \<^verbatim>\<open>Log_Search\<close>, \<^verbatim>\<open>Log_Search_Laws\<close>: historical search (C29). \<^verbatim>\<open>Panels\<close>, \<^verbatim>\<open>Panel_Laws\<close>:
    dashboard panels show the answer to their current query (C12), over a series whose slots the
    argument \<open>fl\<close>, the rounding of doubles, may shift (C30).
  \<^item> \<^verbatim>\<open>Web_Session\<close>, \<^verbatim>\<open>Web_Oidc\<close>, \<^verbatim>\<open>Web_Admin\<close>, \<^verbatim>\<open>Web_Laws\<close>: the web server. Cookies, login, the session
    guard, Google sign-in, invite acceptance, the administration and dashboard relays and the tail
    proxy, as programs over the cookies and \<open>fetch\<close> (C36 to C39). The locale
    \<open>control_plane_connection\<close> is the HTTP connection; with \<open>control_plane\<close> behind it login is
    followed from the browser to the database (C35) and a failing tail to the loss of the session
    (C40).
  \<^item> \<^verbatim>\<open>Numbers\<close>, \<^verbatim>\<open>Forms\<close>, \<^verbatim>\<open>Form_Laws\<close>: what the forms of \<^verbatim>\<open>features/alerts\<close>, \<^verbatim>\<open>features/admin\<close> and
    the dashboard list make of their fields, with \<open>Number\<close> on text, and the sections of the
    administration page. An alert rule survives its edit form (C31).

  \<^bold>\<open>Bounds.\<close> Definitions are total; recursion is structural or has a measure, and \<open>parse_value\<close> takes
  the fuel above. Integers that the database or zod bounds are checked against the bound; there is
  no arithmetic that wraps.

  \<^bold>\<open>Not modelled.\<close>
  \<^item> The Go services (ingest, processor, query, retention, alert evaluator) and \<^verbatim>\<open>pkg\<close>: separate
    programs in another language that share the database and Redis. The query service is an
    argument of the search, panel and tail relays.
  \<^item> The outbox of alert notifications, a table only the alert evaluator reads and writes; deleting a
    rule or a tenant removes its rows by reference.
  \<^item> Wiring without behaviour of its own: the construction of objects in \<^verbatim>\<open>container.ts\<close>, \<^verbatim>\<open>index.ts\<close>,
    the pools and clients, the Redis store of sign-in states, the rate limits and hooks Fastify runs.
  \<^item> React components that lay out what hooks, forms and server functions give them, with the local
    state of their delete and reveal dialogs; design tokens, build scripts, infrastructure.
  \<^item> Unicode beyond the first 256 code points, the rounding of doubles outside the densified series,
    and times of computation.
\<close>

section \<open>The protected interface\<close>

text \<open>
  C4. Authorisation is enforced twice, before any effect, and each of the two checks suffices alone. A
  principal that lacks the permission a route is registered with is refused by the route's guard
  with the 403 error, whatever the body, also one that fails validation and whatever call it stands
  for; and a call whose own permission the principal lacks is refused by the service with the 403
  error, should a route reach it without its guard. Either way database, traces and mail are
  untouched.
\<close>

theorem denied_call_has_no_effect:
  assumes "authenticate E now header = Inr ctx"
  shows "(\<not> can (ctx_role ctx) op \<longrightarrow>
            protected_route E R now header op parsed w = (Inl (forbidden_error (ctx_role ctx) op), w))
         \<and> (\<not> can (ctx_role ctx) (call_op c) \<longrightarrow>
            run_call E R ctx c w = (Inl (forbidden_error (ctx_role ctx) (call_op c)), w))"
  using assms by (simp add: run_call_denied protected_route_def requireOperation_def)

text \<open>An administrator of a tenant sends an invalid body to a route of the operator, and removes the tenant.\<close>

theorem denied_call_has_no_effect_witness:
  "protected_route sample_env sample_call_draws 0 (Some ''Bearer jwt'') Tenant_create (Inl JNull) sample_world
     = (Inl (forbidden_error tenant_admin Tenant_create), sample_world)
   \<and> run_call sample_env sample_call_draws (sample_ctx tenant_admin) (Tenants (TenantRemove ''t1'')) sample_world
     = (Inl (forbidden_error tenant_admin Tenant_delete), sample_world)"
proof -
  have auth: "authenticate sample_env 0 (Some ''Bearer jwt'') = Inr (sample_ctx tenant_admin)"
    by code_simp
  have "\<not> can (ctx_role (sample_ctx tenant_admin)) (call_op (Tenants (TenantRemove ''t1'')))"
    "\<not> can (ctx_role (sample_ctx tenant_admin)) Tenant_create"
    by code_simp+
  then show ?thesis
    using denied_call_has_no_effect [OF auth, where op = Tenant_create and R = sample_call_draws and parsed = "Inl JNull"
        and w = sample_world and c = "Tenants (TenantRemove ''t1'')"]
    by (simp add: sample_ctx_def)
qed

text \<open>
  C3. Tenant isolation of writes. A call under the principal of one tenant changes no row of any
  other tenant in any table; only the operations of the platform operator on the tenant registry
  are exempt.
\<close>

theorem call_confined_to_tenant:
  assumes "tenant_scoped c" "authors_local (w_db w)"
    "principal_local (scope_of E ctx) (principal_of E ctx) (w_db w)" "scope_of E ctx \<noteq> Some u"
  shows "tenant_view u (w_db (snd (run_call E R ctx c w))) = tenant_view u (w_db w)"
proof -
  have "world_confined (scope_of E ctx) (principal_of E ctx) w (snd (run_call E R ctx c w))"
    using run_call_confined [OF assms(1)] by (simp add: keeps_def)
  with assms(2-4) show ?thesis by (simp add: world_confined_def confined_def)
qed

theorem call_confined_to_tenant_witness:
  "tenant_view ''t2'' (w_db (snd (run_call sample_env sample_call_draws (sample_ctx tenant_admin)
     (Users (UserRemove ''v1'')) sample_world))) = tenant_view ''t2'' sample_db"
proof -
  have "tenant_view ''t2'' (w_db (snd (run_call sample_env sample_call_draws (sample_ctx tenant_admin)
     (Users (UserRemove ''v1'')) sample_world))) = tenant_view ''t2'' (w_db sample_world)"
    by (rule call_confined_to_tenant) code_simp+
  then show ?thesis by (simp add: sample_world_def)
qed

end
